(* ===== verification/Py_Float.thy ===== *)
theory Py_Float
  imports Prelude Complex_Main
begin

text \<open>
  Python's \<open>float\<close>: an IEEE-754 binary64 value. A finite float is the rational number it
  denotes; arithmetic rounds the exact result to the nearest representable value, ties to even,
  with gradual underflow and overflow to the infinities. \<open>round(x, 6)\<close> rounds the exact value
  half to even at the sixth decimal and then to the nearest float, as CPython does.
\<close>

datatype pyfloat = Fin rat | PInf | NInf | NaN

subsection \<open>Rounding to binary64\<close>

definition round_half_even :: "rat \<Rightarrow> int" where
  "round_half_even x =
     (let f = \<lfloor>x\<rfloor>; d = x - of_int f
      in if d < 1/2 then f else if d > 1/2 then f + 1 else if even f then f else f + 1)"

fun ilog2 :: "nat \<Rightarrow> nat" where
  "ilog2 n = (if n < 2 then 0 else Suc (ilog2 (n div 2)))"

declare ilog2.simps [simp del]

definition binade :: "rat \<Rightarrow> int" where
  \<comment> \<open>the exponent \<open>b\<close> with \<open>2^b \<le> x < 2^(b+1)\<close>, for a positive \<open>x\<close>\<close>
  "binade x = (if 1 \<le> x then int (ilog2 (nat \<lfloor>x\<rfloor>))
               else let n = nat \<lceil>1 / x\<rceil> in if n \<le> 1 then 0 else - int (ilog2 (n - 1)) - 1)"

definition on_grid :: "int \<Rightarrow> rat \<Rightarrow> rat" where
  "on_grid e x = of_int (round_half_even (x / 2 powi e)) * 2 powi e"

definition fl_pos :: "rat \<Rightarrow> rat" where
  "fl_pos x = (if x = 0 then 0 else on_grid (max (binade x - 52) (- 1074)) x)"

definition fl :: "rat \<Rightarrow> rat" where
  "fl x = (if x < 0 then - fl_pos (- x) else fl_pos x)"

definition to_float :: "rat \<Rightarrow> pyfloat" where
  "to_float x = (let r = fl x in
     if 2 ^ 1024 \<le> r then PInf else if r \<le> - (2 ^ 1024) then NInf else Fin r)"

fun py_sub :: "pyfloat \<Rightarrow> pyfloat \<Rightarrow> pyfloat" where
  "py_sub (Fin x) (Fin y) = to_float (x - y)"
| "py_sub PInf (Fin y) = PInf"
| "py_sub NInf (Fin y) = NInf"
| "py_sub (Fin x) PInf = NInf"
| "py_sub (Fin x) NInf = PInf"
| "py_sub PInf NInf = PInf"
| "py_sub NInf PInf = NInf"
| "py_sub _ _ = NaN"

fun py_div :: "pyfloat \<Rightarrow> rat \<Rightarrow> pyfloat" where
  \<comment> \<open>division by a finite, non-zero float\<close>
  "py_div (Fin x) y = to_float (x / y)"
| "py_div PInf y = (if 0 < y then PInf else NInf)"
| "py_div NInf y = (if 0 < y then NInf else PInf)"
| "py_div NaN y = NaN"

fun py_add :: "pyfloat \<Rightarrow> pyfloat \<Rightarrow> pyfloat" where
  "py_add (Fin x) (Fin y) = to_float (x + y)"
| "py_add PInf (Fin y) = PInf"
| "py_add NInf (Fin y) = NInf"
| "py_add (Fin x) PInf = PInf"
| "py_add (Fin x) NInf = NInf"
| "py_add PInf PInf = PInf"
| "py_add NInf NInf = NInf"
| "py_add _ _ = NaN"

fun py_mul :: "pyfloat \<Rightarrow> rat \<Rightarrow> pyfloat" where
  \<comment> \<open>multiplication by a finite, positive float\<close>
  "py_mul (Fin x) y = to_float (x * y)"
| "py_mul v y = v"

definition float_of_int :: "int \<Rightarrow> rat option" where
  \<comment> \<open>\<open>float(i)\<close>; \<open>None\<close> is OverflowError\<close>
  "float_of_int i = (case to_float (of_int i) of Fin r \<Rightarrow> Some r | _ \<Rightarrow> None)"

definition round6 :: "rat \<Rightarrow> rat" where
  "round6 x = fl (of_int (round_half_even (x * 1000000)) / 1000000)"

definition py_round6 :: "pyfloat \<Rightarrow> pyfloat" where
  "py_round6 v = (case v of Fin x \<Rightarrow> Fin (round6 x) | _ \<Rightarrow> v)"

fun py_less :: "pyfloat \<Rightarrow> pyfloat \<Rightarrow> bool" where
  "py_less (Fin x) (Fin y) = (x < y)"
| "py_less (Fin x) PInf = True"
| "py_less NInf (Fin y) = True"
| "py_less NInf PInf = True"
| "py_less _ _ = False"

subsection \<open>Rounding to an integer\<close>

lemma round_half_even_bounds: "\<bar>of_int (round_half_even x) - x\<bar> \<le> 1/2"
proof -
  have "of_int \<lfloor>x\<rfloor> \<le> x" "x < of_int \<lfloor>x\<rfloor> + 1" by linarith+
  then show ?thesis by (auto simp: round_half_even_def Let_def)
qed

lemma round_half_even_of_int [simp]: "round_half_even (of_int n) = n"
  by (simp add: round_half_even_def)

lemma round_half_even_mono: "x \<le> y \<Longrightarrow> round_half_even x \<le> round_half_even y"
proof -
  assume le: "x \<le> y"
  have fl: "\<lfloor>x\<rfloor> \<le> \<lfloor>y\<rfloor>" using le by (rule floor_mono)
  show ?thesis
  proof (cases "\<lfloor>x\<rfloor> = \<lfloor>y\<rfloor>")
    case True
    then show ?thesis using le by (auto simp: round_half_even_def Let_def)
  next
    case False
    with fl have "\<lfloor>x\<rfloor> + 1 \<le> \<lfloor>y\<rfloor>" by linarith
    then show ?thesis by (auto simp: round_half_even_def Let_def)
  qed
qed

lemma round_half_even_ge: "of_int n \<le> x \<Longrightarrow> n \<le> round_half_even x"
  using round_half_even_mono [of "of_int n" x] by simp

lemma round_half_even_le: "x \<le> of_int n \<Longrightarrow> round_half_even x \<le> n"
  using round_half_even_mono [of x "of_int n"] by simp

subsection \<open>Binades\<close>

lemma ilog2_bounds: "0 < n \<Longrightarrow> 2 ^ ilog2 n \<le> n \<and> n < 2 ^ Suc (ilog2 n)"
proof (induction n rule: ilog2.induct)
  case (1 n)
  show ?case
  proof (cases "n < 2")
    case True
    with 1 have "n = 1" by simp
    then show ?thesis by (simp add: ilog2.simps [of "Suc 0"])
  next
    case False
    then have "2 ^ ilog2 (n div 2) \<le> n div 2 \<and> n div 2 < 2 ^ Suc (ilog2 (n div 2))"
      using "1.IH" by simp
    moreover have "ilog2 n = Suc (ilog2 (n div 2))"
      using False by (simp add: ilog2.simps [of n])
    ultimately show ?thesis by simp linarith
  qed
qed

lemma binade_ge1:
  assumes "1 \<le> x"
  shows "2 powi binade x \<le> x \<and> x < 2 powi (binade x + 1)"
proof -
  let ?n = "nat \<lfloor>x\<rfloor>"
  have n: "0 < ?n" using assms by simp
  have bn: "2 ^ ilog2 ?n \<le> ?n" "?n < 2 ^ Suc (ilog2 ?n)" using ilog2_bounds [OF n] by auto
  have x: "of_nat ?n \<le> x" "x < of_nat ?n + 1" using assms by (simp_all add: of_nat_nat) linarith+
  have "(2::rat) ^ ilog2 ?n \<le> of_nat ?n" using bn(1) by (metis of_nat_le_iff of_nat_numeral of_nat_power)
  moreover have "of_nat ?n + 1 \<le> (2::rat) ^ Suc (ilog2 ?n)"
    using bn(2) by (metis Suc_leI of_nat_Suc of_nat_le_iff of_nat_numeral of_nat_power add.commute)
  moreover have "(2::rat) powi (int (ilog2 ?n) + 1) = 2 ^ Suc (ilog2 ?n)"
    by (metis int_ops(4) of_nat_Suc power_int_of_nat add.commute)
  ultimately have "(2::rat) powi int (ilog2 ?n) \<le> x \<and> x < 2 powi (int (ilog2 ?n) + 1)"
    using x by (simp only: power_int_of_nat) linarith
  then show ?thesis using assms by (simp only: binade_def if_True)
qed

lemma binade_lt1:
  assumes "0 < x" "x < 1"
  shows "2 powi binade x \<le> x \<and> x < 2 powi (binade x + 1)"
proof -
  let ?n = "nat \<lceil>1 / x\<rceil>" and ?m = "ilog2 (nat \<lceil>1 / x\<rceil> - 1)"
  have gt: "1 < 1 / x" using assms by simp
  then have "1 < \<lceil>1 / x\<rceil>" by (simp add: less_ceiling_iff)
  then have n: "2 \<le> ?n" by linarith
  have c: "of_nat ?n = (of_int \<lceil>1 / x\<rceil> :: rat)" using n by simp
  have inv: "of_nat ?n - 1 < 1 / x" "1 / x \<le> of_nat ?n" unfolding c by linarith+
  have bn: "2 ^ ?m \<le> ?n - 1" "?n - 1 < 2 ^ Suc ?m" 
  proof -
    have "0 < ?n - 1" using n by linarith
    from ilog2_bounds [OF this] show "2 ^ ?m \<le> ?n - 1" "?n - 1 < 2 ^ Suc ?m" by auto
  qed
  have lo: "(2::rat) ^ ?m < 1 / x"
  proof -
    have "(2::rat) ^ ?m \<le> of_nat (?n - 1)" using bn(1) by (metis of_nat_le_iff of_nat_numeral of_nat_power)
    also have "\<dots> = of_nat ?n - 1" using n by (simp add: of_nat_diff)
    finally show ?thesis using inv by linarith
  qed
  have hi: "1 / x \<le> (2::rat) ^ Suc ?m"
  proof -
    have "?n \<le> 2 ^ Suc ?m" using bn(2) n by linarith
    then have "of_nat ?n \<le> (2::rat) ^ Suc ?m" by (metis of_nat_le_iff of_nat_numeral of_nat_power)
    then show ?thesis using inv by linarith
  qed
  have b: "binade x = - int (Suc ?m)"
  proof -
    have "\<not> 1 \<le> x" using assms by simp
    moreover have "\<not> ?n \<le> 1" using n by linarith
    ultimately have "\<not> 1 \<le> x" "\<not> ?n \<le> 1" .
    then show ?thesis by (simp only: binade_def Let_def if_False)
  qed
  have "(2::rat) powi (- int (Suc ?m)) = 1 / 2 ^ Suc ?m"
    by (simp only: power_int_minus power_int_of_nat divide_inverse mult_1_left)
  moreover have "(2::rat) powi (- int (Suc ?m) + 1) = 1 / 2 ^ ?m"
  proof -
    have e: "- int (Suc ?m) + 1 = - int ?m" by simp
    show ?thesis unfolding e by (simp only: power_int_minus power_int_of_nat divide_inverse mult_1_left)
  qed
  moreover have "1 / 2 ^ Suc ?m \<le> x" using hi assms by (simp add: field_simps)
  moreover have "x < 1 / 2 ^ ?m" using lo assms by (simp add: field_simps)
  ultimately show ?thesis unfolding b by simp
qed

lemma binade: "0 < x \<Longrightarrow> 2 powi binade x \<le> x \<and> x < 2 powi (binade x + 1)"
  using binade_ge1 binade_lt1 by (cases "1 \<le> x") auto

lemma binade_mono:
  assumes "0 < x" "x \<le> y"
  shows "binade x \<le> binade y"
proof (rule ccontr)
  assume "\<not> ?thesis"
  then have "binade y + 1 \<le> binade x" by simp
  then have "(2::rat) powi (binade y + 1) \<le> 2 powi binade x" by (intro power_int_increasing) auto
  with binade [of x] binade [of y] assms show False by auto
qed

subsection \<open>Rounding on one grid\<close>

lemma powi2_pos [simp]: "0 < (2::rat) powi e"
  by (simp add: zero_less_power_int)

lemma on_grid_mono: "x \<le> y \<Longrightarrow> on_grid e x \<le> on_grid e y"
  by (simp add: on_grid_def mult_right_mono round_half_even_mono divide_right_mono less_imp_le)

lemma on_grid_exact:
  assumes "x / 2 powi e = of_int k"
  shows "on_grid e x = x"
proof -
  have "on_grid e x = of_int k * 2 powi e" by (simp only: on_grid_def assms round_half_even_of_int)
  then show ?thesis using assms by (simp add: field_simps)
qed

lemma on_grid_point:
  assumes "e \<le> b"
  shows "on_grid e (2 powi b) = 2 powi b"
proof (rule on_grid_exact)
  have "(2::rat) powi b / 2 powi e = 2 powi (b - e)" by (simp add: power_int_diff)
  then show "(2::rat) powi b / 2 powi e = of_int (2 ^ nat (b - e))"
    using assms by (simp add: power_int_def)
qed

lemma on_grid_int:
  assumes "e \<le> 0"
  shows "on_grid e (of_int n) = of_int n"
proof (rule on_grid_exact)
  have "(of_int n :: rat) / 2 powi e = of_int n * 2 powi (- e)"
    by (simp add: power_int_minus divide_inverse)
  then show "(of_int n :: rat) / 2 powi e = of_int (n * 2 ^ nat (- e))"
    using assms by (simp add: power_int_def)
qed

lemma on_grid_zero [simp]: "on_grid e 0 = 0"
  using round_half_even_of_int [of 0] by (simp add: on_grid_def)

lemma on_grid_nonneg: "0 \<le> x \<Longrightarrow> 0 \<le> on_grid e x"
  using on_grid_mono [of 0 x e] by simp

subsection \<open>Rounding to a float is monotone and exact on small integers\<close>

lemma fl_pos_nonneg: "0 \<le> x \<Longrightarrow> 0 \<le> fl_pos x"
  by (simp add: fl_pos_def on_grid_nonneg)

lemma fl_pos_mono:
  assumes "0 \<le> x" "x \<le> y"
  shows "fl_pos x \<le> fl_pos y"
proof (cases "x = 0")
  case True
  then show ?thesis using assms fl_pos_nonneg by (simp add: fl_pos_def [of 0])
next
  case False
  let ?ex = "max (binade x - 52) (- 1074)" and ?ey = "max (binade y - 52) (- 1074)"
  from False assms have pos: "0 < x" "0 < y" by auto
  have le: "binade x \<le> binade y" using binade_mono pos(1) assms(2) .
  have fx: "fl_pos x = on_grid ?ex x" and fy: "fl_pos y = on_grid ?ey y"
    using pos by (simp_all add: fl_pos_def)
  show ?thesis
  proof (cases "?ex = ?ey")
    case True
    then show ?thesis unfolding fx fy using on_grid_mono assms(2) by simp
  next
    case neq: False
    then have ey: "?ey = binade y - 52" "binade x < binade y" "- 1074 \<le> binade y" using le by auto
    have "x \<le> 2 powi binade y"
    proof -
      have "(2::rat) powi (binade x + 1) \<le> 2 powi binade y"
        using ey(2) by (intro power_int_increasing) auto
      then show ?thesis using binade [OF pos(1)] by linarith
    qed
    then have "fl_pos x \<le> on_grid ?ex (2 powi binade y)" unfolding fx by (rule on_grid_mono)
    also have "\<dots> = 2 powi binade y" using ey by (intro on_grid_point) auto
    also have "\<dots> = on_grid ?ey (2 powi binade y)" using ey by (intro on_grid_point [symmetric]) auto
    also have "\<dots> \<le> fl_pos y" unfolding fy using binade [OF pos(2)] by (intro on_grid_mono) simp
    finally show ?thesis .
  qed
qed

lemma fl_zero [simp]: "fl 0 = 0"
  by (simp add: fl_def fl_pos_def)

lemma fl_minus: "fl (- x) = - fl x"
  by (auto simp: fl_def fl_pos_def)

lemma fl_nonneg: "0 \<le> x \<Longrightarrow> 0 \<le> fl x"
  by (simp add: fl_def fl_pos_nonneg)

lemma fl_mono: "x \<le> y \<Longrightarrow> fl x \<le> fl y"
proof -
  assume le: "x \<le> y"
  consider "0 \<le> x" | "x < 0" "0 \<le> y" | "x < 0" "y < 0" by linarith
  then show ?thesis
  proof cases
    case 1
    then show ?thesis using le fl_pos_mono by (simp add: fl_def)
  next
    case 2
    have "0 \<le> fl (- x)" using 2 by (intro fl_nonneg) simp
    moreover have "0 \<le> fl y" using 2 by (intro fl_nonneg) simp
    ultimately show ?thesis by (simp add: fl_minus)
  next
    case 3
    then show ?thesis using le fl_pos_mono [of "- y" "- x"] by (simp add: fl_def)
  qed
qed

lemma binade_pow52: "binade (2 powi 52) = 52"
proof -
  have "2 powi binade (2 powi 52) \<le> (2::rat) powi 52" "(2::rat) powi 52 < 2 powi (binade (2 powi 52) + 1)"
    using binade [of "2 powi 52"] by auto
  then have "binade (2 powi 52) \<le> 52" "52 < binade (2 powi 52) + 1"
    using power_int_le_imp_le_exp [of "2::rat" "binade (2 powi 52)" 52]
      power_int_increasing [of "binade (2 powi 52) + 1" 52 "2::rat"] by fastforce+
  then show ?thesis by simp
qed

lemma fl_of_int:
  assumes "\<bar>n\<bar> \<le> 2 ^ 52"
  shows "fl (of_int n) = of_int n"
proof -
  have pos: "fl_pos (of_int m) = of_int m" if "0 \<le> m" "m \<le> 2 ^ 52" for m
  proof (cases "m = 0")
    case False
    have "(of_int m :: rat) \<le> 2 powi 52" using that(2) by (simp add: power_int_def)
    moreover have "(0::rat) < of_int m" using that(1) False by simp
    ultimately have "binade (of_int m) \<le> binade (2 powi 52)" by (intro binade_mono)
    then have "binade (of_int m) \<le> 52" unfolding binade_pow52 .
    then show ?thesis using False by (simp add: fl_pos_def on_grid_int)
  qed (simp add: fl_pos_def)
  show ?thesis
  proof (cases "n < 0")
    case True
    then show ?thesis using pos [of "- n"] assms by (simp add: fl_def)
  next
    case False
    then show ?thesis using pos [of n] assms by (simp add: fl_def)
  qed
qed

lemma fl_one [simp]: "fl 1 = 1"
  using fl_of_int [of 1] by simp

lemma round6_mono: "x \<le> y \<Longrightarrow> round6 x \<le> round6 y"
  unfolding round6_def by (intro fl_mono divide_right_mono) (auto intro: round_half_even_mono)

lemma round6_zero [simp]: "round6 0 = 0"
  using round_half_even_of_int [of 0] by (simp add: round6_def)

lemma round6_one [simp]: "round6 1 = 1"
  using round_half_even_of_int [of 1000000] by (simp add: round6_def)

end
