(* ===== verification/Constants.thy ===== *)
theory Constants
  imports Prelude
begin

text \<open>
  \<open>constants.py\<close>: the wire-format enumerations. Each \<open>StrEnum\<close> class is a datatype, the
  string each member stands for (\<open>_value\<close>) and the members in declaration order
  (\<open>_members\<close>). The contract all of them share, distinct wire values and a complete member
  list, is the locale \<open>str_enum\<close>; looking a value up returns the member it belongs to.
\<close>

definition CASE_SCHEMA_VERSION :: string where "CASE_SCHEMA_VERSION = ''1.0''"
definition RESULT_SCHEMA_VERSION :: string where "RESULT_SCHEMA_VERSION = ''1.0''"
definition PACKAGE_VERSION :: string where "PACKAGE_VERSION = ''0.4.0a18''"
definition ENGINE_VERSION :: string where "ENGINE_VERSION = ''0.4.0a18''"
definition DEFAULT_POLICY_NAME :: string where "DEFAULT_POLICY_NAME = ''default-v1''"

definition enum_lookup :: "('a \<Rightarrow> string) \<Rightarrow> 'a list \<Rightarrow> string \<Rightarrow> 'a option" where
  \<comment> \<open>\<open>EnumType(value)\<close> for a string; \<open>None\<close> is ValueError\<close>
  "enum_lookup val members s = find (\<lambda>m. val m = s) members"

locale str_enum =
  fixes val :: "'a \<Rightarrow> string" and members :: "'a list"
  assumes complete: "m \<in> set members"
    and distinct_values: "distinct (map val members)"
begin

lemma inj_val: "val m = val m' \<longleftrightarrow> m = m'"
  using complete distinct_values by (auto simp: distinct_map inj_on_def)

lemma lookup_value [simp]: "enum_lookup val members (val m) = Some m"
proof (cases "find (\<lambda>x. val x = val m) members")
  case None
  then show ?thesis using complete [of m] by (auto simp: find_None_iff)
next
  case (Some x)
  then have "val x = val m" by (auto simp: find_Some_iff)
  with Some show ?thesis by (simp add: enum_lookup_def inj_val)
qed

lemma lookup_Some: "enum_lookup val members s = Some m \<longleftrightarrow> s = val m"
proof
  assume "enum_lookup val members s = Some m"
  then show "s = val m" by (auto simp: enum_lookup_def find_Some_iff)
qed simp

lemma lookup_None: "enum_lookup val members s = None \<longleftrightarrow> s \<notin> range val"
  using complete by (auto simp: enum_lookup_def find_None_iff)

end

datatype component = Component_SYSTEM_PROMPT
  | Component_TOOL_DESCRIPTION
  | Component_TOOL_SCHEMA
  | Component_MODEL_ROUTING
  | Component_RETRIEVAL_CONFIGURATION
  | Component_REVIEWER
  | Component_VERIFICATION_STEP
  | Component_RETRY_POLICY
  | Component_STOPPING_POLICY
  | Component_MEMORY_POLICY
  | Component_TOOL_IMPLEMENTATION
  | Component_EVALUATOR
  | Component_ENVIRONMENT
  | Component_MODEL_REASONING
  | Component_REQUIREMENT
  | Component_OTHER

primrec component_value :: "component \<Rightarrow> string" where
  "component_value Component_SYSTEM_PROMPT = ''system_prompt''"
| "component_value Component_TOOL_DESCRIPTION = ''tool_description''"
| "component_value Component_TOOL_SCHEMA = ''tool_schema''"
| "component_value Component_MODEL_ROUTING = ''model_routing''"
| "component_value Component_RETRIEVAL_CONFIGURATION = ''retrieval_configuration''"
| "component_value Component_REVIEWER = ''reviewer''"
| "component_value Component_VERIFICATION_STEP = ''verification_step''"
| "component_value Component_RETRY_POLICY = ''retry_policy''"
| "component_value Component_STOPPING_POLICY = ''stopping_policy''"
| "component_value Component_MEMORY_POLICY = ''memory_policy''"
| "component_value Component_TOOL_IMPLEMENTATION = ''tool_implementation''"
| "component_value Component_EVALUATOR = ''evaluator''"
| "component_value Component_ENVIRONMENT = ''environment''"
| "component_value Component_MODEL_REASONING = ''model_reasoning''"
| "component_value Component_REQUIREMENT = ''requirement''"
| "component_value Component_OTHER = ''other''"

definition component_members :: "component list" where
  "component_members =
     [Component_SYSTEM_PROMPT,
      Component_TOOL_DESCRIPTION,
      Component_TOOL_SCHEMA,
      Component_MODEL_ROUTING,
      Component_RETRIEVAL_CONFIGURATION,
      Component_REVIEWER,
      Component_VERIFICATION_STEP,
      Component_RETRY_POLICY,
      Component_STOPPING_POLICY,
      Component_MEMORY_POLICY,
      Component_TOOL_IMPLEMENTATION,
      Component_EVALUATOR,
      Component_ENVIRONMENT,
      Component_MODEL_REASONING,
      Component_REQUIREMENT,
      Component_OTHER]"

interpretation component: str_enum component_value component_members
proof
  show "m \<in> set component_members" for m
    by (cases m) (simp_all add: component_members_def)
  show "distinct (map component_value component_members)"
    by (simp add: component_members_def)
qed

datatype requirement_status = RequirementStatus_CLEAR
  | RequirementStatus_AMBIGUOUS
  | RequirementStatus_CONFLICTING
  | RequirementStatus_UNKNOWN

primrec requirement_status_value :: "requirement_status \<Rightarrow> string" where
  "requirement_status_value RequirementStatus_CLEAR = ''clear''"
| "requirement_status_value RequirementStatus_AMBIGUOUS = ''ambiguous''"
| "requirement_status_value RequirementStatus_CONFLICTING = ''conflicting''"
| "requirement_status_value RequirementStatus_UNKNOWN = ''unknown''"

definition requirement_status_members :: "requirement_status list" where
  "requirement_status_members =
     [RequirementStatus_CLEAR,
      RequirementStatus_AMBIGUOUS,
      RequirementStatus_CONFLICTING,
      RequirementStatus_UNKNOWN]"

interpretation requirement_status: str_enum requirement_status_value requirement_status_members
proof
  show "m \<in> set requirement_status_members" for m
    by (cases m) (simp_all add: requirement_status_members_def)
  show "distinct (map requirement_status_value requirement_status_members)"
    by (simp add: requirement_status_members_def)
qed

datatype incident_severity = IncidentSeverity_LOW
  | IncidentSeverity_MEDIUM
  | IncidentSeverity_HIGH
  | IncidentSeverity_CRITICAL

primrec incident_severity_value :: "incident_severity \<Rightarrow> string" where
  "incident_severity_value IncidentSeverity_LOW = ''low''"
| "incident_severity_value IncidentSeverity_MEDIUM = ''medium''"
| "incident_severity_value IncidentSeverity_HIGH = ''high''"
| "incident_severity_value IncidentSeverity_CRITICAL = ''critical''"

definition incident_severity_members :: "incident_severity list" where
  "incident_severity_members =
     [IncidentSeverity_LOW,
      IncidentSeverity_MEDIUM,
      IncidentSeverity_HIGH,
      IncidentSeverity_CRITICAL]"

interpretation incident_severity: str_enum incident_severity_value incident_severity_members
proof
  show "m \<in> set incident_severity_members" for m
    by (cases m) (simp_all add: incident_severity_members_def)
  show "distinct (map incident_severity_value incident_severity_members)"
    by (simp add: incident_severity_members_def)
qed

datatype oracle_kind = OracleKind_EXACT_MATCH
  | OracleKind_EXECUTABLE
  | OracleKind_POLICY
  | OracleKind_HUMAN_LABEL
  | OracleKind_CONSENSUS
  | OracleKind_CUSTOM

primrec oracle_kind_value :: "oracle_kind \<Rightarrow> string" where
  "oracle_kind_value OracleKind_EXACT_MATCH = ''exact_match''"
| "oracle_kind_value OracleKind_EXECUTABLE = ''executable''"
| "oracle_kind_value OracleKind_POLICY = ''policy''"
| "oracle_kind_value OracleKind_HUMAN_LABEL = ''human_label''"
| "oracle_kind_value OracleKind_CONSENSUS = ''consensus''"
| "oracle_kind_value OracleKind_CUSTOM = ''custom''"

definition oracle_kind_members :: "oracle_kind list" where
  "oracle_kind_members =
     [OracleKind_EXACT_MATCH,
      OracleKind_EXECUTABLE,
      OracleKind_POLICY,
      OracleKind_HUMAN_LABEL,
      OracleKind_CONSENSUS,
      OracleKind_CUSTOM]"

interpretation oracle_kind: str_enum oracle_kind_value oracle_kind_members
proof
  show "m \<in> set oracle_kind_members" for m
    by (cases m) (simp_all add: oracle_kind_members_def)
  show "distinct (map oracle_kind_value oracle_kind_members)"
    by (simp add: oracle_kind_members_def)
qed

datatype validation_kind = ValidationKind_POSITIVE
  | ValidationKind_NEGATIVE
  | ValidationKind_REGRESSION

primrec validation_kind_value :: "validation_kind \<Rightarrow> string" where
  "validation_kind_value ValidationKind_POSITIVE = ''positive''"
| "validation_kind_value ValidationKind_NEGATIVE = ''negative''"
| "validation_kind_value ValidationKind_REGRESSION = ''regression''"

definition validation_kind_members :: "validation_kind list" where
  "validation_kind_members =
     [ValidationKind_POSITIVE,
      ValidationKind_NEGATIVE,
      ValidationKind_REGRESSION]"

interpretation validation_kind: str_enum validation_kind_value validation_kind_members
proof
  show "m \<in> set validation_kind_members" for m
    by (cases m) (simp_all add: validation_kind_members_def)
  show "distinct (map validation_kind_value validation_kind_members)"
    by (simp add: validation_kind_members_def)
qed

datatype decision = Decision_APPROVE
  | Decision_CONDITIONAL_PASS
  | Decision_REJECT
  | Decision_NEEDS_EVIDENCE
  | Decision_HUMAN_REVIEW

primrec decision_value :: "decision \<Rightarrow> string" where
  "decision_value Decision_APPROVE = ''approve''"
| "decision_value Decision_CONDITIONAL_PASS = ''conditional_pass''"
| "decision_value Decision_REJECT = ''reject''"
| "decision_value Decision_NEEDS_EVIDENCE = ''needs_evidence''"
| "decision_value Decision_HUMAN_REVIEW = ''human_review''"

definition decision_members :: "decision list" where
  "decision_members =
     [Decision_APPROVE,
      Decision_CONDITIONAL_PASS,
      Decision_REJECT,
      Decision_NEEDS_EVIDENCE,
      Decision_HUMAN_REVIEW]"

interpretation decision: str_enum decision_value decision_members
proof
  show "m \<in> set decision_members" for m
    by (cases m) (simp_all add: decision_members_def)
  show "distinct (map decision_value decision_members)"
    by (simp add: decision_members_def)
qed

datatype recommended_action = RecommendedAction_PATCH
  | RecommendedAction_DO_NOT_PATCH
  | RecommendedAction_COLLECT_EVIDENCE
  | RecommendedAction_ESCALATE

primrec recommended_action_value :: "recommended_action \<Rightarrow> string" where
  "recommended_action_value RecommendedAction_PATCH = ''patch''"
| "recommended_action_value RecommendedAction_DO_NOT_PATCH = ''do_not_patch''"
| "recommended_action_value RecommendedAction_COLLECT_EVIDENCE = ''collect_evidence''"
| "recommended_action_value RecommendedAction_ESCALATE = ''escalate''"

definition recommended_action_members :: "recommended_action list" where
  "recommended_action_members =
     [RecommendedAction_PATCH,
      RecommendedAction_DO_NOT_PATCH,
      RecommendedAction_COLLECT_EVIDENCE,
      RecommendedAction_ESCALATE]"

interpretation recommended_action: str_enum recommended_action_value recommended_action_members
proof
  show "m \<in> set recommended_action_members" for m
    by (cases m) (simp_all add: recommended_action_members_def)
  show "distinct (map recommended_action_value recommended_action_members)"
    by (simp add: recommended_action_members_def)
qed

datatype check_status = CheckStatus_PASS
  | CheckStatus_FAIL
  | CheckStatus_WARNING

primrec check_status_value :: "check_status \<Rightarrow> string" where
  "check_status_value CheckStatus_PASS = ''pass''"
| "check_status_value CheckStatus_FAIL = ''fail''"
| "check_status_value CheckStatus_WARNING = ''warning''"

definition check_status_members :: "check_status list" where
  "check_status_members =
     [CheckStatus_PASS,
      CheckStatus_FAIL,
      CheckStatus_WARNING]"

interpretation check_status: str_enum check_status_value check_status_members
proof
  show "m \<in> set check_status_members" for m
    by (cases m) (simp_all add: check_status_members_def)
  show "distinct (map check_status_value check_status_members)"
    by (simp add: check_status_members_def)
qed

datatype canary_assignment_method = CanaryAssignmentMethod_RANDOMIZED
  | CanaryAssignmentMethod_DETERMINISTIC_HASH

primrec canary_assignment_method_value :: "canary_assignment_method \<Rightarrow> string" where
  "canary_assignment_method_value CanaryAssignmentMethod_RANDOMIZED = ''randomized''"
| "canary_assignment_method_value CanaryAssignmentMethod_DETERMINISTIC_HASH = ''deterministic_hash''"

definition canary_assignment_method_members :: "canary_assignment_method list" where
  "canary_assignment_method_members =
     [CanaryAssignmentMethod_RANDOMIZED,
      CanaryAssignmentMethod_DETERMINISTIC_HASH]"

interpretation canary_assignment_method: str_enum canary_assignment_method_value canary_assignment_method_members
proof
  show "m \<in> set canary_assignment_method_members" for m
    by (cases m) (simp_all add: canary_assignment_method_members_def)
  show "distinct (map canary_assignment_method_value canary_assignment_method_members)"
    by (simp add: canary_assignment_method_members_def)
qed

datatype canary_assignment_unit = CanaryAssignmentUnit_REQUEST
  | CanaryAssignmentUnit_SESSION
  | CanaryAssignmentUnit_PRINCIPAL
  | CanaryAssignmentUnit_TENANT

primrec canary_assignment_unit_value :: "canary_assignment_unit \<Rightarrow> string" where
  "canary_assignment_unit_value CanaryAssignmentUnit_REQUEST = ''request''"
| "canary_assignment_unit_value CanaryAssignmentUnit_SESSION = ''session''"
| "canary_assignment_unit_value CanaryAssignmentUnit_PRINCIPAL = ''principal''"
| "canary_assignment_unit_value CanaryAssignmentUnit_TENANT = ''tenant''"

definition canary_assignment_unit_members :: "canary_assignment_unit list" where
  "canary_assignment_unit_members =
     [CanaryAssignmentUnit_REQUEST,
      CanaryAssignmentUnit_SESSION,
      CanaryAssignmentUnit_PRINCIPAL,
      CanaryAssignmentUnit_TENANT]"

interpretation canary_assignment_unit: str_enum canary_assignment_unit_value canary_assignment_unit_members
proof
  show "m \<in> set canary_assignment_unit_members" for m
    by (cases m) (simp_all add: canary_assignment_unit_members_def)
  show "distinct (map canary_assignment_unit_value canary_assignment_unit_members)"
    by (simp add: canary_assignment_unit_members_def)
qed

datatype canary_metric_direction = CanaryMetricDirection_HIGHER
  | CanaryMetricDirection_LOWER

primrec canary_metric_direction_value :: "canary_metric_direction \<Rightarrow> string" where
  "canary_metric_direction_value CanaryMetricDirection_HIGHER = ''higher''"
| "canary_metric_direction_value CanaryMetricDirection_LOWER = ''lower''"

definition canary_metric_direction_members :: "canary_metric_direction list" where
  "canary_metric_direction_members =
     [CanaryMetricDirection_HIGHER,
      CanaryMetricDirection_LOWER]"

interpretation canary_metric_direction: str_enum canary_metric_direction_value canary_metric_direction_members
proof
  show "m \<in> set canary_metric_direction_members" for m
    by (cases m) (simp_all add: canary_metric_direction_members_def)
  show "distinct (map canary_metric_direction_value canary_metric_direction_members)"
    by (simp add: canary_metric_direction_members_def)
qed

datatype canary_metric_status = CanaryMetricStatus_NONINFERIOR
  | CanaryMetricStatus_REGRESSION
  | CanaryMetricStatus_INCONCLUSIVE

primrec canary_metric_status_value :: "canary_metric_status \<Rightarrow> string" where
  "canary_metric_status_value CanaryMetricStatus_NONINFERIOR = ''noninferior''"
| "canary_metric_status_value CanaryMetricStatus_REGRESSION = ''regression''"
| "canary_metric_status_value CanaryMetricStatus_INCONCLUSIVE = ''inconclusive''"

definition canary_metric_status_members :: "canary_metric_status list" where
  "canary_metric_status_members =
     [CanaryMetricStatus_NONINFERIOR,
      CanaryMetricStatus_REGRESSION,
      CanaryMetricStatus_INCONCLUSIVE]"

interpretation canary_metric_status: str_enum canary_metric_status_value canary_metric_status_members
proof
  show "m \<in> set canary_metric_status_members" for m
    by (cases m) (simp_all add: canary_metric_status_members_def)
  show "distinct (map canary_metric_status_value canary_metric_status_members)"
    by (simp add: canary_metric_status_members_def)
qed

datatype canary_decision = CanaryDecision_PROMOTE
  | CanaryDecision_CONTINUE
  | CanaryDecision_ROLLBACK
  | CanaryDecision_NEEDS_EVIDENCE

primrec canary_decision_value :: "canary_decision \<Rightarrow> string" where
  "canary_decision_value CanaryDecision_PROMOTE = ''promote''"
| "canary_decision_value CanaryDecision_CONTINUE = ''continue''"
| "canary_decision_value CanaryDecision_ROLLBACK = ''rollback''"
| "canary_decision_value CanaryDecision_NEEDS_EVIDENCE = ''needs_evidence''"

definition canary_decision_members :: "canary_decision list" where
  "canary_decision_members =
     [CanaryDecision_PROMOTE,
      CanaryDecision_CONTINUE,
      CanaryDecision_ROLLBACK,
      CanaryDecision_NEEDS_EVIDENCE]"

interpretation canary_decision: str_enum canary_decision_value canary_decision_members
proof
  show "m \<in> set canary_decision_members" for m
    by (cases m) (simp_all add: canary_decision_members_def)
  show "distinct (map canary_decision_value canary_decision_members)"
    by (simp add: canary_decision_members_def)
qed

datatype consequence = Consequence_NONE
  | Consequence_CONDITIONAL
  | Consequence_NEEDS_EVIDENCE
  | Consequence_REJECT
  | Consequence_HUMAN_REVIEW

primrec consequence_value :: "consequence \<Rightarrow> string" where
  "consequence_value Consequence_NONE = ''none''"
| "consequence_value Consequence_CONDITIONAL = ''conditional''"
| "consequence_value Consequence_NEEDS_EVIDENCE = ''needs_evidence''"
| "consequence_value Consequence_REJECT = ''reject''"
| "consequence_value Consequence_HUMAN_REVIEW = ''human_review''"

definition consequence_members :: "consequence list" where
  "consequence_members =
     [Consequence_NONE,
      Consequence_CONDITIONAL,
      Consequence_NEEDS_EVIDENCE,
      Consequence_REJECT,
      Consequence_HUMAN_REVIEW]"

interpretation consequence: str_enum consequence_value consequence_members
proof
  show "m \<in> set consequence_members" for m
    by (cases m) (simp_all add: consequence_members_def)
  show "distinct (map consequence_value consequence_members)"
    by (simp add: consequence_members_def)
qed

datatype trace_source_format = TraceSourceFormat_OTLP_JSON

primrec trace_source_format_value :: "trace_source_format \<Rightarrow> string" where
  "trace_source_format_value TraceSourceFormat_OTLP_JSON = ''otlp-json''"

definition trace_source_format_members :: "trace_source_format list" where
  "trace_source_format_members =
     [TraceSourceFormat_OTLP_JSON]"

interpretation trace_source_format: str_enum trace_source_format_value trace_source_format_members
proof
  show "m \<in> set trace_source_format_members" for m
    by (cases m) (simp_all add: trace_source_format_members_def)
  show "distinct (map trace_source_format_value trace_source_format_members)"
    by (simp add: trace_source_format_members_def)
qed

datatype redaction_strategy = RedactionStrategy_METADATA_ALLOWLIST_V1

primrec redaction_strategy_value :: "redaction_strategy \<Rightarrow> string" where
  "redaction_strategy_value RedactionStrategy_METADATA_ALLOWLIST_V1 = ''metadata-allowlist-v1''"

definition redaction_strategy_members :: "redaction_strategy list" where
  "redaction_strategy_members =
     [RedactionStrategy_METADATA_ALLOWLIST_V1]"

interpretation redaction_strategy: str_enum redaction_strategy_value redaction_strategy_members
proof
  show "m \<in> set redaction_strategy_members" for m
    by (cases m) (simp_all add: redaction_strategy_members_def)
  show "distinct (map redaction_strategy_value redaction_strategy_members)"
    by (simp add: redaction_strategy_members_def)
qed

datatype signature_algorithm = SignatureAlgorithm_ED25519

primrec signature_algorithm_value :: "signature_algorithm \<Rightarrow> string" where
  "signature_algorithm_value SignatureAlgorithm_ED25519 = ''ed25519''"

definition signature_algorithm_members :: "signature_algorithm list" where
  "signature_algorithm_members =
     [SignatureAlgorithm_ED25519]"

interpretation signature_algorithm: str_enum signature_algorithm_value signature_algorithm_members
proof
  show "m \<in> set signature_algorithm_members" for m
    by (cases m) (simp_all add: signature_algorithm_members_def)
  show "distinct (map signature_algorithm_value signature_algorithm_members)"
    by (simp add: signature_algorithm_members_def)
qed

datatype signature_canonicalization = SignatureCanonicalization_CAUSURE_JSON_V1

primrec signature_canonicalization_value :: "signature_canonicalization \<Rightarrow> string" where
  "signature_canonicalization_value SignatureCanonicalization_CAUSURE_JSON_V1 = ''causure-json-v1''"

definition signature_canonicalization_members :: "signature_canonicalization list" where
  "signature_canonicalization_members =
     [SignatureCanonicalization_CAUSURE_JSON_V1]"

interpretation signature_canonicalization: str_enum signature_canonicalization_value signature_canonicalization_members
proof
  show "m \<in> set signature_canonicalization_members" for m
    by (cases m) (simp_all add: signature_canonicalization_members_def)
  show "distinct (map signature_canonicalization_value signature_canonicalization_members)"
    by (simp add: signature_canonicalization_members_def)
qed

datatype revocation_mode = RevocationMode_ALL_SIGNATURES
  | RevocationMode_ISSUED_AT_OR_AFTER

primrec revocation_mode_value :: "revocation_mode \<Rightarrow> string" where
  "revocation_mode_value RevocationMode_ALL_SIGNATURES = ''all_signatures''"
| "revocation_mode_value RevocationMode_ISSUED_AT_OR_AFTER = ''issued_at_or_after''"

definition revocation_mode_members :: "revocation_mode list" where
  "revocation_mode_members =
     [RevocationMode_ALL_SIGNATURES,
      RevocationMode_ISSUED_AT_OR_AFTER]"

interpretation revocation_mode: str_enum revocation_mode_value revocation_mode_members
proof
  show "m \<in> set revocation_mode_members" for m
    by (cases m) (simp_all add: revocation_mode_members_def)
  show "distinct (map revocation_mode_value revocation_mode_members)"
    by (simp add: revocation_mode_members_def)
qed

datatype approval_action = ApprovalAction_APPROVE
  | ApprovalAction_EXCEPTION

primrec approval_action_value :: "approval_action \<Rightarrow> string" where
  "approval_action_value ApprovalAction_APPROVE = ''approve''"
| "approval_action_value ApprovalAction_EXCEPTION = ''exception''"

definition approval_action_members :: "approval_action list" where
  "approval_action_members =
     [ApprovalAction_APPROVE,
      ApprovalAction_EXCEPTION]"

interpretation approval_action: str_enum approval_action_value approval_action_members
proof
  show "m \<in> set approval_action_members" for m
    by (cases m) (simp_all add: approval_action_members_def)
  show "distinct (map approval_action_value approval_action_members)"
    by (simp add: approval_action_members_def)
qed

datatype approval_authentication_method = ApprovalAuthenticationMethod_AZURE_DEVOPS_APPROVAL
  | ApprovalAuthenticationMethod_ORGANIZATIONAL_SSO

primrec approval_authentication_method_value :: "approval_authentication_method \<Rightarrow> string" where
  "approval_authentication_method_value ApprovalAuthenticationMethod_AZURE_DEVOPS_APPROVAL = ''azure_devops_approval''"
| "approval_authentication_method_value ApprovalAuthenticationMethod_ORGANIZATIONAL_SSO = ''organizational_sso''"

definition approval_authentication_method_members :: "approval_authentication_method list" where
  "approval_authentication_method_members =
     [ApprovalAuthenticationMethod_AZURE_DEVOPS_APPROVAL,
      ApprovalAuthenticationMethod_ORGANIZATIONAL_SSO]"

interpretation approval_authentication_method: str_enum approval_authentication_method_value approval_authentication_method_members
proof
  show "m \<in> set approval_authentication_method_members" for m
    by (cases m) (simp_all add: approval_authentication_method_members_def)
  show "distinct (map approval_authentication_method_value approval_authentication_method_members)"
    by (simp add: approval_authentication_method_members_def)
qed

datatype approval_gate_effect = ApprovalGateEffect_RECORD_ONLY

primrec approval_gate_effect_value :: "approval_gate_effect \<Rightarrow> string" where
  "approval_gate_effect_value ApprovalGateEffect_RECORD_ONLY = ''record_only''"

definition approval_gate_effect_members :: "approval_gate_effect list" where
  "approval_gate_effect_members =
     [ApprovalGateEffect_RECORD_ONLY]"

interpretation approval_gate_effect: str_enum approval_gate_effect_value approval_gate_effect_members
proof
  show "m \<in> set approval_gate_effect_members" for m
    by (cases m) (simp_all add: approval_gate_effect_members_def)
  show "distinct (map approval_gate_effect_value approval_gate_effect_members)"
    by (simp add: approval_gate_effect_members_def)
qed

datatype team_role = TeamRole_INVESTIGATOR
  | TeamRole_POLICY_ADMINISTRATOR
  | TeamRole_APPROVER

primrec team_role_value :: "team_role \<Rightarrow> string" where
  "team_role_value TeamRole_INVESTIGATOR = ''investigator''"
| "team_role_value TeamRole_POLICY_ADMINISTRATOR = ''policy_administrator''"
| "team_role_value TeamRole_APPROVER = ''approver''"

definition team_role_members :: "team_role list" where
  "team_role_members =
     [TeamRole_INVESTIGATOR,
      TeamRole_POLICY_ADMINISTRATOR,
      TeamRole_APPROVER]"

interpretation team_role: str_enum team_role_value team_role_members
proof
  show "m \<in> set team_role_members" for m
    by (cases m) (simp_all add: team_role_members_def)
  show "distinct (map team_role_value team_role_members)"
    by (simp add: team_role_members_def)
qed

datatype team_action = TeamAction_EVIDENCE_READ
  | TeamAction_INVESTIGATION_WRITE
  | TeamAction_POLICY_WRITE
  | TeamAction_APPROVAL_ISSUE
  | TeamAction_AUDIT_EXPORT

primrec team_action_value :: "team_action \<Rightarrow> string" where
  "team_action_value TeamAction_EVIDENCE_READ = ''evidence_read''"
| "team_action_value TeamAction_INVESTIGATION_WRITE = ''investigation_write''"
| "team_action_value TeamAction_POLICY_WRITE = ''policy_write''"
| "team_action_value TeamAction_APPROVAL_ISSUE = ''approval_issue''"
| "team_action_value TeamAction_AUDIT_EXPORT = ''audit_export''"

definition team_action_members :: "team_action list" where
  "team_action_members =
     [TeamAction_EVIDENCE_READ,
      TeamAction_INVESTIGATION_WRITE,
      TeamAction_POLICY_WRITE,
      TeamAction_APPROVAL_ISSUE,
      TeamAction_AUDIT_EXPORT]"

interpretation team_action: str_enum team_action_value team_action_members
proof
  show "m \<in> set team_action_members" for m
    by (cases m) (simp_all add: team_action_members_def)
  show "distinct (map team_action_value team_action_members)"
    by (simp add: team_action_members_def)
qed

datatype team_resource_type = TeamResourceType_EVIDENCE_CASE
  | TeamResourceType_INVESTIGATION
  | TeamResourceType_GATE_POLICY
  | TeamResourceType_APPROVAL
  | TeamResourceType_AUDIT_EXPORT

primrec team_resource_type_value :: "team_resource_type \<Rightarrow> string" where
  "team_resource_type_value TeamResourceType_EVIDENCE_CASE = ''evidence_case''"
| "team_resource_type_value TeamResourceType_INVESTIGATION = ''investigation''"
| "team_resource_type_value TeamResourceType_GATE_POLICY = ''gate_policy''"
| "team_resource_type_value TeamResourceType_APPROVAL = ''approval''"
| "team_resource_type_value TeamResourceType_AUDIT_EXPORT = ''audit_export''"

definition team_resource_type_members :: "team_resource_type list" where
  "team_resource_type_members =
     [TeamResourceType_EVIDENCE_CASE,
      TeamResourceType_INVESTIGATION,
      TeamResourceType_GATE_POLICY,
      TeamResourceType_APPROVAL,
      TeamResourceType_AUDIT_EXPORT]"

interpretation team_resource_type: str_enum team_resource_type_value team_resource_type_members
proof
  show "m \<in> set team_resource_type_members" for m
    by (cases m) (simp_all add: team_resource_type_members_def)
  show "distinct (map team_resource_type_value team_resource_type_members)"
    by (simp add: team_resource_type_members_def)
qed

datatype team_authorization_reason = TeamAuthorizationReason_ROLE_GRANT
  | TeamAuthorizationReason_PRINCIPAL_NOT_MEMBER
  | TeamAuthorizationReason_ROLE_NOT_GRANTED

primrec team_authorization_reason_value :: "team_authorization_reason \<Rightarrow> string" where
  "team_authorization_reason_value TeamAuthorizationReason_ROLE_GRANT = ''role_grant''"
| "team_authorization_reason_value TeamAuthorizationReason_PRINCIPAL_NOT_MEMBER = ''principal_not_member''"
| "team_authorization_reason_value TeamAuthorizationReason_ROLE_NOT_GRANTED = ''role_not_granted''"

definition team_authorization_reason_members :: "team_authorization_reason list" where
  "team_authorization_reason_members =
     [TeamAuthorizationReason_ROLE_GRANT,
      TeamAuthorizationReason_PRINCIPAL_NOT_MEMBER,
      TeamAuthorizationReason_ROLE_NOT_GRANTED]"

interpretation team_authorization_reason: str_enum team_authorization_reason_value team_authorization_reason_members
proof
  show "m \<in> set team_authorization_reason_members" for m
    by (cases m) (simp_all add: team_authorization_reason_members_def)
  show "distinct (map team_authorization_reason_value team_authorization_reason_members)"
    by (simp add: team_authorization_reason_members_def)
qed

datatype team_audit_outcome = TeamAuditOutcome_SUCCEEDED
  | TeamAuditOutcome_FAILED
  | TeamAuditOutcome_DENIED

primrec team_audit_outcome_value :: "team_audit_outcome \<Rightarrow> string" where
  "team_audit_outcome_value TeamAuditOutcome_SUCCEEDED = ''succeeded''"
| "team_audit_outcome_value TeamAuditOutcome_FAILED = ''failed''"
| "team_audit_outcome_value TeamAuditOutcome_DENIED = ''denied''"

definition team_audit_outcome_members :: "team_audit_outcome list" where
  "team_audit_outcome_members =
     [TeamAuditOutcome_SUCCEEDED,
      TeamAuditOutcome_FAILED,
      TeamAuditOutcome_DENIED]"

interpretation team_audit_outcome: str_enum team_audit_outcome_value team_audit_outcome_members
proof
  show "m \<in> set team_audit_outcome_members" for m
    by (cases m) (simp_all add: team_audit_outcome_members_def)
  show "distinct (map team_audit_outcome_value team_audit_outcome_members)"
    by (simp add: team_audit_outcome_members_def)
qed

datatype team_investigation_status = TeamInvestigationStatus_QUEUED
  | TeamInvestigationStatus_INVESTIGATING
  | TeamInvestigationStatus_BLOCKED
  | TeamInvestigationStatus_CLOSED

primrec team_investigation_status_value :: "team_investigation_status \<Rightarrow> string" where
  "team_investigation_status_value TeamInvestigationStatus_QUEUED = ''queued''"
| "team_investigation_status_value TeamInvestigationStatus_INVESTIGATING = ''investigating''"
| "team_investigation_status_value TeamInvestigationStatus_BLOCKED = ''blocked''"
| "team_investigation_status_value TeamInvestigationStatus_CLOSED = ''closed''"

definition team_investigation_status_members :: "team_investigation_status list" where
  "team_investigation_status_members =
     [TeamInvestigationStatus_QUEUED,
      TeamInvestigationStatus_INVESTIGATING,
      TeamInvestigationStatus_BLOCKED,
      TeamInvestigationStatus_CLOSED]"

interpretation team_investigation_status: str_enum team_investigation_status_value team_investigation_status_members
proof
  show "m \<in> set team_investigation_status_members" for m
    by (cases m) (simp_all add: team_investigation_status_members_def)
  show "distinct (map team_investigation_status_value team_investigation_status_members)"
    by (simp add: team_investigation_status_members_def)
qed

datatype team_investigation_priority = TeamInvestigationPriority_LOW
  | TeamInvestigationPriority_NORMAL
  | TeamInvestigationPriority_HIGH
  | TeamInvestigationPriority_CRITICAL

primrec team_investigation_priority_value :: "team_investigation_priority \<Rightarrow> string" where
  "team_investigation_priority_value TeamInvestigationPriority_LOW = ''low''"
| "team_investigation_priority_value TeamInvestigationPriority_NORMAL = ''normal''"
| "team_investigation_priority_value TeamInvestigationPriority_HIGH = ''high''"
| "team_investigation_priority_value TeamInvestigationPriority_CRITICAL = ''critical''"

definition team_investigation_priority_members :: "team_investigation_priority list" where
  "team_investigation_priority_members =
     [TeamInvestigationPriority_LOW,
      TeamInvestigationPriority_NORMAL,
      TeamInvestigationPriority_HIGH,
      TeamInvestigationPriority_CRITICAL]"

interpretation team_investigation_priority: str_enum team_investigation_priority_value team_investigation_priority_members
proof
  show "m \<in> set team_investigation_priority_members" for m
    by (cases m) (simp_all add: team_investigation_priority_members_def)
  show "distinct (map team_investigation_priority_value team_investigation_priority_members)"
    by (simp add: team_investigation_priority_members_def)
qed

datatype team_investigation_resolution = TeamInvestigationResolution_CHANGE_CASE_OPENED
  | TeamInvestigationResolution_DUPLICATE
  | TeamInvestigationResolution_NOT_A_FAILURE
  | TeamInvestigationResolution_NO_CHANGE_REQUIRED
  | TeamInvestigationResolution_INSUFFICIENT_EVIDENCE

primrec team_investigation_resolution_value :: "team_investigation_resolution \<Rightarrow> string" where
  "team_investigation_resolution_value TeamInvestigationResolution_CHANGE_CASE_OPENED = ''change_case_opened''"
| "team_investigation_resolution_value TeamInvestigationResolution_DUPLICATE = ''duplicate''"
| "team_investigation_resolution_value TeamInvestigationResolution_NOT_A_FAILURE = ''not_a_failure''"
| "team_investigation_resolution_value TeamInvestigationResolution_NO_CHANGE_REQUIRED = ''no_change_required''"
| "team_investigation_resolution_value TeamInvestigationResolution_INSUFFICIENT_EVIDENCE = ''insufficient_evidence''"

definition team_investigation_resolution_members :: "team_investigation_resolution list" where
  "team_investigation_resolution_members =
     [TeamInvestigationResolution_CHANGE_CASE_OPENED,
      TeamInvestigationResolution_DUPLICATE,
      TeamInvestigationResolution_NOT_A_FAILURE,
      TeamInvestigationResolution_NO_CHANGE_REQUIRED,
      TeamInvestigationResolution_INSUFFICIENT_EVIDENCE]"

interpretation team_investigation_resolution: str_enum team_investigation_resolution_value team_investigation_resolution_members
proof
  show "m \<in> set team_investigation_resolution_members" for m
    by (cases m) (simp_all add: team_investigation_resolution_members_def)
  show "distinct (map team_investigation_resolution_value team_investigation_resolution_members)"
    by (simp add: team_investigation_resolution_members_def)
qed

datatype sandbox_network_mode = SandboxNetworkMode_NONE
  | SandboxNetworkMode_QUOTA_PROXY

primrec sandbox_network_mode_value :: "sandbox_network_mode \<Rightarrow> string" where
  "sandbox_network_mode_value SandboxNetworkMode_NONE = ''none''"
| "sandbox_network_mode_value SandboxNetworkMode_QUOTA_PROXY = ''quota_proxy''"

definition sandbox_network_mode_members :: "sandbox_network_mode list" where
  "sandbox_network_mode_members =
     [SandboxNetworkMode_NONE,
      SandboxNetworkMode_QUOTA_PROXY]"

interpretation sandbox_network_mode: str_enum sandbox_network_mode_value sandbox_network_mode_members
proof
  show "m \<in> set sandbox_network_mode_members" for m
    by (cases m) (simp_all add: sandbox_network_mode_members_def)
  show "distinct (map sandbox_network_mode_value sandbox_network_mode_members)"
    by (simp add: sandbox_network_mode_members_def)
qed

datatype sandbox_worker_mode = SandboxWorkerMode_REPLAY
  | SandboxWorkerMode_EVALUATION

primrec sandbox_worker_mode_value :: "sandbox_worker_mode \<Rightarrow> string" where
  "sandbox_worker_mode_value SandboxWorkerMode_REPLAY = ''replay''"
| "sandbox_worker_mode_value SandboxWorkerMode_EVALUATION = ''evaluation''"

definition sandbox_worker_mode_members :: "sandbox_worker_mode list" where
  "sandbox_worker_mode_members =
     [SandboxWorkerMode_REPLAY,
      SandboxWorkerMode_EVALUATION]"

interpretation sandbox_worker_mode: str_enum sandbox_worker_mode_value sandbox_worker_mode_members
proof
  show "m \<in> set sandbox_worker_mode_members" for m
    by (cases m) (simp_all add: sandbox_worker_mode_members_def)
  show "distinct (map sandbox_worker_mode_value sandbox_worker_mode_members)"
    by (simp add: sandbox_worker_mode_members_def)
qed

datatype quota_enforcement = QuotaEnforcement_PROVIDER_HARD_LIMIT

primrec quota_enforcement_value :: "quota_enforcement \<Rightarrow> string" where
  "quota_enforcement_value QuotaEnforcement_PROVIDER_HARD_LIMIT = ''provider_hard_limit''"

definition quota_enforcement_members :: "quota_enforcement list" where
  "quota_enforcement_members =
     [QuotaEnforcement_PROVIDER_HARD_LIMIT]"

interpretation quota_enforcement: str_enum quota_enforcement_value quota_enforcement_members
proof
  show "m \<in> set quota_enforcement_members" for m
    by (cases m) (simp_all add: quota_enforcement_members_def)
  show "distinct (map quota_enforcement_value quota_enforcement_members)"
    by (simp add: quota_enforcement_members_def)
qed

datatype tfvc_target_kind = TfvcTargetKind_CHANGESET
  | TfvcTargetKind_SHELVESET

primrec tfvc_target_kind_value :: "tfvc_target_kind \<Rightarrow> string" where
  "tfvc_target_kind_value TfvcTargetKind_CHANGESET = ''changeset''"
| "tfvc_target_kind_value TfvcTargetKind_SHELVESET = ''shelveset''"

definition tfvc_target_kind_members :: "tfvc_target_kind list" where
  "tfvc_target_kind_members =
     [TfvcTargetKind_CHANGESET,
      TfvcTargetKind_SHELVESET]"

interpretation tfvc_target_kind: str_enum tfvc_target_kind_value tfvc_target_kind_members
proof
  show "m \<in> set tfvc_target_kind_members" for m
    by (cases m) (simp_all add: tfvc_target_kind_members_def)
  show "distinct (map tfvc_target_kind_value tfvc_target_kind_members)"
    by (simp add: tfvc_target_kind_members_def)
qed

datatype azure_build_reason = AzureBuildReason_MANUAL
  | AzureBuildReason_INDIVIDUAL_CI
  | AzureBuildReason_BATCHED_CI
  | AzureBuildReason_SCHEDULE
  | AzureBuildReason_VALIDATE_SHELVESET
  | AzureBuildReason_CHECK_IN_SHELVESET
  | AzureBuildReason_BUILD_COMPLETION
  | AzureBuildReason_RESOURCE_TRIGGER

primrec azure_build_reason_value :: "azure_build_reason \<Rightarrow> string" where
  "azure_build_reason_value AzureBuildReason_MANUAL = ''Manual''"
| "azure_build_reason_value AzureBuildReason_INDIVIDUAL_CI = ''IndividualCI''"
| "azure_build_reason_value AzureBuildReason_BATCHED_CI = ''BatchedCI''"
| "azure_build_reason_value AzureBuildReason_SCHEDULE = ''Schedule''"
| "azure_build_reason_value AzureBuildReason_VALIDATE_SHELVESET = ''ValidateShelveset''"
| "azure_build_reason_value AzureBuildReason_CHECK_IN_SHELVESET = ''CheckInShelveset''"
| "azure_build_reason_value AzureBuildReason_BUILD_COMPLETION = ''BuildCompletion''"
| "azure_build_reason_value AzureBuildReason_RESOURCE_TRIGGER = ''ResourceTrigger''"

definition azure_build_reason_members :: "azure_build_reason list" where
  "azure_build_reason_members =
     [AzureBuildReason_MANUAL,
      AzureBuildReason_INDIVIDUAL_CI,
      AzureBuildReason_BATCHED_CI,
      AzureBuildReason_SCHEDULE,
      AzureBuildReason_VALIDATE_SHELVESET,
      AzureBuildReason_CHECK_IN_SHELVESET,
      AzureBuildReason_BUILD_COMPLETION,
      AzureBuildReason_RESOURCE_TRIGGER]"

interpretation azure_build_reason: str_enum azure_build_reason_value azure_build_reason_members
proof
  show "m \<in> set azure_build_reason_members" for m
    by (cases m) (simp_all add: azure_build_reason_members_def)
  show "distinct (map azure_build_reason_value azure_build_reason_members)"
    by (simp add: azure_build_reason_members_def)
qed

datatype openinference_span_kind = OpenInferenceSpanKind_AGENT
  | OpenInferenceSpanKind_CHAIN
  | OpenInferenceSpanKind_EMBEDDING
  | OpenInferenceSpanKind_EVALUATOR
  | OpenInferenceSpanKind_GUARDRAIL
  | OpenInferenceSpanKind_LLM
  | OpenInferenceSpanKind_PROMPT
  | OpenInferenceSpanKind_RERANKER
  | OpenInferenceSpanKind_RETRIEVER
  | OpenInferenceSpanKind_TOOL

primrec openinference_span_kind_value :: "openinference_span_kind \<Rightarrow> string" where
  "openinference_span_kind_value OpenInferenceSpanKind_AGENT = ''AGENT''"
| "openinference_span_kind_value OpenInferenceSpanKind_CHAIN = ''CHAIN''"
| "openinference_span_kind_value OpenInferenceSpanKind_EMBEDDING = ''EMBEDDING''"
| "openinference_span_kind_value OpenInferenceSpanKind_EVALUATOR = ''EVALUATOR''"
| "openinference_span_kind_value OpenInferenceSpanKind_GUARDRAIL = ''GUARDRAIL''"
| "openinference_span_kind_value OpenInferenceSpanKind_LLM = ''LLM''"
| "openinference_span_kind_value OpenInferenceSpanKind_PROMPT = ''PROMPT''"
| "openinference_span_kind_value OpenInferenceSpanKind_RERANKER = ''RERANKER''"
| "openinference_span_kind_value OpenInferenceSpanKind_RETRIEVER = ''RETRIEVER''"
| "openinference_span_kind_value OpenInferenceSpanKind_TOOL = ''TOOL''"

definition openinference_span_kind_members :: "openinference_span_kind list" where
  "openinference_span_kind_members =
     [OpenInferenceSpanKind_AGENT,
      OpenInferenceSpanKind_CHAIN,
      OpenInferenceSpanKind_EMBEDDING,
      OpenInferenceSpanKind_EVALUATOR,
      OpenInferenceSpanKind_GUARDRAIL,
      OpenInferenceSpanKind_LLM,
      OpenInferenceSpanKind_PROMPT,
      OpenInferenceSpanKind_RERANKER,
      OpenInferenceSpanKind_RETRIEVER,
      OpenInferenceSpanKind_TOOL]"

interpretation openinference_span_kind: str_enum openinference_span_kind_value openinference_span_kind_members
proof
  show "m \<in> set openinference_span_kind_members" for m
    by (cases m) (simp_all add: openinference_span_kind_members_def)
  show "distinct (map openinference_span_kind_value openinference_span_kind_members)"
    by (simp add: openinference_span_kind_members_def)
qed

end
