(* ===== verification/Py_Datetime.thy ===== *)
theory Py_Datetime
  imports Prelude
begin

text \<open>
  \<open>datetime.fromisoformat\<close> of CPython 3.11, which every timestamp check of the sources calls.
  The function works on the UTF-8 bytes of the string: it finds where the date ends, reads the
  date (calendar or ISO week form), and reads the time with an optional fraction and offset.
  A result holds the proleptic ordinal of the day, the second of the day, the microsecond and
  the offset in microseconds (\<open>None\<close> for a naive value); \<open>None\<close> is ValueError.
\<close>

record py_datetime =
  dt_ordinal :: int
  dt_second :: int
  dt_micro :: int
  dt_offset :: "int option"

subsection \<open>Calendar\<close>

definition is_leap :: "int \<Rightarrow> bool" where
  "is_leap y \<longleftrightarrow> y mod 4 = 0 \<and> (y mod 100 \<noteq> 0 \<or> y mod 400 = 0)"

definition days_in_month :: "int \<Rightarrow> int \<Rightarrow> int" where
  "days_in_month y m = (if m = 2 then (if is_leap y then 29 else 28)
     else if m = 4 \<or> m = 6 \<or> m = 9 \<or> m = 11 then 30 else 31)"

definition days_before_year :: "int \<Rightarrow> int" where
  "days_before_year y = (y - 1) * 365 + (y - 1) div 4 - (y - 1) div 100 + (y - 1) div 400"

definition days_before_month :: "int \<Rightarrow> int \<Rightarrow> int" where
  "days_before_month y m = sum_list (map (\<lambda>k. days_in_month y (int k)) [1..<nat m])"

definition ymd_to_ord :: "int \<Rightarrow> int \<Rightarrow> int \<Rightarrow> int" where
  "ymd_to_ord y m d = days_before_year y + days_before_month y m + d"

definition valid_ymd :: "int \<Rightarrow> int \<Rightarrow> int \<Rightarrow> bool" where
  "valid_ymd y m d \<longleftrightarrow> 1 \<le> y \<and> y \<le> 9999 \<and> 1 \<le> m \<and> m \<le> 12 \<and> 1 \<le> d \<and> d \<le> days_in_month y m"

definition iso_week_to_ord :: "int \<Rightarrow> int \<Rightarrow> int \<Rightarrow> int option" where
  "iso_week_to_ord y w d =
     (let first = ymd_to_ord y 1 1; fw = first mod 7;
          long_year = (fw = 4 \<or> (fw = 3 \<and> is_leap y));
          fwd = (first + 6) mod 7;
          week1 = (if fwd > 3 then first - fwd + 7 else first - fwd);
          r = week1 + (w - 1) * 7 + d - 1
      in if y < 1 \<or> 9999 < y then None
         else if \<not> (1 \<le> w \<and> (w \<le> 52 \<or> (w = 53 \<and> long_year))) then None
         else if d < 1 \<or> 7 < d then None
         else if r < 1 \<or> 3652059 < r then None else Some r)"

subsection \<open>Reading bytes\<close>

definition utf8_bytes :: "string \<Rightarrow> string" where
  "utf8_bytes s = concat (map (\<lambda>c. let n = (of_char c :: nat) in
     if n < 128 then [c] else [char_of (192 + n div 64), char_of (128 + n mod 64)]) s)"

definition byte_at :: "string \<Rightarrow> nat \<Rightarrow> char" where
  \<comment> \<open>reading at the end gives the terminating NUL\<close>
  "byte_at s k = (if k < length s then s ! k else CHR 0x00)"

fun read_digits :: "string \<Rightarrow> nat \<Rightarrow> nat \<Rightarrow> int \<Rightarrow> int option" where
  "read_digits s pos 0 acc = Some acc"
| "read_digits s pos (Suc n) acc =
     (let c = byte_at s pos in
      if is_digit c then read_digits s (Suc pos) n (acc * 10 + (int (of_char c) - 48)) else None)"

definition parse_digits :: "string \<Rightarrow> nat \<Rightarrow> nat \<Rightarrow> int option" where
  "parse_digits s pos n = read_digits s pos n 0"

definition digit_run :: "string \<Rightarrow> nat \<Rightarrow> nat" where
  "digit_run s pos = pos + length (takeWhile is_digit (drop pos s))"

definition find_separator :: "string \<Rightarrow> nat option" where
  "find_separator s = (let n = length s in
     if n = 7 then Some 7
     else if byte_at s 4 = CHR ''-'' then
       (if byte_at s 5 = CHR ''W'' then
          (if n < 8 then None
           else if n > 8 \<and> byte_at s 8 = CHR ''-'' then
             (if n = 9 then None
              else if n > 10 \<and> is_digit (byte_at s 10) then Some 8 else Some 10)
           else Some 8)
        else Some 10)
     else if byte_at s 4 = CHR ''W'' then
       (let idx = digit_run s 7 in
        if idx < 9 then Some idx else if even idx then Some 7 else Some 8)
     else Some 8)"

definition parse_iso_date :: "string \<Rightarrow> int option" where
  \<comment> \<open>the ordinal of the day\<close>
  "parse_iso_date s =
     (case parse_digits s 0 4 of None \<Rightarrow> None | Some y \<Rightarrow>
      let sep = (byte_at s 4 = CHR ''-''); p = (if sep then 5 else 4) in
      if byte_at s p = CHR ''W'' then
        (case parse_digits s (p + 1) 2 of None \<Rightarrow> None | Some w \<Rightarrow>
           if p + 3 < length s then
             (if sep \<and> byte_at s (p + 3) \<noteq> CHR ''-'' then None
              else case parse_digits s (if sep then p + 4 else p + 3) 1 of
                     None \<Rightarrow> None | Some d \<Rightarrow> iso_week_to_ord y w d)
           else iso_week_to_ord y w 1)
      else
        (case parse_digits s p 2 of None \<Rightarrow> None | Some m \<Rightarrow>
           if sep \<and> byte_at s (p + 2) \<noteq> CHR ''-'' then None
           else case parse_digits s (if sep then p + 3 else p + 2) 2 of
                  None \<Rightarrow> None
                | Some d \<Rightarrow> if valid_ymd y m d then Some (ymd_to_ord y m d) else None))"

text \<open>
  Hours, minutes, seconds and fraction up to position \<open>stop\<close> of \<open>s\<close>; the flag says that
  something other than the end of the string follows.
\<close>

definition parse_fraction :: "string \<Rightarrow> nat \<Rightarrow> nat \<Rightarrow> int list \<Rightarrow> (int list \<times> int \<times> bool) option" where
  "parse_fraction s stop pos vs =
     (let n = min (stop - pos) 6 in
      case parse_digits s pos n of None \<Rightarrow> None
      | Some us \<Rightarrow> Some (vs, us * 10 ^ (6 - n), byte_at s (digit_run s (pos + n)) \<noteq> CHR 0x00))"

fun parse_hms :: "string \<Rightarrow> nat \<Rightarrow> nat \<Rightarrow> bool \<Rightarrow> nat \<Rightarrow> int list \<Rightarrow> (int list \<times> int \<times> bool) option" where
  "parse_hms s stop 0 sep pos vs = parse_fraction s stop pos vs"
| "parse_hms s stop (Suc left) sep pos vs =
     (case parse_digits s pos 2 of None \<Rightarrow> None | Some v \<Rightarrow>
      let c = byte_at s (pos + 2); next_pos = pos + 3;
          sep' = (if left = 2 then c = CHR '':'' else sep); vs' = vs @ [v]
      in if stop \<le> next_pos then Some (vs', 0, c \<noteq> CHR 0x00)
         else if sep' \<and> c = CHR '':'' then parse_hms s stop left sep' next_pos vs'
         else if c = CHR ''.'' \<or> c = CHR '','' then parse_fraction s stop next_pos vs'
         else if \<not> sep' then parse_hms s stop left sep' (pos + 2) vs'
         else None)"

definition parse_clock :: "string \<Rightarrow> nat \<Rightarrow> nat \<Rightarrow> (int \<times> int \<times> int \<times> int \<times> bool) option" where
  "parse_clock s start stop =
     (case parse_hms s stop 3 True start [] of None \<Rightarrow> None
      | Some (vs, us, rest) \<Rightarrow>
          (case vs @ [0, 0] of h # m # sec # _ \<Rightarrow> Some (h, m, sec, us, rest) | _ \<Rightarrow> None))"

definition is_tz_mark :: "char \<Rightarrow> bool" where
  "is_tz_mark c \<longleftrightarrow> c = CHR ''+'' \<or> c = CHR ''-'' \<or> c = CHR ''Z''"

definition parse_iso_time :: "string \<Rightarrow> (int \<times> int \<times> int \<times> int \<times> int option) option" where
  \<comment> \<open>hour, minute, second, microsecond and the offset in microseconds\<close>
  "parse_iso_time t =
     (let k = length (takeWhile (\<lambda>c. \<not> is_tz_mark c) t) in
      case parse_clock t 0 k of None \<Rightarrow> None
      | Some (h, m, sec, us, rest) \<Rightarrow>
          if k = length t then (if rest then None else Some (h, m, sec, us, None))
          else if byte_at t k = CHR ''Z'' then
            (if byte_at t (k + 1) \<noteq> CHR 0x00 then None else Some (h, m, sec, us, Some 0))
          else (case parse_clock (drop (k + 1) t) 0 (length t - (k + 1)) of None \<Rightarrow> None
                | Some (th, tm, ts, tus, trest) \<Rightarrow>
                    if trest then None
                    else let off = (th * 3600 + tm * 60 + ts) * 1000000 + tus in
                         Some (h, m, sec, us, Some (if byte_at t k = CHR ''-'' then - off else off))))"

definition fromisoformat :: "string \<Rightarrow> py_datetime option" where
  "fromisoformat str =
     (let s = utf8_bytes str in
      if length s < 7 then None
      else case find_separator s of None \<Rightarrow> None
      | Some k \<Rightarrow>
        (case parse_iso_date (take k s) of None \<Rightarrow> None
         | Some ord \<Rightarrow>
           if length s \<le> k then Some \<lparr>dt_ordinal = ord, dt_second = 0, dt_micro = 0, dt_offset = None\<rparr>
           else let skip = (if 128 \<le> (of_char (byte_at s k) :: nat) then 2 else 1) in
           (case parse_iso_time (drop (k + skip) s) of None \<Rightarrow> None
            | Some (h, m, sec, us, off) \<Rightarrow>
                if h < 24 \<and> m < 60 \<and> sec < 60
                   \<and> (case off of None \<Rightarrow> True | Some f \<Rightarrow> \<bar>f\<bar> < 86400 * 1000000)
                then Some \<lparr>dt_ordinal = ord, dt_second = h * 3600 + m * 60 + sec, dt_micro = us,
                            dt_offset = off\<rparr>
                else None)))"

definition utc_microseconds :: "py_datetime \<Rightarrow> int" where
  \<comment> \<open>the instant of an aware value, what comparing two aware datetimes compares\<close>
  "utc_microseconds t = (dt_ordinal t * 86400 + dt_second t) * 1000000 + dt_micro t
      - (case dt_offset t of None \<Rightarrow> 0 | Some f \<Rightarrow> f)"

end
