(* ===== verification/Json.thy ===== *)
theory Json
  imports Prelude Py_Float
begin

text \<open>
  Decoded JSON as the parsers receive it (\<open>Any\<close> in the sources) and the decoding hooks of
  \<open>io.py\<close>. An object is its list of items in insertion order; \<open>dict.get\<close> of a missing key
  gives \<open>None\<close>, the same value as a JSON null.
\<close>

datatype json =
    JNull
  | JBool bool
  | JInt int
  | JFloat pyfloat
  | JStr string
  | JArr "json list"
  | JObj "(string \<times> json) list"

type_synonym dict = "(string \<times> json) list"

definition jget :: "dict \<Rightarrow> string \<Rightarrow> json" where
  "jget obj k = (case map_of obj k of None \<Rightarrow> JNull | Some v \<Rightarrow> v)"

definition has_key :: "dict \<Rightarrow> string \<Rightarrow> bool" where
  "has_key obj k \<longleftrightarrow> k \<in> set (map fst obj)"

lemma jget_Cons [simp]: "jget ((k, v) # obj) k' = (if k = k' then v else jget obj k')"
  by (simp add: jget_def)

lemma jget_Nil [simp]: "jget [] k = JNull"
  by (simp add: jget_def)

subsection \<open>Decoding hooks\<close>

datatype input_document_error = Duplicate_key string | Non_finite_number string

fun reject_duplicate_keys_from :: "dict \<Rightarrow> dict \<Rightarrow> input_document_error + dict" where
  "reject_duplicate_keys_from result [] = Inr result"
| "reject_duplicate_keys_from result ((k, v) # pairs) =
     (if has_key result k then Inl (Duplicate_key k)
      else reject_duplicate_keys_from (result @ [(k, v)]) pairs)"

definition reject_duplicate_keys :: "dict \<Rightarrow> input_document_error + dict" where
  "reject_duplicate_keys pairs = reject_duplicate_keys_from [] pairs"

definition reject_nonfinite_number :: "string \<Rightarrow> input_document_error + json" where
  "reject_nonfinite_number v = Inl (Non_finite_number v)"

definition parse_finite_float :: "(string \<Rightarrow> pyfloat) \<Rightarrow> string \<Rightarrow> input_document_error + pyfloat" where
  \<comment> \<open>the first argument is the conversion \<open>float(text)\<close>\<close>
  "parse_finite_float to_flt v =
     (case to_flt v of Fin x \<Rightarrow> Inr (Fin x) | _ \<Rightarrow> Inl (Non_finite_number v))"

lemma reject_duplicate_keys_from_run:
  "distinct (map fst (acc @ pairs)) \<Longrightarrow> reject_duplicate_keys_from acc pairs = Inr (acc @ pairs)"
  by (induction acc pairs rule: reject_duplicate_keys_from.induct) (auto simp: has_key_def)

lemma reject_duplicate_keys_from_Inr:
  "reject_duplicate_keys_from acc pairs = Inr r \<Longrightarrow> distinct (map fst acc) \<Longrightarrow>
    r = acc @ pairs \<and> distinct (map fst r)"
proof (induction acc pairs rule: reject_duplicate_keys_from.induct)
  case (2 acc k v pairs)
  then have k: "\<not> has_key acc k"
    and run: "reject_duplicate_keys_from (acc @ [(k, v)]) pairs = Inr r"
    by (auto split: if_splits)
  have "distinct (map fst (acc @ [(k, v)]))"
    using "2.prems"(2) k by (simp add: has_key_def)
  from "2.IH" [OF k run this] have "r = (acc @ [(k, v)]) @ pairs" and d: "distinct (map fst r)"
    by (rule conjunct1, rule conjunct2)
  then have "r = acc @ (k, v) # pairs" by simp
  with d show ?case by (intro conjI)
qed simp

lemma reject_duplicate_keys_iff:
  "reject_duplicate_keys pairs = Inr r \<longleftrightarrow> r = pairs \<and> distinct (map fst pairs)"
  using reject_duplicate_keys_from_Inr [of "[]" pairs r] reject_duplicate_keys_from_run [of "[]" pairs]
  by (auto simp: reject_duplicate_keys_def)

text \<open>
  Decoding a JSON object never drops or merges a member: the hook returns the members exactly
  as written when their keys are distinct and raises on the first repeated key otherwise.
\<close>
theorem object_decoding_exact: "reject_duplicate_keys pairs = Inr r \<longleftrightarrow> r = pairs \<and> distinct (map fst pairs)"
  by (rule reject_duplicate_keys_iff)

end
