(* ===== verification/Models.thy ===== *)
theory Models
  imports Json Constants Py_Datetime
begin

text \<open>
  \<open>models.py\<close>: the evidence case, its validating parser and its JSON rendering. A parser returns
  its value together with the issues it appended, in the order the source appends them; the
  document is accepted exactly when that list is empty.
\<close>

subsection \<open>Data\<close>

record incident =
  inc_claimed_failure :: string
  inc_expected_behavior :: string
  inc_observed_behavior :: string
  inc_severity :: incident_severity
  inc_requirement_status :: requirement_status
  inc_source_refs :: "string list"

record failure_oracle =
  orc_kind :: oracle_kind
  orc_description :: string
  orc_independent :: bool
  orc_evidence_refs :: "string list"

record reproduction_trial =
  rt_trial_id :: string
  rt_reproduced :: bool
  rt_evidence_ref :: string

record verification =
  ver_oracle :: failure_oracle
  ver_reproduction_trials :: "reproduction_trial list"

record intervention_trial =
  it_trial_id :: string
  it_failure_resolved :: bool
  it_evidence_ref :: string

record intervention =
  iv_description :: string
  iv_isolated :: bool
  iv_held_constant :: "string list"
  iv_trials :: "intervention_trial list"

record hypothesis =
  hyp_component :: component
  hyp_confidence :: rat
  hyp_evidence_refs :: "string list"
  hyp_intervention :: "intervention option"

record attribution =
  att_hypotheses :: "hypothesis list"

record proposed_change =
  pc_component :: component
  pc_summary :: string
  pc_prediction :: string
  pc_expected_unaffected_behaviors :: "string list"
  pc_known_risks :: "string list"
  pc_changed_surface_count :: int
  pc_change_ref :: string

record null_hypothesis =
  nh_statement :: string
  nh_evidence_against :: "string list"

record validation_case =
  vc_case_id :: string
  vc_kind :: validation_kind
  vc_critical :: bool
  vc_baseline_passed :: bool
  vc_candidate_passed :: bool
  vc_evidence_ref :: string

record metric_snapshot =
  ms_p95_latency_ms :: "rat option"
  ms_mean_cost_usd :: "rat option"
  ms_mean_tokens :: "rat option"

record metric_comparison =
  mc_baseline :: metric_snapshot
  mc_candidate :: metric_snapshot

record validation =
  val_cases :: "validation_case list"
  val_metrics :: "metric_comparison option"

record change_case =
  cc_schema_version :: string
  cc_case_id :: string
  cc_title :: string
  cc_created_at :: string
  cc_incident :: incident
  cc_verification :: verification
  cc_attribution :: attribution
  cc_proposed_change :: proposed_change
  cc_null_hypothesis :: null_hypothesis
  cc_validation :: validation

subsection \<open>Issues and primitive checks\<close>

record validation_issue =
  issue_path :: string
  issue_message :: string

record document_validation_error =
  document_name :: string
  document_issues :: "validation_issue list"

type_synonym 'a checked = "'a \<times> validation_issue list"

definition issue :: "string \<Rightarrow> string \<Rightarrow> validation_issue" where
  "issue p m = \<lparr>issue_path = p, issue_message = m\<rparr>"

definition sub :: "string \<Rightarrow> string \<Rightarrow> string" where
  "sub path key = path @ ''.'' @ key"

definition at_index :: "string \<Rightarrow> nat \<Rightarrow> string" where
  "at_index path i = path @ ''['' @ dec_nat i @ '']''"

definition model_object :: "json \<Rightarrow> string \<Rightarrow> string list \<Rightarrow> string list \<Rightarrow> dict checked" where
  "model_object v path required optional =
     (case v of JObj obj \<Rightarrow>
        (obj,
         map (\<lambda>k. issue (sub path k) ''is required'')
           (sort (filter (\<lambda>k. \<not> has_key obj k) required)) @
         map (\<lambda>k. issue (sub path k) ''is not allowed'')
           (sort (filter (\<lambda>k. k \<notin> set required \<and> k \<notin> set optional) (map fst obj))))
      | _ \<Rightarrow> ([], [issue path ''must be an object'']))"

definition model_string :: "json \<Rightarrow> string \<Rightarrow> bool \<Rightarrow> string checked" where
  "model_string v path allow_empty =
     (case v of JStr s \<Rightarrow>
        (strip s,
         (if \<not> allow_empty \<and> strip s = [] then [issue path ''must not be empty''] else []) @
         (if utf8_encodable (strip s) then []
          else [issue path ''must contain valid Unicode scalar values'']))
      | _ \<Rightarrow> ([], [issue path ''must be a string'']))"

definition model_boolean :: "json \<Rightarrow> string \<Rightarrow> bool checked" where
  "model_boolean v path =
     (case v of JBool b \<Rightarrow> (b, []) | _ \<Rightarrow> (False, [issue path ''must be a boolean'']))"

definition model_integer :: "json \<Rightarrow> string \<Rightarrow> int \<Rightarrow> int checked" where
  "model_integer v path minimum =
     (case v of JInt i \<Rightarrow>
        (i, if i < minimum then [issue path (''must be at least '' @ dec_int minimum)] else [])
      | _ \<Rightarrow> (minimum, [issue path ''must be an integer'']))"

definition number_as_float :: "json \<Rightarrow> pyfloat option" where
  \<comment> \<open>\<open>float(value)\<close> of an int or float; overflow, like an infinity, is not finite\<close>
  "number_as_float v = (case v of
      JInt i \<Rightarrow> Some (case float_of_int i of Some x \<Rightarrow> Fin x | None \<Rightarrow> PInf)
    | JFloat f \<Rightarrow> Some f
    | _ \<Rightarrow> None)"

definition model_number :: "json \<Rightarrow> string \<Rightarrow> int \<Rightarrow> int option \<Rightarrow> rat checked" where
  "model_number v path minimum maximum =
     (case number_as_float v of
        None \<Rightarrow> (of_int minimum, [issue path ''must be a number''])
      | Some (Fin x) \<Rightarrow>
          (x, (if x < of_int minimum then [issue path (''must be at least '' @ dec_int minimum)] else []) @
              (case maximum of None \<Rightarrow> []
               | Some m \<Rightarrow> if x > of_int m then [issue path (''must be at most '' @ dec_int m)] else []))
      | Some _ \<Rightarrow> (of_int minimum, [issue path ''must be a finite number'']))"

definition model_enum :: "('a \<Rightarrow> string) \<Rightarrow> 'a list \<Rightarrow> json \<Rightarrow> string \<Rightarrow> 'a checked" where
  "model_enum val members v path =
     (let bad = (hd members, [issue path (''must be one of: '' @ join '', '' (map val members))])
      in case v of JStr s \<Rightarrow> (case enum_lookup val members s of Some m \<Rightarrow> (m, []) | None \<Rightarrow> bad)
         | _ \<Rightarrow> bad)"

fun model_items :: "(nat \<Rightarrow> json \<Rightarrow> 'a checked) \<Rightarrow> nat \<Rightarrow> json list \<Rightarrow> ('a list) checked" where
  \<comment> \<open>the loop over \<open>enumerate(values)\<close>\<close>
  "model_items f i [] = ([], [])"
| "model_items f i (v # vs) =
     (let r = f i v; rs = model_items f (Suc i) vs in (fst r # fst rs, snd r @ snd rs))"

definition model_array :: "json \<Rightarrow> string \<Rightarrow> (json list) checked" where
  "model_array v path = (case v of JArr vs \<Rightarrow> (vs, []) | _ \<Rightarrow> ([], [issue path ''must be an array'']))"

definition model_string_list :: "json \<Rightarrow> string \<Rightarrow> nat \<Rightarrow> (string list) checked" where
  "model_string_list v path minimum_items =
     (case v of JArr vs \<Rightarrow>
        (let items = model_items (\<lambda>i x. model_string x (at_index path i) False) 0 vs
         in (fst items,
             (if length vs < minimum_items
              then [issue path (''must contain at least '' @ dec_nat minimum_items @ '' item(s)'')] else []) @
             snd items @
             (if distinct (fst items) then [] else [issue path ''must not contain duplicate values''])))
      | _ \<Rightarrow> ([], [issue path ''must be an array'']))"

definition zulu_to_offset :: "string \<Rightarrow> string" where
  \<comment> \<open>\<open>s.replace("Z", "+00:00")\<close>\<close>
  "zulu_to_offset s = concat (map (\<lambda>c. if c = CHR ''Z'' then ''+00:00'' else [c]) s)"

definition aware_timestamp :: "string \<Rightarrow> bool" where
  "aware_timestamp s = (case fromisoformat (zulu_to_offset s) of None \<Rightarrow> False
     | Some t \<Rightarrow> dt_offset t \<noteq> None)"

definition model_timestamp :: "json \<Rightarrow> string \<Rightarrow> string checked" where
  "model_timestamp v path =
     (let r = model_string v path False
      in (fst r, snd r @
          (if fst r = [] \<or> aware_timestamp (fst r) then []
           else [issue path ''must be an ISO 8601 timestamp with a timezone''])))"

end
