(* ===== verification/Case_Parser.thy ===== *)
theory Case_Parser
  imports Models
begin

text \<open>
  The parsers of \<open>models.py\<close> for the parts of an evidence case, \<open>parse_change_case\<close>, and
  the rendering \<open>to_jsonable\<close> of each part. The last section proves that an accepted document
  is well-formed and that rendering a well-formed case and parsing it again gives it back.
\<close>

subsection \<open>Parsers\<close>

definition parse_incident :: "json \<Rightarrow> incident checked" where
  "parse_incident v =
     (let path = ''$.incident'';
          o0 = model_object v path
            [''claimed_failure'', ''expected_behavior'', ''observed_behavior'', ''severity'',
             ''requirement_status'', ''source_refs''] [];
          obj = fst o0;
          cf = model_string (jget obj ''claimed_failure'') (sub path ''claimed_failure'') False;
          eb = model_string (jget obj ''expected_behavior'') (sub path ''expected_behavior'') False;
          ob = model_string (jget obj ''observed_behavior'') (sub path ''observed_behavior'') False;
          sv = model_enum incident_severity_value incident_severity_members
                 (jget obj ''severity'') (sub path ''severity'');
          rs = model_enum requirement_status_value requirement_status_members
                 (jget obj ''requirement_status'') (sub path ''requirement_status'');
          sr = model_string_list (jget obj ''source_refs'') (sub path ''source_refs'') 1
      in (\<lparr>inc_claimed_failure = fst cf, inc_expected_behavior = fst eb,
           inc_observed_behavior = fst ob, inc_severity = fst sv,
           inc_requirement_status = fst rs, inc_source_refs = fst sr\<rparr>,
          snd o0 @ snd cf @ snd eb @ snd ob @ snd sv @ snd rs @ snd sr))"

definition parse_oracle :: "json \<Rightarrow> failure_oracle checked" where
  "parse_oracle v =
     (let path = ''$.verification.oracle'';
          o0 = model_object v path [''kind'', ''description'', ''independent'', ''evidence_refs''] [];
          obj = fst o0;
          kd = model_enum oracle_kind_value oracle_kind_members (jget obj ''kind'') (sub path ''kind'');
          ds = model_string (jget obj ''description'') (sub path ''description'') False;
          ip = model_boolean (jget obj ''independent'') (sub path ''independent'');
          er = model_string_list (jget obj ''evidence_refs'') (sub path ''evidence_refs'') 1
      in (\<lparr>orc_kind = fst kd, orc_description = fst ds, orc_independent = fst ip,
           orc_evidence_refs = fst er\<rparr>,
          snd o0 @ snd kd @ snd ds @ snd ip @ snd er))"

definition parse_reproduction_trial :: "nat \<Rightarrow> json \<Rightarrow> reproduction_trial checked" where
  "parse_reproduction_trial index v =
     (let path = at_index ''$.verification.reproduction_trials'' index;
          o0 = model_object v path [''id'', ''reproduced'', ''evidence_ref''] [];
          obj = fst o0;
          i = model_string (jget obj ''id'') (sub path ''id'') False;
          rp = model_boolean (jget obj ''reproduced'') (sub path ''reproduced'');
          er = model_string (jget obj ''evidence_ref'') (sub path ''evidence_ref'') False
      in (\<lparr>rt_trial_id = fst i, rt_reproduced = fst rp, rt_evidence_ref = fst er\<rparr>,
          snd o0 @ snd i @ snd rp @ snd er))"

definition unique_issue :: "string \<Rightarrow> string \<Rightarrow> 'a list \<Rightarrow> validation_issue list" where
  \<comment> \<open>\<open>if len(xs) != len(set(xs)): issues.append(...)\<close>\<close>
  "unique_issue path message xs = (if distinct xs then [] else [issue path message])"

definition parse_verification :: "json \<Rightarrow> verification checked" where
  "parse_verification v =
     (let path = ''$.verification'';
          o0 = model_object v path [''oracle'', ''reproduction_trials''] [];
          obj = fst o0;
          ar = model_array (jget obj ''reproduction_trials'') (sub path ''reproduction_trials'');
          trials = model_items parse_reproduction_trial 0 (fst ar);
          uq = unique_issue (sub path ''reproduction_trials'') ''trial ids must be unique''
                 (map rt_trial_id (fst trials));
          orc = parse_oracle (jget obj ''oracle'')
      in (\<lparr>ver_oracle = fst orc, ver_reproduction_trials = fst trials\<rparr>,
          snd o0 @ snd ar @ snd trials @ uq @ snd orc))"

definition parse_intervention_trial :: "string \<Rightarrow> nat \<Rightarrow> json \<Rightarrow> intervention_trial checked" where
  "parse_intervention_trial path index v =
     (let trial_path = at_index (sub path ''trials'') index;
          o0 = model_object v trial_path [''id'', ''failure_resolved'', ''evidence_ref''] [];
          obj = fst o0;
          i = model_string (jget obj ''id'') (sub trial_path ''id'') False;
          fr = model_boolean (jget obj ''failure_resolved'') (sub trial_path ''failure_resolved'');
          er = model_string (jget obj ''evidence_ref'') (sub trial_path ''evidence_ref'') False
      in (\<lparr>it_trial_id = fst i, it_failure_resolved = fst fr, it_evidence_ref = fst er\<rparr>,
          snd o0 @ snd i @ snd fr @ snd er))"

definition parse_intervention :: "nat \<Rightarrow> json \<Rightarrow> intervention checked" where
  "parse_intervention hypothesis_index v =
     (let path = sub (at_index ''$.attribution.hypotheses'' hypothesis_index) ''intervention'';
          o0 = model_object v path [''description'', ''isolated'', ''held_constant'', ''trials''] [];
          obj = fst o0;
          ar = model_array (jget obj ''trials'') (sub path ''trials'');
          trials = model_items (parse_intervention_trial path) 0 (fst ar);
          uq = unique_issue (sub path ''trials'') ''trial ids must be unique''
                 (map it_trial_id (fst trials));
          ds = model_string (jget obj ''description'') (sub path ''description'') False;
          is = model_boolean (jget obj ''isolated'') (sub path ''isolated'');
          hc = model_string_list (jget obj ''held_constant'') (sub path ''held_constant'') 1
      in (\<lparr>iv_description = fst ds, iv_isolated = fst is, iv_held_constant = fst hc,
           iv_trials = fst trials\<rparr>,
          snd o0 @ snd ar @ snd trials @ uq @ snd ds @ snd is @ snd hc))"

definition parse_hypothesis :: "nat \<Rightarrow> json \<Rightarrow> hypothesis checked" where
  "parse_hypothesis index v =
     (let path = at_index ''$.attribution.hypotheses'' index;
          o0 = model_object v path [''component'', ''confidence'', ''evidence_refs''] [''intervention''];
          obj = fst o0;
          iv = jget obj ''intervention'';
          cm = model_enum component_value component_members (jget obj ''component'') (sub path ''component'');
          cf = model_number (jget obj ''confidence'') (sub path ''confidence'') 0 (Some 1);
          er = model_string_list (jget obj ''evidence_refs'') (sub path ''evidence_refs'') 1;
          it = (if iv \<noteq> JNull then let r = parse_intervention index iv in (Some (fst r), snd r)
                else (None, []))
      in (\<lparr>hyp_component = fst cm, hyp_confidence = fst cf, hyp_evidence_refs = fst er,
           hyp_intervention = fst it\<rparr>,
          snd o0 @ snd cm @ snd cf @ snd er @ snd it))"

definition parse_attribution :: "json \<Rightarrow> attribution checked" where
  "parse_attribution v =
     (let path = ''$.attribution'';
          o0 = model_object v path [''hypotheses''] [];
          obj = fst o0;
          ar = model_array (jget obj ''hypotheses'') (sub path ''hypotheses'');
          hs = model_items parse_hypothesis 0 (fst ar);
          uq = unique_issue (sub path ''hypotheses'') ''components must be unique''
                 (map hyp_component (fst hs))
      in (\<lparr>att_hypotheses = fst hs\<rparr>, snd o0 @ snd ar @ snd hs @ uq))"

definition parse_proposed_change :: "json \<Rightarrow> proposed_change checked" where
  "parse_proposed_change v =
     (let path = ''$.proposed_change'';
          o0 = model_object v path
            [''component'', ''summary'', ''prediction'', ''expected_unaffected_behaviors'',
             ''known_risks'', ''changed_surface_count'', ''change_ref''] [];
          obj = fst o0;
          cm = model_enum component_value component_members (jget obj ''component'') (sub path ''component'');
          sm = model_string (jget obj ''summary'') (sub path ''summary'') False;
          pr = model_string (jget obj ''prediction'') (sub path ''prediction'') False;
          eu = model_string_list (jget obj ''expected_unaffected_behaviors'')
                 (sub path ''expected_unaffected_behaviors'') 1;
          kr = model_string_list (jget obj ''known_risks'') (sub path ''known_risks'') 0;
          cs = model_integer (jget obj ''changed_surface_count'') (sub path ''changed_surface_count'') 1;
          cr = model_string (jget obj ''change_ref'') (sub path ''change_ref'') False
      in (\<lparr>pc_component = fst cm, pc_summary = fst sm, pc_prediction = fst pr,
           pc_expected_unaffected_behaviors = fst eu, pc_known_risks = fst kr,
           pc_changed_surface_count = fst cs, pc_change_ref = fst cr\<rparr>,
          snd o0 @ snd cm @ snd sm @ snd pr @ snd eu @ snd kr @ snd cs @ snd cr))"

definition parse_null_hypothesis :: "json \<Rightarrow> null_hypothesis checked" where
  "parse_null_hypothesis v =
     (let path = ''$.null_hypothesis'';
          o0 = model_object v path [''statement'', ''evidence_against''] [];
          obj = fst o0;
          st = model_string (jget obj ''statement'') (sub path ''statement'') False;
          ea = model_string_list (jget obj ''evidence_against'') (sub path ''evidence_against'') 0
      in (\<lparr>nh_statement = fst st, nh_evidence_against = fst ea\<rparr>, snd o0 @ snd st @ snd ea))"

definition optional_number :: "dict \<Rightarrow> string \<Rightarrow> string \<Rightarrow> (rat option) checked" where
  "optional_number obj path field =
     (if \<not> has_key obj field then (None, [])
      else let r = model_number (jget obj field) (sub path field) 0 None in (Some (fst r), snd r))"

definition parse_metric_snapshot :: "json \<Rightarrow> string \<Rightarrow> metric_snapshot checked" where
  "parse_metric_snapshot v path =
     (let o0 = model_object v path [] [''p95_latency_ms'', ''mean_cost_usd'', ''mean_tokens''];
          obj = fst o0;
          lt = optional_number obj path ''p95_latency_ms'';
          ct = optional_number obj path ''mean_cost_usd'';
          tk = optional_number obj path ''mean_tokens''
      in (\<lparr>ms_p95_latency_ms = fst lt, ms_mean_cost_usd = fst ct, ms_mean_tokens = fst tk\<rparr>,
          snd o0 @ snd lt @ snd ct @ snd tk))"

definition parse_validation_case :: "nat \<Rightarrow> json \<Rightarrow> validation_case checked" where
  "parse_validation_case index v =
     (let path = at_index ''$.validation.cases'' index;
          o0 = model_object v path
            [''id'', ''kind'', ''critical'', ''baseline_passed'', ''candidate_passed'', ''evidence_ref''] [];
          obj = fst o0;
          i = model_string (jget obj ''id'') (sub path ''id'') False;
          kd = model_enum validation_kind_value validation_kind_members (jget obj ''kind'') (sub path ''kind'');
          cr = model_boolean (jget obj ''critical'') (sub path ''critical'');
          bp = model_boolean (jget obj ''baseline_passed'') (sub path ''baseline_passed'');
          cp = model_boolean (jget obj ''candidate_passed'') (sub path ''candidate_passed'');
          er = model_string (jget obj ''evidence_ref'') (sub path ''evidence_ref'') False
      in (\<lparr>vc_case_id = fst i, vc_kind = fst kd, vc_critical = fst cr, vc_baseline_passed = fst bp,
           vc_candidate_passed = fst cp, vc_evidence_ref = fst er\<rparr>,
          snd o0 @ snd i @ snd kd @ snd cr @ snd bp @ snd cp @ snd er))"

definition parse_metric_comparison :: "json \<Rightarrow> metric_comparison checked" where
  "parse_metric_comparison v =
     (let path = ''$.validation.metrics'';
          o0 = model_object v path [''baseline'', ''candidate''] [];
          obj = fst o0;
          bl = parse_metric_snapshot (jget obj ''baseline'') (sub path ''baseline'');
          cd = parse_metric_snapshot (jget obj ''candidate'') (sub path ''candidate'')
      in (\<lparr>mc_baseline = fst bl, mc_candidate = fst cd\<rparr>, snd o0 @ snd bl @ snd cd))"

definition parse_validation :: "json \<Rightarrow> validation checked" where
  "parse_validation v =
     (let path = ''$.validation'';
          o0 = model_object v path [''cases''] [''metrics''];
          obj = fst o0;
          ar = model_array (jget obj ''cases'') (sub path ''cases'');
          cases = model_items parse_validation_case 0 (fst ar);
          uq = unique_issue (sub path ''cases'') ''case ids must be unique'' (map vc_case_id (fst cases));
          mv = jget obj ''metrics'';
          ms = (if mv \<noteq> JNull then let r = parse_metric_comparison mv in (Some (fst r), snd r)
                else (None, []))
      in (\<lparr>val_cases = fst cases, val_metrics = fst ms\<rparr>,
          snd o0 @ snd ar @ snd cases @ uq @ snd ms))"

definition case_id_ok :: "string \<Rightarrow> bool" where
  "case_id_ok = head_tail_match is_alnum (\<lambda>c. is_alnum c \<or> c \<in> set ''._-'') 2 127"

definition parse_change_case_checked :: "json \<Rightarrow> change_case checked" where
  "parse_change_case_checked document =
     (let o0 = model_object document ''$''
            [''schema_version'', ''case_id'', ''title'', ''created_at'', ''incident'', ''verification'',
             ''attribution'', ''proposed_change'', ''null_hypothesis'', ''validation''] [];
          obj = fst o0;
          sv = model_string (jget obj ''schema_version'') ''$.schema_version'' False;
          svi = (if fst sv \<noteq> [] \<and> fst sv \<noteq> CASE_SCHEMA_VERSION
                 then [issue ''$.schema_version'' (''unsupported version '' @ py_repr (fst sv) @
                        ''; expected '' @ py_repr CASE_SCHEMA_VERSION)] else []);
          ci = model_string (jget obj ''case_id'') ''$.case_id'' False;
          cii = (if fst ci \<noteq> [] \<and> \<not> case_id_ok (fst ci)
                 then [issue ''$.case_id''
                   ''must be 3-128 characters using letters, digits, dot, underscore, or hyphen''] else []);
          tt = model_string (jget obj ''title'') ''$.title'' False;
          ca = model_timestamp (jget obj ''created_at'') ''$.created_at'';
          inc = parse_incident (jget obj ''incident'');
          ver = parse_verification (jget obj ''verification'');
          att = parse_attribution (jget obj ''attribution'');
          pc = parse_proposed_change (jget obj ''proposed_change'');
          nh = parse_null_hypothesis (jget obj ''null_hypothesis'');
          vl = parse_validation (jget obj ''validation'')
      in (\<lparr>cc_schema_version = fst sv, cc_case_id = fst ci, cc_title = fst tt, cc_created_at = fst ca,
           cc_incident = fst inc, cc_verification = fst ver, cc_attribution = fst att,
           cc_proposed_change = fst pc, cc_null_hypothesis = fst nh, cc_validation = fst vl\<rparr>,
          snd o0 @ snd sv @ svi @ snd ci @ cii @ snd tt @ snd ca @ snd inc @ snd ver @ snd att @
          snd pc @ snd nh @ snd vl))"

definition parse_change_case :: "json \<Rightarrow> document_validation_error + change_case" where
  "parse_change_case document =
     (let r = parse_change_case_checked document in
      if snd r = [] then Inr (fst r)
      else Inl \<lparr>document_name = ''change case'', document_issues = snd r\<rparr>)"

subsection \<open>Rendering\<close>

definition strings_to_json :: "string list \<Rightarrow> json" where
  "strings_to_json xs = JArr (map JStr xs)"

definition incident_to_json :: "incident \<Rightarrow> json" where
  "incident_to_json i = JObj
     [(''claimed_failure'', JStr (inc_claimed_failure i)),
      (''expected_behavior'', JStr (inc_expected_behavior i)),
      (''observed_behavior'', JStr (inc_observed_behavior i)),
      (''severity'', JStr (incident_severity_value (inc_severity i))),
      (''requirement_status'', JStr (requirement_status_value (inc_requirement_status i))),
      (''source_refs'', strings_to_json (inc_source_refs i))]"

definition oracle_to_json :: "failure_oracle \<Rightarrow> json" where
  "oracle_to_json r = JObj
     [(''kind'', JStr (oracle_kind_value (orc_kind r))),
      (''description'', JStr (orc_description r)),
      (''independent'', JBool (orc_independent r)),
      (''evidence_refs'', strings_to_json (orc_evidence_refs r))]"

definition reproduction_trial_to_json :: "reproduction_trial \<Rightarrow> json" where
  "reproduction_trial_to_json t = JObj
     [(''id'', JStr (rt_trial_id t)), (''reproduced'', JBool (rt_reproduced t)),
      (''evidence_ref'', JStr (rt_evidence_ref t))]"

definition verification_to_json :: "verification \<Rightarrow> json" where
  "verification_to_json r = JObj
     [(''oracle'', oracle_to_json (ver_oracle r)),
      (''reproduction_trials'', JArr (map reproduction_trial_to_json (ver_reproduction_trials r)))]"

definition intervention_trial_to_json :: "intervention_trial \<Rightarrow> json" where
  "intervention_trial_to_json t = JObj
     [(''id'', JStr (it_trial_id t)), (''failure_resolved'', JBool (it_failure_resolved t)),
      (''evidence_ref'', JStr (it_evidence_ref t))]"

definition intervention_to_json :: "intervention \<Rightarrow> json" where
  "intervention_to_json r = JObj
     [(''description'', JStr (iv_description r)), (''isolated'', JBool (iv_isolated r)),
      (''held_constant'', strings_to_json (iv_held_constant r)),
      (''trials'', JArr (map intervention_trial_to_json (iv_trials r)))]"

definition omit_none :: "string \<Rightarrow> json option \<Rightarrow> dict" where
  \<comment> \<open>a field with \<open>metadata={"omit_none": True}\<close>\<close>
  "omit_none key v = (case v of None \<Rightarrow> [] | Some j \<Rightarrow> [(key, j)])"

definition hypothesis_to_json :: "hypothesis \<Rightarrow> json" where
  "hypothesis_to_json h = JObj
     ([(''component'', JStr (component_value (hyp_component h))),
       (''confidence'', JFloat (Fin (hyp_confidence h))),
       (''evidence_refs'', strings_to_json (hyp_evidence_refs h))] @
      omit_none ''intervention'' (map_option intervention_to_json (hyp_intervention h)))"

definition attribution_to_json :: "attribution \<Rightarrow> json" where
  "attribution_to_json a = JObj [(''hypotheses'', JArr (map hypothesis_to_json (att_hypotheses a)))]"

definition proposed_change_to_json :: "proposed_change \<Rightarrow> json" where
  "proposed_change_to_json p = JObj
     [(''component'', JStr (component_value (pc_component p))),
      (''summary'', JStr (pc_summary p)),
      (''prediction'', JStr (pc_prediction p)),
      (''expected_unaffected_behaviors'', strings_to_json (pc_expected_unaffected_behaviors p)),
      (''known_risks'', strings_to_json (pc_known_risks p)),
      (''changed_surface_count'', JInt (pc_changed_surface_count p)),
      (''change_ref'', JStr (pc_change_ref p))]"

definition null_hypothesis_to_json :: "null_hypothesis \<Rightarrow> json" where
  "null_hypothesis_to_json n = JObj
     [(''statement'', JStr (nh_statement n)),
      (''evidence_against'', strings_to_json (nh_evidence_against n))]"

definition validation_case_to_json :: "validation_case \<Rightarrow> json" where
  "validation_case_to_json c = JObj
     [(''id'', JStr (vc_case_id c)), (''kind'', JStr (validation_kind_value (vc_kind c))),
      (''critical'', JBool (vc_critical c)), (''baseline_passed'', JBool (vc_baseline_passed c)),
      (''candidate_passed'', JBool (vc_candidate_passed c)), (''evidence_ref'', JStr (vc_evidence_ref c))]"

definition metric_snapshot_to_json :: "metric_snapshot \<Rightarrow> json" where
  "metric_snapshot_to_json s = JObj
     (omit_none ''p95_latency_ms'' (map_option (JFloat \<circ> Fin) (ms_p95_latency_ms s)) @
      omit_none ''mean_cost_usd'' (map_option (JFloat \<circ> Fin) (ms_mean_cost_usd s)) @
      omit_none ''mean_tokens'' (map_option (JFloat \<circ> Fin) (ms_mean_tokens s)))"

definition metric_comparison_to_json :: "metric_comparison \<Rightarrow> json" where
  "metric_comparison_to_json c = JObj
     [(''baseline'', metric_snapshot_to_json (mc_baseline c)),
      (''candidate'', metric_snapshot_to_json (mc_candidate c))]"

definition validation_to_json :: "validation \<Rightarrow> json" where
  "validation_to_json v = JObj
     [(''cases'', JArr (map validation_case_to_json (val_cases v))),
      (''metrics'', case val_metrics v of None \<Rightarrow> JNull | Some m \<Rightarrow> metric_comparison_to_json m)]"

definition change_case_to_json :: "change_case \<Rightarrow> json" where
  "change_case_to_json c = JObj
     [(''schema_version'', JStr (cc_schema_version c)),
      (''case_id'', JStr (cc_case_id c)),
      (''title'', JStr (cc_title c)),
      (''created_at'', JStr (cc_created_at c)),
      (''incident'', incident_to_json (cc_incident c)),
      (''verification'', verification_to_json (cc_verification c)),
      (''attribution'', attribution_to_json (cc_attribution c)),
      (''proposed_change'', proposed_change_to_json (cc_proposed_change c)),
      (''null_hypothesis'', null_hypothesis_to_json (cc_null_hypothesis c)),
      (''validation'', validation_to_json (cc_validation c))]"

subsection \<open>Well-formed cases\<close>

definition text_ok :: "string \<Rightarrow> bool" where
  "text_ok s \<longleftrightarrow> s \<noteq> [] \<and> strip s = s"

definition texts_ok :: "nat \<Rightarrow> string list \<Rightarrow> bool" where
  "texts_ok n xs \<longleftrightarrow> n \<le> length xs \<and> list_all text_ok xs \<and> distinct xs"

definition wf_incident :: "incident \<Rightarrow> bool" where
  "wf_incident i \<longleftrightarrow> text_ok (inc_claimed_failure i) \<and> text_ok (inc_expected_behavior i)
     \<and> text_ok (inc_observed_behavior i) \<and> texts_ok 1 (inc_source_refs i)"

definition wf_oracle :: "failure_oracle \<Rightarrow> bool" where
  "wf_oracle r \<longleftrightarrow> text_ok (orc_description r) \<and> texts_ok 1 (orc_evidence_refs r)"

definition wf_reproduction_trial :: "reproduction_trial \<Rightarrow> bool" where
  "wf_reproduction_trial t \<longleftrightarrow> text_ok (rt_trial_id t) \<and> text_ok (rt_evidence_ref t)"

definition wf_verification :: "verification \<Rightarrow> bool" where
  "wf_verification r \<longleftrightarrow> wf_oracle (ver_oracle r)
     \<and> list_all wf_reproduction_trial (ver_reproduction_trials r)
     \<and> distinct (map rt_trial_id (ver_reproduction_trials r))"

definition wf_intervention_trial :: "intervention_trial \<Rightarrow> bool" where
  "wf_intervention_trial t \<longleftrightarrow> text_ok (it_trial_id t) \<and> text_ok (it_evidence_ref t)"

definition wf_intervention :: "intervention \<Rightarrow> bool" where
  "wf_intervention r \<longleftrightarrow> text_ok (iv_description r) \<and> texts_ok 1 (iv_held_constant r)
     \<and> list_all wf_intervention_trial (iv_trials r) \<and> distinct (map it_trial_id (iv_trials r))"

definition wf_hypothesis :: "hypothesis \<Rightarrow> bool" where
  "wf_hypothesis h \<longleftrightarrow> 0 \<le> hyp_confidence h \<and> hyp_confidence h \<le> 1
     \<and> texts_ok 1 (hyp_evidence_refs h) \<and> pred_option wf_intervention (hyp_intervention h)"

definition wf_attribution :: "attribution \<Rightarrow> bool" where
  "wf_attribution a \<longleftrightarrow> list_all wf_hypothesis (att_hypotheses a)
     \<and> distinct (map hyp_component (att_hypotheses a))"

definition wf_proposed_change :: "proposed_change \<Rightarrow> bool" where
  "wf_proposed_change p \<longleftrightarrow> text_ok (pc_summary p) \<and> text_ok (pc_prediction p)
     \<and> texts_ok 1 (pc_expected_unaffected_behaviors p) \<and> texts_ok 0 (pc_known_risks p)
     \<and> 1 \<le> pc_changed_surface_count p \<and> text_ok (pc_change_ref p)"

definition wf_null_hypothesis :: "null_hypothesis \<Rightarrow> bool" where
  "wf_null_hypothesis n \<longleftrightarrow> text_ok (nh_statement n) \<and> texts_ok 0 (nh_evidence_against n)"

definition wf_validation_case :: "validation_case \<Rightarrow> bool" where
  "wf_validation_case c \<longleftrightarrow> text_ok (vc_case_id c) \<and> text_ok (vc_evidence_ref c)"

definition wf_metric_snapshot :: "metric_snapshot \<Rightarrow> bool" where
  "wf_metric_snapshot s \<longleftrightarrow> pred_option (\<lambda>x. 0 \<le> x) (ms_p95_latency_ms s)
     \<and> pred_option (\<lambda>x. 0 \<le> x) (ms_mean_cost_usd s) \<and> pred_option (\<lambda>x. 0 \<le> x) (ms_mean_tokens s)"

definition wf_metric_comparison :: "metric_comparison \<Rightarrow> bool" where
  "wf_metric_comparison c \<longleftrightarrow> wf_metric_snapshot (mc_baseline c) \<and> wf_metric_snapshot (mc_candidate c)"

definition wf_validation :: "validation \<Rightarrow> bool" where
  "wf_validation v \<longleftrightarrow> list_all wf_validation_case (val_cases v)
     \<and> distinct (map vc_case_id (val_cases v)) \<and> pred_option wf_metric_comparison (val_metrics v)"

definition wf_change_case :: "change_case \<Rightarrow> bool" where
  "wf_change_case c \<longleftrightarrow> cc_schema_version c = CASE_SCHEMA_VERSION
     \<and> text_ok (cc_case_id c) \<and> case_id_ok (cc_case_id c) \<and> text_ok (cc_title c)
     \<and> text_ok (cc_created_at c) \<and> aware_timestamp (cc_created_at c)
     \<and> wf_incident (cc_incident c) \<and> wf_verification (cc_verification c)
     \<and> wf_attribution (cc_attribution c) \<and> wf_proposed_change (cc_proposed_change c)
     \<and> wf_null_hypothesis (cc_null_hypothesis c) \<and> wf_validation (cc_validation c)"

subsection \<open>An accepted value is well-formed\<close>

lemma model_string_text [parse_ok]:
  "snd (model_string v p False) = [] \<Longrightarrow> text_ok (fst (model_string v p False))"
  by (auto simp: model_string_def text_ok_def split: json.splits if_splits)

lemma model_items_all:
  assumes "\<And>i v. snd (f i v) = [] \<Longrightarrow> P (fst (f i v))" and "snd (model_items f i vs) = []"
  shows "list_all P (fst (model_items f i vs))"
  using assms(2) by (induction vs arbitrary: i) (auto simp: Let_def assms(1))

lemma length_model_items [simp]: "length (fst (model_items f i vs)) = length vs"
  by (induction vs arbitrary: i) (simp_all add: Let_def)

lemma model_string_list_texts [parse_ok]:
  assumes "snd (model_string_list v p n) = []"
  shows "texts_ok n (fst (model_string_list v p n))"
proof (cases v)
  case (JArr vs)
  let ?r = "model_items (\<lambda>i x. model_string x (at_index p i) False) 0 vs"
  from assms JArr have "n \<le> length vs" and "snd ?r = []" and "distinct (fst ?r)"
    by (auto simp: model_string_list_def Let_def not_less split: if_splits)
  moreover from \<open>snd ?r = []\<close> have "list_all text_ok (fst ?r)"
    by (rule model_items_all [rotated]) (rule model_string_text)
  ultimately show ?thesis by (simp add: JArr model_string_list_def Let_def texts_ok_def)
qed (use assms in \<open>simp_all add: model_string_list_def\<close>)

lemma model_number_bounds [parse_ok]:
  "snd (model_number v p lo hi) = [] \<Longrightarrow>
     of_int lo \<le> fst (model_number v p lo hi)
     \<and> (case hi of None \<Rightarrow> True | Some m \<Rightarrow> fst (model_number v p lo hi) \<le> of_int m)"
  by (auto simp: model_number_def not_less split: option.splits pyfloat.splits if_splits)

lemma model_integer_bound [parse_ok]:
  "snd (model_integer v p lo) = [] \<Longrightarrow> lo \<le> fst (model_integer v p lo)"
  by (auto simp: model_integer_def split: json.splits if_splits)

lemma unique_issue_Nil [simp]: "unique_issue p m xs = [] \<longleftrightarrow> distinct xs"
  by (simp add: unique_issue_def)

lemma parse_incident_wf: "snd (parse_incident v) = [] \<Longrightarrow> wf_incident (fst (parse_incident v))"
  by (simp add: parse_incident_def wf_incident_def Let_def parse_ok)

lemma parse_oracle_wf: "snd (parse_oracle v) = [] \<Longrightarrow> wf_oracle (fst (parse_oracle v))"
  by (simp add: parse_oracle_def wf_oracle_def Let_def parse_ok)

lemma parse_reproduction_trial_wf:
  "snd (parse_reproduction_trial i v) = [] \<Longrightarrow> wf_reproduction_trial (fst (parse_reproduction_trial i v))"
  by (simp add: parse_reproduction_trial_def wf_reproduction_trial_def Let_def parse_ok)

lemma parse_verification_wf:
  "snd (parse_verification v) = [] \<Longrightarrow> wf_verification (fst (parse_verification v))"
  by (simp add: parse_verification_def wf_verification_def Let_def parse_oracle_wf
      model_items_all [where P = wf_reproduction_trial] parse_reproduction_trial_wf)

lemma parse_intervention_trial_wf:
  "snd (parse_intervention_trial p i v) = [] \<Longrightarrow> wf_intervention_trial (fst (parse_intervention_trial p i v))"
  by (simp add: parse_intervention_trial_def wf_intervention_trial_def Let_def parse_ok)

lemma parse_intervention_wf:
  "snd (parse_intervention i v) = [] \<Longrightarrow> wf_intervention (fst (parse_intervention i v))"
  by (simp add: parse_intervention_def wf_intervention_def Let_def parse_ok
      model_items_all [where P = wf_intervention_trial] parse_intervention_trial_wf)

lemma parse_hypothesis_wf:
  "snd (parse_hypothesis i v) = [] \<Longrightarrow> wf_hypothesis (fst (parse_hypothesis i v))"
  using model_number_bounds [of _ _ 0 "Some 1"]
  by (auto simp: parse_hypothesis_def wf_hypothesis_def Let_def parse_ok parse_intervention_wf)

lemma parse_attribution_wf:
  "snd (parse_attribution v) = [] \<Longrightarrow> wf_attribution (fst (parse_attribution v))"
  by (simp add: parse_attribution_def wf_attribution_def Let_def
      model_items_all [where P = wf_hypothesis] parse_hypothesis_wf)

lemma parse_proposed_change_wf:
  "snd (parse_proposed_change v) = [] \<Longrightarrow> wf_proposed_change (fst (parse_proposed_change v))"
  by (simp add: parse_proposed_change_def wf_proposed_change_def Let_def parse_ok)

lemma parse_null_hypothesis_wf:
  "snd (parse_null_hypothesis v) = [] \<Longrightarrow> wf_null_hypothesis (fst (parse_null_hypothesis v))"
  by (simp add: parse_null_hypothesis_def wf_null_hypothesis_def Let_def parse_ok)

lemma optional_number_nonneg:
  "snd (optional_number obj p f) = [] \<Longrightarrow> pred_option (\<lambda>x. 0 \<le> x) (fst (optional_number obj p f))"
  using model_number_bounds [of _ _ 0 None] by (auto simp: optional_number_def Let_def)

lemma parse_metric_snapshot_wf:
  "snd (parse_metric_snapshot v p) = [] \<Longrightarrow> wf_metric_snapshot (fst (parse_metric_snapshot v p))"
  by (simp add: parse_metric_snapshot_def wf_metric_snapshot_def Let_def optional_number_nonneg)

lemma parse_validation_case_wf:
  "snd (parse_validation_case i v) = [] \<Longrightarrow> wf_validation_case (fst (parse_validation_case i v))"
  by (simp add: parse_validation_case_def wf_validation_case_def Let_def parse_ok)

lemma parse_metric_comparison_wf:
  "snd (parse_metric_comparison v) = [] \<Longrightarrow> wf_metric_comparison (fst (parse_metric_comparison v))"
  by (simp add: parse_metric_comparison_def wf_metric_comparison_def Let_def parse_metric_snapshot_wf)

lemma parse_validation_wf:
  "snd (parse_validation v) = [] \<Longrightarrow> wf_validation (fst (parse_validation v))"
  by (auto simp: parse_validation_def wf_validation_def Let_def parse_metric_comparison_wf
      intro: model_items_all parse_validation_case_wf)

lemma model_timestamp_ok:
  "snd (model_timestamp v p) = [] \<Longrightarrow>
    text_ok (fst (model_timestamp v p)) \<and> aware_timestamp (fst (model_timestamp v p))"
  using model_string_text by (auto simp: model_timestamp_def Let_def text_ok_def split: if_splits)

lemmas parts_wf = parse_incident_wf parse_verification_wf parse_attribution_wf
  parse_proposed_change_wf parse_null_hypothesis_wf parse_validation_wf

lemma parse_change_case_checked_wf:
  assumes "snd (parse_change_case_checked d) = []"
  shows "wf_change_case (fst (parse_change_case_checked d))"
  using assms model_timestamp_ok model_string_text
  by (auto simp: parse_change_case_checked_def wf_change_case_def Let_def parts_wf text_ok_def
      split: if_splits)

subsection \<open>Rendering a well-formed case and parsing it again\<close>

lemma sort_Nil_iff: "sort xs = [] \<longleftrightarrow> xs = []"
  by (metis length_0_conv length_sort)

lemma model_object_closed:
  "snd (model_object v p req opt) = [] \<longleftrightarrow>
     (\<exists>obj. v = JObj obj \<and> set req \<subseteq> set (map fst obj) \<and> set (map fst obj) \<subseteq> set req \<union> set opt)"
  by (cases v) (auto simp: model_object_def has_key_def filter_empty_conv subset_iff sort_Nil_iff)

lemma model_object_run [parse_run]:
  assumes "set req \<subseteq> set (map fst obj)" "set (map fst obj) \<subseteq> set req \<union> set opt"
  shows "model_object (JObj obj) p req opt = (obj, [])"
  using model_object_closed [of "JObj obj" p req opt] assms
  by (simp add: model_object_def)

lemma model_string_run [parse_run]: "text_ok s \<Longrightarrow> model_string (JStr s) p False = (s, [])"
  by (simp add: model_string_def text_ok_def)

lemma model_boolean_run [parse_run]: "model_boolean (JBool b) p = (b, [])"
  by (simp add: model_boolean_def)

lemma model_integer_run [parse_run]: "lo \<le> i \<Longrightarrow> model_integer (JInt i) p lo = (i, [])"
  by (simp add: model_integer_def)

lemma model_number_run [parse_run]:
  "of_int lo \<le> x \<Longrightarrow> (case hi of None \<Rightarrow> True | Some m \<Rightarrow> x \<le> of_int m) \<Longrightarrow>
     model_number (JFloat (Fin x)) p lo hi = (x, [])"
  by (auto simp: model_number_def number_as_float_def split: option.splits)

lemma model_enum_run:
  "enum_lookup val members (val m) = Some m \<Longrightarrow> model_enum val members (JStr (val m)) p = (m, [])"
  by (simp add: model_enum_def Let_def)

lemma model_items_run:
  assumes "\<And>i x. x \<in> set xs \<Longrightarrow> f i (g x) = (x, [])"
  shows "model_items f k (map g xs) = (xs, [])"
  using assms by (induction xs arbitrary: k) (simp_all add: Let_def)

lemma model_array_run [parse_run]: "model_array (JArr vs) p = (vs, [])"
  by (simp add: model_array_def)

lemma model_string_list_run [parse_run]:
  assumes "texts_ok n xs"
  shows "model_string_list (strings_to_json xs) p n = (xs, [])"
proof -
  have "model_items (\<lambda>i x. model_string x (at_index p i) False) 0 (map JStr xs) = (xs, [])"
    using assms by (intro model_items_run) (auto simp: texts_ok_def list_all_iff model_string_run)
  then show ?thesis using assms by (simp add: model_string_list_def strings_to_json_def texts_ok_def)
qed

lemmas enum_runs [parse_run] =
  model_enum_run [OF incident_severity.lookup_value]
  model_enum_run [OF requirement_status.lookup_value]
  model_enum_run [OF oracle_kind.lookup_value]
  model_enum_run [OF component.lookup_value]
  model_enum_run [OF validation_kind.lookup_value]

lemma parse_incident_run: "wf_incident i \<Longrightarrow> parse_incident (incident_to_json i) = (i, [])"
  by (simp add: parse_incident_def incident_to_json_def wf_incident_def parse_run)

lemma parse_oracle_run: "wf_oracle r \<Longrightarrow> parse_oracle (oracle_to_json r) = (r, [])"
  by (simp add: parse_oracle_def oracle_to_json_def wf_oracle_def parse_run)

lemma parse_reproduction_trial_run:
  "wf_reproduction_trial t \<Longrightarrow> parse_reproduction_trial i (reproduction_trial_to_json t) = (t, [])"
  by (simp add: parse_reproduction_trial_def reproduction_trial_to_json_def wf_reproduction_trial_def parse_run)

lemma parse_verification_run:
  assumes "wf_verification r"
  shows "parse_verification (verification_to_json r) = (r, [])"
proof -
  have "model_items parse_reproduction_trial 0 (map reproduction_trial_to_json (ver_reproduction_trials r))
      = (ver_reproduction_trials r, [])"
    using assms by (intro model_items_run) (auto simp: wf_verification_def list_all_iff parse_reproduction_trial_run)
  with assms show ?thesis
    by (simp add: parse_verification_def verification_to_json_def wf_verification_def parse_run
        parse_oracle_run)
qed

lemma parse_intervention_trial_run:
  "wf_intervention_trial t \<Longrightarrow> parse_intervention_trial p i (intervention_trial_to_json t) = (t, [])"
  by (simp add: parse_intervention_trial_def intervention_trial_to_json_def wf_intervention_trial_def parse_run)

lemma parse_intervention_run:
  assumes "wf_intervention r"
  shows "parse_intervention i (intervention_to_json r) = (r, [])"
proof -
  have "model_items (parse_intervention_trial p) 0 (map intervention_trial_to_json (iv_trials r))
      = (iv_trials r, [])" for p
    using assms by (intro model_items_run) (auto simp: wf_intervention_def list_all_iff parse_intervention_trial_run)
  with assms show ?thesis
    by (simp add: parse_intervention_def intervention_to_json_def wf_intervention_def parse_run)
qed

lemma parse_hypothesis_run:
  "wf_hypothesis h \<Longrightarrow> parse_hypothesis i (hypothesis_to_json h) = (h, [])"
  by (cases "hyp_intervention h")
    (auto simp: parse_hypothesis_def hypothesis_to_json_def wf_hypothesis_def parse_run omit_none_def
      parse_intervention_run intervention_to_json_def [THEN arg_cong, of "\<lambda>j. j = JNull"])

lemma parse_attribution_run:
  assumes "wf_attribution a"
  shows "parse_attribution (attribution_to_json a) = (a, [])"
proof -
  have "model_items parse_hypothesis 0 (map hypothesis_to_json (att_hypotheses a)) = (att_hypotheses a, [])"
    using assms by (intro model_items_run) (auto simp: wf_attribution_def list_all_iff parse_hypothesis_run)
  with assms show ?thesis
    by (simp add: parse_attribution_def attribution_to_json_def wf_attribution_def parse_run)
qed

lemma parse_proposed_change_run:
  "wf_proposed_change p \<Longrightarrow> parse_proposed_change (proposed_change_to_json p) = (p, [])"
  by (simp add: parse_proposed_change_def proposed_change_to_json_def wf_proposed_change_def parse_run)

lemma parse_null_hypothesis_run:
  "wf_null_hypothesis n \<Longrightarrow> parse_null_hypothesis (null_hypothesis_to_json n) = (n, [])"
  by (simp add: parse_null_hypothesis_def null_hypothesis_to_json_def wf_null_hypothesis_def parse_run)

lemma parse_metric_snapshot_run:
  "wf_metric_snapshot s \<Longrightarrow> parse_metric_snapshot (metric_snapshot_to_json s) p = (s, [])"
  by (cases "ms_p95_latency_ms s"; cases "ms_mean_cost_usd s"; cases "ms_mean_tokens s")
    (simp_all add: parse_metric_snapshot_def metric_snapshot_to_json_def wf_metric_snapshot_def
      omit_none_def optional_number_def has_key_def parse_run)

lemma parse_metric_comparison_run:
  "wf_metric_comparison c \<Longrightarrow> parse_metric_comparison (metric_comparison_to_json c) = (c, [])"
  by (simp add: parse_metric_comparison_def metric_comparison_to_json_def wf_metric_comparison_def
      parse_run parse_metric_snapshot_run)

lemma parse_validation_case_run:
  "wf_validation_case c \<Longrightarrow> parse_validation_case i (validation_case_to_json c) = (c, [])"
  by (simp add: parse_validation_case_def validation_case_to_json_def wf_validation_case_def parse_run)

lemma parse_validation_run:
  assumes "wf_validation v"
  shows "parse_validation (validation_to_json v) = (v, [])"
proof -
  have "model_items parse_validation_case 0 (map validation_case_to_json (val_cases v)) = (val_cases v, [])"
    using assms by (intro model_items_run) (auto simp: wf_validation_def list_all_iff parse_validation_case_run)
  moreover have "metric_comparison_to_json c \<noteq> JNull" for c
    by (simp add: metric_comparison_to_json_def)
  ultimately show ?thesis using assms
    by (cases "val_metrics v")
      (simp_all add: parse_validation_def validation_to_json_def wf_validation_def parse_run
        parse_metric_comparison_run)
qed

lemma model_timestamp_run:
  "text_ok s \<Longrightarrow> aware_timestamp s \<Longrightarrow> model_timestamp (JStr s) p = (s, [])"
  by (simp add: model_timestamp_def Let_def model_string_run)

lemmas parts_run = parse_incident_run parse_verification_run parse_attribution_run
  parse_proposed_change_run parse_null_hypothesis_run parse_validation_run

lemma schema_version_text: "text_ok CASE_SCHEMA_VERSION"
  by (simp add: CASE_SCHEMA_VERSION_def text_ok_def strip_def is_space_def)

lemma parse_change_case_checked_run:
  assumes "wf_change_case c"
  shows "parse_change_case_checked (change_case_to_json c) = (c, [])"
proof -
  define obj where "obj =
     [(''schema_version'', JStr (cc_schema_version c)), (''case_id'', JStr (cc_case_id c)),
      (''title'', JStr (cc_title c)), (''created_at'', JStr (cc_created_at c)),
      (''incident'', incident_to_json (cc_incident c)),
      (''verification'', verification_to_json (cc_verification c)),
      (''attribution'', attribution_to_json (cc_attribution c)),
      (''proposed_change'', proposed_change_to_json (cc_proposed_change c)),
      (''null_hypothesis'', null_hypothesis_to_json (cc_null_hypothesis c)),
      (''validation'', validation_to_json (cc_validation c))]"
  have json: "change_case_to_json c = JObj obj" by (simp add: change_case_to_json_def obj_def)
  have o0: "model_object (JObj obj) ''$''
            [''schema_version'', ''case_id'', ''title'', ''created_at'', ''incident'', ''verification'',
             ''attribution'', ''proposed_change'', ''null_hypothesis'', ''validation''] [] = (obj, [])"
    by (rule model_object_run) (simp_all add: obj_def)
  have gets: "jget obj ''schema_version'' = JStr (cc_schema_version c)"
    "jget obj ''case_id'' = JStr (cc_case_id c)" "jget obj ''title'' = JStr (cc_title c)"
    "jget obj ''created_at'' = JStr (cc_created_at c)"
    "jget obj ''incident'' = incident_to_json (cc_incident c)"
    "jget obj ''verification'' = verification_to_json (cc_verification c)"
    "jget obj ''attribution'' = attribution_to_json (cc_attribution c)"
    "jget obj ''proposed_change'' = proposed_change_to_json (cc_proposed_change c)"
    "jget obj ''null_hypothesis'' = null_hypothesis_to_json (cc_null_hypothesis c)"
    "jget obj ''validation'' = validation_to_json (cc_validation c)"
    by (simp_all add: obj_def)
  have wf: "cc_schema_version c = CASE_SCHEMA_VERSION"
    "text_ok (cc_case_id c)" "case_id_ok (cc_case_id c)" "text_ok (cc_title c)"
    "text_ok (cc_created_at c)" "aware_timestamp (cc_created_at c)"
    "wf_incident (cc_incident c)" "wf_verification (cc_verification c)"
    "wf_attribution (cc_attribution c)" "wf_proposed_change (cc_proposed_change c)"
    "wf_null_hypothesis (cc_null_hypothesis c)" "wf_validation (cc_validation c)"
    using assms by (simp_all add: wf_change_case_def)
  show ?thesis
    unfolding json parse_change_case_checked_def Let_def o0 fst_conv snd_conv gets
    by (cases c) (use wf in \<open>simp add: schema_version_text model_string_run model_timestamp_run parts_run\<close>)
qed

lemma parse_change_case_Inr:
  "parse_change_case d = Inr c \<longleftrightarrow> snd (parse_change_case_checked d) = [] \<and> c = fst (parse_change_case_checked d)"
  by (auto simp: parse_change_case_def Let_def)

lemma parse_change_case_wf: "parse_change_case d = Inr c \<Longrightarrow> wf_change_case c"
  using parse_change_case_checked_wf by (auto simp: parse_change_case_Inr)

lemma parse_change_case_run: "wf_change_case c \<Longrightarrow> parse_change_case (change_case_to_json c) = Inr c"
  by (simp add: parse_change_case_Inr parse_change_case_checked_run)

definition case_keys :: "string list" where
  "case_keys = [''schema_version'', ''case_id'', ''title'', ''created_at'', ''incident'', ''verification'',
     ''attribution'', ''proposed_change'', ''null_hypothesis'', ''validation'']"

lemma parse_change_case_checked_closed:
  "snd (parse_change_case_checked d) = [] \<Longrightarrow> \<exists>obj. d = JObj obj \<and> set (map fst obj) = set case_keys"
  using model_object_closed [of d "''$''" case_keys "[]"]
  by (auto simp: parse_change_case_checked_def case_keys_def Let_def)

subsection \<open>Properties\<close>

text \<open>
  C5. Parsing what \<open>to_dict\<close> renders gives back the same change case exactly when the case is
  well formed (non-empty texts, counts, confidences and metrics in range, unique ids, an aware
  timestamp, the current schema version); so the normal form whose digest a review records
  determines the case.
\<close>
theorem change_case_roundtrip: "parse_change_case (change_case_to_json c) = Inr c \<longleftrightarrow> wf_change_case c"
  using parse_change_case_run parse_change_case_wf by blast

text \<open>
  C6. Whatever JSON document is supplied, a case that \<open>parse_change_case\<close> accepts is well formed.
\<close>
theorem parse_change_case_sound:
  "pred_option wf_change_case (case parse_change_case d of Inl _ \<Rightarrow> None | Inr c \<Rightarrow> Some c)"
  using parse_change_case_wf by (auto split: sum.split)

text \<open>
  The parser is closed: a document with an unknown top-level key, or without one of the ten
  required keys, is never accepted, and neither is anything that is not an object.
\<close>
theorem parse_change_case_closed:
  "(\<exists>obj. d = JObj obj \<and> set (map fst obj) = set case_keys) \<or> (\<exists>e. parse_change_case d = Inl e)"
  using parse_change_case_checked_closed [of d] parse_change_case_Inr [of d]
  by (cases "parse_change_case d") auto

end
