(* ===== verification/Policy.thy ===== *)
theory Policy
  imports Models
begin

text \<open>
  \<open>policy.py\<close>: the gate policy, its defaults, and the parser of sparse overrides. The four
  tables give, for each group of fields the source lists as a set, the field and its setter;
  \<open>dataclasses.replace\<close> on the collected values is the composition of those setters.
\<close>

record gate_policy =
  gp_name :: string
  gp_min_reproduction_trials :: int
  gp_min_reproduction_rate :: rat
  gp_require_independent_oracle :: bool
  gp_min_attribution_confidence :: rat
  gp_min_attribution_margin :: rat
  gp_min_intervention_trials :: int
  gp_min_intervention_success_rate :: rat
  gp_require_isolated_intervention :: bool
  gp_max_changed_surfaces :: int
  gp_min_positive_controls :: int
  gp_min_positive_pass_rate :: rat
  gp_min_negative_controls :: int
  gp_min_negative_pass_rate :: rat
  gp_min_regression_controls :: int
  gp_min_regression_pass_rate :: rat
  gp_allow_critical_regressions :: bool
  gp_require_metrics_for_approval :: bool
  gp_max_cost_increase_ratio :: rat
  gp_max_latency_increase_ratio :: rat
  gp_block_on_metric_regression :: bool

definition default_policy :: gate_policy where
  "default_policy = \<lparr>
     gp_name = DEFAULT_POLICY_NAME,
     gp_min_reproduction_trials = 3,
     gp_min_reproduction_rate = fl (67 / 100),
     gp_require_independent_oracle = True,
     gp_min_attribution_confidence = fl (7 / 10),
     gp_min_attribution_margin = fl (3 / 20),
     gp_min_intervention_trials = 3,
     gp_min_intervention_success_rate = fl (67 / 100),
     gp_require_isolated_intervention = True,
     gp_max_changed_surfaces = 1,
     gp_min_positive_controls = 1,
     gp_min_positive_pass_rate = 1,
     gp_min_negative_controls = 1,
     gp_min_negative_pass_rate = 1,
     gp_min_regression_controls = 3,
     gp_min_regression_pass_rate = fl (49 / 50),
     gp_allow_critical_regressions = False,
     gp_require_metrics_for_approval = True,
     gp_max_cost_increase_ratio = fl (1 / 10),
     gp_max_latency_increase_ratio = fl (3 / 20),
     gp_block_on_metric_regression = False\<rparr>"

definition integer_fields :: "(string \<times> (int \<Rightarrow> gate_policy \<Rightarrow> gate_policy)) list" where
  "integer_fields =
     [(''min_reproduction_trials'', \<lambda>x p. p\<lparr>gp_min_reproduction_trials := x\<rparr>),
      (''min_intervention_trials'', \<lambda>x p. p\<lparr>gp_min_intervention_trials := x\<rparr>),
      (''max_changed_surfaces'', \<lambda>x p. p\<lparr>gp_max_changed_surfaces := x\<rparr>),
      (''min_positive_controls'', \<lambda>x p. p\<lparr>gp_min_positive_controls := x\<rparr>),
      (''min_negative_controls'', \<lambda>x p. p\<lparr>gp_min_negative_controls := x\<rparr>),
      (''min_regression_controls'', \<lambda>x p. p\<lparr>gp_min_regression_controls := x\<rparr>)]"

definition rate_fields :: "(string \<times> (rat \<Rightarrow> gate_policy \<Rightarrow> gate_policy)) list" where
  "rate_fields =
     [(''min_reproduction_rate'', \<lambda>x p. p\<lparr>gp_min_reproduction_rate := x\<rparr>),
      (''min_attribution_confidence'', \<lambda>x p. p\<lparr>gp_min_attribution_confidence := x\<rparr>),
      (''min_attribution_margin'', \<lambda>x p. p\<lparr>gp_min_attribution_margin := x\<rparr>),
      (''min_intervention_success_rate'', \<lambda>x p. p\<lparr>gp_min_intervention_success_rate := x\<rparr>),
      (''min_positive_pass_rate'', \<lambda>x p. p\<lparr>gp_min_positive_pass_rate := x\<rparr>),
      (''min_negative_pass_rate'', \<lambda>x p. p\<lparr>gp_min_negative_pass_rate := x\<rparr>),
      (''min_regression_pass_rate'', \<lambda>x p. p\<lparr>gp_min_regression_pass_rate := x\<rparr>)]"

definition nonnegative_number_fields :: "(string \<times> (rat \<Rightarrow> gate_policy \<Rightarrow> gate_policy)) list" where
  "nonnegative_number_fields =
     [(''max_cost_increase_ratio'', \<lambda>x p. p\<lparr>gp_max_cost_increase_ratio := x\<rparr>),
      (''max_latency_increase_ratio'', \<lambda>x p. p\<lparr>gp_max_latency_increase_ratio := x\<rparr>)]"

definition boolean_fields :: "(string \<times> (bool \<Rightarrow> gate_policy \<Rightarrow> gate_policy)) list" where
  "boolean_fields =
     [(''require_independent_oracle'', \<lambda>x p. p\<lparr>gp_require_independent_oracle := x\<rparr>),
      (''require_isolated_intervention'', \<lambda>x p. p\<lparr>gp_require_isolated_intervention := x\<rparr>),
      (''allow_critical_regressions'', \<lambda>x p. p\<lparr>gp_allow_critical_regressions := x\<rparr>),
      (''require_metrics_for_approval'', \<lambda>x p. p\<lparr>gp_require_metrics_for_approval := x\<rparr>),
      (''block_on_metric_regression'', \<lambda>x p. p\<lparr>gp_block_on_metric_regression := x\<rparr>)]"

definition policy_field_names :: "string list" where
  "policy_field_names = ''name'' # map fst integer_fields @ map fst rate_fields
     @ map fst nonnegative_number_fields @ map fst boolean_fields"

definition finite_float :: "json \<Rightarrow> rat option" where
  "finite_float v = (case number_as_float v of Some (Fin x) \<Rightarrow> Some x | _ \<Rightarrow> None)"

definition policy_item :: "string \<Rightarrow> json \<Rightarrow> gate_policy \<Rightarrow> gate_policy checked" where
  "policy_item key v p =
     (let path = ''$.'' @ key in
      if key = ''name'' then
        (case v of JStr s \<Rightarrow> if strip s = [] then (p, [issue path ''must be a non-empty string''])
                            else (p\<lparr>gp_name := strip s\<rparr>, [])
         | _ \<Rightarrow> (p, [issue path ''must be a non-empty string'']))
      else case map_of integer_fields key of
        Some set_field \<Rightarrow>
          (case v of JInt i \<Rightarrow> if i < 1 then (p, [issue path ''must be an integer of at least 1''])
                              else (set_field i p, [])
           | _ \<Rightarrow> (p, [issue path ''must be an integer of at least 1'']))
      | None \<Rightarrow> (case map_of rate_fields key of
        Some set_field \<Rightarrow>
          (case finite_float v of
             Some x \<Rightarrow> if 0 \<le> x \<and> x \<le> 1 then (set_field x p, [])
                       else (p, [issue path ''must be a number between 0 and 1''])
           | None \<Rightarrow> (p, [issue path ''must be a number between 0 and 1'']))
      | None \<Rightarrow> (case map_of nonnegative_number_fields key of
        Some set_field \<Rightarrow>
          (case finite_float v of
             Some x \<Rightarrow> if x < 0 then (p, [issue path ''must be a non-negative number''])
                       else (set_field x p, [])
           | None \<Rightarrow> (p, [issue path ''must be a non-negative number'']))
      | None \<Rightarrow> (case map_of boolean_fields key of
        Some set_field \<Rightarrow>
          (case v of JBool b \<Rightarrow> (set_field b p, [])
           | _ \<Rightarrow> (p, [issue path ''must be a boolean'']))
      | None \<Rightarrow> (p, [])))))"

fun policy_items :: "dict \<Rightarrow> gate_policy \<Rightarrow> gate_policy checked" where
  "policy_items [] p = (p, [])"
| "policy_items ((key, v) # rest) p =
     (let r = policy_item key v p; rs = policy_items rest (fst r) in (fst rs, snd r @ snd rs))"

definition parse_policy :: "json \<Rightarrow> document_validation_error + gate_policy" where
  "parse_policy document =
     (case document of
        JNull \<Rightarrow> Inr default_policy
      | JObj obj \<Rightarrow>
          (let unknown = map (\<lambda>k. issue (''$.'' @ k) ''is not allowed'')
                 (sort (filter (\<lambda>k. k \<notin> set policy_field_names) (map fst obj)));
               r = policy_items obj default_policy
           in if unknown @ snd r = [] then Inr (fst r)
              else Inl \<lparr>document_name = ''gate policy'', document_issues = unknown @ snd r\<rparr>)
      | _ \<Rightarrow> Inl \<lparr>document_name = ''gate policy'', document_issues = [issue ''$'' ''must be an object'']\<rparr>)"

definition policy_to_dict :: "gate_policy \<Rightarrow> json" where
  "policy_to_dict p = JObj
     [(''name'', JStr (gp_name p)),
      (''min_reproduction_trials'', JInt (gp_min_reproduction_trials p)),
      (''min_reproduction_rate'', JFloat (Fin (gp_min_reproduction_rate p))),
      (''require_independent_oracle'', JBool (gp_require_independent_oracle p)),
      (''min_attribution_confidence'', JFloat (Fin (gp_min_attribution_confidence p))),
      (''min_attribution_margin'', JFloat (Fin (gp_min_attribution_margin p))),
      (''min_intervention_trials'', JInt (gp_min_intervention_trials p)),
      (''min_intervention_success_rate'', JFloat (Fin (gp_min_intervention_success_rate p))),
      (''require_isolated_intervention'', JBool (gp_require_isolated_intervention p)),
      (''max_changed_surfaces'', JInt (gp_max_changed_surfaces p)),
      (''min_positive_controls'', JInt (gp_min_positive_controls p)),
      (''min_positive_pass_rate'', JFloat (Fin (gp_min_positive_pass_rate p))),
      (''min_negative_controls'', JInt (gp_min_negative_controls p)),
      (''min_negative_pass_rate'', JFloat (Fin (gp_min_negative_pass_rate p))),
      (''min_regression_controls'', JInt (gp_min_regression_controls p)),
      (''min_regression_pass_rate'', JFloat (Fin (gp_min_regression_pass_rate p))),
      (''allow_critical_regressions'', JBool (gp_allow_critical_regressions p)),
      (''require_metrics_for_approval'', JBool (gp_require_metrics_for_approval p)),
      (''max_cost_increase_ratio'', JFloat (Fin (gp_max_cost_increase_ratio p))),
      (''max_latency_increase_ratio'', JFloat (Fin (gp_max_latency_increase_ratio p))),
      (''block_on_metric_regression'', JBool (gp_block_on_metric_regression p))]"

subsection \<open>Well-formed policies\<close>

definition wf_policy :: "gate_policy \<Rightarrow> bool" where
  "wf_policy p \<longleftrightarrow> gp_name p \<noteq> [] \<and> strip (gp_name p) = gp_name p
     \<and> 1 \<le> gp_min_reproduction_trials p
     \<and> 1 \<le> gp_min_intervention_trials p
     \<and> 1 \<le> gp_max_changed_surfaces p
     \<and> 1 \<le> gp_min_positive_controls p
     \<and> 1 \<le> gp_min_negative_controls p
     \<and> 1 \<le> gp_min_regression_controls p
     \<and> 0 \<le> gp_min_reproduction_rate p \<and> gp_min_reproduction_rate p \<le> 1
     \<and> 0 \<le> gp_min_attribution_confidence p \<and> gp_min_attribution_confidence p \<le> 1
     \<and> 0 \<le> gp_min_attribution_margin p \<and> gp_min_attribution_margin p \<le> 1
     \<and> 0 \<le> gp_min_intervention_success_rate p \<and> gp_min_intervention_success_rate p \<le> 1
     \<and> 0 \<le> gp_min_positive_pass_rate p \<and> gp_min_positive_pass_rate p \<le> 1
     \<and> 0 \<le> gp_min_negative_pass_rate p \<and> gp_min_negative_pass_rate p \<le> 1
     \<and> 0 \<le> gp_min_regression_pass_rate p \<and> gp_min_regression_pass_rate p \<le> 1
     \<and> 0 \<le> gp_max_cost_increase_ratio p
     \<and> 0 \<le> gp_max_latency_increase_ratio p"

lemmas policy_tables = integer_fields_def rate_fields_def nonnegative_number_fields_def boolean_fields_def

lemma fl_unit: "0 \<le> x \<Longrightarrow> x \<le> 1 \<Longrightarrow> 0 \<le> fl x \<and> fl x \<le> 1"
  using fl_nonneg [of x] fl_mono [of x 1] by simp

lemma default_policy_wf: "wf_policy default_policy"
  by (simp add: wf_policy_def default_policy_def DEFAULT_POLICY_NAME_def fl_unit fl_nonneg
      strip_def is_space_def)

lemma integer_field_wf:
  "map_of integer_fields key = Some f \<Longrightarrow> 1 \<le> i \<Longrightarrow> wf_policy p \<Longrightarrow> wf_policy (f i p)"
  by (auto simp: integer_fields_def wf_policy_def split: if_splits)

lemma rate_field_wf:
  "map_of rate_fields key = Some f \<Longrightarrow> 0 \<le> x \<Longrightarrow> x \<le> 1 \<Longrightarrow> wf_policy p \<Longrightarrow> wf_policy (f x p)"
  by (auto simp: rate_fields_def wf_policy_def split: if_splits)

lemma nonnegative_field_wf:
  "map_of nonnegative_number_fields key = Some f \<Longrightarrow> 0 \<le> x \<Longrightarrow> wf_policy p \<Longrightarrow> wf_policy (f x p)"
  by (auto simp: nonnegative_number_fields_def wf_policy_def split: if_splits)

lemma boolean_field_wf:
  "map_of boolean_fields key = Some f \<Longrightarrow> wf_policy p \<Longrightarrow> wf_policy (f b p)"
  by (auto simp: boolean_fields_def wf_policy_def split: if_splits)

lemma name_field_wf: "strip s \<noteq> [] \<Longrightarrow> wf_policy p \<Longrightarrow> wf_policy (p\<lparr>gp_name := strip s\<rparr>)"
  by (simp add: wf_policy_def)

lemmas policy_field_wf = integer_field_wf rate_field_wf nonnegative_field_wf boolean_field_wf name_field_wf

lemma policy_item_wf: "wf_policy p \<Longrightarrow> wf_policy (fst (policy_item key v p))"
  by (auto simp: policy_item_def Let_def policy_field_wf not_less split: json.split option.split)

lemma policy_items_wf: "wf_policy p \<Longrightarrow> wf_policy (fst (policy_items obj p))"
  by (induction obj p rule: policy_items.induct) (simp_all add: Let_def policy_item_wf)

subsection \<open>Rendering and parsing a policy\<close>

lemma policy_item_integer:
  "map_of integer_fields key = Some f \<Longrightarrow> 1 \<le> i \<Longrightarrow> policy_item key (JInt i) q = (f i q, [])"
  by (auto simp: policy_item_def integer_fields_def split: if_splits)

lemma policy_item_rate:
  "map_of rate_fields key = Some f \<Longrightarrow> 0 \<le> x \<Longrightarrow> x \<le> 1 \<Longrightarrow>
     policy_item key (JFloat (Fin x)) q = (f x q, [])"
  by (auto simp: policy_item_def integer_fields_def rate_fields_def finite_float_def
      number_as_float_def split: if_splits)

lemma policy_item_nonnegative:
  "map_of nonnegative_number_fields key = Some f \<Longrightarrow> 0 \<le> x \<Longrightarrow>
     policy_item key (JFloat (Fin x)) q = (f x q, [])"
  by (auto simp: policy_item_def integer_fields_def rate_fields_def nonnegative_number_fields_def
      finite_float_def number_as_float_def split: if_splits)

lemma policy_item_boolean:
  "map_of boolean_fields key = Some f \<Longrightarrow> policy_item key (JBool b) q = (f b q, [])"
  by (auto simp: policy_item_def policy_tables split: if_splits)

lemma policy_item_name:
  "s \<noteq> [] \<Longrightarrow> strip s = s \<Longrightarrow> policy_item ''name'' (JStr s) q = (q\<lparr>gp_name := s\<rparr>, [])"
  by (simp add: policy_item_def)

lemmas policy_item_run = policy_item_integer policy_item_rate policy_item_nonnegative
  policy_item_boolean policy_item_name

lemma policy_field_names_eq:
  "policy_field_names = [''name'', ''min_reproduction_trials'', ''min_intervention_trials'',
     ''max_changed_surfaces'', ''min_positive_controls'', ''min_negative_controls'',
     ''min_regression_controls'', ''min_reproduction_rate'', ''min_attribution_confidence'',
     ''min_attribution_margin'', ''min_intervention_success_rate'', ''min_positive_pass_rate'',
     ''min_negative_pass_rate'', ''min_regression_pass_rate'', ''max_cost_increase_ratio'',
     ''max_latency_increase_ratio'', ''require_independent_oracle'', ''require_isolated_intervention'',
     ''allow_critical_regressions'', ''require_metrics_for_approval'', ''block_on_metric_regression'']"
  by (simp add: policy_field_names_def policy_tables)

lemma parse_policy_run:
  assumes "wf_policy p"
  shows "parse_policy (policy_to_dict p) = Inr p"
proof -
  obtain obj where obj: "policy_to_dict p = JObj obj" by (simp add: policy_to_dict_def)
  have known: "filter (\<lambda>k. k \<notin> set policy_field_names) (map fst obj) = []"
    using obj [symmetric] by (simp add: policy_to_dict_def policy_field_names_eq)
  have "policy_items obj default_policy = (p, [])"
    using assms obj [symmetric]
    by (cases p) (simp add: policy_to_dict_def policy_item_run policy_tables wf_policy_def default_policy_def)
  then show ?thesis by (simp add: parse_policy_def obj known)
qed

lemma parse_policy_wf: "parse_policy d = Inr p \<Longrightarrow> wf_policy p"
  using default_policy_wf
  by (auto simp: parse_policy_def Let_def policy_items_wf split: json.splits if_splits)

subsection \<open>Properties\<close>

text \<open>
  C40. Rendering a policy with \<open>to_dict\<close> and parsing it again gives it back exactly when the policy
  is within the documented ranges; every other policy value is refused or changed by the parser.
\<close>
theorem policy_roundtrip: "parse_policy (policy_to_dict p) = Inr p \<longleftrightarrow> wf_policy p"
  using parse_policy_run parse_policy_wf by blast

text \<open>
  Whatever the input document, an accepted policy is within its ranges: trial counts at least 1,
  rates between 0 and 1, increase bounds non-negative, a stripped non-empty name.
\<close>
theorem parse_policy_sound: "pred_option wf_policy (case parse_policy d of Inl _ \<Rightarrow> None | Inr p \<Rightarrow> Some p)"
  using parse_policy_wf by (auto split: sum.split)

end
