(* ===== verification/Engine.thy ===== *)
theory Engine
  imports Case_Parser Policy
begin

text \<open>
  \<open>engine.py\<close>: the evidence gate. Each block of \<open>review_case\<close> that calls \<open>add\<close> is a
  definition returning the findings it adds; \<open>review_findings\<close> runs them in the source's order
  and \<open>review_metrics\<close> builds the metrics dictionary in the same order. The digest of the
  normalised document is a parameter.
\<close>

subsection \<open>Results\<close>

record finding =
  f_code :: string
  f_status :: check_status
  f_consequence :: consequence
  f_message :: string
  f_details :: dict

record review_result =
  rr_schema_version :: string
  rr_engine_version :: string
  rr_policy_name :: string
  rr_case_id :: string
  rr_case_title :: string
  rr_component :: component
  rr_input_sha256 :: string
  rr_reviewed_at :: string
  rr_decision :: decision
  rr_recommended_action :: recommended_action
  rr_summary :: string
  rr_metrics :: dict
  rr_findings :: "finding list"

definition add_pass :: "string \<Rightarrow> string \<Rightarrow> dict \<Rightarrow> finding" where
  "add_pass code message details = \<lparr>f_code = code, f_status = CheckStatus_PASS,
     f_consequence = Consequence_NONE, f_message = message, f_details = details\<rparr>"

definition add_fail :: "string \<Rightarrow> consequence \<Rightarrow> string \<Rightarrow> dict \<Rightarrow> finding" where
  "add_fail code consequence message details = \<lparr>f_code = code, f_status = CheckStatus_FAIL,
     f_consequence = consequence, f_message = message, f_details = details\<rparr>"

definition add_warning :: "string \<Rightarrow> consequence \<Rightarrow> string \<Rightarrow> dict \<Rightarrow> finding" where
  "add_warning code consequence message details = \<lparr>f_code = code, f_status = CheckStatus_WARNING,
     f_consequence = consequence, f_message = message, f_details = details\<rparr>"

subsection \<open>Rates and ratios\<close>

definition rate :: "nat \<Rightarrow> nat \<Rightarrow> rat option" where
  "rate successes attempts =
     (if attempts = 0 then None else Some (round6 (fl (of_nat successes / of_nat attempts))))"

definition change_ratio :: "rat option \<Rightarrow> rat option \<Rightarrow> pyfloat option" where
  "change_ratio baseline candidate =
     (case (baseline, candidate) of
        (Some b, Some c) \<Rightarrow>
          if b = 0 then (if c = 0 then Some (Fin 0) else None)
          else Some (py_round6 (py_div (py_sub (Fin c) (Fin b)) b))
      | _ \<Rightarrow> None)"

definition opt_rat :: "rat option \<Rightarrow> json" where
  "opt_rat x = (case x of None \<Rightarrow> JNull | Some r \<Rightarrow> JFloat (Fin r))"

definition opt_float :: "pyfloat option \<Rightarrow> json" where
  "opt_float x = (case x of None \<Rightarrow> JNull | Some r \<Rightarrow> JFloat r)"

subsection \<open>The checks\<close>

definition check_requirement :: "change_case \<Rightarrow> finding list" where
  "check_requirement c =
     (let st = inc_requirement_status (cc_incident c);
          details = [(''requirement_status'', JStr (requirement_status_value st))] in
      if st = RequirementStatus_CLEAR then
        [add_pass ''CAUSURE-REQ-001'' ''The incident is tied to a clear requirement.'' details]
      else if st = RequirementStatus_AMBIGUOUS \<or> st = RequirementStatus_CONFLICTING then
        [add_fail ''CAUSURE-REQ-001'' Consequence_HUMAN_REVIEW
           ''The governing requirement is ambiguous or conflicting.'' details]
      else
        [add_fail ''CAUSURE-REQ-001'' Consequence_NEEDS_EVIDENCE
           ''The governing requirement has not been established.'' details])"

definition check_oracle :: "change_case \<Rightarrow> gate_policy \<Rightarrow> finding list" where
  "check_oracle c policy =
     (let orc = ver_oracle (cc_verification c);
          kind = (''oracle_kind'', JStr (oracle_kind_value (orc_kind orc))) in
      if gp_require_independent_oracle policy \<and> \<not> orc_independent orc then
        [add_fail ''CAUSURE-VER-001'' Consequence_NEEDS_EVIDENCE
           ''The failure oracle is not independent from the proposed change.'' [kind]]
      else
        [add_pass ''CAUSURE-VER-001''
           (''The failure oracle meets the policy'' @ [char_of (39::nat)] @ ''s independence requirement.'')
           [kind, (''independent'', JBool (orc_independent orc))]])"

definition reproduction_rate :: "change_case \<Rightarrow> rat option" where
  "reproduction_rate c =
     (let trials = ver_reproduction_trials (cc_verification c) in
      rate (length (filter rt_reproduced trials)) (length trials))"

definition check_reproduction :: "change_case \<Rightarrow> gate_policy \<Rightarrow> finding list" where
  "check_reproduction c policy =
     (let n = length (ver_reproduction_trials (cc_verification c));
          r = reproduction_rate c;
          rates = [(''actual_rate'', opt_rat r),
                   (''required_rate'', JFloat (Fin (gp_min_reproduction_rate policy)))] in
      if int n < gp_min_reproduction_trials policy then
        [add_fail ''CAUSURE-VER-002'' Consequence_NEEDS_EVIDENCE
           ''There are too few reproduction trials to adjudicate the claimed failure.''
           [(''actual_trials'', JInt (int n)),
            (''required_trials'', JInt (gp_min_reproduction_trials policy))]]
      else if (case r of Some x \<Rightarrow> x < gp_min_reproduction_rate policy | None \<Rightarrow> False) then
        [add_fail ''CAUSURE-VER-002'' Consequence_REJECT
           (''The claimed failure did not reproduce at the policy'' @ [char_of (39::nat)] @ ''s required rate.'') rates]
      else
        [add_pass ''CAUSURE-VER-002''
           ''The claimed failure reproduced at the required rate.'' rates])"

definition ranked_hypotheses :: "change_case \<Rightarrow> hypothesis list" where
  \<comment> \<open>\<open>sorted(..., key=confidence, reverse=True)\<close>: stable, highest confidence first\<close>
  "ranked_hypotheses c = sort_key (\<lambda>h. - hyp_confidence h) (att_hypotheses (cc_attribution c))"

definition top_hypothesis :: "change_case \<Rightarrow> hypothesis option" where
  "top_hypothesis c = (case ranked_hypotheses c of [] \<Rightarrow> None | h # _ \<Rightarrow> Some h)"

definition runner_up_confidence :: "change_case \<Rightarrow> rat" where
  "runner_up_confidence c =
     (case ranked_hypotheses c of _ # h # _ \<Rightarrow> hyp_confidence h | _ \<Rightarrow> 0)"

definition attribution_margin :: "change_case \<Rightarrow> rat option" where
  "attribution_margin c = (case top_hypothesis c of None \<Rightarrow> None
     | Some h \<Rightarrow> Some (round6 (fl (hyp_confidence h - runner_up_confidence c))))"

definition check_confidence :: "change_case \<Rightarrow> gate_policy \<Rightarrow> finding list" where
  "check_confidence c policy =
     (case top_hypothesis c of
        None \<Rightarrow> [add_fail ''CAUSURE-ATT-001'' Consequence_NEEDS_EVIDENCE
                  ''No causal hypotheses were supplied.'' []]
      | Some h \<Rightarrow>
         (let details = [(''component'', JStr (component_value (hyp_component h))),
                         (''actual_confidence'', JFloat (Fin (hyp_confidence h)))] in
          if hyp_confidence h < gp_min_attribution_confidence policy then
            [add_fail ''CAUSURE-ATT-001'' Consequence_NEEDS_EVIDENCE
               ''The leading causal hypothesis is below the confidence threshold.''
               (details @ [(''required_confidence'',
                  JFloat (Fin (gp_min_attribution_confidence policy)))])]
          else
            [add_pass ''CAUSURE-ATT-001''
               ''The leading causal hypothesis meets the confidence threshold.'' details]))"

definition check_margin :: "change_case \<Rightarrow> gate_policy \<Rightarrow> finding list" where
  "check_margin c policy =
     (let m = attribution_margin c in
      if (case m of Some x \<Rightarrow> x < gp_min_attribution_margin policy | None \<Rightarrow> False) then
        [add_fail ''CAUSURE-ATT-002'' Consequence_NEEDS_EVIDENCE
           ''Competing causal hypotheses are not sufficiently separated.''
           [(''actual_margin'', opt_rat m),
            (''required_margin'', JFloat (Fin (gp_min_attribution_margin policy)))]]
      else
        [add_pass ''CAUSURE-ATT-002''
           ''The leading causal hypothesis is separated from alternatives.''
           [(''actual_margin'', opt_rat m)]])"

definition check_alignment :: "change_case \<Rightarrow> hypothesis \<Rightarrow> finding list" where
  "check_alignment c h =
     (let proposed = pc_component (cc_proposed_change c) in
      if hyp_component h \<noteq> proposed then
        [add_fail ''CAUSURE-ATT-003'' Consequence_REJECT
           ''The proposed change targets a different component than the leading cause.''
           [(''attributed_component'', JStr (component_value (hyp_component h))),
            (''proposed_component'', JStr (component_value proposed))]]
      else
        [add_pass ''CAUSURE-ATT-003''
           ''The proposed change targets the leading attributed component.''
           [(''component'', JStr (component_value (hyp_component h)))]])"

definition check_isolation :: "gate_policy \<Rightarrow> intervention \<Rightarrow> finding list" where
  "check_isolation policy iv =
     (if gp_require_isolated_intervention policy \<and> \<not> iv_isolated iv then
        [add_fail ''CAUSURE-ATT-004'' Consequence_NEEDS_EVIDENCE
           ''The attribution intervention did not isolate the suspected component.'' []]
      else
        [add_pass ''CAUSURE-ATT-004''
           ''The attribution intervention meets the isolation requirement.''
           [(''isolated'', JBool (iv_isolated iv))]])"

definition intervention_rate :: "intervention \<Rightarrow> rat option" where
  "intervention_rate iv = rate (length (filter it_failure_resolved (iv_trials iv))) (length (iv_trials iv))"

definition check_intervention_trials :: "gate_policy \<Rightarrow> intervention \<Rightarrow> finding list" where
  "check_intervention_trials policy iv =
     (let n = length (iv_trials iv); r = intervention_rate iv in
      if int n < gp_min_intervention_trials policy then
        [add_fail ''CAUSURE-ATT-005'' Consequence_NEEDS_EVIDENCE
           ''There are too few intervention trials to support causal attribution.''
           [(''actual_trials'', JInt (int n)),
            (''required_trials'', JInt (gp_min_intervention_trials policy))]]
      else if (case r of Some x \<Rightarrow> x < gp_min_intervention_success_rate policy | None \<Rightarrow> False) then
        [add_fail ''CAUSURE-ATT-005'' Consequence_REJECT
           ''The isolated intervention did not resolve the failure reliably.''
           [(''actual_rate'', opt_rat r),
            (''required_rate'', JFloat (Fin (gp_min_intervention_success_rate policy)))]]
      else
        [add_pass ''CAUSURE-ATT-005''
           ''The isolated intervention resolved the failure at the required rate.''
           [(''actual_rate'', opt_rat r)]])"

definition check_intervention :: "gate_policy \<Rightarrow> hypothesis \<Rightarrow> finding list" where
  "check_intervention policy h =
     (case hyp_intervention h of
        None \<Rightarrow> [add_fail ''CAUSURE-ATT-004'' Consequence_NEEDS_EVIDENCE
                  ''The leading hypothesis has no isolated intervention evidence.'' []]
      | Some iv \<Rightarrow> check_isolation policy iv @ check_intervention_trials policy iv)"

definition check_attribution :: "change_case \<Rightarrow> gate_policy \<Rightarrow> finding list" where
  "check_attribution c policy =
     (case top_hypothesis c of None \<Rightarrow> []
      | Some h \<Rightarrow> check_margin c policy @ check_alignment c h @ check_intervention policy h)"

definition check_null_hypothesis :: "change_case \<Rightarrow> finding list" where
  "check_null_hypothesis c =
     (let n = length (nh_evidence_against (cc_null_hypothesis c)) in
      if n = 0 then
        [add_fail ''CAUSURE-NULL-001'' Consequence_NEEDS_EVIDENCE
           ''The null hypothesis was declared but no evidence against it was supplied.'' []]
      else
        [add_pass ''CAUSURE-NULL-001'' ''The case includes evidence against making no change.''
           [(''evidence_items'', JInt (int n))]])"

definition check_minimality :: "change_case \<Rightarrow> gate_policy \<Rightarrow> finding list" where
  "check_minimality c policy =
     (let n = pc_changed_surface_count (cc_proposed_change c) in
      if gp_max_changed_surfaces policy < n then
        [add_fail ''CAUSURE-MIN-001'' Consequence_REJECT
           ''The proposal changes more harness surfaces than the minimality policy permits.''
           [(''actual_surfaces'', JInt n), (''maximum_surfaces'', JInt (gp_max_changed_surfaces policy))]]
      else
        [add_pass ''CAUSURE-MIN-001''
           ''The proposal is within the configured minimal-change boundary.''
           [(''changed_surfaces'', JInt n)]])"

definition cases_of_kind :: "validation_kind \<Rightarrow> change_case \<Rightarrow> validation_case list" where
  "cases_of_kind k c = filter (\<lambda>v. vc_kind v = k) (val_cases (cc_validation c))"

definition passes :: "validation_case list \<Rightarrow> nat" where
  "passes cs = length (filter vc_candidate_passed cs)"

definition failed_ids :: "validation_case list \<Rightarrow> json" where
  "failed_ids cs = JArr (map (JStr \<circ> vc_case_id) (filter (\<lambda>c. \<not> vc_candidate_passed c) cs))"

definition positive_rate :: "change_case \<Rightarrow> rat option" where
  "positive_rate c = (let cs = cases_of_kind ValidationKind_POSITIVE c in rate (passes cs) (length cs))"

definition demonstrated_fixes :: "change_case \<Rightarrow> nat" where
  "demonstrated_fixes c = length (filter (\<lambda>v. \<not> vc_baseline_passed v \<and> vc_candidate_passed v)
     (cases_of_kind ValidationKind_POSITIVE c))"

definition check_positive :: "change_case \<Rightarrow> gate_policy \<Rightarrow> finding list" where
  "check_positive c policy =
     (let n = length (cases_of_kind ValidationKind_POSITIVE c); r = positive_rate c in
      if int n < gp_min_positive_controls policy then
        [add_fail ''CAUSURE-VAL-001'' Consequence_NEEDS_EVIDENCE
           ''There are too few positive controls.''
           [(''actual_controls'', JInt (int n)),
            (''required_controls'', JInt (gp_min_positive_controls policy))]]
      else if demonstrated_fixes c = 0 then
        [add_fail ''CAUSURE-VAL-001'' Consequence_NEEDS_EVIDENCE
           ''The positive controls do not demonstrate a baseline failure becoming a pass.'' []]
      else if (case r of Some x \<Rightarrow> x < gp_min_positive_pass_rate policy | None \<Rightarrow> False) then
        [add_fail ''CAUSURE-VAL-001'' Consequence_REJECT
           ''The candidate did not fix enough positive controls.''
           [(''actual_rate'', opt_rat r),
            (''required_rate'', JFloat (Fin (gp_min_positive_pass_rate policy)))]]
      else
        [add_pass ''CAUSURE-VAL-001''
           ''The candidate fixed the positive controls at the required rate.''
           [(''actual_rate'', opt_rat r),
            (''demonstrated_fixes'', JInt (int (demonstrated_fixes c)))]])"

definition eligible_negative :: "change_case \<Rightarrow> validation_case list" where
  "eligible_negative c = filter vc_baseline_passed (cases_of_kind ValidationKind_NEGATIVE c)"

definition negative_rate :: "change_case \<Rightarrow> rat option" where
  "negative_rate c = rate (passes (eligible_negative c)) (length (eligible_negative c))"

definition check_negative :: "change_case \<Rightarrow> gate_policy \<Rightarrow> finding list" where
  "check_negative c policy =
     (let n = length (eligible_negative c); r = negative_rate c in
      if int n < gp_min_negative_controls policy then
        [add_fail ''CAUSURE-VAL-002'' Consequence_NEEDS_EVIDENCE
           ''There are too few valid negative controls with a passing baseline.''
           [(''actual_controls'', JInt (int n)),
            (''required_controls'', JInt (gp_min_negative_controls policy))]]
      else if (case r of Some x \<Rightarrow> x < gp_min_negative_pass_rate policy | None \<Rightarrow> False) then
        [add_fail ''CAUSURE-VAL-002'' Consequence_REJECT
           ''The candidate activates or restricts behavior in negative-control scenarios.''
           [(''actual_rate'', opt_rat r),
            (''required_rate'', JFloat (Fin (gp_min_negative_pass_rate policy))),
            (''failed_cases'', failed_ids (eligible_negative c))]]
      else
        [add_pass ''CAUSURE-VAL-002'' ''The candidate passed the negative controls.''
           [(''actual_rate'', opt_rat r)]])"

definition eligible_regression :: "change_case \<Rightarrow> validation_case list" where
  "eligible_regression c = filter vc_baseline_passed (cases_of_kind ValidationKind_REGRESSION c)"

definition regression_rate :: "change_case \<Rightarrow> rat option" where
  "regression_rate c = rate (passes (eligible_regression c)) (length (eligible_regression c))"

definition critical_regressions :: "change_case \<Rightarrow> string list" where
  "critical_regressions c = map vc_case_id
     (filter (\<lambda>v. vc_critical v \<and> \<not> vc_candidate_passed v) (eligible_regression c))"

definition check_regression :: "change_case \<Rightarrow> gate_policy \<Rightarrow> finding list" where
  "check_regression c policy =
     (let n = length (eligible_regression c); r = regression_rate c in
      if int n < gp_min_regression_controls policy then
        [add_fail ''CAUSURE-VAL-003'' Consequence_NEEDS_EVIDENCE
           ''There are too few valid regression controls with a passing baseline.''
           [(''actual_controls'', JInt (int n)),
            (''required_controls'', JInt (gp_min_regression_controls policy))]]
      else if critical_regressions c \<noteq> [] \<and> \<not> gp_allow_critical_regressions policy then
        [add_fail ''CAUSURE-VAL-003'' Consequence_REJECT
           ''The candidate creates at least one critical regression.''
           [(''failed_cases'', strings_to_json (critical_regressions c))]]
      else if (case r of Some x \<Rightarrow> x < gp_min_regression_pass_rate policy | None \<Rightarrow> False) then
        [add_fail ''CAUSURE-VAL-003'' Consequence_REJECT
           ''The candidate did not pass enough regression controls.''
           [(''actual_rate'', opt_rat r),
            (''required_rate'', JFloat (Fin (gp_min_regression_pass_rate policy))),
            (''failed_cases'', failed_ids (eligible_regression c))]]
      else
        [add_pass ''CAUSURE-VAL-003'' ''The candidate passed the regression controls.''
           [(''actual_rate'', opt_rat r)]])"

definition metric_failure :: "gate_policy \<Rightarrow> string \<Rightarrow> string \<Rightarrow> dict \<Rightarrow> finding" where
  "metric_failure policy code message details =
     (if gp_block_on_metric_regression policy then add_fail code Consequence_REJECT message details
      else add_warning code Consequence_CONDITIONAL message details)"

definition check_cost :: "metric_comparison \<Rightarrow> gate_policy \<Rightarrow> finding list" where
  "check_cost m policy =
     (case change_ratio (ms_mean_cost_usd (mc_baseline m)) (ms_mean_cost_usd (mc_candidate m)) of
        None \<Rightarrow>
          if gp_require_metrics_for_approval policy then
            [add_warning ''CAUSURE-MET-001'' Consequence_CONDITIONAL
               ''Comparable mean-cost metrics were not supplied.'' []]
          else []
      | Some x \<Rightarrow>
          if py_less (Fin (gp_max_cost_increase_ratio policy)) x then
            [metric_failure policy ''CAUSURE-MET-001'' ''The candidate exceeds the allowed cost increase.''
               [(''actual_ratio'', JFloat x),
                (''maximum_ratio'', JFloat (Fin (gp_max_cost_increase_ratio policy)))]]
          else [add_pass ''CAUSURE-MET-001'' ''The candidate is within the allowed cost increase.''
                  [(''actual_ratio'', JFloat x)]])"

definition check_latency :: "metric_comparison \<Rightarrow> gate_policy \<Rightarrow> finding list" where
  "check_latency m policy =
     (case change_ratio (ms_p95_latency_ms (mc_baseline m)) (ms_p95_latency_ms (mc_candidate m)) of
        None \<Rightarrow>
          if gp_require_metrics_for_approval policy then
            [add_warning ''CAUSURE-MET-002'' Consequence_CONDITIONAL
               ''Comparable p95-latency metrics were not supplied.'' []]
          else []
      | Some x \<Rightarrow>
          if py_less (Fin (gp_max_latency_increase_ratio policy)) x then
            [metric_failure policy ''CAUSURE-MET-002'' ''The candidate exceeds the allowed latency increase.''
               [(''actual_ratio'', JFloat x),
                (''maximum_ratio'', JFloat (Fin (gp_max_latency_increase_ratio policy)))]]
          else [add_pass ''CAUSURE-MET-002'' ''The candidate is within the allowed latency increase.''
                  [(''actual_ratio'', JFloat x)]])"

definition check_metrics :: "change_case \<Rightarrow> gate_policy \<Rightarrow> finding list" where
  "check_metrics c policy =
     (case val_metrics (cc_validation c) of
        None \<Rightarrow>
          if gp_require_metrics_for_approval policy then
            [add_warning ''CAUSURE-MET-001'' Consequence_CONDITIONAL
               ''Cost and latency metrics were not supplied.'' []]
          else []
      | Some m \<Rightarrow> check_cost m policy @ check_latency m policy)"

definition review_findings :: "change_case \<Rightarrow> gate_policy \<Rightarrow> finding list" where
  "review_findings c policy =
     check_requirement c @ check_oracle c policy @ check_reproduction c policy @
     check_confidence c policy @ check_attribution c policy @ check_null_hypothesis c @
     check_minimality c policy @ check_positive c policy @ check_negative c policy @
     check_regression c policy @ check_metrics c policy"

definition review_metrics :: "change_case \<Rightarrow> dict" where
  "review_metrics c =
     [(''reproduction_trials'', JInt (int (length (ver_reproduction_trials (cc_verification c))))),
      (''reproduction_rate'', opt_rat (reproduction_rate c)),
      (''attribution_confidence'', opt_rat (map_option hyp_confidence (top_hypothesis c))),
      (''attribution_margin'', opt_rat (attribution_margin c))] @
     (case Option.bind (top_hypothesis c) hyp_intervention of None \<Rightarrow> []
      | Some iv \<Rightarrow> [(''intervention_trials'', JInt (int (length (iv_trials iv)))),
                    (''intervention_success_rate'', opt_rat (intervention_rate iv))]) @
     [(''null_hypothesis_evidence'', JInt (int (length (nh_evidence_against (cc_null_hypothesis c))))),
      (''changed_surfaces'', JInt (pc_changed_surface_count (cc_proposed_change c))),
      (''positive_controls'', JInt (int (length (cases_of_kind ValidationKind_POSITIVE c)))),
      (''positive_pass_rate'', opt_rat (positive_rate c)),
      (''negative_controls'', JInt (int (length (eligible_negative c)))),
      (''negative_pass_rate'', opt_rat (negative_rate c)),
      (''regression_controls'', JInt (int (length (eligible_regression c)))),
      (''regression_pass_rate'', opt_rat (regression_rate c))] @
     (case val_metrics (cc_validation c) of
        None \<Rightarrow> [(''cost_change_ratio'', JNull), (''latency_change_ratio'', JNull)]
      | Some m \<Rightarrow>
          [(''cost_change_ratio'', opt_float (change_ratio (ms_mean_cost_usd (mc_baseline m))
              (ms_mean_cost_usd (mc_candidate m)))),
           (''latency_change_ratio'', opt_float (change_ratio (ms_p95_latency_ms (mc_baseline m))
              (ms_p95_latency_ms (mc_candidate m)))),
           (''token_change_ratio'', opt_float (change_ratio (ms_mean_tokens (mc_baseline m))
              (ms_mean_tokens (mc_candidate m))))])"

subsection \<open>The decision\<close>

definition decision_for :: "finding list \<Rightarrow> decision \<times> recommended_action" where
  "decision_for findings =
     (let consequences = f_consequence ` set findings in
      if Consequence_HUMAN_REVIEW \<in> consequences
        then (Decision_HUMAN_REVIEW, RecommendedAction_ESCALATE)
      else if Consequence_REJECT \<in> consequences
        then (Decision_REJECT, RecommendedAction_DO_NOT_PATCH)
      else if Consequence_NEEDS_EVIDENCE \<in> consequences
        then (Decision_NEEDS_EVIDENCE, RecommendedAction_COLLECT_EVIDENCE)
      else if Consequence_CONDITIONAL \<in> consequences
        then (Decision_CONDITIONAL_PASS, RecommendedAction_PATCH)
      else (Decision_APPROVE, RecommendedAction_PATCH))"

primrec summary_for :: "decision \<Rightarrow> string" where
  "summary_for Decision_APPROVE = ''The proposed change is supported by reproducible, attributable evidence and passed the configured controls.''"
| "summary_for Decision_CONDITIONAL_PASS = ''The proposed change passed the safety gate with non-blocking conditions that must be accepted or resolved before deployment.''"
| "summary_for Decision_REJECT = ''The proposed change is contradicted by the evidence or creates an unacceptable regression. Do not apply it.''"
| "summary_for Decision_NEEDS_EVIDENCE = ''The current evidence is insufficient to justify a change. Gather the requested evidence before patching.''"
| "summary_for Decision_HUMAN_REVIEW = ''The incident depends on an ambiguous or conflicting requirement and requires a human decision before any patch.''"

datatype review_error = Reviewed_at_must_include_a_timezone

definition review_case ::
  "(json \<Rightarrow> string) \<Rightarrow> (py_datetime \<Rightarrow> string) \<Rightarrow> py_datetime \<Rightarrow> change_case \<Rightarrow> gate_policy option \<Rightarrow>
   py_datetime option \<Rightarrow> review_error + review_result" where
  \<comment> \<open>parameters: the document digest, \<open>isoformat().replace("+00:00", "Z")\<close>, and \<open>datetime.now(UTC)\<close>\<close>
  "review_case document_sha256 iso_z now c policy_arg reviewed_at =
     (let policy = (case policy_arg of None \<Rightarrow> default_policy | Some p \<Rightarrow> p);
          findings = review_findings c policy;
          (decision, action) = decision_for findings;
          timestamp = (case reviewed_at of None \<Rightarrow> now | Some t \<Rightarrow> t)
      in if dt_offset timestamp = None then Inl Reviewed_at_must_include_a_timezone
         else Inr \<lparr>rr_schema_version = RESULT_SCHEMA_VERSION, rr_engine_version = ENGINE_VERSION,
                   rr_policy_name = gp_name policy, rr_case_id = cc_case_id c,
                   rr_case_title = cc_title c,
                   rr_component = pc_component (cc_proposed_change c),
                   rr_input_sha256 = document_sha256 (change_case_to_json c),
                   rr_reviewed_at = iso_z timestamp, rr_decision = decision,
                   rr_recommended_action = action, rr_summary = summary_for decision,
                   rr_metrics = review_metrics c, rr_findings = findings\<rparr>)"

subsection \<open>Consequences ordered by precedence\<close>

primrec consequence_rank :: "consequence \<Rightarrow> nat" where
  "consequence_rank Consequence_NONE = 0"
| "consequence_rank Consequence_CONDITIONAL = 1"
| "consequence_rank Consequence_NEEDS_EVIDENCE = 2"
| "consequence_rank Consequence_REJECT = 3"
| "consequence_rank Consequence_HUMAN_REVIEW = 4"

lemma consequence_rank_inj: "consequence_rank x = consequence_rank y \<Longrightarrow> x = y"
  by (cases x; cases y) simp_all

instantiation consequence :: linorder
begin

definition less_eq_consequence :: "consequence \<Rightarrow> consequence \<Rightarrow> bool" where
  "x \<le> y \<longleftrightarrow> consequence_rank x \<le> consequence_rank y"

definition less_consequence :: "consequence \<Rightarrow> consequence \<Rightarrow> bool" where
  "x < y \<longleftrightarrow> consequence_rank x < consequence_rank y"

instance
  by standard (auto simp: less_eq_consequence_def less_consequence_def intro: consequence_rank_inj)

end

primrec decision_of :: "consequence \<Rightarrow> decision \<times> recommended_action" where
  "decision_of Consequence_NONE = (Decision_APPROVE, RecommendedAction_PATCH)"
| "decision_of Consequence_CONDITIONAL = (Decision_CONDITIONAL_PASS, RecommendedAction_PATCH)"
| "decision_of Consequence_NEEDS_EVIDENCE = (Decision_NEEDS_EVIDENCE, RecommendedAction_COLLECT_EVIDENCE)"
| "decision_of Consequence_REJECT = (Decision_REJECT, RecommendedAction_DO_NOT_PATCH)"
| "decision_of Consequence_HUMAN_REVIEW = (Decision_HUMAN_REVIEW, RecommendedAction_ESCALATE)"

definition worst_consequence :: "finding list \<Rightarrow> consequence" where
  "worst_consequence fs = Max (insert Consequence_NONE (f_consequence ` set fs))"

lemma worst_consequence_in: "worst_consequence fs \<in> insert Consequence_NONE (f_consequence ` set fs)"
  unfolding worst_consequence_def by (rule Max_in) auto

lemma worst_consequence_ge: "f \<in> set fs \<Longrightarrow> f_consequence f \<le> worst_consequence fs"
  unfolding worst_consequence_def by (rule Max_ge) auto

lemma decision_for_worst: "decision_for fs = decision_of (worst_consequence fs)"
proof -
  define C where "C = f_consequence ` set fs"
  have ge: "c \<in> C \<Longrightarrow> c \<le> worst_consequence fs" for c
    using worst_consequence_ge by (auto simp: C_def)
  have mem: "worst_consequence fs = Consequence_NONE \<or> worst_consequence fs \<in> C"
    using worst_consequence_in [of fs] by (simp add: C_def)
  note ges = ge [of Consequence_HUMAN_REVIEW] ge [of Consequence_REJECT]
    ge [of Consequence_NEEDS_EVIDENCE] ge [of Consequence_CONDITIONAL]
  have "decision_for fs =
     (if Consequence_HUMAN_REVIEW \<in> C then decision_of Consequence_HUMAN_REVIEW
      else if Consequence_REJECT \<in> C then decision_of Consequence_REJECT
      else if Consequence_NEEDS_EVIDENCE \<in> C then decision_of Consequence_NEEDS_EVIDENCE
      else if Consequence_CONDITIONAL \<in> C then decision_of Consequence_CONDITIONAL
      else decision_of Consequence_NONE)"
    by (simp add: decision_for_def C_def Let_def)
  also have "\<dots> = decision_of (worst_consequence fs)"
    using ges mem by (cases "worst_consequence fs") (auto simp: less_eq_consequence_def)
  finally show ?thesis .
qed

subsection \<open>Clean findings and the abstract gate\<close>

definition clean :: "finding list \<Rightarrow> bool" where
  "clean fs \<longleftrightarrow> list_all (\<lambda>f. f_consequence f = Consequence_NONE) fs"

lemma clean_simps [simp]:
  "clean []" "clean (f # fs) \<longleftrightarrow> f_consequence f = Consequence_NONE \<and> clean fs"
  "clean (fs @ gs) \<longleftrightarrow> clean fs \<and> clean gs"
  by (simp_all add: clean_def)

lemma add_consequence [simp]:
  "f_consequence (add_pass code m d) = Consequence_NONE"
  "f_consequence (add_fail code c m d) = c"
  "f_consequence (add_warning code c m d) = c"
  by (simp_all add: add_pass_def add_fail_def add_warning_def)

lemma metric_failure_consequence [simp]: "f_consequence (metric_failure p code m d) \<noteq> Consequence_NONE"
  by (simp add: metric_failure_def)

lemma approve_iff_clean: "fst (decision_for fs) = Decision_APPROVE \<longleftrightarrow> clean fs"
proof -
  have *: "C \<subseteq> {Consequence_NONE}" if "Consequence_HUMAN_REVIEW \<notin> C" "Consequence_REJECT \<notin> C"
    "Consequence_NEEDS_EVIDENCE \<notin> C" "Consequence_CONDITIONAL \<notin> C" for C
  proof
    fix c assume "c \<in> C"
    with that show "c \<in> {Consequence_NONE}" by (cases c) auto
  qed
  have "fst (decision_for fs) = Decision_APPROVE \<longleftrightarrow> f_consequence ` set fs \<subseteq> {Consequence_NONE}"
    unfolding decision_for_def Let_def using * [of "f_consequence ` set fs"] by (auto split: if_splits)
  then show ?thesis by (auto simp: clean_def list_all_iff)
qed

definition meets :: "rat option \<Rightarrow> rat \<Rightarrow> bool" where
  "meets r required \<longleftrightarrow> (case r of None \<Rightarrow> True | Some x \<Rightarrow> required \<le> x)"

definition ratio_within :: "bool \<Rightarrow> rat \<Rightarrow> pyfloat option \<Rightarrow> bool" where
  "ratio_within needed bound r \<longleftrightarrow>
     (case r of None \<Rightarrow> \<not> needed | Some x \<Rightarrow> \<not> py_less (Fin bound) x)"

definition gate_open :: "change_case \<Rightarrow> gate_policy \<Rightarrow> bool" where
  \<comment> \<open>the published criteria, as one predicate\<close>
  "gate_open c p \<longleftrightarrow>
     inc_requirement_status (cc_incident c) = RequirementStatus_CLEAR
   \<and> (gp_require_independent_oracle p \<longrightarrow> orc_independent (ver_oracle (cc_verification c)))
   \<and> gp_min_reproduction_trials p \<le> int (length (ver_reproduction_trials (cc_verification c)))
   \<and> meets (reproduction_rate c) (gp_min_reproduction_rate p)
   \<and> (\<exists>h iv. top_hypothesis c = Some h \<and> hyp_intervention h = Some iv
        \<and> gp_min_attribution_confidence p \<le> hyp_confidence h
        \<and> meets (attribution_margin c) (gp_min_attribution_margin p)
        \<and> hyp_component h = pc_component (cc_proposed_change c)
        \<and> (gp_require_isolated_intervention p \<longrightarrow> iv_isolated iv)
        \<and> gp_min_intervention_trials p \<le> int (length (iv_trials iv))
        \<and> meets (intervention_rate iv) (gp_min_intervention_success_rate p))
   \<and> nh_evidence_against (cc_null_hypothesis c) \<noteq> []
   \<and> pc_changed_surface_count (cc_proposed_change c) \<le> gp_max_changed_surfaces p
   \<and> gp_min_positive_controls p \<le> int (length (cases_of_kind ValidationKind_POSITIVE c))
   \<and> 0 < demonstrated_fixes c
   \<and> meets (positive_rate c) (gp_min_positive_pass_rate p)
   \<and> gp_min_negative_controls p \<le> int (length (eligible_negative c))
   \<and> meets (negative_rate c) (gp_min_negative_pass_rate p)
   \<and> gp_min_regression_controls p \<le> int (length (eligible_regression c))
   \<and> (critical_regressions c = [] \<or> gp_allow_critical_regressions p)
   \<and> meets (regression_rate c) (gp_min_regression_pass_rate p)
   \<and> (case val_metrics (cc_validation c) of
        None \<Rightarrow> \<not> gp_require_metrics_for_approval p
      | Some m \<Rightarrow>
          ratio_within (gp_require_metrics_for_approval p) (gp_max_cost_increase_ratio p)
            (change_ratio (ms_mean_cost_usd (mc_baseline m)) (ms_mean_cost_usd (mc_candidate m)))
        \<and> ratio_within (gp_require_metrics_for_approval p) (gp_max_latency_increase_ratio p)
            (change_ratio (ms_p95_latency_ms (mc_baseline m)) (ms_p95_latency_ms (mc_candidate m))))"

lemma clean_requirement: "clean (check_requirement c) \<longleftrightarrow>
    inc_requirement_status (cc_incident c) = RequirementStatus_CLEAR"
  by (simp add: check_requirement_def Let_def)

lemma clean_oracle: "clean (check_oracle c p) \<longleftrightarrow>
    (gp_require_independent_oracle p \<longrightarrow> orc_independent (ver_oracle (cc_verification c)))"
  by (simp add: check_oracle_def Let_def)

lemma clean_reproduction: "clean (check_reproduction c p) \<longleftrightarrow>
    gp_min_reproduction_trials p \<le> int (length (ver_reproduction_trials (cc_verification c)))
    \<and> meets (reproduction_rate c) (gp_min_reproduction_rate p)"
  by (auto simp: check_reproduction_def Let_def meets_def split: option.splits)

lemma clean_confidence: "clean (check_confidence c p) \<longleftrightarrow>
    (\<exists>h. top_hypothesis c = Some h \<and> gp_min_attribution_confidence p \<le> hyp_confidence h)"
  by (auto simp: check_confidence_def Let_def split: option.splits)

lemma clean_margin: "clean (check_margin c p) \<longleftrightarrow> meets (attribution_margin c) (gp_min_attribution_margin p)"
  by (auto simp: check_margin_def Let_def meets_def split: option.splits)

lemma clean_alignment: "clean (check_alignment c h) \<longleftrightarrow> hyp_component h = pc_component (cc_proposed_change c)"
  by (simp add: check_alignment_def Let_def)

lemma clean_isolation: "clean (check_isolation p iv) \<longleftrightarrow> (gp_require_isolated_intervention p \<longrightarrow> iv_isolated iv)"
  by (simp add: check_isolation_def)

lemma clean_intervention_trials: "clean (check_intervention_trials p iv) \<longleftrightarrow>
    gp_min_intervention_trials p \<le> int (length (iv_trials iv))
    \<and> meets (intervention_rate iv) (gp_min_intervention_success_rate p)"
  by (auto simp: check_intervention_trials_def Let_def meets_def split: option.splits)

lemma clean_null_hypothesis: "clean (check_null_hypothesis c) \<longleftrightarrow> nh_evidence_against (cc_null_hypothesis c) \<noteq> []"
  by (simp add: check_null_hypothesis_def Let_def)

lemma clean_minimality: "clean (check_minimality c p) \<longleftrightarrow>
    pc_changed_surface_count (cc_proposed_change c) \<le> gp_max_changed_surfaces p"
  by (simp add: check_minimality_def Let_def not_less)

lemma clean_positive: "clean (check_positive c p) \<longleftrightarrow>
    gp_min_positive_controls p \<le> int (length (cases_of_kind ValidationKind_POSITIVE c))
    \<and> 0 < demonstrated_fixes c \<and> meets (positive_rate c) (gp_min_positive_pass_rate p)"
  by (auto simp: check_positive_def Let_def meets_def split: option.splits)

lemma clean_negative: "clean (check_negative c p) \<longleftrightarrow>
    gp_min_negative_controls p \<le> int (length (eligible_negative c))
    \<and> meets (negative_rate c) (gp_min_negative_pass_rate p)"
  by (auto simp: check_negative_def Let_def meets_def split: option.splits)

lemma clean_regression: "clean (check_regression c p) \<longleftrightarrow>
    gp_min_regression_controls p \<le> int (length (eligible_regression c))
    \<and> (critical_regressions c = [] \<or> gp_allow_critical_regressions p)
    \<and> meets (regression_rate c) (gp_min_regression_pass_rate p)"
  by (auto simp: check_regression_def Let_def meets_def split: option.splits)

lemma clean_cost: "clean (check_cost m p) \<longleftrightarrow>
    ratio_within (gp_require_metrics_for_approval p) (gp_max_cost_increase_ratio p)
      (change_ratio (ms_mean_cost_usd (mc_baseline m)) (ms_mean_cost_usd (mc_candidate m)))"
  by (auto simp: check_cost_def ratio_within_def split: option.splits)

lemma clean_latency: "clean (check_latency m p) \<longleftrightarrow>
    ratio_within (gp_require_metrics_for_approval p) (gp_max_latency_increase_ratio p)
      (change_ratio (ms_p95_latency_ms (mc_baseline m)) (ms_p95_latency_ms (mc_candidate m)))"
  by (auto simp: check_latency_def ratio_within_def split: option.splits)

lemma clean_metrics: "clean (check_metrics c p) \<longleftrightarrow>
    (case val_metrics (cc_validation c) of None \<Rightarrow> \<not> gp_require_metrics_for_approval p
     | Some m \<Rightarrow> clean (check_cost m p) \<and> clean (check_latency m p))"
  by (auto simp: check_metrics_def split: option.splits)

lemmas clean_checks = clean_requirement clean_oracle clean_reproduction clean_confidence clean_margin
  clean_alignment clean_isolation clean_intervention_trials clean_null_hypothesis clean_minimality
  clean_positive clean_negative clean_regression clean_cost clean_latency clean_metrics

lemma clean_review: "clean (review_findings c p) \<longleftrightarrow> gate_open c p"
  by (auto simp: review_findings_def gate_open_def clean_checks check_attribution_def
      check_intervention_def split: option.splits)

subsection \<open>Stricter policies\<close>

definition stricter :: "gate_policy \<Rightarrow> gate_policy \<Rightarrow> bool" where
  \<comment> \<open>every threshold of the second policy is at least as demanding\<close>
  "stricter p q \<longleftrightarrow>
     gp_min_reproduction_trials p \<le> gp_min_reproduction_trials q
   \<and> gp_min_reproduction_rate p \<le> gp_min_reproduction_rate q
   \<and> (gp_require_independent_oracle p \<longrightarrow> gp_require_independent_oracle q)
   \<and> gp_min_attribution_confidence p \<le> gp_min_attribution_confidence q
   \<and> gp_min_attribution_margin p \<le> gp_min_attribution_margin q
   \<and> gp_min_intervention_trials p \<le> gp_min_intervention_trials q
   \<and> gp_min_intervention_success_rate p \<le> gp_min_intervention_success_rate q
   \<and> (gp_require_isolated_intervention p \<longrightarrow> gp_require_isolated_intervention q)
   \<and> gp_max_changed_surfaces q \<le> gp_max_changed_surfaces p
   \<and> gp_min_positive_controls p \<le> gp_min_positive_controls q
   \<and> gp_min_positive_pass_rate p \<le> gp_min_positive_pass_rate q
   \<and> gp_min_negative_controls p \<le> gp_min_negative_controls q
   \<and> gp_min_negative_pass_rate p \<le> gp_min_negative_pass_rate q
   \<and> gp_min_regression_controls p \<le> gp_min_regression_controls q
   \<and> gp_min_regression_pass_rate p \<le> gp_min_regression_pass_rate q
   \<and> (gp_allow_critical_regressions q \<longrightarrow> gp_allow_critical_regressions p)
   \<and> (gp_require_metrics_for_approval p \<longrightarrow> gp_require_metrics_for_approval q)
   \<and> gp_max_cost_increase_ratio q \<le> gp_max_cost_increase_ratio p
   \<and> gp_max_latency_increase_ratio q \<le> gp_max_latency_increase_ratio p"

lemma meets_mono: "meets r b \<Longrightarrow> a \<le> b \<Longrightarrow> meets r a"
  by (auto simp: meets_def split: option.splits)

lemma py_less_mono: "py_less (Fin b) x \<Longrightarrow> a \<le> b \<Longrightarrow> py_less (Fin a) x"
  by (cases x) auto

lemma ratio_within_mono:
  "ratio_within n a r \<Longrightarrow> a \<le> b \<Longrightarrow> (m \<Longrightarrow> n) \<Longrightarrow> ratio_within m b r"
  using py_less_mono by (auto simp: ratio_within_def split: option.splits)

lemma stricter_gate_open:
  assumes s: "stricter p q" and g: "gate_open c q"
  shows "gate_open c p"
proof -
  from g obtain h iv where hyp: "top_hypothesis c = Some h" "hyp_intervention h = Some iv"
    "gp_min_attribution_confidence q \<le> hyp_confidence h"
    "meets (attribution_margin c) (gp_min_attribution_margin q)"
    "hyp_component h = pc_component (cc_proposed_change c)"
    "gp_require_isolated_intervention q \<longrightarrow> iv_isolated iv"
    "gp_min_intervention_trials q \<le> int (length (iv_trials iv))"
    "meets (intervention_rate iv) (gp_min_intervention_success_rate q)"
    unfolding gate_open_def by blast
  have hyp': "\<exists>h iv. top_hypothesis c = Some h \<and> hyp_intervention h = Some iv
        \<and> gp_min_attribution_confidence p \<le> hyp_confidence h
        \<and> meets (attribution_margin c) (gp_min_attribution_margin p)
        \<and> hyp_component h = pc_component (cc_proposed_change c)
        \<and> (gp_require_isolated_intervention p \<longrightarrow> iv_isolated iv)
        \<and> gp_min_intervention_trials p \<le> int (length (iv_trials iv))
        \<and> meets (intervention_rate iv) (gp_min_intervention_success_rate p)"
    using hyp s unfolding stricter_def by (intro exI [of _ h] exI [of _ iv]) (auto intro: meets_mono)
  have metrics: "case val_metrics (cc_validation c) of
        None \<Rightarrow> \<not> gp_require_metrics_for_approval p
      | Some m \<Rightarrow>
          ratio_within (gp_require_metrics_for_approval p) (gp_max_cost_increase_ratio p)
            (change_ratio (ms_mean_cost_usd (mc_baseline m)) (ms_mean_cost_usd (mc_candidate m)))
        \<and> ratio_within (gp_require_metrics_for_approval p) (gp_max_latency_increase_ratio p)
            (change_ratio (ms_p95_latency_ms (mc_baseline m)) (ms_p95_latency_ms (mc_candidate m)))"
    using g s unfolding gate_open_def stricter_def
    by (auto split: option.splits intro: ratio_within_mono)
  show ?thesis
    using g s hyp' metrics unfolding gate_open_def stricter_def by (auto intro: meets_mono)
qed

subsection \<open>The findings of a review\<close>

definition finding_consistent :: "finding \<Rightarrow> bool" where
  "finding_consistent f \<longleftrightarrow> (case f_status f of
       CheckStatus_PASS \<Rightarrow> f_consequence f = Consequence_NONE
     | CheckStatus_WARNING \<Rightarrow> f_consequence f = Consequence_CONDITIONAL
     | CheckStatus_FAIL \<Rightarrow> f_consequence f \<in> {Consequence_HUMAN_REVIEW, Consequence_REJECT,
                              Consequence_NEEDS_EVIDENCE})"

lemma finding_consistent_add [simp]:
  "finding_consistent (add_pass code m d)"
  "finding_consistent (add_warning code Consequence_CONDITIONAL m d)"
  "finding_consistent (add_fail code c m d) \<longleftrightarrow>
     c \<in> {Consequence_HUMAN_REVIEW, Consequence_REJECT, Consequence_NEEDS_EVIDENCE}"
  by (simp_all add: finding_consistent_def add_pass_def add_warning_def add_fail_def)

lemma finding_consistent_metric [simp]: "finding_consistent (metric_failure p code m d)"
  by (simp add: metric_failure_def)

lemma add_code [simp]:
  "f_code (add_pass code m d) = code" "f_code (add_warning code c m d) = code"
  "f_code (add_fail code c m d) = code" "f_code (metric_failure p code m d) = code"
  by (simp_all add: add_pass_def add_warning_def add_fail_def metric_failure_def)

lemmas check_defs = check_requirement_def check_oracle_def check_reproduction_def check_confidence_def
  check_margin_def check_alignment_def check_isolation_def check_intervention_trials_def
  check_null_hypothesis_def check_minimality_def check_positive_def check_negative_def
  check_regression_def check_cost_def check_latency_def

lemma checks_consistent [simp]:
  "list_all finding_consistent (check_requirement c)"
  "list_all finding_consistent (check_oracle c p)"
  "list_all finding_consistent (check_reproduction c p)"
  "list_all finding_consistent (check_confidence c p)"
  "list_all finding_consistent (check_margin c p)"
  "list_all finding_consistent (check_alignment c h)"
  "list_all finding_consistent (check_isolation p iv)"
  "list_all finding_consistent (check_intervention_trials p iv)"
  "list_all finding_consistent (check_null_hypothesis c)"
  "list_all finding_consistent (check_minimality c p)"
  "list_all finding_consistent (check_positive c p)"
  "list_all finding_consistent (check_negative c p)"
  "list_all finding_consistent (check_regression c p)"
  "list_all finding_consistent (check_cost m p)"
  "list_all finding_consistent (check_latency m p)"
  by (simp_all add: check_defs Let_def split: option.split)

lemma check_codes [simp]:
  "map f_code (check_requirement c) = [''CAUSURE-REQ-001'']"
  "map f_code (check_oracle c p) = [''CAUSURE-VER-001'']"
  "map f_code (check_reproduction c p) = [''CAUSURE-VER-002'']"
  "map f_code (check_confidence c p) = [''CAUSURE-ATT-001'']"
  "map f_code (check_margin c p) = [''CAUSURE-ATT-002'']"
  "map f_code (check_alignment c h) = [''CAUSURE-ATT-003'']"
  "map f_code (check_isolation p iv) = [''CAUSURE-ATT-004'']"
  "map f_code (check_intervention_trials p iv) = [''CAUSURE-ATT-005'']"
  "map f_code (check_null_hypothesis c) = [''CAUSURE-NULL-001'']"
  "map f_code (check_minimality c p) = [''CAUSURE-MIN-001'']"
  "map f_code (check_positive c p) = [''CAUSURE-VAL-001'']"
  "map f_code (check_negative c p) = [''CAUSURE-VAL-002'']"
  "map f_code (check_regression c p) = [''CAUSURE-VAL-003'']"
  by (simp_all add: check_defs Let_def split: option.split)

lemma metric_codes:
  "map f_code (check_metrics c p) \<in> {[], [''CAUSURE-MET-001''], [''CAUSURE-MET-002''],
     [''CAUSURE-MET-001'', ''CAUSURE-MET-002'']}"
  by (simp add: check_metrics_def check_defs Let_def split: option.split)

definition attribution_codes :: "change_case \<Rightarrow> string list" where
  "attribution_codes c = (case top_hypothesis c of None \<Rightarrow> []
     | Some h \<Rightarrow> [''CAUSURE-ATT-002'', ''CAUSURE-ATT-003'', ''CAUSURE-ATT-004''] @
         (case hyp_intervention h of None \<Rightarrow> [] | Some iv \<Rightarrow> [''CAUSURE-ATT-005'']))"

lemma review_codes:
  "map f_code (review_findings c p) =
     [''CAUSURE-REQ-001'', ''CAUSURE-VER-001'', ''CAUSURE-VER-002'', ''CAUSURE-ATT-001''] @
     attribution_codes c @ [''CAUSURE-NULL-001'', ''CAUSURE-MIN-001'', ''CAUSURE-VAL-001'',
     ''CAUSURE-VAL-002'', ''CAUSURE-VAL-003''] @ map f_code (check_metrics c p)"
  by (simp add: review_findings_def check_attribution_def check_intervention_def attribution_codes_def
      split: option.split)

lemma review_codes_distinct: "distinct (map f_code (review_findings c p))"
  using metric_codes [of c p] by (auto simp: review_codes attribution_codes_def split: option.split)

lemma review_consistent: "list_all finding_consistent (review_findings c p)"
  by (simp add: review_findings_def check_attribution_def check_intervention_def check_metrics_def
      split: option.split)

subsection \<open>Rates\<close>

lemma fraction_unit: "s \<le> n \<Longrightarrow> (0::rat) \<le> of_nat s / of_nat n \<and> of_nat s / of_nat n \<le> (1::rat)"
  by (cases "n = 0") (simp_all add: divide_le_eq_1)

lemma rate_unit: "s \<le> n \<Longrightarrow> pred_option (\<lambda>x. 0 \<le> x \<and> x \<le> 1) (rate s n)"
  using fl_mono [of "of_nat s / of_nat n" 1] fl_nonneg [of "of_nat s / of_nat n"] fraction_unit [of s n]
    round6_mono [of "fl (of_nat s / of_nat n)" 1] round6_mono [of 0 "fl (of_nat s / of_nat n)"]
  by (simp add: rate_def round6_zero round6_one)

lemma round6_below_one: "round6 (fl (999999 / 1000000)) < 1"
  by code_simp

lemma rate_full: "0 < n \<Longrightarrow> rate n n = Some 1"
  by (simp add: rate_def round6_one)

lemma rate_below_one:
  assumes "s < n" "n \<le> 1000000"
  shows "\<exists>x. rate s n = Some x \<and> x < 1"
proof -
  have "1000000 * s \<le> 999999 * n" using assms by linarith
  then have "(1000000 :: rat) * of_nat s \<le> 999999 * of_nat n"
    by (metis of_nat_le_iff of_nat_mult of_nat_numeral)
  then have "(of_nat s / of_nat n :: rat) \<le> 999999 / 1000000"
    using assms by (simp add: field_simps)
  from round6_mono [OF fl_mono [OF this]] round6_below_one assms show ?thesis by (simp add: rate_def)
qed

lemma rate_one_iff: "s \<le> n \<Longrightarrow> n \<le> 1000000 \<Longrightarrow> rate s n = Some 1 \<longleftrightarrow> 0 < n \<and> s = n"
  using rate_below_one [of s n] rate_full [of n] by (cases "s = n") (auto simp: rate_def)

lemma passes_le: "passes cs \<le> length cs"
  by (simp add: passes_def)

lemma passes_all: "passes cs = length cs \<longleftrightarrow> list_all vc_candidate_passed cs"
  unfolding passes_def list_all_iff
  by (metis filter_id_conv length_filter_less less_irrefl)

subsection \<open>Escalation\<close>

definition no_escalation :: "finding list \<Rightarrow> bool" where
  "no_escalation fs \<longleftrightarrow> list_all (\<lambda>f. f_consequence f \<noteq> Consequence_HUMAN_REVIEW) fs"

lemma no_escalation_simps [simp]:
  "no_escalation []" "no_escalation (f # fs) \<longleftrightarrow> f_consequence f \<noteq> Consequence_HUMAN_REVIEW \<and> no_escalation fs"
  "no_escalation (fs @ gs) \<longleftrightarrow> no_escalation fs \<and> no_escalation gs"
  by (simp_all add: no_escalation_def)

lemma metric_failure_no_escalation [simp]: "f_consequence (metric_failure p code m d) \<noteq> Consequence_HUMAN_REVIEW"
  by (simp add: metric_failure_def)

lemma checks_no_escalation [simp]:
  "no_escalation (check_oracle c p)" "no_escalation (check_reproduction c p)"
  "no_escalation (check_confidence c p)" "no_escalation (check_margin c p)"
  "no_escalation (check_alignment c h)" "no_escalation (check_isolation p iv)"
  "no_escalation (check_intervention_trials p iv)" "no_escalation (check_null_hypothesis c)"
  "no_escalation (check_minimality c p)" "no_escalation (check_positive c p)"
  "no_escalation (check_negative c p)" "no_escalation (check_regression c p)"
  "no_escalation (check_cost m p)" "no_escalation (check_latency m p)"
  by (simp_all add: check_defs Let_def split: option.split)

lemma requirement_no_escalation: "no_escalation (check_requirement c) \<longleftrightarrow>
    inc_requirement_status (cc_incident c) \<notin> {RequirementStatus_AMBIGUOUS, RequirementStatus_CONFLICTING}"
  by (auto simp: check_requirement_def Let_def)

lemma review_no_escalation: "no_escalation (review_findings c p) \<longleftrightarrow>
    inc_requirement_status (cc_incident c) \<notin> {RequirementStatus_AMBIGUOUS, RequirementStatus_CONFLICTING}"
  by (simp add: review_findings_def check_attribution_def check_intervention_def check_metrics_def
      requirement_no_escalation split: option.split)

lemma human_review_iff: "fst (decision_for fs) = Decision_HUMAN_REVIEW \<longleftrightarrow> \<not> no_escalation fs"
  by (force simp: decision_for_def Let_def no_escalation_def list_all_iff)

lemma decision_not_clean:
  assumes "f \<in> set fs" "f_consequence f = Consequence_REJECT"
  shows "fst (decision_for fs) \<in> {Decision_REJECT, Decision_HUMAN_REVIEW}"
proof -
  have "Consequence_REJECT \<in> f_consequence ` set fs" using assms by force
  then show ?thesis by (simp add: decision_for_def Let_def)
qed

lemma review_rejects_critical:
  assumes "critical_regressions c \<noteq> []" "\<not> gp_allow_critical_regressions p"
    "gp_min_regression_controls p \<le> int (length (eligible_regression c))"
  shows "fst (decision_for (review_findings c p)) \<in> {Decision_REJECT, Decision_HUMAN_REVIEW}"
proof -
  have "check_regression c p = [add_fail ''CAUSURE-VAL-003'' Consequence_REJECT
           ''The candidate creates at least one critical regression.''
           [(''failed_cases'', strings_to_json (critical_regressions c))]]"
    using assms by (simp add: check_regression_def Let_def)
  then show ?thesis
    by (intro decision_not_clean [of "add_fail ''CAUSURE-VAL-003'' Consequence_REJECT
           ''The candidate creates at least one critical regression.''
           [(''failed_cases'', strings_to_json (critical_regressions c))]"])
      (simp_all add: review_findings_def)
qed

subsection \<open>A complete case\<close>

definition sample_trials :: "intervention_trial list" where
  "sample_trials = map (\<lambda>i. \<lparr>it_trial_id = i, it_failure_resolved = True, it_evidence_ref = ''log''\<rparr>)
     [''i1'', ''i2'', ''i3'']"

definition sample_hypothesis :: hypothesis where
  "sample_hypothesis = \<lparr>hyp_component = Component_TOOL_IMPLEMENTATION, hyp_confidence = 1, hyp_evidence_refs = [''trace''],
     hyp_intervention = Some \<lparr>iv_description = ''swap the tool'', iv_isolated = True,
       iv_held_constant = [''model''], iv_trials = sample_trials\<rparr>\<rparr>"

definition sample_control :: "string \<Rightarrow> validation_kind \<Rightarrow> bool \<Rightarrow> bool \<Rightarrow> validation_case" where
  "sample_control i k b r = \<lparr>vc_case_id = i, vc_kind = k, vc_critical = True, vc_baseline_passed = b,
     vc_candidate_passed = r, vc_evidence_ref = ''run''\<rparr>"

definition sample_snapshot :: metric_snapshot where
  "sample_snapshot = \<lparr>ms_p95_latency_ms = Some 800, ms_mean_cost_usd = Some 2, ms_mean_tokens = None\<rparr>"

definition sample_case :: "bool \<Rightarrow> change_case" where
  \<comment> \<open>the argument says whether the candidate passes the last, critical, regression control\<close>
  "sample_case safe = \<lparr>cc_schema_version = CASE_SCHEMA_VERSION, cc_case_id = ''case-1'', cc_title = ''Refund loop'',
     cc_created_at = ''2026-01-02T03:04:05Z'',
     cc_incident = \<lparr>inc_claimed_failure = ''refunds repeat'', inc_expected_behavior = ''one refund'',
       inc_observed_behavior = ''two refunds'', inc_severity = IncidentSeverity_HIGH,
       inc_requirement_status = RequirementStatus_CLEAR, inc_source_refs = [''ticket'']\<rparr>,
     cc_verification = \<lparr>ver_oracle = \<lparr>orc_kind = OracleKind_EXECUTABLE, orc_description = ''ledger check'',
         orc_independent = True, orc_evidence_refs = [''oracle'']\<rparr>,
       ver_reproduction_trials = map (\<lambda>i. \<lparr>rt_trial_id = i, rt_reproduced = True, rt_evidence_ref = ''log''\<rparr>)
         [''r1'', ''r2'', ''r3'']\<rparr>,
     cc_attribution = \<lparr>att_hypotheses = [sample_hypothesis]\<rparr>,
     cc_proposed_change = \<lparr>pc_component = Component_TOOL_IMPLEMENTATION, pc_summary = ''idempotency key'',
       pc_prediction = ''one refund'', pc_expected_unaffected_behaviors = [''quotes''],
       pc_known_risks = [''latency''], pc_changed_surface_count = 1, pc_change_ref = ''patch''\<rparr>,
     cc_null_hypothesis = \<lparr>nh_statement = ''no change is needed'', nh_evidence_against = [''ticket'']\<rparr>,
     cc_validation = \<lparr>val_cases = [sample_control ''p1'' ValidationKind_POSITIVE False True,
         sample_control ''n1'' ValidationKind_NEGATIVE True True,
         sample_control ''g1'' ValidationKind_REGRESSION True True,
         sample_control ''g2'' ValidationKind_REGRESSION True True,
         sample_control ''g3'' ValidationKind_REGRESSION True safe],
       val_metrics = Some \<lparr>mc_baseline = sample_snapshot, mc_candidate = sample_snapshot\<rparr>\<rparr>\<rparr>"

lemmas sample_defs = sample_case_def sample_control_def sample_hypothesis_def sample_snapshot_def sample_trials_def

lemma sample_gate: "gate_open (sample_case True) default_policy"
proof -
  have [simp]: "rate n n = Some 1" if "n = 3 \<or> n = Suc 0 \<or> n = Suc (Suc (Suc 0))" for n
    using that rate_full [of n] by auto
  have [simp]: "rate 3 (Suc (Suc (Suc 0))) = Some 1"
    using rate_full [of 3] by (simp add: numeral_3_eq_3)
  have [simp]: "0 \<le> fl (1 / 10)" "0 \<le> fl (3 / 20)" "fl (67 / 100) \<le> 1" "fl (7 / 10) \<le> 1"
    "fl (3 / 20) \<le> 1" "fl (49 / 50) \<le> 1" by (simp_all add: fl_unit fl_nonneg)
  show ?thesis
    by (simp add: gate_open_def sample_defs default_policy_def reproduction_rate_def meets_def
        top_hypothesis_def ranked_hypotheses_def attribution_margin_def runner_up_confidence_def
        intervention_rate_def cases_of_kind_def demonstrated_fixes_def positive_rate_def passes_def
        eligible_negative_def negative_rate_def eligible_regression_def critical_regressions_def
        regression_rate_def ratio_within_def change_ratio_def to_float_def py_round6_def not_less)
qed

subsection \<open>Properties\<close>

text \<open>
  C2. The gate approves a case exactly when the published criteria hold: \<open>review_case\<close> returns
  APPROVE for a case and a policy iff every criterion of \<open>gate_open\<close> (clear requirement,
  independent oracle, enough reproduction, an attributed and isolated cause, evidence against the
  null hypothesis, a minimal change, controls and cost within bounds) is met and the review time
  carries a timezone.
\<close>
theorem approval_iff_gate_open:
  "(\<exists>r. review_case sha iso_z now c (Some p) t = Inr r \<and> rr_decision r = Decision_APPROVE)
     \<longleftrightarrow> gate_open c p \<and> dt_offset (case t of None \<Rightarrow> now | Some u \<Rightarrow> u) \<noteq> None"
  using approve_iff_clean [of "review_findings c p"]
  by (auto simp: review_case_def Let_def clean_review split: prod.splits)

text \<open>
  C24. The decision of any list of findings is the one of its gravest consequence in the order
  NONE, CONDITIONAL, NEEDS_EVIDENCE, REJECT, HUMAN_REVIEW, whatever the order of the findings.
\<close>
theorem decision_takes_worst_consequence: "decision_for fs = decision_of (worst_consequence fs)"
  by (rule decision_for_worst)

text \<open>
  C25. Tightening a policy never turns a refusal into an approval: if the gate opens under a policy
  that is at least as demanding in every threshold, it opens under the laxer policy.
\<close>
theorem approval_antitone:
  assumes "stricter p q" "fst (decision_for (review_findings c q)) = Decision_APPROVE"
  shows "fst (decision_for (review_findings c p)) = Decision_APPROVE"
  using assms stricter_gate_open by (simp add: approve_iff_clean clean_review)

theorem approval_antitone_witness:
  "fst (decision_for (review_findings (sample_case True)
     (default_policy\<lparr>gp_min_regression_controls := 2, gp_max_changed_surfaces := 4\<rparr>))) = Decision_APPROVE"
  by (rule approval_antitone [where q = default_policy])
    (simp_all add: stricter_def default_policy_def [symmetric] approve_iff_clean clean_review sample_gate,
     simp_all add: default_policy_def)

text \<open>
  A candidate that breaks a critical regression control is never let through: with enough
  regression controls and a policy that does not allow critical regressions the decision is REJECT,
  or HUMAN_REVIEW when the requirement itself is contested.
\<close>
theorem critical_regression_blocks:
  assumes "critical_regressions c \<noteq> []" "\<not> gp_allow_critical_regressions p"
    "gp_min_regression_controls p \<le> int (length (eligible_regression c))"
  shows "fst (decision_for (review_findings c p)) \<in> {Decision_REJECT, Decision_HUMAN_REVIEW}"
  using assms by (rule review_rejects_critical)

theorem critical_regression_blocks_witness:
  "fst (decision_for (review_findings (sample_case False) default_policy))
     \<in> {Decision_REJECT, Decision_HUMAN_REVIEW}"
  by (rule critical_regression_blocks)
    (simp_all add: critical_regressions_def eligible_regression_def cases_of_kind_def sample_defs
      default_policy_def)

text \<open>
  C31. A case goes to a human exactly when its requirement is ambiguous or conflicting; no other
  check escalates, and no other finding can outrank it.
\<close>
theorem human_review_iff_contested_requirement:
  "fst (decision_for (review_findings c p)) = Decision_HUMAN_REVIEW \<longleftrightarrow>
     inc_requirement_status (cc_incident c) \<in> {RequirementStatus_AMBIGUOUS, RequirementStatus_CONFLICTING}"
  by (simp add: human_review_iff review_no_escalation)

text \<open>
  Rounding never hides a failed regression control: for up to a million eligible controls the
  reported regression rate (rounded to six decimals after an IEEE division) is 1 exactly when there
  is a control and the candidate passed all of them.
\<close>
theorem regression_rate_one_iff_all_passed:
  assumes "length (eligible_regression c) \<le> 1000000"
  shows "regression_rate c = Some 1 \<longleftrightarrow>
    eligible_regression c \<noteq> [] \<and> list_all vc_candidate_passed (eligible_regression c)"
  using rate_one_iff [OF passes_le assms] by (simp add: regression_rate_def passes_all)

theorem regression_rate_one_iff_all_passed_witness:
  "regression_rate (sample_case False) \<noteq> Some 1"
  using regression_rate_one_iff_all_passed [of "sample_case False"]
  by (simp add: eligible_regression_def cases_of_kind_def sample_defs)

text \<open>
  A review reports each check at most once: the finding codes of a review are pairwise distinct.
\<close>
theorem review_codes_unique: "distinct (map f_code (review_findings c p))"
  by (rule review_codes_distinct)

text \<open>
  The status and the consequence of every finding agree: a PASS has no consequence, a WARNING
  only makes the approval conditional, and a FAIL blocks (evidence, rejection or escalation).
\<close>
theorem review_findings_consistent: "list_all finding_consistent (review_findings c p)"
  by (rule review_consistent)

text \<open>
  Every rate a review reports is a number between 0 and 1, or absent when there was no attempt.
\<close>
theorem review_rates_unit:
  "list_all (pred_option (\<lambda>x. 0 \<le> x \<and> x \<le> 1))
     [reproduction_rate c, positive_rate c, negative_rate c, regression_rate c]"
  by (simp add: reproduction_rate_def positive_rate_def negative_rate_def regression_rate_def Let_def
      rate_unit passes_le)

end
