(* ===== verification/Team_Admission.thy ===== *)
theory Team_Admission
  imports Models
begin

text \<open>
  \<open>team_admission.py\<close>: admission control in front of the Team API. The configuration and its
  checks, the token buckets, the locked admission decision over the ordered source table, and a
  step relation in which requests run concurrently: each request takes a semaphore slot, counts
  itself, reads the clock and its source, decides under the lock, streams its response and gives
  the slot back. The application, the source resolver and the clock are parameters.
\<close>

subsection \<open>Configuration\<close>

datatype admission_code = Admission_clock_invalid | Admission_source_invalid

primrec admission_code_value :: "admission_code \<Rightarrow> string" where
  "admission_code_value Admission_clock_invalid = ''admission_clock_invalid''"
| "admission_code_value Admission_source_invalid = ''admission_source_invalid''"

datatype admission_setup_error =
    Bounded_value_error string
  | Source_resolver_requires_per_source_limit
  | Setup_unavailable admission_code

record admission_config =
  ac_max_concurrency :: int
  ac_global_capacity :: int
  ac_source_capacity :: "int option"
  ac_window_seconds :: rat
  ac_max_tracked_sources :: int
  ac_source_idle_seconds :: rat

definition bounded_integer :: "string \<Rightarrow> int \<Rightarrow> int \<Rightarrow> json \<Rightarrow> admission_setup_error + int" where
  "bounded_integer name minimum maximum v =
     (case v of JInt i \<Rightarrow> if minimum \<le> i \<and> i \<le> maximum then Inr i else Inl (Bounded_value_error name)
      | _ \<Rightarrow> Inl (Bounded_value_error name))"

definition bounded_seconds :: "string \<Rightarrow> rat \<Rightarrow> rat \<Rightarrow> json \<Rightarrow> admission_setup_error + rat" where
  "bounded_seconds name minimum maximum v =
     (case number_as_float v of
        Some (Fin x) \<Rightarrow> if minimum \<le> x \<and> x \<le> maximum then Inr x else Inl (Bounded_value_error name)
      | _ \<Rightarrow> Inl (Bounded_value_error name))"

definition admission_configuration ::
  "json \<Rightarrow> json \<Rightarrow> json \<Rightarrow> json \<Rightarrow> json \<Rightarrow> json \<Rightarrow> bool \<Rightarrow> admission_setup_error + admission_config" where
  \<comment> \<open>the checks of \<open>__init__\<close> in order; the flag says whether a source resolver was given\<close>
  "admission_configuration concurrency global source window tracked idle has_resolver =
     (case bounded_integer ''max_concurrency'' 1 10000 concurrency of Inl e \<Rightarrow> Inl e | Inr mc \<Rightarrow>
      (case bounded_integer ''global_requests_per_window'' 1 1000000 global of Inl e \<Rightarrow> Inl e | Inr gc \<Rightarrow>
      (case (if source = JNull then Inr None
             else map_sum id Some (bounded_integer ''per_source_requests_per_window'' 1 1000000 source)) of
         Inl e \<Rightarrow> Inl e | Inr sc \<Rightarrow>
      (if sc = None \<and> has_resolver then Inl Source_resolver_requires_per_source_limit else
      (case bounded_seconds ''rate_window_seconds'' 1 3600 window of Inl e \<Rightarrow> Inl e | Inr w \<Rightarrow>
      (case bounded_integer ''max_tracked_sources'' 1 100000 tracked of Inl e \<Rightarrow> Inl e | Inr mt \<Rightarrow>
      (case bounded_seconds ''source_idle_seconds'' w 86400 idle of Inl e \<Rightarrow> Inl e | Inr si \<Rightarrow>
         Inr \<lparr>ac_max_concurrency = mc, ac_global_capacity = gc, ac_source_capacity = sc,
              ac_window_seconds = w, ac_max_tracked_sources = mt, ac_source_idle_seconds = si\<rparr>)))))))"

subsection \<open>State\<close>

record token_bucket =
  tb_tokens :: rat
  tb_updated_at :: rat
  tb_last_seen_at :: rat

record admission_state =
  as_slots :: int \<comment> \<open>the value of the semaphore\<close>
  as_active :: int
  as_admitted :: int
  as_rate_rejected :: int
  as_concurrency_rejected :: int
  as_integration_rejected :: int
  as_last_error :: "string option"
  as_global :: token_bucket
  as_sources :: "(string \<times> token_bucket) list" \<comment> \<open>the OrderedDict, oldest first\<close>

record team_admission_status =
  tas_active_requests :: int
  tas_tracked_sources :: int
  tas_admitted_request_count :: int
  tas_rate_rejected_count :: int
  tas_concurrency_rejected_count :: int
  tas_integration_rejected_count :: int
  tas_last_error_code :: "string option"

definition admission_status :: "admission_state \<Rightarrow> team_admission_status" where
  "admission_status st = \<lparr>tas_active_requests = as_active st,
     tas_tracked_sources = int (length (as_sources st)),
     tas_admitted_request_count = as_admitted st,
     tas_rate_rejected_count = as_rate_rejected st,
     tas_concurrency_rejected_count = as_concurrency_rejected st,
     tas_integration_rejected_count = as_integration_rejected st,
     tas_last_error_code = as_last_error st\<rparr>"

datatype clock_reading = Clock_raises | Clock_bool bool | Clock_number pyfloat

datatype source_reading = Source_raises | Source_not_text | Source_text string

definition monotonic_now :: "clock_reading \<Rightarrow> admission_code + rat" where
  "monotonic_now r = (case r of
       Clock_number (Fin x) \<Rightarrow> if x < 0 then Inl Admission_clock_invalid else Inr x
     | _ \<Rightarrow> Inl Admission_clock_invalid)"

definition source_key_char :: "char \<Rightarrow> bool" where
  "source_key_char c \<longleftrightarrow> is_alnum c \<or> c \<in> set ''._:-''"

definition source_key :: "source_reading \<Rightarrow> admission_code + string" where
  "source_key r = (case r of
       Source_text s \<Rightarrow> if head_tail_match is_alnum source_key_char 0 127 s then Inr s
                       else Inl Admission_source_invalid
     | _ \<Rightarrow> Inl Admission_source_invalid)"

definition socket_source :: "(string \<Rightarrow> string option) \<Rightarrow> json \<Rightarrow> string" where
  \<comment> \<open>the default resolver; the parameter is \<open>ipaddress.ip_address(value).compressed\<close>\<close>
  "socket_source compressed remote_addr = (case remote_addr of
       JStr s \<Rightarrow> if s = [] then ''unknown''
                else (case compressed s of None \<Rightarrow> ''unknown'' | Some t \<Rightarrow> t)
     | _ \<Rightarrow> ''unknown'')"

definition admission_init :: "admission_config \<Rightarrow> clock_reading \<Rightarrow> admission_setup_error + admission_state" where
  "admission_init cfg reading = (case monotonic_now reading of
       Inl e \<Rightarrow> Inl (Setup_unavailable e)
     | Inr now \<Rightarrow> Inr \<lparr>as_slots = ac_max_concurrency cfg, as_active = 0, as_admitted = 0,
         as_rate_rejected = 0, as_concurrency_rejected = 0, as_integration_rejected = 0,
         as_last_error = None,
         as_global = \<lparr>tb_tokens = of_int (ac_global_capacity cfg), tb_updated_at = now,
                      tb_last_seen_at = now\<rparr>,
         as_sources = []\<rparr>)"

subsection \<open>Token buckets\<close>

definition cap_tokens :: "rat \<Rightarrow> pyfloat \<Rightarrow> rat" where
  \<comment> \<open>\<open>min(float(capacity), x)\<close> for an \<open>x\<close> that is a number or infinite\<close>
  "cap_tokens cap x = (case x of Fin y \<Rightarrow> if y < cap then y else cap | _ \<Rightarrow> cap)"

definition refill :: "rat \<Rightarrow> rat \<Rightarrow> int \<Rightarrow> token_bucket \<Rightarrow> admission_code + token_bucket" where
  "refill window now capacity b =
     (if now < tb_updated_at b then Inl Admission_clock_invalid
      else let elapsed = py_sub (Fin now) (Fin (tb_updated_at b));
               added = py_div (py_mul elapsed (of_int capacity)) window
           in Inr \<lparr>tb_tokens = cap_tokens (of_int capacity) (py_add (Fin (tb_tokens b)) added),
                   tb_updated_at = now, tb_last_seen_at = now\<rparr>)"

definition take_token :: "token_bucket \<Rightarrow> token_bucket" where
  "take_token b = b\<lparr>tb_tokens := fl (tb_tokens b - 1)\<rparr>"

definition retry_after :: "rat \<Rightarrow> int \<Rightarrow> token_bucket \<Rightarrow> int" where
  "retry_after window capacity b =
     (let r = fl (of_int capacity / window) in max 1 \<lceil>fl (fl (1 - tb_tokens b) / r)\<rceil>)"

fun prune_sources :: "rat \<Rightarrow> rat \<Rightarrow> (string \<times> token_bucket) list \<Rightarrow> (string \<times> token_bucket) list" where
  "prune_sources idle now [] = []"
| "prune_sources idle now ((k, b) # rest) =
     (if py_less (py_sub (Fin now) (Fin (tb_last_seen_at b))) (Fin idle) then (k, b) # rest
      else prune_sources idle now rest)"

subsection \<open>The locked decision\<close>

definition track_source :: "admission_config \<Rightarrow> rat \<Rightarrow> int \<Rightarrow> string \<Rightarrow>
    (string \<times> token_bucket) list \<Rightarrow> token_bucket \<times> (string \<times> token_bucket) list" where
  \<comment> \<open>the bucket of the source, and the other sources in order; its bucket goes to the end\<close>
  "track_source cfg now capacity key sources =
     (case map_of sources key of
        Some b \<Rightarrow> (b, filter (\<lambda>e. fst e \<noteq> key) sources)
      | None \<Rightarrow> (\<lparr>tb_tokens = of_int capacity, tb_updated_at = now, tb_last_seen_at = now\<rparr>,
                 if ac_max_tracked_sources cfg \<le> int (length sources) then tl sources else sources))"

definition admit_source :: "admission_config \<Rightarrow> rat \<Rightarrow> int \<Rightarrow> string \<Rightarrow> admission_state \<Rightarrow>
    (admission_code + int option) \<times> admission_state" where
  "admit_source cfg now capacity key st =
     (let (b, others) = track_source cfg now capacity key
            (prune_sources (ac_source_idle_seconds cfg) now (as_sources st)) in
      case refill (ac_window_seconds cfg) now capacity b of
        Inl e \<Rightarrow> (Inl e, st\<lparr>as_sources := others @ [(key, b)]\<rparr>)
      | Inr b' \<Rightarrow>
          if tb_tokens b' < 1
          then (Inr (Some (retry_after (ac_window_seconds cfg) capacity b')),
                st\<lparr>as_sources := others @ [(key, b')], as_rate_rejected := as_rate_rejected st + 1\<rparr>)
          else (Inr None, st\<lparr>as_sources := others @ [(key, take_token b')]\<rparr>))"

definition admit :: "admission_config \<Rightarrow> rat \<Rightarrow> string option \<Rightarrow> admission_state \<Rightarrow>
    (admission_code + int option) \<times> admission_state" where
  "admit cfg now key st =
     (case refill (ac_window_seconds cfg) now (ac_global_capacity cfg) (as_global st) of
        Inl e \<Rightarrow> (Inl e, st)
      | Inr g \<Rightarrow>
          if tb_tokens g < 1
          then (Inr (Some (retry_after (ac_window_seconds cfg) (ac_global_capacity cfg) g)),
                st\<lparr>as_global := g, as_rate_rejected := as_rate_rejected st + 1\<rparr>)
          else
            let st1 = st\<lparr>as_global := take_token g\<rparr>;
                (r, st2) = (case (ac_source_capacity cfg, key) of
                    (Some c, Some k) \<Rightarrow> admit_source cfg now c k st1
                  | _ \<Rightarrow> (Inr None, st1))
            in (if r = Inr None
                then (r, st2\<lparr>as_admitted := as_admitted st2 + 1, as_last_error := None\<rparr>)
                else (r, st2)))"

definition sample :: "admission_config \<Rightarrow> clock_reading \<Rightarrow> source_reading \<Rightarrow>
    admission_code + (rat \<times> string option)" where
  \<comment> \<open>what a request reads before it takes the lock\<close>
  "sample cfg reading source = (case monotonic_now reading of Inl e \<Rightarrow> Inl e | Inr now \<Rightarrow>
     (case ac_source_capacity cfg of None \<Rightarrow> Inr (now, None)
      | Some _ \<Rightarrow> (case source_key source of Inl e \<Rightarrow> Inl e | Inr k \<Rightarrow> Inr (now, Some k))))"

definition integration_failure :: "admission_code \<Rightarrow> admission_state \<Rightarrow> admission_state" where
  "integration_failure code st = st\<lparr>as_integration_rejected := as_integration_rejected st + 1,
     as_last_error := Some (admission_code_value code)\<rparr>"

definition readiness :: "admission_config \<Rightarrow> clock_reading \<Rightarrow> admission_state \<Rightarrow> bool \<times> admission_state" where
  \<comment> \<open>\<open>/readyz\<close>: True when the probe reaches the application\<close>
  "readiness cfg reading st =
     (case (case monotonic_now reading of Inl e \<Rightarrow> Inl e
            | Inr now \<Rightarrow> refill (ac_window_seconds cfg) now (ac_global_capacity cfg) (as_global st)) of
        Inl e \<Rightarrow> (False, integration_failure e st)
      | Inr g \<Rightarrow> (True, st\<lparr>as_global := g\<rparr>))"

subsection \<open>Error responses\<close>

definition error_body :: "string \<Rightarrow> string \<Rightarrow> string" where
  \<comment> \<open>for codes and messages without characters JSON escapes\<close>
  "error_body code message =
     (let q = [char_of (34::nat)] in
      ''{'' @ q @ ''error'' @ q @ '':{'' @ q @ ''code'' @ q @ '':'' @ q @ code @ q @ '','' @
      q @ ''message'' @ q @ '':'' @ q @ message @ q @ ''}}'' @ [char_of (10::nat)])"

definition error_headers :: "string \<Rightarrow> string \<Rightarrow> int \<Rightarrow> (string \<times> string) list" where
  "error_headers body scheme retry =
     (let q = [char_of (39::nat)] in
      [(''Content-Type'', ''application/json; charset=utf-8''),
       (''Content-Length'', dec_nat (length body)),
       (''Cache-Control'', ''no-store''),
       (''X-Content-Type-Options'', ''nosniff''),
       (''Content-Security-Policy'', ''default-src '' @ q @ ''none'' @ q @ ''; frame-ancestors '' @ q @ ''none'' @ q),
       (''X-Frame-Options'', ''DENY''),
       (''Referrer-Policy'', ''no-referrer''),
       (''Cross-Origin-Resource-Policy'', ''same-origin''),
       (''Retry-After'', dec_int retry)] @
      (if scheme = ''https'' then [(''Strict-Transport-Security'', ''max-age=31536000'')] else []))"

definition error_status :: "int \<Rightarrow> string" where
  "error_status status = dec_int status @ '' '' @
     (if status = 429 then ''Too Many Requests'' else ''Service Unavailable'')"

subsection \<open>Concurrent requests\<close>

datatype request_phase =
    Acquired                          \<comment> \<open>holds a slot\<close>
  | Counted                           \<comment> \<open>and is counted as active\<close>
  | Sampled rat "string option"       \<comment> \<open>has read the clock and its source\<close>
  | Admitted                          \<comment> \<open>about to call the application\<close>
  | Serving bool                      \<comment> \<open>its response iterable exists; True once iterated\<close>
  | Leaving                           \<comment> \<open>about to release\<close>
  | Uncounted                         \<comment> \<open>no longer active, still holds the slot\<close>
  | Finished
  | Abandoned                         \<comment> \<open>left by a BaseException that is not an Exception: never released\<close>

record admission_system =
  sys_state :: admission_state
  sys_requests :: "request_phase list"

definition set_phase :: "nat \<Rightarrow> request_phase \<Rightarrow> admission_state \<Rightarrow> admission_system \<Rightarrow> admission_system" where
  "set_phase i ph st s = \<lparr>sys_state = st, sys_requests = (sys_requests s)[i := ph]\<rparr>"

definition decide :: "admission_config \<Rightarrow> rat \<Rightarrow> string option \<Rightarrow> admission_state \<Rightarrow>
    request_phase \<times> admission_state" where
  "decide cfg now key st = (case admit cfg now key st of
       (Inl e, st') \<Rightarrow> (Leaving, integration_failure e st')
     | (Inr None, st') \<Rightarrow> (Admitted, st')
     | (Inr (Some _), st') \<Rightarrow> (Leaving, st'))"

inductive adm_step :: "admission_config \<Rightarrow> admission_system \<Rightarrow> admission_system \<Rightarrow> bool"
  for cfg :: admission_config where
  Ready: "adm_step cfg s (s\<lparr>sys_state := snd (readiness cfg reading (sys_state s))\<rparr>)"
| Busy: "as_slots (sys_state s) = 0 \<Longrightarrow>
    adm_step cfg s (s\<lparr>sys_state := (sys_state s)
      \<lparr>as_concurrency_rejected := as_concurrency_rejected (sys_state s) + 1\<rparr>\<rparr>)"
| Acquire: "0 < as_slots (sys_state s) \<Longrightarrow>
    adm_step cfg s \<lparr>sys_state = (sys_state s)\<lparr>as_slots := as_slots (sys_state s) - 1\<rparr>,
      sys_requests = sys_requests s @ [Acquired]\<rparr>"
| Count: "i < length (sys_requests s) \<Longrightarrow> sys_requests s ! i = Acquired \<Longrightarrow>
    adm_step cfg s (set_phase i Counted ((sys_state s)\<lparr>as_active := as_active (sys_state s) + 1\<rparr>) s)"
| Sample: "i < length (sys_requests s) \<Longrightarrow> sys_requests s ! i = Counted \<Longrightarrow>
    sample cfg reading source = Inr (now, key) \<Longrightarrow>
    adm_step cfg s (set_phase i (Sampled now key) (sys_state s) s)"
| Sample_fails: "i < length (sys_requests s) \<Longrightarrow> sys_requests s ! i = Counted \<Longrightarrow>
    sample cfg reading source = Inl e \<Longrightarrow>
    adm_step cfg s (set_phase i Leaving (integration_failure e (sys_state s)) s)"
| Decide: "i < length (sys_requests s) \<Longrightarrow> sys_requests s ! i = Sampled now key \<Longrightarrow>
    adm_step cfg s (set_phase i (fst (decide cfg now key (sys_state s)))
      (snd (decide cfg now key (sys_state s))) s)"
| Application_raises: "i < length (sys_requests s) \<Longrightarrow> sys_requests s ! i = Admitted \<Longrightarrow>
    adm_step cfg s (set_phase i Leaving (sys_state s) s)"
| Application_aborts: "i < length (sys_requests s) \<Longrightarrow> sys_requests s ! i = Admitted \<Longrightarrow>
    adm_step cfg s (set_phase i Abandoned (sys_state s) s)"
    \<comment> \<open>SystemExit, KeyboardInterrupt and the like pass \<open>except Exception\<close>\<close>
| Application_returns: "i < length (sys_requests s) \<Longrightarrow> sys_requests s ! i = Admitted \<Longrightarrow>
    adm_step cfg s (set_phase i (Serving False) (sys_state s) s)"
| Iterate: "i < length (sys_requests s) \<Longrightarrow> sys_requests s ! i = Serving False \<Longrightarrow>
    adm_step cfg s (set_phase i (Serving True) (sys_state s) s)"
| Close: "i < length (sys_requests s) \<Longrightarrow> sys_requests s ! i = Serving b \<Longrightarrow>
    adm_step cfg s (set_phase i Leaving (sys_state s) s)"
| Uncount: "i < length (sys_requests s) \<Longrightarrow> sys_requests s ! i = Leaving \<Longrightarrow>
    adm_step cfg s (set_phase i Uncounted ((sys_state s)\<lparr>as_active := as_active (sys_state s) - 1\<rparr>) s)"
| Release: "i < length (sys_requests s) \<Longrightarrow> sys_requests s ! i = Uncounted \<Longrightarrow>
    adm_step cfg s (set_phase i Finished ((sys_state s)\<lparr>as_slots := as_slots (sys_state s) + 1\<rparr>) s)"

inductive adm_reachable :: "admission_config \<Rightarrow> admission_system \<Rightarrow> bool"
  for cfg :: admission_config where
  Start: "admission_init cfg reading = Inr st \<Longrightarrow> adm_reachable cfg \<lparr>sys_state = st, sys_requests = []\<rparr>"
| Step: "adm_reachable cfg s \<Longrightarrow> adm_step cfg s t \<Longrightarrow> adm_reachable cfg t"

inductive_cases adm_stepE: "adm_step cfg s t"

subsection \<open>Slots and the active count\<close>

primrec holds_slot :: "request_phase \<Rightarrow> bool" where
  "holds_slot Acquired = True"
| "holds_slot Counted = True"
| "holds_slot (Sampled now key) = True"
| "holds_slot Admitted = True"
| "holds_slot (Serving b) = True"
| "holds_slot Leaving = True"
| "holds_slot Uncounted = True"
| "holds_slot Finished = False"
| "holds_slot Abandoned = True"

primrec is_active :: "request_phase \<Rightarrow> bool" where
  "is_active Acquired = False"
| "is_active Counted = True"
| "is_active (Sampled now key) = True"
| "is_active Admitted = True"
| "is_active (Serving b) = True"
| "is_active Leaving = True"
| "is_active Uncounted = False"
| "is_active Finished = False"
| "is_active Abandoned = True"

definition count :: "(request_phase \<Rightarrow> bool) \<Rightarrow> request_phase list \<Rightarrow> int" where
  "count P phs = int (length (filter P phs))"

lemma count_append [simp]: "count P (phs @ [ph]) = count P phs + (if P ph then 1 else 0)"
  by (simp add: count_def)

lemma count_Nil [simp]: "count P [] = 0"
  by (simp add: count_def)

lemma count_update [simp]:
  "i < length phs \<Longrightarrow> count P (phs[i := ph])
     = count P phs - (if P (phs ! i) then 1 else 0) + (if P ph then 1 else 0)"
proof (induction phs arbitrary: i)
  case (Cons p phs)
  show ?case
  proof (cases i)
    case (Suc j)
    with Cons.prems have "count P (phs[j := ph])
      = count P phs - (if P (phs ! j) then 1 else 0) + (if P ph then 1 else 0)"
      by (intro Cons.IH) simp
    with Suc show ?thesis by (auto simp: count_def split: if_splits)
  qed (simp add: count_def)
qed simp

lemma count_active_le_holds: "count is_active phs \<le> count holds_slot phs"
proof (induction phs)
  case (Cons p phs)
  then show ?case by (cases p) (simp_all add: count_def)
qed simp

lemma count_zero: "list_all (\<lambda>ph. \<not> P ph) phs \<Longrightarrow> count P phs = 0"
  by (induction phs) (simp_all add: count_def)

definition slots_ok :: "admission_config \<Rightarrow> admission_system \<Rightarrow> bool" where
  "slots_ok cfg s \<longleftrightarrow>
     as_slots (sys_state s) + count holds_slot (sys_requests s) = ac_max_concurrency cfg
   \<and> as_active (sys_state s) = count is_active (sys_requests s)
   \<and> 0 \<le> as_slots (sys_state s)"

lemma integration_failure_frame [simp]:
  "as_slots (integration_failure e st) = as_slots st" "as_active (integration_failure e st) = as_active st"
  "as_global (integration_failure e st) = as_global st" "as_sources (integration_failure e st) = as_sources st"
  by (simp_all add: integration_failure_def)

lemma readiness_frame [simp]:
  "as_slots (snd (readiness cfg r st)) = as_slots st" "as_active (snd (readiness cfg r st)) = as_active st"
  "as_sources (snd (readiness cfg r st)) = as_sources st"
  by (auto simp: readiness_def split: sum.splits)

lemma admit_source_frame [simp]:
  "as_slots (snd (admit_source cfg now c k st)) = as_slots st"
  "as_active (snd (admit_source cfg now c k st)) = as_active st"
  "as_global (snd (admit_source cfg now c k st)) = as_global st"
  by (auto simp: admit_source_def Let_def split: sum.splits prod.splits)

lemma admit_source_keeps: "admit_source cfg now c k st = (r, st') \<Longrightarrow>
    as_slots st' = as_slots st \<and> as_active st' = as_active st \<and> as_global st' = as_global st"
  using admit_source_frame [of cfg now c k st] by simp

lemma admit_frame [simp]:
  "as_slots (snd (admit cfg now key st)) = as_slots st"
  "as_active (snd (admit cfg now key st)) = as_active st"
  by (auto simp: admit_def Let_def split: sum.splits option.splits prod.splits dest: admit_source_keeps)

lemma admit_keeps: "admit cfg now key st = (r, st') \<Longrightarrow> as_slots st' = as_slots st \<and> as_active st' = as_active st"
  using admit_frame [of cfg now key st] by simp

lemma decide_frame [simp]:
  "as_slots (snd (decide cfg now key st)) = as_slots st"
  "as_active (snd (decide cfg now key st)) = as_active st"
  by (auto simp: decide_def split: sum.splits option.splits prod.splits dest: admit_keeps)

lemma decide_phase: "fst (decide cfg now key st) \<in> {Admitted, Leaving}"
  by (auto simp: decide_def split: sum.splits option.splits prod.splits)

lemma slots_ok_step: "adm_step cfg s t \<Longrightarrow> slots_ok cfg s \<Longrightarrow> slots_ok cfg t"
proof (induction rule: adm_step.induct)
  case (Decide i s now key)
  then show ?case using decide_phase [of cfg now key "sys_state s"]
    by (auto simp: slots_ok_def set_phase_def)
qed (auto simp: slots_ok_def set_phase_def)

definition wf_config :: "admission_config \<Rightarrow> bool" where
  "wf_config cfg \<longleftrightarrow> 1 \<le> ac_max_concurrency cfg \<and> ac_max_concurrency cfg \<le> 10000
     \<and> 1 \<le> ac_global_capacity cfg \<and> ac_global_capacity cfg \<le> 1000000
     \<and> pred_option (\<lambda>c. 1 \<le> c \<and> c \<le> 1000000) (ac_source_capacity cfg)
     \<and> 1 \<le> ac_window_seconds cfg \<and> ac_window_seconds cfg \<le> 3600
     \<and> 1 \<le> ac_max_tracked_sources cfg \<and> ac_max_tracked_sources cfg \<le> 100000
     \<and> ac_window_seconds cfg \<le> ac_source_idle_seconds cfg \<and> ac_source_idle_seconds cfg \<le> 86400"

lemma admission_configuration_wf: "admission_configuration mc gc sc w mt si r = Inr cfg \<Longrightarrow> wf_config cfg"
  by (auto simp: admission_configuration_def bounded_integer_def bounded_seconds_def wf_config_def
      split: sum.splits json.splits option.splits pyfloat.splits if_splits)

lemma reachable_slots_ok:
  assumes "adm_reachable cfg s" "wf_config cfg"
  shows "slots_ok cfg s"
  using assms
proof (induction rule: adm_reachable.induct)
  case (Start reading st)
  then show ?case
    by (auto simp: slots_ok_def admission_init_def wf_config_def split: sum.splits)
qed (simp add: slots_ok_step)

subsection \<open>Token buckets and the source table\<close>

definition bucket_ok :: "int \<Rightarrow> token_bucket \<Rightarrow> bool" where
  "bucket_ok capacity b \<longleftrightarrow> 0 \<le> tb_tokens b \<and> tb_tokens b \<le> of_int capacity
     \<and> tb_last_seen_at b = tb_updated_at b"

definition nonneg_float :: "pyfloat \<Rightarrow> bool" where
  "nonneg_float v \<longleftrightarrow> (case v of Fin x \<Rightarrow> 0 \<le> x | PInf \<Rightarrow> True | _ \<Rightarrow> False)"

lemma nonneg_to_float: "0 \<le> x \<Longrightarrow> nonneg_float (to_float x)"
  using fl_nonneg [of x] by (auto simp: nonneg_float_def to_float_def Let_def split: pyfloat.split)

lemma nonneg_add: "0 \<le> x \<Longrightarrow> nonneg_float v \<Longrightarrow> nonneg_float (py_add (Fin x) v)"
  by (cases v) (auto simp: nonneg_float_def [of "Fin _"] nonneg_float_def [of PInf]
      nonneg_float_def [of NInf] nonneg_float_def [of NaN] intro: nonneg_to_float)

lemma nonneg_mul: "nonneg_float v \<Longrightarrow> 0 \<le> y \<Longrightarrow> nonneg_float (py_mul v y)"
  by (cases v) (auto simp: nonneg_float_def [of "Fin _"] nonneg_float_def [of PInf]
      nonneg_float_def [of NInf] nonneg_float_def [of NaN] intro: nonneg_to_float)

lemma nonneg_div: "nonneg_float v \<Longrightarrow> 0 < y \<Longrightarrow> nonneg_float (py_div v y)"
  by (cases v) (auto simp: nonneg_float_def [of "Fin _"] nonneg_float_def [of PInf]
      nonneg_float_def [of NInf] nonneg_float_def [of NaN] intro: nonneg_to_float)

lemma cap_tokens_bounds: "nonneg_float v \<Longrightarrow> 0 \<le> c \<Longrightarrow> 0 \<le> cap_tokens c v \<and> cap_tokens c v \<le> c"
  by (auto simp: nonneg_float_def cap_tokens_def split: pyfloat.splits)

lemma refill_ok:
  assumes "refill w now c b = Inr b'" "bucket_ok c b" "0 < w" "0 \<le> c"
  shows "bucket_ok c b' \<and> tb_updated_at b' = now \<and> tb_updated_at b \<le> now"
proof -
  have le: "tb_updated_at b \<le> now" using assms(1) by (auto simp: refill_def split: if_splits)
  have "nonneg_float (py_sub (Fin now) (Fin (tb_updated_at b)))"
    using le by (simp add: nonneg_to_float)
  then have "nonneg_float (py_add (Fin (tb_tokens b))
      (py_div (py_mul (py_sub (Fin now) (Fin (tb_updated_at b))) (of_int c)) w))"
    using assms by (intro nonneg_add nonneg_div nonneg_mul) (simp_all add: bucket_ok_def)
  from cap_tokens_bounds [OF this, of "of_int c"] assms le show ?thesis
    by (auto simp: refill_def bucket_ok_def Let_def split: if_splits)
qed

lemma refill_succeeds: "tb_updated_at b \<le> now \<Longrightarrow> \<exists>b'. refill w now c b = Inr b'"
  by (simp add: refill_def Let_def)

lemma take_token_ok:
  assumes "bucket_ok c b" "\<not> tb_tokens b < 1" "c \<le> 1000000"
  shows "bucket_ok c (take_token b)"
proof -
  have c: "1 \<le> c" using assms order_trans [of 1 "tb_tokens b" "of_int c"] by (simp add: bucket_ok_def)
  have "fl (tb_tokens b - 1) \<le> fl (of_int c)"
    using assms by (intro fl_mono) (simp add: bucket_ok_def)
  also have "\<dots> = of_int c" using c assms by (intro fl_of_int) simp
  finally show ?thesis using assms fl_nonneg [of "tb_tokens b - 1"]
    by (simp add: bucket_ok_def take_token_def)
qed

lemma take_token_frame [simp]: "tb_updated_at (take_token b) = tb_updated_at b"
  "tb_last_seen_at (take_token b) = tb_last_seen_at b"
  by (simp_all add: take_token_def)

lemma prune_suffix: "\<exists>pre. sources = pre @ prune_sources idle now sources"
proof (induction idle now sources rule: prune_sources.induct)
  case (2 idle now k b rest)
  show ?case
  proof (cases "py_less (py_sub (Fin now) (Fin (tb_last_seen_at b))) (Fin idle)")
    case True
    then show ?thesis by simp
  next
    case False
    then obtain pre where "rest = pre @ prune_sources idle now rest" using "2.IH" by blast
    then have "(k, b) # rest = ((k, b) # pre) @ prune_sources idle now rest" by simp
    with False show ?thesis by (metis prune_sources.simps(2))
  qed
qed simp

lemma py_less_fin_mono:
  assumes "py_less (to_float y) (Fin c)" "x \<le> y" "0 \<le> x"
  shows "py_less (to_float x) (Fin c)"
proof -
  have "fl x \<le> fl y" "0 \<le> fl x" using assms fl_mono fl_nonneg by auto
  with assms show ?thesis by (auto simp: to_float_def Let_def split: if_splits)
qed

lemma prune_exact:
  assumes "sorted (map (tb_last_seen_at \<circ> snd) sources)"
    "\<forall>(k, b) \<in> set sources. tb_last_seen_at b \<le> now"
  shows "prune_sources idle now sources
    = filter (\<lambda>(k, b). py_less (py_sub (Fin now) (Fin (tb_last_seen_at b))) (Fin idle)) sources"
  using assms
proof (induction idle now sources rule: prune_sources.induct)
  case (2 idle now k b rest)
  show ?case
  proof (cases "py_less (py_sub (Fin now) (Fin (tb_last_seen_at b))) (Fin idle)")
    case True
    have "py_less (py_sub (Fin now) (Fin (tb_last_seen_at b'))) (Fin idle)" if "(k', b') \<in> set rest" for k' b'
    proof -
      have "tb_last_seen_at b \<le> tb_last_seen_at b'" "tb_last_seen_at b' \<le> now"
        using "2.prems" that by force+
      then show ?thesis using True py_less_fin_mono [of "now - tb_last_seen_at b" idle "now - tb_last_seen_at b'"]
        by simp
    qed
    then have "filter (\<lambda>(k, b). py_less (py_sub (Fin now) (Fin (tb_last_seen_at b))) (Fin idle)) rest = rest"
      by (intro filter_True) auto
    with True show ?thesis by simp
  next
    case False
    with "2.IH" "2.prems" show ?thesis by simp
  qed
qed simp

definition table_ok :: "admission_config \<Rightarrow> rat \<Rightarrow> int \<Rightarrow> (string \<times> token_bucket) list \<Rightarrow> bool" where
  \<comment> \<open>what an ordered source table guarantees at an instant\<close>
  "table_ok cfg now c sources \<longleftrightarrow>
     distinct (map fst sources) \<and> sorted (map (tb_last_seen_at \<circ> snd) sources)
   \<and> int (length sources) \<le> ac_max_tracked_sources cfg
   \<and> (\<forall>e \<in> set sources. tb_last_seen_at (snd e) \<le> now \<and> bucket_ok c (snd e))"

lemma table_ok_suffix: "table_ok cfg now c (pre @ suf) \<Longrightarrow> table_ok cfg now c suf"
  by (auto simp: table_ok_def sorted_append)

lemma table_ok_prune: "table_ok cfg now c sources \<Longrightarrow> table_ok cfg now c (prune_sources idle now sources)"
  using prune_suffix [of sources idle now] table_ok_suffix by metis

lemma table_ok_filter: "table_ok cfg now c sources \<Longrightarrow> table_ok cfg now c (filter P sources)"
proof -
  assume t: "table_ok cfg now c sources"
  have "length (filter P sources) \<le> length sources" by simp
  with t have "int (length (filter P sources)) \<le> ac_max_tracked_sources cfg"
    unfolding table_ok_def by linarith
  moreover have "sorted (map (tb_last_seen_at \<circ> snd) (filter P sources))"
    using t by (simp add: table_ok_def sorted_filter)
  ultimately show ?thesis using t by (auto simp: table_ok_def distinct_map_filter)
qed

lemma filter_shorter: "map_of xs k = Some v \<Longrightarrow> length (filter (\<lambda>e. fst e \<noteq> k) xs) < length xs"
  by (rule length_filter_less [of "(k, v)"]) (auto dest: map_of_SomeD)

lemma track_source_ok:
  assumes t: "table_ok cfg now c sources" and eq: "track_source cfg now c key sources = (b, others)"
    and c: "0 \<le> c" and m: "1 \<le> ac_max_tracked_sources cfg"
  shows "table_ok cfg now c others" "key \<notin> fst ` set others"
    "int (length others) < ac_max_tracked_sources cfg" "bucket_ok c b" "tb_updated_at b \<le> now"
proof -
  have "table_ok cfg now c others \<and> key \<notin> fst ` set others \<and>
    int (length others) < ac_max_tracked_sources cfg \<and> bucket_ok c b \<and> tb_updated_at b \<le> now"
  proof (cases "map_of sources key")
    case None
    have sub: "table_ok cfg now c (tl sources)"
      using t table_ok_suffix [of cfg now c "[hd sources]" "tl sources"] by (cases sources) simp_all
    have len: "int (length (tl sources)) < ac_max_tracked_sources cfg"
      using t m by (cases sources) (auto simp: table_ok_def)
    have "set (tl sources) \<subseteq> set sources" by (cases sources) auto
    then have new: "key \<notin> fst ` set (tl sources)" "key \<notin> fst ` set sources"
      using None by (auto simp: map_of_eq_None_iff)
    have "b = \<lparr>tb_tokens = of_int c, tb_updated_at = now, tb_last_seen_at = now\<rparr>"
      "others = (if ac_max_tracked_sources cfg \<le> int (length sources) then tl sources else sources)"
      using None eq by (simp_all add: track_source_def)
    moreover have "int (length sources) \<le> ac_max_tracked_sources cfg" using t by (simp add: table_ok_def)
    ultimately show ?thesis using t sub len c new by (simp add: bucket_ok_def)
  next
    case (Some b0)
    then have "(key, b0) \<in> set sources" by (rule map_of_SomeD)
    then have "bucket_ok c b0" "tb_updated_at b0 \<le> now" using t by (auto simp: table_ok_def bucket_ok_def)
    moreover have "int (length (filter (\<lambda>e. fst e \<noteq> key) sources)) < ac_max_tracked_sources cfg"
      using filter_shorter [OF Some] t by (simp add: table_ok_def)
    ultimately show ?thesis
      using Some eq table_ok_filter [OF t] by (auto simp: track_source_def)
  qed
  then show "table_ok cfg now c others" "key \<notin> fst ` set others"
    "int (length others) < ac_max_tracked_sources cfg" "bucket_ok c b" "tb_updated_at b \<le> now"
    by blast+
qed

lemma table_ok_snoc:
  assumes "table_ok cfg now c others" "key \<notin> fst ` set others"
    "int (length others) < ac_max_tracked_sources cfg" "bucket_ok c b" "tb_updated_at b = now"
  shows "table_ok cfg now c (others @ [(key, b)])"
  using assms by (auto simp: table_ok_def sorted_append bucket_ok_def)

definition buckets_ok :: "admission_config \<Rightarrow> admission_state \<Rightarrow> bool" where
  "buckets_ok cfg st \<longleftrightarrow> bucket_ok (ac_global_capacity cfg) (as_global st)
     \<and> (case ac_source_capacity cfg of None \<Rightarrow> as_sources st = []
        | Some c \<Rightarrow> table_ok cfg (tb_updated_at (as_global st)) c (as_sources st))"

lemma table_ok_later: "table_ok cfg now c sources \<Longrightarrow> now \<le> later \<Longrightarrow> table_ok cfg later c sources"
  by (auto simp: table_ok_def intro: order_trans)

lemma admit_source_ok:
  assumes t: "table_ok cfg now c (as_sources st)" and wf: "wf_config cfg" and c: "1 \<le> c" "c \<le> 1000000"
  shows "table_ok cfg now c (as_sources (snd (admit_source cfg now c key st)))
    \<and> (\<exists>r. fst (admit_source cfg now c key st) = Inr r)"
proof -
  obtain b others where tr: "track_source cfg now c key
      (prune_sources (ac_source_idle_seconds cfg) now (as_sources st)) = (b, others)"
    by (metis surj_pair)
  have m: "1 \<le> ac_max_tracked_sources cfg" and w: "0 < ac_window_seconds cfg"
    using wf by (auto simp: wf_config_def)
  have o: "table_ok cfg now c others" "key \<notin> fst ` set others"
    "int (length others) < ac_max_tracked_sources cfg" "bucket_ok c b" "tb_updated_at b \<le> now"
    using track_source_ok [OF table_ok_prune [OF t] tr _ m] c by auto
  obtain b' where r: "refill (ac_window_seconds cfg) now c b = Inr b'"
    using refill_succeeds [OF o(5)] by blast
  have b': "bucket_ok c b'" "tb_updated_at b' = now"
    using refill_ok [OF r o(4) w] c by auto
  have tk: "bucket_ok c (take_token b')" if "\<not> tb_tokens b' < 1"
    using take_token_ok [OF b'(1) that] c by simp
  show ?thesis
    using table_ok_snoc [OF o(1,2,3) b'] table_ok_snoc [OF o(1,2,3) tk] b'
    by (simp add: admit_source_def tr r)
qed

lemma admit_buckets_ok:
  assumes ok: "buckets_ok cfg st" and wf: "wf_config cfg"
  shows "buckets_ok cfg (snd (admit cfg now key st))"
proof (cases "refill (ac_window_seconds cfg) now (ac_global_capacity cfg) (as_global st)")
  case (Inl e)
  then show ?thesis using ok by (simp add: admit_def)
next
  case (Inr g)
  have w: "0 < ac_window_seconds cfg" "0 \<le> ac_global_capacity cfg" "ac_global_capacity cfg \<le> 1000000"
    using wf by (auto simp: wf_config_def)
  have g: "bucket_ok (ac_global_capacity cfg) g" "tb_updated_at g = now" "tb_updated_at (as_global st) \<le> now"
    using refill_ok [OF Inr _ w(1,2)] ok by (auto simp: buckets_ok_def)
  have tk: "bucket_ok (ac_global_capacity cfg) (take_token g)" if "\<not> tb_tokens g < 1"
    using take_token_ok [OF g(1) that w(3)] .
  show ?thesis
  proof (cases "ac_source_capacity cfg")
    case None
    then show ?thesis using Inr g tk ok by (simp add: admit_def buckets_ok_def Let_def)
  next
    case (Some c)
    have c: "1 \<le> c" "c \<le> 1000000" using wf Some by (auto simp: wf_config_def)
    have t: "table_ok cfg now c (as_sources st)"
      using ok Some g(3) table_ok_later by (auto simp: buckets_ok_def)
    show ?thesis
    proof (cases key)
      case None
      then show ?thesis using Inr g tk ok Some t by (simp add: admit_def buckets_ok_def Let_def)
    next
      case key: (Some k)
      let ?st1 = "st\<lparr>as_global := take_token g\<rparr>"
      obtain r st2 where a: "admit_source cfg now c k ?st1 = (r, st2)" by (metis surj_pair)
      have "table_ok cfg now c (as_sources st2)"
        using admit_source_ok [of cfg now c ?st1 k] a t wf c by simp
      moreover have "as_global st2 = take_token g"
        using admit_source_keeps [OF a] by simp
      ultimately show ?thesis using Inr g tk Some key a t
        by (simp add: admit_def buckets_ok_def)
    qed
  qed
qed

lemma admit_error: 
  assumes ok: "buckets_ok cfg st" and wf: "wf_config cfg"
  shows "(\<exists>e. fst (admit cfg now key st) = Inl e) \<longleftrightarrow> now < tb_updated_at (as_global st)"
proof (cases "now < tb_updated_at (as_global st)")
  case True
  then show ?thesis by (simp add: admit_def refill_def)
next
  case False
  then obtain g where g: "refill (ac_window_seconds cfg) now (ac_global_capacity cfg) (as_global st) = Inr g"
    using refill_succeeds not_less by metis
  show ?thesis
  proof (cases "ac_source_capacity cfg = None \<or> key = None")
    case True
    with False g show ?thesis by (auto simp: admit_def Let_def split: option.splits)
  next
    case no: False
    then obtain c k where c: "ac_source_capacity cfg = Some c" "key = Some k" by auto
    let ?st1 = "st\<lparr>as_global := take_token g\<rparr>"
    obtain r st2 where a: "admit_source cfg now c k ?st1 = (r, st2)" by (metis surj_pair)
    have "table_ok cfg now c (as_sources st)"
      using ok c False table_ok_later by (auto simp: buckets_ok_def)
    then have "\<exists>x. r = Inr x" using admit_source_ok [of cfg now c ?st1 k] a wf c by (simp add: wf_config_def)
    with False g c a show ?thesis by (auto simp: admit_def Let_def)
  qed
qed

lemma decide_buckets_ok: "buckets_ok cfg st \<Longrightarrow> wf_config cfg \<Longrightarrow> buckets_ok cfg (snd (decide cfg now key st))"
  using admit_buckets_ok [of cfg st now key]
  by (auto simp: decide_def buckets_ok_def split: sum.splits option.splits prod.splits)

lemma readiness_buckets_ok:
  assumes "buckets_ok cfg st" "wf_config cfg"
  shows "buckets_ok cfg (snd (readiness cfg r st))"
proof -
  have w: "0 < ac_window_seconds cfg" "0 \<le> ac_global_capacity cfg" using assms(2) by (auto simp: wf_config_def)
  show ?thesis
    using assms refill_ok [OF _ _ w] table_ok_later
    by (fastforce simp: readiness_def buckets_ok_def split: sum.splits option.splits)
qed

lemma buckets_ok_step: "adm_step cfg s t \<Longrightarrow> wf_config cfg \<Longrightarrow> buckets_ok cfg (sys_state s) \<Longrightarrow> buckets_ok cfg (sys_state t)"
proof (induction rule: adm_step.induct)
  case (Ready s reading)
  then show ?case by (simp add: readiness_buckets_ok)
next
  case (Decide i s now key)
  then show ?case by (simp add: set_phase_def decide_buckets_ok)
qed (auto simp: set_phase_def buckets_ok_def split: option.splits)

lemma init_buckets_ok: "wf_config cfg \<Longrightarrow> admission_init cfg reading = Inr st \<Longrightarrow> buckets_ok cfg st"
  by (auto simp: admission_init_def buckets_ok_def bucket_ok_def table_ok_def wf_config_def split: sum.splits option.splits)

lemma reachable_buckets_ok: "adm_reachable cfg s \<Longrightarrow> wf_config cfg \<Longrightarrow> buckets_ok cfg (sys_state s)"
  by (induction rule: adm_reachable.induct) (auto simp: init_buckets_ok buckets_ok_step)

subsection \<open>A burst at one instant\<close>

fun decide_all :: "admission_config \<Rightarrow> rat \<Rightarrow> nat \<Rightarrow> admission_state \<Rightarrow> admission_state" where
  "decide_all cfg now 0 st = st"
| "decide_all cfg now (Suc n) st = decide_all cfg now n (snd (admit cfg now None st))"

lemma to_float_of_int: "\<bar>n\<bar> \<le> 2 ^ 52 \<Longrightarrow> to_float (of_int n) = Fin (of_int n)"
proof -
  assume n: "\<bar>n\<bar> \<le> 2 ^ 52"
  have "(2::int) ^ 52 < 2 ^ 1024" by (rule power_strict_increasing) simp_all
  with n have "\<bar>of_int n :: rat\<bar> < 2 ^ 1024"
    by (metis abs_of_nat of_int_abs of_int_less_iff of_int_numeral of_int_power order_le_less_trans)
  then show ?thesis using fl_of_int [OF n] by (simp add: to_float_def abs_less_iff)
qed

lemma to_float_zero [simp]: "to_float 0 = Fin 0"
  using to_float_of_int [of 0] by simp

lemma refill_same_instant:
  assumes "\<bar>n\<bar> \<le> 2 ^ 52" "n \<le> c" "tb_tokens b = of_int n" "tb_updated_at b = now" "tb_last_seen_at b = now"
  shows "refill w now c b = Inr b"
proof -
  have "py_add (Fin (of_int n)) (Fin 0) = Fin (of_int n)"
    using to_float_of_int [OF assms(1)] by simp
  then show ?thesis using assms(2-)
    by (cases b) (simp add: refill_def cap_tokens_def)
qed

lemma burst_state:
  assumes "ac_source_capacity cfg = None" "ac_global_capacity cfg \<le> 1000000"
    "as_global st = \<lparr>tb_tokens = of_int k, tb_updated_at = now, tb_last_seen_at = now\<rparr>"
    "0 \<le> k" "k \<le> ac_global_capacity cfg"
  shows "as_admitted (decide_all cfg now n st) = as_admitted st + min (int n) k
    \<and> as_rate_rejected (decide_all cfg now n st) = as_rate_rejected st + max 0 (int n - k)"
  using assms(3-)
proof (induction n arbitrary: st k)
  case (Suc n)
  have big: "\<bar>k\<bar> \<le> 2 ^ 52" using Suc.prems assms(2) by simp
  have r: "refill (ac_window_seconds cfg) now (ac_global_capacity cfg) (as_global st) = Inr (as_global st)"
    using refill_same_instant [OF big] Suc.prems by simp
  show ?case
  proof (cases "k = 0")
    case True
    then have "admit cfg now None st = (Inr (Some (retry_after (ac_window_seconds cfg) (ac_global_capacity cfg)
        (as_global st))), st\<lparr>as_rate_rejected := as_rate_rejected st + 1\<rparr>)"
      using r Suc.prems by (simp add: admit_def)
    with Suc.IH [of "st\<lparr>as_rate_rejected := as_rate_rejected st + 1\<rparr>" k] Suc.prems True show ?thesis by simp
  next
    case False
    then have "fl (of_int k - 1) = of_int (k - 1)"
      using fl_of_int [of "k - 1"] Suc.prems assms(2) by simp
    then have "admit cfg now None st = (Inr None, st
        \<lparr>as_global := \<lparr>tb_tokens = of_int (k - 1), tb_updated_at = now, tb_last_seen_at = now\<rparr>,
         as_admitted := as_admitted st + 1, as_last_error := None\<rparr>)"
      using r Suc.prems False assms(1) by (simp add: admit_def take_token_def)
    with Suc.IH [of "snd (admit cfg now None st)" "k - 1"] Suc.prems False show ?thesis by (auto simp: min_def max_def)
  qed
qed simp

subsection \<open>Properties\<close>

definition sample_config :: admission_config where
  "sample_config = \<lparr>ac_max_concurrency = 2, ac_global_capacity = 10, ac_source_capacity = Some 5,
     ac_window_seconds = 60, ac_max_tracked_sources = 4, ac_source_idle_seconds = 600\<rparr>"

definition fresh_state :: "admission_config \<Rightarrow> rat \<Rightarrow> admission_state" where
  "fresh_state cfg now = \<lparr>as_slots = ac_max_concurrency cfg, as_active = 0, as_admitted = 0,
     as_rate_rejected = 0, as_concurrency_rejected = 0, as_integration_rejected = 0, as_last_error = None,
     as_global = \<lparr>tb_tokens = of_int (ac_global_capacity cfg), tb_updated_at = now, tb_last_seen_at = now\<rparr>,
     as_sources = []\<rparr>"

lemma fresh_init: "0 \<le> now \<Longrightarrow> admission_init cfg (Clock_number (Fin now)) = Inr (fresh_state cfg now)"
  by (simp add: admission_init_def monotonic_now_def fresh_state_def)

lemma fresh_reachable: "0 \<le> now \<Longrightarrow>
    adm_reachable cfg \<lparr>sys_state = fresh_state cfg now, sys_requests = []\<rparr>"
  by (rule adm_reachable.Start [OF fresh_init])

lemma sample_config_wf: "wf_config sample_config"
  by (simp add: wf_config_def sample_config_def)

text \<open>
  C3. No interleaving of requests exceeds the concurrency limit or leaks a slot: in every reachable
  state the semaphore value plus the requests still holding a slot is the configured maximum, the
  active count is the number of requests between counting and uncounting and stays within the
  maximum, and once every request has finished all slots are free and the active count is 0. (A request whose
  application leaves by a BaseException that is not an Exception never finishes: the source keeps its slot.)
\<close>
theorem admission_slots_conserved:
  assumes "wf_config cfg" "adm_reachable cfg s"
  shows "as_slots (sys_state s) + count holds_slot (sys_requests s) = ac_max_concurrency cfg
    \<and> as_active (sys_state s) = count is_active (sys_requests s)
    \<and> as_active (sys_state s) \<le> ac_max_concurrency cfg \<and> 0 \<le> as_slots (sys_state s)
    \<and> (list_all (\<lambda>ph. ph = Finished) (sys_requests s) \<longrightarrow>
         as_slots (sys_state s) = ac_max_concurrency cfg \<and> as_active (sys_state s) = 0)"
proof -
  have ok: "slots_ok cfg s" using reachable_slots_ok assms by blast
  have "count holds_slot (sys_requests s) = 0 \<and> count is_active (sys_requests s) = 0"
    if "list_all (\<lambda>ph. ph = Finished) (sys_requests s)"
    using that by (intro conjI count_zero) (auto simp: list_all_iff)
  then show ?thesis
    using ok count_active_le_holds [of "sys_requests s"] by (auto simp: slots_ok_def)
qed

theorem admission_slots_conserved_witness:
  "as_slots (fresh_state sample_config 7) + count holds_slot [] = ac_max_concurrency sample_config"
  using admission_slots_conserved [OF sample_config_wf fresh_reachable [of 7]] by simp

text \<open>
  C8. The rate limiter's state stays within its bounds under every interleaving: both kinds of token
  buckets hold between 0 and their capacity, the source table has distinct keys, never more entries
  than allowed, and is ordered by last use; so pruning from the oldest end removes exactly the
  sources idle for at least the configured time.
\<close>
theorem admission_buckets_bounded:
  assumes "wf_config cfg" "adm_reachable cfg s" "tb_updated_at (as_global (sys_state s)) \<le> now"
  shows "bucket_ok (ac_global_capacity cfg) (as_global (sys_state s))
    \<and> distinct (map fst (as_sources (sys_state s)))
    \<and> int (length (as_sources (sys_state s))) \<le> ac_max_tracked_sources cfg
    \<and> (\<forall>(k, b) \<in> set (as_sources (sys_state s)). \<exists>c. ac_source_capacity cfg = Some c \<and> bucket_ok c b)
    \<and> prune_sources (ac_source_idle_seconds cfg) now (as_sources (sys_state s))
      = filter (\<lambda>(k, b). py_less (py_sub (Fin now) (Fin (tb_last_seen_at b)))
          (Fin (ac_source_idle_seconds cfg))) (as_sources (sys_state s))"
proof -
  have ok: "buckets_ok cfg (sys_state s)" using reachable_buckets_ok assms by blast
  show ?thesis
  proof (cases "ac_source_capacity cfg")
    case None
    then show ?thesis using ok assms(1) by (auto simp: buckets_ok_def wf_config_def)
  next
    case (Some c)
    then have t: "table_ok cfg now c (as_sources (sys_state s))"
      using ok assms(3) table_ok_later by (auto simp: buckets_ok_def)
    then have "prune_sources (ac_source_idle_seconds cfg) now (as_sources (sys_state s))
      = filter (\<lambda>(k, b). py_less (py_sub (Fin now) (Fin (tb_last_seen_at b)))
          (Fin (ac_source_idle_seconds cfg))) (as_sources (sys_state s))"
      by (intro prune_exact) (auto simp: table_ok_def)
    then show ?thesis using ok t Some by (auto simp: buckets_ok_def table_ok_def)
  qed
qed

theorem admission_buckets_bounded_witness:
  "bucket_ok (ac_global_capacity sample_config) (as_global (fresh_state sample_config 7))"
  using admission_buckets_bounded [OF sample_config_wf fresh_reachable [of 7], of 9]
  by (simp add: fresh_state_def)

text \<open>
  A burst at one instant admits exactly the global capacity: of \<open>n\<close> requests decided at the time
  of a fresh limiter without per-source limits, \<open>min n capacity\<close> are admitted and the rest are
  rate rejected, with no loss to floating-point arithmetic.
\<close>
theorem burst_admits_exactly_capacity:
  assumes "wf_config cfg" "ac_source_capacity cfg = None"
  shows "as_admitted (decide_all cfg now n (fresh_state cfg now)) = min (int n) (ac_global_capacity cfg)
    \<and> as_rate_rejected (decide_all cfg now n (fresh_state cfg now)) = max 0 (int n - ac_global_capacity cfg)"
  using burst_state [of cfg "fresh_state cfg now" "ac_global_capacity cfg" now n] assms
  by (simp add: wf_config_def fresh_state_def)

theorem burst_admits_exactly_capacity_witness:
  "as_admitted (decide_all (sample_config\<lparr>ac_source_capacity := None\<rparr>) 3 50
     (fresh_state (sample_config\<lparr>ac_source_capacity := None\<rparr>) 3)) = 10"
  using burst_admits_exactly_capacity [of "sample_config\<lparr>ac_source_capacity := None\<rparr>" 3 50] sample_config_wf
  by (simp add: wf_config_def sample_config_def)

text \<open>
  Under the lock, a decision fails exactly when the time its request read before taking the lock
  is older than the last one recorded; the source bucket itself never fails.
\<close>
theorem admit_fails_iff_clock_older:
  assumes "wf_config cfg" "adm_reachable cfg s"
  shows "(\<exists>e. fst (admit cfg now key (sys_state s)) = Inl e) \<longleftrightarrow> now < tb_updated_at (as_global (sys_state s))"
  using admit_error reachable_buckets_ok assms by blast

theorem admit_fails_iff_clock_older_witness:
  "\<exists>e. fst (admit sample_config 6 (Some ''a'') (fresh_state sample_config 7)) = Inl e"
  using admit_fails_iff_clock_older [OF sample_config_wf fresh_reachable [of 7], of 6 "Some ''a''"]
  by (simp add: fresh_state_def)

lemma admit_updates_clock:
  assumes "tb_updated_at (as_global st) \<le> now"
  shows "tb_updated_at (as_global (snd (admit cfg now key st))) = now"
proof -
  obtain g where g: "refill (ac_window_seconds cfg) now (ac_global_capacity cfg) (as_global st) = Inr g"
    "tb_updated_at g = now"
    using assms by (auto simp: refill_def Let_def not_less)
  show ?thesis
  proof (cases "ac_source_capacity cfg = None \<or> key = None")
    case True
    with g show ?thesis by (auto simp: admit_def Let_def split: option.splits)
  next
    case False
    then obtain c k where c: "ac_source_capacity cfg = Some c" "key = Some k" by auto
    obtain r st2 where a: "admit_source cfg now c k (st\<lparr>as_global := take_token g\<rparr>) = (r, st2)" by (metis surj_pair)
    show ?thesis using g c a admit_source_keeps [OF a] by (simp add: admit_def)
  qed
qed

lemma decide_updates_clock:
  assumes "tb_updated_at (as_global st) \<le> now"
  shows "tb_updated_at (as_global (snd (decide cfg now key st))) = now"
  using admit_updates_clock [OF assms, of cfg key]
  by (auto simp: decide_def split: sum.splits option.splits prod.splits)

text \<open>
  The clock is read before the lock is taken, so a correct, monotonic clock does not protect a
  request: if a request that read the clock later decides first, the earlier one is refused with
  503 and \<open>admission_clock_invalid\<close>, whatever tokens are left.
\<close>
theorem overtaken_request_refused:
  assumes "tb_updated_at (as_global st) \<le> t1" "t0 < t1"
  shows "fst (decide cfg t0 k0 (snd (decide cfg t1 k1 st))) = Leaving
    \<and> as_last_error (snd (decide cfg t0 k0 (snd (decide cfg t1 k1 st)))) = Some ''admission_clock_invalid''"
proof -
  have "admit cfg t0 k0 (snd (decide cfg t1 k1 st))
      = (Inl Admission_clock_invalid, snd (decide cfg t1 k1 st))"
    using decide_updates_clock [OF assms(1), of cfg k1] assms(2) by (simp add: admit_def refill_def)
  then show ?thesis by (simp add: decide_def [of cfg t0] integration_failure_def)
qed

theorem overtaken_request_refused_witness:
  "fst (decide sample_config 8 (Some ''a'') (snd (decide sample_config 9 (Some ''b'')
     (fresh_state sample_config 7)))) = Leaving"
  using overtaken_request_refused [of "fresh_state sample_config 7" 9 8 sample_config "Some ''a''" "Some ''b''"]
  by (simp add: fresh_state_def)

text \<open>
  With per-source limits and the default resolver, a client whose compressed IPv6 address starts
  with a colon (the loopback address for one) is refused at every clock reading: the resolver's key
  does not match the key pattern, which requires an alphanumeric first character.
\<close>
theorem colon_addresses_refused:
  assumes "compressed addr = Some (CHR '':'' # rest)" "addr \<noteq> []" "ac_source_capacity cfg \<noteq> None"
  shows "\<exists>e. sample cfg reading (Source_text (socket_source compressed (JStr addr))) = Inl e"
proof -
  have "source_key (Source_text (CHR '':'' # rest)) = Inl Admission_source_invalid"
    by (simp add: source_key_def head_tail_match_def is_alnum_def is_upper_def is_lower_def is_digit_def)
  with assms show ?thesis by (auto simp: sample_def socket_source_def split: sum.splits option.splits)
qed

theorem colon_addresses_refused_witness:
  "\<exists>e. sample sample_config (Clock_number (Fin 8))
     (Source_text (socket_source (\<lambda>a. if a = ''::1'' then Some ''::1'' else None) (JStr ''::1''))) = Inl e"
  by (rule colon_addresses_refused [where rest = "'':1''"]) (simp_all add: sample_config_def)

lemma ilog2_step: "ilog2 (numeral n) = (if (numeral n :: nat) < 2 then 0 else Suc (ilog2 (numeral n div 2)))"
  by (rule ilog2.simps)

lemma ilog2_hour: "ilog2 3599 = 11" by (simp add: ilog2_step ilog2.simps[of "Suc 0"])

lemma binade_hour: "binade (1 / 3600) = - 12" by (simp add: binade_def Let_def ilog2_hour)

lemma floor_hour: "\<lfloor>1152921504606846976 / 225 :: rat\<rfloor> = 5124095576030431"
  by (rule floor_unique) simp_all

lemma fl_hour_rate: "1 / 3601 \<le> fl (1 / 3600)"
  by (simp add: fl_def fl_pos_def binade_hour on_grid_def round_half_even_def power_int_def Let_def
      power_one_over floor_hour)

text \<open>
  A rate-limited client is told to wait for a sensible time: for every bucket and configuration
  within bounds the Retry-After value lies between 1 and 3601 seconds.
\<close>
theorem retry_after_bounded:
  assumes "1 \<le> c" "1 \<le> w" "w \<le> 3600" "bucket_ok c b"
  shows "1 \<le> retry_after w c b \<and> retry_after w c b \<le> 3601"
proof -
  have "(1::rat) / 3600 \<le> 1 / w" using assms by (simp add: frac_le)
  also have "\<dots> \<le> of_int c / w" using assms by (simp add: divide_right_mono)
  finally have "fl (1 / 3600) \<le> fl (of_int c / w)" by (rule fl_mono)
  then have r: "1 / 3601 \<le> fl (of_int c / w)" using fl_hour_rate by linarith
  have one: "fl (1 - tb_tokens b) \<le> 1" using fl_mono [of "1 - tb_tokens b" 1] assms by (simp add: bucket_ok_def)
  have "fl (1 - tb_tokens b) / fl (of_int c / w) \<le> of_int 3601"
  proof -
    have "fl (1 - tb_tokens b) \<le> 3601 * fl (of_int c / w)" using r one by linarith
    then show ?thesis using r by (simp add: divide_le_eq)
  qed
  then have "fl (fl (1 - tb_tokens b) / fl (of_int c / w)) \<le> of_int 3601"
    using fl_mono [of "fl (1 - tb_tokens b) / fl (of_int c / w)" "of_int 3601"] fl_of_int [of 3601] by simp
  then show ?thesis by (simp add: retry_after_def Let_def ceiling_le_iff)
qed

theorem retry_after_bounded_witness:
  "retry_after 60 10 \<lparr>tb_tokens = 0, tb_updated_at = 5, tb_last_seen_at = 5\<rparr> \<le> 3601"
  using retry_after_bounded [of 10 60 "\<lparr>tb_tokens = 0, tb_updated_at = 5, tb_last_seen_at = 5\<rparr>"]
  by (simp add: bucket_ok_def)

end
