(* ===== verification/Sql_Table.thy ===== *)
theory Sql_Table
  imports Prelude
begin

text \<open>
  The contract of a SQL table with a primary key and CHECK constraints, as the stores use it:
  lookup by key finds the row with that key, an UPDATE by key rewrites exactly the rows with that
  key, and it succeeds exactly when the rewritten rows satisfy the CHECKs. Lemmas about keyed rows
  are proved here once; each store interprets the locale with its own statements.
\<close>

definition keyed_update :: "('r \<Rightarrow> 'k) \<Rightarrow> 'k \<Rightarrow> ('r \<Rightarrow> 'r) \<Rightarrow> 'r list \<Rightarrow> 'r list" where
  "keyed_update key k f rows = map (\<lambda>r. if key r = k then f r else r) rows"

lemma keyed_update_sum:
  assumes "distinct (map key rows)" "r \<in> set rows" "key r = k"
  shows "sum_list (map w (keyed_update key k f rows)) = sum_list (map w rows) - w r + (w (f r) :: int)"
  using assms
proof (induction rows)
  case (Cons x rows)
  show ?case
  proof (cases "x = r")
    case True
    then have "k \<notin> key ` set rows" using Cons.prems by auto
    then have "keyed_update key k f rows = rows" by (force simp: keyed_update_def intro: map_idI)
    with True Cons.prems show ?thesis by (simp add: keyed_update_def)
  next
    case False
    then have "r \<in> set rows" "key x \<noteq> k" using Cons.prems by auto
    with Cons show ?thesis by (simp add: keyed_update_def)
  qed
qed simp

locale sql_table =
  fixes key :: "'r \<Rightarrow> 'k" and check :: "'r \<Rightarrow> bool" and rows :: "'s \<Rightarrow> 'r list"
    and lookup :: "'k \<Rightarrow> 's \<Rightarrow> 'r option" and update :: "'k \<Rightarrow> ('r \<Rightarrow> 'r) \<Rightarrow> 's \<Rightarrow> 'e + 's"
  assumes lookup_find: "lookup k s = find (\<lambda>r. key r = k) (rows s)"
    and update_rows: "update k f s = Inr t \<Longrightarrow> rows t = keyed_update key k f (rows s)"
    and update_run: "\<forall>r \<in> set (rows s). key r = k \<longrightarrow> check (f r) \<Longrightarrow> \<exists>t. update k f s = Inr t"
    and update_checked: "update k f s = Inr t \<Longrightarrow> r \<in> set (rows s) \<Longrightarrow> key r = k \<Longrightarrow> key (f r) = k \<Longrightarrow> check (f r)"
begin

lemma lookup_Some: "lookup k s = Some r \<Longrightarrow> r \<in> set (rows s) \<and> key r = k"
  by (auto simp: lookup_find find_Some_iff)

lemma lookup_None: "lookup k s = None \<longleftrightarrow> k \<notin> key ` set (rows s)"
  by (auto simp: lookup_find find_None_iff)

lemma lookup_unique: "distinct (map key (rows s)) \<Longrightarrow> r \<in> set (rows s) \<Longrightarrow> lookup (key r) s = Some r"
  by (cases "lookup (key r) s") (auto simp: lookup_None dest: lookup_Some eq_key_imp_eq_value
      inj_onD [OF distinct_map [THEN iffD1, THEN conjunct2]])

lemma same_row: "distinct (map key (rows s)) \<Longrightarrow> lookup k s = Some r \<Longrightarrow> x \<in> set (rows s) \<Longrightarrow> key x = k \<Longrightarrow> x = r"
  using lookup_unique by fastforce

lemma update_succeeds:
  assumes "distinct (map key (rows s))" "lookup k s = Some r" "check (f r)"
  shows "\<exists>t. update k f s = Inr t"
  by (rule update_run) (use same_row [OF assms(1,2)] assms(3) in blast)

lemma update_check:
  assumes "update k f s = Inr t" "lookup k s = Some r" "key (f r) = k"
  shows "check (f r)"
  using update_checked [OF assms(1)] lookup_Some [OF assms(2)] assms(3) by blast

lemma update_in:
  assumes "update k f s = Inr t" "distinct (map key (rows s))" "lookup k s = Some r" "x \<in> set (rows t)"
  shows "x = f r \<or> (x \<in> set (rows s) \<and> key x \<noteq> k)"
  using assms(4) same_row [OF assms(2,3)] by (auto simp: update_rows [OF assms(1)] keyed_update_def)

lemma update_keys:
  assumes "update k f s = Inr t" "\<And>r. key (f r) = key r"
  shows "map key (rows t) = map key (rows s)"
  using assms(2) by (simp add: update_rows [OF assms(1)] keyed_update_def)

lemma update_sum:
  assumes "update k f s = Inr t" "distinct (map key (rows s))" "lookup k s = Some r"
  shows "sum_list (map w (rows t)) = sum_list (map w (rows s)) - w r + (w (f r) :: int)"
  using lookup_Some [OF assms(3)] by (simp add: update_rows [OF assms(1)] keyed_update_sum [OF assms(2)])

lemma update_lookup:
  assumes "update k f s = Inr t" "\<And>r. key (f r) = key r"
  shows "lookup k' t = (if k' = k then map_option f (lookup k s) else lookup k' s)"
proof -
  have "find (\<lambda>r. key r = k') (keyed_update key k f rs)
      = (if k' = k then map_option f (find (\<lambda>r. key r = k) rs) else find (\<lambda>r. key r = k') rs)" for rs
    by (induction rs) (auto simp: keyed_update_def assms(2))
  then show ?thesis by (simp add: lookup_find update_rows [OF assms(1)])
qed

end

end
