(* ===== verification/Quota_Pricing.thy ===== *)
theory Quota_Pricing
  imports Models
begin

text \<open>
  \<open>openai_quota.py\<close>, money: fixed-point prices, the cost of a request in nano-USD, the conversion
  of a budget given as a float, and the accounting of a provider response. Python computes with
  \<open>Decimal\<close>; every value here has at most 28 significant digits (prices have at most 15 digits,
  token counts at most 8), so that arithmetic is exact and is written on rationals.
\<close>

subsection \<open>Errors\<close>

datatype quota_error =
    Configuration_error string
  | Store_error string
  | Conflict_error string
  | Upstream_error string
  | Unexpected_exception \<comment> \<open>any other exception, as the TypeError of looking up a list or dict in a set\<close>

subsection \<open>Text and prices\<close>

definition is_control :: "char \<Rightarrow> bool" where
  "is_control c \<longleftrightarrow> (of_char c :: nat) < 32 \<or> (of_char c :: nat) = 127"

definition safe_text :: "nat \<Rightarrow> nat \<Rightarrow> (string \<Rightarrow> bool) \<Rightarrow> json \<Rightarrow> quota_error + string" where
  "safe_text minimum maximum pattern v = (case v of
       JStr s \<Rightarrow> if minimum \<le> length s \<and> length s \<le> maximum \<and> strip s \<noteq> [] \<and>
                   list_all (\<lambda>c. \<not> is_control c) s \<and> pattern s \<and> utf8_encodable s
                then Inr s else Inl (Configuration_error ''configuration_invalid'')
     | _ \<Rightarrow> Inl (Configuration_error ''configuration_invalid''))"

definition model_pattern :: "string \<Rightarrow> bool" where
  \<comment> \<open>\<open>[A-Za-z0-9][A-Za-z0-9._:/-]{1,127}\<close>\<close>
  "model_pattern = head_tail_match is_alnum (\<lambda>c. is_alnum c \<or> c \<in> set ''._:/-'') 1 127"

definition safe_id_pattern :: "string \<Rightarrow> bool" where
  \<comment> \<open>\<open>[A-Za-z0-9][A-Za-z0-9._:+/-]{2,127}\<close>\<close>
  "safe_id_pattern = head_tail_match is_alnum (\<lambda>c. is_alnum c \<or> c \<in> set ''._:+/-'') 2 127"

definition digits_value :: "string \<Rightarrow> int" where
  "digits_value = foldl (\<lambda>n c. 10 * n + (int (of_char c) - 48)) 0"

definition price_pattern :: "string \<Rightarrow> bool" where
  \<comment> \<open>\<open>(0|[1-9][0-9]{0,5})\.[0-9]{1,9}\<close>\<close>
  "price_pattern s = (let whole = takeWhile is_digit s; rest = dropWhile is_digit s in
     (whole = ''0'' \<or> (1 \<le> length whole \<and> length whole \<le> 6 \<and> hd whole \<noteq> CHR ''0'')) \<and>
     (case rest of c # decimals \<Rightarrow> c = CHR ''.'' \<and> 1 \<le> length decimals \<and> length decimals \<le> 9 \<and> list_all is_digit decimals
      | [] \<Rightarrow> False))"

definition price_of :: "string \<Rightarrow> rat" where
  \<comment> \<open>\<open>Decimal(value)\<close> of a text that matches the pattern\<close>
  "price_of s = (let whole = takeWhile is_digit s; decimals = tl (dropWhile is_digit s) in
     of_int (digits_value whole) + of_int (digits_value decimals) / 10 ^ length decimals)"

definition decimal_price :: "json \<Rightarrow> quota_error + rat" where
  "decimal_price v = (case v of
       JStr s \<Rightarrow> if price_pattern s \<and> 0 \<le> price_of s \<and> price_of s \<le> 100000 then Inr (price_of s)
                else Inl (Configuration_error ''configuration_invalid'')
     | _ \<Rightarrow> Inl (Configuration_error ''configuration_invalid''))"

definition quota_integer :: "int \<Rightarrow> int \<Rightarrow> json \<Rightarrow> quota_error + int" where
  "quota_integer minimum maximum v = (case v of
       JInt i \<Rightarrow> if minimum \<le> i \<and> i \<le> maximum then Inr i
                else Inl (Configuration_error ''configuration_invalid'')
     | _ \<Rightarrow> Inl (Configuration_error ''configuration_invalid''))"

record openai_model_pricing =
  omp_model :: string
  omp_input_rate :: rat     \<comment> \<open>USD per million tokens\<close>
  omp_cached_rate :: rat
  omp_output_rate :: rat
  omp_max_input_tokens :: int
  omp_max_output_tokens :: int

definition openai_model_pricing_init ::
  "json \<Rightarrow> json \<Rightarrow> json \<Rightarrow> json \<Rightarrow> json \<Rightarrow> json \<Rightarrow> quota_error + openai_model_pricing" where
  "openai_model_pricing_init model input_price cached_price output_price max_input max_output =
     (case safe_text 1 128 model_pattern model of Inl e \<Rightarrow> Inl e | Inr m \<Rightarrow>
     (case decimal_price input_price of Inl e \<Rightarrow> Inl e | Inr regular \<Rightarrow>
     (case decimal_price cached_price of Inl e \<Rightarrow> Inl e | Inr cached \<Rightarrow>
     (case decimal_price output_price of Inl e \<Rightarrow> Inl e | Inr output \<Rightarrow>
     (if regular \<le> 0 \<or> output \<le> 0 then Inl (Configuration_error ''configuration_invalid'')
      else if cached > regular then Inl (Configuration_error ''configuration_invalid'')
      else (case quota_integer 1 10000000 max_input of Inl e \<Rightarrow> Inl e | Inr mi \<Rightarrow>
           (case quota_integer 1 1000000 max_output of Inl e \<Rightarrow> Inl e | Inr mo \<Rightarrow>
              Inr \<lparr>omp_model = m, omp_input_rate = regular, omp_cached_rate = cached,
                   omp_output_rate = output, omp_max_input_tokens = mi,
                   omp_max_output_tokens = mo\<rparr>)))))))"

definition quota_cost :: "int \<Rightarrow> rat \<Rightarrow> int" where
  "quota_cost tokens r = \<lceil>of_int tokens * r * 1000000000 / 1000000\<rceil>"

definition maximum_cost_nusd :: "openai_model_pricing \<Rightarrow> int \<Rightarrow> int \<Rightarrow> int" where
  "maximum_cost_nusd p input_tokens output_tokens =
     quota_cost input_tokens (omp_input_rate p) + quota_cost output_tokens (omp_output_rate p)"

definition actual_cost_nusd :: "openai_model_pricing \<Rightarrow> int \<Rightarrow> int \<Rightarrow> int \<Rightarrow> int" where
  "actual_cost_nusd p input_tokens cached_input_tokens output_tokens =
     (let regular_tokens = input_tokens - cached_input_tokens in
      quota_cost regular_tokens (omp_input_rate p)
      + quota_cost cached_input_tokens (omp_cached_rate p)
      + quota_cost output_tokens (omp_output_rate p))"

definition pricing_for :: "openai_model_pricing list \<Rightarrow> string \<Rightarrow> quota_error + openai_model_pricing" where
  "pricing_for models m = (case find (\<lambda>p. omp_model p = m) models of
       Some p \<Rightarrow> Inr p | None \<Rightarrow> Inl (Conflict_error ''model_not_allowed''))"

subsection \<open>Budgets given as floats\<close>

definition digit_scale :: "rat \<Rightarrow> int" where
  \<comment> \<open>the \<open>d\<close> with \<open>10^d \<le> x < 10^(d+1)\<close>, searched from the binary exponent\<close>
  "digit_scale x = (let b = binade x; d0 = (b * 30103) div 100000 in
     if 10 powi (d0 + 1) \<le> x then d0 + 1 else if x < 10 powi d0 then d0 - 1 else d0)"

fun shortest_decimal :: "nat \<Rightarrow> nat \<Rightarrow> rat \<Rightarrow> rat" where
  \<comment> \<open>\<open>Decimal(repr(x))\<close> for a positive float: the fewest digits that read back as \<open>x\<close>, nearest first\<close>
  "shortest_decimal 0 digits x = x"
| "shortest_decimal (Suc fuel) digits x =
     (let u = 10 powi (digit_scale x - int digits);
          lo = of_int \<lfloor>x / u\<rfloor> * u; hi = of_int \<lceil>x / u\<rceil> * u;
          near = (if x - lo \<le> hi - x then lo else hi);
          far = (if x - lo \<le> hi - x then hi else lo)
      in if fl near = x then near else if fl far = x then far
         else shortest_decimal fuel (Suc digits) x)"

definition decimal_of_float :: "rat \<Rightarrow> rat" where
  \<comment> \<open>\<open>Decimal(str(x))\<close>; 17 significant digits always suffice\<close>
  "decimal_of_float x = (if x = 0 then 0 else if x < 0 then - shortest_decimal 17 0 (- x)
                         else shortest_decimal 17 0 x)"

definition usd_to_nusd_floor :: "rat \<Rightarrow> int" where
  "usd_to_nusd_floor x = \<lfloor>decimal_of_float x * 1000000000\<rfloor>"

definition nusd_to_usd :: "int \<Rightarrow> pyfloat" where
  "nusd_to_usd n = to_float (of_int n / 1000000000)"

subsection \<open>Request authorization and response accounting\<close>

record authorized_request =
  ar_model :: string
  ar_pricing :: openai_model_pricing
  ar_input_token_limit :: int
  ar_output_token_limit :: int
  ar_maximum_cost_nusd :: int

definition MAX_OPENAI_QUOTA_REQUEST_BYTES :: nat where
  "MAX_OPENAI_QUOTA_REQUEST_BYTES = 4 * 1024 * 1024"

definition allowed_request_fields :: "string list" where
  "allowed_request_fields = [''input'', ''instructions'', ''max_output_tokens'', ''metadata'', ''model'',
     ''reasoning'', ''store'', ''stream'', ''temperature'', ''text'', ''top_p'']"

definition closed_keys :: "string list \<Rightarrow> dict \<Rightarrow> bool" where
  "closed_keys keys obj \<longleftrightarrow> set (map fst obj) = set keys"

definition input_part_ok :: "json \<Rightarrow> bool" where
  "input_part_ok v = (case v of
       JObj part \<Rightarrow> closed_keys [''type'', ''text''] part \<and> jget part ''type'' = JStr ''input_text''
                    \<and> (case jget part ''text'' of JStr _ \<Rightarrow> True | _ \<Rightarrow> False)
     | _ \<Rightarrow> False)"

definition message_content_ok :: "json \<Rightarrow> bool" where
  "message_content_ok v = (case v of
       JStr _ \<Rightarrow> True | JArr parts \<Rightarrow> parts \<noteq> [] \<and> list_all input_part_ok parts | _ \<Rightarrow> False)"

definition message_problem :: "json \<Rightarrow> quota_error option" where
  "message_problem v = (case v of
       JObj msg \<Rightarrow>
         if \<not> closed_keys [''role'', ''content''] msg then Some (Conflict_error ''request_invalid'')
         else (case jget msg ''role'' of
             JArr _ \<Rightarrow> Some Unexpected_exception
           | JObj _ \<Rightarrow> Some Unexpected_exception
           | r \<Rightarrow> if r \<in> JStr ` {''developer'', ''system'', ''user'', ''assistant''}
                     \<and> message_content_ok (jget msg ''content'')
                  then None else Some (Conflict_error ''request_invalid''))
     | _ \<Rightarrow> Some (Conflict_error ''request_invalid''))"

fun first_problem :: "('a \<Rightarrow> quota_error option) \<Rightarrow> 'a list \<Rightarrow> quota_error option" where
  "first_problem f [] = None"
| "first_problem f (x # xs) = (case f x of Some e \<Rightarrow> Some e | None \<Rightarrow> first_problem f xs)"

definition validate_input_content :: "json \<Rightarrow> quota_error option" where
  "validate_input_content v = (case v of
       JStr s \<Rightarrow> if MAX_OPENAI_QUOTA_REQUEST_BYTES < length s then Some (Conflict_error ''request_invalid'') else None
     | JArr messages \<Rightarrow> if messages = [] then Some (Conflict_error ''request_invalid'')
                       else first_problem message_problem messages
     | _ \<Rightarrow> Some (Conflict_error ''request_invalid''))"

definition authorize_priced :: "openai_model_pricing \<Rightarrow> string \<Rightarrow> dict \<Rightarrow> quota_error + authorized_request" where
  "authorize_priced p m doc =
     (if jget doc ''store'' \<noteq> JBool False
         \<or> (has_key doc ''stream'' \<and> jget doc ''stream'' \<noteq> JBool False)
         \<or> \<not> (case jget doc ''instructions'' of JNull \<Rightarrow> True | JStr _ \<Rightarrow> True | _ \<Rightarrow> False)
      then Inl (Conflict_error ''request_invalid'')
      else (case validate_input_content (jget doc ''input'') of Some e \<Rightarrow> Inl e
      | None \<Rightarrow> (case jget doc ''max_output_tokens'' of
          JInt n \<Rightarrow>
            if 1 \<le> n \<and> n \<le> omp_max_output_tokens p
            then Inr \<lparr>ar_model = m, ar_pricing = p, ar_input_token_limit = omp_max_input_tokens p,
                      ar_output_token_limit = n,
                      ar_maximum_cost_nusd = maximum_cost_nusd p (omp_max_input_tokens p) n\<rparr>
            else Inl (Conflict_error ''request_invalid'')
        | _ \<Rightarrow> Inl (Conflict_error ''request_invalid''))))"

definition authorize_request ::
  "openai_model_pricing list \<Rightarrow> json option \<Rightarrow> quota_error + authorized_request" where
  \<comment> \<open>the second argument is the decoded body, \<open>None\<close> when it is not strict UTF-8 JSON\<close>
  "authorize_request models body =
     (case body of
        Some (JObj doc) \<Rightarrow>
          if \<not> (set (map fst doc) \<subseteq> set allowed_request_fields
                \<and> {''model'', ''input'', ''max_output_tokens'', ''store''} \<subseteq> set (map fst doc))
          then Inl (Conflict_error ''request_invalid'')
          else (case jget doc ''model'' of
            JStr m \<Rightarrow>
              if \<not> model_pattern m then Inl (Conflict_error ''request_invalid'')
              else (case pricing_for models m of Inl e \<Rightarrow> Inl e | Inr p \<Rightarrow> authorize_priced p m doc)
          | _ \<Rightarrow> Inl (Conflict_error ''request_invalid''))
      | _ \<Rightarrow> Inl (Conflict_error ''request_invalid''))"

record provider_usage =
  pu_input_tokens :: int
  pu_cached_input_tokens :: int
  pu_output_tokens :: int
  pu_actual_cost_nusd :: int
  pu_response_id :: "string option"

definition response_id_ok :: "string \<Rightarrow> bool" where
  "response_id_ok s \<longleftrightarrow> 1 \<le> length s \<and> length s \<le> 255 \<and> list_all (\<lambda>c. \<not> is_control c) s"

definition response_id :: "dict \<Rightarrow> quota_error + string option" where
  "response_id doc = (case jget doc ''id'' of
       JNull \<Rightarrow> Inr None
     | JStr s \<Rightarrow> if response_id_ok s then Inr (Some s) else Inl (Upstream_error ''upstream_response_id_invalid'')
     | _ \<Rightarrow> Inl (Upstream_error ''upstream_response_id_invalid''))"

definition usage_tokens :: "dict \<Rightarrow> authorized_request \<Rightarrow> quota_error + (int \<times> int \<times> int)" where
  "usage_tokens usage auth =
     (case (if has_key usage ''input_tokens_details'' then jget usage ''input_tokens_details'' else JObj []) of
        JObj details \<Rightarrow>
          (case (jget usage ''input_tokens'', jget usage ''output_tokens'',
                 if has_key details ''cached_tokens'' then jget details ''cached_tokens'' else JInt 0) of
            (JInt i, JInt n, JInt c) \<Rightarrow>
              if 0 \<le> c \<and> c \<le> i \<and> i \<le> ar_input_token_limit auth \<and> 0 \<le> n \<and> n \<le> ar_output_token_limit auth
              then Inr (i, c, n) else Inl (Upstream_error ''upstream_usage_out_of_bounds'')
          | _ \<Rightarrow> Inl (Upstream_error ''upstream_usage_out_of_bounds''))
      | _ \<Rightarrow> Inl (Upstream_error ''upstream_usage_invalid''))"

definition usage_accounting :: "json option \<Rightarrow> authorized_request \<Rightarrow> quota_error + provider_usage" where
  "usage_accounting body auth =
     (case body of
        Some (JObj doc) \<Rightarrow>
          if jget doc ''model'' \<noteq> JStr (ar_model auth) then Inl (Upstream_error ''upstream_model_mismatch'')
          else (case jget doc ''usage'' of
            JObj usage \<Rightarrow>
              (case usage_tokens usage auth of Inl e \<Rightarrow> Inl e
               | Inr (i, c, n) \<Rightarrow>
                   (case response_id doc of Inl e \<Rightarrow> Inl e
                    | Inr r \<Rightarrow> Inr \<lparr>pu_input_tokens = i, pu_cached_input_tokens = c, pu_output_tokens = n,
                        pu_actual_cost_nusd = actual_cost_nusd (ar_pricing auth) i c n,
                        pu_response_id = r\<rparr>))
          | _ \<Rightarrow> Inl (Upstream_error ''upstream_usage_missing''))
      | _ \<Rightarrow> Inl (Upstream_error ''upstream_json_invalid''))"

subsection \<open>Costs\<close>

lemma quota_cost_nonneg: "0 \<le> t \<Longrightarrow> 0 \<le> r \<Longrightarrow> 0 \<le> quota_cost t r"
proof -
  assume "0 \<le> t" "0 \<le> r"
  then have "(0::rat) \<le> of_int t * r * 1000000000 / 1000000" by simp
  from ceiling_mono [OF this] show ?thesis by (simp add: quota_cost_def)
qed

lemma quota_cost_mono: "t \<le> u \<Longrightarrow> r \<le> s \<Longrightarrow> 0 \<le> u \<Longrightarrow> 0 \<le> r \<Longrightarrow> quota_cost t r \<le> quota_cost u s"
proof -
  assume "t \<le> u" "r \<le> s" "0 \<le> u" "0 \<le> r"
  then have "of_int t * r \<le> of_int u * s"
    by (meson mult_mono' mult_right_mono mult_left_mono of_int_0_le_iff of_int_le_iff order_trans)
  then show ?thesis unfolding quota_cost_def by (intro ceiling_mono) (simp add: mult.commute)
qed

lemma quota_cost_add: "quota_cost t r + quota_cost u r \<le> quota_cost (t + u) r + 1"
proof -
  have "\<lceil>x\<rceil> + \<lceil>y\<rceil> \<le> \<lceil>x + y\<rceil> + 1" for x y :: rat by linarith
  from this [of "of_int t * r * 1000000000 / 1000000" "of_int u * r * 1000000000 / 1000000"]
  show ?thesis by (simp add: quota_cost_def algebra_simps add_divide_distrib)
qed

definition wf_pricing :: "openai_model_pricing \<Rightarrow> bool" where
  "wf_pricing p \<longleftrightarrow> 0 < omp_input_rate p \<and> 0 \<le> omp_cached_rate p \<and> omp_cached_rate p \<le> omp_input_rate p
     \<and> 0 < omp_output_rate p \<and> 1 \<le> omp_max_input_tokens p \<and> 1 \<le> omp_max_output_tokens p"

lemma decimal_price_range: "decimal_price v = Inr x \<Longrightarrow> 0 \<le> x \<and> x \<le> 100000"
  by (auto simp: decimal_price_def split: json.splits if_splits)

lemma quota_integer_range: "quota_integer lo hi v = Inr i \<Longrightarrow> lo \<le> i \<and> i \<le> hi"
  by (auto simp: quota_integer_def split: json.splits if_splits)

lemma pricing_init_wf: "openai_model_pricing_init m a b c d e = Inr p \<Longrightarrow> wf_pricing p"
  using decimal_price_range [of a] decimal_price_range [of b] decimal_price_range [of c]
    quota_integer_range [of 1 10000000 d] quota_integer_range [of 1 1000000 e]
  by (auto simp: openai_model_pricing_init_def wf_pricing_def not_le split: sum.splits if_splits)

lemma actual_at_most_maximum_plus_one:
  assumes "wf_pricing p" "0 \<le> c" "c \<le> i" "i \<le> limit_in" "0 \<le> n" "n \<le> limit_out"
  shows "actual_cost_nusd p i c n \<le> maximum_cost_nusd p limit_in limit_out + 1"
proof -
  have "quota_cost c (omp_cached_rate p) \<le> quota_cost c (omp_input_rate p)"
    using assms by (intro quota_cost_mono) (auto simp: wf_pricing_def)
  moreover have "quota_cost (i - c) (omp_input_rate p) + quota_cost c (omp_input_rate p)
      \<le> quota_cost i (omp_input_rate p) + 1"
    using quota_cost_add [of "i - c" "omp_input_rate p" c] by simp
  moreover have "quota_cost i (omp_input_rate p) \<le> quota_cost limit_in (omp_input_rate p)"
    "quota_cost n (omp_output_rate p) \<le> quota_cost limit_out (omp_output_rate p)"
    using assms by (intro quota_cost_mono; auto simp: wf_pricing_def)+
  ultimately show ?thesis by (simp add: actual_cost_nusd_def maximum_cost_nusd_def)
qed

lemma actual_at_most_maximum_whole:
  assumes "wf_pricing p" "0 \<le> c" "c \<le> i" "i \<le> limit_in" "0 \<le> n" "n \<le> limit_out"
    "omp_input_rate p * 1000 \<in> \<int>"
  shows "actual_cost_nusd p i c n \<le> maximum_cost_nusd p limit_in limit_out"
proof -
  obtain k where k: "omp_input_rate p * 1000 = of_int k" using assms(7) by (auto elim: Ints_cases)
  have whole: "quota_cost t (omp_input_rate p) = t * k" for t
  proof -
    have "of_int t * omp_input_rate p * 1000000000 / 1000000 = of_int t * (omp_input_rate p * 1000)" by simp
    also have "\<dots> = of_int (t * k)" by (simp only: k of_int_mult)
    finally have "quota_cost t (omp_input_rate p) = \<lceil>of_int (t * k) :: rat\<rceil>"
      by (simp only: quota_cost_def)
    then show ?thesis by (simp only: ceiling_of_int)
  qed
  have "quota_cost c (omp_cached_rate p) \<le> quota_cost c (omp_input_rate p)"
    using assms by (intro quota_cost_mono) (auto simp: wf_pricing_def)
  moreover have "quota_cost i (omp_input_rate p) \<le> quota_cost limit_in (omp_input_rate p)"
    "quota_cost n (omp_output_rate p) \<le> quota_cost limit_out (omp_output_rate p)"
    using assms by (intro quota_cost_mono; auto simp: wf_pricing_def)+
  moreover have "quota_cost (i - c) (omp_input_rate p) + quota_cost c (omp_input_rate p) = quota_cost i (omp_input_rate p)"
    by (simp add: whole algebra_simps)
  ultimately show ?thesis by (simp add: actual_cost_nusd_def maximum_cost_nusd_def)
qed

lemma pricing_for_mem: "pricing_for models m = Inr p \<Longrightarrow> p \<in> set models \<and> omp_model p = m"
  by (auto simp: pricing_for_def find_Some_iff split: option.splits)

lemma authorize_priced_limits:
  assumes "authorize_priced p m doc = Inr a"
  shows "ar_pricing a = p \<and> ar_model a = m \<and> ar_input_token_limit a = omp_max_input_tokens p
    \<and> 1 \<le> ar_output_token_limit a \<and> ar_output_token_limit a \<le> omp_max_output_tokens p
    \<and> ar_maximum_cost_nusd a = maximum_cost_nusd p (ar_input_token_limit a) (ar_output_token_limit a)"
proof -
  obtain n where "jget doc ''max_output_tokens'' = JInt n"
    using assms by (cases "jget doc ''max_output_tokens''") (simp_all add: authorize_priced_def split: if_splits option.splits)
  then show ?thesis using assms by (auto simp: authorize_priced_def split: if_splits option.splits)
qed

lemma authorize_request_limits:
  assumes "authorize_request models body = Inr a"
  shows "ar_pricing a \<in> set models \<and> omp_model (ar_pricing a) = ar_model a
    \<and> ar_input_token_limit a = omp_max_input_tokens (ar_pricing a)
    \<and> 1 \<le> ar_output_token_limit a \<and> ar_output_token_limit a \<le> omp_max_output_tokens (ar_pricing a)
    \<and> ar_maximum_cost_nusd a
        = maximum_cost_nusd (ar_pricing a) (ar_input_token_limit a) (ar_output_token_limit a)"
proof -
  obtain m p doc where "pricing_for models m = Inr p" "authorize_priced p m doc = Inr a"
    using assms by (auto simp: authorize_request_def split: option.splits json.splits sum.splits if_splits)
  then show ?thesis using pricing_for_mem authorize_priced_limits by blast
qed

lemma response_id_valid: "response_id doc = Inr r \<Longrightarrow> pred_option response_id_ok r"
  by (auto simp: response_id_def split: json.splits if_splits)

lemma usage_tokens_bounds: "usage_tokens usage a = Inr (i, c, n) \<Longrightarrow>
    0 \<le> c \<and> c \<le> i \<and> i \<le> ar_input_token_limit a \<and> 0 \<le> n \<and> n \<le> ar_output_token_limit a"
  by (auto simp: usage_tokens_def split: json.splits if_splits)

lemma usage_accounting_limits:
  assumes "usage_accounting body a = Inr u"
  shows "0 \<le> pu_cached_input_tokens u \<and> pu_cached_input_tokens u \<le> pu_input_tokens u
    \<and> pu_input_tokens u \<le> ar_input_token_limit a \<and> 0 \<le> pu_output_tokens u
    \<and> pu_output_tokens u \<le> ar_output_token_limit a
    \<and> pu_actual_cost_nusd u = actual_cost_nusd (ar_pricing a) (pu_input_tokens u)
        (pu_cached_input_tokens u) (pu_output_tokens u)
    \<and> pred_option response_id_ok (pu_response_id u)"
proof -
  obtain doc usage i c n r where t: "usage_tokens usage a = Inr (i, c, n)" and r: "response_id doc = Inr r"
    and u: "u = \<lparr>pu_input_tokens = i, pu_cached_input_tokens = c, pu_output_tokens = n,
      pu_actual_cost_nusd = actual_cost_nusd (ar_pricing a) i c n, pu_response_id = r\<rparr>"
    using assms by (auto simp: usage_accounting_def split: option.splits json.splits sum.splits if_splits)
  show ?thesis using usage_tokens_bounds [OF t] response_id_valid [OF r] by (simp add: u)
qed

subsection \<open>Properties\<close>

definition sample_pricing :: openai_model_pricing where
  "sample_pricing = \<lparr>omp_model = ''gpt-x'', omp_input_rate = 5/4, omp_cached_rate = 1/8,
     omp_output_rate = 10, omp_max_input_tokens = 1000, omp_max_output_tokens = 200\<rparr>"

definition sample_request :: json where
  "sample_request = JObj [(''model'', JStr ''gpt-x''), (''input'', JStr ''hello''),
     (''max_output_tokens'', JInt 100), (''store'', JBool False)]"

definition sample_response :: json where
  "sample_response = JObj [(''model'', JStr ''gpt-x''), (''id'', JStr ''r-1''),
     (''usage'', JObj [(''input_tokens'', JInt 50), (''output_tokens'', JInt 7),
        (''input_tokens_details'', JObj [(''cached_tokens'', JInt 20)])])]"

definition sample_authorized :: authorized_request where
  "sample_authorized = \<lparr>ar_model = ''gpt-x'', ar_pricing = sample_pricing, ar_input_token_limit = 1000,
     ar_output_token_limit = 100, ar_maximum_cost_nusd = 2250000\<rparr>"

lemma sample_authorized: "authorize_request [sample_pricing] (Some sample_request) = Inr sample_authorized"
  by (simp add: authorize_request_def authorize_priced_def sample_request_def sample_pricing_def sample_authorized_def
      allowed_request_fields_def has_key_def model_pattern_def head_tail_match_def is_alnum_def is_lower_def
      is_upper_def is_digit_def pricing_for_def validate_input_content_def MAX_OPENAI_QUOTA_REQUEST_BYTES_def
      maximum_cost_nusd_def quota_cost_def)

lemma sample_usage: "\<exists>u. usage_accounting (Some sample_response) sample_authorized = Inr u"
  by (simp add: usage_accounting_def usage_tokens_def response_id_def sample_response_def sample_authorized_def has_key_def response_id_ok_def
      is_control_def)

text \<open>
  C38. Budget safety of accounting: whenever a request is authorized and the provider's usage report
  is accepted, the input, cached and output tokens are within the authorized limits, and the cost charged exceeds the cost
  reserved for the request by at most one nano-USD, and not at all when the regular input price
  is a whole number of nano-USD per token.
\<close>
theorem accounted_cost_within_authorization:
  assumes "list_all wf_pricing models" "authorize_request models req = Inr a"
    "usage_accounting resp a = Inr u"
  shows "0 \<le> pu_cached_input_tokens u \<and> pu_cached_input_tokens u \<le> pu_input_tokens u
    \<and> pu_input_tokens u \<le> ar_input_token_limit a \<and> 0 \<le> pu_output_tokens u
    \<and> pu_output_tokens u \<le> ar_output_token_limit a
    \<and> pu_actual_cost_nusd u \<le> ar_maximum_cost_nusd a + 1
    \<and> (omp_input_rate (ar_pricing a) * 1000 \<in> \<int> \<longrightarrow> pu_actual_cost_nusd u \<le> ar_maximum_cost_nusd a)"
  using assms authorize_request_limits [OF assms(2)] usage_accounting_limits [OF assms(3)]
    actual_at_most_maximum_plus_one actual_at_most_maximum_whole
  by (auto simp: list_all_iff)

theorem accounted_cost_within_authorization_witness:
  "\<exists>u. usage_accounting (Some sample_response) sample_authorized = Inr u
     \<and> pu_input_tokens u \<le> 1000 \<and> pu_output_tokens u \<le> 100
     \<and> pu_actual_cost_nusd u \<le> ar_maximum_cost_nusd sample_authorized + 1"
  using sample_usage accounted_cost_within_authorization [OF _ sample_authorized]
  by (auto simp: wf_pricing_def sample_pricing_def sample_authorized_def)

lemma ceiling_half: "\<lceil>1 / 2 :: rat\<rceil> = 1"
  by (rule ceiling_unique) simp_all

text \<open>
  The reservation can fall one nano-USD short: with an accepted price list of 0.0005 USD per
  million input tokens, cached or not, a request limited to 2 input and 1 output tokens may be
  billed, at exactly those tokens and one of them cached, one nano-USD above its maximum cost,
  because the parts of the input are rounded up separately.
\<close>
theorem reservation_can_fall_short:
  "(case openai_model_pricing_init (JStr ''gpt-x'') (JStr ''0.0005'') (JStr ''0.0005'') (JStr ''1.0'')
          (JInt 2) (JInt 1) of
      Inl _ \<Rightarrow> False
    | Inr p \<Rightarrow> actual_cost_nusd p 2 1 1 = maximum_cost_nusd p 2 1 + 1)"
  by (simp add: openai_model_pricing_init_def safe_text_def strip_def is_space_def is_control_def
      model_pattern_def head_tail_match_def is_alnum_def is_lower_def is_upper_def is_digit_def
      decimal_price_def price_pattern_def price_of_def digits_value_def quota_integer_def
      actual_cost_nusd_def maximum_cost_nusd_def quota_cost_def ceiling_half)

text \<open>
  A price list entry that the configuration accepts is usable: positive regular and output
  prices, a cached price not above the regular one, and positive token limits.
\<close>
theorem accepted_pricing_is_sound:
  "pred_option wf_pricing (case openai_model_pricing_init m a b c d e of Inl _ \<Rightarrow> None | Inr p \<Rightarrow> Some p)"
  using pricing_init_wf by (auto split: sum.split)

end
