(* ===== verification/Quota_Store.thy ===== *)
theory Quota_Store
  imports Quota_Pricing Sql_Table
begin

text \<open>
  \<open>openai_quota.py\<close>, the transactional ledger: leases and operations as the rows of the two SQLite
  tables with their CHECK, UNIQUE and FOREIGN KEY constraints, transactions that roll back on an
  error, and the operations of the store. Times are microseconds of UTC since the epoch when read
  from the clock and seconds when stored; SHA-256 and the random lease id and token are parameters.
\<close>

subsection \<open>Rows\<close>

datatype lease_state = Lease_active | Lease_settled | Lease_canceled | Lease_failed

datatype operation_status = Op_forwarding | Op_completed | Op_uncertain | Op_accounting_failed

record lease_row =
  lr_lease_id :: string
  lr_token_sha256 :: string
  lr_case_id :: string
  lr_state :: lease_state
  lr_created_at :: int
  lr_expires_at :: int
  lr_max_cost :: int
  lr_max_concurrency :: int
  lr_max_operations :: int
  lr_operation_count :: int
  lr_successful :: int
  lr_in_flight :: int
  lr_held :: int
  lr_actual :: int
  lr_uncertain :: int
  lr_terminal_reason :: "string option"
  lr_terminal_at :: "int option"

record operation_row =
  or_lease_id :: string
  or_sequence :: int
  or_request_sha256 :: string
  or_model :: string
  or_input_limit :: int
  or_output_limit :: int
  or_reserved :: int
  or_status :: operation_status
  or_started_at :: int
  or_finished_at :: "int option"
  or_input_tokens :: "int option"
  or_cached_tokens :: "int option"
  or_output_tokens :: "int option"
  or_actual :: "int option"
  or_response_id :: "string option"
  or_failure :: "string option"

record quota_store =
  qs_leases :: "lease_row list"
  qs_operations :: "operation_row list"

definition sha256_text :: "string \<Rightarrow> bool" where
  "sha256_text s \<longleftrightarrow> length s = 64 \<and> list_all (\<lambda>c. \<not> is_upper c) s"

definition lease_row_ok :: "lease_row \<Rightarrow> bool" where
  "lease_row_ok r \<longleftrightarrow> sha256_text (lr_token_sha256 r)
     \<and> 0 \<le> lr_max_cost r \<and> 1 \<le> lr_max_concurrency r \<and> lr_max_concurrency r \<le> 64
     \<and> 1 \<le> lr_max_operations r \<and> lr_max_operations r \<le> 10000
     \<and> 0 \<le> lr_operation_count r \<and> 0 \<le> lr_successful r \<and> 0 \<le> lr_in_flight r
     \<and> 0 \<le> lr_held r \<and> 0 \<le> lr_actual r \<and> 0 \<le> lr_uncertain r
     \<and> lr_operation_count r \<le> lr_max_operations r \<and> lr_successful r \<le> lr_operation_count r
     \<and> lr_in_flight r \<le> lr_max_concurrency r
     \<and> lr_actual r + lr_held r + lr_uncertain r \<le> lr_max_cost r
     \<and> (lr_state r = Lease_active \<longleftrightarrow> lr_terminal_reason r = None)
     \<and> (lr_state r = Lease_active \<longleftrightarrow> lr_terminal_at r = None)"

definition operation_row_ok :: "operation_row \<Rightarrow> bool" where
  "operation_row_ok r \<longleftrightarrow> 1 \<le> or_sequence r \<and> sha256_text (or_request_sha256 r)
     \<and> 1 \<le> or_input_limit r \<and> 1 \<le> or_output_limit r \<and> 0 \<le> or_reserved r
     \<and> pred_option (\<lambda>n. 0 \<le> n) (or_input_tokens r) \<and> pred_option (\<lambda>n. 0 \<le> n) (or_cached_tokens r)
     \<and> pred_option (\<lambda>n. 0 \<le> n) (or_output_tokens r) \<and> pred_option (\<lambda>n. 0 \<le> n) (or_actual r)
     \<and> (or_status r \<in> {Op_forwarding, Op_completed} \<longleftrightarrow> or_failure r = None)"

subsection \<open>Statements and transactions\<close>

definition find_lease :: "string \<Rightarrow> quota_store \<Rightarrow> lease_row option" where
  "find_lease lid s = find (\<lambda>r. lr_lease_id r = lid) (qs_leases s)"

definition find_operation :: "string \<Rightarrow> int \<Rightarrow> quota_store \<Rightarrow> operation_row option" where
  "find_operation lid n s = find (\<lambda>r. or_lease_id r = lid \<and> or_sequence r = n) (qs_operations s)"

definition insert_lease :: "lease_row \<Rightarrow> quota_store \<Rightarrow> quota_error + quota_store" where
  "insert_lease r s =
     (if lease_row_ok r
         \<and> list_all (\<lambda>q. lr_lease_id q \<noteq> lr_lease_id r \<and> lr_token_sha256 q \<noteq> lr_token_sha256 r) (qs_leases s)
      then Inr (s\<lparr>qs_leases := qs_leases s @ [r]\<rparr>) else Inl (Store_error ''store_failed''))"

definition insert_operation :: "operation_row \<Rightarrow> quota_store \<Rightarrow> quota_error + quota_store" where
  "insert_operation r s =
     (if operation_row_ok r \<and> find_lease (or_lease_id r) s \<noteq> None
         \<and> find_operation (or_lease_id r) (or_sequence r) s = None
      then Inr (s\<lparr>qs_operations := qs_operations s @ [r]\<rparr>) else Inl (Store_error ''store_failed''))"

definition update_lease :: "string \<Rightarrow> (lease_row \<Rightarrow> lease_row) \<Rightarrow> quota_store \<Rightarrow> quota_error + quota_store" where
  "update_lease lid f s =
     (let rows = map (\<lambda>r. if lr_lease_id r = lid then f r else r) (qs_leases s)
      in if list_all (\<lambda>r. lr_lease_id r = lid \<longrightarrow> lease_row_ok r) rows
         then Inr (s\<lparr>qs_leases := rows\<rparr>) else Inl (Store_error ''store_failed''))"

definition update_operation :: "string \<Rightarrow> int \<Rightarrow> (operation_row \<Rightarrow> operation_row) \<Rightarrow> quota_store \<Rightarrow>
    quota_error + quota_store" where
  "update_operation lid n f s =
     (let rows = map (\<lambda>r. if or_lease_id r = lid \<and> or_sequence r = n then f r else r) (qs_operations s)
      in if list_all (\<lambda>r. or_lease_id r = lid \<and> or_sequence r = n \<longrightarrow> operation_row_ok r) rows
         then Inr (s\<lparr>qs_operations := rows\<rparr>) else Inl (Store_error ''store_failed''))"

datatype sqlite_error = Database_locked | Database_failed

definition translate_sqlite_error :: "sqlite_error \<Rightarrow> quota_error" where
  "translate_sqlite_error e = (case e of
       Database_locked \<Rightarrow> Conflict_error ''store_busy'' | Database_failed \<Rightarrow> Store_error ''store_failed'')"

datatype database =
    Works
  | Refuses string \<comment> \<open>\<open>_connect\<close> or \<open>_require_schema\<close> raises the store error with this code\<close>
  | Fails sqlite_error \<comment> \<open>SQLite raises on connecting, at BEGIN, or in a statement of the body\<close>
  | Fails_at_commit sqlite_error

definition transaction :: "database \<Rightarrow> (quota_store \<Rightarrow> quota_error + ('a \<times> quota_store)) \<Rightarrow> quota_store \<Rightarrow>
    (quota_error + 'a) \<times> quota_store" where
  \<comment> \<open>\<open>_write\<close>: commit the result or roll back; the first argument is how the database answers\<close>
  "transaction db body s = (case db of
       Works \<Rightarrow> (case body s of Inl e \<Rightarrow> (Inl e, s) | Inr (x, s') \<Rightarrow> (Inr x, s'))
     | Refuses code \<Rightarrow> (Inl (Store_error code), s)
     | Fails e \<Rightarrow> (Inl (translate_sqlite_error e), s)
     | Fails_at_commit e \<Rightarrow> (case body s of Inl e' \<Rightarrow> (Inl e', s) | Inr _ \<Rightarrow> (Inl (translate_sqlite_error e), s)))"

definition seconds_of :: "int \<Rightarrow> int" where
  "seconds_of us = us div 1000000"

definition sqlite_max_integer :: int where
  "sqlite_max_integer = 2 ^ 63 - 1"

subsection \<open>Reserving a lease\<close>

record quota_reservation =
  qr_case_id :: string
  qr_max_cost :: json            \<comment> \<open>an int or a float, as given\<close>
  qr_max_concurrency :: int
  qr_max_operations :: int
  qr_timeout :: rat

definition finite_number :: "rat \<Rightarrow> rat option \<Rightarrow> json \<Rightarrow> rat option" where
  "finite_number minimum maximum v = (case number_as_float v of
       Some (Fin x) \<Rightarrow> if minimum \<le> x \<and> (case maximum of None \<Rightarrow> True | Some m \<Rightarrow> x \<le> m) then Some x else None
     | _ \<Rightarrow> None)"

definition reservation_text :: "json \<Rightarrow> string option" where
  "reservation_text v = (case v of
       JStr s \<Rightarrow> if 1 \<le> length s \<and> length s \<le> 2048 \<and> utf8_encodable s \<and> strip s \<noteq> []
                   \<and> list_all (\<lambda>c. 32 \<le> (of_char c :: nat)) s then Some s else None
     | _ \<Rightarrow> None)"

definition reservation_integer :: "int \<Rightarrow> int \<Rightarrow> json \<Rightarrow> int option" where
  "reservation_integer minimum maximum v = (case v of
       JInt i \<Rightarrow> if minimum \<le> i \<and> i \<le> maximum then Some i else None | _ \<Rightarrow> None)"

definition quota_reservation_init :: "json \<Rightarrow> json \<Rightarrow> json \<Rightarrow> json \<Rightarrow> json \<Rightarrow> quota_reservation option" where
  "quota_reservation_init case_id max_cost concurrency operations timeout =
     (case (reservation_text case_id, finite_number 0 None max_cost, reservation_integer 1 64 concurrency,
            reservation_integer 1 10000 operations,
            finite_number (fl (1 / 1000)) (Some 86400) timeout) of
        (Some i, Some _, Some mc, Some mo, Some t) \<Rightarrow>
          Some \<lparr>qr_case_id = i, qr_max_cost = max_cost, qr_max_concurrency = mc, qr_max_operations = mo,
                qr_timeout = t\<rparr>
      | _ \<Rightarrow> None)"

definition budget_nusd :: "json \<Rightarrow> int" where
  "budget_nusd v = (case v of JInt i \<Rightarrow> i * 1000000000 | JFloat (Fin x) \<Rightarrow> usd_to_nusd_floor x | _ \<Rightarrow> 0)"

definition expires_epoch :: "int \<Rightarrow> rat \<Rightarrow> int \<Rightarrow> int" where
  "expires_epoch now timeout cleanup =
     \<lceil>fl (fl (fl (fl (of_int now / 1000000) + timeout) + of_int cleanup) + 1)\<rceil>"

record lease_grant =
  lg_lease_id :: string
  lg_lease_token :: string
  lg_expires_at :: int
  lg_max_cost_usd :: pyfloat
  lg_max_concurrency :: int
  lg_max_operations :: int

definition reserve :: "(string \<Rightarrow> string) \<Rightarrow> string \<Rightarrow> string \<Rightarrow> int option \<Rightarrow> database \<Rightarrow> quota_reservation \<Rightarrow> int \<Rightarrow>
    quota_store \<Rightarrow> (quota_error + lease_grant) \<times> quota_store" where
  \<comment> \<open>parameters: SHA-256, the random id and token, the clock, the database, the reservation, the cleanup seconds\<close>
  "reserve sha256 lid token clock db res cleanup s =
     (case clock of None \<Rightarrow> (Inl (Store_error ''clock_invalid''), s) | Some now \<Rightarrow>
       (let expires = expires_epoch now (qr_timeout res) cleanup;
            max_cost = budget_nusd (qr_max_cost res)
        in if sqlite_max_integer < max_cost then (Inl (Store_error ''cost_invalid''), s)
           else transaction db (\<lambda>st. map_sum id (Pair
               \<lparr>lg_lease_id = lid, lg_lease_token = token, lg_expires_at = expires,
                lg_max_cost_usd = nusd_to_usd max_cost, lg_max_concurrency = qr_max_concurrency res,
                lg_max_operations = qr_max_operations res\<rparr>)
             (insert_lease \<lparr>lr_lease_id = lid, lr_token_sha256 = sha256 token, lr_case_id = qr_case_id res,
                lr_state = Lease_active, lr_created_at = seconds_of now, lr_expires_at = expires,
                lr_max_cost = max_cost, lr_max_concurrency = qr_max_concurrency res,
                lr_max_operations = qr_max_operations res, lr_operation_count = 0, lr_successful = 0,
                lr_in_flight = 0, lr_held = 0, lr_actual = 0, lr_uncertain = 0,
                lr_terminal_reason = None, lr_terminal_at = None\<rparr> st)) s))"

subsection \<open>Operations of a lease\<close>

definition is_hex :: "char \<Rightarrow> bool" where
  "is_hex c \<longleftrightarrow> is_digit c \<or> (97 \<le> (of_char c :: nat) \<and> (of_char c :: nat) \<le> 102)"

definition lease_id_pattern :: "string \<Rightarrow> bool" where
  "lease_id_pattern s \<longleftrightarrow> take 3 s = ''oq-'' \<and> length s = 35 \<and> list_all is_hex (drop 3 s)"

definition bounded_secret :: "string \<Rightarrow> bool" where
  "bounded_secret s \<longleftrightarrow> 32 \<le> length s \<and> length s \<le> 8192
     \<and> list_all (\<lambda>c. 33 \<le> (of_char c :: nat) \<and> (of_char c :: nat) \<le> 126) s"

record operation_request =
  oq_lease_id :: string
  oq_lease_token :: string
  oq_request_sha256 :: string
  oq_model :: string
  oq_input_limit :: int
  oq_output_limit :: int
  oq_reserved :: int

record quota_operation =
  qo_lease_id :: string
  qo_sequence :: int
  qo_model :: string
  qo_input_limit :: int
  qo_output_limit :: int
  qo_reserved :: int

definition begin_guard :: "(string \<Rightarrow> string) \<Rightarrow> int \<Rightarrow> operation_request \<Rightarrow> lease_row option \<Rightarrow> quota_error option" where
  "begin_guard sha256 now q row = (case row of
       None \<Rightarrow> Some (Conflict_error ''lease_authentication_failed'')
     | Some r \<Rightarrow>
         if lr_token_sha256 r \<noteq> sha256 (oq_lease_token q) then Some (Conflict_error ''lease_authentication_failed'')
         else if lr_state r \<noteq> Lease_active then Some (Conflict_error ''lease_inactive'')
         else if lr_expires_at r * 1000000 < now then Some (Conflict_error ''lease_expired'')
         else if lr_max_operations r \<le> lr_operation_count r then Some (Conflict_error ''operation_limit_exceeded'')
         else if lr_max_concurrency r \<le> lr_in_flight r then Some (Conflict_error ''concurrency_limit_exceeded'')
         else if lr_max_cost r < lr_actual r + lr_held r + lr_uncertain r + oq_reserved q
           then Some (Conflict_error ''cost_limit_exceeded'')
         else None)"

definition begin_body :: "(string \<Rightarrow> string) \<Rightarrow> int \<Rightarrow> operation_request \<Rightarrow> quota_store \<Rightarrow>
    quota_error + (quota_operation \<times> quota_store)" where
  "begin_body sha256 now q s =
     (let row = find_lease (oq_lease_id q) s in
      case begin_guard sha256 now q row of Some e \<Rightarrow> Inl e | None \<Rightarrow>
        (let n = lr_operation_count (the row) + 1 in
         case insert_operation \<lparr>or_lease_id = oq_lease_id q, or_sequence = n,
                or_request_sha256 = oq_request_sha256 q, or_model = oq_model q,
                or_input_limit = oq_input_limit q, or_output_limit = oq_output_limit q,
                or_reserved = oq_reserved q, or_status = Op_forwarding, or_started_at = seconds_of now,
                or_finished_at = None, or_input_tokens = None, or_cached_tokens = None,
                or_output_tokens = None, or_actual = None, or_response_id = None, or_failure = None\<rparr> s of
           Inl e \<Rightarrow> Inl e
         | Inr s1 \<Rightarrow> map_sum id (Pair \<lparr>qo_lease_id = oq_lease_id q, qo_sequence = n, qo_model = oq_model q,
                qo_input_limit = oq_input_limit q, qo_output_limit = oq_output_limit q,
                qo_reserved = oq_reserved q\<rparr>)
             (update_lease (oq_lease_id q) (\<lambda>r. r\<lparr>lr_operation_count := lr_operation_count r + 1,
                lr_in_flight := lr_in_flight r + 1, lr_held := lr_held r + oq_reserved q\<rparr>) s1)))"

definition begin_operation :: "(string \<Rightarrow> string) \<Rightarrow> int option \<Rightarrow> database \<Rightarrow> operation_request \<Rightarrow> quota_store \<Rightarrow>
    (quota_error + quota_operation) \<times> quota_store" where
  "begin_operation sha256 clock db q s =
     (if \<not> lease_id_pattern (oq_lease_id q) then (Inl (Conflict_error ''lease_authentication_failed''), s)
      else if \<not> bounded_secret (oq_lease_token q) then (Inl (Conflict_error ''lease_authentication_failed''), s)
      else if \<not> (length (oq_request_sha256 q) = 64 \<and> list_all is_hex (oq_request_sha256 q))
        then (Inl (Store_error ''operation_invalid''), s)
      else if \<not> model_pattern (oq_model q) then (Inl (Store_error ''operation_invalid''), s)
      else if \<not> (1 \<le> oq_input_limit q \<and> oq_input_limit q \<le> 10000000 \<and> 1 \<le> oq_output_limit q
                 \<and> oq_output_limit q \<le> 1000000 \<and> 0 \<le> oq_reserved q \<and> oq_reserved q \<le> sqlite_max_integer)
        then (Inl (Store_error ''operation_invalid''), s)
      else (case clock of None \<Rightarrow> (Inl (Store_error ''clock_invalid''), s)
        | Some now \<Rightarrow> transaction db (begin_body sha256 now q) s))"

definition usage_ok :: "quota_operation \<Rightarrow> provider_usage \<Rightarrow> bool" where
  "usage_ok op u \<longleftrightarrow> 0 \<le> pu_cached_input_tokens u \<and> pu_cached_input_tokens u \<le> pu_input_tokens u
     \<and> pu_input_tokens u \<le> qo_input_limit op \<and> 0 \<le> pu_output_tokens u
     \<and> pu_output_tokens u \<le> qo_output_limit op
     \<and> 0 \<le> pu_actual_cost_nusd u \<and> pu_actual_cost_nusd u \<le> sqlite_max_integer
     \<and> pred_option response_id_ok (pu_response_id u)"

definition record_usage :: "int \<Rightarrow> provider_usage \<Rightarrow> operation_row \<Rightarrow> operation_row" where
  "record_usage now u r = r\<lparr>or_finished_at := Some now, or_input_tokens := Some (pu_input_tokens u),
     or_cached_tokens := Some (pu_cached_input_tokens u), or_output_tokens := Some (pu_output_tokens u),
     or_actual := Some (pu_actual_cost_nusd u), or_response_id := pu_response_id u\<rparr>"

definition fail_lease :: "string \<Rightarrow> int \<Rightarrow> int \<Rightarrow> lease_row \<Rightarrow> lease_row" where
  \<comment> \<open>move the reserved cost from held to uncertain; an active lease becomes failed\<close>
  "fail_lease reason now reserved r =
     (let r' = r\<lparr>lr_in_flight := lr_in_flight r - 1, lr_held := lr_held r - reserved,
                lr_uncertain := lr_uncertain r + reserved\<rparr>
      in if lr_state r = Lease_active
         then r'\<lparr>lr_state := Lease_failed, lr_terminal_reason := Some reason, lr_terminal_at := Some now\<rparr>
         else r')"

definition complete_body :: "int \<Rightarrow> quota_operation \<Rightarrow> provider_usage \<Rightarrow> quota_store \<Rightarrow>
    quota_error + (unit \<times> quota_store)" where
  "complete_body now op u s =
     (let invalid = Inl (Store_error ''operation_state_invalid'');
          lid = qo_lease_id op; n = qo_sequence op;
          exceeded = ''provider_accounting_exceeded_authorization''
      in case find_operation lid n s of
           None \<Rightarrow> invalid
         | Some r \<Rightarrow>
             if or_status r \<noteq> Op_forwarding then invalid
             else if or_reserved r < pu_actual_cost_nusd u then
               (case update_operation lid n (\<lambda>x. (record_usage now u x)
                        \<lparr>or_status := Op_accounting_failed, or_failure := Some exceeded\<rparr>) s of
                  Inl e \<Rightarrow> Inl e
                | Inr s1 \<Rightarrow> (case update_lease lid (fail_lease exceeded now (or_reserved r)) s1 of
                    Inl e \<Rightarrow> Inl e | Inr s2 \<Rightarrow> Inl (Store_error exceeded)))
             else
               (case update_operation lid n (\<lambda>x. (record_usage now u x)\<lparr>or_status := Op_completed\<rparr>) s of
                  Inl e \<Rightarrow> Inl e
                | Inr s1 \<Rightarrow> map_sum id (Pair ())
                    (update_lease lid (\<lambda>x. x\<lparr>lr_successful := lr_successful x + 1,
                       lr_in_flight := lr_in_flight x - 1, lr_held := lr_held x - or_reserved r,
                       lr_actual := lr_actual x + pu_actual_cost_nusd u\<rparr>) s1)))"

definition complete_operation :: "int option \<Rightarrow> database \<Rightarrow> quota_operation \<Rightarrow> provider_usage \<Rightarrow> quota_store \<Rightarrow>
    (quota_error + unit) \<times> quota_store" where
  "complete_operation clock db op u s =
     (if \<not> usage_ok op u then (Inl (Store_error ''provider_accounting_invalid''), s)
      else (case clock of None \<Rightarrow> (Inl (Store_error ''clock_invalid''), s)
        | Some now \<Rightarrow> transaction db (complete_body (seconds_of now) op u) s))"

definition reason_code_ok :: "string \<Rightarrow> bool" where
  "reason_code_ok s \<longleftrightarrow> (\<exists>t. safe_text 1 128 safe_id_pattern (JStr s) = Inr t)"

definition uncertain_body :: "int \<Rightarrow> quota_operation \<Rightarrow> string \<Rightarrow> quota_store \<Rightarrow>
    quota_error + (unit \<times> quota_store)" where
  "uncertain_body now op reason s =
     (let lid = qo_lease_id op; n = qo_sequence op in
      case find_operation lid n s of
        None \<Rightarrow> Inl (Store_error ''operation_not_found'')
      | Some r \<Rightarrow>
          if or_status r \<noteq> Op_forwarding then Inr ((), s)
          else (case update_operation lid n (\<lambda>x. x\<lparr>or_status := Op_uncertain,
                    or_finished_at := Some now, or_failure := Some reason\<rparr>) s of
              Inl e \<Rightarrow> Inl e
            | Inr s1 \<Rightarrow>
                if find_lease lid s1 = None then Inl (Store_error ''lease_not_found'')
                else map_sum id (Pair ()) (update_lease lid (fail_lease reason now (or_reserved r)) s1)))"

definition mark_operation_uncertain :: "int option \<Rightarrow> database \<Rightarrow> quota_operation \<Rightarrow> string \<Rightarrow> quota_store \<Rightarrow>
    (quota_error + unit) \<times> quota_store" where
  "mark_operation_uncertain clock db op reason s =
     (if \<not> reason_code_ok reason then (Inl (Configuration_error ''configuration_invalid''), s)
      else (case clock of None \<Rightarrow> (Inl (Store_error ''clock_invalid''), s)
        | Some now \<Rightarrow> transaction db (uncertain_body (seconds_of now) op reason) s))"

subsection \<open>Ending a lease\<close>

record quota_settlement =
  qt_lease_id :: string
  qt_actual_cost_usd :: pyfloat
  qt_completed_operations :: int

definition settle_body :: "int \<Rightarrow> string \<Rightarrow> json \<Rightarrow> quota_store \<Rightarrow> quota_error + (quota_settlement \<times> quota_store)" where
  "settle_body now lid completed s =
     (case find_lease lid s of
        None \<Rightarrow> Inl (Store_error ''lease_not_found'')
      | Some r \<Rightarrow>
          if lr_state r \<noteq> Lease_active then Inl (Conflict_error ''lease_not_settleable'')
          else if lr_in_flight r \<noteq> 0 \<or> lr_held r \<noteq> 0 then Inl (Conflict_error ''operations_in_flight'')
          else if lr_uncertain r \<noteq> 0 then Inl (Conflict_error ''provider_cost_uncertain'')
          else if completed \<noteq> JInt (lr_successful r) \<or> lr_operation_count r \<noteq> lr_successful r
            then Inl (Conflict_error ''completed_operations_mismatch'')
          else map_sum id (Pair \<lparr>qt_lease_id = lid, qt_actual_cost_usd = nusd_to_usd (lr_actual r),
                  qt_completed_operations = lr_successful r\<rparr>)
            (update_lease lid (\<lambda>x. x\<lparr>lr_state := Lease_settled, lr_terminal_reason := Some ''settled'',
               lr_terminal_at := Some now\<rparr>) s))"

definition settle :: "int option \<Rightarrow> database \<Rightarrow> string \<Rightarrow> json \<Rightarrow> quota_store \<Rightarrow> (quota_error + quota_settlement) \<times> quota_store" where
  "settle clock db lid completed s =
     (case clock of None \<Rightarrow> (Inl (Store_error ''clock_invalid''), s)
      | Some now \<Rightarrow> transaction db (settle_body (seconds_of now) lid completed) s)"

definition cancel_body :: "int \<Rightarrow> string \<Rightarrow> string \<Rightarrow> quota_store \<Rightarrow> quota_error + (unit \<times> quota_store)" where
  "cancel_body now lid reason s =
     (case find_lease lid s of
        None \<Rightarrow> Inl (Store_error ''lease_not_found'')
      | Some r \<Rightarrow> (case lr_state r of
            Lease_settled \<Rightarrow> Inl (Conflict_error ''lease_already_settled'')
          | Lease_failed \<Rightarrow> Inr ((), s)
          | Lease_canceled \<Rightarrow> if lr_terminal_reason r \<noteq> Some reason
              then Inl (Conflict_error ''cancellation_reason_mismatch'') else Inr ((), s)
          | Lease_active \<Rightarrow> map_sum id (Pair ())
              (update_lease lid (\<lambda>x. x\<lparr>lr_state := Lease_canceled, lr_terminal_reason := Some reason,
                 lr_terminal_at := Some now\<rparr>) s)))"

definition cancel :: "int option \<Rightarrow> database \<Rightarrow> string \<Rightarrow> string \<Rightarrow> quota_store \<Rightarrow> (quota_error + unit) \<times> quota_store" where
  "cancel clock db lid reason s =
     (if \<not> reason_code_ok reason then (Inl (Configuration_error ''configuration_invalid''), s)
      else (case clock of None \<Rightarrow> (Inl (Store_error ''clock_invalid''), s)
        | Some now \<Rightarrow> transaction db (cancel_body (seconds_of now) lid reason) s))"

subsection \<open>The tables meet the contract\<close>

definition operation_key :: "operation_row \<Rightarrow> string \<times> int" where
  "operation_key r = (or_lease_id r, or_sequence r)"

definition find_operation_at :: "string \<times> int \<Rightarrow> quota_store \<Rightarrow> operation_row option" where
  "find_operation_at k = find_operation (fst k) (snd k)"

definition update_operation_at :: "string \<times> int \<Rightarrow> (operation_row \<Rightarrow> operation_row) \<Rightarrow> quota_store \<Rightarrow>
    quota_error + quota_store" where
  "update_operation_at k = update_operation (fst k) (snd k)"

interpretation leases: sql_table lr_lease_id lease_row_ok qs_leases find_lease update_lease
  by unfold_locales
    (auto simp: find_lease_def update_lease_def keyed_update_def Let_def list_all_iff split: if_splits)

interpretation ops: sql_table operation_key operation_row_ok qs_operations find_operation_at update_operation_at
proof unfold_locales
  fix k f and s t :: quota_store
  show "find_operation_at k s = find (\<lambda>r. operation_key r = k) (qs_operations s)"
    by (cases k) (simp add: find_operation_at_def find_operation_def operation_key_def)
  show "update_operation_at k f s = Inr t \<Longrightarrow> qs_operations t = keyed_update operation_key k f (qs_operations s)"
    by (cases k) (auto simp: update_operation_at_def update_operation_def keyed_update_def operation_key_def
        Let_def split: if_splits)
  show "\<forall>r \<in> set (qs_operations s). operation_key r = k \<longrightarrow> operation_row_ok (f r) \<Longrightarrow>
      \<exists>t. update_operation_at k f s = Inr t"
    by (cases k) (auto simp: update_operation_at_def update_operation_def operation_key_def Let_def list_all_iff)
  show "update_operation_at k f s = Inr t \<Longrightarrow> r \<in> set (qs_operations s) \<Longrightarrow> operation_key r = k \<Longrightarrow>
      operation_key (f r) = k \<Longrightarrow> operation_row_ok (f r)" for r
    by (cases k) (auto simp: update_operation_at_def update_operation_def operation_key_def Let_def
        list_all_iff split: if_splits)
qed

subsection \<open>Accounting invariant\<close>

definition w_held :: "operation_row \<Rightarrow> int" where
  "w_held r = (if or_status r = Op_forwarding then or_reserved r else 0)"

definition w_flight :: "operation_row \<Rightarrow> int" where
  "w_flight r = (if or_status r = Op_forwarding then 1 else 0)"

definition w_actual :: "operation_row \<Rightarrow> int" where
  "w_actual r = (if or_status r = Op_completed then the (or_actual r) else 0)"

definition w_uncertain :: "operation_row \<Rightarrow> int" where
  "w_uncertain r = (if or_status r \<in> {Op_uncertain, Op_accounting_failed} then or_reserved r else 0)"

definition w_success :: "operation_row \<Rightarrow> int" where
  "w_success r = (if or_status r = Op_completed then 1 else 0)"

definition tally :: "(operation_row \<Rightarrow> int) \<Rightarrow> string \<Rightarrow> quota_store \<Rightarrow> int" where
  "tally w lid s = sum_list (map (\<lambda>r. if or_lease_id r = lid then w r else 0) (qs_operations s))"

definition account_ok :: "quota_store \<Rightarrow> lease_row \<Rightarrow> bool" where
  "account_ok s l \<longleftrightarrow> lr_held l = tally w_held (lr_lease_id l) s
     \<and> lr_in_flight l = tally w_flight (lr_lease_id l) s
     \<and> lr_actual l = tally w_actual (lr_lease_id l) s
     \<and> lr_uncertain l = tally w_uncertain (lr_lease_id l) s
     \<and> lr_successful l = tally w_success (lr_lease_id l) s
     \<and> lr_operation_count l = tally (\<lambda>_. 1) (lr_lease_id l) s"

definition settled_ok :: "lease_row \<Rightarrow> bool" where
  "settled_ok l \<longleftrightarrow> (lr_state l = Lease_settled \<longrightarrow>
     lr_in_flight l = 0 \<and> lr_held l = 0 \<and> lr_uncertain l = 0 \<and> lr_operation_count l = lr_successful l)"

definition operation_ok :: "quota_store \<Rightarrow> operation_row \<Rightarrow> bool" where
  "operation_ok s r \<longleftrightarrow> operation_row_ok r
     \<and> (\<exists>l. find_lease (or_lease_id r) s = Some l \<and> or_sequence r \<le> lr_operation_count l)
     \<and> (or_status r = Op_completed \<longrightarrow> (\<exists>a. or_actual r = Some a \<and> 0 \<le> a \<and> a \<le> or_reserved r))
     \<and> or_status r \<noteq> Op_accounting_failed"

definition ledger_ok :: "quota_store \<Rightarrow> bool" where
  "ledger_ok s \<longleftrightarrow> distinct (map lr_lease_id (qs_leases s)) \<and> distinct (map operation_key (qs_operations s))
     \<and> (\<forall>r \<in> set (qs_operations s). operation_ok s r)
     \<and> (\<forall>l \<in> set (qs_leases s). lease_row_ok l \<and> account_ok s l \<and> settled_ok l)"

lemma ledger_empty: "ledger_ok \<lparr>qs_leases = [], qs_operations = []\<rparr>"
  by (simp add: ledger_ok_def)

lemma ledgerD:
  assumes "ledger_ok s"
  shows "distinct (map lr_lease_id (qs_leases s))" "distinct (map operation_key (qs_operations s))"
    "r \<in> set (qs_operations s) \<Longrightarrow> operation_ok s r"
    "find_lease lid s = Some l \<Longrightarrow> lease_row_ok l \<and> account_ok s l \<and> settled_ok l \<and> lr_lease_id l = lid"
  using assms leases.lookup_Some [of lid s l] by (auto simp: ledger_ok_def)

lemma tally_ge:
  assumes "r \<in> set (qs_operations s)" "or_lease_id r = lid"
    "\<And>x. x \<in> set (qs_operations s) \<Longrightarrow> or_lease_id x = lid \<Longrightarrow> 0 \<le> w x"
  shows "w r \<le> tally w lid s"
proof -
  let ?g = "\<lambda>r. if or_lease_id r = lid then w r else 0"
  have "?g r \<le> sum_list (map ?g (qs_operations s))"
    by (rule member_le_sum_list) (use assms in auto)
  with assms(2) show ?thesis by (simp add: tally_def)
qed

lemma tally_diff: "tally (\<lambda>x. v x - w x) lid s = tally v lid s - tally w lid s"
proof -
  have "sum_list (map (\<lambda>r. if or_lease_id r = lid then v r - w r else 0) rs)
      = sum_list (map (\<lambda>r. if or_lease_id r = lid then v r else 0) rs)
        - sum_list (map (\<lambda>r. if or_lease_id r = lid then w r else 0) rs)" for rs
    by (induction rs) auto
  then show ?thesis by (simp add: tally_def)
qed

lemma forwarding_bounds:
  assumes ok: "ledger_ok s" and f: "find_operation lid n s = Some r" "or_status r = Op_forwarding"
    and l: "find_lease lid s = Some l"
  shows "0 \<le> or_reserved r \<and> or_reserved r \<le> lr_held l \<and> 1 \<le> lr_in_flight l
    \<and> lr_successful l + 1 \<le> lr_operation_count l \<and> lr_state l \<noteq> Lease_settled"
proof -
  have r: "r \<in> set (qs_operations s)" "or_lease_id r = lid"
    using f ops.lookup_Some [of "(lid, n)" s r] by (auto simp: find_operation_at_def operation_key_def)
  have nonneg: "0 \<le> or_reserved x" if "x \<in> set (qs_operations s)" for x
    using ledgerD(3) [OF ok that] by (simp add: operation_ok_def operation_row_ok_def)
  have "w_held r \<le> tally w_held lid s" "w_flight r \<le> tally w_flight lid s"
    by (intro tally_ge [OF r]; simp add: w_held_def w_flight_def nonneg)+
  moreover have "1 - w_success r \<le> tally (\<lambda>x. 1 - w_success x) lid s"
    using tally_ge [OF r, of "\<lambda>x. 1 - w_success x"] by (simp add: w_success_def)
  moreover have "tally (\<lambda>x. 1 - w_success x) lid s = tally (\<lambda>_. 1) lid s - tally w_success lid s"
    by (rule tally_diff)
  ultimately show ?thesis
    using f(2) nonneg [OF r(1)] ledgerD(4) [OF ok l]
    by (auto simp: w_held_def w_flight_def w_success_def account_ok_def settled_ok_def)
qed

lemma update_operation_frame:
  "update_operation lid n f s = Inr t \<Longrightarrow> qs_leases t = qs_leases s \<and> find_lease lid' t = find_lease lid' s"
  by (auto simp: update_operation_def find_lease_def Let_def split: if_splits)

lemma update_lease_frame:
  "update_lease lid f s = Inr t \<Longrightarrow> qs_operations t = qs_operations s \<and> tally w lid' t = tally w lid' s"
  by (auto simp: update_lease_def tally_def Let_def split: if_splits)

lemma operations_at: "update_operation_at (lid, n) = update_operation lid n"
  "find_operation_at (lid, n) = find_operation lid n"
  by (simp_all add: update_operation_at_def find_operation_at_def)

lemma tally_update_operation:
  assumes ok: "ledger_ok s" and f: "find_operation lid n s = Some r"
    and u: "update_operation lid n g s = Inr t" and k: "\<And>x. operation_key (g x) = operation_key x"
  shows "tally w lid' t = tally w lid' s + (if lid' = lid then w (g r) - w r else 0)"
proof -
  have r: "or_lease_id r = lid"
    using f ops.lookup_Some [of "(lid, n)" s r] by (auto simp: operations_at operation_key_def)
  have "or_lease_id (g x) = or_lease_id x" for x using k [of x] by (simp add: operation_key_def)
  with r show ?thesis
    using ops.update_sum [of "(lid, n)" g s t r "\<lambda>r. if or_lease_id r = lid' then w r else 0"] ledgerD(2) [OF ok] f u
    by (auto simp: tally_def operations_at)
qed

lemma finish_operation:
  assumes ok: "ledger_ok s"
    and f: "find_operation lid n s = Some r" and l: "find_lease lid s = Some l"
    and k: "\<And>x. operation_key (g x) = operation_key x" and i: "\<And>x. lr_lease_id (h x) = lr_lease_id x"
    and g: "operation_row_ok (g r)" "or_status (g r) \<noteq> Op_accounting_failed"
      "or_status (g r) = Op_completed \<Longrightarrow> \<exists>a. or_actual (g r) = Some a \<and> 0 \<le> a \<and> a \<le> or_reserved (g r)"
    and h: "lease_row_ok (h l)" "settled_ok (h l)" "lr_operation_count (h l) = lr_operation_count l"
      "lr_held (h l) = lr_held l + w_held (g r) - w_held r"
      "lr_in_flight (h l) = lr_in_flight l + w_flight (g r) - w_flight r"
      "lr_actual (h l) = lr_actual l + w_actual (g r) - w_actual r"
      "lr_uncertain (h l) = lr_uncertain l + w_uncertain (g r) - w_uncertain r"
      "lr_successful (h l) = lr_successful l + w_success (g r) - w_success r"
  shows "\<exists>s1 t. update_operation lid n g s = Inr s1 \<and> update_lease lid h s1 = Inr t \<and> ledger_ok t
    \<and> find_lease lid t = Some (h l) \<and> find_operation lid n t = Some (g r)"
proof -
  obtain s1 where s1: "update_operation lid n g s = Inr s1"
    using ops.update_succeeds [of s "(lid, n)" r g] ledgerD(2) [OF ok] f g(1) by (auto simp: operations_at)
  have l1: "find_lease lid s1 = Some l" "qs_leases s1 = qs_leases s"
    using update_operation_frame [OF s1] l by auto
  obtain t where t: "update_lease lid h s1 = Inr t"
    using leases.update_succeeds [of s1 lid l h] ledgerD(1) [OF ok] l1 h(1) by auto
  have lid: "lr_lease_id l = lid" using ledgerD(4) [OF ok l] by simp
  have find_t: "find_lease lid' t = (if lid' = lid then Some (h l) else find_lease lid' s)" for lid'
    using leases.update_lookup [OF t i, of lid'] l1 l update_operation_frame [OF s1, of lid'] by auto
  have op_t: "find_operation lid n t = Some (g r)"
    using ops.update_lookup [of "(lid, n)" g s s1 "(lid, n)"] s1 f k update_lease_frame [OF t]
    by (simp add: operations_at find_operation_def)
  have tally_t: "tally w lid' t = tally w lid' s + (if lid' = lid then w (g r) - w r else 0)" for w lid'
    using tally_update_operation [OF ok f s1 k] update_lease_frame [OF t] by auto
  have ids: "map lr_lease_id (qs_leases t) = map lr_lease_id (qs_leases s)"
    using leases.update_keys [OF t i] l1 by simp
  have keys: "map operation_key (qs_operations t) = map operation_key (qs_operations s)"
    using ops.update_keys [of "(lid, n)" g s s1] s1 k update_lease_frame [OF t] by (simp add: operations_at)
  have rows: "operation_ok t x" if x: "x \<in> set (qs_operations t)" for x
  proof -
    have same: "operation_ok t y" if "operation_ok s y" for y
      using that h(3) l find_t by (auto simp: operation_ok_def)
    have "x = g r \<or> x \<in> set (qs_operations s)"
      using ops.update_in [of "(lid, n)" g s s1 r x] s1 f x ledgerD(2) [OF ok] update_lease_frame [OF t]
      by (auto simp: operations_at)
    moreover have "operation_ok t (g r)"
    proof -
      have "operation_ok s r"
        using ledgerD(3) [OF ok] f ops.lookup_Some [of "(lid, n)" s r] by (auto simp: operations_at)
      with same have "operation_ok t r" by blast
      with g k [of r] show ?thesis by (auto simp: operation_ok_def operation_key_def)
    qed
    ultimately show ?thesis using same ledgerD(3) [OF ok] by blast
  qed
  have ls: "lease_row_ok x \<and> account_ok t x \<and> settled_ok x" if x: "x \<in> set (qs_leases t)" for x
  proof -
    have "x = h l \<or> (x \<in> set (qs_leases s) \<and> lr_lease_id x \<noteq> lid)"
      using leases.update_in [OF t _ l1(1) x] ledgerD(1) [OF ok] l1 by auto
    moreover have "account_ok s l" using ledgerD(4) [OF ok l] by simp
    then have "account_ok t (h l)"
      using h i [of l] lid by (simp add: account_ok_def tally_t)
    moreover have "account_ok t x" if "x \<in> set (qs_leases s)" "lr_lease_id x \<noteq> lid"
      using ok that by (auto simp: ledger_ok_def account_ok_def tally_t)
    ultimately show ?thesis using h ok by (auto simp: ledger_ok_def)
  qed
  have "ledger_ok t" using ok ids keys rows ls by (simp add: ledger_ok_def)
  with s1 t find_t op_t show ?thesis by auto
qed

subsection \<open>Every operation keeps the ledger\<close>

lemma hex_not_upper: "list_all is_hex s \<Longrightarrow> list_all (\<lambda>c. \<not> is_upper c) s"
  by (auto simp: list_all_iff is_hex_def is_upper_def is_digit_def Let_def)

lemma settle_free: "lr_state l \<noteq> Lease_settled \<Longrightarrow> settled_ok l"
  by (simp add: settled_ok_def)

definition request_ok :: "operation_request \<Rightarrow> bool" where
  "request_ok q \<longleftrightarrow> length (oq_request_sha256 q) = 64 \<and> list_all is_hex (oq_request_sha256 q)
     \<and> 1 \<le> oq_input_limit q \<and> 1 \<le> oq_output_limit q \<and> 0 \<le> oq_reserved q"

lemma begin_body_ok:
  assumes ok: "ledger_ok s" and l: "find_lease (oq_lease_id q) s = Some l"
    and g: "begin_guard sha256 now q (Some l) = None" and q: "request_ok q"
  shows "\<exists>op t. begin_body sha256 now q s = Inr (op, t) \<and> ledger_ok t
    \<and> op = \<lparr>qo_lease_id = oq_lease_id q, qo_sequence = lr_operation_count l + 1, qo_model = oq_model q,
        qo_input_limit = oq_input_limit q, qo_output_limit = oq_output_limit q, qo_reserved = oq_reserved q\<rparr>
    \<and> (\<exists>r. find_operation (qo_lease_id op) (qo_sequence op) t = Some r \<and> or_status r = Op_forwarding
         \<and> or_reserved r = oq_reserved q)
    \<and> (\<exists>l'. find_lease (oq_lease_id q) t = Some l')"
proof -
  let ?lid = "oq_lease_id q" let ?n = "lr_operation_count l + 1"
  let ?h = "\<lambda>r. r\<lparr>lr_operation_count := lr_operation_count r + 1,
                lr_in_flight := lr_in_flight r + 1, lr_held := lr_held r + oq_reserved q\<rparr>"
  define row where "row = \<lparr>or_lease_id = ?lid, or_sequence = ?n,
                or_request_sha256 = oq_request_sha256 q, or_model = oq_model q,
                or_input_limit = oq_input_limit q, or_output_limit = oq_output_limit q,
                or_reserved = oq_reserved q, or_status = Op_forwarding, or_started_at = seconds_of now,
                or_finished_at = None, or_input_tokens = None, or_cached_tokens = None,
                or_output_tokens = None, or_actual = None, or_response_id = None, or_failure = None\<rparr>"
  define s1 where "s1 = s\<lparr>qs_operations := qs_operations s @ [row]\<rparr>"
  have l': "lease_row_ok l" "account_ok s l" "lr_lease_id l = ?lid" using ledgerD(4) [OF ok l] by auto
  have fresh: "or_sequence x \<noteq> ?n" if "x \<in> set (qs_operations s)" "or_lease_id x = ?lid" for x
    using ledgerD(3) [OF ok that(1)] that(2) l by (auto simp: operation_ok_def)
  have none: "find_operation ?lid ?n s = None"
    using fresh by (auto simp: find_operation_def find_None_iff)
  have row_ok: "operation_row_ok row"
    using q l'(1) by (auto simp: row_def operation_row_ok_def request_ok_def sha256_text_def hex_not_upper lease_row_ok_def)
  have ins: "insert_operation row s = Inr s1"
    using row_ok none l by (simp add: insert_operation_def s1_def) (simp add: row_def l none)
  have leases1: "qs_leases s1 = qs_leases s" "find_lease x s1 = find_lease x s" for x
    by (simp_all add: s1_def find_lease_def)
  have h_ok: "lease_row_ok (?h l)"
    using g l'(1) q by (auto simp: begin_guard_def lease_row_ok_def request_ok_def split: if_splits)
  obtain t where t: "update_lease ?lid ?h s1 = Inr t"
    using leases.update_succeeds [of s1 ?lid l ?h] ledgerD(1) [OF ok] leases1 l h_ok by auto
  have ops_t: "qs_operations t = qs_operations s @ [row]"
    using update_lease_frame [OF t] by (simp add: s1_def)
  have find_t: "find_lease x t = (if x = ?lid then Some (?h l) else find_lease x s)" for x
    using leases.update_lookup [OF t, of x] leases1 l by simp
  have tally_t: "tally w x t = tally w x s + (if x = ?lid then w row else 0)" for w x
    by (simp add: tally_def ops_t row_def)
  have "ledger_ok t"
  proof -
    have "distinct (map lr_lease_id (qs_leases t))"
      using leases.update_keys [OF t] leases1 ledgerD(1) [OF ok] by simp
    moreover have "distinct (map operation_key (qs_operations t))"
    proof -
      have "operation_key row \<notin> operation_key ` set (qs_operations s)"
      proof
        assume "operation_key row \<in> operation_key ` set (qs_operations s)"
        then obtain x where "x \<in> set (qs_operations s)" "operation_key row = operation_key x" by blast
        with fresh [of x] show False by (simp add: operation_key_def row_def)
      qed
      then show ?thesis using ledgerD(2) [OF ok] by (simp add: ops_t)
    qed
    moreover have "operation_ok t x" if x: "x \<in> set (qs_operations t)" for x
    proof (cases "x = row")
      case True
      then show ?thesis using row_ok find_t by (auto simp: operation_ok_def) (auto simp: row_def)
    next
      case False
      then have "operation_ok s x" using x ledgerD(3) [OF ok] by (auto simp: ops_t)
      then show ?thesis using find_t l by (auto simp: operation_ok_def)
    qed
    moreover have "lease_row_ok x \<and> account_ok t x \<and> settled_ok x" if x: "x \<in> set (qs_leases t)" for x
    proof -
      have "x = ?h l \<or> (x \<in> set (qs_leases s) \<and> lr_lease_id x \<noteq> ?lid)"
        using leases.update_in [OF t _ _ x] ledgerD(1) [OF ok] leases1 l by auto
      moreover have "account_ok t (?h l)"
        using l' by (simp add: account_ok_def tally_t) (simp add: row_def w_held_def w_flight_def
            w_actual_def w_uncertain_def w_success_def)
      moreover have "settled_ok (?h l)"
        using g by (auto simp: settled_ok_def begin_guard_def split: if_splits)
      moreover have "account_ok t x" if "x \<in> set (qs_leases s)" "lr_lease_id x \<noteq> ?lid"
        using ok that by (auto simp: ledger_ok_def account_ok_def tally_t)
      ultimately show ?thesis using h_ok ok by (auto simp: ledger_ok_def)
    qed
    ultimately show ?thesis by (simp add: ledger_ok_def)
  qed
  moreover have "find_operation ?lid ?n t = Some row"
  proof -
    have "find P (xs @ [y]) = (case find P xs of None \<Rightarrow> if P y then Some y else None | Some z \<Rightarrow> Some z)"
      for P and xs :: "operation_row list" and y by (induction xs) auto
    then show ?thesis using none by (simp add: find_operation_def ops_t) (simp add: row_def)
  qed
  ultimately show ?thesis
    using l g ins t find_t by (simp add: begin_body_def Let_def row_def)
qed

lemma insert_lease_ok:
  assumes ok: "ledger_ok s" and i: "insert_lease r s = Inr t"
    and z: "lr_held r = 0" "lr_in_flight r = 0" "lr_actual r = 0" "lr_uncertain r = 0" "lr_successful r = 0"
      "lr_operation_count r = 0"
  shows "ledger_ok t"
proof -
  have t: "t = s\<lparr>qs_leases := qs_leases s @ [r]\<rparr>" and r: "lease_row_ok r"
    and new: "\<And>q. q \<in> set (qs_leases s) \<Longrightarrow> lr_lease_id q \<noteq> lr_lease_id r"
    using i by (auto simp: insert_lease_def list_all_iff split: if_splits)
  have find_old: "find_lease x t = Some l" if "find_lease x s = Some l" for x l
  proof -
    have "find P xs = Some l \<Longrightarrow> find P (xs @ ys) = Some l" for P and xs ys :: "lease_row list"
      by (induction xs) auto
    with that show ?thesis by (simp add: t find_lease_def)
  qed
  have "or_lease_id x \<noteq> lr_lease_id r" if x: "x \<in> set (qs_operations s)" for x
    using ledgerD(3) [OF ok x] new leases.lookup_Some by (fastforce simp: operation_ok_def)
  then have "tally w (lr_lease_id r) s = 0" for w
    by (auto simp: tally_def intro!: sum_list_0 simp flip: list.map_comp cong: map_cong)
  then have "account_ok t r" using z by (simp add: account_ok_def t tally_def)
  moreover have "account_ok t l" if "account_ok s l" for l
    using that by (simp add: account_ok_def t tally_def)
  moreover have "operation_ok t x" if "operation_ok s x" for x
    using that find_old by (auto simp: operation_ok_def)
  moreover have "settled_ok r" using z by (simp add: settled_ok_def)
  moreover have "lr_lease_id r \<notin> lr_lease_id ` set (qs_leases s)" using new by (metis imageE)
  ultimately show ?thesis using ok r by (auto simp: ledger_ok_def t)
qed

lemma reserve_ok: "ledger_ok s \<Longrightarrow> ledger_ok (snd (reserve sha256 lid token clock db res cleanup s))"
  using insert_lease_ok [of s]
  by (auto simp: reserve_def transaction_def Let_def map_sum_def split: option.split database.split sum.splits)

lemma begin_ok: "ledger_ok s \<Longrightarrow> ledger_ok (snd (begin_operation sha256 clock db q s))"
proof -
  assume ok: "ledger_ok s"
  have "ledger_ok t" if b: "begin_body sha256 now q s = Inr (op, t)" and "request_ok q" for now op t
  proof -
    obtain l where l: "find_lease (oq_lease_id q) s = Some l" "begin_guard sha256 now q (Some l) = None"
      using b by (cases "find_lease (oq_lease_id q) s")
        (auto simp: begin_body_def Let_def begin_guard_def split: option.splits)
    show ?thesis using begin_body_ok [OF ok l that(2)] b by auto
  qed
  then show ?thesis using ok
    by (auto simp: begin_operation_def transaction_def request_ok_def split: option.split database.split sum.split)
qed

lemma operation_lease:
  assumes "ledger_ok s" "find_operation lid n s = Some r"
  shows "operation_ok s r \<and> or_lease_id r = lid \<and> or_sequence r = n \<and> (\<exists>l. find_lease lid s = Some l)"
  using ops.lookup_Some [of "(lid, n)" s r] ledgerD(3) [OF assms(1)] assms(2)
  by (fastforce simp: operations_at operation_key_def operation_ok_def)

lemma complete_body_run:
  assumes ok: "ledger_ok s" and f: "find_operation (qo_lease_id op) (qo_sequence op) s = Some r"
    and st: "or_status r = Op_forwarding" and u: "usage_ok op u" and c: "pu_actual_cost_nusd u \<le> or_reserved r"
  shows "\<exists>t. complete_body now op u s = Inr ((), t) \<and> ledger_ok t
    \<and> (\<exists>r'. find_operation (qo_lease_id op) (qo_sequence op) t = Some r' \<and> or_status r' = Op_completed)"
proof -
  let ?lid = "qo_lease_id op" let ?n = "qo_sequence op"
  let ?g = "\<lambda>x. (record_usage now u x)\<lparr>or_status := Op_completed\<rparr>"
  let ?h = "\<lambda>x. x\<lparr>lr_successful := lr_successful x + 1, lr_in_flight := lr_in_flight x - 1,
    lr_held := lr_held x - or_reserved r, lr_actual := lr_actual x + pu_actual_cost_nusd u\<rparr>"
  have r: "operation_ok s r" using operation_lease [OF ok f] by simp
  obtain l where l: "find_lease ?lid s = Some l" using operation_lease [OF ok f] by blast
  have fb: "0 \<le> or_reserved r" "or_reserved r \<le> lr_held l" "1 \<le> lr_in_flight l"
    "lr_successful l + 1 \<le> lr_operation_count l" "lr_state l \<noteq> Lease_settled"
    using forwarding_bounds [OF ok f st l] by auto
  have "\<exists>s1 t. update_operation ?lid ?n ?g s = Inr s1 \<and> update_lease ?lid ?h s1 = Inr t \<and> ledger_ok t
    \<and> find_lease ?lid t = Some (?h l) \<and> find_operation ?lid ?n t = Some (?g r)"
  proof (rule finish_operation [OF ok f l])
    show "operation_row_ok (?g r)"
      using r st u by (auto simp: operation_ok_def operation_row_ok_def record_usage_def usage_ok_def)
    show "lease_row_ok (?h l)"
      using ledgerD(4) [OF ok l] fb u c by (auto simp: lease_row_ok_def usage_ok_def)
    show "settled_ok (?h l)" using fb by (simp add: settled_ok_def)
  qed (use st u c fb in \<open>auto simp: record_usage_def operation_key_def w_held_def w_flight_def w_actual_def
      w_uncertain_def w_success_def usage_ok_def\<close>)
  then obtain s1 t where "update_operation ?lid ?n ?g s = Inr s1" "update_lease ?lid ?h s1 = Inr t" "ledger_ok t"
    "find_operation ?lid ?n t = Some (?g r)" by blast
  then show ?thesis using f st c by (simp add: complete_body_def Let_def not_less)
qed

lemma complete_body_Inr:
  assumes "complete_body now op u s = Inr (x, t)"
  shows "\<exists>r. find_operation (qo_lease_id op) (qo_sequence op) s = Some r \<and> or_status r = Op_forwarding
    \<and> pu_actual_cost_nusd u \<le> or_reserved r"
  using assms by (auto simp: complete_body_def Let_def split: option.splits if_splits sum.splits)

lemma complete_ok: "ledger_ok s \<Longrightarrow> ledger_ok (snd (complete_operation clock db op u s))"
proof -
  assume ok: "ledger_ok s"
  have "ledger_ok t" if b: "complete_body now op u s = Inr (x, t)" and u: "usage_ok op u" for now x t
  proof -
    obtain r where "find_operation (qo_lease_id op) (qo_sequence op) s = Some r"
      "or_status r = Op_forwarding" "pu_actual_cost_nusd u \<le> or_reserved r"
      using complete_body_Inr [OF b] by blast
    from complete_body_run [OF ok this(1,2) u this(3), of now] b show ?thesis by auto
  qed
  then show ?thesis using ok
    by (auto simp: complete_operation_def transaction_def split: option.split database.split sum.split)
qed

lemma fail_lease_fields [simp]:
  "lr_lease_id (fail_lease w now n l) = lr_lease_id l"
  "lr_operation_count (fail_lease w now n l) = lr_operation_count l"
  "lr_held (fail_lease w now n l) = lr_held l - n"
  "lr_in_flight (fail_lease w now n l) = lr_in_flight l - 1"
  "lr_actual (fail_lease w now n l) = lr_actual l"
  "lr_uncertain (fail_lease w now n l) = lr_uncertain l + n"
  "lr_successful (fail_lease w now n l) = lr_successful l"
  by (simp_all add: fail_lease_def Let_def)

lemma fail_lease_ok:
  assumes "lease_row_ok l" "0 \<le> n" "n \<le> lr_held l" "1 \<le> lr_in_flight l"
  shows "lease_row_ok (fail_lease w now n l)"
  using assms by (auto simp: lease_row_ok_def fail_lease_def Let_def)

lemma uncertain_body_run:
  assumes ok: "ledger_ok s" and f: "find_operation (qo_lease_id op) (qo_sequence op) s = Some r"
    and st: "or_status r = Op_forwarding"
  shows "\<exists>t l. uncertain_body now op reason s = Inr ((), t) \<and> ledger_ok t
    \<and> (\<exists>r'. find_operation (qo_lease_id op) (qo_sequence op) t = Some r' \<and> or_status r' = Op_uncertain)
    \<and> find_lease (qo_lease_id op) t = Some l \<and> lr_state l \<noteq> Lease_active"
proof -
  let ?lid = "qo_lease_id op" let ?n = "qo_sequence op"
  let ?g = "\<lambda>x. x\<lparr>or_status := Op_uncertain, or_finished_at := Some now, or_failure := Some reason\<rparr>"
  let ?h = "fail_lease reason now (or_reserved r)"
  have r: "operation_ok s r" using operation_lease [OF ok f] by simp
  obtain l where l: "find_lease ?lid s = Some l" using operation_lease [OF ok f] by blast
  have fb: "0 \<le> or_reserved r" "or_reserved r \<le> lr_held l" "1 \<le> lr_in_flight l"
    "lr_successful l + 1 \<le> lr_operation_count l" "lr_state l \<noteq> Lease_settled"
    using forwarding_bounds [OF ok f st l] by auto
  have "\<exists>s1 t. update_operation ?lid ?n ?g s = Inr s1 \<and> update_lease ?lid ?h s1 = Inr t \<and> ledger_ok t
    \<and> find_lease ?lid t = Some (?h l) \<and> find_operation ?lid ?n t = Some (?g r)"
  proof (rule finish_operation [OF ok f l])
    show "operation_row_ok (?g r)"
      using r by (auto simp: operation_ok_def operation_row_ok_def)
    show "lease_row_ok (?h l)" using ledgerD(4) [OF ok l] fb by (intro fail_lease_ok) auto
    show "settled_ok (?h l)" using fb by (simp add: settled_ok_def fail_lease_def Let_def)
  qed (use st in \<open>auto simp: operation_key_def w_held_def w_flight_def w_actual_def
      w_uncertain_def w_success_def\<close>)
  then obtain s1 t where u: "update_operation ?lid ?n ?g s = Inr s1" "update_lease ?lid ?h s1 = Inr t" "ledger_ok t"
    "find_lease ?lid t = Some (?h l)" "find_operation ?lid ?n t = Some (?g r)" by blast
  have "find_lease ?lid s1 \<noteq> None" using update_operation_frame [OF u(1)] l by auto
  with u show ?thesis using f st by (auto simp: uncertain_body_def Let_def fail_lease_def)
qed

lemma uncertain_ok: "ledger_ok s \<Longrightarrow> ledger_ok (snd (mark_operation_uncertain clock db op reason s))"
proof -
  assume ok: "ledger_ok s"
  have "ledger_ok t" if b: "uncertain_body now op reason s = Inr (x, t)" for now x t
  proof -
    obtain r where r: "find_operation (qo_lease_id op) (qo_sequence op) s = Some r"
      using b by (auto simp: uncertain_body_def Let_def split: option.splits)
    show ?thesis
    proof (cases "or_status r = Op_forwarding")
      case True
      then show ?thesis using uncertain_body_run [OF ok r True, of now reason] b by auto
    next
      case False
      then show ?thesis using b r ok by (simp add: uncertain_body_def Let_def)
    qed
  qed
  then show ?thesis using ok
    by (auto simp: mark_operation_uncertain_def transaction_def split: option.split database.split sum.split)
qed

lemma update_lease_keeps_ledger:
  assumes ok: "ledger_ok s" and l: "find_lease lid s = Some l" and u: "update_lease lid h s = Inr t"
    and h: "\<And>x. lr_lease_id (h x) = lr_lease_id x"
      "lr_operation_count (h l) = lr_operation_count l" "lr_held (h l) = lr_held l"
      "lr_in_flight (h l) = lr_in_flight l" "lr_actual (h l) = lr_actual l"
      "lr_uncertain (h l) = lr_uncertain l" "lr_successful (h l) = lr_successful l" "settled_ok (h l)"
  shows "ledger_ok t"
proof -
  have find_t: "find_lease x t = (if x = lid then Some (h l) else find_lease x s)" for x
    using leases.update_lookup [OF u h(1), of x] l by simp
  have tl: "tally w x t = tally w x s" for w x using update_lease_frame [OF u] by simp
  have lid: "lr_lease_id l = lid" using ledgerD(4) [OF ok l] by simp
  have hl: "lease_row_ok (h l)" "account_ok t (h l)"
    using leases.update_check [OF u l] h ledgerD(4) [OF ok l] lid by (simp_all add: account_ok_def tl)
  have ops: "operation_ok t x" if "x \<in> set (qs_operations t)" for x
  proof -
    have "operation_ok s x" using that update_lease_frame [OF u] ledgerD(3) [OF ok] by auto
    then show ?thesis using find_t l h by (auto simp: operation_ok_def)
  qed
  have rows: "lease_row_ok x \<and> account_ok t x \<and> settled_ok x" if "x \<in> set (qs_leases t)" for x
  proof -
    have "x = h l \<or> x \<in> set (qs_leases s)"
      using leases.update_in [OF u ledgerD(1) [OF ok] l that] by blast
    then show ?thesis using hl h ok by (auto simp: ledger_ok_def account_ok_def tl)
  qed
  show ?thesis
    using ok ops rows leases.update_keys [OF u h(1)] update_lease_frame [OF u]
    by (simp add: ledger_ok_def)
qed

lemma settle_ok: "ledger_ok s \<Longrightarrow> ledger_ok (snd (settle clock db lid completed s))"
proof -
  assume ok: "ledger_ok s"
  have "ledger_ok t" if b: "settle_body now lid completed s = Inr (x, t)" for now x t
  proof -
    obtain l where l: "find_lease lid s = Some l" "lr_in_flight l = 0" "lr_held l = 0" "lr_uncertain l = 0"
      "lr_operation_count l = lr_successful l"
      and u: "update_lease lid (\<lambda>x. x\<lparr>lr_state := Lease_settled, lr_terminal_reason := Some ''settled'',
               lr_terminal_at := Some now\<rparr>) s = Inr t"
      using b by (auto simp: settle_body_def map_sum_def split: option.splits if_splits sum.splits)
    show ?thesis by (rule update_lease_keeps_ledger [OF ok l(1) u]) (use l in \<open>simp_all add: settled_ok_def\<close>)
  qed
  then show ?thesis using ok by (auto simp: settle_def transaction_def split: option.split database.split sum.split)
qed

lemma cancel_ok: "ledger_ok s \<Longrightarrow> ledger_ok (snd (cancel clock db lid reason s))"
proof -
  assume ok: "ledger_ok s"
  have "ledger_ok t" if b: "cancel_body now lid reason s = Inr (x, t)" for now x t
  proof -
    obtain l where l: "find_lease lid s = Some l" using b by (auto simp: cancel_body_def split: option.splits)
    show ?thesis
    proof (cases "lr_state l = Lease_active")
      case True
      then have u: "update_lease lid (\<lambda>x. x\<lparr>lr_state := Lease_canceled, lr_terminal_reason := Some reason,
                 lr_terminal_at := Some now\<rparr>) s = Inr t"
        using b l by (auto simp: cancel_body_def map_sum_def split: sum.splits)
      show ?thesis by (rule update_lease_keeps_ledger [OF ok l u]) (simp_all add: settled_ok_def)
    next
      case False
      then have "t = s" using b l by (auto simp: cancel_body_def split: lease_state.splits if_splits)
      with ok show ?thesis by simp
    qed
  qed
  then show ?thesis using ok by (auto simp: cancel_def transaction_def split: option.split database.split sum.split)
qed

subsection \<open>Reachable ledgers\<close>

inductive ledger_step :: "(string \<Rightarrow> string) \<Rightarrow> quota_store \<Rightarrow> quota_store \<Rightarrow> bool"
  for sha256 :: "string \<Rightarrow> string" where
  "ledger_step sha256 s (snd (reserve sha256 lid token clock db res cleanup s))"
| "ledger_step sha256 s (snd (begin_operation sha256 clock db q s))"
| "ledger_step sha256 s (snd (complete_operation clock db op u s))"
| "ledger_step sha256 s (snd (mark_operation_uncertain clock db op reason s))"
| "ledger_step sha256 s (snd (settle clock db lid completed s))"
| "ledger_step sha256 s (snd (cancel clock db lid reason s))"

inductive ledger_reachable :: "(string \<Rightarrow> string) \<Rightarrow> quota_store \<Rightarrow> bool"
  for sha256 :: "string \<Rightarrow> string" where
  Initialized: "ledger_reachable sha256 \<lparr>qs_leases = [], qs_operations = []\<rparr>"
| Next: "ledger_reachable sha256 s \<Longrightarrow> ledger_step sha256 s t \<Longrightarrow> ledger_reachable sha256 t"

lemma ledger_step_ok: "ledger_step sha256 s t \<Longrightarrow> ledger_ok s \<Longrightarrow> ledger_ok t"
  by (induction rule: ledger_step.induct)
    (rule reserve_ok begin_ok complete_ok uncertain_ok settle_ok cancel_ok; assumption)+

lemma reachable_ledger_ok: "ledger_reachable sha256 s \<Longrightarrow> ledger_ok s"
  by (induction rule: ledger_reachable.induct) (simp_all add: ledger_empty ledger_step_ok)

subsection \<open>Exact behaviour of the operations on reachable ledgers\<close>

lemma sum_list_nonneg_zero: "(\<And>x. x \<in> set xs \<Longrightarrow> 0 \<le> f x) \<Longrightarrow> sum_list (map f xs) = (0::int) \<longleftrightarrow> (\<forall>x \<in> set xs. f x = 0)"
proof (induction xs)
  case (Cons a xs)
  have "0 \<le> f a" "0 \<le> sum_list (map f xs)" using Cons.prems by (auto intro!: sum_list_nonneg)
  with Cons show ?case by (auto simp: add_nonneg_eq_0_iff)
qed simp

lemma tally_zero: "(\<And>r. r \<in> set (qs_operations s) \<Longrightarrow> or_lease_id r = lid \<Longrightarrow> w r = 0) \<Longrightarrow> tally w lid s = 0"
proof -
  have "(\<And>r. r \<in> set rs \<Longrightarrow> or_lease_id r = lid \<Longrightarrow> w r = 0) \<Longrightarrow>
    sum_list (map (\<lambda>r. if or_lease_id r = lid then w r else 0) rs) = 0" for rs
    by (induction rs) auto
  then show "(\<And>r. r \<in> set (qs_operations s) \<Longrightarrow> or_lease_id r = lid \<Longrightarrow> w r = 0) \<Longrightarrow> tally w lid s = 0"
    by (simp add: tally_def)
qed

definition all_completed :: "string \<Rightarrow> quota_store \<Rightarrow> bool" where
  "all_completed lid s \<longleftrightarrow> list_all (\<lambda>r. or_lease_id r = lid \<longrightarrow> or_status r = Op_completed) (qs_operations s)"

lemma all_completed_iff:
  "tally (\<lambda>_. 1) lid s = tally w_success lid s \<longleftrightarrow> all_completed lid s"
proof -
  have "tally (\<lambda>x. 1 - w_success x) lid s = 0 \<longleftrightarrow> all_completed lid s"
    unfolding tally_def by (subst sum_list_nonneg_zero) (auto simp: w_success_def all_completed_def list_all_iff)
  moreover have "tally (\<lambda>x. 1 - w_success x) lid s = tally (\<lambda>_. 1) lid s - tally w_success lid s"
    by (rule tally_diff)
  ultimately show ?thesis by linarith
qed

lemma all_completed_tallies:
  assumes "all_completed lid s"
  shows "tally w_held lid s = 0" "tally w_flight lid s = 0" "tally w_uncertain lid s = 0"
  using assms
  by (auto simp: all_completed_def list_all_iff w_held_def w_flight_def w_uncertain_def intro!: tally_zero)

lemma settle_body_iff:
  assumes ok: "ledger_ok s"
  shows "(\<exists>x t. settle_body now lid completed s = Inr (x, t)) \<longleftrightarrow>
    (\<exists>l. find_lease lid s = Some l \<and> lr_state l = Lease_active \<and> all_completed lid s
       \<and> completed = JInt (lr_operation_count l))"
proof (cases "find_lease lid s")
  case None
  then show ?thesis by (simp add: settle_body_def)
next
  case (Some l)
  let ?h = "\<lambda>x. x\<lparr>lr_state := Lease_settled, lr_terminal_reason := Some ''settled'', lr_terminal_at := Some now\<rparr>"
  have l: "lease_row_ok l" "account_ok s l" "lr_lease_id l = lid" using ledgerD(4) [OF ok Some] by auto
  have "lease_row_ok (?h l)" using l(1) by (auto simp: lease_row_ok_def)
  then obtain t where t: "update_lease lid ?h s = Inr t"
    using leases.update_succeeds [of s lid l ?h] ledgerD(1) [OF ok] Some by auto
  have c: "lr_operation_count l = lr_successful l \<longleftrightarrow> all_completed lid s"
    using l all_completed_iff [of lid s] by (simp add: account_ok_def)
  have z: "lr_held l = 0 \<and> lr_in_flight l = 0 \<and> lr_uncertain l = 0" if "all_completed lid s"
    using l all_completed_tallies [OF that] by (simp add: account_ok_def)
  show ?thesis using Some t c z by (auto simp: settle_body_def)
qed

lemma settle_body_result:
  assumes "ledger_ok s" "settle_body now lid completed s = Inr (x, t)"
  shows "qt_actual_cost_usd x = nusd_to_usd (tally w_actual lid s)"
proof -
  obtain l where l: "find_lease lid s = Some l" "x = \<lparr>qt_lease_id = lid, qt_actual_cost_usd = nusd_to_usd (lr_actual l),
      qt_completed_operations = lr_successful l\<rparr>"
    using assms(2) by (auto simp: settle_body_def map_sum_def split: option.splits if_splits sum.splits)
  with ledgerD(4) [OF assms(1) l(1)] show ?thesis by (simp add: account_ok_def)
qed

lemma update_lease_other:
  "update_lease lid h s = Inr t \<Longrightarrow> (\<And>x. lr_lease_id (h x) = lr_lease_id x) \<Longrightarrow> lid' \<noteq> lid \<Longrightarrow>
     find_lease lid' t = find_lease lid' s"
  using leases.update_lookup by fastforce

lemma begin_body_settled:
  assumes "begin_body sha256 now q s = Inr (op, t)" "find_lease lid s = Some l" "lr_state l \<noteq> Lease_active"
  shows "find_lease lid t = Some l"
proof -
  have ne: "lid \<noteq> oq_lease_id q"
    using assms by (auto simp: begin_body_def Let_def begin_guard_def split: option.splits if_splits)
  obtain row s1 h where "insert_operation row s = Inr s1" "update_lease (oq_lease_id q) h s1 = Inr t"
    "\<And>x. lr_lease_id (h x) = lr_lease_id x"
    using assms(1) by (auto simp: begin_body_def Let_def map_sum_def split: option.splits sum.splits)
  then have "find_lease lid t = find_lease lid s1" "find_lease lid s1 = find_lease lid s"
    using update_lease_other [of "oq_lease_id q" h s1 t lid] ne
    by (auto simp: insert_operation_def find_lease_def split: if_splits)
  with assms show ?thesis by simp
qed

lemma resolve_other_lease:
  assumes ok: "ledger_ok s" and s: "find_lease lid s = Some l" "lr_state l = Lease_settled"
    and f: "find_operation (qo_lease_id op) n s = Some r" "or_status r = Op_forwarding"
    and u: "update_operation (qo_lease_id op) n g s = Inr s1" "update_lease (qo_lease_id op) h s1 = Inr t"
    and h: "\<And>x. lr_lease_id (h x) = lr_lease_id x"
  shows "find_lease lid t = Some l"
proof -
  obtain l' where l': "find_lease (qo_lease_id op) s = Some l'" using operation_lease [OF ok f(1)] by blast
  have "lid \<noteq> qo_lease_id op" using forwarding_bounds [OF ok f l'] s l' by auto
  then show ?thesis using update_lease_other [OF u(2) h] update_operation_frame [OF u(1)] s(1) by simp
qed

lemma settled_step:
  assumes "ledger_step sha256 s t" "ledger_ok s" "find_lease lid s = Some l" "lr_state l = Lease_settled"
  shows "find_lease lid t = Some l"
  using assms
proof (induction rule: ledger_step.induct)
  case (1 s lid' token clock db res cleanup)
  have "find P xs = Some l \<Longrightarrow> find P (xs @ ys) = Some l" for P and xs ys :: "lease_row list"
    by (induction xs) auto
  then have "find_lease lid t = Some l" if "insert_lease r s = Inr t" for r t
    using that 1 by (auto simp: insert_lease_def find_lease_def split: if_splits)
  then show ?case using 1
    by (auto simp: reserve_def transaction_def Let_def map_sum_def split: option.split database.split sum.splits)
next
  case (2 s clock db q)
  then show ?case using begin_body_settled
    by (auto simp: begin_operation_def transaction_def split: option.split database.split sum.split)
next
  case (3 s clock db op u)
  have "find_lease lid t = Some l" if "complete_body now op u s = Inr (x, t)" for now x t
    using that resolve_other_lease [OF 3, of op]
    by (auto simp: complete_body_def Let_def map_sum_def split: option.splits sum.splits if_splits)
  then show ?case using 3
    by (auto simp: complete_operation_def transaction_def split: option.split database.split sum.split)
next
  case (4 s clock db op reason)
  have "find_lease lid t = Some l" if "uncertain_body now op reason s = Inr (x, t)" for now x t
    using that resolve_other_lease [OF 4, of op] 4
    by (auto simp: uncertain_body_def Let_def map_sum_def split: option.splits sum.splits if_splits)
  then show ?case using 4
    by (auto simp: mark_operation_uncertain_def transaction_def split: option.split database.split sum.split)
next
  case (5 s clock db lid' completed)
  have "find_lease lid t = Some l" if b: "settle_body now lid' completed s = Inr (x, t)" for now x t
  proof -
    have "lid \<noteq> lid'" using b 5 by (auto simp: settle_body_def split: if_splits)
    then show ?thesis using b 5 update_lease_other [of lid' _ s t lid]
      by (auto simp: settle_body_def map_sum_def split: option.splits if_splits sum.splits)
  qed
  then show ?case using 5 by (auto simp: settle_def transaction_def split: option.split database.split sum.split)
next
  case (6 s clock db lid' reason)
  have "find_lease lid t = Some l" if b: "cancel_body now lid' reason s = Inr (x, t)" for now x t
  proof -
    have "lid \<noteq> lid'" using b 6 by (auto simp: cancel_body_def)
    then show ?thesis using b 6 update_lease_other [of lid' _ s t lid]
      by (auto simp: cancel_body_def map_sum_def split: option.splits if_splits sum.splits lease_state.splits)
  qed
  then show ?case using 6 by (auto simp: cancel_def transaction_def split: option.split database.split sum.split)
qed

lemma complete_exceeded:
  assumes ok: "ledger_ok s" and f: "find_operation (qo_lease_id op) (qo_sequence op) s = Some r"
    and st: "or_status r = Op_forwarding" and u: "usage_ok op u" and c: "or_reserved r < pu_actual_cost_nusd u"
  shows "complete_operation (Some now) Works op u s
    = (Inl (Store_error ''provider_accounting_exceeded_authorization''), s)"
proof -
  let ?lid = "qo_lease_id op" let ?n = "qo_sequence op"
  let ?why = "''provider_accounting_exceeded_authorization''"
  let ?g = "\<lambda>x. (record_usage (seconds_of now) u x)\<lparr>or_status := Op_accounting_failed, or_failure := Some ?why\<rparr>"
  let ?h = "fail_lease ?why (seconds_of now) (or_reserved r)"
  have r: "operation_ok s r" using operation_lease [OF ok f] by simp
  obtain l where l: "find_lease ?lid s = Some l" using operation_lease [OF ok f] by blast
  have fb: "0 \<le> or_reserved r" "or_reserved r \<le> lr_held l" "1 \<le> lr_in_flight l"
    using forwarding_bounds [OF ok f st l] by auto
  have "operation_row_ok (?g r)"
    using r u by (auto simp: operation_ok_def operation_row_ok_def record_usage_def usage_ok_def)
  then obtain s1 where s1: "update_operation ?lid ?n ?g s = Inr s1"
    using ops.update_succeeds [of s "(?lid, ?n)" r ?g] ledgerD(2) [OF ok] f by (auto simp: operations_at)
  have "lease_row_ok (?h l)" using ledgerD(4) [OF ok l] fb by (intro fail_lease_ok) auto
  then obtain t where "update_lease ?lid ?h s1 = Inr t"
    using leases.update_succeeds [of s1 ?lid l ?h] ledgerD(1) [OF ok] update_operation_frame [OF s1] l by auto
  with s1 show ?thesis using f st u c by (simp add: complete_operation_def transaction_def complete_body_def Let_def)
qed

subsection \<open>Properties\<close>

definition sample_hash :: "string \<Rightarrow> string" where
  "sample_hash t = replicate 64 CHR ''0''"

definition sample_reservation :: quota_reservation where
  "sample_reservation = \<lparr>qr_case_id = ''case'', qr_max_cost = JInt 5, qr_max_concurrency = 2,
     qr_max_operations = 10, qr_timeout = 60\<rparr>"

definition sample_lease_id :: string where
  "sample_lease_id = ''oq-'' @ replicate 32 CHR ''0''"

definition sample_operation_request :: operation_request where
  "sample_operation_request = \<lparr>oq_lease_id = sample_lease_id, oq_lease_token = replicate 43 CHR ''t'',
     oq_request_sha256 = replicate 64 CHR ''a'', oq_model = ''gpt-x'', oq_input_limit = 1000,
     oq_output_limit = 100, oq_reserved = 2000000\<rparr>"

definition empty_store :: quota_store where
  "empty_store = \<lparr>qs_leases = [], qs_operations = []\<rparr>"

definition sample_store :: quota_store where
  "sample_store = snd (reserve sample_hash sample_lease_id (replicate 43 CHR ''t'') (Some 0) Works sample_reservation 30 empty_store)"

lemma sample_store_reachable: "ledger_reachable sample_hash sample_store"
  unfolding sample_store_def empty_store_def
  by (rule ledger_reachable.Next [OF ledger_reachable.Initialized]) (rule ledger_step.intros)

lemma sample_request_checks: "lease_id_pattern sample_lease_id" "bounded_secret (replicate 43 CHR ''t'')"
    "list_all is_hex (replicate 64 CHR ''a'')" "model_pattern ''gpt-x''" "0 \<le> expires_epoch 0 60 30"
proof -
  show "lease_id_pattern sample_lease_id" "bounded_secret (replicate 43 CHR ''t'')"
    "list_all is_hex (replicate 64 CHR ''a'')" "model_pattern ''gpt-x''"
    by (simp_all add: lease_id_pattern_def sample_lease_id_def bounded_secret_def list_all_iff is_hex_def is_digit_def
        model_pattern_def head_tail_match_def is_alnum_def is_lower_def is_upper_def)
  have "0 \<le> fl (fl (fl (fl (of_int 0 / 1000000) + 60) + of_int 30) + 1)"
    by (intro fl_nonneg add_nonneg_nonneg) simp_all
  then show "0 \<le> expires_epoch 0 60 30"
    unfolding expires_epoch_def using ceiling_mono by fastforce
qed

lemma sample_lease: "\<exists>l. find_lease sample_lease_id sample_store = Some l \<and> lr_state l = Lease_active
    \<and> lr_operation_count l = 0 \<and> qs_operations sample_store = []
    \<and> lr_token_sha256 l = replicate 64 CHR ''0'' \<and> lr_in_flight l = 0 \<and> lr_max_cost l = 5000000000
    \<and> lr_held l = 0 \<and> lr_actual l = 0 \<and> lr_uncertain l = 0 \<and> lr_max_operations l = 10 \<and> lr_max_concurrency l = 2
    \<and> lr_expires_at l = expires_epoch 0 60 30"
proof -
  have "list_all (\<lambda>c. \<not> is_upper c) (replicate 64 CHR ''0'')"
    by (simp add: list_all_iff is_upper_def)
  then show ?thesis
    by (simp add: sample_store_def reserve_def transaction_def insert_lease_def lease_row_ok_def sha256_text_def
        sample_hash_def sample_reservation_def budget_nusd_def sqlite_max_integer_def find_lease_def empty_store_def Let_def)
qed

text \<open>
  C1. The ledger never overspends a lease: in every reachable store the cost of completed
  operations plus the reservations still held plus the reservations of operations without
  authoritative accounting is exactly what the lease row records and is within its budget, and the
  operations in flight and the number of operations are within the lease's limits.
\<close>
theorem ledger_within_budget:
  assumes "ledger_reachable sha256 s" "find_lease lid s = Some l"
  shows "lr_actual l = tally w_actual lid s \<and> lr_held l = tally w_held lid s
    \<and> lr_uncertain l = tally w_uncertain lid s
    \<and> tally w_actual lid s + tally w_held lid s + tally w_uncertain lid s \<le> lr_max_cost l
    \<and> tally w_flight lid s \<le> lr_max_concurrency l \<and> tally (\<lambda>_. 1) lid s \<le> lr_max_operations l
    \<and> 0 \<le> tally w_actual lid s"
proof -
  have "lease_row_ok l" "account_ok s l" "lr_lease_id l = lid"
    using ledgerD(4) [OF reachable_ledger_ok [OF assms(1)] assms(2)] by auto
  then show ?thesis by (auto simp: lease_row_ok_def account_ok_def)
qed

theorem ledger_within_budget_witness:
  "\<exists>l. find_lease sample_lease_id sample_store = Some l \<and> tally w_held sample_lease_id sample_store \<le> lr_max_cost l"
proof -
  obtain l where l: "find_lease sample_lease_id sample_store = Some l" using sample_lease by blast
  have "tally w_held sample_lease_id sample_store = 0" "0 \<le> lr_max_cost l"
    using ledger_within_budget [OF sample_store_reachable l] sample_lease l by auto
  with l show ?thesis by auto
qed

text \<open>
  C11. Beginning an operation succeeds exactly when the documented guards pass: for a well-formed
  request and a valid clock, an operation starts iff the database works, the lease exists, the credential matches, the
  lease is active and not expired, and neither the operation, the concurrency nor the cost limit is
  reached. No database constraint can refuse it on a reachable store.
\<close>
theorem begin_succeeds_iff_guards:
  assumes "ledger_reachable sha256 s" "lease_id_pattern (oq_lease_id q)" "bounded_secret (oq_lease_token q)"
    "length (oq_request_sha256 q) = 64" "list_all is_hex (oq_request_sha256 q)" "model_pattern (oq_model q)"
    "1 \<le> oq_input_limit q" "oq_input_limit q \<le> 10000000" "1 \<le> oq_output_limit q" "oq_output_limit q \<le> 1000000"
    "0 \<le> oq_reserved q" "oq_reserved q \<le> sqlite_max_integer"
  shows "(\<exists>op. fst (begin_operation sha256 (Some now) db q s) = Inr op) \<longleftrightarrow> db = Works \<and>
    (\<exists>l. find_lease (oq_lease_id q) s = Some l \<and> lr_token_sha256 l = sha256 (oq_lease_token q)
       \<and> lr_state l = Lease_active \<and> now \<le> lr_expires_at l * 1000000
       \<and> lr_operation_count l < lr_max_operations l \<and> lr_in_flight l < lr_max_concurrency l
       \<and> lr_actual l + lr_held l + lr_uncertain l + oq_reserved q \<le> lr_max_cost l)"
proof -
  have ok: "ledger_ok s" using reachable_ledger_ok assms(1) by blast
  have q: "request_ok q" using assms by (simp add: request_ok_def)
  show ?thesis
  proof (cases "find_lease (oq_lease_id q) s")
    case None
    then show ?thesis using assms(2-) by (simp add: begin_operation_def transaction_def begin_body_def begin_guard_def split: database.split)
  next
    case (Some l)
    have g: "begin_guard sha256 now q (Some l) = None \<longleftrightarrow> lr_token_sha256 l = sha256 (oq_lease_token q)
       \<and> lr_state l = Lease_active \<and> now \<le> lr_expires_at l * 1000000
       \<and> lr_operation_count l < lr_max_operations l \<and> lr_in_flight l < lr_max_concurrency l
       \<and> lr_actual l + lr_held l + lr_uncertain l + oq_reserved q \<le> lr_max_cost l"
      by (auto simp: begin_guard_def)
    show ?thesis
    proof (cases "begin_guard sha256 now q (Some l)")
      case None
      then show ?thesis using begin_body_ok [OF ok Some None q] Some g assms(2-)
        by (auto simp: begin_operation_def transaction_def split: database.split)
    next
      case (Some e)
      then show ?thesis using \<open>find_lease (oq_lease_id q) s = Some l\<close> g assms(2-)
        by (auto simp: begin_operation_def transaction_def begin_body_def split: database.split)
    qed
  qed
qed

theorem begin_succeeds_iff_guards_witness:
  "\<exists>op. fst (begin_operation sample_hash (Some (- 5)) Works sample_operation_request sample_store) = Inr op"
proof -
  show ?thesis
    using begin_succeeds_iff_guards [OF sample_store_reachable, of sample_operation_request "- 5" Works] sample_lease
      sample_request_checks
    by (auto simp: sample_operation_request_def sample_hash_def sqlite_max_integer_def)
qed

text \<open>
  C13. A lease settles exactly when every one of its operations has authoritative provider
  accounting: settling succeeds iff the database works, the lease is active, all its operations are completed and the
  caller's count is their number, and the amount settled is the sum of their actual costs.
\<close>
theorem settle_iff_all_accounted:
  assumes "ledger_reachable sha256 s"
  shows "((\<exists>x. fst (settle (Some now) db lid completed s) = Inr x) \<longleftrightarrow> db = Works \<and>
      (\<exists>l. find_lease lid s = Some l \<and> lr_state l = Lease_active \<and> all_completed lid s
         \<and> completed = JInt (tally (\<lambda>_. 1) lid s)))
    \<and> list_all (\<lambda>x. qt_actual_cost_usd x = nusd_to_usd (tally w_actual lid s))
        (case fst (settle (Some now) db lid completed s) of Inl _ \<Rightarrow> [] | Inr x \<Rightarrow> [x])"
proof -
  have ok: "ledger_ok s" using reachable_ledger_ok assms by blast
  have c: "lr_operation_count l = tally (\<lambda>_. 1) lid s" if "find_lease lid s = Some l" for l
    using ledgerD(4) [OF ok that] by (simp add: account_ok_def)
  have "(\<exists>x. fst (settle (Some now) db lid completed s) = Inr x) \<longleftrightarrow> db = Works \<and>
      (\<exists>x t. settle_body (seconds_of now) lid completed s = Inr (x, t))"
    by (auto simp: settle_def transaction_def split: sum.splits database.splits)
  also have "\<dots> \<longleftrightarrow> db = Works \<and> (\<exists>l. find_lease lid s = Some l \<and> lr_state l = Lease_active \<and> all_completed lid s
         \<and> completed = JInt (tally (\<lambda>_. 1) lid s))"
    using settle_body_iff [OF ok] c by auto
  finally show ?thesis
    using settle_body_result [OF ok] by (auto simp: settle_def transaction_def split: sum.splits database.splits)
qed

theorem settle_iff_all_accounted_witness:
  "\<exists>x. fst (settle (Some 9) Works sample_lease_id (JInt 0) sample_store) = Inr x"
  using settle_iff_all_accounted [OF sample_store_reachable, of 9 Works sample_lease_id "JInt 0"] sample_lease
  by (auto simp: all_completed_def tally_def)

text \<open>
  C17. A settlement is final: no later operation of the store, on whatever arguments, at whatever
  time and whether or not the database answers, changes the row of a settled lease.
\<close>
theorem settlement_is_final:
  assumes "ledger_reachable sha256 s" "find_lease lid s = Some l" "lr_state l = Lease_settled"
    "ledger_step sha256 s t"
  shows "find_lease lid t = Some l"
  using settled_step [OF assms(4) reachable_ledger_ok [OF assms(1)] assms(2,3)] .

theorem settlement_is_final_witness:
  "\<exists>l. find_lease sample_lease_id (snd (cancel (Some 11) Works sample_lease_id ''late-cancel''
      (snd (settle (Some 9) Works sample_lease_id (JInt 0) sample_store)))) = Some l \<and> lr_state l = Lease_settled"
proof -
  let ?s = "snd (settle (Some 9) Works sample_lease_id (JInt 0) sample_store)"
  have r: "ledger_reachable sample_hash ?s"
    by (rule ledger_reachable.Next [OF sample_store_reachable]) (rule ledger_step.intros)
  have ok: "ledger_ok sample_store" using reachable_ledger_ok sample_store_reachable by blast
  obtain x t where b: "settle_body (seconds_of 9) sample_lease_id (JInt 0) sample_store = Inr (x, t)"
    using settle_body_iff [OF ok, of "seconds_of 9" sample_lease_id "JInt 0"] sample_lease by (auto simp: all_completed_def)
  then have "?s = t" by (simp add: settle_def transaction_def)
  moreover have "\<exists>l. find_lease sample_lease_id t = Some l \<and> lr_state l = Lease_settled"
  proof -
    obtain l where l: "find_lease sample_lease_id sample_store = Some l" using sample_lease by blast
    show ?thesis using b l leases.update_lookup [of sample_lease_id _ sample_store t sample_lease_id]
      by (auto simp: settle_body_def map_sum_def split: if_splits sum.splits)
  qed
  ultimately obtain l where l: "find_lease sample_lease_id ?s = Some l" "lr_state l = Lease_settled" by blast
  have "find_lease sample_lease_id (snd (cancel (Some 11) Works sample_lease_id ''late-cancel'' ?s)) = Some l"
    by (rule settlement_is_final [OF r l]) (rule ledger_step.intros)
  with l show ?thesis by blast
qed

text \<open>
  C36. A provider report above the reservation leaves no trace in the store: the updates that record
  the accounting failure are rolled back by the exception that reports it, so the operation stays
  in flight and unaccounted until a separate call resolves it.
\<close>
theorem accounting_failure_rolled_back:
  assumes "ledger_reachable sha256 s" "find_operation (qo_lease_id op) (qo_sequence op) s = Some r"
    "or_status r = Op_forwarding" "usage_ok op u" "or_reserved r < pu_actual_cost_nusd u"
  shows "complete_operation (Some now) Works op u s
    = (Inl (Store_error ''provider_accounting_exceeded_authorization''), s)"
  using complete_exceeded [OF reachable_ledger_ok [OF assms(1)] assms(2-)] .

lemma sample_begun:
  "\<exists>(op :: quota_operation) r t. ledger_reachable sample_hash t \<and> find_operation (qo_lease_id op) (qo_sequence op) t = Some r
    \<and> or_status r = Op_forwarding \<and> or_reserved r = 2000000 \<and> qo_input_limit op = 1000 \<and> qo_output_limit op = 100"
proof -
  obtain l where l: "find_lease sample_lease_id sample_store = Some l" using sample_lease by blast
  have g: "begin_guard sample_hash (- 5) sample_operation_request (Some l) = None"
    using sample_lease l sample_request_checks(5)
    by (auto simp: begin_guard_def sample_operation_request_def sample_hash_def)
  have q: "request_ok sample_operation_request"
    using sample_request_checks by (simp add: request_ok_def sample_operation_request_def)
  have lq: "find_lease (oq_lease_id sample_operation_request) sample_store = Some l"
    using l by (simp add: sample_operation_request_def)
  obtain op t r where b: "begin_body sample_hash (- 5) sample_operation_request sample_store = Inr (op, t)"
    "qo_input_limit op = oq_input_limit sample_operation_request"
    "qo_output_limit op = oq_output_limit sample_operation_request"
    "find_operation (qo_lease_id op) (qo_sequence op) t = Some r" "or_status r = Op_forwarding"
    "or_reserved r = oq_reserved sample_operation_request"
    using begin_body_ok [OF reachable_ledger_ok [OF sample_store_reachable] lq g q] by auto
  have "snd (begin_operation sample_hash (Some (- 5)) Works sample_operation_request sample_store) = t"
    using b(1) sample_request_checks
    by (simp add: begin_operation_def transaction_def sample_operation_request_def sqlite_max_integer_def)
  then have "ledger_reachable sample_hash t"
    using ledger_reachable.Next [OF sample_store_reachable ledger_step.intros(2)] by metis
  with b show ?thesis by (auto simp: sample_operation_request_def)
qed

theorem accounting_failure_rolled_back_witness:
  "\<exists>op s. complete_operation (Some 7) Works op \<lparr>pu_input_tokens = 5, pu_cached_input_tokens = 0,
      pu_output_tokens = 1, pu_actual_cost_nusd = 2000001, pu_response_id = None\<rparr> s
    = (Inl (Store_error ''provider_accounting_exceeded_authorization''), s)"
proof -
  let ?u = "\<lparr>pu_input_tokens = 5, pu_cached_input_tokens = 0, pu_output_tokens = 1,
      pu_actual_cost_nusd = 2000001, pu_response_id = None\<rparr>"
  obtain op :: quota_operation and r t where b: "ledger_reachable sample_hash t" "find_operation (qo_lease_id op) (qo_sequence op) t = Some r"
    "or_status r = Op_forwarding" "or_reserved r = 2000000" "qo_input_limit op = 1000" "qo_output_limit op = 100"
    using sample_begun by blast
  have "usage_ok op ?u" using b by (simp add: usage_ok_def sqlite_max_integer_def)
  then show ?thesis using accounting_failure_rolled_back [OF b(1,2,3), of ?u 7] b(4) by auto
qed

text \<open>
  No reachable store ever holds an operation with the status \<open>accounting_failed\<close>, although the
  schema and the code provide for it.
\<close>
theorem accounting_failed_never_stored:
  assumes "ledger_reachable sha256 s"
  shows "list_all (\<lambda>r. or_status r \<noteq> Op_accounting_failed) (qs_operations s)"
  using ledgerD(3) [OF reachable_ledger_ok [OF assms]] by (auto simp: operation_ok_def list_all_iff)

theorem accounting_failed_never_stored_witness:
  "list_all (\<lambda>r. or_status r \<noteq> Op_accounting_failed) (qs_operations sample_store)"
  using accounting_failed_never_stored [OF sample_store_reachable] .

end
