(* ===== verification/Quota_Proxy.thy ===== *)
theory Quota_Proxy
  imports Quota_Store
begin

text \<open>
  \<open>openai_quota.py\<close>, the worker side of the proxy: validation of a provider response, one forwarded
  request from authorization to accounting with every error path, and the HTTP status of each
  failure. The provider transport, SHA-256, the clock readings and how the database answers each of the
  three transactions are parameters; a body is given by its decoded document.
\<close>

definition lower_char :: "char \<Rightarrow> char" where
  "lower_char c = (let n = (of_char c :: nat) in
     if (65 \<le> n \<and> n \<le> 90) \<or> (192 \<le> n \<and> n \<le> 222 \<and> n \<noteq> 215) then char_of (n + 32) else c)"

definition lower_text :: "string \<Rightarrow> string" where
  "lower_text = map lower_char"

record upstream_response =
  ur_status :: int
  ur_content_type :: string
  ur_length :: nat
  ur_document :: "json option"

datatype upstream_outcome =
    Transport_returns upstream_response
  | Transport_returns_other_value
  | Transport_raises quota_error

definition validate_upstream_response :: "nat \<Rightarrow> upstream_outcome \<Rightarrow> quota_error + upstream_response" where
  "validate_upstream_response maximum_bytes v = (case v of
       Transport_raises e \<Rightarrow> Inl e
     | Transport_returns_other_value \<Rightarrow> Inl (Upstream_error ''upstream_response_invalid'')
     | Transport_returns r \<Rightarrow>
         if 100 \<le> ur_status r \<and> ur_status r \<le> 599
            \<and> lower_text (strip (takeWhile (\<lambda>c. c \<noteq> CHR '';'') (ur_content_type r))) = ''application/json''
            \<and> list_all (\<lambda>c. \<not> is_control c) (ur_content_type r)
            \<and> 1 \<le> ur_length r \<and> ur_length r \<le> maximum_bytes
         then Inr r else Inl (Upstream_error ''upstream_response_invalid''))"

definition conflict_status :: "string \<Rightarrow> int" where
  "conflict_status code =
     (if code \<in> {''lease_authentication_failed'', ''lease_inactive'', ''lease_expired''} then 401
      else if code = ''cost_limit_exceeded'' then 402
      else if code \<in> {''concurrency_limit_exceeded'', ''operation_limit_exceeded''} then 429
      else 400)"

datatype forward_result =
    Forwarded upstream_response
  | Http_error int string
  | Raises quota_error

definition account_response :: "(nat \<Rightarrow> int option) \<Rightarrow> (nat \<Rightarrow> database) \<Rightarrow> nat \<Rightarrow> authorized_request \<Rightarrow> quota_operation \<Rightarrow>
    upstream_outcome \<Rightarrow> quota_store \<Rightarrow> (quota_error + upstream_response) \<times> quota_store" where
  \<comment> \<open>the body of the \<open>try\<close> after the operation has begun\<close>
  "account_response clock db maximum_bytes auth op outcome s =
     (case validate_upstream_response maximum_bytes outcome of
        Inl e \<Rightarrow> (Inl e, s)
      | Inr r \<Rightarrow>
          if ur_status r \<noteq> 200 then
            (case mark_operation_uncertain (clock 1) (db 1) op ''upstream_non_success'' s of
               (Inl e, s') \<Rightarrow> (Inl e, s')
             | (Inr _, s') \<Rightarrow> (Inl (Upstream_error ''upstream_non_success''), s'))
          else (case usage_accounting (ur_document r) auth of
              Inl e \<Rightarrow> (Inl e, s)
            | Inr u \<Rightarrow> (case complete_operation (clock 1) (db 1) op u s of
                  (Inl e, s') \<Rightarrow> (Inl e, s') | (Inr _, s') \<Rightarrow> (Inr r, s'))))"

definition failure_reason :: "quota_error \<Rightarrow> string \<times> quota_error" where
  \<comment> \<open>the reason recorded, and the error raised, by the matching \<open>except\<close> clause\<close>
  "failure_reason e = (case e of
       Upstream_error _ \<Rightarrow> (''upstream_unavailable'', e)
     | Store_error _ \<Rightarrow> (''provider_accounting_failed'', e)
     | Conflict_error _ \<Rightarrow> (''provider_accounting_failed'', e)
     | Configuration_error _ \<Rightarrow> (''upstream_failed'', Upstream_error ''upstream_failed'')
     | Unexpected_exception \<Rightarrow> (''upstream_failed'', Upstream_error ''upstream_failed''))"

definition resolve_failure :: "(nat \<Rightarrow> int option) \<Rightarrow> (nat \<Rightarrow> database) \<Rightarrow> quota_operation \<Rightarrow> quota_error \<Rightarrow> quota_store \<Rightarrow>
    forward_result \<times> quota_store" where
  "resolve_failure clock db op e s =
     (case mark_operation_uncertain (clock 2) (db 2) op (fst (failure_reason e)) s of
        (Inl e', s') \<Rightarrow> (Raises e', s')
      | (Inr _, s') \<Rightarrow> (Raises (snd (failure_reason e)), s'))"

definition forward_request :: "(string \<Rightarrow> string) \<Rightarrow> (nat \<Rightarrow> int option) \<Rightarrow> (nat \<Rightarrow> database) \<Rightarrow>
    openai_model_pricing list \<Rightarrow> nat \<Rightarrow>
    string \<Rightarrow> string \<Rightarrow> string \<Rightarrow> json option \<Rightarrow> upstream_outcome \<Rightarrow> quota_store \<Rightarrow> forward_result \<times> quota_store" where
  \<comment> \<open>parameters: SHA-256, the clock readings and the answers of the database (begin, accounting, resolution),
     the price list, the
     response limit, the lease id and token headers, the body and its document, the provider\<close>
  "forward_request sha256 clock db models maximum_bytes lid token body document outcome s =
     (case authorize_request models document of
        Inl (Conflict_error c) \<Rightarrow> (Http_error (conflict_status c) c, s)
      | Inl e \<Rightarrow> (Raises e, s)
      | Inr auth \<Rightarrow>
          (case begin_operation sha256 (clock 0) (db 0)
              \<lparr>oq_lease_id = lid, oq_lease_token = token, oq_request_sha256 = sha256 body,
               oq_model = ar_model auth, oq_input_limit = ar_input_token_limit auth,
               oq_output_limit = ar_output_token_limit auth, oq_reserved = ar_maximum_cost_nusd auth\<rparr> s of
             (Inl (Conflict_error c), s1) \<Rightarrow> (Http_error (conflict_status c) c, s1)
           | (Inl e, s1) \<Rightarrow> (Raises e, s1)
           | (Inr op, s1) \<Rightarrow>
               (case account_response clock db maximum_bytes auth op outcome s1 of
                  (Inr r, s2) \<Rightarrow> (Forwarded r, s2)
                | (Inl e, s2) \<Rightarrow> resolve_failure clock db op e s2)))"

definition response_status :: "forward_result \<Rightarrow> int" where
  \<comment> \<open>\<open>__call__\<close>: the HTTP status of each outcome\<close>
  "response_status v = (case v of
       Forwarded r \<Rightarrow> ur_status r
     | Http_error n _ \<Rightarrow> n
     | Raises (Conflict_error _) \<Rightarrow> 409
     | Raises (Upstream_error c) \<Rightarrow> if c = ''upstream_unavailable'' then 504 else 502
     | Raises (Store_error c) \<Rightarrow> if c = ''store_busy'' then 503 else 500
     | Raises (Configuration_error _) \<Rightarrow> 500
     | Raises Unexpected_exception \<Rightarrow> 500)"

subsection \<open>A forwarded request is always accounted\<close>

definition in_flight_rows :: "quota_store \<Rightarrow> operation_row list" where
  "in_flight_rows s = filter (\<lambda>r. or_status r = Op_forwarding) (qs_operations s)"

lemma begin_body_rows:
  assumes "begin_body sha256 now q s = Inr (op, t)"
  shows "\<exists>row. qs_operations t = qs_operations s @ [row]
    \<and> operation_key row = (qo_lease_id op, qo_sequence op) \<and> or_status row = Op_forwarding"
proof -
  obtain row s1 h where r: "insert_operation row s = Inr s1" "update_lease (oq_lease_id q) h s1 = Inr t"
    "operation_key row = (qo_lease_id op, qo_sequence op)" "or_status row = Op_forwarding"
    using assms by (auto simp: begin_body_def Let_def map_sum_def operation_key_def split: option.splits sum.splits)
  then have "qs_operations s1 = qs_operations s @ [row]" by (auto simp: insert_operation_def split: if_splits)
  with r update_lease_frame [OF r(2)] show ?thesis by auto
qed

lemma resolved_rows:
  assumes ok: "ledger_ok s" and f: "find_operation lid n s = Some r"
    and u: "update_operation lid n g s = Inr s1" "update_lease lid h s1 = Inr t" and g: "or_status (g r) \<noteq> Op_forwarding"
    and x: "x \<in> set (in_flight_rows t)"
  shows "x \<in> set (in_flight_rows s) \<and> operation_key x \<noteq> (lid, n)"
proof -
  have "x \<in> set (qs_operations s1)" "or_status x = Op_forwarding"
    using x update_lease_frame [OF u(2)] by (auto simp: in_flight_rows_def)
  then show ?thesis using ops.update_in [of "(lid, n)" g s s1 r x] u f g ledgerD(2) [OF ok]
    by (auto simp: operations_at in_flight_rows_def)
qed

lemma complete_body_rows:
  assumes ok: "ledger_ok s" and c: "complete_body now op u s = Inr (y, t)" and x: "x \<in> set (in_flight_rows t)"
  shows "x \<in> set (in_flight_rows s) \<and> operation_key x \<noteq> (qo_lease_id op, qo_sequence op)"
proof -
  obtain r where r: "find_operation (qo_lease_id op) (qo_sequence op) s = Some r"
    using complete_body_Inr [OF c] by blast
  obtain h s1 where
    "update_operation (qo_lease_id op) (qo_sequence op) (\<lambda>x. (record_usage now u x)\<lparr>or_status := Op_completed\<rparr>) s = Inr s1"
    "update_lease (qo_lease_id op) h s1 = Inr t"
    using c r by (auto simp: complete_body_def Let_def map_sum_def split: sum.splits if_splits)
  from resolved_rows [OF ok r this _ x] show ?thesis by simp
qed

lemma uncertain_body_rows:
  assumes ok: "ledger_ok s" and c: "uncertain_body now op reason s = Inr (y, t)" and x: "x \<in> set (in_flight_rows t)"
  shows "x \<in> set (in_flight_rows s) \<and> operation_key x \<noteq> (qo_lease_id op, qo_sequence op)"
proof -
  obtain r where r: "find_operation (qo_lease_id op) (qo_sequence op) s = Some r"
    using c by (auto simp: uncertain_body_def Let_def split: option.splits)
  show ?thesis
  proof (cases "or_status r = Op_forwarding")
    case False
    then have "t = s" using c r by (simp add: uncertain_body_def Let_def)
    moreover have "operation_key x \<noteq> (qo_lease_id op, qo_sequence op)"
      using ops.same_row [of s "(qo_lease_id op, qo_sequence op)" r x] ledgerD(2) [OF ok] r x \<open>t = s\<close> False
      by (auto simp: operations_at in_flight_rows_def)
    ultimately show ?thesis using x by simp
  next
    case True
    obtain h s1 where
      "update_operation (qo_lease_id op) (qo_sequence op) (\<lambda>x. x\<lparr>or_status := Op_uncertain,
                    or_finished_at := Some now, or_failure := Some reason\<rparr>) s = Inr s1"
      "update_lease (qo_lease_id op) h s1 = Inr t"
      using c r True by (auto simp: uncertain_body_def Let_def map_sum_def split: sum.splits if_splits)
    from resolved_rows [OF ok r this _ x] show ?thesis by simp
  qed
qed

lemma reason_codes_ok: "reason_code_ok ''upstream_non_success''" "reason_code_ok (fst (failure_reason e))"
proof -
  have "reason_code_ok c" if "c \<in> {''upstream_non_success'', ''upstream_unavailable'',
    ''provider_accounting_failed'', ''upstream_failed''}" for c
    using that by (auto simp: reason_code_ok_def safe_text_def strip_def is_space_def is_control_def
      safe_id_pattern_def head_tail_match_def is_alnum_def is_lower_def is_upper_def is_digit_def)
  then show "reason_code_ok ''upstream_non_success''" "reason_code_ok (fst (failure_reason e))"
    by (simp_all add: failure_reason_def split: quota_error.split)
qed

lemma transaction_Inl: "transaction db body s = (Inl e, t) \<Longrightarrow> t = s"
  by (auto simp: transaction_def split: database.splits sum.splits)

lemma transaction_Inr: "transaction db body s = (Inr x, t) \<longleftrightarrow> db = Works \<and> body s = Inr (x, t)"
  by (auto simp: transaction_def split: database.splits sum.splits)

lemma begin_Inr:
  "begin_operation sha256 clock db q s = (Inr op, t) \<Longrightarrow> \<exists>now. clock = Some now \<and> db = Works
     \<and> begin_body sha256 now q s = Inr (op, t)"
  by (auto simp: begin_operation_def transaction_Inr split: if_splits option.splits)

lemma begin_Inl: "begin_operation sha256 clock db q s = (Inl e, t) \<Longrightarrow> t = s"
  by (auto simp: begin_operation_def dest: transaction_Inl split: if_splits option.splits)

lemma complete_Inr:
  "complete_operation clock db op u s = (Inr x, t) \<Longrightarrow> \<exists>now. usage_ok op u \<and> clock = Some now \<and> db = Works
     \<and> complete_body (seconds_of now) op u s = Inr (x, t)"
  by (auto simp: complete_operation_def transaction_Inr split: if_splits option.splits)

lemma complete_Inl: "complete_operation clock db op u s = (Inl e, t) \<Longrightarrow> t = s"
  by (auto simp: complete_operation_def dest: transaction_Inl split: if_splits option.splits)

lemma mark_Inl: "mark_operation_uncertain clock db op reason s = (Inl e, t) \<Longrightarrow> t = s"
  by (auto simp: mark_operation_uncertain_def dest: transaction_Inl split: if_splits option.splits)

lemma mark_Inr:
  "mark_operation_uncertain clock db op reason s = (Inr x, t) \<Longrightarrow> \<exists>now. clock = Some now \<and> db = Works"
  by (auto simp: mark_operation_uncertain_def transaction_Inr split: if_splits option.splits)

lemma mark_runs:
  assumes ok: "ledger_ok s" and f: "find_operation (qo_lease_id op) (qo_sequence op) s = Some r"
    and c: "clock = Some now" "db = Works" and reason: "reason_code_ok reason"
  shows "\<exists>t r'. mark_operation_uncertain clock db op reason s = (Inr (), t) \<and> ledger_ok t
    \<and> find_operation (qo_lease_id op) (qo_sequence op) t = Some r'
    \<and> (\<forall>x \<in> set (in_flight_rows t). x \<in> set (in_flight_rows s)
         \<and> operation_key x \<noteq> (qo_lease_id op, qo_sequence op))"
proof -
  obtain t r' where t: "uncertain_body (seconds_of now) op reason s = Inr ((), t)"
    "find_operation (qo_lease_id op) (qo_sequence op) t = Some r'"
  proof (cases "or_status r = Op_forwarding")
    case True
    then show ?thesis using uncertain_body_run [OF ok f True, of "seconds_of now" reason] that by blast
  next
    case False
    then show ?thesis using f that by (simp add: uncertain_body_def Let_def)
  qed
  have m: "mark_operation_uncertain clock db op reason s = (Inr (), t)"
    using t reason c by (simp add: mark_operation_uncertain_def transaction_def)
  moreover have "ledger_ok t" using uncertain_ok [OF ok, of clock db op reason] m by simp
  moreover have "\<forall>x \<in> set (in_flight_rows t). x \<in> set (in_flight_rows s)
         \<and> operation_key x \<noteq> (qo_lease_id op, qo_sequence op)"
    using uncertain_body_rows [OF ok t(1)] by blast
  ultimately show ?thesis using t by blast
qed

definition begun :: "quota_operation \<Rightarrow> quota_store \<Rightarrow> quota_store \<Rightarrow> bool" where
  "begun op s s' \<longleftrightarrow> ledger_ok s' \<and> find_operation (qo_lease_id op) (qo_sequence op) s' \<noteq> None
     \<and> (\<forall>x \<in> set (in_flight_rows s'). operation_key x \<noteq> (qo_lease_id op, qo_sequence op)
          \<longrightarrow> x \<in> set (in_flight_rows s))"

lemma begin_begun:
  assumes ok: "ledger_ok s" and b: "begin_operation sha256 clock db q s = (Inr op, s1)"
  shows "begun op s s1"
proof -
  obtain now where "begin_body sha256 now q s = Inr (op, s1)"
    using begin_Inr [OF b] by blast
  then obtain row where r: "qs_operations s1 = qs_operations s @ [row]"
    "operation_key row = (qo_lease_id op, qo_sequence op)" "or_status row = Op_forwarding"
    using begin_body_rows by blast
  have "find_operation_at (operation_key row) s1 \<noteq> None"
    using r(1) ops.lookup_None [of "operation_key row" s1] by simp
  then have "find_operation (qo_lease_id op) (qo_sequence op) s1 \<noteq> None"
    by (simp add: r(2) operations_at)
  moreover have "ledger_ok s1" using begin_ok [OF ok, of sha256 clock db q] b by simp
  ultimately show ?thesis using r by (auto simp: begun_def in_flight_rows_def)
qed

lemma account_response_cases:
  assumes b: "begun op s s1"
    and a: "account_response clock db maximum_bytes auth op outcome s1 = (v, s2)"
  shows "(case v of Inr r \<Rightarrow> set (in_flight_rows s2) \<subseteq> set (in_flight_rows s) | Inl e \<Rightarrow> begun op s s2)"
proof -
  have ok: "ledger_ok s1" using b by (simp add: begun_def)
  obtain r where r: "find_operation (qo_lease_id op) (qo_sequence op) s1 = Some r" using b by (auto simp: begun_def)
  show ?thesis
  proof (cases "validate_upstream_response maximum_bytes outcome")
    case (Inl e)
    then have "v = Inl e" "s2 = s1" using a by (simp_all add: account_response_def)
    then show ?thesis using b by simp
  next
    case (Inr resp)
    obtain m s' where m: "mark_operation_uncertain (clock 1) (db 1) op ''upstream_non_success'' s1 = (m, s')"
      by (metis surj_pair)
    define w s'' where "w = (\<lambda>u. fst (complete_operation (clock 1) (db 1) op u s1))"
      and "s'' = (\<lambda>u. snd (complete_operation (clock 1) (db 1) op u s1))"
    then have w: "complete_operation (clock 1) (db 1) op u s1 = (w u, s'' u)" for u by simp
    consider (mark_fails) e where "ur_status resp \<noteq> 200" "m = Inl e"
      | (marked) "ur_status resp \<noteq> 200" "m = Inr ()"
      | (no_usage) e where "ur_status resp = 200" "usage_accounting (ur_document resp) auth = Inl e"
      | (refused) u e where "ur_status resp = 200" "usage_accounting (ur_document resp) auth = Inr u" "w u = Inl e"
      | (completed) u where "ur_status resp = 200" "usage_accounting (ur_document resp) auth = Inr u" "w u = Inr ()"
      by (cases m; cases "ur_status resp = 200"; cases "usage_accounting (ur_document resp) auth")
        (metis sum.exhaust old.unit.exhaust)+
    then show ?thesis
    proof cases
      case mark_fails
      then have "s' = s1" using mark_Inl m by metis
      then have "v = Inl e" "s2 = s1" using a Inr m mark_fails by (simp_all add: account_response_def)
      then show ?thesis using b by simp
    next
      case marked
      then obtain now where "clock 1 = Some now" "db 1 = Works" using mark_Inr m by metis
      from mark_runs [OF ok r this reason_codes_ok(1)] m marked a b Inr show ?thesis
        by (auto simp: account_response_def begun_def)
    next
      case no_usage
      then have "v = Inl e" "s2 = s1" using a Inr by (simp_all add: account_response_def)
      then show ?thesis using b by simp
    next
      case refused
      then have "s'' u = s1" using complete_Inl w [of u] by metis
      then have "v = Inl e" "s2 = s1" using a Inr w [of u] refused by (simp_all add: account_response_def)
      then show ?thesis using b by simp
    next
      case completed
      then obtain now where "complete_body now op u s1 = Inr ((), s'' u)" using complete_Inr w [of u] by metis
      from complete_body_rows [OF ok this] b have "set (in_flight_rows (s'' u)) \<subseteq> set (in_flight_rows s)"
        by (auto simp: begun_def)
      moreover have "v = Inr resp" "s2 = s'' u" using a Inr w [of u] completed by (simp_all add: account_response_def)
      ultimately show ?thesis by simp
    qed
  qed
qed

lemma forward_in_flight:
  assumes ok: "ledger_ok s"
    and f: "forward_request sha256 clock db models maximum_bytes lid token body doc outcome s = (v, t)"
  shows "set (in_flight_rows t) \<subseteq> set (in_flight_rows s)
    \<or> ((clock 2 = None \<or> db 2 \<noteq> Works) \<and> (\<exists>e. v = Raises e)
       \<and> (\<exists>k. \<forall>x \<in> set (in_flight_rows t) - set (in_flight_rows s). operation_key x = k))"
proof (cases "authorize_request models doc")
  case (Inl e)
  then show ?thesis using f by (cases e) (simp_all add: forward_request_def)
next
  case (Inr auth)
  let ?q = "\<lparr>oq_lease_id = lid, oq_lease_token = token, oq_request_sha256 = sha256 body,
               oq_model = ar_model auth, oq_input_limit = ar_input_token_limit auth,
               oq_output_limit = ar_output_token_limit auth, oq_reserved = ar_maximum_cost_nusd auth\<rparr>"
  obtain w s1 where w: "begin_operation sha256 (clock 0) (db 0) ?q s = (w, s1)" by (metis surj_pair)
  show ?thesis
  proof (cases w)
    case (Inl e)
    then show ?thesis using begin_Inl [of sha256 "clock 0" "db 0" ?q s e s1] w f Inr
      by (cases e) (simp_all add: forward_request_def)
  next
    case op: (Inr op)
    have b: "begun op s s1" using begin_begun [OF ok] w op by blast
    obtain y s2 where y: "account_response clock db maximum_bytes auth op outcome s1 = (y, s2)" by (metis surj_pair)
    show ?thesis
    proof (cases y)
      case fin: (Inr r)
      then show ?thesis using account_response_cases [OF b y] w op Inr y f by (simp add: forward_request_def)
    next
      case (Inl e)
      then have b2: "begun op s s2" using account_response_cases [OF b y] by simp
      obtain m u where m: "mark_operation_uncertain (clock 2) (db 2) op (fst (failure_reason e)) s2 = (m, u)"
        by (metis surj_pair)
      have res: "t = u" "v = (case m of Inl e' \<Rightarrow> Raises e' | Inr _ \<Rightarrow> Raises (snd (failure_reason e)))"
        using f w op Inr y Inl m by (simp_all add: forward_request_def resolve_failure_def split: sum.splits)
      obtain r where s2: "ledger_ok s2" "find_operation (qo_lease_id op) (qo_sequence op) s2 = Some r"
        using b2 by (auto simp: begun_def)
      show ?thesis
      proof (cases "\<exists>now. clock 2 = Some now \<and> db 2 = Works")
        case True
        with mark_runs [OF s2 _ _ reason_codes_ok(2) [of e]] m b2 show ?thesis by (force simp: res(1) begun_def)
      next
        case False
        then obtain e' where "m = Inl e'" using mark_Inr m by (cases m) blast+
        with m mark_Inl have "t = s2" "v = Raises e'" by (auto simp: res)
        with b2 False show ?thesis by (auto simp: begun_def)
      qed
    qed
  qed
qed

subsection \<open>Properties\<close>

text \<open>
  C21. A forwarded request resolves its operation. Whatever the request, the credential, the provider's answer or
  failure, the accounting outcome, the clock and the database: when the handler returns or raises, every
  operation in flight was in flight before, unless the clock or the database fails the last write, the one that resolves
  a failed request. Then the handler raises that failure, and at most the one operation it began stays in flight.
\<close>
theorem forward_resolves_its_operation:
  assumes "ledger_reachable sha256 s"
    and "forward_request sha256 clock db models maximum_bytes lid token body doc outcome s = (v, t)"
  shows "set (in_flight_rows t) \<subseteq> set (in_flight_rows s)
    \<or> ((clock 2 = None \<or> db 2 \<noteq> Works) \<and> (\<exists>e. v = Raises e)
       \<and> (\<exists>k. \<forall>x \<in> set (in_flight_rows t) - set (in_flight_rows s). operation_key x = k))"
  using forward_in_flight [OF reachable_ledger_ok [OF assms(1)] assms(2)] .

theorem forward_resolves_its_operation_witness:
  "set (in_flight_rows (snd (forward_request sample_hash (\<lambda>_. Some 3) (\<lambda>_. Works) [sample_pricing] 1000 sample_lease_id
      (replicate 43 CHR ''t'') ''body'' (Some sample_request) Transport_returns_other_value sample_store)))
    \<subseteq> set (in_flight_rows sample_store)"
  using forward_resolves_its_operation [OF sample_store_reachable surjective_pairing,
      of "\<lambda>_. Some 3" "\<lambda>_. Works"] by auto


lemma begin_body_inserts:
  assumes "begin_body sha256 now q s = Inr (op, t)"
  shows "qo_lease_id op = oq_lease_id q \<and> find_operation (oq_lease_id q) (qo_sequence op) s = None
    \<and> (\<exists>row. find_operation (oq_lease_id q) (qo_sequence op) t = Some row \<and> or_reserved row = oq_reserved q)"
proof -
  obtain row s1 h where r: "insert_operation row s = Inr s1" "update_lease (oq_lease_id q) h s1 = Inr t"
    and op: "qo_lease_id op = oq_lease_id q" "or_lease_id row = oq_lease_id q" "or_sequence row = qo_sequence op"
      "or_reserved row = oq_reserved q"
    using assms by (auto simp: begin_body_def Let_def map_sum_def split: option.splits sum.splits)
  have none: "find_operation (oq_lease_id q) (qo_sequence op) s = None" and rows: "qs_operations s1 = qs_operations s @ [row]"
    using r(1) op by (auto simp: insert_operation_def split: if_splits)
  have last: "find P xs = None \<Longrightarrow> P x \<Longrightarrow> find P (xs @ [x]) = Some x" for P and x :: operation_row and xs
    by (induction xs) (auto split: if_splits)
  have "find_operation (oq_lease_id q) (qo_sequence op) t = Some row"
    using last [OF none [unfolded find_operation_def]] update_lease_frame [OF r(2)] rows op by (simp add: find_operation_def)
  with op none show ?thesis by blast
qed

definition accounted_row :: "provider_usage \<Rightarrow> operation_row \<Rightarrow> bool" where
  \<comment> \<open>the ledger row of a completed operation carries the usage report\<close>
  "accounted_row u row \<longleftrightarrow> or_status row = Op_completed \<and> or_actual row = Some (pu_actual_cost_nusd u)
     \<and> or_input_tokens row = Some (pu_input_tokens u) \<and> or_cached_tokens row = Some (pu_cached_input_tokens u)
     \<and> or_output_tokens row = Some (pu_output_tokens u) \<and> or_response_id row = pu_response_id u
     \<and> pu_actual_cost_nusd u \<le> or_reserved row"

lemma complete_body_records:
  assumes c: "complete_body now op u s = Inr (x, t)"
  shows "\<exists>r row. find_operation (qo_lease_id op) (qo_sequence op) s = Some r \<and> or_reserved row = or_reserved r
    \<and> find_operation (qo_lease_id op) (qo_sequence op) t = Some row \<and> accounted_row u row"
proof -
  let ?lid = "qo_lease_id op" and ?n = "qo_sequence op"
  let ?g = "\<lambda>x. (record_usage now u x)\<lparr>or_status := Op_completed\<rparr>"
  obtain r where r: "find_operation ?lid ?n s = Some r" "pu_actual_cost_nusd u \<le> or_reserved r"
    using complete_body_Inr [OF c] by blast
  obtain h s1 where u: "update_operation ?lid ?n ?g s = Inr s1" "update_lease ?lid h s1 = Inr t"
    using c r by (auto simp: complete_body_def Let_def map_sum_def split: sum.splits if_splits)
  have "find_operation ?lid ?n s1 = Some (?g r)"
    using ops.update_lookup [of "(?lid, ?n)" ?g s s1 "(?lid, ?n)"] u(1) r(1)
    by (simp add: operations_at operation_key_def record_usage_def)
  then have "find_operation ?lid ?n t = Some (?g r)" using update_lease_frame [OF u(2)] by (simp add: find_operation_def)
  with r show ?thesis by (auto simp: accounted_row_def record_usage_def)
qed

lemma account_response_Inr:
  assumes "account_response clock db maximum_bytes auth op outcome s1 = (Inr r, t)"
  shows "ur_status r = 200 \<and> outcome = Transport_returns r
    \<and> (\<exists>u. usage_accounting (ur_document r) auth = Inr u \<and> complete_operation (clock 1) (db 1) op u s1 = (Inr (), t))"
proof -
  obtain resp where v: "validate_upstream_response maximum_bytes outcome = Inr resp"
    using assms by (auto simp: account_response_def split: sum.splits)
  then have o: "outcome = Transport_returns resp"
    by (auto simp: validate_upstream_response_def split: upstream_outcome.splits if_splits)
  have st: "ur_status resp = 200" using assms v by (auto simp: account_response_def split: if_splits prod.splits sum.splits)
  with assms v show ?thesis by (auto simp: account_response_def o split: sum.splits prod.splits)
qed

lemma forwarded_completed:
  assumes "forward_request sha256 clock db models maximum_bytes lid token body doc outcome s = (Forwarded r, t)"
  shows "ur_status r = 200 \<and> outcome = Transport_returns r
    \<and> (\<exists>auth u n row. authorize_request models doc = Inr auth \<and> usage_accounting (ur_document r) auth = Inr u
         \<and> find_operation lid n s = None \<and> find_operation lid n t = Some row
         \<and> accounted_row u row \<and> or_reserved row = ar_maximum_cost_nusd auth)"
proof -
  obtain auth where a: "authorize_request models doc = Inr auth"
    using assms by (auto simp: forward_request_def split: sum.splits quota_error.splits)
  let ?q = "\<lparr>oq_lease_id = lid, oq_lease_token = token, oq_request_sha256 = sha256 body,
               oq_model = ar_model auth, oq_input_limit = ar_input_token_limit auth,
               oq_output_limit = ar_output_token_limit auth, oq_reserved = ar_maximum_cost_nusd auth\<rparr>"
  obtain op s1 where b: "begin_operation sha256 (clock 0) (db 0) ?q s = (Inr op, s1)"
    and y: "account_response clock db maximum_bytes auth op outcome s1 = (Inr r, t)"
    using assms a by (auto simp: forward_request_def resolve_failure_def split: sum.splits quota_error.splits prod.splits)
  obtain now where "begin_body sha256 now ?q s = Inr (op, s1)" using begin_Inr [OF b] by blast
  from begin_body_inserts [OF this] obtain r0 where begun: "qo_lease_id op = lid" "find_operation lid (qo_sequence op) s = None"
    "find_operation lid (qo_sequence op) s1 = Some r0" "or_reserved r0 = ar_maximum_cost_nusd auth" by auto
  obtain u where u: "usage_accounting (ur_document r) auth = Inr u" "complete_operation (clock 1) (db 1) op u s1 = (Inr (), t)"
    using account_response_Inr [OF y] by blast
  obtain now' where "complete_body now' op u s1 = Inr ((), t)" using complete_Inr [OF u(2)] by blast
  from complete_body_records [OF this] begun obtain row where "find_operation lid (qo_sequence op) t = Some row"
    "accounted_row u row" "or_reserved row = ar_maximum_cost_nusd auth" by auto
  with a u(1) begun(2) account_response_Inr [OF y] show ?thesis by blast
qed

text \<open>
  C37. Nothing is passed on to the worker without accounting: a forwarded response is the provider's, has status 200,
  its usage report was accepted for the authorized request, and the ledger holds a new, completed operation of the
  lease that records exactly that usage and cost, reserved at the request's maximum cost and within it.
\<close>
theorem forwarded_only_when_accounted:
  assumes "forward_request sha256 clock db models maximum_bytes lid token body doc outcome s = (Forwarded r, t)"
  shows "ur_status r = 200 \<and> outcome = Transport_returns r
    \<and> (\<exists>auth u n row. authorize_request models doc = Inr auth \<and> usage_accounting (ur_document r) auth = Inr u
         \<and> find_operation lid n s = None \<and> find_operation lid n t = Some row
         \<and> accounted_row u row \<and> or_reserved row = ar_maximum_cost_nusd auth)"
  using assms by (rule forwarded_completed)

definition sample_upstream :: upstream_response where
  "sample_upstream = \<lparr>ur_status = 200, ur_content_type = ''application/json'', ur_length = 100,
     ur_document = Some sample_response\<rparr>"

lemma sample_forward:
  "\<exists>t. forward_request sample_hash (\<lambda>_. Some (- 5)) (\<lambda>_. Works) [sample_pricing] 1000 sample_lease_id
      (replicate 43 CHR ''t'') ''body'' (Some sample_request) (Transport_returns sample_upstream) sample_store
    = (Forwarded sample_upstream, t)"
proof -
  let ?q = "\<lparr>oq_lease_id = sample_lease_id, oq_lease_token = replicate 43 CHR ''t'', oq_request_sha256 = sample_hash ''body'',
               oq_model = ar_model sample_authorized, oq_input_limit = ar_input_token_limit sample_authorized,
               oq_output_limit = ar_output_token_limit sample_authorized,
               oq_reserved = ar_maximum_cost_nusd sample_authorized\<rparr>"
  let ?u = "\<lparr>pu_input_tokens = 50, pu_cached_input_tokens = 20, pu_output_tokens = 7, pu_actual_cost_nusd = 110000,
      pu_response_id = Some ''r-1''\<rparr>"
  obtain l where l: "find_lease sample_lease_id sample_store = Some l" using sample_lease by blast
  have hex: "list_all is_hex (sample_hash ''body'')" "length (sample_hash ''body'') = 64"
    by (simp_all add: sample_hash_def list_all_iff is_hex_def is_digit_def)
  have g: "begin_guard sample_hash (- 5) ?q (Some l) = None"
    using sample_lease l sample_request_checks(5)
    by (auto simp: begin_guard_def sample_hash_def sample_authorized_def)
  have q: "request_ok ?q" using sample_request_checks hex by (simp add: request_ok_def sample_authorized_def)
  have lq: "find_lease (oq_lease_id ?q) sample_store = Some l" using l by simp
  from begin_body_ok [OF reachable_ledger_ok [OF sample_store_reachable] lq g q] obtain op s1 r where
    b: "begin_body sample_hash (- 5) ?q sample_store = Inr (op, s1)" "ledger_ok s1"
      "qo_input_limit op = 1000" "qo_output_limit op = 100"
      "find_operation (qo_lease_id op) (qo_sequence op) s1 = Some r" "or_status r = Op_forwarding" "or_reserved r = 2250000"
    by (auto simp: sample_authorized_def)
  have begun: "begin_operation sample_hash (Some (- 5)) Works ?q sample_store = (Inr op, s1)"
    using b(1) sample_request_checks hex
    by (simp add: begin_operation_def transaction_def sqlite_max_integer_def sample_authorized_def)
  have ok: "usage_ok op ?u"
    using b by (simp add: usage_ok_def sqlite_max_integer_def response_id_ok_def is_control_def)
  obtain t where "complete_body (seconds_of (- 5)) op ?u s1 = Inr ((), t)"
    using complete_body_run [OF b(2,5,6) ok] b(7) by auto
  then have complete: "complete_operation (Some (- 5)) Works op ?u s1 = (Inr (), t)"
    using ok by (simp add: complete_operation_def transaction_def)
  have valid: "validate_upstream_response 1000 (Transport_returns sample_upstream) = Inr sample_upstream"
    by (simp add: validate_upstream_response_def sample_upstream_def lower_text_def lower_char_def strip_def is_space_def
        is_control_def)
  have usage: "usage_accounting (ur_document sample_upstream) sample_authorized = Inr ?u"
    by (simp add: sample_upstream_def usage_accounting_def usage_tokens_def response_id_def sample_response_def
        sample_authorized_def has_key_def response_id_ok_def is_control_def actual_cost_nusd_def quota_cost_def sample_pricing_def)
  show ?thesis
    by (rule exI [of _ t])
      (simp add: forward_request_def sample_authorized begun account_response_def valid usage complete,
        simp add: sample_upstream_def)
qed

theorem forwarded_only_when_accounted_witness:
  "\<exists>t u n row. forward_request sample_hash (\<lambda>_. Some (- 5)) (\<lambda>_. Works) [sample_pricing] 1000 sample_lease_id
      (replicate 43 CHR ''t'') ''body'' (Some sample_request) (Transport_returns sample_upstream) sample_store
    = (Forwarded sample_upstream, t) \<and> find_operation sample_lease_id n t = Some row \<and> accounted_row u row
    \<and> or_reserved row = 2250000"
proof -
  obtain t where f: "forward_request sample_hash (\<lambda>_. Some (- 5)) (\<lambda>_. Works) [sample_pricing] 1000 sample_lease_id
      (replicate 43 CHR ''t'') ''body'' (Some sample_request) (Transport_returns sample_upstream) sample_store
    = (Forwarded sample_upstream, t)" using sample_forward by blast
  from forwarded_only_when_accounted [OF f] show ?thesis
  proof (elim conjE exE)
    fix auth u n row
    assume "authorize_request [sample_pricing] (Some sample_request) = Inr auth" "accounted_row u row"
      "find_operation sample_lease_id n t = Some row" "or_reserved row = ar_maximum_cost_nusd auth"
    with f sample_authorized show ?thesis by (intro exI conjI) (auto simp: sample_authorized_def)
  qed
qed

end
