(* ===== verification/Fail_Fast.thy ===== *)
theory Fail_Fast
  imports Json Constants Py_Datetime Models
begin

text \<open>
  Parsers that stop at the first error, as the boundary documents of \<open>canary.py\<close> and
  \<open>azure_devops.py\<close> are read: a step either raises or hands its value to the rest. The locale
  \<open>codec\<close> is the contract of a parser and a renderer of one item; lists of items inherit it.
\<close>

named_theorems strict_iff
  \<comment> \<open>when a fail-fast parser accepts, and with which value\<close>

subsection \<open>Sequencing\<close>

definition attempt :: "'e + 'a \<Rightarrow> ('a \<Rightarrow> 'e + 'b) \<Rightarrow> 'e + 'b" where
  "attempt m f = (case m of Inl e \<Rightarrow> Inl e | Inr x \<Rightarrow> f x)"

definition ensure :: "bool \<Rightarrow> 'e \<Rightarrow> 'e + unit" where
  \<comment> \<open>\<open>if not c: raise e\<close>\<close>
  "ensure c e = (if c then Inr () else Inl e)"

fun each :: "(nat \<Rightarrow> 'a \<Rightarrow> 'e + 'b) \<Rightarrow> nat \<Rightarrow> 'a list \<Rightarrow> 'e + 'b list" where
  \<comment> \<open>the loop over \<open>enumerate(values)\<close>\<close>
  "each f i [] = Inr []"
| "each f i (x # xs) = attempt (f i x) (\<lambda>y. attempt (each f (Suc i) xs) (\<lambda>ys. Inr (y # ys)))"

lemma attempt_simps [simp]: "attempt (Inl e) f = Inl e" "attempt (Inr x) f = f x"
  by (simp_all add: attempt_def)

lemma ensure_True [simp]: "ensure True e = Inr ()"
  by (simp add: ensure_def)

lemma attempt_Inr [strict_iff]: "attempt m f = Inr y \<longleftrightarrow> (\<exists>x. m = Inr x \<and> f x = Inr y)"
  by (cases m) simp_all

lemma ensure_Inr [strict_iff]: "ensure c e = Inr u \<longleftrightarrow> c"
  by (simp add: ensure_def)

lemma each_length: "each f i xs = Inr ys \<Longrightarrow> length ys = length xs"
  by (induction f i xs arbitrary: ys rule: each.induct) (auto simp: strict_iff)

lemma each_map_Inr:
  "(\<And>j x. x \<in> set xs \<Longrightarrow> f j (g x) = Inr (h x)) \<Longrightarrow> each f i (map g xs) = Inr (map h xs)"
  by (induction xs arbitrary: i) simp_all

lemma each_all:
  "each f i xs = Inr ys \<Longrightarrow> (\<And>j x y. f j x = Inr y \<Longrightarrow> P y) \<Longrightarrow> list_all P ys"
  by (induction f i xs arbitrary: ys rule: each.induct) (auto simp: strict_iff)

subsection \<open>A parser and renderer of items\<close>

locale codec =
  fixes parse :: "nat \<Rightarrow> json \<Rightarrow> 'e + 'a" and render :: "'a \<Rightarrow> json" and ok :: "'a \<Rightarrow> bool"
  assumes parse_render: "ok x \<Longrightarrow> parse i (render x) = Inr x"
    and parse_ok: "parse i v = Inr x \<Longrightarrow> ok x"
begin

lemma roundtrip: "parse i (render x) = Inr x \<longleftrightarrow> ok x"
  using parse_render parse_ok by blast

lemma each_render: "list_all ok xs \<Longrightarrow> each parse i (map render xs) = Inr xs"
  using each_map_Inr [of xs parse render id i] parse_render by (simp add: list_all_iff)

lemma each_ok: "each parse i vs = Inr xs \<Longrightarrow> list_all ok xs"
  using each_all [where P = ok] parse_ok by blast

lemma each_roundtrip: "each parse i (map render xs) = Inr xs \<longleftrightarrow> list_all ok xs"
  using each_render each_ok by blast

end

locale exact_codec = codec +
  assumes parse_render_exact: "parse i (render x) = Inr y \<Longrightarrow> y = x"
begin

lemma parse_render_Inr: "parse i (render x) = Inr y \<longleftrightarrow> y = x \<and> ok x"
  using parse_render parse_ok parse_render_exact by blast

end

subsection \<open>Text formats\<close>

fun template_match :: "string \<Rightarrow> string \<Rightarrow> bool" where
  \<comment> \<open>a fixed-length pattern; \<open>0\<close> stands for a digit, any other character for itself\<close>
  "template_match [] [] = True"
| "template_match (t # ts) (c # cs) =
     ((if t = CHR ''0'' then is_digit c else c = t) \<and> template_match ts cs)"
| "template_match _ _ = False"

definition utc_timestamp_shape :: "string \<Rightarrow> bool" where
  "utc_timestamp_shape = template_match ''0000-00-00T00:00:00Z''"

definition safe_id_ok :: "string \<Rightarrow> bool" where
  "safe_id_ok = head_tail_match is_alnum (\<lambda>c. is_alnum c \<or> c \<in> set ''._-'') 2 127"

definition sha256_ok :: "string \<Rightarrow> bool" where
  "sha256_ok s \<longleftrightarrow> length s = 64 \<and> list_all (\<lambda>c. is_digit c \<or> c \<in> set ''abcdef'') s"

definition timestamp_value :: "string \<Rightarrow> int" where
  \<comment> \<open>the instant of a timestamp text, only taken of texts that were checked before\<close>
  "timestamp_value s = (case fromisoformat (zulu_to_offset s) of
      Some t \<Rightarrow> utc_microseconds t | None \<Rightarrow> 0)"

definition utc_timestamp_ok :: "string \<Rightarrow> bool" where
  "utc_timestamp_ok s \<longleftrightarrow> utc_timestamp_shape s
     \<and> (case fromisoformat (zulu_to_offset s) of None \<Rightarrow> False | Some t \<Rightarrow> dt_offset t = Some 0)"

lemma template_match_length: "template_match t s \<Longrightarrow> length s = length t"
  by (induction t s rule: template_match.induct) auto

subsection \<open>Loops that refuse a repeated key\<close>

fun each_new :: "('b \<Rightarrow> 'k) \<Rightarrow> ('k list \<Rightarrow> nat \<Rightarrow> 'a \<Rightarrow> 'e + 'b) \<Rightarrow> 'k list \<Rightarrow> nat \<Rightarrow> 'a list \<Rightarrow> 'e + 'b list" where
  \<comment> \<open>a loop whose step raises when the key of the item was seen before\<close>
  "each_new key f seen i [] = Inr []"
| "each_new key f seen i (x # xs) =
     attempt (f seen i x) (\<lambda>y. attempt (each_new key f (key y # seen) (Suc i) xs) (\<lambda>ys. Inr (y # ys)))"

locale keyed_codec =
  fixes parse :: "'k list \<Rightarrow> nat \<Rightarrow> json \<Rightarrow> 'e + 'a" and render :: "'a \<Rightarrow> json"
    and ok :: "'a \<Rightarrow> bool" and key :: "'a \<Rightarrow> 'k"
  assumes keyed_parse_render: "ok x \<Longrightarrow> key x \<notin> set seen \<Longrightarrow> parse seen i (render x) = Inr x"
    and keyed_parse_ok: "parse seen i v = Inr x \<Longrightarrow> ok x \<and> key x \<notin> set seen"
begin

lemma each_new_render:
  "list_all ok xs \<Longrightarrow> distinct (map key xs) \<Longrightarrow> key ` set xs \<inter> set seen = {} \<Longrightarrow>
    each_new key parse seen i (map render xs) = Inr xs"
  by (induction xs arbitrary: seen i) (auto simp: keyed_parse_render)

lemma each_new_ok:
  "each_new key parse seen i vs = Inr xs \<Longrightarrow>
    list_all ok xs \<and> distinct (map key xs) \<and> key ` set xs \<inter> set seen = {} \<and> length xs = length vs"
proof (induction vs arbitrary: seen i xs)
  case (Cons v vs)
  from Cons.prems obtain y ys where y: "parse seen i v = Inr y"
    and ys: "each_new key parse (key y # seen) (Suc i) vs = Inr ys" and xs: "xs = y # ys"
    by (auto simp: attempt_Inr)
  show ?case using Cons.IH [OF ys] keyed_parse_ok [OF y] xs by auto
qed simp

lemma each_new_roundtrip:
  "each_new key parse [] i (map render xs) = Inr xs \<longleftrightarrow> list_all ok xs \<and> distinct (map key xs)"
  using each_new_render [of xs "[]"] each_new_ok [of "[]"] by auto

end

definition exact_keys :: "string list \<Rightarrow> dict \<Rightarrow> bool" where
  "exact_keys keys obj \<longleftrightarrow> set keys = set (map fst obj)"

lemma sorted_nothing [simp]: "sort xs = [] \<longleftrightarrow> xs = []"
  by (metis set_empty set_sort)

subsection \<open>Bounded JSON bytes\<close>

text \<open>
  What the sources take from the standard library as a whole is a parameter: UTF-8 decoding,
  \<open>json.loads\<close> with the hooks of \<open>io.py\<close>, \<open>json.dumps\<close> in canonical form, SHA-256 as lowercase
  hex, and the quantile of the standard normal distribution.
\<close>

datatype loads_failure =
    Hook_failed input_document_error
  | Json_decode_error nat nat string
  | Loads_failed string

record library =
  lib_decode_utf8 :: "string \<Rightarrow> string option"
  lib_loads :: "string \<Rightarrow> loads_failure + json"
  lib_dumps :: "json \<Rightarrow> string"
  lib_sha256 :: "string \<Rightarrow> string"
  lib_inv_cdf :: "rat \<Rightarrow> rat"

fun input_document_message :: "input_document_error \<Rightarrow> string" where
  "input_document_message (Duplicate_key k) = ''duplicate JSON key: '' @ py_repr k"
| "input_document_message (Non_finite_number v) = ''non-finite JSON number is not allowed: '' @ v"

definition parse_json_text :: "library \<Rightarrow> string \<Rightarrow> string \<Rightarrow> nat \<Rightarrow> string + json" where
  \<comment> \<open>the error is the text of \<open>InputDocumentError\<close>\<close>
  "parse_json_text lib text source max_bytes =
     (if max_bytes < length (utf8_bytes text) then
        Inl (source @ '' exceeds the '' @ dec_nat max_bytes @ ''-byte input limit'')
      else case lib_loads lib text of
        Inr document \<Rightarrow> Inr document
      | Inl (Hook_failed e) \<Rightarrow> Inl (input_document_message e)
      | Inl (Json_decode_error lineno colno msg) \<Rightarrow>
          Inl (source @ '':'' @ dec_nat lineno @ '':'' @ dec_nat colno @ '': invalid JSON: '' @ msg)
      | Inl (Loads_failed msg) \<Rightarrow> Inl (source @ '': invalid JSON: '' @ msg))"

definition document_digest :: "library \<Rightarrow> json \<Rightarrow> string" where
  \<comment> \<open>\<open>document_sha256\<close> of the value rendered to the given JSON\<close>
  "document_digest lib document = lib_sha256 lib (utf8_bytes (lib_dumps lib document))"

subsection \<open>Whole-second timestamps\<close>

lemma template_match_Cons:
  "template_match (t # ts) s \<longleftrightarrow> (\<exists>c cs. s = c # cs \<and> (if t = CHR ''0'' then is_digit c else c = t) \<and> template_match ts cs)"
  by (cases s) auto

lemma template_match_Nil: "template_match [] s \<longleftrightarrow> s = []"
  by (cases s) auto

lemma digit_char:
  assumes "is_digit c"
  shows "(of_char c :: nat) < 128" "c \<noteq> CHR ''Z''" "c \<noteq> CHR ''-''" "c \<noteq> CHR ''+''" "c \<noteq> CHR '':''"
    "c \<noteq> CHR ''W''" "c \<noteq> CHR 0x00" "c \<noteq> CHR ''.''" "c \<noteq> CHR '',''"
  using assms by (auto simp: is_digit_def Let_def)

lemma utc_timestamp_shape_chars:
  assumes "utc_timestamp_shape s"
  obtains y1 y2 y3 y4 m1 m2 d1 d2 h1 h2 n1 n2 s1 s2
  where "s = [y1, y2, y3, y4, CHR ''-'', m1, m2, CHR ''-'', d1, d2, CHR ''T'', h1, h2, CHR '':'', n1, n2,
       CHR '':'', s1, s2, CHR ''Z'']"
    "list_all is_digit [y1, y2, y3, y4, m1, m2, d1, d2, h1, h2, n1, n2, s1, s2]"
  using assms unfolding utc_timestamp_shape_def by (auto simp: template_match_Cons template_match_Nil)

lemma utc_timestamp_whole:
  assumes "utc_timestamp_shape s" "fromisoformat (zulu_to_offset s) = Some t"
  shows "dt_micro t = 0"
proof -
  obtain y1 y2 y3 y4 m1 m2 d1 d2 h1 h2 n1 n2 s1 s2
    where s: "s = [y1, y2, y3, y4, CHR ''-'', m1, m2, CHR ''-'', d1, d2, CHR ''T'', h1, h2, CHR '':'', n1, n2,
       CHR '':'', s1, s2, CHR ''Z'']"
    and d: "list_all is_digit [y1, y2, y3, y4, m1, m2, d1, d2, h1, h2, n1, n2, s1, s2]"
    using utc_timestamp_shape_chars [OF assms(1)] .
  have dg: "is_digit y1" "is_digit y2" "is_digit y3" "is_digit y4" "is_digit m1" "is_digit m2" "is_digit d1"
    "is_digit d2" "is_digit h1" "is_digit h2" "is_digit n1" "is_digit n2" "is_digit s1" "is_digit s2"
    using d by simp_all
  note ch = digit_char [OF dg(1)] digit_char [OF dg(2)] digit_char [OF dg(3)] digit_char [OF dg(4)]
    digit_char [OF dg(5)] digit_char [OF dg(6)] digit_char [OF dg(7)] digit_char [OF dg(8)]
    digit_char [OF dg(9)] digit_char [OF dg(10)] digit_char [OF dg(11)] digit_char [OF dg(12)]
    digit_char [OF dg(13)] digit_char [OF dg(14)]
  have z: "utf8_bytes (zulu_to_offset s) = [y1, y2, y3, y4, CHR ''-'', m1, m2, CHR ''-'', d1, d2, CHR ''T'',
      h1, h2, CHR '':'', n1, n2, CHR '':'', s1, s2] @ ''+00:00''"
    by (simp add: s zulu_to_offset_def utf8_bytes_def ch)
  have time: "parse_iso_time [h1, h2, CHR '':'', n1, n2, CHR '':'', s1, s2, CHR ''+'', CHR ''0'', CHR ''0'', CHR '':'', CHR ''0'', CHR ''0'']
     = Some (h, m, sec, us, off) \<Longrightarrow> us = 0" for h m sec us off
    by (auto simp: parse_iso_time_def is_tz_mark_def ch dg parse_clock_def eval_nat_numeral
        parse_digits_def byte_at_def Let_def split: option.splits prod.splits if_splits)
  show ?thesis
    using assms(2) time
    by (auto simp: fromisoformat_def z find_separator_def byte_at_def Let_def ch dg eval_nat_numeral
        split: option.splits prod.splits if_splits)
qed

lemma utc_timestamp_value_whole:
  assumes "utc_timestamp_ok s"
  shows "timestamp_value s mod 1000000 = 0"
proof -
  from assms obtain t where t: "fromisoformat (zulu_to_offset s) = Some t" "dt_offset t = Some 0"
    and sh: "utc_timestamp_shape s"
    by (auto simp: utc_timestamp_ok_def split: option.splits)
  have "dt_micro t = 0" by (rule utc_timestamp_whole [OF sh t(1)])
  then show ?thesis by (simp add: timestamp_value_def t utc_microseconds_def)
qed

end
