(* ===== verification/Review_Binding.thy ===== *)
theory Review_Binding
  imports Fail_Fast Engine
begin

text \<open>
  The review-result boundary of \<open>azure_devops.py\<close>: the fail-fast checks on values, the parser of the
  review fields other parts bind to, and the JSON form of the result the evidence gate produces.
  The last section decides when a produced review passes that boundary.
\<close>

datatype azure_error =
    Azure_error string string string
  | Plain_value_error
  \<comment> \<open>document name, path and message; or the ValueError of \<open>urlsplit\<close>, which no handler converts\<close>

record review_binding =
  rvb_result_schema_version :: string
  rvb_engine_version :: string
  rvb_policy_name :: string
  rvb_case_id :: string
  rvb_component :: component
  rvb_input_sha256 :: string
  rvb_reviewed_at :: string
  rvb_decision :: decision
  rvb_recommended_action :: recommended_action

record review_finding_binding =
  rfb_code :: string
  rfb_status :: check_status
  rfb_consequence :: consequence

definition MAX_REVIEW_RESULT_BYTES :: nat where "MAX_REVIEW_RESULT_BYTES = 5 * 1024 * 1024"

subsection \<open>Values\<close>

definition azure_object :: "string \<Rightarrow> string \<Rightarrow> string list \<Rightarrow> string list \<Rightarrow> json \<Rightarrow> azure_error + dict" where
  "azure_object path name required optional v =
     (case v of JObj obj \<Rightarrow>
        (let missing = sort (filter (\<lambda>k. \<not> has_key obj k) required);
             unknown = sort (filter (\<lambda>k. k \<notin> set required \<and> k \<notin> set optional) (map fst obj))
         in if missing \<noteq> [] then Inl (Azure_error name (sub path (hd missing)) ''required property is missing'')
            else if unknown \<noteq> [] then Inl (Azure_error name (sub path (hd unknown)) ''property is not allowed'')
            else Inr obj)
      | _ \<Rightarrow> Inl (Azure_error name path ''expected an object''))"

definition no_control :: "string \<Rightarrow> bool" where
  \<comment> \<open>a full match of \<open>[^\x00-\x1f\x7f]+\<close>\<close>
  "no_control s \<longleftrightarrow> s \<noteq> [] \<and> list_all (\<lambda>c. let n = (of_char c :: nat) in \<not> (n \<le> 31 \<or> n = 127)) s"

definition azure_string ::
  "nat \<Rightarrow> (string \<Rightarrow> bool) option \<Rightarrow> string \<Rightarrow> string \<Rightarrow> json \<Rightarrow> azure_error + string" where
  "azure_string maximum matches path name v =
     (case v of JStr s \<Rightarrow>
        (if s = [] \<or> s \<noteq> strip s then
           Inl (Azure_error name path ''expected a non-empty string without surrounding whitespace'')
         else if maximum < length s then
           Inl (Azure_error name path (''expected at most '' @ dec_nat maximum @ '' characters''))
         else if \<not> utf8_encodable s then
           Inl (Azure_error name path ''expected valid Unicode scalar values'')
         else if \<not> no_control s then
           Inl (Azure_error name path ''control characters are not allowed'')
         else case matches of None \<Rightarrow> Inr s
           | Some f \<Rightarrow> if f s then Inr s
                        else Inl (Azure_error name path ''value does not match the required format''))
      | _ \<Rightarrow> Inl (Azure_error name path ''expected a string''))"

definition azure_integer :: "int \<Rightarrow> string \<Rightarrow> string \<Rightarrow> json \<Rightarrow> azure_error + int" where
  "azure_integer minimum path name v =
     (case v of JInt i \<Rightarrow>
        (if i < minimum
         then Inl (Azure_error name path (''expected an integer of at least '' @ dec_int minimum))
         else Inr i)
      | _ \<Rightarrow> Inl (Azure_error name path ''expected an integer''))"

definition azure_enum :: "('a \<Rightarrow> string) \<Rightarrow> 'a list \<Rightarrow> string \<Rightarrow> string \<Rightarrow> json \<Rightarrow> azure_error + 'a" where
  "azure_enum val members path name v =
     (let bad = Inl (Azure_error name path (''expected one of: '' @ join '', '' (map val members)))
      in case v of JStr s \<Rightarrow> (case enum_lookup val members s of Some m \<Rightarrow> Inr m | None \<Rightarrow> bad)
         | _ \<Rightarrow> bad)"

definition review_timestamp_shape :: "string \<Rightarrow> bool" where
  \<comment> \<open>seconds, then optionally a point and one to six digits, then \<open>Z\<close>\<close>
  "review_timestamp_shape s \<longleftrightarrow> template_match ''0000-00-00T00:00:00'' (take 19 s)
     \<and> (let r = drop 19 s in r = ''Z'' \<or>
          (3 \<le> length r \<and> length r \<le> 8 \<and> hd r = CHR ''.'' \<and> last r = CHR ''Z''
           \<and> list_all is_digit (butlast (tl r))))"

definition azure_utc_timestamp :: "bool \<Rightarrow> string \<Rightarrow> string \<Rightarrow> json \<Rightarrow> azure_error + string" where
  "azure_utc_timestamp whole_seconds path name v =
     attempt (azure_string (if whole_seconds then 20 else 40) None path name v) (\<lambda>result.
     if \<not> (if whole_seconds then utc_timestamp_shape else review_timestamp_shape) result then
       Inl (Azure_error name path
         (if whole_seconds then ''expected a UTC timestamp in YYYY-MM-DDTHH:MM:SSZ form''
          else ''expected an ISO 8601 UTC timestamp with optional fractional seconds''))
     else case fromisoformat (zulu_to_offset result) of
       None \<Rightarrow> Inl (Azure_error name path ''expected a real ISO 8601 UTC timestamp'')
     | Some parsed \<Rightarrow>
         if dt_offset parsed \<noteq> Some 0 then Inl (Azure_error name path ''expected a UTC timestamp'')
         else Inr result)"

subsection \<open>The review result\<close>

definition review_result_keys :: "string list" where
  "review_result_keys =
     [''schema_version'', ''engine_version'', ''policy_name'', ''case_id'', ''case_title'', ''component'',
      ''input_sha256'', ''reviewed_at'', ''decision'', ''recommended_action'', ''summary'', ''metrics'',
      ''findings'']"

definition is_object :: "json \<Rightarrow> bool" where
  "is_object v \<longleftrightarrow> (case v of JObj _ \<Rightarrow> True | _ \<Rightarrow> False)"

definition parse_finding_code :: "string \<Rightarrow> nat \<Rightarrow> json \<Rightarrow> azure_error + review_finding_binding" where
  \<comment> \<open>one finding: its code is collected, the rest is checked\<close>
  "parse_finding_code name index v =
     (let path = at_index ''$.findings'' index in
      attempt (azure_object path name [''code'', ''status'', ''consequence'', ''message'', ''details''] [] v) (\<lambda>f.
      attempt (azure_string 128 None (sub path ''code'') name (jget f ''code'')) (\<lambda>code.
      attempt (azure_enum check_status_value check_status_members (sub path ''status'') name
                 (jget f ''status'')) (\<lambda>status.
      attempt (azure_enum consequence_value consequence_members (sub path ''consequence'') name
                 (jget f ''consequence'')) (\<lambda>consequence.
      attempt (azure_string 4096 None (sub path ''message'') name (jget f ''message'')) (\<lambda>_.
      attempt (ensure (is_object (jget f ''details''))
                 (Azure_error name (sub path ''details'') ''expected an object'')) (\<lambda>_.
      Inr \<lparr>rfb_code = code, rfb_status = status, rfb_consequence = consequence\<rparr>)))))))"

definition parse_review_findings :: "string \<Rightarrow> json \<Rightarrow> azure_error + review_finding_binding list" where
  "parse_review_findings name v =
     (case v of JArr vs \<Rightarrow>
        attempt (each (parse_finding_code name) 0 vs) (\<lambda>fs.
        attempt (ensure (distinct (map rfb_code fs))
                   (Azure_error name ''$.findings'' ''finding codes must be unique'')) (\<lambda>_.
        Inr fs))
      | _ \<Rightarrow> Inl (Azure_error name ''$.findings'' ''expected an array''))"

definition parse_binding_fields :: "string \<Rightarrow> string \<Rightarrow> dict \<Rightarrow> azure_error + review_binding" where
  "parse_binding_fields name version obj =
     attempt (azure_string 128 None ''$.engine_version'' name (jget obj ''engine_version'')) (\<lambda>ev.
     attempt (azure_string 128 None ''$.policy_name'' name (jget obj ''policy_name'')) (\<lambda>pn.
     attempt (azure_string 128 (Some safe_id_ok) ''$.case_id'' name (jget obj ''case_id'')) (\<lambda>ci.
     attempt (azure_enum component_value component_members ''$.component'' name (jget obj ''component'')) (\<lambda>cm.
     attempt (azure_string 64 (Some sha256_ok) ''$.input_sha256'' name (jget obj ''input_sha256'')) (\<lambda>sh.
     attempt (azure_utc_timestamp False ''$.reviewed_at'' name (jget obj ''reviewed_at'')) (\<lambda>ra.
     attempt (azure_enum decision_value decision_members ''$.decision'' name (jget obj ''decision'')) (\<lambda>dc.
     attempt (azure_enum recommended_action_value recommended_action_members ''$.recommended_action'' name
                (jget obj ''recommended_action'')) (\<lambda>ac.
     Inr \<lparr>rvb_result_schema_version = version, rvb_engine_version = ev, rvb_policy_name = pn,
          rvb_case_id = ci, rvb_component = cm, rvb_input_sha256 = sh, rvb_reviewed_at = ra,
          rvb_decision = dc, rvb_recommended_action = ac\<rparr>))))))))"

definition parse_review_binding :: "string \<Rightarrow> json \<Rightarrow> azure_error + review_binding" where
  "parse_review_binding name document =
     attempt (azure_object ''$'' name review_result_keys [] document) (\<lambda>obj.
     attempt (azure_string 16 None ''$.schema_version'' name (jget obj ''schema_version'')) (\<lambda>version.
     attempt (ensure (version = RESULT_SCHEMA_VERSION)
                (Azure_error name ''$.schema_version'' (''unsupported version '' @ py_repr version @
                   ''; expected '' @ py_repr RESULT_SCHEMA_VERSION))) (\<lambda>_.
     attempt (azure_string 2048 None ''$.case_title'' name (jget obj ''case_title'')) (\<lambda>_.
     attempt (azure_string 8192 None ''$.summary'' name (jget obj ''summary'')) (\<lambda>_.
     attempt (ensure (is_object (jget obj ''metrics''))
                (Azure_error name ''$.metrics'' ''expected an object'')) (\<lambda>_.
     attempt (parse_review_findings name (jget obj ''findings'')) (\<lambda>_.
     parse_binding_fields name version obj)))))))"

definition azure_parse_json_bytes :: "library \<Rightarrow> string \<Rightarrow> nat \<Rightarrow> string \<Rightarrow> azure_error + json" where
  "azure_parse_json_bytes lib description maximum raw =
     (if raw = [] then Inl (Azure_error description ''$'' ''document must not be empty'')
      else if maximum < length raw then
        Inl (Azure_error description ''$'' (''document exceeds the '' @ dec_nat maximum @ ''-byte limit''))
      else case lib_decode_utf8 lib raw of
        None \<Rightarrow> Inl (Azure_error description ''$'' ''document is not valid UTF-8'')
      | Some text \<Rightarrow>
          (case parse_json_text lib text description maximum of
             Inl e \<Rightarrow> Inl (Azure_error description ''$'' e)
           | Inr document \<Rightarrow> Inr document))"

definition parse_review_result_bytes :: "library \<Rightarrow> string \<Rightarrow> azure_error + review_binding" where
  "parse_review_result_bytes lib raw =
     attempt (azure_parse_json_bytes lib ''review result'' MAX_REVIEW_RESULT_BYTES raw)
       (parse_review_binding ''review result'')"

definition parse_review_result_findings_bytes ::
  "library \<Rightarrow> string \<Rightarrow> azure_error + review_finding_binding list" where
  "parse_review_result_findings_bytes lib raw =
     attempt (azure_parse_json_bytes lib ''review result'' MAX_REVIEW_RESULT_BYTES raw) (\<lambda>document.
     attempt (parse_review_binding ''review result'' document) (\<lambda>_.
     parse_review_findings ''review result''
       (case document of JObj obj \<Rightarrow> jget obj ''findings'' | _ \<Rightarrow> JNull)))"

subsection \<open>Rendering a review\<close>

definition finding_to_json :: "finding \<Rightarrow> json" where
  "finding_to_json f = JObj
     [(''code'', JStr (f_code f)), (''status'', JStr (check_status_value (f_status f))),
      (''consequence'', JStr (consequence_value (f_consequence f))),
      (''message'', JStr (f_message f)), (''details'', JObj (f_details f))]"

definition review_result_to_json :: "review_result \<Rightarrow> json" where
  "review_result_to_json r = JObj
     [(''schema_version'', JStr (rr_schema_version r)), (''engine_version'', JStr (rr_engine_version r)),
      (''policy_name'', JStr (rr_policy_name r)), (''case_id'', JStr (rr_case_id r)),
      (''case_title'', JStr (rr_case_title r)), (''component'', JStr (component_value (rr_component r))),
      (''input_sha256'', JStr (rr_input_sha256 r)), (''reviewed_at'', JStr (rr_reviewed_at r)),
      (''decision'', JStr (decision_value (rr_decision r))),
      (''recommended_action'', JStr (recommended_action_value (rr_recommended_action r))),
      (''summary'', JStr (rr_summary r)), (''metrics'', JObj (rr_metrics r)),
      (''findings'', JArr (map finding_to_json (rr_findings r)))]"

subsection \<open>When a value is accepted\<close>

definition azure_text_ok :: "nat \<Rightarrow> string \<Rightarrow> bool" where
  "azure_text_ok maximum s \<longleftrightarrow> s \<noteq> [] \<and> strip s = s \<and> length s \<le> maximum \<and> no_control s"

lemma azure_object_Inr [strict_iff]:
  "azure_object path name required [] v = Inr obj \<longleftrightarrow> v = JObj obj \<and> exact_keys required obj"
  by (auto simp: azure_object_def exact_keys_def Let_def has_key_def filter_empty_conv
      split: json.split if_splits)

definition keys_between :: "string list \<Rightarrow> string list \<Rightarrow> dict \<Rightarrow> bool" where
  "keys_between required optional obj \<longleftrightarrow>
     set required \<subseteq> set (map fst obj) \<and> set (map fst obj) \<subseteq> set required \<union> set optional"

lemma azure_object_optional_Inr:
  "azure_object path name required optional v = Inr obj \<longleftrightarrow> v = JObj obj \<and> keys_between required optional obj"
  by (auto simp: azure_object_def keys_between_def Let_def has_key_def filter_empty_conv
      split: json.split if_splits)

lemma azure_string_None [strict_iff]:
  "azure_string n None path name v = Inr s \<longleftrightarrow> v = JStr s \<and> azure_text_ok n s"
  by (auto simp: azure_string_def azure_text_ok_def split: json.split if_splits)

lemma azure_string_Some [strict_iff]:
  "azure_string n (Some f) path name v = Inr s \<longleftrightarrow> v = JStr s \<and> azure_text_ok n s \<and> f s"
  by (auto simp: azure_string_def azure_text_ok_def split: json.split if_splits)

lemma azure_integer_Inr [strict_iff]: "azure_integer m path name v = Inr i \<longleftrightarrow> v = JInt i \<and> m \<le> i"
  by (auto simp: azure_integer_def split: json.split if_splits)

context str_enum
begin

lemma azure_enum_Inr: "azure_enum val members path name v = Inr m \<longleftrightarrow> v = JStr (val m)"
  by (cases v) (auto simp: azure_enum_def lookup_Some lookup_None inj_val split: option.split)

end

lemmas azure_enums_Inr [strict_iff] =
  check_status.azure_enum_Inr consequence.azure_enum_Inr component.azure_enum_Inr
  decision.azure_enum_Inr recommended_action.azure_enum_Inr

lemmas azure_values_inj [strict_iff] =
  check_status.inj_val consequence.inj_val component.inj_val decision.inj_val recommended_action.inj_val

definition review_timestamp_ok :: "string \<Rightarrow> bool" where
  "review_timestamp_ok s \<longleftrightarrow> azure_text_ok 40 s \<and> review_timestamp_shape s
     \<and> (case fromisoformat (zulu_to_offset s) of None \<Rightarrow> False | Some t \<Rightarrow> dt_offset t = Some 0)"

lemma azure_review_timestamp_Inr [strict_iff]:
  "azure_utc_timestamp False path name v = Inr s \<longleftrightarrow> v = JStr s \<and> review_timestamp_ok s"
  by (auto simp: azure_utc_timestamp_def strict_iff review_timestamp_ok_def split: option.split if_splits)

lemma is_object_JObj [simp]: "is_object (JObj obj)"
  by (simp add: is_object_def)

definition finding_texts_ok :: "finding \<Rightarrow> bool" where
  "finding_texts_ok f \<longleftrightarrow> azure_text_ok 128 (f_code f) \<and> azure_text_ok 4096 (f_message f)"

definition finding_binding :: "finding \<Rightarrow> review_finding_binding" where
  "finding_binding f = \<lparr>rfb_code = f_code f, rfb_status = f_status f, rfb_consequence = f_consequence f\<rparr>"

definition binding_of :: "review_result \<Rightarrow> review_binding" where
  "binding_of r = \<lparr>rvb_result_schema_version = rr_schema_version r, rvb_engine_version = rr_engine_version r,
     rvb_policy_name = rr_policy_name r, rvb_case_id = rr_case_id r, rvb_component = rr_component r,
     rvb_input_sha256 = rr_input_sha256 r, rvb_reviewed_at = rr_reviewed_at r,
     rvb_decision = rr_decision r, rvb_recommended_action = rr_recommended_action r\<rparr>"

definition publishable :: "review_result \<Rightarrow> bool" where
  "publishable r \<longleftrightarrow> rr_schema_version r = RESULT_SCHEMA_VERSION
     \<and> azure_text_ok 2048 (rr_case_title r) \<and> azure_text_ok 8192 (rr_summary r)
     \<and> list_all finding_texts_ok (rr_findings r) \<and> distinct (map f_code (rr_findings r))
     \<and> azure_text_ok 128 (rr_engine_version r) \<and> azure_text_ok 128 (rr_policy_name r)
     \<and> azure_text_ok 128 (rr_case_id r) \<and> safe_id_ok (rr_case_id r)
     \<and> azure_text_ok 64 (rr_input_sha256 r) \<and> sha256_ok (rr_input_sha256 r)
     \<and> review_timestamp_ok (rr_reviewed_at r)"

lemma parse_finding_code_render:
  "parse_finding_code name i (finding_to_json f) = Inr b \<longleftrightarrow> b = finding_binding f \<and> finding_texts_ok f"
  by (auto simp: parse_finding_code_def finding_to_json_def strict_iff exact_keys_def Let_def
      finding_binding_def finding_texts_ok_def)

lemma each_finding_render:
  "each (parse_finding_code name) i (map finding_to_json fs) = Inr bs \<longleftrightarrow>
     bs = map finding_binding fs \<and> list_all finding_texts_ok fs"
proof (induction fs arbitrary: i bs)
  case (Cons f fs)
  then show ?case by (auto simp: strict_iff parse_finding_code_render)
qed auto

lemma parse_review_findings_render:
  "parse_review_findings name (JArr (map finding_to_json fs)) = Inr bs \<longleftrightarrow>
     bs = map finding_binding fs \<and> list_all finding_texts_ok fs \<and> distinct (map f_code fs)"
  by (auto simp: parse_review_findings_def strict_iff each_finding_render comp_def finding_binding_def)

lemma RESULT_SCHEMA_VERSION_text: "azure_text_ok 16 RESULT_SCHEMA_VERSION"
  by (simp add: RESULT_SCHEMA_VERSION_def azure_text_ok_def strip_def is_space_def no_control_def)

lemma parse_review_binding_render:
  "parse_review_binding name (review_result_to_json r) = Inr b \<longleftrightarrow> b = binding_of r \<and> publishable r"
  using RESULT_SCHEMA_VERSION_text
  by (auto simp: parse_review_binding_def review_result_to_json_def review_result_keys_def
      parse_binding_fields_def strict_iff exact_keys_def parse_review_findings_render binding_of_def
      publishable_def)

subsection \<open>The texts of a produced review\<close>

lemma strip_id: "s \<noteq> [] \<Longrightarrow> \<not> is_space (hd s) \<Longrightarrow> \<not> is_space (last s) \<Longrightarrow> strip s = s"
proof -
  assume ne: "s \<noteq> []" and h: "\<not> is_space (hd s)" and l: "\<not> is_space (last s)"
  have "dropWhile is_space s = s" using ne h by (cases s) auto
  moreover have "dropWhile is_space (rev s) = rev s"
    using ne l by (cases s rule: rev_cases) auto
  ultimately show ?thesis by (simp add: strip_def)
qed

lemma azure_text_okI:
  "s \<noteq> [] \<Longrightarrow> \<not> is_space (hd s) \<Longrightarrow> \<not> is_space (last s) \<Longrightarrow> length s \<le> n \<Longrightarrow> no_control s \<Longrightarrow> azure_text_ok n s"
  by (simp add: azure_text_ok_def strip_id)

definition plain_char :: "char \<Rightarrow> bool" where
  "plain_char c \<longleftrightarrow> (let n = (of_char c :: nat) in 33 \<le> n \<and> n \<le> 126)"

lemma plain_text_ok:
  assumes "s \<noteq> []" "list_all plain_char s" "length s \<le> n"
  shows "azure_text_ok n s"
proof (rule azure_text_okI)
  have p: "\<not> is_space c \<and> \<not> ((of_char c :: nat) \<le> 31 \<or> (of_char c :: nat) = 127)" if "plain_char c" for c
    using that by (auto simp: plain_char_def is_space_def Let_def)
  show "\<not> is_space (hd s)" "\<not> is_space (last s)"
    using assms p by (auto simp: list_all_iff)
  show "no_control s" using assms p by (auto simp: no_control_def list_all_iff Let_def)
qed (use assms in auto)

lemma alnum_plain: "is_alnum c \<Longrightarrow> plain_char c"
  by (auto simp: is_alnum_def is_upper_def is_lower_def is_digit_def plain_char_def Let_def)

lemma id_char_plain: "is_alnum c \<or> c \<in> set ''._-'' \<Longrightarrow> plain_char c"
  using alnum_plain [of c] by (auto simp: plain_char_def)

lemma hex_char_plain: "is_digit c \<or> c \<in> set ''abcdef'' \<Longrightarrow> plain_char c"
  using alnum_plain [of c] by (auto simp: plain_char_def is_alnum_def)

lemma head_tail_match_Cons:
  "head_tail_match F R lo hi s \<Longrightarrow>
    \<exists>c cs. s = c # cs \<and> F c \<and> lo \<le> length cs \<and> length cs \<le> hi \<and> list_all R cs"
  by (cases s) (simp_all add: head_tail_match_def)

lemma safe_id_text_ok:
  assumes "safe_id_ok s"
  shows "azure_text_ok 128 s"
proof -
  from head_tail_match_Cons [OF assms [unfolded safe_id_ok_def]]
  obtain c cs where s: "s = c # cs" "is_alnum c" "length cs \<le> 127"
    and cs: "list_all (\<lambda>c. is_alnum c \<or> c \<in> set ''._-'') cs" by blast
  from cs have "list_all plain_char cs" by (rule list.pred_mono_strong) (rule id_char_plain)
  then show ?thesis using s by (intro plain_text_ok) (simp_all add: alnum_plain)
qed

lemma sha256_text_ok:
  assumes "sha256_ok s"
  shows "azure_text_ok 64 s"
proof -
  from assms have l: "length s = 64" and h: "list_all (\<lambda>c. is_digit c \<or> c \<in> set ''abcdef'') s"
    unfolding sha256_ok_def by (rule conjunct1, rule conjunct2)
  from h have "list_all plain_char s" by (rule list.pred_mono_strong) (rule hex_char_plain)
  moreover have "s \<noteq> []" using l by (cases s) simp_all
  ultimately show ?thesis using l by (intro plain_text_ok) simp_all
qed

lemma finding_texts_ok_simps:
  "finding_texts_ok (add_pass code m d) \<longleftrightarrow> azure_text_ok 128 code \<and> azure_text_ok 4096 m"
  "finding_texts_ok (add_fail code q m d) \<longleftrightarrow> azure_text_ok 128 code \<and> azure_text_ok 4096 m"
  "finding_texts_ok (add_warning code q m d) \<longleftrightarrow> azure_text_ok 128 code \<and> azure_text_ok 4096 m"
  "finding_texts_ok (metric_failure p code m d) \<longleftrightarrow> azure_text_ok 128 code \<and> azure_text_ok 4096 m"
  by (simp_all add: finding_texts_ok_def add_pass_def add_fail_def add_warning_def metric_failure_def)

lemmas text_eval = finding_texts_ok_simps azure_text_okI no_control_def is_space_def

lemma requirement_texts: "list_all finding_texts_ok (check_requirement c)"
  by (simp add: check_requirement_def Let_def text_eval)

lemma oracle_texts: "list_all finding_texts_ok (check_oracle c p)"
  by (simp add: check_oracle_def Let_def text_eval)

lemma reproduction_texts: "list_all finding_texts_ok (check_reproduction c p)"
  by (simp add: check_reproduction_def Let_def text_eval)

lemma confidence_texts: "list_all finding_texts_ok (check_confidence c p)"
  by (simp add: check_confidence_def Let_def text_eval split: option.split)

lemma attribution_texts: "list_all finding_texts_ok (check_attribution c p)"
  by (simp add: check_attribution_def check_margin_def check_alignment_def check_intervention_def
      check_isolation_def check_intervention_trials_def Let_def text_eval split: option.split)

lemma null_hypothesis_texts: "list_all finding_texts_ok (check_null_hypothesis c)"
  by (simp add: check_null_hypothesis_def Let_def text_eval)

lemma minimality_texts: "list_all finding_texts_ok (check_minimality c p)"
  by (simp add: check_minimality_def Let_def text_eval)

lemma positive_texts: "list_all finding_texts_ok (check_positive c p)"
  by (simp add: check_positive_def Let_def text_eval)

lemma negative_texts: "list_all finding_texts_ok (check_negative c p)"
  by (simp add: check_negative_def Let_def text_eval)

lemma regression_texts: "list_all finding_texts_ok (check_regression c p)"
  by (simp add: check_regression_def Let_def text_eval)

lemma metrics_texts: "list_all finding_texts_ok (check_metrics c p)"
  by (simp add: check_metrics_def check_cost_def check_latency_def Let_def text_eval split: option.split)

lemma summary_text: "azure_text_ok 8192 (summary_for d)"
  by (cases d) (simp_all add: text_eval)

lemma ENGINE_VERSION_text: "azure_text_ok 128 ENGINE_VERSION"
  by (simp add: ENGINE_VERSION_def text_eval)

lemma review_findings_texts: "list_all finding_texts_ok (review_findings c p)"
  by (simp add: review_findings_def requirement_texts oracle_texts reproduction_texts confidence_texts
      attribution_texts null_hypothesis_texts minimality_texts positive_texts negative_texts
      regression_texts metrics_texts)

text \<open>
  C34. A review produced by the gate for a case with a valid identifier passes the publication boundary,
  with the binding of its own fields, exactly when the case title, the policy name and the review
  time meet the limits of that boundary; its findings, codes and summary always do.
\<close>
theorem review_publishable_iff:
  assumes "review_case digest iso_z now c policy t = Inr r"
    and "case_id_ok (cc_case_id c)" and "\<And>d. sha256_ok (digest d)"
  shows "parse_review_binding name (review_result_to_json r) = Inr (binding_of r) \<longleftrightarrow>
    azure_text_ok 2048 (cc_title c) \<and> azure_text_ok 128 (rr_policy_name r) \<and> review_timestamp_ok (rr_reviewed_at r)"
proof -
  define p where "p = (case policy of None \<Rightarrow> default_policy | Some p \<Rightarrow> p)"
  obtain d a where da: "decision_for (review_findings c p) = (d, a)" by (cases "decision_for (review_findings c p)")
  have id: "safe_id_ok (cc_case_id c)" using assms(2) by (simp add: case_id_ok_def safe_id_ok_def)
  have r: "rr_schema_version r = RESULT_SCHEMA_VERSION" "rr_engine_version r = ENGINE_VERSION"
    "rr_case_title r = cc_title c" "rr_case_id r = cc_case_id c"
    "rr_summary r = summary_for d" "rr_findings r = review_findings c p"
    "rr_input_sha256 r = digest (change_case_to_json c)"
    using assms(1) da by (auto simp: review_case_def Let_def p_def split: if_splits)
  show ?thesis
    unfolding parse_review_binding_render publishable_def
    by (simp add: r review_findings_texts review_codes_distinct summary_text ENGINE_VERSION_text
        id safe_id_text_ok assms(3) sha256_text_ok)
qed

theorem review_publishable_iff_witness:
  "\<exists>r. review_case (\<lambda>_. replicate 64 CHR ''a'') (\<lambda>_. ''2026-01-02T03:04:05Z'')
         \<lparr>dt_ordinal = 739618, dt_second = 11045, dt_micro = 0, dt_offset = Some 0\<rparr> (sample_case True) None None = Inr r
     \<and> (parse_review_binding ''review result'' (review_result_to_json r) = Inr (binding_of r) \<longleftrightarrow>
        azure_text_ok 2048 (cc_title (sample_case True)) \<and> azure_text_ok 128 (rr_policy_name r)
        \<and> review_timestamp_ok (rr_reviewed_at r))"
proof -
  let ?now = "\<lparr>dt_ordinal = 739618, dt_second = 11045, dt_micro = 0, dt_offset = Some 0\<rparr>"
  let ?digest = "\<lambda>_ :: json. replicate 64 CHR ''a''"
  have "\<exists>r. review_case ?digest (\<lambda>_. ''2026-01-02T03:04:05Z'') ?now (sample_case True) None None = Inr r"
    by (simp add: review_case_def Let_def split: prod.split)
  then obtain r where r: "review_case ?digest (\<lambda>_. ''2026-01-02T03:04:05Z'') ?now (sample_case True) None None = Inr r"
    by blast
  moreover have "case_id_ok (cc_case_id (sample_case True))"
    by (simp add: case_id_ok_def head_tail_match_def sample_case_def is_alnum_def is_upper_def
        is_lower_def is_digit_def)
  moreover have "sha256_ok (?digest d)" for d :: json
    by (simp add: sha256_ok_def list_all_iff)
  ultimately show ?thesis using review_publishable_iff [OF r] by blast
qed

end
