(* ===== verification/Canary_Documents.thy ===== *)
theory Canary_Documents
  imports Fail_Fast
begin

text \<open>
  The documents of \<open>canary.py\<close>: the predeclared policy, the two-cohort observation and the
  comparison result, with the parsers that raise \<open>CanaryValidationError\<close> at the first violation
  and the rendering \<open>to_jsonable\<close> gives. Format texts such as \<open>{minimum:g}\<close> are passed as text.
\<close>

definition CANARY_POLICY_SCHEMA_VERSION :: string where "CANARY_POLICY_SCHEMA_VERSION = ''1.0''"
definition CANARY_OBSERVATION_SCHEMA_VERSION :: string where "CANARY_OBSERVATION_SCHEMA_VERSION = ''1.0''"
definition CANARY_RESULT_SCHEMA_VERSION :: string where "CANARY_RESULT_SCHEMA_VERSION = ''1.0''"

definition MAX_CANARY_METRICS :: nat where "MAX_CANARY_METRICS = 50"
definition MAX_CANARY_SAMPLE_COUNT :: int where "MAX_CANARY_SAMPLE_COUNT = 1000000000"

datatype canary_error = Canary_error string string string
  \<comment> \<open>document name, path, message\<close>

subsection \<open>Data\<close>

record canary_metric_policy =
  cmp_metric_id :: string
  cmp_direction :: canary_metric_direction
  cmp_maximum_degradation :: rat

record canary_policy =
  cpo_schema_version :: string
  cpo_policy_id :: string
  cpo_declared_at :: string
  cpo_confidence_level :: rat
  cpo_maximum_looks :: int
  cpo_minimum_observation_seconds :: int
  cpo_minimum_sample_size_per_cohort :: int
  cpo_evaluator_ref :: string
  cpo_assignment_unit :: canary_assignment_unit
  cpo_assignment_method :: canary_assignment_method
  cpo_require_sticky_assignment :: bool
  cpo_metrics :: "canary_metric_policy list"

record canary_change_binding =
  chb_case_id :: string
  chb_change_ref :: string
  chb_change_case_sha256 :: string
  chb_review_result_sha256 :: string

record canary_policy_binding =
  pob_policy_id :: string
  pob_policy_sha256 :: string

record canary_window =
  win_started_at :: string
  win_ended_at :: string

record canary_assignment =
  asg_method :: canary_assignment_method
  asg_unit :: canary_assignment_unit
  asg_sticky :: bool
  asg_cross_cohort_contamination_detected :: bool

record canary_metric_observation =
  cmo_metric_id :: string
  cmo_event_count :: int

record canary_cohort =
  coh_deployment_ref :: string
  coh_sample_count :: int
  coh_evidence_ref :: string
  coh_metrics :: "canary_metric_observation list"

record canary_observation =
  cob_schema_version :: string
  cob_comparison_id :: string
  cob_look_number :: int
  cob_observed_at :: string
  cob_change :: canary_change_binding
  cob_policy :: canary_policy_binding
  cob_window :: canary_window
  cob_evaluator_ref :: string
  cob_assignment :: canary_assignment
  cob_baseline :: canary_cohort
  cob_candidate :: canary_cohort

record canary_check =
  cck_code :: string
  cck_status :: check_status
  cck_message :: string

record canary_metric_result =
  cmr_metric_id :: string
  cmr_direction :: canary_metric_direction
  cmr_maximum_degradation :: rat
  cmr_baseline_rate :: rat
  cmr_candidate_rate :: rat
  cmr_observed_difference :: rat
  cmr_confidence_lower :: rat
  cmr_confidence_upper :: rat
  cmr_status :: canary_metric_status

record canary_result =
  crs_schema_version :: string
  crs_engine_version :: string
  crs_comparison_id :: string
  crs_look_number :: int
  crs_maximum_looks :: int
  crs_case_id :: string
  crs_change_ref :: string
  crs_policy_id :: string
  crs_evaluator_ref :: string
  crs_assignment_method :: canary_assignment_method
  crs_assignment_unit :: canary_assignment_unit
  crs_observation_sha256 :: string
  crs_policy_sha256 :: string
  crs_change_case_sha256 :: string
  crs_review_result_sha256 :: string
  crs_compared_at :: string
  crs_window_started_at :: string
  crs_window_ended_at :: string
  crs_observation_seconds :: int
  crs_baseline_deployment_ref :: string
  crs_candidate_deployment_ref :: string
  crs_baseline_sample_count :: int
  crs_candidate_sample_count :: int
  crs_confidence_level :: rat
  crs_decision :: canary_decision
  crs_summary :: string
  crs_checks :: "canary_check list"
  crs_metrics :: "canary_metric_result list"

subsection \<open>Values\<close>

definition canary_object :: "string \<Rightarrow> string \<Rightarrow> string list \<Rightarrow> json \<Rightarrow> canary_error + dict" where
  "canary_object name path required v =
     (case v of JObj obj \<Rightarrow>
        (let missing = sort (filter (\<lambda>k. \<not> has_key obj k) required);
             unknown = sort (filter (\<lambda>k. k \<notin> set required) (map fst obj))
         in if missing \<noteq> [] then
              Inl (Canary_error name path (''missing required field(s): '' @ join '', '' missing))
            else if unknown \<noteq> [] then
              Inl (Canary_error name path (''field(s) are not allowed: '' @ join '', '' unknown))
            else Inr obj)
      | _ \<Rightarrow> Inl (Canary_error name path ''expected an object''))"

definition canary_string :: "(string \<Rightarrow> bool) \<Rightarrow> string \<Rightarrow> string \<Rightarrow> string \<Rightarrow> json \<Rightarrow> canary_error + string" where
  "canary_string matches description name path v =
     (case v of JStr s \<Rightarrow> if matches s then Inr s else Inl (Canary_error name path description)
      | _ \<Rightarrow> Inl (Canary_error name path description))"

definition reference_ok :: "string \<Rightarrow> bool" where
  "reference_ok = head_tail_match is_alnum (\<lambda>c. is_alnum c \<or> c \<in> set ''._:+/@#$%?=&-'') 0 511"

definition canary_identifier :: "string \<Rightarrow> string \<Rightarrow> json \<Rightarrow> canary_error + string" where
  "canary_identifier = canary_string safe_id_ok ''expected a 3-128 character safe identifier''"

definition canary_reference :: "string \<Rightarrow> string \<Rightarrow> json \<Rightarrow> canary_error + string" where
  "canary_reference = canary_string reference_ok ''expected a 1-512 character bounded opaque reference''"

definition canary_sha256 :: "string \<Rightarrow> string \<Rightarrow> json \<Rightarrow> canary_error + string" where
  "canary_sha256 = canary_string sha256_ok ''expected a lowercase SHA-256 digest''"

definition canary_timestamp :: "string \<Rightarrow> string \<Rightarrow> json \<Rightarrow> canary_error + string" where
  "canary_timestamp name path v =
     attempt (canary_string utc_timestamp_shape
                ''expected a UTC timestamp in YYYY-MM-DDTHH:MM:SSZ form'' name path v) (\<lambda>result.
     case fromisoformat (zulu_to_offset result) of
       None \<Rightarrow> Inl (Canary_error name path ''expected a real UTC timestamp in YYYY-MM-DDTHH:MM:SSZ form'')
     | Some parsed \<Rightarrow>
         if dt_offset parsed \<noteq> Some 0 then Inl (Canary_error name path ''expected a UTC timestamp'')
         else Inr result)"

definition canary_integer :: "int \<Rightarrow> int \<Rightarrow> string \<Rightarrow> string \<Rightarrow> json \<Rightarrow> canary_error + int" where
  "canary_integer minimum maximum name path v =
     (let bad = Inl (Canary_error name path
                  (''expected an integer from '' @ dec_int minimum @ '' through '' @ dec_int maximum))
      in case v of JInt i \<Rightarrow> if minimum \<le> i \<and> i \<le> maximum then Inr i else bad | _ \<Rightarrow> bad)"

definition canary_number ::
  "rat \<Rightarrow> string \<Rightarrow> rat \<Rightarrow> string \<Rightarrow> string \<Rightarrow> string \<Rightarrow> json \<Rightarrow> canary_error + rat" where
  "canary_number minimum min_text maximum max_text name path v =
     (let bad = Inl (Canary_error name path
                  (''expected a number from '' @ min_text @ '' through '' @ max_text))
      in case number_as_float v of
           Some (Fin x) \<Rightarrow> if minimum \<le> x \<and> x \<le> maximum then Inr x else bad
         | _ \<Rightarrow> bad)"

definition canary_boolean :: "string \<Rightarrow> string \<Rightarrow> json \<Rightarrow> canary_error + bool" where
  "canary_boolean name path v =
     (case v of JBool b \<Rightarrow> Inr b | _ \<Rightarrow> Inl (Canary_error name path ''expected a boolean''))"

definition canary_enum ::
  "('a \<Rightarrow> string) \<Rightarrow> 'a list \<Rightarrow> string \<Rightarrow> string \<Rightarrow> json \<Rightarrow> canary_error + 'a" where
  "canary_enum val members name path v =
     (case v of JStr s \<Rightarrow>
        (case enum_lookup val members s of
           Some m \<Rightarrow> Inr m
         | None \<Rightarrow> Inl (Canary_error name path (''expected one of: '' @ join '', '' (map val members))))
      | _ \<Rightarrow> Inl (Canary_error name path ''expected a string enum value''))"

definition canary_array :: "string \<Rightarrow> string \<Rightarrow> json \<Rightarrow> canary_error + json list" where
  \<comment> \<open>the repeated check of a list of 1 to \<open>MAX_CANARY_METRICS\<close> metrics\<close>
  "canary_array name path v =
     (let bad = Inl (Canary_error name path (''expected from 1 to '' @ dec_nat MAX_CANARY_METRICS @ '' metrics''))
      in case v of JArr vs \<Rightarrow> if 1 \<le> length vs \<and> length vs \<le> MAX_CANARY_METRICS then Inr vs else bad
         | _ \<Rightarrow> bad)"

definition bounded_text_char :: "char \<Rightarrow> bool" where
  "bounded_text_char c \<longleftrightarrow> (let n = (of_char c :: nat) in
     \<not> (n \<le> 8 \<or> n = 11 \<or> n = 12 \<or> (14 \<le> n \<and> n \<le> 31) \<or> n = 127))"

definition bounded_text_ok :: "nat \<Rightarrow> string \<Rightarrow> bool" where
  "bounded_text_ok maximum s \<longleftrightarrow> 1 \<le> length s \<and> length s \<le> maximum \<and> list_all bounded_text_char s"

definition canary_bounded_text :: "nat \<Rightarrow> string \<Rightarrow> string \<Rightarrow> json \<Rightarrow> canary_error + string" where
  "canary_bounded_text maximum =
     canary_string (bounded_text_ok maximum) (''expected from 1 to '' @ dec_nat maximum @ '' printable characters'')"

subsection \<open>Policies\<close>

definition parse_canary_metric_policy :: "nat \<Rightarrow> json \<Rightarrow> canary_error + canary_metric_policy" where
  "parse_canary_metric_policy index v =
     (let name = ''canary policy''; path = at_index ''$.metrics'' index in
      attempt (canary_object name path [''metric_id'', ''direction'', ''maximum_degradation''] v) (\<lambda>item.
      attempt (canary_identifier name (sub path ''metric_id'') (jget item ''metric_id'')) (\<lambda>i.
      attempt (canary_enum canary_metric_direction_value canary_metric_direction_members
                 name (sub path ''direction'') (jget item ''direction'')) (\<lambda>d.
      attempt (canary_number 0 ''0'' 1 ''1'' name (sub path ''maximum_degradation'')
                 (jget item ''maximum_degradation'')) (\<lambda>m.
      Inr \<lparr>cmp_metric_id = i, cmp_direction = d, cmp_maximum_degradation = m\<rparr>)))))"

definition parse_canary_policy_metrics :: "json \<Rightarrow> canary_error + canary_metric_policy list" where
  "parse_canary_policy_metrics v =
     (let name = ''canary policy'' in
      attempt (canary_array name ''$.metrics'' v) (\<lambda>vs.
      attempt (each parse_canary_metric_policy 0 vs) (\<lambda>metrics.
      attempt (ensure (distinct (map cmp_metric_id metrics))
                 (Canary_error name ''$.metrics'' ''metric IDs must be unique'')) (\<lambda>_.
      Inr metrics))))"

definition canary_policy_keys :: "string list" where
  "canary_policy_keys =
     [''schema_version'', ''policy_id'', ''declared_at'', ''confidence_level'', ''maximum_looks'',
      ''minimum_observation_seconds'', ''minimum_sample_size_per_cohort'', ''evaluator_ref'',
      ''assignment_unit'', ''assignment_method'', ''require_sticky_assignment'', ''metrics'']"

definition parse_canary_policy :: "json \<Rightarrow> canary_error + canary_policy" where
  "parse_canary_policy document =
     (let name = ''canary policy'' in
      attempt (canary_object name ''$'' canary_policy_keys document) (\<lambda>root.
      attempt (ensure (jget root ''schema_version'' = JStr CANARY_POLICY_SCHEMA_VERSION)
                 (Canary_error name ''$.schema_version'' ''unsupported schema version'')) (\<lambda>_.
      attempt (parse_canary_policy_metrics (jget root ''metrics'')) (\<lambda>metrics.
      attempt (canary_identifier name ''$.policy_id'' (jget root ''policy_id'')) (\<lambda>i.
      attempt (canary_timestamp name ''$.declared_at'' (jget root ''declared_at'')) (\<lambda>declared.
      attempt (canary_number (fl (9/10)) ''0.9'' (fl (999/1000)) ''0.999'' name ''$.confidence_level''
                 (jget root ''confidence_level'')) (\<lambda>level.
      attempt (canary_integer 1 100 name ''$.maximum_looks'' (jget root ''maximum_looks'')) (\<lambda>looks.
      attempt (canary_integer 60 2592000 name ''$.minimum_observation_seconds''
                 (jget root ''minimum_observation_seconds'')) (\<lambda>seconds.
      attempt (canary_integer 30 MAX_CANARY_SAMPLE_COUNT name ''$.minimum_sample_size_per_cohort''
                 (jget root ''minimum_sample_size_per_cohort'')) (\<lambda>size.
      attempt (canary_reference name ''$.evaluator_ref'' (jget root ''evaluator_ref'')) (\<lambda>evaluator.
      attempt (canary_enum canary_assignment_unit_value canary_assignment_unit_members
                 name ''$.assignment_unit'' (jget root ''assignment_unit'')) (\<lambda>unit.
      attempt (canary_enum canary_assignment_method_value canary_assignment_method_members
                 name ''$.assignment_method'' (jget root ''assignment_method'')) (\<lambda>method.
      attempt (canary_boolean name ''$.require_sticky_assignment''
                 (jget root ''require_sticky_assignment'')) (\<lambda>sticky.
      Inr \<lparr>cpo_schema_version = CANARY_POLICY_SCHEMA_VERSION, cpo_policy_id = i,
           cpo_declared_at = declared, cpo_confidence_level = level, cpo_maximum_looks = looks,
           cpo_minimum_observation_seconds = seconds, cpo_minimum_sample_size_per_cohort = size,
           cpo_evaluator_ref = evaluator, cpo_assignment_unit = unit,
           cpo_assignment_method = method, cpo_require_sticky_assignment = sticky,
           cpo_metrics = metrics\<rparr>))))))))))))))"

subsection \<open>Observations\<close>

definition parse_canary_metric_observation ::
  "string \<Rightarrow> string \<Rightarrow> int \<Rightarrow> nat \<Rightarrow> json \<Rightarrow> canary_error + canary_metric_observation" where
  "parse_canary_metric_observation name path sample_count index v =
     (let metric_path = at_index path index in
      attempt (canary_object name metric_path [''metric_id'', ''event_count''] v) (\<lambda>item.
      attempt (canary_identifier name (sub metric_path ''metric_id'') (jget item ''metric_id'')) (\<lambda>i.
      attempt (canary_integer 0 sample_count name (sub metric_path ''event_count'')
                 (jget item ''event_count'')) (\<lambda>n.
      Inr \<lparr>cmo_metric_id = i, cmo_event_count = n\<rparr>))))"

definition parse_metric_observations ::
  "string \<Rightarrow> string \<Rightarrow> int \<Rightarrow> json \<Rightarrow> canary_error + canary_metric_observation list" where
  "parse_metric_observations name path sample_count v =
     attempt (canary_array name path v) (\<lambda>vs.
     attempt (each (parse_canary_metric_observation name path sample_count) 0 vs) (\<lambda>metrics.
     attempt (ensure (distinct (map cmo_metric_id metrics))
                (Canary_error name path ''metric IDs must be unique'')) (\<lambda>_.
     Inr metrics)))"

definition parse_cohort :: "string \<Rightarrow> string \<Rightarrow> json \<Rightarrow> canary_error + canary_cohort" where
  "parse_cohort name path v =
     attempt (canary_object name path [''deployment_ref'', ''sample_count'', ''evidence_ref'', ''metrics''] v) (\<lambda>item.
     attempt (canary_integer 1 MAX_CANARY_SAMPLE_COUNT name (sub path ''sample_count'')
                (jget item ''sample_count'')) (\<lambda>sample_count.
     attempt (canary_reference name (sub path ''deployment_ref'') (jget item ''deployment_ref'')) (\<lambda>deployment.
     attempt (canary_reference name (sub path ''evidence_ref'') (jget item ''evidence_ref'')) (\<lambda>evidence.
     attempt (parse_metric_observations name (sub path ''metrics'') sample_count (jget item ''metrics'')) (\<lambda>metrics.
     Inr \<lparr>coh_deployment_ref = deployment, coh_sample_count = sample_count,
          coh_evidence_ref = evidence, coh_metrics = metrics\<rparr>)))))"

definition parse_canary_change :: "string \<Rightarrow> dict \<Rightarrow> canary_error + canary_change_binding" where
  "parse_canary_change name change =
     attempt (canary_identifier name ''$.change.case_id'' (jget change ''case_id'')) (\<lambda>c.
     attempt (canary_reference name ''$.change.change_ref'' (jget change ''change_ref'')) (\<lambda>r.
     attempt (canary_sha256 name ''$.change.change_case_sha256'' (jget change ''change_case_sha256'')) (\<lambda>s.
     attempt (canary_sha256 name ''$.change.review_result_sha256'' (jget change ''review_result_sha256'')) (\<lambda>t.
     Inr \<lparr>chb_case_id = c, chb_change_ref = r, chb_change_case_sha256 = s,
          chb_review_result_sha256 = t\<rparr>))))"

definition parse_canary_policy_binding :: "string \<Rightarrow> dict \<Rightarrow> canary_error + canary_policy_binding" where
  "parse_canary_policy_binding name policy =
     attempt (canary_identifier name ''$.policy.policy_id'' (jget policy ''policy_id'')) (\<lambda>i.
     attempt (canary_sha256 name ''$.policy.policy_sha256'' (jget policy ''policy_sha256'')) (\<lambda>s.
     Inr \<lparr>pob_policy_id = i, pob_policy_sha256 = s\<rparr>))"

definition parse_canary_window :: "string \<Rightarrow> dict \<Rightarrow> canary_error + canary_window" where
  "parse_canary_window name window =
     attempt (canary_timestamp name ''$.window.started_at'' (jget window ''started_at'')) (\<lambda>s.
     attempt (canary_timestamp name ''$.window.ended_at'' (jget window ''ended_at'')) (\<lambda>e.
     Inr \<lparr>win_started_at = s, win_ended_at = e\<rparr>))"

definition parse_canary_assignment :: "string \<Rightarrow> dict \<Rightarrow> canary_error + canary_assignment" where
  "parse_canary_assignment name assignment =
     attempt (canary_enum canary_assignment_method_value canary_assignment_method_members
                name ''$.assignment.method'' (jget assignment ''method'')) (\<lambda>m.
     attempt (canary_enum canary_assignment_unit_value canary_assignment_unit_members
                name ''$.assignment.unit'' (jget assignment ''unit'')) (\<lambda>u.
     attempt (canary_boolean name ''$.assignment.sticky'' (jget assignment ''sticky'')) (\<lambda>s.
     attempt (canary_boolean name ''$.assignment.cross_cohort_contamination_detected''
                (jget assignment ''cross_cohort_contamination_detected'')) (\<lambda>x.
     Inr \<lparr>asg_method = m, asg_unit = u, asg_sticky = s,
          asg_cross_cohort_contamination_detected = x\<rparr>))))"

definition check_observation_times :: "string \<Rightarrow> canary_observation \<Rightarrow> canary_error + canary_observation" where
  \<comment> \<open>the checks after the observation is built; instants in microseconds\<close>
  "check_observation_times name observation =
     (let started = timestamp_value (win_started_at (cob_window observation));
          ended = timestamp_value (win_ended_at (cob_window observation));
          observed = timestamp_value (cob_observed_at observation)
      in if ended \<le> started then
           Inl (Canary_error name ''$.window'' ''ended_at must be later than started_at'')
         else if ended - started > 2592000 * 1000000 then
           Inl (Canary_error name ''$.window'' ''observation window must not exceed 2592000 seconds'')
         else if observed < ended then
           Inl (Canary_error name ''$.observed_at'' ''must be at or after window.ended_at'')
         else if coh_deployment_ref (cob_baseline observation) = coh_deployment_ref (cob_candidate observation) then
           Inl (Canary_error name ''$.candidate.deployment_ref''
                  ''baseline and candidate deployment references must differ'')
         else Inr observation)"

definition canary_observation_keys :: "string list" where
  "canary_observation_keys =
     [''schema_version'', ''comparison_id'', ''look_number'', ''observed_at'', ''change'', ''policy'',
      ''window'', ''evaluator_ref'', ''assignment'', ''baseline'', ''candidate'']"

definition parse_canary_observation :: "json \<Rightarrow> canary_error + canary_observation" where
  "parse_canary_observation document =
     (let name = ''canary observation'' in
      attempt (canary_object name ''$'' canary_observation_keys document) (\<lambda>root.
      attempt (ensure (jget root ''schema_version'' = JStr CANARY_OBSERVATION_SCHEMA_VERSION)
                 (Canary_error name ''$.schema_version'' ''unsupported schema version'')) (\<lambda>_.
      attempt (canary_object name ''$.change''
                 [''case_id'', ''change_ref'', ''change_case_sha256'', ''review_result_sha256'']
                 (jget root ''change'')) (\<lambda>change.
      attempt (canary_object name ''$.policy'' [''policy_id'', ''policy_sha256'']
                 (jget root ''policy'')) (\<lambda>policy.
      attempt (canary_object name ''$.window'' [''started_at'', ''ended_at''] (jget root ''window'')) (\<lambda>window.
      attempt (canary_object name ''$.assignment''
                 [''method'', ''unit'', ''sticky'', ''cross_cohort_contamination_detected'']
                 (jget root ''assignment'')) (\<lambda>assignment.
      attempt (canary_identifier name ''$.comparison_id'' (jget root ''comparison_id'')) (\<lambda>i.
      attempt (canary_integer 1 100 name ''$.look_number'' (jget root ''look_number'')) (\<lambda>look.
      attempt (canary_timestamp name ''$.observed_at'' (jget root ''observed_at'')) (\<lambda>observed.
      attempt (parse_canary_change name change) (\<lambda>ch.
      attempt (parse_canary_policy_binding name policy) (\<lambda>pol.
      attempt (parse_canary_window name window) (\<lambda>win.
      attempt (canary_reference name ''$.evaluator_ref'' (jget root ''evaluator_ref'')) (\<lambda>evaluator.
      attempt (parse_canary_assignment name assignment) (\<lambda>asg.
      attempt (parse_cohort name ''$.baseline'' (jget root ''baseline'')) (\<lambda>baseline.
      attempt (parse_cohort name ''$.candidate'' (jget root ''candidate'')) (\<lambda>candidate.
      check_observation_times name
        \<lparr>cob_schema_version = CANARY_OBSERVATION_SCHEMA_VERSION, cob_comparison_id = i,
         cob_look_number = look, cob_observed_at = observed, cob_change = ch, cob_policy = pol,
         cob_window = win, cob_evaluator_ref = evaluator, cob_assignment = asg,
         cob_baseline = baseline, cob_candidate = candidate\<rparr>)))))))))))))))))"

subsection \<open>Comparison results\<close>

definition round12 :: "rat \<Rightarrow> rat" where
  \<comment> \<open>\<open>round(x, 12)\<close> with a negative zero replaced: half to even on the exact value, then to a float\<close>
  "round12 x = fl (of_int (round_half_even (x * 10 ^ 12)) / 10 ^ 12)"

definition canary_result_check :: "string list \<Rightarrow> nat \<Rightarrow> json \<Rightarrow> canary_error + canary_check" where
  "canary_result_check seen index v =
     (let name = ''canary result''; path = at_index ''$.checks'' index in
      attempt (canary_object name path [''code'', ''status'', ''message''] v) (\<lambda>item.
      attempt (canary_identifier name (sub path ''code'') (jget item ''code'')) (\<lambda>code.
      attempt (ensure (code \<notin> set seen)
                 (Canary_error name ''$.checks'' ''check codes must be unique'')) (\<lambda>_.
      attempt (canary_enum check_status_value check_status_members name (sub path ''status'')
                 (jget item ''status'')) (\<lambda>status.
      attempt (canary_bounded_text 8192 name (sub path ''message'') (jget item ''message'')) (\<lambda>msg.
      Inr \<lparr>cck_code = code, cck_status = status, cck_message = msg\<rparr>))))))"

definition canary_result_checks :: "json \<Rightarrow> canary_error + canary_check list" where
  "canary_result_checks v =
     (let bad = Inl (Canary_error ''canary result'' ''$.checks'' ''expected exactly 6 checks'') in
      case v of JArr vs \<Rightarrow> if length vs \<noteq> 6 then bad else each_new cck_code canary_result_check [] 0 vs
      | _ \<Rightarrow> bad)"

definition unit_number :: "rat \<Rightarrow> string \<Rightarrow> string \<Rightarrow> string \<Rightarrow> dict \<Rightarrow> string \<Rightarrow> canary_error + rat" where
  \<comment> \<open>the numbers of a metric result, at most 1\<close>
  "unit_number minimum min_text name path item field =
     canary_number minimum min_text 1 ''1'' name (sub path field) (jget item field)"

definition canary_result_metric :: "string list \<Rightarrow> nat \<Rightarrow> json \<Rightarrow> canary_error + canary_metric_result" where
  "canary_result_metric seen index v =
     (let name = ''canary result''; path = at_index ''$.metrics'' index in
      attempt (canary_object name path
                 [''metric_id'', ''direction'', ''maximum_degradation'', ''baseline_rate'',
                  ''candidate_rate'', ''observed_difference'', ''confidence_lower'',
                  ''confidence_upper'', ''status''] v) (\<lambda>item.
      attempt (canary_identifier name (sub path ''metric_id'') (jget item ''metric_id'')) (\<lambda>i.
      attempt (ensure (i \<notin> set seen)
                 (Canary_error name ''$.metrics'' ''metric ids must be unique'')) (\<lambda>_.
      attempt (unit_number 0 ''0'' name path item ''baseline_rate'') (\<lambda>br.
      attempt (unit_number 0 ''0'' name path item ''candidate_rate'') (\<lambda>cr.
      attempt (unit_number (- 1) ''-1'' name path item ''observed_difference'') (\<lambda>df.
      attempt (ensure (\<bar>fl (df - round12 (fl (cr - br)))\<bar> \<le> fl (1 / 10 ^ 11))
                 (Canary_error name (sub path ''observed_difference'')
                    ''must equal candidate_rate minus baseline_rate'')) (\<lambda>_.
      attempt (unit_number (- 1) ''-1'' name path item ''confidence_lower'') (\<lambda>lo.
      attempt (unit_number (- 1) ''-1'' name path item ''confidence_upper'') (\<lambda>hi.
      attempt (ensure (lo \<le> hi)
                 (Canary_error name (sub path ''confidence_lower'') ''must not exceed confidence_upper'')) (\<lambda>_.
      attempt (canary_enum canary_metric_direction_value canary_metric_direction_members
                 name (sub path ''direction'') (jget item ''direction'')) (\<lambda>d.
      attempt (unit_number 0 ''0'' name path item ''maximum_degradation'') (\<lambda>m.
      attempt (canary_enum canary_metric_status_value canary_metric_status_members
                 name (sub path ''status'') (jget item ''status'')) (\<lambda>s.
      Inr \<lparr>cmr_metric_id = i, cmr_direction = d, cmr_maximum_degradation = m,
           cmr_baseline_rate = br, cmr_candidate_rate = cr, cmr_observed_difference = df,
           cmr_confidence_lower = lo, cmr_confidence_upper = hi, cmr_status = s\<rparr>))))))))))))))"

definition canary_result_metrics :: "json \<Rightarrow> canary_error + canary_metric_result list" where
  "canary_result_metrics v =
     attempt (canary_array ''canary result'' ''$.metrics'' v)
       (each_new cmr_metric_id canary_result_metric [] 0)"

definition canary_result_keys :: "string list" where
  "canary_result_keys =
     [''schema_version'', ''engine_version'', ''comparison_id'', ''look_number'', ''maximum_looks'',
      ''case_id'', ''change_ref'', ''policy_id'', ''evaluator_ref'', ''assignment_method'',
      ''assignment_unit'', ''observation_sha256'', ''policy_sha256'', ''change_case_sha256'',
      ''review_result_sha256'', ''compared_at'', ''window_started_at'', ''window_ended_at'',
      ''observation_seconds'', ''baseline_deployment_ref'', ''candidate_deployment_ref'',
      ''baseline_sample_count'', ''candidate_sample_count'', ''confidence_level'', ''decision'',
      ''summary'', ''checks'', ''metrics'']"

definition result_looks :: "string \<Rightarrow> dict \<Rightarrow> canary_error + int \<times> int" where
  "result_looks name obj =
     attempt (canary_integer 1 100 name ''$.look_number'' (jget obj ''look_number'')) (\<lambda>look.
     attempt (canary_integer 1 100 name ''$.maximum_looks'' (jget obj ''maximum_looks'')) (\<lambda>looks.
     attempt (ensure (look \<le> looks)
                (Canary_error name ''$.look_number'' ''must not exceed maximum_looks'')) (\<lambda>_.
     Inr (look, looks))))"

definition result_times :: "string \<Rightarrow> dict \<Rightarrow> canary_error + string \<times> string \<times> string \<times> int" where
  \<comment> \<open>\<open>started_at\<close>, \<open>ended_at\<close>, \<open>compared_at\<close> and the window length\<close>
  "result_times name obj =
     attempt (canary_timestamp name ''$.window_started_at'' (jget obj ''window_started_at'')) (\<lambda>started.
     attempt (canary_timestamp name ''$.window_ended_at'' (jget obj ''window_ended_at'')) (\<lambda>ended.
     attempt (canary_timestamp name ''$.compared_at'' (jget obj ''compared_at'')) (\<lambda>compared.
     attempt (ensure (timestamp_value started < timestamp_value ended)
                (Canary_error name ''$.window_ended_at'' ''must be after window_started_at'')) (\<lambda>_.
     attempt (ensure (\<not> timestamp_value compared < timestamp_value ended)
                (Canary_error name ''$.compared_at'' ''must be at or after window_ended_at'')) (\<lambda>_.
     attempt (canary_integer 1 2592000 name ''$.observation_seconds''
                (jget obj ''observation_seconds'')) (\<lambda>seconds.
     attempt (ensure (seconds = (timestamp_value ended - timestamp_value started) div 1000000)
                (Canary_error name ''$.observation_seconds''
                   ''must equal the exact observation-window duration'')) (\<lambda>_.
     Inr (started, ended, compared, seconds))))))))"

definition result_deployments :: "string \<Rightarrow> dict \<Rightarrow> canary_error + string \<times> string" where
  "result_deployments name obj =
     attempt (canary_reference name ''$.baseline_deployment_ref'' (jget obj ''baseline_deployment_ref'')) (\<lambda>b.
     attempt (canary_reference name ''$.candidate_deployment_ref'' (jget obj ''candidate_deployment_ref'')) (\<lambda>c.
     attempt (ensure (b \<noteq> c)
                (Canary_error name ''$.candidate_deployment_ref''
                   ''baseline and candidate deployment references must differ'')) (\<lambda>_.
     Inr (b, c))))"

definition result_identity :: "string \<Rightarrow> dict \<Rightarrow> canary_error + string \<times> string \<times> string \<times> string \<times> string \<times> string" where
  "result_identity name obj =
     attempt (canary_bounded_text 128 name ''$.engine_version'' (jget obj ''engine_version'')) (\<lambda>ev.
     attempt (canary_identifier name ''$.comparison_id'' (jget obj ''comparison_id'')) (\<lambda>i.
     attempt (canary_identifier name ''$.case_id'' (jget obj ''case_id'')) (\<lambda>c.
     attempt (canary_reference name ''$.change_ref'' (jget obj ''change_ref'')) (\<lambda>r.
     attempt (canary_identifier name ''$.policy_id'' (jget obj ''policy_id'')) (\<lambda>p.
     attempt (canary_reference name ''$.evaluator_ref'' (jget obj ''evaluator_ref'')) (\<lambda>e.
     Inr (ev, i, c, r, p, e)))))))"

definition result_digests :: "string \<Rightarrow> dict \<Rightarrow> canary_error + string \<times> string \<times> string \<times> string" where
  "result_digests name obj =
     attempt (canary_sha256 name ''$.observation_sha256'' (jget obj ''observation_sha256'')) (\<lambda>ob.
     attempt (canary_sha256 name ''$.policy_sha256'' (jget obj ''policy_sha256'')) (\<lambda>p.
     attempt (canary_sha256 name ''$.change_case_sha256'' (jget obj ''change_case_sha256'')) (\<lambda>c.
     attempt (canary_sha256 name ''$.review_result_sha256'' (jget obj ''review_result_sha256'')) (\<lambda>r.
     Inr (ob, p, c, r)))))"

definition parse_canary_result :: "json \<Rightarrow> canary_error + canary_result" where
  "parse_canary_result document =
     (let name = ''canary result'' in
      attempt (canary_object name ''$'' canary_result_keys document) (\<lambda>obj.
      attempt (ensure (jget obj ''schema_version'' = JStr CANARY_RESULT_SCHEMA_VERSION)
                 (Canary_error name ''$.schema_version''
                    (''expected '' @ py_repr CANARY_RESULT_SCHEMA_VERSION))) (\<lambda>_.
      attempt (result_looks name obj) (\<lambda>(look, looks).
      attempt (result_times name obj) (\<lambda>(started, ended, compared, seconds).
      attempt (canary_result_checks (jget obj ''checks'')) (\<lambda>checks.
      attempt (canary_result_metrics (jget obj ''metrics'')) (\<lambda>metrics.
      attempt (result_deployments name obj) (\<lambda>(bref, cref).
      attempt (result_identity name obj) (\<lambda>(ev, i, cid, ref, pid, evaluator).
      attempt (canary_enum canary_assignment_method_value canary_assignment_method_members
                 name ''$.assignment_method'' (jget obj ''assignment_method'')) (\<lambda>method.
      attempt (canary_enum canary_assignment_unit_value canary_assignment_unit_members
                 name ''$.assignment_unit'' (jget obj ''assignment_unit'')) (\<lambda>unit.
      attempt (result_digests name obj) (\<lambda>(osha, psha, csha, rsha).
      attempt (canary_integer 1 MAX_CANARY_SAMPLE_COUNT name ''$.baseline_sample_count''
                 (jget obj ''baseline_sample_count'')) (\<lambda>bn.
      attempt (canary_integer 1 MAX_CANARY_SAMPLE_COUNT name ''$.candidate_sample_count''
                 (jget obj ''candidate_sample_count'')) (\<lambda>cn.
      attempt (canary_number (fl (9/10)) ''0.9'' (fl (999/1000)) ''0.999'' name ''$.confidence_level''
                 (jget obj ''confidence_level'')) (\<lambda>level.
      attempt (canary_enum canary_decision_value canary_decision_members
                 name ''$.decision'' (jget obj ''decision'')) (\<lambda>decision.
      attempt (canary_bounded_text 8192 name ''$.summary'' (jget obj ''summary'')) (\<lambda>summary.
      Inr \<lparr>crs_schema_version = CANARY_RESULT_SCHEMA_VERSION, crs_engine_version = ev,
           crs_comparison_id = i, crs_look_number = look, crs_maximum_looks = looks,
           crs_case_id = cid, crs_change_ref = ref, crs_policy_id = pid,
           crs_evaluator_ref = evaluator, crs_assignment_method = method,
           crs_assignment_unit = unit, crs_observation_sha256 = osha, crs_policy_sha256 = psha,
           crs_change_case_sha256 = csha, crs_review_result_sha256 = rsha,
           crs_compared_at = compared, crs_window_started_at = started,
           crs_window_ended_at = ended, crs_observation_seconds = seconds,
           crs_baseline_deployment_ref = bref, crs_candidate_deployment_ref = cref,
           crs_baseline_sample_count = bn, crs_candidate_sample_count = cn,
           crs_confidence_level = level, crs_decision = decision, crs_summary = summary,
           crs_checks = checks, crs_metrics = metrics\<rparr>)))))))))))))))))"

subsection \<open>Rendering\<close>

definition canary_metric_policy_to_json :: "canary_metric_policy \<Rightarrow> json" where
  "canary_metric_policy_to_json m = JObj
     [(''metric_id'', JStr (cmp_metric_id m)),
      (''direction'', JStr (canary_metric_direction_value (cmp_direction m))),
      (''maximum_degradation'', JFloat (Fin (cmp_maximum_degradation m)))]"

definition canary_policy_to_json :: "canary_policy \<Rightarrow> json" where
  "canary_policy_to_json p = JObj
     [(''schema_version'', JStr (cpo_schema_version p)),
      (''policy_id'', JStr (cpo_policy_id p)),
      (''declared_at'', JStr (cpo_declared_at p)),
      (''confidence_level'', JFloat (Fin (cpo_confidence_level p))),
      (''maximum_looks'', JInt (cpo_maximum_looks p)),
      (''minimum_observation_seconds'', JInt (cpo_minimum_observation_seconds p)),
      (''minimum_sample_size_per_cohort'', JInt (cpo_minimum_sample_size_per_cohort p)),
      (''evaluator_ref'', JStr (cpo_evaluator_ref p)),
      (''assignment_unit'', JStr (canary_assignment_unit_value (cpo_assignment_unit p))),
      (''assignment_method'', JStr (canary_assignment_method_value (cpo_assignment_method p))),
      (''require_sticky_assignment'', JBool (cpo_require_sticky_assignment p)),
      (''metrics'', JArr (map canary_metric_policy_to_json (cpo_metrics p)))]"

definition canary_check_to_json :: "canary_check \<Rightarrow> json" where
  "canary_check_to_json c = JObj
     [(''code'', JStr (cck_code c)), (''status'', JStr (check_status_value (cck_status c))),
      (''message'', JStr (cck_message c))]"

definition canary_metric_result_to_json :: "canary_metric_result \<Rightarrow> json" where
  "canary_metric_result_to_json m = JObj
     [(''metric_id'', JStr (cmr_metric_id m)),
      (''direction'', JStr (canary_metric_direction_value (cmr_direction m))),
      (''maximum_degradation'', JFloat (Fin (cmr_maximum_degradation m))),
      (''baseline_rate'', JFloat (Fin (cmr_baseline_rate m))),
      (''candidate_rate'', JFloat (Fin (cmr_candidate_rate m))),
      (''observed_difference'', JFloat (Fin (cmr_observed_difference m))),
      (''confidence_lower'', JFloat (Fin (cmr_confidence_lower m))),
      (''confidence_upper'', JFloat (Fin (cmr_confidence_upper m))),
      (''status'', JStr (canary_metric_status_value (cmr_status m)))]"

definition canary_result_to_json :: "canary_result \<Rightarrow> json" where
  "canary_result_to_json r = JObj
     [(''schema_version'', JStr (crs_schema_version r)),
      (''engine_version'', JStr (crs_engine_version r)),
      (''comparison_id'', JStr (crs_comparison_id r)),
      (''look_number'', JInt (crs_look_number r)),
      (''maximum_looks'', JInt (crs_maximum_looks r)),
      (''case_id'', JStr (crs_case_id r)),
      (''change_ref'', JStr (crs_change_ref r)),
      (''policy_id'', JStr (crs_policy_id r)),
      (''evaluator_ref'', JStr (crs_evaluator_ref r)),
      (''assignment_method'', JStr (canary_assignment_method_value (crs_assignment_method r))),
      (''assignment_unit'', JStr (canary_assignment_unit_value (crs_assignment_unit r))),
      (''observation_sha256'', JStr (crs_observation_sha256 r)),
      (''policy_sha256'', JStr (crs_policy_sha256 r)),
      (''change_case_sha256'', JStr (crs_change_case_sha256 r)),
      (''review_result_sha256'', JStr (crs_review_result_sha256 r)),
      (''compared_at'', JStr (crs_compared_at r)),
      (''window_started_at'', JStr (crs_window_started_at r)),
      (''window_ended_at'', JStr (crs_window_ended_at r)),
      (''observation_seconds'', JInt (crs_observation_seconds r)),
      (''baseline_deployment_ref'', JStr (crs_baseline_deployment_ref r)),
      (''candidate_deployment_ref'', JStr (crs_candidate_deployment_ref r)),
      (''baseline_sample_count'', JInt (crs_baseline_sample_count r)),
      (''candidate_sample_count'', JInt (crs_candidate_sample_count r)),
      (''confidence_level'', JFloat (Fin (crs_confidence_level r))),
      (''decision'', JStr (canary_decision_value (crs_decision r))),
      (''summary'', JStr (crs_summary r)),
      (''checks'', JArr (map canary_check_to_json (crs_checks r))),
      (''metrics'', JArr (map canary_metric_result_to_json (crs_metrics r)))]"

subsection \<open>When a value is accepted\<close>

lemma canary_string_Inr [strict_iff]:
  "canary_string f d name path v = Inr s \<longleftrightarrow> v = JStr s \<and> f s"
  by (auto simp: canary_string_def split: json.split if_splits)

lemma canary_identifier_Inr [strict_iff]: "canary_identifier name path v = Inr s \<longleftrightarrow> v = JStr s \<and> safe_id_ok s"
  by (simp add: canary_identifier_def strict_iff)

lemma canary_reference_Inr [strict_iff]: "canary_reference name path v = Inr s \<longleftrightarrow> v = JStr s \<and> reference_ok s"
  by (simp add: canary_reference_def strict_iff)

lemma canary_sha256_Inr [strict_iff]: "canary_sha256 name path v = Inr s \<longleftrightarrow> v = JStr s \<and> sha256_ok s"
  by (simp add: canary_sha256_def strict_iff)

lemma canary_bounded_text_Inr [strict_iff]:
  "canary_bounded_text n name path v = Inr s \<longleftrightarrow> v = JStr s \<and> bounded_text_ok n s"
  by (simp add: canary_bounded_text_def strict_iff)

lemma canary_timestamp_Inr [strict_iff]:
  "canary_timestamp name path v = Inr s \<longleftrightarrow> v = JStr s \<and> utc_timestamp_ok s"
  by (auto simp: canary_timestamp_def strict_iff utc_timestamp_ok_def split: option.split if_splits)

lemma canary_integer_Inr [strict_iff]:
  "canary_integer lo hi name path v = Inr i \<longleftrightarrow> v = JInt i \<and> lo \<le> i \<and> i \<le> hi"
  by (auto simp: canary_integer_def Let_def split: json.split if_splits)

lemma canary_number_Inr [strict_iff]:
  "canary_number lo lt hi ht name path v = Inr x \<longleftrightarrow> number_as_float v = Some (Fin x) \<and> lo \<le> x \<and> x \<le> hi"
  by (auto simp: canary_number_def Let_def split: option.split pyfloat.split if_splits)

lemma canary_boolean_Inr [strict_iff]: "canary_boolean name path v = Inr b \<longleftrightarrow> v = JBool b"
  by (auto simp: canary_boolean_def split: json.split)

lemma unit_number_Inr [strict_iff]:
  "unit_number lo lt name path item k = Inr x \<longleftrightarrow>
    number_as_float (jget item k) = Some (Fin x) \<and> lo \<le> x \<and> x \<le> 1"
  by (simp add: unit_number_def strict_iff)

lemma canary_array_Inr [strict_iff]:
  "canary_array name path v = Inr vs \<longleftrightarrow> v = JArr vs \<and> 1 \<le> length vs \<and> length vs \<le> MAX_CANARY_METRICS"
  by (auto simp: canary_array_def Let_def split: json.split if_splits)

context str_enum
begin

lemma canary_enum_Inr: "canary_enum val members name path v = Inr m \<longleftrightarrow> v = JStr (val m)"
proof (cases v)
  case (JStr s)
  then show ?thesis
    by (auto simp: canary_enum_def lookup_Some lookup_None inj_val split: option.split)
qed (simp_all add: canary_enum_def)

end

lemmas canary_enums_Inr [strict_iff] =
  canary_metric_direction.canary_enum_Inr canary_metric_status.canary_enum_Inr
  canary_assignment_unit.canary_enum_Inr canary_assignment_method.canary_enum_Inr
  canary_decision.canary_enum_Inr check_status.canary_enum_Inr

lemmas canary_values_inj [strict_iff] =
  canary_metric_direction.inj_val canary_metric_status.inj_val canary_assignment_unit.inj_val
  canary_assignment_method.inj_val canary_decision.inj_val check_status.inj_val

lemma number_as_float_Fin [simp]: "number_as_float (JFloat (Fin x)) = Some (Fin x)"
  by (simp add: number_as_float_def)

lemma canary_object_Inr [strict_iff]:
  "canary_object name path required v = Inr obj \<longleftrightarrow> v = JObj obj \<and> exact_keys required obj"
  by (auto simp: canary_object_def exact_keys_def Let_def has_key_def filter_empty_conv
      split: json.split if_splits)

subsection \<open>Well-formed documents\<close>

definition wf_metric_policy :: "canary_metric_policy \<Rightarrow> bool" where
  "wf_metric_policy m \<longleftrightarrow> safe_id_ok (cmp_metric_id m)
     \<and> 0 \<le> cmp_maximum_degradation m \<and> cmp_maximum_degradation m \<le> 1"

definition wf_canary_policy :: "canary_policy \<Rightarrow> bool" where
  "wf_canary_policy p \<longleftrightarrow> cpo_schema_version p = CANARY_POLICY_SCHEMA_VERSION
     \<and> safe_id_ok (cpo_policy_id p) \<and> utc_timestamp_ok (cpo_declared_at p)
     \<and> fl (9/10) \<le> cpo_confidence_level p \<and> cpo_confidence_level p \<le> fl (999/1000)
     \<and> 1 \<le> cpo_maximum_looks p \<and> cpo_maximum_looks p \<le> 100
     \<and> 60 \<le> cpo_minimum_observation_seconds p \<and> cpo_minimum_observation_seconds p \<le> 2592000
     \<and> 30 \<le> cpo_minimum_sample_size_per_cohort p
     \<and> cpo_minimum_sample_size_per_cohort p \<le> MAX_CANARY_SAMPLE_COUNT
     \<and> reference_ok (cpo_evaluator_ref p)
     \<and> 1 \<le> length (cpo_metrics p) \<and> length (cpo_metrics p) \<le> MAX_CANARY_METRICS
     \<and> list_all wf_metric_policy (cpo_metrics p)
     \<and> distinct (map cmp_metric_id (cpo_metrics p))"

interpretation metric_policy_codec: codec parse_canary_metric_policy canary_metric_policy_to_json wf_metric_policy
proof
  show "parse_canary_metric_policy i (canary_metric_policy_to_json m) = Inr m" if "wf_metric_policy m" for i m
    using that by (cases m) (simp add: parse_canary_metric_policy_def canary_metric_policy_to_json_def
        wf_metric_policy_def strict_iff Let_def exact_keys_def)
  show "wf_metric_policy m" if "parse_canary_metric_policy i v = Inr m" for i v m
    using that by (auto simp: parse_canary_metric_policy_def wf_metric_policy_def strict_iff Let_def)
qed

lemma parse_canary_policy_metrics_Inr:
  "parse_canary_policy_metrics v = Inr ms \<Longrightarrow> 1 \<le> length ms \<and> length ms \<le> MAX_CANARY_METRICS
    \<and> list_all wf_metric_policy ms \<and> distinct (map cmp_metric_id ms)"
  using metric_policy_codec.each_ok
  by (auto simp: parse_canary_policy_metrics_def strict_iff Let_def dest: each_length)

lemma parse_canary_policy_metrics_run:
  "1 \<le> length ms \<Longrightarrow> length ms \<le> MAX_CANARY_METRICS \<Longrightarrow> list_all wf_metric_policy ms \<Longrightarrow>
    distinct (map cmp_metric_id ms) \<Longrightarrow>
    parse_canary_policy_metrics (JArr (map canary_metric_policy_to_json ms)) = Inr ms"
  by (simp add: parse_canary_policy_metrics_def strict_iff Let_def metric_policy_codec.each_roundtrip)

lemma parse_canary_policy_wf: "parse_canary_policy v = Inr p \<Longrightarrow> wf_canary_policy p"
  using parse_canary_policy_metrics_Inr
  by (auto simp: parse_canary_policy_def wf_canary_policy_def strict_iff Let_def)

lemma parse_canary_policy_run: "wf_canary_policy p \<Longrightarrow> parse_canary_policy (canary_policy_to_json p) = Inr p"
  by (cases p) (simp add: parse_canary_policy_def canary_policy_to_json_def canary_policy_keys_def
      wf_canary_policy_def strict_iff Let_def exact_keys_def parse_canary_policy_metrics_run)

text \<open>Observations.\<close>

definition wf_metric_observation :: "int \<Rightarrow> canary_metric_observation \<Rightarrow> bool" where
  "wf_metric_observation n m \<longleftrightarrow> safe_id_ok (cmo_metric_id m) \<and> 0 \<le> cmo_event_count m \<and> cmo_event_count m \<le> n"

definition wf_cohort :: "canary_cohort \<Rightarrow> bool" where
  "wf_cohort c \<longleftrightarrow> reference_ok (coh_deployment_ref c) \<and> reference_ok (coh_evidence_ref c)
     \<and> 1 \<le> coh_sample_count c \<and> coh_sample_count c \<le> MAX_CANARY_SAMPLE_COUNT
     \<and> 1 \<le> length (coh_metrics c) \<and> length (coh_metrics c) \<le> MAX_CANARY_METRICS
     \<and> list_all (wf_metric_observation (coh_sample_count c)) (coh_metrics c)
     \<and> distinct (map cmo_metric_id (coh_metrics c))"

definition wf_canary_change :: "canary_change_binding \<Rightarrow> bool" where
  "wf_canary_change c \<longleftrightarrow> safe_id_ok (chb_case_id c) \<and> reference_ok (chb_change_ref c)
     \<and> sha256_ok (chb_change_case_sha256 c) \<and> sha256_ok (chb_review_result_sha256 c)"

definition wf_canary_window :: "canary_window \<Rightarrow> bool" where
  "wf_canary_window w \<longleftrightarrow> utc_timestamp_ok (win_started_at w) \<and> utc_timestamp_ok (win_ended_at w)"

definition window_microseconds :: "canary_window \<Rightarrow> int" where
  "window_microseconds w = timestamp_value (win_ended_at w) - timestamp_value (win_started_at w)"

definition wf_canary_observation :: "canary_observation \<Rightarrow> bool" where
  "wf_canary_observation c \<longleftrightarrow> cob_schema_version c = CANARY_OBSERVATION_SCHEMA_VERSION
     \<and> safe_id_ok (cob_comparison_id c) \<and> 1 \<le> cob_look_number c \<and> cob_look_number c \<le> 100
     \<and> utc_timestamp_ok (cob_observed_at c) \<and> wf_canary_change (cob_change c)
     \<and> safe_id_ok (pob_policy_id (cob_policy c)) \<and> sha256_ok (pob_policy_sha256 (cob_policy c))
     \<and> wf_canary_window (cob_window c) \<and> reference_ok (cob_evaluator_ref c)
     \<and> wf_cohort (cob_baseline c) \<and> wf_cohort (cob_candidate c)
     \<and> 0 < window_microseconds (cob_window c) \<and> window_microseconds (cob_window c) \<le> 2592000 * 1000000
     \<and> timestamp_value (win_ended_at (cob_window c)) \<le> timestamp_value (cob_observed_at c)
     \<and> coh_deployment_ref (cob_baseline c) \<noteq> coh_deployment_ref (cob_candidate c)"

lemma parse_metric_observation_ok:
  "parse_canary_metric_observation name path n i v = Inr m \<Longrightarrow> wf_metric_observation n m"
  by (auto simp: parse_canary_metric_observation_def wf_metric_observation_def strict_iff Let_def)

lemma parse_metric_observations_Inr:
  assumes "parse_metric_observations name path n v = Inr ms"
  shows "1 \<le> length ms \<and> length ms \<le> MAX_CANARY_METRICS
     \<and> list_all (wf_metric_observation n) ms \<and> distinct (map cmo_metric_id ms)"
proof -
  from assms obtain vs where "each (parse_canary_metric_observation name path n) 0 vs = Inr ms"
    and "1 \<le> length vs" "length vs \<le> MAX_CANARY_METRICS" "distinct (map cmo_metric_id ms)"
    by (auto simp: parse_metric_observations_def strict_iff)
  then show ?thesis
    using each_all [where P = "wf_metric_observation n"] parse_metric_observation_ok each_length by metis
qed

lemma parse_cohort_wf: "parse_cohort name path v = Inr c \<Longrightarrow> wf_cohort c"
  using parse_metric_observations_Inr
  by (auto simp: parse_cohort_def wf_cohort_def strict_iff)

lemma parse_canary_change_wf: "parse_canary_change name obj = Inr c \<Longrightarrow> wf_canary_change c"
  by (auto simp: parse_canary_change_def wf_canary_change_def strict_iff)

lemma parse_canary_window_wf: "parse_canary_window name obj = Inr w \<Longrightarrow> wf_canary_window w"
  by (auto simp: parse_canary_window_def wf_canary_window_def strict_iff)

lemma parse_canary_policy_binding_wf:
  "parse_canary_policy_binding name obj = Inr b \<Longrightarrow> safe_id_ok (pob_policy_id b) \<and> sha256_ok (pob_policy_sha256 b)"
  by (auto simp: parse_canary_policy_binding_def strict_iff)

lemma check_observation_times_Inr [strict_iff]:
  "check_observation_times name c = Inr d \<longleftrightarrow> d = c
     \<and> 0 < window_microseconds (cob_window c) \<and> window_microseconds (cob_window c) \<le> 2592000 * 1000000
     \<and> timestamp_value (win_ended_at (cob_window c)) \<le> timestamp_value (cob_observed_at c)
     \<and> coh_deployment_ref (cob_baseline c) \<noteq> coh_deployment_ref (cob_candidate c)"
  by (auto simp: check_observation_times_def window_microseconds_def Let_def)

lemma parse_canary_observation_wf: "parse_canary_observation v = Inr c \<Longrightarrow> wf_canary_observation c"
  by (auto simp: parse_canary_observation_def wf_canary_observation_def strict_iff Let_def
      dest: parse_canary_change_wf parse_canary_window_wf parse_canary_policy_binding_wf parse_cohort_wf)

text \<open>Results.\<close>

definition wf_canary_check :: "canary_check \<Rightarrow> bool" where
  "wf_canary_check c \<longleftrightarrow> safe_id_ok (cck_code c) \<and> bounded_text_ok 8192 (cck_message c)"

definition wf_metric_result :: "canary_metric_result \<Rightarrow> bool" where
  "wf_metric_result m \<longleftrightarrow> safe_id_ok (cmr_metric_id m)
     \<and> 0 \<le> cmr_maximum_degradation m \<and> cmr_maximum_degradation m \<le> 1
     \<and> 0 \<le> cmr_baseline_rate m \<and> cmr_baseline_rate m \<le> 1
     \<and> 0 \<le> cmr_candidate_rate m \<and> cmr_candidate_rate m \<le> 1
     \<and> - 1 \<le> cmr_observed_difference m \<and> cmr_observed_difference m \<le> 1
     \<and> \<bar>fl (cmr_observed_difference m - round12 (fl (cmr_candidate_rate m - cmr_baseline_rate m)))\<bar> \<le> fl (1 / 10 ^ 11)
     \<and> - 1 \<le> cmr_confidence_lower m \<and> cmr_confidence_lower m \<le> cmr_confidence_upper m
     \<and> cmr_confidence_upper m \<le> 1"

interpretation check_codec: keyed_codec canary_result_check canary_check_to_json wf_canary_check cck_code
proof
  show "canary_result_check seen i (canary_check_to_json c) = Inr c"
    if "wf_canary_check c" "cck_code c \<notin> set seen" for seen i c
    using that by (cases c) (simp add: canary_result_check_def canary_check_to_json_def
        wf_canary_check_def strict_iff Let_def exact_keys_def)
  show "wf_canary_check c \<and> cck_code c \<notin> set seen" if "canary_result_check seen i v = Inr c" for seen i v c
    using that by (auto simp: canary_result_check_def wf_canary_check_def strict_iff Let_def)
qed

interpretation metric_result_codec: keyed_codec canary_result_metric canary_metric_result_to_json
  wf_metric_result cmr_metric_id
proof
  show "canary_result_metric seen i (canary_metric_result_to_json m) = Inr m"
    if "wf_metric_result m" "cmr_metric_id m \<notin> set seen" for seen i m
    using that by (cases m) (simp add: canary_result_metric_def canary_metric_result_to_json_def
        wf_metric_result_def strict_iff Let_def exact_keys_def)
  show "wf_metric_result m \<and> cmr_metric_id m \<notin> set seen" if "canary_result_metric seen i v = Inr m" for seen i v m
    using that by (auto simp: canary_result_metric_def wf_metric_result_def strict_iff Let_def)
qed

definition wf_result_times :: "canary_result \<Rightarrow> bool" where
  "wf_result_times r \<longleftrightarrow> utc_timestamp_ok (crs_window_started_at r)
     \<and> utc_timestamp_ok (crs_window_ended_at r) \<and> utc_timestamp_ok (crs_compared_at r)
     \<and> timestamp_value (crs_window_started_at r) < timestamp_value (crs_window_ended_at r)
     \<and> timestamp_value (crs_window_ended_at r) \<le> timestamp_value (crs_compared_at r)
     \<and> 1 \<le> crs_observation_seconds r \<and> crs_observation_seconds r \<le> 2592000
     \<and> crs_observation_seconds r =
         (timestamp_value (crs_window_ended_at r) - timestamp_value (crs_window_started_at r)) div 1000000"

definition wf_result_bindings :: "canary_result \<Rightarrow> bool" where
  "wf_result_bindings r \<longleftrightarrow> bounded_text_ok 128 (crs_engine_version r)
     \<and> safe_id_ok (crs_comparison_id r) \<and> safe_id_ok (crs_case_id r) \<and> reference_ok (crs_change_ref r)
     \<and> safe_id_ok (crs_policy_id r) \<and> reference_ok (crs_evaluator_ref r)
     \<and> sha256_ok (crs_observation_sha256 r) \<and> sha256_ok (crs_policy_sha256 r)
     \<and> sha256_ok (crs_change_case_sha256 r) \<and> sha256_ok (crs_review_result_sha256 r)
     \<and> reference_ok (crs_baseline_deployment_ref r) \<and> reference_ok (crs_candidate_deployment_ref r)
     \<and> crs_baseline_deployment_ref r \<noteq> crs_candidate_deployment_ref r"

definition wf_canary_result :: "canary_result \<Rightarrow> bool" where
  "wf_canary_result r \<longleftrightarrow> crs_schema_version r = CANARY_RESULT_SCHEMA_VERSION
     \<and> 1 \<le> crs_look_number r \<and> crs_look_number r \<le> crs_maximum_looks r \<and> crs_maximum_looks r \<le> 100
     \<and> wf_result_times r \<and> wf_result_bindings r
     \<and> 1 \<le> crs_baseline_sample_count r \<and> crs_baseline_sample_count r \<le> MAX_CANARY_SAMPLE_COUNT
     \<and> 1 \<le> crs_candidate_sample_count r \<and> crs_candidate_sample_count r \<le> MAX_CANARY_SAMPLE_COUNT
     \<and> fl (9/10) \<le> crs_confidence_level r \<and> crs_confidence_level r \<le> fl (999/1000)
     \<and> bounded_text_ok 8192 (crs_summary r)
     \<and> length (crs_checks r) = 6 \<and> list_all wf_canary_check (crs_checks r)
     \<and> distinct (map cck_code (crs_checks r))
     \<and> 1 \<le> length (crs_metrics r) \<and> length (crs_metrics r) \<le> MAX_CANARY_METRICS
     \<and> list_all wf_metric_result (crs_metrics r) \<and> distinct (map cmr_metric_id (crs_metrics r))"

lemma canary_result_checks_Inr:
  "canary_result_checks v = Inr cs \<Longrightarrow>
    length cs = 6 \<and> list_all wf_canary_check cs \<and> distinct (map cck_code cs)"
  using check_codec.each_new_ok
  by (auto simp: canary_result_checks_def Let_def split: json.splits if_splits)

lemma canary_result_checks_run:
  "length cs = 6 \<Longrightarrow> list_all wf_canary_check cs \<Longrightarrow> distinct (map cck_code cs) \<Longrightarrow>
    canary_result_checks (JArr (map canary_check_to_json cs)) = Inr cs"
  by (simp add: canary_result_checks_def Let_def check_codec.each_new_roundtrip)

lemma canary_result_metrics_Inr:
  "canary_result_metrics v = Inr ms \<Longrightarrow> 1 \<le> length ms \<and> length ms \<le> MAX_CANARY_METRICS \<and>
    list_all wf_metric_result ms \<and> distinct (map cmr_metric_id ms)"
  using metric_result_codec.each_new_ok by (fastforce simp: canary_result_metrics_def strict_iff)

lemma canary_result_metrics_run:
  "1 \<le> length ms \<Longrightarrow> length ms \<le> MAX_CANARY_METRICS \<Longrightarrow> list_all wf_metric_result ms \<Longrightarrow>
    distinct (map cmr_metric_id ms) \<Longrightarrow>
    canary_result_metrics (JArr (map canary_metric_result_to_json ms)) = Inr ms"
  by (simp add: canary_result_metrics_def strict_iff metric_result_codec.each_new_roundtrip)

lemma result_looks_Inr [strict_iff]:
  "result_looks name obj = Inr r \<longleftrightarrow> jget obj ''look_number'' = JInt (fst r)
     \<and> jget obj ''maximum_looks'' = JInt (snd r)
     \<and> 1 \<le> fst r \<and> fst r \<le> 100 \<and> 1 \<le> snd r \<and> snd r \<le> 100 \<and> fst r \<le> snd r"
  by (cases r) (auto simp: result_looks_def strict_iff)

lemma result_deployments_Inr [strict_iff]:
  "result_deployments name obj = Inr r \<longleftrightarrow>
     jget obj ''baseline_deployment_ref'' = JStr (fst r) \<and> reference_ok (fst r) \<and>
     jget obj ''candidate_deployment_ref'' = JStr (snd r) \<and> reference_ok (snd r) \<and> fst r \<noteq> snd r"
  by (cases r) (auto simp: result_deployments_def strict_iff)

lemma result_times_Inr [strict_iff]:
  "result_times name obj = Inr r \<longleftrightarrow> (\<exists>s e c n. r = (s, e, c, n) \<and>
     jget obj ''window_started_at'' = JStr s \<and> utc_timestamp_ok s \<and>
     jget obj ''window_ended_at'' = JStr e \<and> utc_timestamp_ok e \<and>
     jget obj ''compared_at'' = JStr c \<and> utc_timestamp_ok c \<and>
     timestamp_value s < timestamp_value e \<and> timestamp_value e \<le> timestamp_value c \<and>
     jget obj ''observation_seconds'' = JInt n \<and> 1 \<le> n \<and> n \<le> 2592000 \<and>
     n = (timestamp_value e - timestamp_value s) div 1000000)"
  by (cases r) (auto simp: result_times_def strict_iff)

lemma result_identity_Inr [strict_iff]:
  "result_identity name obj = Inr r \<longleftrightarrow> (\<exists>ev i c f p e. r = (ev, i, c, f, p, e) \<and>
     jget obj ''engine_version'' = JStr ev \<and> bounded_text_ok 128 ev \<and>
     jget obj ''comparison_id'' = JStr i \<and> safe_id_ok i \<and>
     jget obj ''case_id'' = JStr c \<and> safe_id_ok c \<and>
     jget obj ''change_ref'' = JStr f \<and> reference_ok f \<and>
     jget obj ''policy_id'' = JStr p \<and> safe_id_ok p \<and>
     jget obj ''evaluator_ref'' = JStr e \<and> reference_ok e)"
  by (cases r) (auto simp: result_identity_def strict_iff)

lemma result_digests_Inr [strict_iff]:
  "result_digests name obj = Inr r \<longleftrightarrow> (\<exists>a p c d. r = (a, p, c, d) \<and>
     jget obj ''observation_sha256'' = JStr a \<and> sha256_ok a \<and>
     jget obj ''policy_sha256'' = JStr p \<and> sha256_ok p \<and>
     jget obj ''change_case_sha256'' = JStr c \<and> sha256_ok c \<and>
     jget obj ''review_result_sha256'' = JStr d \<and> sha256_ok d)"
  by (cases r) (auto simp: result_digests_def strict_iff)

lemma parse_canary_result_wf: "parse_canary_result v = Inr r \<Longrightarrow> wf_canary_result r"
  apply (clarsimp simp only: parse_canary_result_def strict_iff Let_def split_paired_Ex prod.case fst_conv snd_conv)
  apply (drule canary_result_checks_Inr canary_result_metrics_Inr)+
  apply (simp add: wf_canary_result_def wf_result_times_def wf_result_bindings_def)
  done

lemma parse_canary_result_run:
  "wf_canary_result r \<Longrightarrow> parse_canary_result (canary_result_to_json r) = Inr r"
  by (cases r) (simp add: parse_canary_result_def canary_result_to_json_def canary_result_keys_def
      wf_canary_result_def wf_result_times_def wf_result_bindings_def strict_iff Let_def exact_keys_def
      canary_result_checks_run canary_result_metrics_run)

end
