(* ===== verification/Canary.thy ===== *)
theory Canary
  imports Canary_Documents Review_Binding
begin

text \<open>
  The comparison of \<open>canary.py\<close>: Wilson score intervals on the two cohorts in binary64 arithmetic,
  the status of each metric, the bindings between the four artifacts, and the decision. The quantile
  \<open>NormalDist().inv_cdf\<close> is a parameter: its value rests on the C library's logarithm.
\<close>

subsection \<open>Square root\<close>

fun isqrt :: "nat \<Rightarrow> nat" where
  "isqrt n = (if n = 0 then 0 else let r = 2 * isqrt (n div 4) in if (r + 1) * (r + 1) \<le> n then r + 1 else r)"

declare isqrt.simps [simp del]

definition fl_sqrt :: "rat \<Rightarrow> rat" where
  \<comment> \<open>the correctly rounded root: an integer root with more than 54 bits, and a sticky half unit when
      it is inexact\<close>
  "fl_sqrt x =
     (if x \<le> 0 then 0
      else let k = nat (56 - binade x div 2);
               s = isqrt (nat \<lfloor>x * 4 ^ k\<rfloor>);
               r = (if of_nat (s * s) = x * 4 ^ k then of_nat s else of_nat s + 1 / 2)
           in fl (r / 2 ^ k))"

subsection \<open>Intervals and metric results\<close>

definition wilson_interval :: "int \<Rightarrow> int \<Rightarrow> rat \<Rightarrow> rat \<times> rat" where
  "wilson_interval event_count sample_count z_score =
     (let n = of_int sample_count;
          rate = fl (of_int event_count / n);
          z_squared = fl (z_score * z_score);
          denominator = fl (1 + fl (z_squared / n));
          center = fl (fl (rate + fl (z_squared / fl (2 * n))) / denominator);
          margin = fl (fl (z_score * fl_sqrt (fl (fl (fl (rate * fl (1 - rate)) / n)
                                                 + fl (z_squared / fl (fl (4 * n) * n)))))
                       / denominator)
      in (max 0 (fl (center - margin)), min 1 (fl (center + margin))))"

definition metric_status ::
  "canary_metric_direction \<Rightarrow> rat \<Rightarrow> rat \<Rightarrow> rat \<Rightarrow> canary_metric_status" where
  "metric_status direction maximum_degradation lower upper =
     (case direction of
        CanaryMetricDirection_HIGHER \<Rightarrow>
          (let boundary = - maximum_degradation in
           if boundary \<le> lower then CanaryMetricStatus_NONINFERIOR
           else if upper < boundary then CanaryMetricStatus_REGRESSION
           else CanaryMetricStatus_INCONCLUSIVE)
      | CanaryMetricDirection_LOWER \<Rightarrow>
          (let boundary = maximum_degradation in
           if upper \<le> boundary then CanaryMetricStatus_NONINFERIOR
           else if boundary < lower then CanaryMetricStatus_REGRESSION
           else CanaryMetricStatus_INCONCLUSIVE))"

definition z_score_for :: "(rat \<Rightarrow> rat) \<Rightarrow> rat \<Rightarrow> int \<Rightarrow> rat" where
  \<comment> \<open>two sides, two cohorts, all simultaneous comparisons\<close>
  "z_score_for inv_cdf confidence_level simultaneous_comparisons =
     (let alpha = fl (1 - confidence_level)
      in inv_cdf (fl (1 - fl (alpha / fl (4 * of_int simultaneous_comparisons)))))"

definition metric_result ::
  "(rat \<Rightarrow> rat) \<Rightarrow> canary_metric_policy \<Rightarrow> canary_metric_observation \<Rightarrow> int \<Rightarrow>
   canary_metric_observation \<Rightarrow> int \<Rightarrow> rat \<Rightarrow> int \<Rightarrow> canary_metric_result" where
  "metric_result inv_cdf policy baseline baseline_n candidate candidate_n confidence_level comparisons =
     (let z = z_score_for inv_cdf confidence_level comparisons;
          b = wilson_interval (cmo_event_count baseline) baseline_n z;
          c = wilson_interval (cmo_event_count candidate) candidate_n z;
          lower = fl (fst c - snd b);
          upper = fl (snd c - fst b);
          baseline_rate = fl (of_int (cmo_event_count baseline) / of_int baseline_n);
          candidate_rate = fl (of_int (cmo_event_count candidate) / of_int candidate_n);
          difference = fl (candidate_rate - baseline_rate)
      in \<lparr>cmr_metric_id = cmp_metric_id policy, cmr_direction = cmp_direction policy,
          cmr_maximum_degradation = round12 (cmp_maximum_degradation policy),
          cmr_baseline_rate = round12 baseline_rate, cmr_candidate_rate = round12 candidate_rate,
          cmr_observed_difference = round12 difference,
          cmr_confidence_lower = round12 lower, cmr_confidence_upper = round12 upper,
          cmr_status = metric_status (cmp_direction policy) (cmp_maximum_degradation policy) lower upper\<rparr>)"

subsection \<open>Matching the metrics\<close>

datatype compare_error = Canary_invalid canary_error | Metric_key_error string
  \<comment> \<open>\<open>CanaryValidationError\<close>, or a \<open>KeyError\<close> of the metric dictionary\<close>

definition checked :: "canary_error + 'a \<Rightarrow> compare_error + 'a" where
  "checked m = (case m of Inl e \<Rightarrow> Inl (Canary_invalid e) | Inr x \<Rightarrow> Inr x)"

type_synonym metric_dict = "(string \<times> canary_metric_observation) list"

definition metric_map :: "canary_cohort \<Rightarrow> string list \<Rightarrow> string \<Rightarrow> canary_error + metric_dict" where
  "metric_map cohort expected path =
     (let metrics = rev (map (\<lambda>m. (cmo_metric_id m, m)) (coh_metrics cohort));
          actual = map fst metrics;
          missing = sort (remdups (filter (\<lambda>i. i \<notin> set actual) expected));
          unknown = sort (remdups (filter (\<lambda>i. i \<notin> set expected) actual));
          details = (if missing = [] then [] else [''missing metric(s): '' @ join '', '' missing]) @
                    (if unknown = [] then [] else [''unknown metric(s): '' @ join '', '' unknown])
      in if details \<noteq> [] then Inl (Canary_error ''canary observation'' path (join ''; '' details))
         else Inr metrics)"

definition metric_at :: "metric_dict \<Rightarrow> string \<Rightarrow> compare_error + canary_metric_observation" where
  "metric_at d i = (case map_of d i of None \<Rightarrow> Inl (Metric_key_error i) | Some m \<Rightarrow> Inr m)"

definition canary_metric_results ::
  "(rat \<Rightarrow> rat) \<Rightarrow> canary_policy \<Rightarrow> canary_observation \<Rightarrow> metric_dict \<Rightarrow> metric_dict \<Rightarrow>
   compare_error + canary_metric_result list" where
  "canary_metric_results inv_cdf policy obs baseline candidate =
     each (\<lambda>_ m. attempt (metric_at baseline (cmp_metric_id m)) (\<lambda>b.
                 attempt (metric_at candidate (cmp_metric_id m)) (\<lambda>c.
                 Inr (metric_result inv_cdf m b (coh_sample_count (cob_baseline obs))
                        c (coh_sample_count (cob_candidate obs)) (cpo_confidence_level policy)
                        (int (length (cpo_metrics policy)) * cpo_maximum_looks policy)))))
       0 (cpo_metrics policy)"

subsection \<open>Bindings\<close>

definition observation_refuses :: "bool \<Rightarrow> string \<Rightarrow> string \<Rightarrow> canary_error + unit" where
  \<comment> \<open>\<open>if refused: raise CanaryValidationError("canary observation", path, message)\<close>\<close>
  "observation_refuses refused path msg = ensure (\<not> refused) (Canary_error ''canary observation'' path msg)"

definition check_artifact_bindings ::
  "canary_observation \<Rightarrow> canary_policy \<Rightarrow> change_case \<Rightarrow> string \<Rightarrow> string \<Rightarrow> string \<Rightarrow> canary_error + unit" where
  "check_artifact_bindings obs policy c policy_sha case_sha review_sha =
     attempt (observation_refuses (pob_policy_id (cob_policy obs) \<noteq> cpo_policy_id policy)
                ''$.policy.policy_id'' ''does not match the supplied canary policy'') (\<lambda>_.
     attempt (observation_refuses (pob_policy_sha256 (cob_policy obs) \<noteq> policy_sha)
                ''$.policy.policy_sha256'' ''does not match the exact supplied canary policy bytes'') (\<lambda>_.
     attempt (observation_refuses (chb_case_id (cob_change obs) \<noteq> cc_case_id c)
                ''$.change.case_id'' ''does not match the supplied change case'') (\<lambda>_.
     attempt (observation_refuses (chb_change_ref (cob_change obs) \<noteq> pc_change_ref (cc_proposed_change c))
                ''$.change.change_ref'' ''does not match the supplied change case'') (\<lambda>_.
     attempt (observation_refuses (chb_change_case_sha256 (cob_change obs) \<noteq> case_sha)
                ''$.change.change_case_sha256'' ''does not match the canonical supplied change case'') (\<lambda>_.
     observation_refuses (chb_review_result_sha256 (cob_change obs) \<noteq> review_sha)
       ''$.change.review_result_sha256'' ''does not match the exact supplied review-result bytes'')))))"

definition check_review_binding :: "review_binding \<Rightarrow> change_case \<Rightarrow> string \<Rightarrow> canary_error + unit" where
  "check_review_binding review c case_sha =
     (let refuse = (\<lambda>path msg. Canary_error ''review result'' path msg) in
      attempt (ensure (\<not> (rvb_case_id review \<noteq> cc_case_id c \<or> rvb_input_sha256 review \<noteq> case_sha
                          \<or> rvb_component review \<noteq> pc_component (cc_proposed_change c)))
                 (refuse ''$'' ''does not bind the supplied change case'')) (\<lambda>_.
      attempt (ensure (rvb_decision review \<in> {Decision_APPROVE, Decision_CONDITIONAL_PASS})
                 (refuse ''$.decision'' ''only an approved or conditional patch can enter canary comparison'')) (\<lambda>_.
      ensure (rvb_recommended_action review = RecommendedAction_PATCH)
        (refuse ''$.recommended_action'' ''the reviewed action must be patch''))))"

definition check_predeclared :: "canary_observation \<Rightarrow> canary_policy \<Rightarrow> canary_error + unit" where
  "check_predeclared obs policy =
     attempt (observation_refuses (cpo_maximum_looks policy < cob_look_number obs)
                ''$.look_number'' ''exceeds the predeclared maximum number of looks'') (\<lambda>_.
     attempt (observation_refuses (cob_evaluator_ref obs \<noteq> cpo_evaluator_ref policy)
                ''$.evaluator_ref'' ''does not match the predeclared evaluator reference'') (\<lambda>_.
     attempt (observation_refuses (asg_unit (cob_assignment obs) \<noteq> cpo_assignment_unit policy)
                ''$.assignment.unit'' ''does not match the predeclared assignment unit'') (\<lambda>_.
     observation_refuses (asg_method (cob_assignment obs) \<noteq> cpo_assignment_method policy)
       ''$.assignment.method'' ''does not match the predeclared assignment method'')))"

definition check_canary_order ::
  "canary_observation \<Rightarrow> canary_policy \<Rightarrow> review_binding \<Rightarrow> string \<Rightarrow> canary_error + unit" where
  \<comment> \<open>the policy and the review precede the window, the comparison follows the observation\<close>
  "check_canary_order obs policy review compared_at =
     attempt (ensure (\<not> timestamp_value (win_started_at (cob_window obs)) < timestamp_value (cpo_declared_at policy))
                (Canary_error ''canary policy'' ''$.declared_at''
                   ''must be at or before the observation window starts'')) (\<lambda>_.
     attempt (ensure (\<not> timestamp_value (win_started_at (cob_window obs)) < timestamp_value (rvb_reviewed_at review))
                (Canary_error ''review result'' ''$.reviewed_at''
                   ''must be at or before the observation window starts'')) (\<lambda>_.
     observation_refuses (timestamp_value compared_at < timestamp_value (cob_observed_at obs))
       ''$.observed_at'' ''cannot be later than the comparison time''))"

subsection \<open>Readiness, checks and the decision\<close>

definition window_seconds :: "canary_observation \<Rightarrow> int" where
  "window_seconds obs = window_microseconds (cob_window obs) div 1000000"

definition window_ready :: "canary_observation \<Rightarrow> canary_policy \<Rightarrow> bool" where
  "window_ready obs policy \<longleftrightarrow> cpo_minimum_observation_seconds policy \<le> window_seconds obs"

definition assignment_ready :: "canary_observation \<Rightarrow> canary_policy \<Rightarrow> bool" where
  "assignment_ready obs policy \<longleftrightarrow>
     (\<not> cpo_require_sticky_assignment policy \<or> asg_sticky (cob_assignment obs))
     \<and> \<not> asg_cross_cohort_contamination_detected (cob_assignment obs)"

definition sample_ready :: "canary_observation \<Rightarrow> canary_policy \<Rightarrow> bool" where
  "sample_ready obs policy \<longleftrightarrow>
     cpo_minimum_sample_size_per_cohort policy \<le> coh_sample_count (cob_baseline obs)
     \<and> cpo_minimum_sample_size_per_cohort policy \<le> coh_sample_count (cob_candidate obs)"

definition design_ready :: "canary_observation \<Rightarrow> canary_policy \<Rightarrow> bool" where
  "design_ready obs policy \<longleftrightarrow> window_ready obs policy \<and> assignment_ready obs policy \<and> sample_ready obs policy"

definition pass_or_warning :: "bool \<Rightarrow> check_status" where
  "pass_or_warning ready = (if ready then CheckStatus_PASS else CheckStatus_WARNING)"

definition canary_checks ::
  "canary_observation \<Rightarrow> canary_policy \<Rightarrow> canary_metric_status list \<Rightarrow> canary_check list" where
  "canary_checks obs policy statuses =
     [\<lparr>cck_code = ''predeclared_policy'', cck_status = CheckStatus_PASS,
       cck_message = ''The exact canary policy predates the observation window.''\<rparr>,
      \<lparr>cck_code = ''planned_look'', cck_status = CheckStatus_PASS,
       cck_message = ''The comparison is within the predeclared sequential-look plan.''\<rparr>,
      \<lparr>cck_code = ''observation_window'', cck_status = pass_or_warning (window_ready obs policy),
       cck_message = (if window_ready obs policy
         then ''The observation window meets the predeclared minimum.''
         else ''The observation window is shorter than the predeclared minimum.'')\<rparr>,
      \<lparr>cck_code = ''assignment_integrity'', cck_status = pass_or_warning (assignment_ready obs policy),
       cck_message = (if assignment_ready obs policy
         then ''Assignment declarations meet the predeclared integrity requirements.''
         else ''Assignment declarations do not meet the predeclared integrity requirements.'')\<rparr>,
      \<lparr>cck_code = ''cohort_sample_size'', cck_status = pass_or_warning (sample_ready obs policy),
       cck_message = (if sample_ready obs policy
         then ''Both cohorts meet the predeclared minimum sample size.''
         else ''At least one cohort is below the predeclared minimum sample size.'')\<rparr>,
      \<lparr>cck_code = ''metric_outcomes'',
       cck_status = (if CanaryMetricStatus_REGRESSION \<in> set statuses then CheckStatus_FAIL
         else if CanaryMetricStatus_INCONCLUSIVE \<in> set statuses then CheckStatus_WARNING
         else CheckStatus_PASS),
       cck_message = (if CanaryMetricStatus_REGRESSION \<in> set statuses
         then ''At least one outcome rate is conclusively beyond its degradation bound.''
         else if CanaryMetricStatus_INCONCLUSIVE \<in> set statuses
         then ''At least one outcome rate remains statistically inconclusive.''
         else ''Every outcome rate is noninferior within its degradation bound.'')\<rparr>]"

definition final_look_inconclusive ::
  "canary_observation \<Rightarrow> canary_policy \<Rightarrow> canary_metric_status list \<Rightarrow> bool" where
  "final_look_inconclusive obs policy statuses \<longleftrightarrow>
     cob_look_number obs = cpo_maximum_looks policy \<and> CanaryMetricStatus_INCONCLUSIVE \<in> set statuses"

definition canary_decision_for ::
  "canary_observation \<Rightarrow> canary_policy \<Rightarrow> canary_metric_status list \<Rightarrow> canary_decision" where
  "canary_decision_for obs policy statuses =
     (if \<not> design_ready obs policy then CanaryDecision_NEEDS_EVIDENCE
      else if CanaryMetricStatus_REGRESSION \<in> set statuses then CanaryDecision_ROLLBACK
      else if final_look_inconclusive obs policy statuses then CanaryDecision_NEEDS_EVIDENCE
      else if CanaryMetricStatus_INCONCLUSIVE \<in> set statuses then CanaryDecision_CONTINUE
      else CanaryDecision_PROMOTE)"

definition canary_summary ::
  "canary_observation \<Rightarrow> canary_policy \<Rightarrow> canary_metric_status list \<Rightarrow> string" where
  "canary_summary obs policy statuses =
     (case canary_decision_for obs policy statuses of
        CanaryDecision_PROMOTE \<Rightarrow>
          ''The candidate is noninferior on every predeclared outcome rate and may be promoted.''
      | CanaryDecision_CONTINUE \<Rightarrow>
          ''The minimum design requirements are met, but more canary evidence is required.''
      | CanaryDecision_ROLLBACK \<Rightarrow>
          ''At least one predeclared outcome rate regressed beyond its allowed bound.''
      | CanaryDecision_NEEDS_EVIDENCE \<Rightarrow>
          (if final_look_inconclusive obs policy statuses \<and> design_ready obs policy
           then ''The predeclared final look remains inconclusive; a new prospective plan is required.''
           else ''The observation does not meet the predeclared window, assignment, or sample contract.''))"

subsection \<open>The comparison\<close>

definition canary_parse_json_bytes :: "library \<Rightarrow> string \<Rightarrow> nat \<Rightarrow> string \<Rightarrow> canary_error + json" where
  "canary_parse_json_bytes lib name maximum raw =
     (if \<not> (1 \<le> length raw \<and> length raw \<le> maximum) then
        Inl (Canary_error name ''$'' (''expected from 1 to '' @ dec_nat maximum @ '' bytes''))
      else case lib_decode_utf8 lib raw of
        None \<Rightarrow> Inl (Canary_error name ''$'' ''document is not valid UTF-8'')
      | Some text \<Rightarrow>
          (case parse_json_text lib text name maximum of
             Inl e \<Rightarrow> Inl (Canary_error name ''$'' e)
           | Inr document \<Rightarrow> Inr document))"

definition parse_canary_policy_bytes :: "library \<Rightarrow> string \<Rightarrow> canary_error + canary_policy" where
  "parse_canary_policy_bytes lib raw =
     attempt (canary_parse_json_bytes lib ''canary policy'' (256 * 1024) raw) parse_canary_policy"

definition parse_canary_observation_bytes :: "library \<Rightarrow> string \<Rightarrow> canary_error + canary_observation" where
  "parse_canary_observation_bytes lib raw =
     attempt (canary_parse_json_bytes lib ''canary observation'' (2 * 1024 * 1024) raw) parse_canary_observation"

definition parse_canary_result_bytes :: "library \<Rightarrow> string \<Rightarrow> canary_error + canary_result" where
  "parse_canary_result_bytes lib raw =
     attempt (canary_parse_json_bytes lib ''canary result'' (2 * 1024 * 1024) raw) parse_canary_result"

definition parse_change_case_bytes :: "library \<Rightarrow> string \<Rightarrow> canary_error + change_case" where
  "parse_change_case_bytes lib raw =
     attempt (canary_parse_json_bytes lib ''change case'' (5 * 1024 * 1024) raw) (\<lambda>document.
     case parse_change_case document of
       Inl _ \<Rightarrow> Inl (Canary_error ''change case'' ''$'' ''document is not a valid change case'')
     | Inr c \<Rightarrow> Inr c)"

definition parse_canary_review :: "library \<Rightarrow> string \<Rightarrow> canary_error + review_binding" where
  "parse_canary_review lib raw =
     (if \<not> (1 \<le> length raw \<and> length raw \<le> 5 * 1024 * 1024) then
        Inl (Canary_error ''review result'' ''$''
               (''expected from 1 to '' @ dec_nat (5 * 1024 * 1024) @ '' bytes''))
      else case parse_review_result_bytes lib raw of
        Inl _ \<Rightarrow> Inl (Canary_error ''review result'' ''$'' ''document is not a valid closed review result'')
      | Inr review \<Rightarrow> Inr review)"

record canary_inputs =
  cin_observation_bytes :: string
  cin_policy_bytes :: string
  cin_change_case_bytes :: string
  cin_review_result_bytes :: string

record canary_evidence =
  cev_observation :: canary_observation
  cev_policy :: canary_policy
  cev_change_case :: change_case
  cev_review :: review_binding

definition parse_canary_inputs :: "library \<Rightarrow> canary_inputs \<Rightarrow> canary_error + canary_evidence" where
  "parse_canary_inputs lib inputs =
     attempt (parse_canary_observation_bytes lib (cin_observation_bytes inputs)) (\<lambda>obs.
     attempt (parse_canary_policy_bytes lib (cin_policy_bytes inputs)) (\<lambda>policy.
     attempt (parse_change_case_bytes lib (cin_change_case_bytes inputs)) (\<lambda>c.
     attempt (parse_canary_review lib (cin_review_result_bytes inputs)) (\<lambda>review.
     Inr \<lparr>cev_observation = obs, cev_policy = policy, cev_change_case = c, cev_review = review\<rparr>))))"

definition check_canary_evidence ::
  "library \<Rightarrow> canary_inputs \<Rightarrow> string \<Rightarrow> canary_evidence \<Rightarrow> canary_error + unit" where
  "check_canary_evidence lib inputs compared_at ev =
     (let case_sha = document_digest lib (change_case_to_json (cev_change_case ev)) in
      attempt (check_artifact_bindings (cev_observation ev) (cev_policy ev) (cev_change_case ev)
                 (lib_sha256 lib (cin_policy_bytes inputs)) case_sha
                 (lib_sha256 lib (cin_review_result_bytes inputs))) (\<lambda>_.
      attempt (check_review_binding (cev_review ev) (cev_change_case ev) case_sha) (\<lambda>_.
      attempt (check_predeclared (cev_observation ev) (cev_policy ev)) (\<lambda>_.
      check_canary_order (cev_observation ev) (cev_policy ev) (cev_review ev) compared_at))))"

definition canary_comparison ::
  "library \<Rightarrow> canary_inputs \<Rightarrow> string \<Rightarrow> canary_evidence \<Rightarrow> canary_metric_result list \<Rightarrow> canary_result" where
  "canary_comparison lib inputs compared_at ev results =
     (let obs = cev_observation ev; policy = cev_policy ev; c = cev_change_case ev;
          statuses = map cmr_status results
      in \<lparr>crs_schema_version = CANARY_RESULT_SCHEMA_VERSION, crs_engine_version = ENGINE_VERSION,
          crs_comparison_id = cob_comparison_id obs, crs_look_number = cob_look_number obs,
          crs_maximum_looks = cpo_maximum_looks policy, crs_case_id = cc_case_id c,
          crs_change_ref = pc_change_ref (cc_proposed_change c), crs_policy_id = cpo_policy_id policy,
          crs_evaluator_ref = cpo_evaluator_ref policy,
          crs_assignment_method = cpo_assignment_method policy,
          crs_assignment_unit = cpo_assignment_unit policy,
          crs_observation_sha256 = lib_sha256 lib (cin_observation_bytes inputs),
          crs_policy_sha256 = lib_sha256 lib (cin_policy_bytes inputs),
          crs_change_case_sha256 = document_digest lib (change_case_to_json c),
          crs_review_result_sha256 = lib_sha256 lib (cin_review_result_bytes inputs),
          crs_compared_at = compared_at, crs_window_started_at = win_started_at (cob_window obs),
          crs_window_ended_at = win_ended_at (cob_window obs),
          crs_observation_seconds = window_seconds obs,
          crs_baseline_deployment_ref = coh_deployment_ref (cob_baseline obs),
          crs_candidate_deployment_ref = coh_deployment_ref (cob_candidate obs),
          crs_baseline_sample_count = coh_sample_count (cob_baseline obs),
          crs_candidate_sample_count = coh_sample_count (cob_candidate obs),
          crs_confidence_level = cpo_confidence_level policy,
          crs_decision = canary_decision_for obs policy statuses,
          crs_summary = canary_summary obs policy statuses,
          crs_checks = canary_checks obs policy statuses, crs_metrics = results\<rparr>)"

definition compare_canary_outcomes ::
  "library \<Rightarrow> canary_inputs \<Rightarrow> string \<Rightarrow> compare_error + canary_result" where
  \<comment> \<open>\<open>compared_at\<close> is the text \<open>utc_timestamp\<close> gives for the comparison time\<close>
  "compare_canary_outcomes lib inputs compared_at =
     attempt (checked (parse_canary_inputs lib inputs)) (\<lambda>ev.
      attempt (checked (check_canary_evidence lib inputs compared_at ev)) (\<lambda>_.
      let obs = cev_observation ev; policy = cev_policy ev;
          expected = map cmp_metric_id (cpo_metrics policy) in
      attempt (checked (metric_map (cob_baseline obs) expected ''$.baseline.metrics'')) (\<lambda>b.
      attempt (checked (metric_map (cob_candidate obs) expected ''$.candidate.metrics'')) (\<lambda>c.
      attempt (canary_metric_results (lib_inv_cdf lib) policy obs b c) (\<lambda>results.
      Inr (canary_comparison lib inputs compared_at ev results))))))"

subsection \<open>Metrics are found\<close>

lemma checked_Inr [strict_iff]: "checked m = Inr x \<longleftrightarrow> m = Inr x"
  by (cases m) (simp_all add: checked_def)

lemma observation_refuses_Inr [strict_iff]: "observation_refuses c p m = Inr u \<longleftrightarrow> \<not> c"
  by (simp add: observation_refuses_def strict_iff)

lemma metric_map_Inr [strict_iff]:
  "metric_map cohort expected path = Inr d \<longleftrightarrow>
     set (map cmo_metric_id (coh_metrics cohort)) = set expected
     \<and> d = rev (map (\<lambda>m. (cmo_metric_id m, m)) (coh_metrics cohort))"
proof -
  have nil: "sort (remdups xs) = [] \<longleftrightarrow> xs = []" for xs :: "string list" by simp
  show ?thesis
    by (auto simp: metric_map_def Let_def nil filter_empty_conv comp_def image_image)
qed

lemma metric_at_found:
  assumes "metric_map cohort expected path = Inr d" "i \<in> set expected" "wf_cohort cohort"
  obtains m where "metric_at d i = Inr m" "m \<in> set (coh_metrics cohort)" "cmo_metric_id m = i"
    "wf_metric_observation (coh_sample_count cohort) m"
proof -
  from assms(1) have ids: "i \<in> set (map cmo_metric_id (coh_metrics cohort))"
    and d: "d = rev (map (\<lambda>m. (cmo_metric_id m, m)) (coh_metrics cohort))"
    using assms(2) by (auto simp: strict_iff)
  from ids have "i \<in> fst ` set d" by (auto simp: d image_iff)
  then obtain m where m: "map_of d i = Some m"
    by (metis weak_map_of_SomeI imageE prod.collapse)
  then have "(i, m) \<in> set d" by (rule map_of_SomeD)
  then have "m \<in> set (coh_metrics cohort)" "cmo_metric_id m = i" by (auto simp: d)
  with m assms(3) that show thesis by (auto simp: metric_at_def wf_cohort_def list_all_iff)
qed

lemma each_Inr_exists:
  "(\<And>i x. x \<in> set xs \<Longrightarrow> \<exists>y. f i x = Inr y) \<Longrightarrow> \<exists>ys. each f i xs = Inr ys"
proof (induction xs arbitrary: i)
  case (Cons x xs)
  obtain y where "f i x = Inr y" using Cons.prems [of x i] by auto
  moreover obtain ys where "each f (Suc i) xs = Inr ys" using Cons.IH [of "Suc i"] Cons.prems by auto
  ultimately show ?case by simp
qed simp

lemma each_ids:
  "each f i xs = Inr ys \<Longrightarrow> (\<And>j x y. f j x = Inr y \<Longrightarrow> g y = h x) \<Longrightarrow> map g ys = map h xs"
  by (induction f i xs arbitrary: ys rule: each.induct) (auto simp: strict_iff)

lemma canary_metric_results_total:
  assumes "metric_map (cob_baseline obs) (map cmp_metric_id (cpo_metrics policy)) p = Inr b"
    and "metric_map (cob_candidate obs) (map cmp_metric_id (cpo_metrics policy)) q = Inr c"
    and "wf_canary_observation obs"
  shows "\<exists>rs. canary_metric_results inv_cdf policy obs b c = Inr rs"
  unfolding canary_metric_results_def
proof (rule each_Inr_exists, goal_cases)
  case (1 i m)
  then have "cmp_metric_id m \<in> set (map cmp_metric_id (cpo_metrics policy))" by auto
  moreover have "wf_cohort (cob_baseline obs)" "wf_cohort (cob_candidate obs)"
    using assms(3) by (auto simp: wf_canary_observation_def)
  ultimately obtain x y where "metric_at b (cmp_metric_id m) = Inr x" "metric_at c (cmp_metric_id m) = Inr y"
    using metric_at_found [OF assms(1)] metric_at_found [OF assms(2)] by metis
  then show ?case by simp
qed

subsection \<open>When a comparison succeeds\<close>

definition canary_bound :: "library \<Rightarrow> canary_inputs \<Rightarrow> string \<Rightarrow> canary_evidence \<Rightarrow> bool" where
  \<comment> \<open>the four artifacts belong together and happened in order\<close>
  "canary_bound lib inputs compared_at ev \<longleftrightarrow>
     (let obs = cev_observation ev; policy = cev_policy ev; c = cev_change_case ev; review = cev_review ev;
          case_sha = document_digest lib (change_case_to_json c) in
      pob_policy_id (cob_policy obs) = cpo_policy_id policy
      \<and> pob_policy_sha256 (cob_policy obs) = lib_sha256 lib (cin_policy_bytes inputs)
      \<and> chb_case_id (cob_change obs) = cc_case_id c
      \<and> chb_change_ref (cob_change obs) = pc_change_ref (cc_proposed_change c)
      \<and> chb_change_case_sha256 (cob_change obs) = case_sha
      \<and> chb_review_result_sha256 (cob_change obs) = lib_sha256 lib (cin_review_result_bytes inputs)
      \<and> rvb_case_id review = cc_case_id c \<and> rvb_input_sha256 review = case_sha
      \<and> rvb_component review = pc_component (cc_proposed_change c)
      \<and> rvb_decision review \<in> {Decision_APPROVE, Decision_CONDITIONAL_PASS}
      \<and> rvb_recommended_action review = RecommendedAction_PATCH
      \<and> cob_look_number obs \<le> cpo_maximum_looks policy
      \<and> cob_evaluator_ref obs = cpo_evaluator_ref policy
      \<and> asg_unit (cob_assignment obs) = cpo_assignment_unit policy
      \<and> asg_method (cob_assignment obs) = cpo_assignment_method policy
      \<and> timestamp_value (cpo_declared_at policy) \<le> timestamp_value (win_started_at (cob_window obs))
      \<and> timestamp_value (rvb_reviewed_at review) \<le> timestamp_value (win_started_at (cob_window obs))
      \<and> timestamp_value (cob_observed_at obs) \<le> timestamp_value compared_at)"

definition same_metrics :: "canary_evidence \<Rightarrow> bool" where
  "same_metrics ev \<longleftrightarrow>
     set (map cmo_metric_id (coh_metrics (cob_baseline (cev_observation ev)))) = set (map cmp_metric_id (cpo_metrics (cev_policy ev)))
     \<and> set (map cmo_metric_id (coh_metrics (cob_candidate (cev_observation ev)))) = set (map cmp_metric_id (cpo_metrics (cev_policy ev)))"

lemma check_canary_evidence_Inr [strict_iff]:
  "check_canary_evidence lib inputs compared_at ev = Inr u \<longleftrightarrow> canary_bound lib inputs compared_at ev"
  by (simp add: check_canary_evidence_def check_artifact_bindings_def check_review_binding_def
      check_predeclared_def check_canary_order_def canary_bound_def strict_iff Let_def not_less conj_assoc) blast

lemma sum_case_Inr [strict_iff]:
  "(case m of Inl _ \<Rightarrow> Inl e | Inr x \<Rightarrow> Inr x) = Inr y \<longleftrightarrow> m = Inr y"
  by (cases m) simp_all

lemma parse_change_case_bytes_wf: "parse_change_case_bytes lib raw = Inr c \<Longrightarrow> wf_change_case c"
  by (auto simp: parse_change_case_bytes_def strict_iff intro: parse_change_case_wf)

lemma parse_canary_inputs_wf:
  assumes "parse_canary_inputs lib inputs = Inr ev"
  shows "wf_canary_observation (cev_observation ev)" "wf_canary_policy (cev_policy ev)"
    "wf_change_case (cev_change_case ev)"
  using assms parse_canary_observation_wf parse_canary_policy_wf parse_change_case_bytes_wf
  by (auto simp: parse_canary_inputs_def parse_canary_observation_bytes_def parse_canary_policy_bytes_def
      strict_iff)

lemma compare_canary_Inr:
  "compare_canary_outcomes lib inputs compared_at = Inr r \<longleftrightarrow>
     (\<exists>ev rs b c. parse_canary_inputs lib inputs = Inr ev \<and> canary_bound lib inputs compared_at ev
        \<and> metric_map (cob_baseline (cev_observation ev)) (map cmp_metric_id (cpo_metrics (cev_policy ev)))
            ''$.baseline.metrics'' = Inr b
        \<and> metric_map (cob_candidate (cev_observation ev)) (map cmp_metric_id (cpo_metrics (cev_policy ev)))
            ''$.candidate.metrics'' = Inr c
        \<and> canary_metric_results (lib_inv_cdf lib) (cev_policy ev) (cev_observation ev) b c = Inr rs
        \<and> r = canary_comparison lib inputs compared_at ev rs)"
  unfolding compare_canary_outcomes_def Let_def attempt_Inr checked_Inr check_canary_evidence_Inr
  by blast

subsection \<open>Rounding errors\<close>

lemma on_grid_error: "\<bar>on_grid e x - x\<bar> \<le> 2 powi e / 2"
proof -
  let ?u = "(2::rat) powi e"
  have "on_grid e x - x = (of_int (round_half_even (x / ?u)) - x / ?u) * ?u"
    by (simp add: on_grid_def left_diff_distrib)
  then have "\<bar>on_grid e x - x\<bar> = \<bar>of_int (round_half_even (x / ?u)) - x / ?u\<bar> * ?u"
    by (simp add: abs_mult)
  also have "\<dots> \<le> 1 / 2 * ?u"
    by (intro mult_right_mono round_half_even_bounds) (simp add: less_imp_le)
  finally show ?thesis by simp
qed

lemma binade_one: "binade 1 = 0"
  by (simp add: binade_def ilog2.simps [of "Suc 0"])

lemma fl_pos_error: "0 \<le> x \<Longrightarrow> x \<le> 1 \<Longrightarrow> \<bar>fl_pos x - x\<bar> \<le> 1 / 2 ^ 53"
proof (cases "x = 0")
  case False
  assume x: "0 \<le> x" "x \<le> 1"
  let ?e = "max (binade x - 52) (- 1074)"
  have "binade x \<le> 0" using binade_mono [of x 1] x False by (simp add: binade_one)
  then have "(2::rat) powi ?e \<le> 2 powi (- 52)" by (intro power_int_increasing) auto
  also have "\<dots> = 1 / 2 ^ 52" by (simp only: power_int_minus power_int_numeral inverse_eq_divide)
  finally have "(2::rat) powi ?e / 2 \<le> 1 / 2 ^ 53" by simp
  then show ?thesis using on_grid_error [of ?e x] False by (simp add: fl_pos_def)
qed (simp add: fl_pos_def)

lemma fl_error:
  assumes "\<bar>x\<bar> \<le> 1"
  shows "\<bar>fl x - x\<bar> \<le> 1 / 2 ^ 53"
proof (cases "x < 0")
  case True
  have "\<bar>fl x - x\<bar> = \<bar>fl_pos (- x) - (- x)\<bar>"
    using True abs_minus_commute [of "fl_pos (- x)" "- x"] by (simp add: fl_def algebra_simps)
  then show ?thesis using fl_pos_error [of "- x"] True assms by simp
next
  case False
  then show ?thesis using fl_pos_error [of x] assms by (simp add: fl_def)
qed

lemma scaled_distance: "0 < k \<Longrightarrow> \<bar>n / k - x\<bar> = \<bar>n - x * k\<bar> / k" for n k x :: rat
proof -
  assume k: "0 < k"
  then have "n / k - x = (n - x * k) / k" by (simp add: field_simps)
  then show ?thesis using k by (simp add: abs_divide)
qed

lemma errors_add_up:
  fixes b c d e :: rat
  assumes "\<bar>d - (c - b)\<bar> \<le> u" "\<bar>e - (c' - b')\<bar> \<le> u" "\<bar>c' - c\<bar> \<le> v" "\<bar>b' - b\<bar> \<le> v"
    "\<bar>d' - d\<bar> \<le> v" "\<bar>e' - e\<bar> \<le> v"
  shows "\<bar>d' - e'\<bar> \<le> 4 * v + 2 * u"
  using assms by linarith

lemma fl_minus_one [simp]: "fl (- 1) = - 1"
  using fl_of_int [of "- 1"] by simp

lemma fl_unit_interval: "- 1 \<le> x \<Longrightarrow> x \<le> 1 \<Longrightarrow> - 1 \<le> fl x \<and> fl x \<le> 1"
  using fl_mono [of "- 1" x] fl_mono [of x 1] by simp

lemma round12_mono: "x \<le> y \<Longrightarrow> round12 x \<le> round12 y"
  unfolding round12_def by (intro fl_mono divide_right_mono) (auto intro: round_half_even_mono)

lemma round12_zero [simp]: "round12 0 = 0"
  using round_half_even_of_int [of 0] by (simp add: round12_def)

lemma round12_one [simp]: "round12 1 = 1"
  using round_half_even_of_int [of "10 ^ 12"] by (simp add: round12_def)

lemma round12_minus_one [simp]: "round12 (- 1) = - 1"
  using round_half_even_of_int [of "- (10 ^ 12)"] by (simp add: round12_def)

lemma round12_unit: "0 \<le> x \<Longrightarrow> x \<le> 1 \<Longrightarrow> 0 \<le> round12 x \<and> round12 x \<le> 1"
  using round12_mono [of 0 x] round12_mono [of x 1] by simp

lemma round12_interval: "- 1 \<le> x \<Longrightarrow> x \<le> 1 \<Longrightarrow> - 1 \<le> round12 x \<and> round12 x \<le> 1"
  using round12_mono [of "- 1" x] round12_mono [of x 1] by simp

lemma round12_error:
  assumes "- 1 \<le> x" "x \<le> 1"
  shows "\<bar>round12 x - x\<bar> \<le> 1 / (2 * 10 ^ 12) + 1 / 2 ^ 53"
proof -
  let ?v = "of_int (round_half_even (x * 10 ^ 12)) / 10 ^ 12 :: rat"
  have "\<bar>?v - x\<bar> = \<bar>of_int (round_half_even (x * 10 ^ 12)) - x * 10 ^ 12\<bar> / 10 ^ 12"
    by (rule scaled_distance) simp
  also have "\<dots> \<le> (1 / 2) / 10 ^ 12" by (intro divide_right_mono round_half_even_bounds) simp
  finally have v: "\<bar>?v - x\<bar> \<le> 1 / (2 * 10 ^ 12)" by simp
  have "- (10 ^ 12) \<le> round_half_even (x * 10 ^ 12)" using assms by (intro round_half_even_ge) simp
  moreover have "round_half_even (x * 10 ^ 12) \<le> 10 ^ 12" using assms by (intro round_half_even_le) simp
  ultimately have "(of_int (- (10 ^ 12)) :: rat) \<le> of_int (round_half_even (x * 10 ^ 12))"
    "(of_int (round_half_even (x * 10 ^ 12)) :: rat) \<le> of_int (10 ^ 12)"
    by (simp_all only: of_int_le_iff)
  then have "\<bar>?v\<bar> \<le> 1" by (simp add: abs_le_iff)
  from fl_error [OF this] v show ?thesis unfolding round12_def by linarith
qed

lemma difference_agrees:
  assumes "0 \<le> b" "b \<le> 1" "0 \<le> c" "c \<le> 1"
  shows "\<bar>fl (round12 (fl (c - b)) - round12 (fl (round12 c - round12 b)))\<bar> \<le> fl (1 / 10 ^ 11)"
proof -
  let ?d = "fl (c - b)" and ?e = "fl (round12 c - round12 b)"
  have rc: "0 \<le> round12 c" "round12 c \<le> 1" and rb: "0 \<le> round12 b" "round12 b \<le> 1"
    using round12_unit assms by auto
  have d: "- 1 \<le> ?d" "?d \<le> 1" using fl_unit_interval [of "c - b"] assms by auto
  have e: "- 1 \<le> ?e" "?e \<le> 1" using fl_unit_interval [of "round12 c - round12 b"] rc rb by auto
  have "\<bar>round12 ?d - round12 ?e\<bar> \<le> 4 * (1 / (2 * 10 ^ 12) + 1 / 2 ^ 53) + 2 * (1 / 2 ^ 53)"
  proof (rule errors_add_up)
    show "\<bar>?d - (c - b)\<bar> \<le> 1 / 2 ^ 53" using assms by (intro fl_error) simp
    show "\<bar>?e - (round12 c - round12 b)\<bar> \<le> 1 / 2 ^ 53" using rc rb by (intro fl_error) simp
    show "\<bar>round12 c - c\<bar> \<le> 1 / (2 * 10 ^ 12) + 1 / 2 ^ 53" using assms by (intro round12_error) auto
    show "\<bar>round12 b - b\<bar> \<le> 1 / (2 * 10 ^ 12) + 1 / 2 ^ 53" using assms by (intro round12_error) auto
    show "\<bar>round12 ?d - ?d\<bar> \<le> 1 / (2 * 10 ^ 12) + 1 / 2 ^ 53" using d by (rule round12_error)
    show "\<bar>round12 ?e - ?e\<bar> \<le> 1 / (2 * 10 ^ 12) + 1 / 2 ^ 53" using e by (rule round12_error)
  qed
  also have "\<dots> \<le> 1 / 10 ^ 11" by simp
  finally have "round12 ?d - round12 ?e \<le> 1 / 10 ^ 11" "- (1 / 10 ^ 11) \<le> round12 ?d - round12 ?e"
    by (simp_all only: abs_le_iff) linarith
  from fl_mono [OF this(1)] fl_mono [OF this(2)] show ?thesis by (simp add: fl_minus abs_le_iff)
qed

subsection \<open>The square root\<close>

lemma isqrt_bounds: "isqrt n * isqrt n \<le> n \<and> n < (isqrt n + 1) * (isqrt n + 1)"
proof (induction n rule: isqrt.induct)
  case (1 n)
  show ?case
  proof (cases "n = 0")
    case True
    then show ?thesis by (simp add: isqrt.simps)
  next
    case False
    let ?s = "isqrt (n div 4)"
    have IH: "?s * ?s \<le> n div 4" "n div 4 < (?s + 1) * (?s + 1)" using 1 False by auto
    have "4 * (?s * ?s) \<le> 4 * (n div 4)" using IH(1) by simp
    then have lo: "4 * (?s * ?s) \<le> n" using div_times_less_eq_dividend [of n 4] by simp
    have "n div 4 + 1 \<le> (?s + 1) * (?s + 1)" using IH(2) by simp
    then have "4 * (n div 4) + 4 \<le> 4 * ((?s + 1) * (?s + 1))" by linarith
    moreover have "n < 4 * (n div 4) + 4" using mod_less_divisor [of 4 n] div_mult_mod_eq [of n 4] by linarith
    ultimately have hi: "n < 4 * ((?s + 1) * (?s + 1))" by linarith
    have e: "isqrt n = (if (2 * ?s + 1) * (2 * ?s + 1) \<le> n then 2 * ?s + 1 else 2 * ?s)"
      using False by (simp add: isqrt.simps [of n] Let_def)
    show ?thesis
    proof (cases "(2 * ?s + 1) * (2 * ?s + 1) \<le> n")
      case True
      then show ?thesis using e hi by (simp add: algebra_simps)
    next
      case False
      then show ?thesis using e lo by (simp add: algebra_simps)
    qed
  qed
qed

lemma fl_sqrt_nonneg: "0 \<le> fl_sqrt x"
  by (auto simp: fl_sqrt_def Let_def intro!: fl_nonneg divide_nonneg_nonneg)

subsection \<open>The interval\<close>

lemma wilson_interval_bounds:
  assumes "0 \<le> e" "e \<le> n" "1 \<le> n" "n \<le> MAX_CANARY_SAMPLE_COUNT" "0 \<le> z"
  shows "0 \<le> fst (wilson_interval e n z)" "fst (wilson_interval e n z) \<le> snd (wilson_interval e n z)"
    "snd (wilson_interval e n z) \<le> 1"
proof -
  let ?n = "of_int n :: rat"
  define rate where "rate = fl (of_int e / ?n)"
  define zz where "zz = fl (z * z)"
  define den where "den = fl (1 + fl (zz / ?n))"
  define num where "num = fl (rate + fl (zz / fl (2 * ?n)))"
  define center where "center = fl (num / den)"
  define root where "root = fl_sqrt (fl (fl (fl (rate * fl (1 - rate)) / ?n) + fl (zz / fl (fl (4 * ?n) * ?n))))"
  define margin where "margin = fl (fl (z * root) / den)"
  have w: "wilson_interval e n z = (max 0 (fl (center - margin)), min 1 (fl (center + margin)))"
    unfolding wilson_interval_def Let_def margin_def root_def center_def num_def den_def zz_def rate_def ..
  have n: "1 \<le> ?n" using assms by simp
  have "0 \<le> (of_int e :: rat) / ?n" "(of_int e :: rat) / ?n \<le> 1" using assms n by simp_all
  then have rate: "0 \<le> rate" "rate \<le> 1" unfolding rate_def using fl_unit by auto
  have zz: "0 \<le> zz" unfolding zz_def by (intro fl_nonneg) simp
  have "fl 1 \<le> den" unfolding den_def using n zz by (intro fl_mono) (simp add: fl_nonneg)
  then have den: "1 \<le> den" by simp
  have "?n = fl ?n" using assms by (intro fl_of_int [symmetric]) (simp add: MAX_CANARY_SAMPLE_COUNT_def)
  also have "\<dots> \<le> fl (2 * ?n)" using n by (intro fl_mono) simp
  finally have nn: "?n \<le> fl (2 * ?n)" .
  have "zz / fl (2 * ?n) \<le> zz / ?n" using nn n zz by (intro divide_left_mono) simp_all
  then have "num \<le> den" unfolding num_def den_def using rate by (intro fl_mono add_mono) auto
  then have "num / den \<le> 1" using den by simp
  then have center1: "center \<le> 1" unfolding center_def using fl_mono [of "num / den" 1] by simp
  have "0 \<le> num" unfolding num_def using rate zz nn n
    by (intro fl_nonneg add_nonneg_nonneg divide_nonneg_nonneg) auto
  then have center0: "0 \<le> center" unfolding center_def using den by (intro fl_nonneg) simp
  have "0 \<le> fl (z * root)" unfolding root_def using assms(5) fl_sqrt_nonneg by (intro fl_nonneg) simp
  then have margin: "0 \<le> margin" unfolding margin_def using den by (intro fl_nonneg) simp
  have "fl (center - margin) \<le> fl (center + margin)" using margin by (intro fl_mono) simp
  moreover have "fl (center - margin) \<le> 1" using fl_mono [of "center - margin" 1] center1 margin by simp
  moreover have "0 \<le> fl (center + margin)" using center0 margin by (intro fl_nonneg) simp
  ultimately show "0 \<le> fst (wilson_interval e n z)" "fst (wilson_interval e n z) \<le> snd (wilson_interval e n z)"
    "snd (wilson_interval e n z) \<le> 1"
    unfolding w by auto
qed

lemma metric_bounds:
  assumes "wf_metric_observation bn b" "1 \<le> bn" "bn \<le> MAX_CANARY_SAMPLE_COUNT"
    and "wf_metric_observation cn c" "1 \<le> cn" "cn \<le> MAX_CANARY_SAMPLE_COUNT" "0 \<le> z"
  defines "lower \<equiv> fl (fst (wilson_interval (cmo_event_count c) cn z) - snd (wilson_interval (cmo_event_count b) bn z))"
    and "upper \<equiv> fl (snd (wilson_interval (cmo_event_count c) cn z) - fst (wilson_interval (cmo_event_count b) bn z))"
  shows "- 1 \<le> lower" "lower \<le> upper" "upper \<le> 1"
proof -
  have b: "0 \<le> cmo_event_count b" "cmo_event_count b \<le> bn" and c: "0 \<le> cmo_event_count c" "cmo_event_count c \<le> cn"
    using assms by (simp_all add: wf_metric_observation_def)
  note wb = wilson_interval_bounds [OF b assms(2,3,7)]
  note wc = wilson_interval_bounds [OF c assms(5,6,7)]
  show "- 1 \<le> lower" unfolding lower_def using wb wc fl_unit_interval by force
  show "upper \<le> 1" unfolding upper_def using wb wc fl_unit_interval by force
  show "lower \<le> upper" unfolding lower_def upper_def using wb wc by (intro fl_mono) linarith
qed

lemma metric_result_wf:
  assumes "wf_metric_policy m" "wf_metric_observation bn b" "1 \<le> bn" "bn \<le> MAX_CANARY_SAMPLE_COUNT"
    and "wf_metric_observation cn c" "1 \<le> cn" "cn \<le> MAX_CANARY_SAMPLE_COUNT"
    and "0 \<le> z_score_for inv_cdf level k"
  shows "wf_metric_result (metric_result inv_cdf m b bn c cn level k)"
proof -
  note bounds = metric_bounds [OF assms(2-8)]
  let ?B = "fl (of_int (cmo_event_count b) / of_int bn)" and ?C = "fl (of_int (cmo_event_count c) / of_int cn)"
  have "0 \<le> (of_int (cmo_event_count b) / of_int bn :: rat)" "(of_int (cmo_event_count b) / of_int bn :: rat) \<le> 1"
    "0 \<le> (of_int (cmo_event_count c) / of_int cn :: rat)" "(of_int (cmo_event_count c) / of_int cn :: rat) \<le> 1"
    using assms by (simp_all add: wf_metric_observation_def)
  then have r: "0 \<le> ?B" "?B \<le> 1" "0 \<le> ?C" "?C \<le> 1" using fl_unit by auto
  then have d: "- 1 \<le> fl (?C - ?B)" "fl (?C - ?B) \<le> 1" using fl_unit_interval [of "?C - ?B"] by auto
  have "0 \<le> cmp_maximum_degradation m" "cmp_maximum_degradation m \<le> 1" "safe_id_ok (cmp_metric_id m)"
    using assms(1) by (simp_all add: wf_metric_policy_def)
  then show ?thesis
    unfolding metric_result_def wf_metric_result_def Let_def canary_metric_result.simps
    using bounds r round12_unit round12_interval [OF d] difference_agrees [OF r] round12_mono
      round12_mono [of "- 1"] round12_mono [of _ 1] by simp
qed

subsection \<open>The quantile is asked inside its domain\<close>

lemma fl_half_open: "\<bar>x\<bar> \<le> 1 \<Longrightarrow> x - 1 / 2 ^ 53 \<le> fl x \<and> fl x \<le> x + 1 / 2 ^ 53"
  using fl_error [of x] unfolding abs_le_iff by linarith

lemma quantile_argument_bounds:
  assumes "fl (9/10) \<le> level" "level \<le> fl (999/1000)" "1 \<le> k" "k \<le> 5000"
  shows "1 / 2 \<le> fl (1 - fl (fl (1 - level) / fl (4 * of_int k)))"
    "fl (1 - fl (fl (1 - level) / fl (4 * of_int k))) < 1"
proof -
  define alpha where "alpha = fl (1 - level)"
  define q where "q = alpha / (4 * of_int k)"
  have four: "fl (4 * of_int k) = (4 * of_int k :: rat)"
    using fl_of_int [of "4 * k"] assms by simp
  have l: "9/10 - 1/2^53 \<le> level" "level \<le> 999/1000 + 1/2^53"
    using assms fl_half_open [of "9/10"] fl_half_open [of "999/1000"] by linarith+
  have "\<bar>1 - level\<bar> \<le> 1" using l by (simp add: abs_le_iff)
  from fl_half_open [OF this] l have a: "1/1000 - 2/2^53 \<le> alpha" "alpha \<le> 1/10 + 2/2^53"
    unfolding alpha_def by (auto simp: field_simps)
  have k: "1 \<le> (of_int k :: rat)" "(of_int k :: rat) \<le> 5000" using assms(3,4) by simp_all
  have "4/10^8 \<le> q"
  proof -
    have "4/10^8 * (4 * of_int k) \<le> 4/10^8 * (20000 :: rat)" using k by simp
    also have "\<dots> \<le> alpha" using a(1) by simp
    finally show ?thesis using k by (simp add: q_def field_simps)
  qed
  moreover have "q \<le> 1/4"
  proof -
    have "alpha \<le> 1 / 4 * (4 * of_int k)" using a(2) k by simp
    then show ?thesis using k by (simp add: q_def field_simps)
  qed
  ultimately have q: "4/10^8 \<le> q" "q \<le> 1/4" by auto
  then have "\<bar>q\<bar> \<le> 1" by simp
  from fl_half_open [OF this] q have fq: "3/10^8 \<le> fl q" "fl q \<le> 1/3" by (auto simp: field_simps)
  then have "\<bar>1 - fl q\<bar> \<le> 1" by simp
  from fl_half_open [OF this] fq have "1/2 \<le> fl (1 - fl q)" "fl (1 - fl q) < 1" by (auto simp: field_simps)
  then show "1 / 2 \<le> fl (1 - fl (fl (1 - level) / fl (4 * of_int k)))"
    "fl (1 - fl (fl (1 - level) / fl (4 * of_int k))) < 1"
    unfolding four alpha_def [symmetric] q_def [symmetric] by auto
qed

definition quantile_ok :: "(rat \<Rightarrow> rat) \<Rightarrow> bool" where
  \<comment> \<open>what is documented of \<open>inv_cdf\<close> that the comparison needs: above the median it is not negative\<close>
  "quantile_ok inv_cdf \<longleftrightarrow> (\<forall>p. 1 / 2 \<le> p \<and> p < 1 \<longrightarrow> 0 \<le> inv_cdf p)"

lemma comparisons_bounds:
  assumes "wf_canary_policy p"
  shows "1 \<le> int (length (cpo_metrics p)) * cpo_maximum_looks p"
    "int (length (cpo_metrics p)) * cpo_maximum_looks p \<le> 5000"
proof -
  have l: "1 \<le> int (length (cpo_metrics p))" "int (length (cpo_metrics p)) \<le> 50"
    and m: "1 \<le> cpo_maximum_looks p" "cpo_maximum_looks p \<le> 100"
    using assms by (auto simp: wf_canary_policy_def MAX_CANARY_METRICS_def)
  show "1 \<le> int (length (cpo_metrics p)) * cpo_maximum_looks p" using mult_mono [OF l(1) m(1)] l m by simp
  show "int (length (cpo_metrics p)) * cpo_maximum_looks p \<le> 5000" using mult_mono [OF l(2) m(2)] m by simp
qed

lemma z_score_nonneg:
  assumes "quantile_ok inv_cdf" "wf_canary_policy p"
  shows "0 \<le> z_score_for inv_cdf (cpo_confidence_level p) (int (length (cpo_metrics p)) * cpo_maximum_looks p)"
proof -
  have "fl (9/10) \<le> cpo_confidence_level p" "cpo_confidence_level p \<le> fl (999/1000)"
    using assms(2) by (simp_all add: wf_canary_policy_def)
  from quantile_argument_bounds [OF this comparisons_bounds [OF assms(2)]] assms(1)
  show ?thesis by (simp add: z_score_for_def quantile_ok_def Let_def)
qed

lemma each_origin: "each (\<lambda>_. f) i xs = Inr ys \<Longrightarrow> y \<in> set ys \<Longrightarrow> \<exists>x \<in> set xs. f x = Inr y"
  by (induction xs arbitrary: i ys) (fastforce simp: strict_iff)+

subsection \<open>Produced results are well-formed\<close>

lemma canary_metric_results_wf:
  assumes "canary_metric_results inv_cdf p obs b c = Inr rs"
    and "metric_map (cob_baseline obs) (map cmp_metric_id (cpo_metrics p)) x = Inr b"
    and "metric_map (cob_candidate obs) (map cmp_metric_id (cpo_metrics p)) y = Inr c"
    and "wf_canary_observation obs" "wf_canary_policy p" "quantile_ok inv_cdf"
  shows "list_all wf_metric_result rs" "map cmr_metric_id rs = map cmp_metric_id (cpo_metrics p)"
proof -
  let ?z = "z_score_for inv_cdf (cpo_confidence_level p) (int (length (cpo_metrics p)) * cpo_maximum_looks p)"
  let ?step = "\<lambda>m. attempt (metric_at b (cmp_metric_id m)) (\<lambda>bm.
                 attempt (metric_at c (cmp_metric_id m)) (\<lambda>cm.
                 Inr (metric_result inv_cdf m bm (coh_sample_count (cob_baseline obs))
                        cm (coh_sample_count (cob_candidate obs)) (cpo_confidence_level p)
                        (int (length (cpo_metrics p)) * cpo_maximum_looks p))))"
  have run: "each (\<lambda>_. ?step) 0 (cpo_metrics p) = Inr rs"
    using assms(1) unfolding canary_metric_results_def .
  show "map cmr_metric_id rs = map cmp_metric_id (cpo_metrics p)"
    by (rule each_ids [OF run]) (auto simp: strict_iff metric_result_def Let_def)
  have cohorts: "wf_cohort (cob_baseline obs)" "wf_cohort (cob_candidate obs)"
    using assms(4) by (auto simp: wf_canary_observation_def)
  have z: "0 \<le> ?z" by (rule z_score_nonneg [OF assms(6,5)])
  have "\<exists>m \<in> set (cpo_metrics p). ?step m = Inr r" if "r \<in> set rs" for r
    using run that by (rule each_origin)
  moreover have "wf_metric_result r" if m: "m \<in> set (cpo_metrics p)" and r: "?step m = Inr r" for m r
  proof -
    have i: "cmp_metric_id m \<in> set (map cmp_metric_id (cpo_metrics p))" using m by auto
    obtain bm where bm: "metric_at b (cmp_metric_id m) = Inr bm" "wf_metric_observation (coh_sample_count (cob_baseline obs)) bm"
      using metric_at_found [OF assms(2) i cohorts(1)] .
    obtain cm where cm: "metric_at c (cmp_metric_id m) = Inr cm" "wf_metric_observation (coh_sample_count (cob_candidate obs)) cm"
      using metric_at_found [OF assms(3) i cohorts(2)] .
    have "wf_metric_policy m" using assms(5) m by (simp add: wf_canary_policy_def list_all_iff)
    then show ?thesis
      using r bm cm cohorts z by (auto simp: wf_cohort_def intro!: metric_result_wf)
  qed
  ultimately show "list_all wf_metric_result rs" unfolding list_all_iff by blast
qed

lemma canary_texts_ok:
  "list_all wf_canary_check (canary_checks obs p statuses)"
  "distinct (map cck_code (canary_checks obs p statuses))" "length (canary_checks obs p statuses) = 6"
  by (simp_all add: canary_checks_def wf_canary_check_def safe_id_ok_def head_tail_match_def is_alnum_def
      is_upper_def is_lower_def is_digit_def bounded_text_ok_def bounded_text_char_def)

lemma canary_summary_ok: "bounded_text_ok 8192 (canary_summary obs p statuses)"
  by (simp add: canary_summary_def bounded_text_ok_def bounded_text_char_def split: canary_decision.split)

lemma ENGINE_VERSION_bounded: "bounded_text_ok 128 ENGINE_VERSION"
  by (simp add: ENGINE_VERSION_def bounded_text_ok_def bounded_text_char_def)

lemma window_seconds_bounds:
  assumes "wf_canary_observation obs"
  shows "1 \<le> window_seconds obs" "window_seconds obs \<le> 2592000"
    "window_microseconds (cob_window obs) = window_seconds obs * 1000000"
proof -
  let ?w = "window_microseconds (cob_window obs)"
  have w: "0 < ?w" "?w \<le> 2592000 * 1000000"
    and t: "utc_timestamp_ok (win_started_at (cob_window obs))" "utc_timestamp_ok (win_ended_at (cob_window obs))"
    using assms by (auto simp: wf_canary_observation_def wf_canary_window_def)
  have "?w mod 1000000 = 0"
    using utc_timestamp_value_whole [OF t(1)] utc_timestamp_value_whole [OF t(2)]
    unfolding window_microseconds_def by (simp add: mod_diff_eq [symmetric])
  then have e: "?w = window_seconds obs * 1000000" unfolding window_seconds_def by auto
  then show "?w = window_seconds obs * 1000000" .
  show "1 \<le> window_seconds obs" "window_seconds obs \<le> 2592000" using e w by linarith+
qed

lemma canary_comparison_wf:
  assumes obs: "wf_canary_observation (cev_observation ev)" and p: "wf_canary_policy (cev_policy ev)"
    and bound: "canary_bound lib inputs compared_at ev"
    and rs: "list_all wf_metric_result rs" "map cmr_metric_id rs = map cmp_metric_id (cpo_metrics (cev_policy ev))"
    and sha: "\<And>b. sha256_ok (lib_sha256 lib b)" and at: "utc_timestamp_ok compared_at"
  shows "wf_canary_result (canary_comparison lib inputs compared_at ev rs)"
proof -
  let ?r = "canary_comparison lib inputs compared_at ev rs"
  have len: "length rs = length (cpo_metrics (cev_policy ev))" using rs(2) by (metis length_map)
  have times: "wf_result_times ?r"
    using obs bound at window_seconds_bounds [OF obs]
    by (simp add: wf_result_times_def canary_comparison_def Let_def wf_canary_observation_def
        wf_canary_window_def canary_bound_def window_microseconds_def window_seconds_def)
  have bindings: "wf_result_bindings ?r"
    using obs p bound
    by (simp add: wf_result_bindings_def canary_comparison_def Let_def wf_canary_observation_def
        wf_canary_change_def wf_cohort_def wf_canary_policy_def canary_bound_def sha document_digest_def
        ENGINE_VERSION_bounded)
  show ?thesis
    unfolding wf_canary_result_def
    using times bindings obs p bound rs len
    by (simp add: canary_comparison_def Let_def canary_texts_ok canary_summary_ok wf_canary_observation_def
        wf_canary_policy_def wf_cohort_def canary_bound_def)
qed

lemma metric_status_lower_upper:
  assumes "lower \<le> upper"
  shows "metric_status d m lower upper = CanaryMetricStatus_REGRESSION \<longleftrightarrow>
     (case d of CanaryMetricDirection_HIGHER \<Rightarrow> upper < - m | CanaryMetricDirection_LOWER \<Rightarrow> m < lower)"
  using assms by (auto simp: metric_status_def Let_def split: canary_metric_direction.split)

primrec severity_rank :: "canary_metric_status \<Rightarrow> nat" where
  "severity_rank CanaryMetricStatus_NONINFERIOR = 0"
| "severity_rank CanaryMetricStatus_INCONCLUSIVE = 1"
| "severity_rank CanaryMetricStatus_REGRESSION = 2"

lemma metric_status_antitone:
  "lower \<le> upper \<Longrightarrow> m \<le> m' \<Longrightarrow> severity_rank (metric_status d m' lower upper) \<le> severity_rank (metric_status d m lower upper)"
  by (auto simp: metric_status_def Let_def split: canary_metric_direction.split)

subsection \<open>A sample comparison\<close>

definition sample_canary_policy :: canary_policy where
  "sample_canary_policy = \<lparr>cpo_schema_version = CANARY_POLICY_SCHEMA_VERSION, cpo_policy_id = ''canary-1'',
     cpo_declared_at = ''2026-01-01T00:00:00Z'', cpo_confidence_level = fl (19/20), cpo_maximum_looks = 2,
     cpo_minimum_observation_seconds = 60, cpo_minimum_sample_size_per_cohort = 30,
     cpo_evaluator_ref = ''eval'', cpo_assignment_unit = CanaryAssignmentUnit_SESSION,
     cpo_assignment_method = CanaryAssignmentMethod_RANDOMIZED, cpo_require_sticky_assignment = False,
     cpo_metrics = [\<lparr>cmp_metric_id = ''errors'', cmp_direction = CanaryMetricDirection_LOWER,
                     cmp_maximum_degradation = 1\<rparr>]\<rparr>"

definition sample_digest :: string where "sample_digest = replicate 64 CHR ''a''"

definition sample_cohort_json :: "string \<Rightarrow> json" where
  "sample_cohort_json ref = JObj
     [(''deployment_ref'', JStr ref), (''sample_count'', JInt 100), (''evidence_ref'', JStr ''log''),
      (''metrics'', JArr [JObj [(''metric_id'', JStr ''errors''), (''event_count'', JInt 5)]])]"

definition sample_observation_json :: json where
  "sample_observation_json = JObj
     [(''schema_version'', JStr ''1.0''), (''comparison_id'', JStr ''compare-1''), (''look_number'', JInt 1),
      (''observed_at'', JStr ''2026-01-02T01:00:00Z''),
      (''change'', JObj [(''case_id'', JStr ''case-1''), (''change_ref'', JStr ''patch''),
         (''change_case_sha256'', JStr sample_digest), (''review_result_sha256'', JStr sample_digest)]),
      (''policy'', JObj [(''policy_id'', JStr ''canary-1''), (''policy_sha256'', JStr sample_digest)]),
      (''window'', JObj [(''started_at'', JStr ''2026-01-02T00:00:00Z''), (''ended_at'', JStr ''2026-01-02T01:00:00Z'')]),
      (''evaluator_ref'', JStr ''eval''),
      (''assignment'', JObj [(''method'', JStr ''randomized''), (''unit'', JStr ''session''),
         (''sticky'', JBool True), (''cross_cohort_contamination_detected'', JBool False)]),
      (''baseline'', sample_cohort_json ''v1''), (''candidate'', sample_cohort_json ''v2'')]"

definition sample_review :: review_result where
  "sample_review = \<lparr>rr_schema_version = RESULT_SCHEMA_VERSION, rr_engine_version = ''1.0'', rr_policy_name = ''default'',
     rr_case_id = ''case-1'', rr_case_title = ''Refund'', rr_component = Component_TOOL_IMPLEMENTATION,
     rr_input_sha256 = sample_digest, rr_reviewed_at = ''2026-01-01T00:00:00Z'',
     rr_decision = Decision_APPROVE, rr_recommended_action = RecommendedAction_PATCH,
     rr_summary = ''ok'', rr_metrics = [], rr_findings = []\<rparr>"

definition sample_library :: library where
  \<comment> \<open>one-character texts stand for the four documents\<close>
  "sample_library = \<lparr>lib_decode_utf8 = Some,
     lib_loads = (\<lambda>t. if t = ''o'' then Inr sample_observation_json
                      else if t = ''p'' then Inr (canary_policy_to_json sample_canary_policy)
                      else if t = ''c'' then Inr (change_case_to_json (sample_case True))
                      else Inr (review_result_to_json sample_review)),
     lib_dumps = (\<lambda>_. []), lib_sha256 = (\<lambda>_. sample_digest), lib_inv_cdf = (\<lambda>_. 2)\<rparr>"

definition sample_inputs :: canary_inputs where
  "sample_inputs = \<lparr>cin_observation_bytes = ''o'', cin_policy_bytes = ''p'',
     cin_change_case_bytes = ''c'', cin_review_result_bytes = ''r''\<rparr>"

definition sample_cohort :: "string \<Rightarrow> canary_cohort" where
  "sample_cohort ref = \<lparr>coh_deployment_ref = ref, coh_sample_count = 100, coh_evidence_ref = ''log'',
     coh_metrics = [\<lparr>cmo_metric_id = ''errors'', cmo_event_count = 5\<rparr>]\<rparr>"

definition sample_observation :: canary_observation where
  "sample_observation = \<lparr>cob_schema_version = CANARY_OBSERVATION_SCHEMA_VERSION,
     cob_comparison_id = ''compare-1'', cob_look_number = 1, cob_observed_at = ''2026-01-02T01:00:00Z'',
     cob_change = \<lparr>chb_case_id = ''case-1'', chb_change_ref = ''patch'',
       chb_change_case_sha256 = sample_digest, chb_review_result_sha256 = sample_digest\<rparr>,
     cob_policy = \<lparr>pob_policy_id = ''canary-1'', pob_policy_sha256 = sample_digest\<rparr>,
     cob_window = \<lparr>win_started_at = ''2026-01-02T00:00:00Z'', win_ended_at = ''2026-01-02T01:00:00Z''\<rparr>,
     cob_evaluator_ref = ''eval'',
     cob_assignment = \<lparr>asg_method = CanaryAssignmentMethod_RANDOMIZED, asg_unit = CanaryAssignmentUnit_SESSION,
       asg_sticky = True, asg_cross_cohort_contamination_detected = False\<rparr>,
     cob_baseline = sample_cohort ''v1'', cob_candidate = sample_cohort ''v2''\<rparr>"

lemmas ident_eval = safe_id_ok_def reference_ok_def head_tail_match_def is_alnum_def is_upper_def
  is_lower_def is_digit_def Let_def

lemma sample_times:
  "fromisoformat (zulu_to_offset ''2026-01-01T00:00:00Z'') =
     Some \<lparr>dt_ordinal = 739617, dt_second = 0, dt_micro = 0, dt_offset = Some 0\<rparr>"
  "fromisoformat (zulu_to_offset ''2026-01-02T00:00:00Z'') =
     Some \<lparr>dt_ordinal = 739618, dt_second = 0, dt_micro = 0, dt_offset = Some 0\<rparr>"
  "fromisoformat (zulu_to_offset ''2026-01-02T01:00:00Z'') =
     Some \<lparr>dt_ordinal = 739618, dt_second = 3600, dt_micro = 0, dt_offset = Some 0\<rparr>"
  by code_simp+
lemma sample_times_ok:
  "utc_timestamp_ok ''2026-01-01T00:00:00Z''" "utc_timestamp_ok ''2026-01-02T00:00:00Z''"
  "utc_timestamp_ok ''2026-01-02T01:00:00Z''"
  by (simp_all add: utc_timestamp_ok_def sample_times utc_timestamp_shape_def is_digit_def)

lemma sample_time_values:
  "timestamp_value ''2026-01-02T00:00:00Z'' = timestamp_value ''2026-01-01T00:00:00Z'' + 86400000000"
  "timestamp_value ''2026-01-02T01:00:00Z'' = timestamp_value ''2026-01-01T00:00:00Z'' + 90000000000"
  by (simp_all add: timestamp_value_def sample_times utc_microseconds_def)

lemma sample_digest_ok: "sha256_ok sample_digest"
  by (simp add: sample_digest_def sha256_ok_def list_all_iff)

lemma sample_policy_wf: "wf_canary_policy sample_canary_policy"
proof -
  have "fl (9/10) \<le> fl (19/20)" "fl (19/20) \<le> fl (999/1000)" by (intro fl_mono; simp)+
  then show ?thesis
    by (simp add: wf_canary_policy_def sample_canary_policy_def wf_metric_policy_def sample_times_ok
        MAX_CANARY_SAMPLE_COUNT_def MAX_CANARY_METRICS_def ident_eval)
qed

lemma sample_cohort_parsed:
  "reference_ok ref \<Longrightarrow> parse_cohort ''canary observation'' path (sample_cohort_json ref) = Inr (sample_cohort ref)"
  by (simp add: parse_cohort_def sample_cohort_json_def sample_cohort_def parse_metric_observations_def
      parse_canary_metric_observation_def strict_iff exact_keys_def MAX_CANARY_METRICS_def
      MAX_CANARY_SAMPLE_COUNT_def ident_eval)

lemma sample_enums:
  "''randomized'' = canary_assignment_method_value CanaryAssignmentMethod_RANDOMIZED"
  "''session'' = canary_assignment_unit_value CanaryAssignmentUnit_SESSION"
  by simp_all

lemma sample_observation_parsed: "parse_canary_observation sample_observation_json = Inr sample_observation"
  unfolding sample_observation_json_def sample_enums
  by (simp add: parse_canary_observation_def sample_observation_def canary_observation_keys_def
      parse_canary_change_def parse_canary_policy_binding_def parse_canary_window_def parse_canary_assignment_def
      strict_iff exact_keys_def sample_times_ok sample_digest_ok sample_cohort_parsed
      CANARY_OBSERVATION_SCHEMA_VERSION_def window_microseconds_def sample_time_values sample_cohort_def
      ident_eval del: canary_assignment_method_value.simps canary_assignment_unit_value.simps) blast

lemma sample_review_publishable: "publishable sample_review"
proof -
  have "azure_text_ok 64 sample_digest" using sample_digest_ok by (rule sha256_text_ok)
  moreover have "review_timestamp_shape ''2026-01-01T00:00:00Z''"
    by (simp add: review_timestamp_shape_def is_digit_def)
  ultimately show ?thesis
    by (simp add: publishable_def sample_review_def review_timestamp_ok_def sample_times sample_digest_ok
        azure_text_okI no_control_def is_space_def ident_eval)
qed

lemma sample_created: "aware_timestamp ''2026-01-02T03:04:05Z''"
  by code_simp

lemma sample_case_wf: "wf_change_case (sample_case True)"
  by (simp add: wf_change_case_def sample_defs sample_created wf_incident_def wf_oracle_def wf_verification_def
      wf_attribution_def wf_hypothesis_def wf_intervention_def wf_reproduction_trial_def wf_intervention_trial_def
      wf_proposed_change_def wf_null_hypothesis_def wf_validation_def wf_validation_case_def
      wf_metric_comparison_def wf_metric_snapshot_def text_ok_def texts_ok_def case_id_ok_def strip_id
      is_space_def head_tail_match_def is_alnum_def is_upper_def is_lower_def is_digit_def)

lemma sample_case_parsed: "parse_change_case (change_case_to_json (sample_case True)) = Inr (sample_case True)"
  using sample_case_wf by (rule parse_change_case_run)

definition sample_evidence :: canary_evidence where
  "sample_evidence = \<lparr>cev_observation = sample_observation, cev_policy = sample_canary_policy,
     cev_change_case = sample_case True, cev_review = binding_of sample_review\<rparr>"

lemma sample_parse_bytes:
  "length raw = 1 \<Longrightarrow> 1 \<le> n \<Longrightarrow> utf8_bytes raw = raw \<Longrightarrow>
    canary_parse_json_bytes sample_library name n raw = map_sum (\<lambda>_. Canary_error name ''$'' []) id (lib_loads sample_library raw)
    \<and> azure_parse_json_bytes sample_library name n raw = map_sum (\<lambda>_. Azure_error name ''$'' []) id (lib_loads sample_library raw)"
  by (auto simp: canary_parse_json_bytes_def azure_parse_json_bytes_def parse_json_text_def sample_library_def)

lemma sample_loads:
  "lib_loads sample_library ''o'' = Inr sample_observation_json"
  "lib_loads sample_library ''p'' = Inr (canary_policy_to_json sample_canary_policy)"
  "lib_loads sample_library ''c'' = Inr (change_case_to_json (sample_case True))"
  "lib_loads sample_library ''r'' = Inr (review_result_to_json sample_review)"
  by (simp_all add: sample_library_def)

lemma sample_inputs_parsed: "parse_canary_inputs sample_library sample_inputs = Inr sample_evidence"
proof -
  have raw: "length [c] = 1" "utf8_bytes ''o'' = ''o''" "utf8_bytes ''p'' = ''p''" "utf8_bytes ''c'' = ''c''"
    "utf8_bytes ''r'' = ''r''" for c :: char
    by (simp_all add: utf8_bytes_def)
  note parse = sample_parse_bytes [THEN conjunct1] sample_parse_bytes [THEN conjunct2]
  have review: "parse_review_binding ''review result'' (review_result_to_json sample_review) = Inr (binding_of sample_review)"
    using sample_review_publishable by (simp add: parse_review_binding_render)
  show ?thesis
    by (simp add: parse_canary_inputs_def parse_canary_observation_bytes_def parse_canary_policy_bytes_def
        parse_change_case_bytes_def parse_canary_review_def parse_review_result_bytes_def sample_inputs_def
        parse raw MAX_REVIEW_RESULT_BYTES_def sample_loads sample_observation_parsed
        parse_canary_policy_run [OF sample_policy_wf] sample_case_parsed review sample_evidence_def)
qed

lemma sample_bound: "canary_bound sample_library sample_inputs ''2026-01-02T01:00:00Z'' sample_evidence"
  by (simp add: canary_bound_def sample_evidence_def sample_observation_def sample_canary_policy_def
      sample_library_def document_digest_def sample_case_def binding_of_def sample_review_def sample_time_values)

lemma sample_same_metrics: "same_metrics sample_evidence"
  by (simp add: same_metrics_def sample_evidence_def sample_observation_def sample_cohort_def sample_canary_policy_def)

lemma sample_quantile: "quantile_ok (lib_inv_cdf sample_library)"
  by (simp add: quantile_ok_def sample_library_def)

subsection \<open>Properties\<close>

lemma canary_success:
  assumes "parse_canary_inputs lib inputs = Inr ev" "canary_bound lib inputs compared_at ev" "same_metrics ev"
  shows "\<exists>rs. compare_canary_outcomes lib inputs compared_at = Inr (canary_comparison lib inputs compared_at ev rs)"
proof -
  let ?ids = "map cmp_metric_id (cpo_metrics (cev_policy ev))"
  obtain b c where b: "metric_map (cob_baseline (cev_observation ev)) ?ids ''$.baseline.metrics'' = Inr b"
    and c: "metric_map (cob_candidate (cev_observation ev)) ?ids ''$.candidate.metrics'' = Inr c"
    using assms(3) by (simp add: metric_map_Inr same_metrics_def)
  from canary_metric_results_total [OF b c parse_canary_inputs_wf(1) [OF assms(1)]]
  obtain rs where "canary_metric_results (lib_inv_cdf lib) (cev_policy ev) (cev_observation ev) b c = Inr rs" ..
  then show ?thesis using assms b c unfolding compare_canary_Inr by blast
qed

text \<open>
  C18. A comparison produces a result exactly when the four documents parse, the observation names the
  exact policy, change case and review (identifiers and digests), the review approved this patch, the
  look was planned, policy and review precede the window and the comparison follows it, and both
  cohorts report exactly the declared metrics.
\<close>
theorem canary_compares_iff_bound:
  "(\<exists>r. compare_canary_outcomes lib inputs compared_at = Inr r) \<longleftrightarrow>
     (\<exists>ev. parse_canary_inputs lib inputs = Inr ev \<and> canary_bound lib inputs compared_at ev \<and> same_metrics ev)"
proof
  assume "\<exists>r. compare_canary_outcomes lib inputs compared_at = Inr r"
  then obtain ev b c where ev: "parse_canary_inputs lib inputs = Inr ev" "canary_bound lib inputs compared_at ev"
    and "metric_map (cob_baseline (cev_observation ev)) (map cmp_metric_id (cpo_metrics (cev_policy ev)))
            ''$.baseline.metrics'' = Inr b"
    "metric_map (cob_candidate (cev_observation ev)) (map cmp_metric_id (cpo_metrics (cev_policy ev)))
            ''$.candidate.metrics'' = Inr c"
    unfolding compare_canary_Inr by blast
  then have "same_metrics ev" by (simp add: metric_map_Inr same_metrics_def)
  with ev show "\<exists>ev. parse_canary_inputs lib inputs = Inr ev \<and> canary_bound lib inputs compared_at ev \<and> same_metrics ev"
    by blast
next
  assume "\<exists>ev. parse_canary_inputs lib inputs = Inr ev \<and> canary_bound lib inputs compared_at ev \<and> same_metrics ev"
  then show "\<exists>r. compare_canary_outcomes lib inputs compared_at = Inr r" using canary_success by blast
qed

text \<open>
  C14. The decision of a comparison: the candidate is promoted exactly when the design requirements are
  met and every metric is noninferior, rolled back exactly when they are met and some metric
  regressed, and observed further exactly when they are met, nothing regressed, something is
  inconclusive and a planned look remains.
\<close>
theorem canary_decision_exact:
  assumes "compare_canary_outcomes lib inputs compared_at = Inr r" "parse_canary_inputs lib inputs = Inr ev"
  defines "ready \<equiv> design_ready (cev_observation ev) (cev_policy ev)"
    and "statuses \<equiv> cmr_status ` set (crs_metrics r)"
  shows "(crs_decision r = CanaryDecision_PROMOTE \<longleftrightarrow> ready \<and> statuses \<subseteq> {CanaryMetricStatus_NONINFERIOR})
    \<and> (crs_decision r = CanaryDecision_ROLLBACK \<longleftrightarrow> ready \<and> CanaryMetricStatus_REGRESSION \<in> statuses)
    \<and> (crs_decision r = CanaryDecision_CONTINUE \<longleftrightarrow> ready \<and> CanaryMetricStatus_REGRESSION \<notin> statuses
        \<and> CanaryMetricStatus_INCONCLUSIVE \<in> statuses \<and> crs_look_number r < crs_maximum_looks r)"
proof -
  from assms(1,2) obtain rs where r: "r = canary_comparison lib inputs compared_at ev rs"
    and bound: "canary_bound lib inputs compared_at ev"
    unfolding compare_canary_Inr by auto
  have look: "cob_look_number (cev_observation ev) \<le> cpo_maximum_looks (cev_policy ev)"
    using bound by (simp add: canary_bound_def Let_def)
  have st: "statuses = set (map cmr_status rs)" by (simp add: statuses_def r canary_comparison_def Let_def)
  have all: "set xs \<subseteq> {CanaryMetricStatus_NONINFERIOR} \<longleftrightarrow>
    CanaryMetricStatus_REGRESSION \<notin> set xs \<and> CanaryMetricStatus_INCONCLUSIVE \<notin> set xs" for xs
    using canary_metric_status.exhaust by blast
  show ?thesis
    unfolding st all using look
    by (auto simp: r ready_def canary_comparison_def Let_def canary_decision_for_def final_look_inconclusive_def)
qed

theorem canary_decision_exact_witness:
  "\<exists>r. compare_canary_outcomes sample_library sample_inputs ''2026-01-02T01:00:00Z'' = Inr r
     \<and> (crs_decision r = CanaryDecision_ROLLBACK \<longleftrightarrow>
          design_ready (cev_observation sample_evidence) (cev_policy sample_evidence)
          \<and> CanaryMetricStatus_REGRESSION \<in> cmr_status ` set (crs_metrics r))"
  using canary_success [OF sample_inputs_parsed sample_bound sample_same_metrics]
    canary_decision_exact [OF _ sample_inputs_parsed] by blast

text \<open>
  C22. Whatever a comparison produces is accepted by the strict result parser, which reads back the
  same result: bounds, window arithmetic, ordered intervals, the rounded difference of the rounded
  rates, unique codes. It needs digests to be SHA-256 hex, a normal quantile that is not negative
  above the median, and a comparison time written as a UTC second.
\<close>
theorem canary_result_reparses:
  assumes "compare_canary_outcomes lib inputs compared_at = Inr r"
    and "\<And>b. sha256_ok (lib_sha256 lib b)" "quantile_ok (lib_inv_cdf lib)" "utc_timestamp_ok compared_at"
  shows "parse_canary_result (canary_result_to_json r) = Inr r"
proof -
  from assms(1) obtain ev rs b c where ev: "parse_canary_inputs lib inputs = Inr ev"
    and bound: "canary_bound lib inputs compared_at ev"
    and b: "metric_map (cob_baseline (cev_observation ev)) (map cmp_metric_id (cpo_metrics (cev_policy ev)))
            ''$.baseline.metrics'' = Inr b"
    and c: "metric_map (cob_candidate (cev_observation ev)) (map cmp_metric_id (cpo_metrics (cev_policy ev)))
            ''$.candidate.metrics'' = Inr c"
    and rs: "canary_metric_results (lib_inv_cdf lib) (cev_policy ev) (cev_observation ev) b c = Inr rs"
    and r: "r = canary_comparison lib inputs compared_at ev rs"
    unfolding compare_canary_Inr by blast
  note wf = parse_canary_inputs_wf [OF ev]
  note results = canary_metric_results_wf [OF rs b c wf(1,2) assms(3)]
  show ?thesis unfolding r
    by (rule parse_canary_result_run, rule canary_comparison_wf [OF wf(1,2) bound results assms(2,4)])
qed

theorem canary_result_reparses_witness:
  "\<exists>r. compare_canary_outcomes sample_library sample_inputs ''2026-01-02T01:00:00Z'' = Inr r
     \<and> parse_canary_result (canary_result_to_json r) = Inr r"
proof -
  have "sha256_ok (lib_sha256 sample_library b)" for b by (simp add: sample_library_def sample_digest_ok)
  then show ?thesis
    using canary_success [OF sample_inputs_parsed sample_bound sample_same_metrics]
      canary_result_reparses [OF _ _ sample_quantile sample_times_ok(3)] by blast
qed

text \<open>
  The statistics cannot blame a candidate that behaved like the baseline: equal event and sample
  counts are never reported as a regression, for either direction, any allowed degradation and any
  non-negative score.
\<close>
theorem identical_cohorts_never_regress:
  assumes "wf_metric_policy m" "wf_metric_observation n b" "1 \<le> n" "n \<le> MAX_CANARY_SAMPLE_COUNT"
    and "0 \<le> z_score_for inv_cdf level k"
  shows "cmr_status (metric_result inv_cdf m b n b n level k) \<noteq> CanaryMetricStatus_REGRESSION"
proof -
  let ?w = "wilson_interval (cmo_event_count b) n (z_score_for inv_cdf level k)"
  have e: "0 \<le> cmo_event_count b" "cmo_event_count b \<le> n" using assms(2) by (simp_all add: wf_metric_observation_def)
  note w = wilson_interval_bounds [OF e assms(3,4,5)]
  have "fl (fst ?w - snd ?w) \<le> 0" "0 \<le> fl (snd ?w - fst ?w)"
    using w fl_mono [of "fst ?w - snd ?w" 0] by (simp_all add: fl_nonneg)
  moreover have "0 \<le> cmp_maximum_degradation m" using assms(1) by (simp add: wf_metric_policy_def)
  ultimately show ?thesis
    by (auto simp: metric_result_def Let_def metric_status_def split: canary_metric_direction.split)
qed

theorem identical_cohorts_never_regress_witness:
  "cmr_status (metric_result (\<lambda>_. 2) \<lparr>cmp_metric_id = ''errors'', cmp_direction = CanaryMetricDirection_LOWER,
      cmp_maximum_degradation = 0\<rparr> \<lparr>cmo_metric_id = ''errors'', cmo_event_count = 5\<rparr> 100
      \<lparr>cmo_metric_id = ''errors'', cmo_event_count = 5\<rparr> 100 (fl (19/20)) 1) \<noteq> CanaryMetricStatus_REGRESSION"
  by (rule identical_cohorts_never_regress)
    (simp_all add: wf_metric_policy_def wf_metric_observation_def MAX_CANARY_SAMPLE_COUNT_def z_score_for_def ident_eval)

text \<open>
  Allowing more degradation never makes the status of a metric worse (regression is worse than
  inconclusive, which is worse than noninferior), for the same counts and the same confidence.
\<close>
theorem looser_margin_never_worse:
  assumes "wf_metric_observation n b" "1 \<le> n" "n \<le> MAX_CANARY_SAMPLE_COUNT"
    and "wf_metric_observation n' c" "1 \<le> n'" "n' \<le> MAX_CANARY_SAMPLE_COUNT"
    and "0 \<le> z_score_for inv_cdf level k" "cmp_maximum_degradation m \<le> x"
  shows "severity_rank (cmr_status (metric_result inv_cdf (m\<lparr>cmp_maximum_degradation := x\<rparr>) b n c n' level k))
      \<le> severity_rank (cmr_status (metric_result inv_cdf m b n c n' level k))"
  using metric_status_antitone [OF metric_bounds(2) [OF assms(1-7)] assms(8)]
  by (simp add: metric_result_def Let_def)

theorem looser_margin_never_worse_witness:
  "severity_rank (cmr_status (metric_result (\<lambda>_. 2) (\<lparr>cmp_metric_id = ''errors'', cmp_direction = CanaryMetricDirection_LOWER,
      cmp_maximum_degradation = 0\<rparr>\<lparr>cmp_maximum_degradation := 1\<rparr>) \<lparr>cmo_metric_id = ''errors'', cmo_event_count = 5\<rparr> 100
      \<lparr>cmo_metric_id = ''errors'', cmo_event_count = 9\<rparr> 100 (fl (19/20)) 1))
   \<le> severity_rank (cmr_status (metric_result (\<lambda>_. 2) \<lparr>cmp_metric_id = ''errors'', cmp_direction = CanaryMetricDirection_LOWER,
      cmp_maximum_degradation = 0\<rparr> \<lparr>cmo_metric_id = ''errors'', cmo_event_count = 5\<rparr> 100
      \<lparr>cmo_metric_id = ''errors'', cmo_event_count = 9\<rparr> 100 (fl (19/20)) 1))"
  by (rule looser_margin_never_worse)
    (simp_all add: wf_metric_observation_def MAX_CANARY_SAMPLE_COUNT_def z_score_for_def ident_eval)

text \<open>
  Rendering a canary policy and parsing it again gives it back exactly when it is within the
  documented ranges: a confidence between 0.9 and 0.999, 1 to 100 looks, 1 to 50 metrics with unique
  identifiers and a degradation between 0 and 1, at least 60 seconds and 30 samples.
\<close>
theorem canary_policy_roundtrip:
  "parse_canary_policy (canary_policy_to_json p) = Inr p \<longleftrightarrow> wf_canary_policy p"
  using parse_canary_policy_run parse_canary_policy_wf by blast

end
