(* ===== verification/Py_Text.thy ===== *)
theory Py_Text
  imports Prelude Py_Datetime "HOL-Library.Sublist"
begin

text \<open>
  What the boundary documents take from Python's text library: search and replacement, case
  folding, \<open>int(text, base)\<close>, \<open>uuid.UUID\<close>, \<open>urlsplit\<close> and \<open>urlunsplit\<close>, URL quoting and HTML
  escaping, on code points below 256. The check of a bracketed host (an IP address literal) is a
  parameter of \<open>urlsplit\<close>.
\<close>

subsection \<open>Searching\<close>

fun contains :: "string \<Rightarrow> string \<Rightarrow> bool" where
  \<comment> \<open>\<open>part in s\<close>\<close>
  "contains part [] = (part = [])"
| "contains part (c # cs) = (prefix part (c # cs) \<or> contains part cs)"

function py_replace :: "string \<Rightarrow> string \<Rightarrow> string \<Rightarrow> string" where
  \<comment> \<open>\<open>s.replace(old, new)\<close> for a non-empty \<open>old\<close>\<close>
  "py_replace old new s =
     (if old \<noteq> [] \<and> prefix old s then new @ py_replace old new (drop (length old) s)
      else case s of [] \<Rightarrow> [] | c # cs \<Rightarrow> c # py_replace old new cs)"
  by pat_completeness auto

termination
proof (relation "measure (\<lambda>(old, new, s). length s)", goal_cases)
  case (2 old new s)
  then show ?case by (cases old; cases s) auto
qed simp_all

declare py_replace.simps [simp del]

definition partition_at :: "char \<Rightarrow> string \<Rightarrow> string \<times> string option" where
  \<comment> \<open>\<open>s.partition(c)\<close>: the text before the first \<open>c\<close>, and the text after it if there is one\<close>
  "partition_at c s = (takeWhile (\<lambda>x. x \<noteq> c) s,
     case dropWhile (\<lambda>x. x \<noteq> c) s of [] \<Rightarrow> None | _ # rest \<Rightarrow> Some rest)"

definition rpartition_at :: "char \<Rightarrow> string \<Rightarrow> string option \<times> string" where
  \<comment> \<open>\<open>s.rpartition(c)\<close>: split at the last \<open>c\<close>\<close>
  "rpartition_at c s = (case partition_at c (rev s) of (a, b) \<Rightarrow> (map_option rev b, rev a))"

definition strip_chars :: "string \<Rightarrow> string \<Rightarrow> string" where
  "strip_chars cs s = rev (dropWhile (\<lambda>x. x \<in> set cs) (rev (dropWhile (\<lambda>x. x \<in> set cs) s)))"

definition rstrip_chars :: "string \<Rightarrow> string \<Rightarrow> string" where
  "rstrip_chars cs s = rev (dropWhile (\<lambda>x. x \<in> set cs) (rev s))"

subsection \<open>Case\<close>

definition lower_code :: "nat \<Rightarrow> nat" where
  "lower_code n = (if (65 \<le> n \<and> n \<le> 90) \<or> (192 \<le> n \<and> n \<le> 222 \<and> n \<noteq> 215) then n + 32 else n)"

definition py_lower :: "string \<Rightarrow> string" where
  "py_lower s = map (\<lambda>c. char_of (lower_code (of_char c))) s"

definition casefold :: "string \<Rightarrow> nat list" where
  \<comment> \<open>the code points of \<open>s.casefold()\<close>: sharp s folds to two letters, the micro sign to a Greek mu\<close>
  "casefold s = concat (map (\<lambda>c. let n = (of_char c :: nat) in
     if n = 223 then [115, 115] else if n = 181 then [956] else [lower_code n]) s)"

definition upper_ascii :: "string \<Rightarrow> string" where
  \<comment> \<open>\<open>s.upper()\<close> of a text of ASCII characters\<close>
  "upper_ascii s = map (\<lambda>c. if is_lower c then char_of (of_char c - 32 :: nat) else c) s"

subsection \<open>Integers\<close>

definition digit_value :: "char \<Rightarrow> int option" where
  "digit_value c = (let n = (of_char c :: nat) in
     if is_digit c then Some (int n - 48) else if is_lower c then Some (int n - 87)
     else if is_upper c then Some (int n - 55) else None)"

fun int_digits :: "int \<Rightarrow> int \<Rightarrow> bool \<Rightarrow> string \<Rightarrow> int option" where
  \<comment> \<open>digits with single underscores between them; the flag says that a digit must follow\<close>
  "int_digits b acc must [] = (if must then None else Some acc)"
| "int_digits b acc must (c # cs) =
     (if c = CHR ''_'' then (if must then None else int_digits b acc True cs)
      else case digit_value c of
        None \<Rightarrow> None
      | Some d \<Rightarrow> if d < b then int_digits b (acc * b + d) False cs else None)"

definition int_magnitude :: "int \<Rightarrow> string \<Rightarrow> int option" where
  \<comment> \<open>base 16 allows the prefix \<open>0x\<close> and one underscore after it\<close>
  "int_magnitude b s =
     (if b = 16 \<and> py_lower (take 2 s) = ''0x''
      then int_digits b 0 True (if take 1 (drop 2 s) = ''_'' then drop 3 s else drop 2 s)
      else int_digits b 0 True s)"

definition py_int :: "int \<Rightarrow> string \<Rightarrow> int option" where
  "py_int b text =
     (case strip text of
        [] \<Rightarrow> None
      | c # cs \<Rightarrow>
          if c = CHR ''-'' then map_option uminus (int_magnitude b cs)
          else if c = CHR ''+'' then int_magnitude b cs
          else int_magnitude b (c # cs))"

subsection \<open>UUIDs\<close>

definition uuid_hex :: "string \<Rightarrow> string" where
  "uuid_hex s = filter (\<lambda>c. c \<noteq> CHR ''-'')
     (strip_chars ''{}'' (py_replace ''uuid:'' [] (py_replace ''urn:'' [] s)))"

definition parse_uuid :: "string \<Rightarrow> int option" where
  \<comment> \<open>\<open>uuid.UUID(s).int\<close>; \<open>None\<close> is ValueError\<close>
  "parse_uuid s =
     (if length (uuid_hex s) \<noteq> 32 then None
      else case py_int 16 (uuid_hex s) of
        None \<Rightarrow> None
      | Some i \<Rightarrow> if 0 \<le> i \<and> i < 2 ^ 128 then Some i else None)"

fun hex_fixed :: "nat \<Rightarrow> int \<Rightarrow> string" where
  "hex_fixed 0 n = []"
| "hex_fixed (Suc k) n = hex_fixed k (n div 16) @ [hex_digit (nat (n mod 16))]"

definition dashed :: "string \<Rightarrow> string" where
  "dashed h = take 8 h @ ''-'' @ take 4 (drop 8 h) @ ''-'' @ take 4 (drop 12 h) @ ''-''
     @ take 4 (drop 16 h) @ ''-'' @ drop 20 h"

definition uuid_text :: "int \<Rightarrow> string" where
  \<comment> \<open>\<open>str(uuid)\<close>\<close>
  "uuid_text n = dashed (hex_fixed 32 n)"

subsection \<open>URLs\<close>

record split_url =
  url_scheme :: string
  url_netloc :: string
  url_path :: string
  url_query :: string
  url_fragment :: string

definition split_scheme :: "string \<Rightarrow> string \<times> string" where
  "split_scheme u =
     (case partition_at CHR '':'' u of
        (s, Some rest) \<Rightarrow>
          if s \<noteq> [] \<and> (is_upper (hd s) \<or> is_lower (hd s))
             \<and> list_all (\<lambda>c. is_alnum c \<or> c \<in> set ''+-.'') s
          then (py_lower s, rest) else ([], u)
      | (_, None) \<Rightarrow> ([], u))"

definition clean_url :: "string \<Rightarrow> string" where
  "clean_url u = filter (\<lambda>c. c \<notin> {CHR 0x09, CHR 0x0A, CHR 0x0D})
     (dropWhile (\<lambda>c. (of_char c :: nat) \<le> 32) u)"

definition urlsplit :: "(string \<Rightarrow> bool) \<Rightarrow> string \<Rightarrow> split_url option" where
  \<comment> \<open>\<open>None\<close> is ValueError; the argument decides which bracketed hosts are IP address literals\<close>
  "urlsplit bracketed_ok text =
     (let (scheme, u) = split_scheme (clean_url text);
          (netloc, u) = (if take 2 u = ''//'' then
               (takeWhile (\<lambda>c. c \<notin> set ''/?#'') (drop 2 u), dropWhile (\<lambda>c. c \<notin> set ''/?#'') (drop 2 u))
             else ([], u));
          opened = CHR ''['' \<in> set netloc; closed = CHR '']'' \<in> set netloc;
          (u, fragment) = partition_at CHR ''#'' u;
          (path, query) = partition_at CHR ''?'' u
      in if opened \<noteq> closed \<or> (opened \<and> \<not> bracketed_ok netloc) then None
         else Some \<lparr>url_scheme = scheme, url_netloc = netloc, url_path = path,
                url_query = (case query of None \<Rightarrow> [] | Some q \<Rightarrow> q),
                url_fragment = (case fragment of None \<Rightarrow> [] | Some f \<Rightarrow> f)\<rparr>)"

definition url_hostinfo :: "split_url \<Rightarrow> string" where
  "url_hostinfo u = snd (rpartition_at CHR ''@'' (url_netloc u))"

definition url_hostname :: "split_url \<Rightarrow> string option" where
  "url_hostname u =
     (let host = (case partition_at CHR ''['' (url_hostinfo u) of
            (_, Some bracketed) \<Rightarrow> fst (partition_at CHR '']'' bracketed)
          | (_, None) \<Rightarrow> fst (partition_at CHR '':'' (url_hostinfo u)))
      in if host = [] then None
         else case partition_at CHR ''%'' host of
                (a, None) \<Rightarrow> Some (py_lower a)
              | (a, Some zone) \<Rightarrow> Some (py_lower a @ ''%'' @ zone))"

definition url_username :: "split_url \<Rightarrow> string option" where
  "url_username u = (case rpartition_at CHR ''@'' (url_netloc u) of
     (None, _) \<Rightarrow> None | (Some info, _) \<Rightarrow> Some (fst (partition_at CHR '':'' info)))"

definition url_password :: "split_url \<Rightarrow> string option" where
  "url_password u = (case rpartition_at CHR ''@'' (url_netloc u) of
     (None, _) \<Rightarrow> None | (Some info, _) \<Rightarrow> snd (partition_at CHR '':'' info))"

definition urlunsplit :: "string \<Rightarrow> string \<Rightarrow> string \<Rightarrow> string" where
  \<comment> \<open>\<open>urlunsplit((scheme, netloc, path, "", ""))\<close> for a non-empty scheme and netloc\<close>
  "urlunsplit scheme netloc path =
     scheme @ ''://'' @ netloc @ (if path \<noteq> [] \<and> hd path \<noteq> CHR ''/'' then CHR ''/'' # path else path)"

definition url_quote :: "string \<Rightarrow> string" where
  \<comment> \<open>\<open>quote(s, safe="")\<close>\<close>
  "url_quote s = concat (map (\<lambda>b. if is_alnum b \<or> b \<in> set ''_.-~'' then [b]
     else let n = (of_char b :: nat) in CHR ''%'' # upper_ascii [hex_digit (n div 16), hex_digit (n mod 16)])
     (utf8_bytes s))"

definition html_escape :: "string \<Rightarrow> string" where
  \<comment> \<open>\<open>html.escape(s, quote=True)\<close>; 34 and 39 are the quotes\<close>
  "html_escape s = concat (map (\<lambda>c. let n = (of_char c :: nat) in
     if c = CHR ''&'' then ''&amp;'' else if c = CHR ''<'' then ''&lt;'' else if c = CHR ''>'' then ''&gt;''
     else if n = 34 then ''&quot;'' else if n = 39 then ''&#x27;'' else [c]) s)"

subsection \<open>Canonical UUIDs\<close>

definition lower_hex :: "char \<Rightarrow> bool" where
  "lower_hex c \<longleftrightarrow> is_digit c \<or> c \<in> set ''abcdef''"

fun hex_template :: "string \<Rightarrow> string \<Rightarrow> bool" where
  \<comment> \<open>\<open>h\<close> stands for a lowercase hexadecimal digit, any other character for itself\<close>
  "hex_template [] [] = True"
| "hex_template (t # ts) (c # cs) = ((if t = CHR ''h'' then lower_hex c else c = t) \<and> hex_template ts cs)"
| "hex_template _ _ = False"

definition uuid_shape :: "string \<Rightarrow> bool" where
  "uuid_shape = hex_template ''hhhhhhhh-hhhh-hhhh-hhhh-hhhhhhhhhhhh''"

lemma lower_hex_cases: "lower_hex c \<longleftrightarrow> c \<in> set ''0123456789abcdef''"
proof -
  have "is_digit c \<longleftrightarrow> c \<in> set ''0123456789''"
  proof
    assume "is_digit c"
    then have "48 \<le> (of_char c :: nat)" "(of_char c :: nat) \<le> 57" by (simp_all add: is_digit_def Let_def)
    then have "(of_char c :: nat) \<in> {48, 49, 50, 51, 52, 53, 54, 55, 56, 57}"
      unfolding insert_iff empty_iff by presburger
    then have "(of_char c :: nat) \<in> of_char ` set ''0123456789''" by auto
    then show "c \<in> set ''0123456789''" unfolding image_iff of_char_eq_iff by blast
  qed (auto simp: is_digit_def)
  then show ?thesis by (auto simp: lower_hex_def)
qed

lemma lower_hex_digit:
  assumes "lower_hex c"
  obtains d where "digit_value c = Some d" "0 \<le> d" "d < 16" "hex_digit (nat d) = c"
proof -
  have "list_all (\<lambda>c. digit_value c = Some (the (digit_value c)) \<and> 0 \<le> the (digit_value c)
      \<and> the (digit_value c) < 16 \<and> hex_digit (nat (the (digit_value c))) = c) ''0123456789abcdef''"
    by code_simp
  with assms that show ?thesis unfolding list_all_iff lower_hex_cases by blast
qed

lemma lower_hex_chars:
  assumes "lower_hex c"
  shows "\<not> is_space c" "c \<notin> set ''urn:{}-_+xX''"
  using assms unfolding lower_hex_cases by (auto simp: is_space_def)

lemma hex_digit_lower_hex: "n < 16 \<Longrightarrow> lower_hex (hex_digit n)"
proof -
  assume "n < 16"
  then have "n \<in> {0, 1, 2, 3, 4, 5, 6, 7, 8, 9, 10, 11, 12, 13, 14, 15}"
    unfolding insert_iff empty_iff by presburger
  then have "(of_char (hex_digit n) :: nat) \<in> of_char ` set ''0123456789abcdef''"
    by (auto simp: hex_digit_def)
  then show ?thesis unfolding lower_hex_cases image_iff of_char_eq_iff by blast
qed

abbreviation hex_step :: "int \<Rightarrow> char \<Rightarrow> int" where
  "hex_step acc c \<equiv> acc * 16 + the (digit_value c)"

lemma int_digits_hex:
  "list_all lower_hex h \<Longrightarrow> h \<noteq> [] \<or> \<not> must \<Longrightarrow> int_digits 16 acc must h = Some (foldl hex_step acc h)"
proof (induction h arbitrary: acc must)
  case (Cons c h)
  from Cons.prems(1) have c: "lower_hex c" and h: "list_all lower_hex h" by simp_all
  obtain d where "digit_value c = Some d" "d < 16" using lower_hex_digit [OF c] by metis
  with Cons.IH [OF h] lower_hex_chars(2) [OF c] show ?case by auto
qed simp

lemma hex_value_bounds:
  "list_all lower_hex h \<Longrightarrow> 0 \<le> foldl hex_step 0 h \<and> foldl hex_step 0 h < 16 ^ length h"
proof (induction h rule: rev_induct)
  case (snoc c h)
  then obtain d where "digit_value c = Some d" "0 \<le> d" "d < 16" using lower_hex_digit [of c] by auto
  with snoc show ?case by auto
qed simp

lemma hex_fixed_value: "list_all lower_hex h \<Longrightarrow> hex_fixed (length h) (foldl hex_step 0 h) = h"
proof (induction h rule: rev_induct)
  case (snoc c h)
  then obtain d where "digit_value c = Some d" "0 \<le> d" "d < 16" "hex_digit (nat d) = c"
    using lower_hex_digit [of c] by auto
  with snoc show ?case by auto
qed simp

lemma hex_fixed_length [simp]: "length (hex_fixed k n) = k"
  by (induction k n rule: hex_fixed.induct) auto

lemma hex_fixed_lower_hex: "list_all lower_hex (hex_fixed k n)"
  by (induction k n rule: hex_fixed.induct) (auto intro!: hex_digit_lower_hex simp: nat_less_iff)

lemma py_replace_absent: "old \<noteq> [] \<Longrightarrow> hd old \<notin> set s \<Longrightarrow> py_replace old new s = s"
proof (induction s)
  case (Cons c s)
  then have "\<not> prefix old (c # s)" by (cases old) auto
  with Cons show ?case by (simp add: py_replace.simps [of old new "c # s"])
qed (simp add: py_replace.simps)

lemma strip_chars_absent: "set s \<inter> set cs = {} \<Longrightarrow> strip_chars cs s = s"
proof -
  assume d: "set s \<inter> set cs = {}"
  have "dropWhile (\<lambda>x. x \<in> set cs) t = t" if "set t \<subseteq> set s" for t
    using that d by (cases t) auto
  then show ?thesis by (simp add: strip_chars_def)
qed

lemma strip_absent: "list_all (\<lambda>c. \<not> is_space c) s \<Longrightarrow> strip s = s"
proof -
  assume d: "list_all (\<lambda>c. \<not> is_space c) s"
  have "dropWhile is_space t = t" if "set t \<subseteq> set s" for t
    using that d by (cases t) (auto simp: list_all_iff)
  then show ?thesis by (simp add: strip_def)
qed

lemma py_int_hex:
  assumes "list_all lower_hex h" "length h = 32"
  shows "py_int 16 h = Some (foldl hex_step 0 h)"
proof -
  from assms(2) obtain c d t where h: "h = c # d # t" by (auto simp: numeral_eq_Suc length_Suc_conv)
  have s: "strip h = h"
    using assms(1) lower_hex_chars(1) by (intro strip_absent) (auto simp: list_all_iff)
  have c: "c \<notin> set ''urn:{}-_+xX''" and d: "lower_hex d" using assms(1) lower_hex_chars(2) h by auto
  have "py_lower (take 2 h) \<noteq> ''0x''"
    using d unfolding lower_hex_cases by (auto simp: h py_lower_def lower_code_def)
  then show ?thesis
    using c s assms(1) int_digits_hex [of h True 0] by (auto simp: py_int_def int_magnitude_def h)
qed

lemma dashed_shape:
  assumes "length h = 32" "list_all lower_hex h"
  shows "uuid_shape (dashed h)"
  using assms by (auto simp: numeral_eq_Suc length_Suc_conv dashed_def uuid_shape_def)

lemma hex_template_Cons:
  "hex_template (t # ts) s \<longleftrightarrow> (\<exists>c cs. s = c # cs \<and> (if t = CHR ''h'' then lower_hex c else c = t) \<and> hex_template ts cs)"
  by (cases s) auto

lemma hex_template_Nil: "hex_template [] s \<longleftrightarrow> s = []"
  by (cases s) auto

lemma uuid_shape_dashed:
  assumes "uuid_shape s"
  obtains h where "s = dashed h" "length h = 32" "list_all lower_hex h"
proof -
  let ?h = "take 8 s @ take 4 (drop 9 s) @ take 4 (drop 14 s) @ take 4 (drop 19 s) @ drop 24 s"
  have "s = dashed ?h \<and> length ?h = 32 \<and> list_all lower_hex ?h"
    using assms unfolding uuid_shape_def
    by (simp only: hex_template_Cons hex_template_Nil if_True if_False char.inject simp_thms)
      (elim exE conjE, simp add: dashed_def)
  with that show ?thesis by blast
qed

lemma take_drop_append: "take a (drop b h) @ drop (a + b) h = drop b h"
  by (metis append_take_drop_id drop_drop)

lemma uuid_hex_dashed:
  assumes "length h = 32" "list_all lower_hex h"
  shows "uuid_hex (dashed h) = h"
proof -
  have h: "set (dashed h) \<subseteq> set h \<union> {CHR ''-''}"
    by (auto simp: dashed_def dest: in_set_takeD in_set_dropD)
  have n: "c \<notin> set ''urn:{}_+xX''" if "c \<in> set (dashed h)" for c
  proof (cases "c = CHR ''-''")
    case False
    then have "lower_hex c" using that h assms(2) unfolding list_all_iff by blast
    from lower_hex_chars(2) [OF this] show ?thesis by simp
  qed simp
  have "py_replace ''uuid:'' [] (py_replace ''urn:'' [] (dashed h)) = dashed h"
    using n [of "CHR ''u''"] by (subst py_replace_absent [of "''urn:''"]; force simp: py_replace_absent)
  moreover have "strip_chars ''{}'' (dashed h) = dashed h"
    using n by (intro strip_chars_absent) auto
  moreover have "filter (\<lambda>c. c \<noteq> CHR ''-'') (dashed h) = h"
  proof -
    have "filter (\<lambda>c. c \<noteq> CHR ''-'') t = t" if "set t \<subseteq> set h" for t
      using that assms(2) lower_hex_chars(2) by (fastforce simp: list_all_iff filter_id_conv)
    then have "filter (\<lambda>c. c \<noteq> CHR ''-'') (dashed h)
        = take 8 h @ take 4 (drop 8 h) @ take 4 (drop 12 h) @ take 4 (drop 16 h) @ drop 20 h"
      by (simp add: dashed_def set_take_subset set_drop_subset subset_trans [OF set_take_subset set_drop_subset])
    also have "\<dots> = h"
      using take_drop_append [of 4 16 h] take_drop_append [of 4 12 h] take_drop_append [of 4 8 h] by simp
    finally show ?thesis .
  qed
  ultimately show ?thesis by (simp add: uuid_hex_def)
qed

lemma parse_uuid_dashed:
  assumes "length h = 32" "list_all lower_hex h"
  shows "parse_uuid (dashed h) = Some (foldl hex_step 0 h)" "uuid_text (foldl hex_step 0 h) = dashed h"
proof -
  have b: "(16::int) ^ 32 = 2 ^ 128" by simp
  show "parse_uuid (dashed h) = Some (foldl hex_step 0 h)"
    using assms hex_value_bounds [OF assms(2)] b
    by (simp add: parse_uuid_def uuid_hex_dashed py_int_hex)
  show "uuid_text (foldl hex_step 0 h) = dashed h"
    using hex_fixed_value [OF assms(2)] assms(1) by (simp add: uuid_text_def)
qed

lemma parse_uuid_canonical: "(\<exists>n. parse_uuid s = Some n \<and> uuid_text n = s) \<longleftrightarrow> uuid_shape s"
proof
  assume "\<exists>n. parse_uuid s = Some n \<and> uuid_text n = s"
  then show "uuid_shape s"
    using dashed_shape hex_fixed_length hex_fixed_lower_hex by (auto simp: uuid_text_def)
next
  assume "uuid_shape s"
  then obtain h where "s = dashed h" "length h = 32" "list_all lower_hex h" by (rule uuid_shape_dashed)
  with parse_uuid_dashed [of h] show "\<exists>n. parse_uuid s = Some n \<and> uuid_text n = s" by blast
qed

lemma hex_value_fixed: "foldl hex_step 0 (hex_fixed k n) = n mod 16 ^ k"
proof (induction k arbitrary: n)
  case (Suc k)
  have d: "the (digit_value (hex_digit (nat m))) = m" if "0 \<le> m" "m < 16" for m :: int
  proof -
    have "list_all (\<lambda>m. the (digit_value (hex_digit (nat m))) = m) [0, 1, 2, 3, 4, 5, 6, 7, 8, 9, 10, 11, 12, 13, 14, 15]"
      by (simp add: digit_value_def hex_digit_def is_digit_def is_lower_def)
    moreover have "m \<in> set [0, 1, 2, 3, 4, 5, 6, 7, 8, 9, 10, 11, 12, 13, 14, 15]"
      using that unfolding list.set insert_iff empty_iff by presburger
    ultimately show ?thesis by (simp only: list_all_iff)
  qed
  have "foldl hex_step 0 (hex_fixed (Suc k) n) = n div 16 mod 16 ^ k * 16 + n mod 16"
    by (simp add: Suc.IH d)
  also have "\<dots> = n mod 16 ^ Suc k"
    using mod_mult2_eq' [of n 16 "16 ^ k"] by simp
  finally show ?case .
qed simp

lemma parse_uuid_text:
  assumes "0 \<le> n" "n < 2 ^ 128"
  shows "parse_uuid (uuid_text n) = Some n"
proof -
  have b: "(16::int) ^ 32 = 2 ^ 128" by simp
  have "foldl hex_step 0 (hex_fixed 32 n) = n"
    using assms by (simp add: hex_value_fixed b)
  then show ?thesis
    using parse_uuid_dashed(1) [of "hex_fixed 32 n"] by (simp add: uuid_text_def hex_fixed_lower_hex)
qed

lemma parse_uuid_bounds: "parse_uuid s = Some n \<Longrightarrow> 0 \<le> n \<and> n < 2 ^ 128"
  by (auto simp: parse_uuid_def split: if_splits option.splits)

end
