(* ===== verification/Azure_Publication.thy ===== *)
theory Azure_Publication
  imports Review_Binding Py_Text
begin

text \<open>
  The publication documents of \<open>azure_devops.py\<close>: the records that tie one review result and its
  report to a TFVC target and an Azure build, their parsers and rendering, and the build identity
  read from the agent's environment. \<open>bracketed\<close> is the parameter of \<open>urlsplit\<close>.
\<close>

definition AZURE_REVIEW_PUBLICATION_SCHEMA_VERSION :: string where
  "AZURE_REVIEW_PUBLICATION_SCHEMA_VERSION = ''1.0''"
definition AZURE_REVIEW_VERIFICATION_SCHEMA_VERSION :: string where
  "AZURE_REVIEW_VERIFICATION_SCHEMA_VERSION = ''1.0''"

definition MAX_REVIEW_REPORT_BYTES :: nat where "MAX_REVIEW_REPORT_BYTES = 2 * 1024 * 1024"
definition MAX_AZURE_PUBLICATION_BYTES :: nat where "MAX_AZURE_PUBLICATION_BYTES = 1024 * 1024"
definition MAX_AZURE_VERIFICATION_BYTES :: nat where "MAX_AZURE_VERIFICATION_BYTES = 1024 * 1024"
definition DEFAULT_MAX_PUBLICATION_AGE_SECONDS :: int where "DEFAULT_MAX_PUBLICATION_AGE_SECONDS = 3600"
definition MAX_PUBLICATION_AGE_SECONDS :: int where "MAX_PUBLICATION_AGE_SECONDS = 24 * 60 * 60"
definition MAX_REVIEW_TO_PUBLICATION_SECONDS :: int where "MAX_REVIEW_TO_PUBLICATION_SECONDS = 300"

definition REVIEW_RESULT_MEDIA_TYPE :: string where
  "REVIEW_RESULT_MEDIA_TYPE = ''application/vnd.causure.review-result+json''"
definition REVIEW_REPORT_MEDIA_TYPE :: string where
  "REVIEW_REPORT_MEDIA_TYPE = ''text/markdown; charset=utf-8''"
definition PUBLICATION_MEDIA_TYPE :: string where
  "PUBLICATION_MEDIA_TYPE = ''application/vnd.causure.azure-review-publication+json''"
definition TFVC_REPOSITORY_PROVIDER :: string where "TFVC_REPOSITORY_PROVIDER = ''TfsVersionControl''"

subsection \<open>Data\<close>

record artifact_integrity =
  ai_media_type :: string
  ai_sha256 :: string
  ai_byte_count :: int

record review_artifacts =
  ra_review_result :: artifact_integrity
  ra_review_report :: artifact_integrity

datatype tfvc_target =
    Tfvc_changeset_target tfvc_target_kind int
  | Tfvc_shelveset_target tfvc_target_kind string string
  \<comment> \<open>kind and changeset ID; kind, shelveset name and owner\<close>

record tfvc_association =
  ta_server_path :: string
  ta_target :: tfvc_target

record azure_build_context =
  bc_collection_uri :: string
  bc_project_id :: string
  bc_project_name :: string
  bc_build_id :: int
  bc_build_number :: string
  bc_definition_id :: int
  bc_definition_name :: string
  bc_reason :: azure_build_reason
  bc_repository_provider :: string
  bc_source_version :: string
  bc_source_branch :: string
  bc_requested_for_id :: string
  bc_source_tfvc_shelveset :: "string option"

record azure_review_publication =
  arp_schema_version :: string
  arp_created_at :: string
  arp_review :: review_binding
  arp_tfvc :: tfvc_association
  arp_build :: azure_build_context
  arp_work_item_ids :: "int list"
  arp_artifacts :: review_artifacts

subsection \<open>Values\<close>

definition canonical_uuid :: "string \<Rightarrow> string \<Rightarrow> json \<Rightarrow> azure_error + string" where
  "canonical_uuid path name v =
     attempt (azure_string 36 None path name v) (\<lambda>raw.
     case parse_uuid raw of
       None \<Rightarrow> Inl (Azure_error name path ''expected a UUID'')
     | Some n \<Rightarrow>
         if n = 0 then Inl (Azure_error name path ''the nil UUID is not allowed'')
         else if raw \<noteq> uuid_text n then
           Inl (Azure_error name path ''expected a canonical lowercase UUID'')
         else Inr (uuid_text n))"

definition canonical_url :: "split_url \<Rightarrow> string" where
  "canonical_url u = urlunsplit ''https'' (py_lower (url_netloc u)) (rstrip_chars ''/'' (url_path u) @ ''/'')"

definition plain_https :: "split_url \<Rightarrow> bool" where
  "plain_https u \<longleftrightarrow> url_scheme u = ''https'' \<and> url_hostname u \<noteq> None \<and> url_username u = None
     \<and> url_password u = None \<and> url_query u = [] \<and> url_fragment u = []"

definition collection_uri :: "(string \<Rightarrow> bool) \<Rightarrow> string \<Rightarrow> string \<Rightarrow> json \<Rightarrow> azure_error + string" where
  "collection_uri bracketed path name v =
     attempt (azure_string 2048 None path name v) (\<lambda>raw.
     case urlsplit bracketed raw of
       None \<Rightarrow> Inl Plain_value_error
     | Some parsed \<Rightarrow>
         if \<not> plain_https parsed then Inl (Azure_error name path
           ''expected an HTTPS collection URI without credentials, query, or fragment'')
         else if raw \<noteq> canonical_url parsed then Inl (Azure_error name path
           (''expected canonical collection URI '' @ py_repr (canonical_url parsed)))
         else Inr (canonical_url parsed))"

definition tfvc_path_ok :: "string \<Rightarrow> bool" where
  "tfvc_path_ok s \<longleftrightarrow> prefix ''$/'' s \<and> last s \<noteq> CHR ''/'' \<and> CHR '';'' \<notin> set s"

definition tfvc_server_path :: "string \<Rightarrow> string \<Rightarrow> json \<Rightarrow> azure_error + string" where
  "tfvc_server_path path name v =
     attempt (azure_string 512 None path name v) (\<lambda>result.
     if \<not> prefix ''$/'' result \<or> last result = CHR ''/'' \<or> CHR '';'' \<in> set result then
       Inl (Azure_error name path
         (''expected a TFVC server path beginning with '' @ [char_of (39 :: nat)] @ ''$/''
          @ [char_of (39 :: nat)] @ '' and without a trailing slash''))
     else Inr result)"

subsection \<open>Parts of a publication\<close>

definition parse_artifact ::
  "string \<Rightarrow> nat \<Rightarrow> string \<Rightarrow> string \<Rightarrow> json \<Rightarrow> azure_error + artifact_integrity" where
  "parse_artifact expected maximum_bytes path name v =
     attempt (azure_object path name [''media_type'', ''sha256'', ''byte_count''] [] v) (\<lambda>obj.
     attempt (azure_string 255 None (sub path ''media_type'') name (jget obj ''media_type'')) (\<lambda>media_type.
     attempt (ensure (media_type = expected)
                (Azure_error name (sub path ''media_type'') (''expected '' @ py_repr expected))) (\<lambda>_.
     attempt (azure_string 64 (Some sha256_ok) (sub path ''sha256'') name (jget obj ''sha256'')) (\<lambda>sha256.
     attempt (azure_integer 1 (sub path ''byte_count'') name (jget obj ''byte_count'')) (\<lambda>byte_count.
     attempt (ensure (byte_count \<le> int maximum_bytes)
                (Azure_error name (sub path ''byte_count'') (''expected at most '' @ dec_nat maximum_bytes))) (\<lambda>_.
     Inr \<lparr>ai_media_type = media_type, ai_sha256 = sha256, ai_byte_count = byte_count\<rparr>))))))"

definition review_keys :: "string list" where
  "review_keys =
     [''result_schema_version'', ''engine_version'', ''policy_name'', ''case_id'', ''component'',
      ''input_sha256'', ''reviewed_at'', ''decision'', ''recommended_action'']"

definition parse_review :: "string \<Rightarrow> string \<Rightarrow> json \<Rightarrow> azure_error + review_binding" where
  "parse_review path name v =
     attempt (azure_object path name review_keys [] v) (\<lambda>obj.
     attempt (azure_string 16 None (sub path ''result_schema_version'') name
                (jget obj ''result_schema_version'')) (\<lambda>version.
     attempt (ensure (version = RESULT_SCHEMA_VERSION)
                (Azure_error name (sub path ''result_schema_version'')
                   (''expected '' @ py_repr RESULT_SCHEMA_VERSION))) (\<lambda>_.
     attempt (azure_string 128 None (sub path ''engine_version'') name (jget obj ''engine_version'')) (\<lambda>ev.
     attempt (azure_string 128 None (sub path ''policy_name'') name (jget obj ''policy_name'')) (\<lambda>pn.
     attempt (azure_string 128 (Some safe_id_ok) (sub path ''case_id'') name (jget obj ''case_id'')) (\<lambda>ci.
     attempt (azure_enum component_value component_members (sub path ''component'') name
                (jget obj ''component'')) (\<lambda>cm.
     attempt (azure_string 64 (Some sha256_ok) (sub path ''input_sha256'') name (jget obj ''input_sha256'')) (\<lambda>sh.
     attempt (azure_utc_timestamp False (sub path ''reviewed_at'') name (jget obj ''reviewed_at'')) (\<lambda>ra.
     attempt (azure_enum decision_value decision_members (sub path ''decision'') name
                (jget obj ''decision'')) (\<lambda>dc.
     attempt (azure_enum recommended_action_value recommended_action_members
                (sub path ''recommended_action'') name (jget obj ''recommended_action'')) (\<lambda>ac.
     Inr \<lparr>rvb_result_schema_version = version, rvb_engine_version = ev, rvb_policy_name = pn,
          rvb_case_id = ci, rvb_component = cm, rvb_input_sha256 = sh, rvb_reviewed_at = ra,
          rvb_decision = dc, rvb_recommended_action = ac\<rparr>)))))))))))"

definition parse_target :: "string \<Rightarrow> string \<Rightarrow> json \<Rightarrow> azure_error + tfvc_target" where
  "parse_target path name v =
     (case v of JObj members \<Rightarrow>
        attempt (azure_enum tfvc_target_kind_value tfvc_target_kind_members (sub path ''kind'') name
                   (jget members ''kind'')) (\<lambda>kind.
        if kind = TfvcTargetKind_CHANGESET then
          attempt (azure_object path name [''kind'', ''changeset_id''] [] v) (\<lambda>obj.
          attempt (azure_integer 1 (sub path ''changeset_id'') name (jget obj ''changeset_id'')) (\<lambda>i.
          Inr (Tfvc_changeset_target kind i)))
        else
          attempt (azure_object path name [''kind'', ''shelveset_name'', ''owner''] [] v) (\<lambda>obj.
          attempt (azure_string 128 None (sub path ''shelveset_name'') name (jget obj ''shelveset_name'')) (\<lambda>n.
          attempt (azure_string 320 None (sub path ''owner'') name (jget obj ''owner'')) (\<lambda>ow.
          Inr (Tfvc_shelveset_target kind n ow)))))
      | _ \<Rightarrow> Inl (Azure_error name path ''expected an object''))"

definition parse_tfvc :: "string \<Rightarrow> string \<Rightarrow> json \<Rightarrow> azure_error + tfvc_association" where
  "parse_tfvc path name v =
     attempt (azure_object path name [''server_path'', ''target''] [] v) (\<lambda>obj.
     attempt (tfvc_server_path (sub path ''server_path'') name (jget obj ''server_path'')) (\<lambda>p.
     attempt (parse_target (sub path ''target'') name (jget obj ''target'')) (\<lambda>t.
     Inr \<lparr>ta_server_path = p, ta_target = t\<rparr>)))"

definition build_keys :: "string list" where
  "build_keys =
     [''collection_uri'', ''project_id'', ''project_name'', ''build_id'', ''build_number'',
      ''definition_id'', ''definition_name'', ''reason'', ''repository_provider'', ''source_version'',
      ''source_branch'', ''requested_for_id'']"

definition azure_optional_string :: "nat \<Rightarrow> string \<Rightarrow> string \<Rightarrow> json \<Rightarrow> azure_error + string option" where
  "azure_optional_string maximum path name v =
     (if v \<noteq> JNull then attempt (azure_string maximum None path name v) (\<lambda>s. Inr (Some s)) else Inr None)"

definition parse_build :: "(string \<Rightarrow> bool) \<Rightarrow> string \<Rightarrow> string \<Rightarrow> json \<Rightarrow> azure_error + azure_build_context" where
  "parse_build bracketed path name v =
     attempt (azure_object path name build_keys [''source_tfvc_shelveset''] v) (\<lambda>obj.
     attempt (azure_string 64 None (sub path ''repository_provider'') name (jget obj ''repository_provider'')) (\<lambda>rp.
     attempt (ensure (rp = TFVC_REPOSITORY_PROVIDER)
                (Azure_error name (sub path ''repository_provider'')
                   (''expected '' @ py_repr TFVC_REPOSITORY_PROVIDER))) (\<lambda>_.
     attempt (collection_uri bracketed (sub path ''collection_uri'') name (jget obj ''collection_uri'')) (\<lambda>cu.
     attempt (canonical_uuid (sub path ''project_id'') name (jget obj ''project_id'')) (\<lambda>pi.
     attempt (azure_string 256 None (sub path ''project_name'') name (jget obj ''project_name'')) (\<lambda>pn.
     attempt (azure_integer 1 (sub path ''build_id'') name (jget obj ''build_id'')) (\<lambda>bi.
     attempt (azure_string 256 None (sub path ''build_number'') name (jget obj ''build_number'')) (\<lambda>bn.
     attempt (azure_integer 1 (sub path ''definition_id'') name (jget obj ''definition_id'')) (\<lambda>di.
     attempt (azure_string 256 None (sub path ''definition_name'') name (jget obj ''definition_name'')) (\<lambda>dn.
     attempt (azure_enum azure_build_reason_value azure_build_reason_members (sub path ''reason'') name
                (jget obj ''reason'')) (\<lambda>re.
     attempt (azure_string 256 None (sub path ''source_version'') name (jget obj ''source_version'')) (\<lambda>sv.
     attempt (azure_string 512 None (sub path ''source_branch'') name (jget obj ''source_branch'')) (\<lambda>sb.
     attempt (azure_optional_string 512 (sub path ''source_tfvc_shelveset'') name
                (jget obj ''source_tfvc_shelveset'')) (\<lambda>ss.
     attempt (canonical_uuid (sub path ''requested_for_id'') name (jget obj ''requested_for_id'')) (\<lambda>ri.
     Inr \<lparr>bc_collection_uri = cu, bc_project_id = pi, bc_project_name = pn, bc_build_id = bi,
          bc_build_number = bn, bc_definition_id = di, bc_definition_name = dn, bc_reason = re,
          bc_repository_provider = rp, bc_source_version = sv, bc_source_branch = sb,
          bc_requested_for_id = ri, bc_source_tfvc_shelveset = ss\<rparr>)))))))))))))))"

definition shelveset_reason :: "azure_build_reason \<Rightarrow> bool" where
  "shelveset_reason r \<longleftrightarrow>
     r \<in> {AzureBuildReason_VALIDATE_SHELVESET, AzureBuildReason_CHECK_IN_SHELVESET}"

definition validate_target_build_consistency ::
  "string \<Rightarrow> tfvc_association \<Rightarrow> azure_build_context \<Rightarrow> azure_error + unit" where
  "validate_target_build_consistency name tfvc build =
     (case ta_target tfvc of
        Tfvc_changeset_target _ changeset_id \<Rightarrow>
          if bc_source_version build \<noteq> dec_int changeset_id then
            Inl (Azure_error name ''$.build.source_version'' ''does not match the TFVC changeset target'')
          else if bc_source_tfvc_shelveset build \<noteq> None then
            Inl (Azure_error name ''$.build.source_tfvc_shelveset'' ''is not allowed for a changeset target'')
          else if casefold (bc_source_branch build) \<noteq> casefold (ta_server_path tfvc) then
            Inl (Azure_error name ''$.build.source_branch'' ''does not match the TFVC server path'')
          else if shelveset_reason (bc_reason build) then
            Inl (Azure_error name ''$.build.reason''
              ''a shelveset build reason is invalid for a changeset target'')
          else Inr ()
      | Tfvc_shelveset_target _ shelveset_name owner \<Rightarrow>
          (let reference = shelveset_name @ '';'' @ owner in
           case bc_source_tfvc_shelveset build of
             None \<Rightarrow> Inl (Azure_error name ''$.build.source_tfvc_shelveset'' ''is required for a shelveset target'')
           | Some s \<Rightarrow>
               if casefold s \<noteq> casefold reference then
                 Inl (Azure_error name ''$.build.source_tfvc_shelveset''
                   ''does not match the TFVC shelveset target'')
               else if casefold (bc_source_branch build) \<noteq> casefold reference then
                 Inl (Azure_error name ''$.build.source_branch'' ''does not match the TFVC shelveset target'')
               else if \<not> shelveset_reason (bc_reason build) then
                 Inl (Azure_error name ''$.build.reason'' ''expected a shelveset build reason'')
               else Inr ()))"

subsection \<open>The publication\<close>

definition publication_keys :: "string list" where
  "publication_keys =
     [''schema_version'', ''created_at'', ''review'', ''tfvc'', ''build'', ''work_item_ids'', ''artifacts'']"

definition parse_work_items :: "string \<Rightarrow> json \<Rightarrow> azure_error + int list" where
  "parse_work_items name v =
     (case v of JArr vs \<Rightarrow>
        attempt (each (\<lambda>index. azure_integer 1 (at_index ''$.work_item_ids'' index) name) 0 vs) (\<lambda>ids.
        attempt (ensure (sort ids = ids \<and> distinct ids)
                   (Azure_error name ''$.work_item_ids'' ''expected unique IDs in ascending order'')) (\<lambda>_.
        Inr ids))
      | _ \<Rightarrow> Inl (Azure_error name ''$.work_item_ids'' ''expected an array''))"

definition parse_artifacts :: "string \<Rightarrow> dict \<Rightarrow> azure_error + review_artifacts" where
  "parse_artifacts name obj =
     attempt (parse_artifact REVIEW_RESULT_MEDIA_TYPE MAX_REVIEW_RESULT_BYTES ''$.artifacts.review_result''
                name (jget obj ''review_result'')) (\<lambda>a.
     attempt (parse_artifact REVIEW_REPORT_MEDIA_TYPE MAX_REVIEW_REPORT_BYTES ''$.artifacts.review_report''
                name (jget obj ''review_report'')) (\<lambda>b.
     Inr \<lparr>ra_review_result = a, ra_review_report = b\<rparr>))"

definition review_gap_ok :: "string \<Rightarrow> string \<Rightarrow> bool" where
  \<comment> \<open>at most one second early and \<open>MAX_REVIEW_TO_PUBLICATION_SECONDS\<close> late, in microseconds\<close>
  "review_gap_ok created reviewed \<longleftrightarrow>
     (let gap = timestamp_value created - timestamp_value reviewed in
      - 1000000 \<le> gap \<and> gap \<le> MAX_REVIEW_TO_PUBLICATION_SECONDS * 1000000)"

definition parse_azure_review_publication ::
  "(string \<Rightarrow> bool) \<Rightarrow> json \<Rightarrow> azure_error + azure_review_publication" where
  "parse_azure_review_publication bracketed document =
     (let name = ''Azure review publication'' in
      attempt (azure_object ''$'' name publication_keys [] document) (\<lambda>root.
      attempt (azure_string 16 None ''$.schema_version'' name (jget root ''schema_version'')) (\<lambda>version.
      attempt (ensure (version = AZURE_REVIEW_PUBLICATION_SCHEMA_VERSION)
                 (Azure_error name ''$.schema_version''
                    (''expected '' @ py_repr AZURE_REVIEW_PUBLICATION_SCHEMA_VERSION))) (\<lambda>_.
      attempt (parse_work_items name (jget root ''work_item_ids'')) (\<lambda>ids.
      attempt (azure_object ''$.artifacts'' name [''review_result'', ''review_report''] []
                 (jget root ''artifacts'')) (\<lambda>artifact_obj.
      attempt (azure_utc_timestamp True ''$.created_at'' name (jget root ''created_at'')) (\<lambda>created.
      attempt (parse_review ''$.review'' name (jget root ''review'')) (\<lambda>review.
      attempt (parse_tfvc ''$.tfvc'' name (jget root ''tfvc'')) (\<lambda>tfvc.
      attempt (parse_build bracketed ''$.build'' name (jget root ''build'')) (\<lambda>build.
      attempt (parse_artifacts name artifact_obj) (\<lambda>artifacts.
      attempt (ensure (review_gap_ok created (rvb_reviewed_at review))
                 (Azure_error name ''$.created_at''
                    (''must be within one second before and ''
                     @ dec_int MAX_REVIEW_TO_PUBLICATION_SECONDS
                     @ '' seconds after review.reviewed_at''))) (\<lambda>_.
      attempt (validate_target_build_consistency name tfvc build) (\<lambda>_.
      Inr \<lparr>arp_schema_version = version, arp_created_at = created, arp_review = review,
           arp_tfvc = tfvc, arp_build = build, arp_work_item_ids = ids,
           arp_artifacts = artifacts\<rparr>)))))))))))))"

definition parse_azure_review_publication_bytes ::
  "library \<Rightarrow> (string \<Rightarrow> bool) \<Rightarrow> string \<Rightarrow> azure_error + azure_review_publication" where
  "parse_azure_review_publication_bytes lib bracketed raw =
     attempt (azure_parse_json_bytes lib ''Azure review publication'' MAX_AZURE_PUBLICATION_BYTES raw)
       (parse_azure_review_publication bracketed)"

subsection \<open>Rendering\<close>

definition artifact_to_json :: "artifact_integrity \<Rightarrow> json" where
  "artifact_to_json a = JObj
     [(''media_type'', JStr (ai_media_type a)), (''sha256'', JStr (ai_sha256 a)),
      (''byte_count'', JInt (ai_byte_count a))]"

definition artifacts_to_json :: "review_artifacts \<Rightarrow> json" where
  "artifacts_to_json a = JObj
     [(''review_result'', artifact_to_json (ra_review_result a)),
      (''review_report'', artifact_to_json (ra_review_report a))]"

definition review_to_json :: "review_binding \<Rightarrow> json" where
  "review_to_json r = JObj
     [(''result_schema_version'', JStr (rvb_result_schema_version r)),
      (''engine_version'', JStr (rvb_engine_version r)), (''policy_name'', JStr (rvb_policy_name r)),
      (''case_id'', JStr (rvb_case_id r)), (''component'', JStr (component_value (rvb_component r))),
      (''input_sha256'', JStr (rvb_input_sha256 r)), (''reviewed_at'', JStr (rvb_reviewed_at r)),
      (''decision'', JStr (decision_value (rvb_decision r))),
      (''recommended_action'', JStr (recommended_action_value (rvb_recommended_action r)))]"

fun target_to_json :: "tfvc_target \<Rightarrow> json" where
  "target_to_json (Tfvc_changeset_target kind i) = JObj
     [(''kind'', JStr (tfvc_target_kind_value kind)), (''changeset_id'', JInt i)]"
| "target_to_json (Tfvc_shelveset_target kind n ow) = JObj
     [(''kind'', JStr (tfvc_target_kind_value kind)), (''shelveset_name'', JStr n), (''owner'', JStr ow)]"

definition tfvc_to_json :: "tfvc_association \<Rightarrow> json" where
  "tfvc_to_json t = JObj
     [(''server_path'', JStr (ta_server_path t)), (''target'', target_to_json (ta_target t))]"

definition build_to_json :: "azure_build_context \<Rightarrow> json" where
  "build_to_json b = JObj
     ([(''collection_uri'', JStr (bc_collection_uri b)), (''project_id'', JStr (bc_project_id b)),
       (''project_name'', JStr (bc_project_name b)), (''build_id'', JInt (bc_build_id b)),
       (''build_number'', JStr (bc_build_number b)), (''definition_id'', JInt (bc_definition_id b)),
       (''definition_name'', JStr (bc_definition_name b)),
       (''reason'', JStr (azure_build_reason_value (bc_reason b))),
       (''repository_provider'', JStr (bc_repository_provider b)),
       (''source_version'', JStr (bc_source_version b)), (''source_branch'', JStr (bc_source_branch b)),
       (''requested_for_id'', JStr (bc_requested_for_id b))] @
      omit_none ''source_tfvc_shelveset'' (map_option JStr (bc_source_tfvc_shelveset b)))"

definition publication_to_json :: "azure_review_publication \<Rightarrow> json" where
  "publication_to_json p = JObj
     [(''schema_version'', JStr (arp_schema_version p)), (''created_at'', JStr (arp_created_at p)),
      (''review'', review_to_json (arp_review p)), (''tfvc'', tfvc_to_json (arp_tfvc p)),
      (''build'', build_to_json (arp_build p)), (''work_item_ids'', JArr (map JInt (arp_work_item_ids p))),
      (''artifacts'', artifacts_to_json (arp_artifacts p))]"

subsection \<open>Well-formed publications\<close>

definition uuid_ok :: "string \<Rightarrow> bool" where
  "uuid_ok s \<longleftrightarrow> azure_text_ok 36 s \<and> (case parse_uuid s of None \<Rightarrow> False | Some n \<Rightarrow> n \<noteq> 0 \<and> s = uuid_text n)"

definition collection_uri_ok :: "(string \<Rightarrow> bool) \<Rightarrow> string \<Rightarrow> bool" where
  "collection_uri_ok bracketed s \<longleftrightarrow> azure_text_ok 2048 s \<and>
     (case urlsplit bracketed s of None \<Rightarrow> False | Some u \<Rightarrow> plain_https u \<and> s = canonical_url u)"

definition server_path_ok :: "string \<Rightarrow> bool" where
  "server_path_ok s \<longleftrightarrow> azure_text_ok 512 s \<and> tfvc_path_ok s"

definition artifact_ok :: "string \<Rightarrow> nat \<Rightarrow> artifact_integrity \<Rightarrow> bool" where
  "artifact_ok media maximum a \<longleftrightarrow> azure_text_ok 255 media \<and> ai_media_type a = media
     \<and> azure_text_ok 64 (ai_sha256 a) \<and> sha256_ok (ai_sha256 a)
     \<and> 1 \<le> ai_byte_count a \<and> ai_byte_count a \<le> int maximum"

definition artifacts_ok :: "review_artifacts \<Rightarrow> bool" where
  "artifacts_ok a \<longleftrightarrow> artifact_ok REVIEW_RESULT_MEDIA_TYPE MAX_REVIEW_RESULT_BYTES (ra_review_result a)
     \<and> artifact_ok REVIEW_REPORT_MEDIA_TYPE MAX_REVIEW_REPORT_BYTES (ra_review_report a)"

definition review_ok :: "review_binding \<Rightarrow> bool" where
  "review_ok r \<longleftrightarrow> rvb_result_schema_version r = RESULT_SCHEMA_VERSION
     \<and> azure_text_ok 128 (rvb_engine_version r) \<and> azure_text_ok 128 (rvb_policy_name r)
     \<and> azure_text_ok 128 (rvb_case_id r) \<and> safe_id_ok (rvb_case_id r)
     \<and> azure_text_ok 64 (rvb_input_sha256 r) \<and> sha256_ok (rvb_input_sha256 r)
     \<and> review_timestamp_ok (rvb_reviewed_at r)"

fun target_ok :: "tfvc_target \<Rightarrow> bool" where
  "target_ok (Tfvc_changeset_target kind i) \<longleftrightarrow> kind = TfvcTargetKind_CHANGESET \<and> 1 \<le> i"
| "target_ok (Tfvc_shelveset_target kind n ow) \<longleftrightarrow>
     kind = TfvcTargetKind_SHELVESET \<and> azure_text_ok 128 n \<and> azure_text_ok 320 ow"

definition tfvc_ok :: "tfvc_association \<Rightarrow> bool" where
  "tfvc_ok t \<longleftrightarrow> server_path_ok (ta_server_path t) \<and> target_ok (ta_target t)"

definition build_ok :: "(string \<Rightarrow> bool) \<Rightarrow> azure_build_context \<Rightarrow> bool" where
  "build_ok bracketed b \<longleftrightarrow> collection_uri_ok bracketed (bc_collection_uri b)
     \<and> uuid_ok (bc_project_id b) \<and> azure_text_ok 256 (bc_project_name b) \<and> 1 \<le> bc_build_id b
     \<and> azure_text_ok 256 (bc_build_number b) \<and> 1 \<le> bc_definition_id b
     \<and> azure_text_ok 256 (bc_definition_name b)
     \<and> bc_repository_provider b = TFVC_REPOSITORY_PROVIDER
     \<and> azure_text_ok 256 (bc_source_version b) \<and> azure_text_ok 512 (bc_source_branch b)
     \<and> pred_option (azure_text_ok 512) (bc_source_tfvc_shelveset b) \<and> uuid_ok (bc_requested_for_id b)"

definition work_items_ok :: "int list \<Rightarrow> bool" where
  "work_items_ok ids \<longleftrightarrow> list_all (\<lambda>i. 1 \<le> i) ids \<and> sorted ids \<and> distinct ids"

definition consistent :: "tfvc_association \<Rightarrow> azure_build_context \<Rightarrow> bool" where
  "consistent t b \<longleftrightarrow> (case ta_target t of
     Tfvc_changeset_target _ i \<Rightarrow> bc_source_version b = dec_int i \<and> bc_source_tfvc_shelveset b = None
       \<and> casefold (bc_source_branch b) = casefold (ta_server_path t) \<and> \<not> shelveset_reason (bc_reason b)
   | Tfvc_shelveset_target _ n ow \<Rightarrow>
       (\<exists>s. bc_source_tfvc_shelveset b = Some s \<and> casefold s = casefold (n @ '';'' @ ow))
       \<and> casefold (bc_source_branch b) = casefold (n @ '';'' @ ow) \<and> shelveset_reason (bc_reason b))"

definition whole_timestamp_ok :: "string \<Rightarrow> bool" where
  "whole_timestamp_ok s \<longleftrightarrow> azure_text_ok 20 s \<and> utc_timestamp_ok s"

definition publication_ok :: "(string \<Rightarrow> bool) \<Rightarrow> azure_review_publication \<Rightarrow> bool" where
  "publication_ok bracketed p \<longleftrightarrow> arp_schema_version p = AZURE_REVIEW_PUBLICATION_SCHEMA_VERSION
     \<and> whole_timestamp_ok (arp_created_at p) \<and> review_ok (arp_review p) \<and> tfvc_ok (arp_tfvc p)
     \<and> build_ok bracketed (arp_build p) \<and> work_items_ok (arp_work_item_ids p)
     \<and> artifacts_ok (arp_artifacts p) \<and> review_gap_ok (arp_created_at p) (rvb_reviewed_at (arp_review p))
     \<and> consistent (arp_tfvc p) (arp_build p)"

lemmas azure_publication_enums [strict_iff] =
  tfvc_target_kind.azure_enum_Inr azure_build_reason.azure_enum_Inr
  tfvc_target_kind.inj_val azure_build_reason.inj_val

lemma azure_whole_timestamp_Inr [strict_iff]:
  "azure_utc_timestamp True path name v = Inr s \<longleftrightarrow> v = JStr s \<and> whole_timestamp_ok s"
  by (auto simp: azure_utc_timestamp_def strict_iff whole_timestamp_ok_def utc_timestamp_ok_def
      split: option.split if_splits)

lemma own_text_Inr:
  "(case f raw of None \<Rightarrow> Inl a | Some n \<Rightarrow> if P n then Inl b else if raw \<noteq> g n then Inl (e n) else Inr (g n)) = Inr s
   \<longleftrightarrow> raw = s \<and> (case f s of None \<Rightarrow> False | Some n \<Rightarrow> \<not> P n \<and> s = g n)"
  \<comment> \<open>a text is accepted when it is the canonical form of what it denotes\<close>
proof (cases "f raw")
  case (Some n)
  then show ?thesis by (cases "raw = g n"; cases "P n") auto
qed auto

lemma canonical_uuid_Inr [strict_iff]: "canonical_uuid path name v = Inr s \<longleftrightarrow> v = JStr s \<and> uuid_ok s"
  unfolding canonical_uuid_def attempt_Inr azure_string_None
    own_text_Inr [where f = parse_uuid and P = "\<lambda>n. n = 0" and g = uuid_text] uuid_ok_def by auto

lemma collection_uri_Inr [strict_iff]:
  "collection_uri bracketed path name v = Inr s \<longleftrightarrow> v = JStr s \<and> collection_uri_ok bracketed s"
  unfolding collection_uri_def attempt_Inr azure_string_None
    own_text_Inr [where f = "urlsplit bracketed" and P = "\<lambda>u. \<not> plain_https u" and g = canonical_url] collection_uri_ok_def not_not
  by auto

lemma tfvc_server_path_Inr [strict_iff]: "tfvc_server_path path name v = Inr s \<longleftrightarrow> v = JStr s \<and> server_path_ok s"
  by (auto simp: tfvc_server_path_def strict_iff server_path_ok_def tfvc_path_ok_def split: if_splits)

lemma azure_optional_string_Inr [strict_iff]:
  "azure_optional_string n path name v = Inr x \<longleftrightarrow>
     v = (case x of None \<Rightarrow> JNull | Some s \<Rightarrow> JStr s) \<and> pred_option (azure_text_ok n) x"
  by (auto simp: azure_optional_string_def strict_iff split: option.split if_splits)

lemma validate_consistency_Inr [strict_iff]:
  "validate_target_build_consistency name t b = Inr u \<longleftrightarrow> consistent t b"
  by (auto simp: validate_target_build_consistency_def consistent_def Let_def split: tfvc_target.split option.split)

subsection \<open>Round trips\<close>

interpretation artifact_codec:
  exact_codec "\<lambda>_. parse_artifact media maximum path name" artifact_to_json "artifact_ok media maximum"
proof
  show "parse_artifact media maximum path name (artifact_to_json x) = Inr x" if "artifact_ok media maximum x" for x
    using that by (cases x) (simp add: parse_artifact_def artifact_to_json_def artifact_ok_def strict_iff exact_keys_def)
  show "artifact_ok media maximum x" if "parse_artifact media maximum path name v = Inr x" for v x
    using that by (auto simp: parse_artifact_def artifact_ok_def strict_iff)
  show "y = x" if "parse_artifact media maximum path name (artifact_to_json x) = Inr y" for x y
    using that by (cases x) (auto simp: parse_artifact_def artifact_to_json_def strict_iff)
qed

interpretation review_codec: exact_codec "\<lambda>_. parse_review path name" review_to_json review_ok
proof
  show "parse_review path name (review_to_json x) = Inr x" if "review_ok x" for x
    using that RESULT_SCHEMA_VERSION_text
    by (cases x) (simp add: parse_review_def review_keys_def review_to_json_def review_ok_def strict_iff exact_keys_def)
  show "review_ok x" if "parse_review path name v = Inr x" for v x
    using that by (auto simp: parse_review_def review_ok_def strict_iff)
  show "y = x" if "parse_review path name (review_to_json x) = Inr y" for x y
    using that by (cases x) (auto simp: parse_review_def review_to_json_def strict_iff)
qed

lemma parse_target_render: "target_ok t \<Longrightarrow> parse_target path name (target_to_json t) = Inr t"
  by (cases t) (auto simp add: parse_target_def strict_iff exact_keys_def
      simp del: tfvc_target_kind_value.simps)

lemma not_changeset: "k \<noteq> TfvcTargetKind_CHANGESET \<Longrightarrow> k = TfvcTargetKind_SHELVESET"
  by (cases k) simp_all

lemma parse_target_ok: "parse_target path name v = Inr t \<Longrightarrow> target_ok t"
  by (cases v) (auto simp: parse_target_def strict_iff split: if_splits intro: not_changeset)

lemma parse_target_exact: "parse_target path name (target_to_json t) = Inr u \<Longrightarrow> u = t"
proof (cases t)
  case (Tfvc_changeset_target k i)
  then show "parse_target path name (target_to_json t) = Inr u \<Longrightarrow> u = t"
    by (cases k) (auto simp: parse_target_def strict_iff exact_keys_def simp del: tfvc_target_kind_value.simps)
next
  case (Tfvc_shelveset_target k n ow)
  then show "parse_target path name (target_to_json t) = Inr u \<Longrightarrow> u = t"
    by (cases k) (auto simp: parse_target_def strict_iff exact_keys_def simp del: tfvc_target_kind_value.simps)
qed

interpretation tfvc_codec: exact_codec "\<lambda>_. parse_tfvc path name" tfvc_to_json tfvc_ok
proof
  show "parse_tfvc path name (tfvc_to_json x) = Inr x" if "tfvc_ok x" for x
    using that parse_target_render [of "ta_target x" "sub path ''target''" name]
    by (cases x) (simp add: parse_tfvc_def tfvc_to_json_def tfvc_ok_def attempt_Inr azure_object_Inr tfvc_server_path_Inr exact_keys_def)
  show "tfvc_ok x" if "parse_tfvc path name v = Inr x" for v x
    using that by (auto simp: parse_tfvc_def tfvc_ok_def strict_iff dest: parse_target_ok)
  show "y = x" if "parse_tfvc path name (tfvc_to_json x) = Inr y" for x y
    using that by (cases x) (auto simp: parse_tfvc_def tfvc_to_json_def strict_iff dest: parse_target_exact)
qed

lemma TFVC_REPOSITORY_PROVIDER_text: "azure_text_ok 64 TFVC_REPOSITORY_PROVIDER"
  by (simp add: TFVC_REPOSITORY_PROVIDER_def text_eval)

interpretation build_codec: exact_codec "\<lambda>_. parse_build bracketed path name" build_to_json "build_ok bracketed"
proof
  show "parse_build bracketed path name (build_to_json x) = Inr x" if "build_ok bracketed x" for x
    using that TFVC_REPOSITORY_PROVIDER_text
    by (cases x) (auto simp add: parse_build_def build_keys_def build_to_json_def build_ok_def strict_iff
        azure_object_optional_Inr keys_between_def omit_none_def split: option.split)
  show "build_ok bracketed x" if "parse_build bracketed path name v = Inr x" for v x
    using that by (clarsimp simp only: parse_build_def strict_iff azure_object_optional_Inr) (simp add: build_ok_def)
  show "y = x" if "parse_build bracketed path name (build_to_json x) = Inr y" for x y
    using that by (cases x, simp only: parse_build_def build_to_json_def strict_iff azure_object_optional_Inr)
      (auto simp: omit_none_def strict_iff split: option.splits)
qed
interpretation artifacts_codec:
  exact_codec "\<lambda>_ v. attempt (azure_object ''$.artifacts'' name [''review_result'', ''review_report''] [] v) (parse_artifacts name)"
    artifacts_to_json artifacts_ok
proof
  show "attempt (azure_object ''$.artifacts'' name [''review_result'', ''review_report''] [] (artifacts_to_json x))
      (parse_artifacts name) = Inr x" if "artifacts_ok x" for x
    using that by (cases x) (simp add: parse_artifacts_def artifacts_to_json_def artifacts_ok_def attempt_Inr
        azure_object_Inr exact_keys_def artifact_codec.parse_render)
  show "artifacts_ok x" if "attempt (azure_object ''$.artifacts'' name [''review_result'', ''review_report''] [] v)
      (parse_artifacts name) = Inr x" for v x
    using that artifact_codec.parse_ok by (auto simp: parse_artifacts_def artifacts_ok_def attempt_Inr)
  show "y = x" if "attempt (azure_object ''$.artifacts'' name [''review_result'', ''review_report''] [] (artifacts_to_json x))
      (parse_artifacts name) = Inr y" for x y
    using that by (cases x) (auto simp: parse_artifacts_def artifacts_to_json_def attempt_Inr azure_object_Inr
        artifact_codec.parse_render_Inr)
qed

lemma each_integers: "each (\<lambda>i. azure_integer 1 (p i) name) k vs = Inr ids \<longleftrightarrow>
    vs = map JInt ids \<and> list_all (\<lambda>i. 1 \<le> i) ids"
  by (induction vs arbitrary: k ids) (auto simp: strict_iff map_eq_Cons_conv Cons_eq_map_conv)

lemma sort_self [simp]: "sort xs = xs \<longleftrightarrow> sorted xs"
  by (metis sorted_sort sorted_sort_id)

lemma map_JInt_eq [simp]: "map JInt xs = map JInt ys \<longleftrightarrow> xs = ys"
  by (rule inj_map_eq_map) (simp add: inj_def)

lemma parse_work_items_Inr [strict_iff]:
  "parse_work_items name v = Inr ids \<longleftrightarrow> v = JArr (map JInt ids) \<and> work_items_ok ids"
  by (cases v) (auto simp: parse_work_items_def attempt_Inr ensure_Inr each_integers work_items_ok_def)

lemma PUBLICATION_SCHEMA_VERSION_text: "azure_text_ok 16 AZURE_REVIEW_PUBLICATION_SCHEMA_VERSION"
  by (simp add: AZURE_REVIEW_PUBLICATION_SCHEMA_VERSION_def text_eval)

interpretation publication_codec:
  exact_codec "\<lambda>_. parse_azure_review_publication bracketed" publication_to_json "publication_ok bracketed"
proof
  show "parse_azure_review_publication bracketed (publication_to_json x) = Inr x"
    if ok: "publication_ok bracketed x" for x
  proof -
    have r: "parse_review p n (review_to_json (arp_review x)) = Inr (arp_review x)"
      "parse_tfvc p n (tfvc_to_json (arp_tfvc x)) = Inr (arp_tfvc x)"
      "parse_build bracketed p n (build_to_json (arp_build x)) = Inr (arp_build x)" for p n
      using ok by (simp_all add: publication_ok_def review_codec.parse_render tfvc_codec.parse_render build_codec.parse_render)
    have a: "\<exists>obj. artifacts_to_json (arp_artifacts x) = JObj obj
        \<and> exact_keys [''review_result'', ''review_report''] obj \<and> parse_artifacts n obj = Inr (arp_artifacts x)" for n
      using ok artifacts_codec.parse_render [of "arp_artifacts x" n]
      by (simp add: publication_ok_def attempt_Inr azure_object_Inr)
    show ?thesis
      using ok r a PUBLICATION_SCHEMA_VERSION_text
      by (cases x) (simp add: parse_azure_review_publication_def publication_to_json_def publication_ok_def
          Let_def attempt_Inr ensure_Inr azure_object_Inr azure_string_None azure_whole_timestamp_Inr
          parse_work_items_Inr validate_consistency_Inr exact_keys_def publication_keys_def)
  qed
  show "publication_ok bracketed x" if "parse_azure_review_publication bracketed v = Inr x" for v x
  proof -
    have a: "exact_keys [''review_result'', ''review_report''] obj \<Longrightarrow> parse_artifacts n obj = Inr a \<Longrightarrow> artifacts_ok a"
      for n obj a
      using artifacts_codec.parse_ok [of n "JObj obj" a] by (auto simp: attempt_Inr azure_object_Inr)
    show ?thesis
      using that
      by (clarsimp simp only: parse_azure_review_publication_def Let_def strict_iff)
        (simp add: publication_ok_def review_codec.parse_ok tfvc_codec.parse_ok build_codec.parse_ok a)
  qed
  show "y = x" if "parse_azure_review_publication bracketed (publication_to_json x) = Inr y" for x y
  proof -
    have a: "artifacts_to_json a = JObj obj \<Longrightarrow> exact_keys [''review_result'', ''review_report''] obj \<Longrightarrow>
        parse_artifacts n obj = Inr b \<Longrightarrow> b = a" for n obj a b
      using artifacts_codec.parse_render_exact [of n a b] by (simp add: attempt_Inr azure_object_Inr)
    show ?thesis
      using that
      by (cases x, clarsimp simp only: parse_azure_review_publication_def publication_to_json_def Let_def strict_iff)
        (auto simp: review_codec.parse_render_Inr tfvc_codec.parse_render_Inr build_codec.parse_render_Inr dest: a)
  qed
qed

lemma uuid_ok_shape: "uuid_ok s \<longleftrightarrow> uuid_shape s \<and> parse_uuid s \<noteq> Some 0"
proof -
  have "azure_text_ok 36 s" if shape: "uuid_shape s"
  proof (rule plain_text_ok)
    obtain h where s: "s = dashed h" and h: "length h = 32" "list_all lower_hex h"
      using shape by (rule uuid_shape_dashed)
    show "length s \<le> 36" "s \<noteq> []" using h(1) by (simp_all add: s dashed_def)
    have "plain_char c" if "lower_hex c" for c
      using that hex_char_plain by (simp add: lower_hex_def)
    then have "list_all plain_char h" using h(2) list.pred_mono_strong by blast
    then show "list_all plain_char s"
      by (auto simp: s dashed_def list_all_iff plain_char_def dest: in_set_takeD in_set_dropD)
  qed
  then show ?thesis
    using parse_uuid_canonical [of s] by (auto simp: uuid_ok_def split: option.splits)
qed

text \<open>
  An identifier is accepted as a canonical UUID exactly when it is a string of 32 lowercase
  hexadecimal digits in dashed groups of 8, 4, 4, 4 and 12 and does not denote zero: no brace, URN prefix,
  capital, underscore or \<open>0x\<close> that \<open>uuid.UUID\<close> itself tolerates gets through.
\<close>
theorem canonical_uuid_exact:
  "canonical_uuid path name v = Inr s \<longleftrightarrow> v = JStr s \<and> uuid_shape s \<and> parse_uuid s \<noteq> Some 0"
  by (simp add: canonical_uuid_Inr uuid_ok_shape)

text \<open>
  A publication document parses back from its rendering exactly when it is well formed: every
  field within its limits, the target and the build in agreement, the work items ascending, and
  the creation time within the window around the review.
\<close>
theorem publication_roundtrip:
  "parse_azure_review_publication bracketed (publication_to_json p) = Inr p \<longleftrightarrow> publication_ok bracketed p"
  by (rule publication_codec.roundtrip)

end
