(* ===== verification/Canonical_Json.thy ===== *)
theory Canonical_Json
  imports Json Py_Text
begin

text \<open>
  The canonical text of a JSON value, \<open>json.dumps\<close> with sorted keys, compact separators and
  \<open>ensure_ascii=False\<close>, over which digests and signatures are taken. The text of a float is a
  parameter. On documents without floats and without repeated keys the text determines the value
  up to the order of keys, so a signature over it binds every field.
\<close>

subsection \<open>The text\<close>

definition escape_char :: "char \<Rightarrow> string" where
  "escape_char c = (let n = (of_char c :: nat); bs = char_of (92 :: nat) in
     if n = 34 then [bs, c] else if n = 92 then [bs, bs]
     else if n = 8 then [bs, CHR ''b''] else if n = 9 then [bs, CHR ''t'']
     else if n = 10 then [bs, CHR ''n''] else if n = 12 then [bs, CHR ''f'']
     else if n = 13 then [bs, CHR ''r'']
     else if n < 32 then [bs, CHR ''u'', CHR ''0'', CHR ''0'', hex_digit (n div 16), hex_digit (n mod 16)]
     else [c])"

definition dquote :: char where "dquote = char_of (34 :: nat)"

definition json_string :: "string \<Rightarrow> string" where
  "json_string s = [dquote] @ concat (map escape_char s) @ [dquote]"

fun sort_json :: "json \<Rightarrow> json" where
  \<comment> \<open>\<open>sort_keys=True\<close>, at every level\<close>
  "sort_json (JArr vs) = JArr (map sort_json vs)"
| "sort_json (JObj obj) = JObj (sort_key fst (map (\<lambda>(k, v). (k, sort_json v)) obj))"
| "sort_json v = v"

fun compact_json :: "(pyfloat \<Rightarrow> string) \<Rightarrow> json \<Rightarrow> string" where
  "compact_json ft JNull = ''null''"
| "compact_json ft (JBool b) = (if b then ''true'' else ''false'')"
| "compact_json ft (JInt i) = dec_int i"
| "compact_json ft (JFloat f) = ft f"
| "compact_json ft (JStr s) = json_string s"
| "compact_json ft (JArr vs) = ''['' @ join '','' (map (compact_json ft) vs) @ '']''"
| "compact_json ft (JObj obj) =
     ''{'' @ join '','' (map (\<lambda>(k, v). json_string k @ '':'' @ compact_json ft v) obj) @ ''}''"

definition canonical_json :: "(pyfloat \<Rightarrow> string) \<Rightarrow> json \<Rightarrow> string" where
  "canonical_json ft v = compact_json ft (sort_json v)"

fun plain_json :: "json \<Rightarrow> bool" where
  \<comment> \<open>no floats\<close>
  "plain_json (JFloat f) = False"
| "plain_json (JArr vs) = list_all plain_json vs"
| "plain_json (JObj obj) = list_all (\<lambda>(k, v). plain_json v) obj"
| "plain_json v = True"

subsection \<open>The text determines the value\<close>

definition closing :: "string \<Rightarrow> bool" where
  \<comment> \<open>what can follow a value\<close>
  "closing r \<longleftrightarrow> r = [] \<or> hd r \<in> set '',]}''"

fun unescape :: "string \<Rightarrow> nat \<times> string" where
  \<comment> \<open>reads one escaped character back: its code and the rest\<close>
  "unescape (a # rest) =
     (if (of_char a :: nat) \<noteq> 92 then (of_char a, rest)
      else case rest of [] \<Rightarrow> (0, [])
        | b # after \<Rightarrow>
            if b = CHR ''u'' then
              (nat (the (digit_value (after ! 2))) * 16 + nat (the (digit_value (after ! 3))), drop 4 after)
            else (if b = CHR ''b'' then 8 else if b = CHR ''t'' then 9 else if b = CHR ''n'' then 10
                  else if b = CHR ''f'' then 12 else if b = CHR ''r'' then 13 else of_char b, after))"
| "unescape [] = (0, [])"

lemma hex_digit_value: "k < 16 \<Longrightarrow> nat (the (digit_value (hex_digit k))) = k"
proof -
  assume k: "k < 16"
  have "list_all (\<lambda>k. nat (the (digit_value (hex_digit k))) = k) [0, 1, 2, 3, 4, 5, 6, 7, 8, 9, 10, 11, 12, 13, 14, 15]"
    by (simp add: digit_value_def hex_digit_def is_digit_def is_lower_def)
  moreover have "k \<in> set [0, 1, 2, 3, 4, 5, 6, 7, 8, 9, 10, 11, 12, 13, 14, 15]"
    using k unfolding list.set insert_iff empty_iff by presburger
  ultimately show ?thesis by (simp only: list_all_iff)
qed

lemma unescape_escape: "unescape (escape_char c @ r) = (of_char c, r)"
proof -
  let ?n = "of_char c :: nat"
  have "?n div 16 < 16" using of_char_256 [of c] by (simp add: less_mult_imp_div_less)
  moreover have "c = CHR ''u'' \<Longrightarrow> ?n = 117" "c = CHR ''b'' \<Longrightarrow> ?n = 98" "c = CHR ''t'' \<Longrightarrow> ?n = 116"
    "c = CHR ''n'' \<Longrightarrow> ?n = 110" "c = CHR ''f'' \<Longrightarrow> ?n = 102" "c = CHR ''r'' \<Longrightarrow> ?n = 114" by simp_all
  moreover have "char_of (92 :: nat) \<noteq> CHR ''u''" "char_of (92 :: nat) \<noteq> CHR ''b''" "char_of (92 :: nat) \<noteq> CHR ''t''"
    "char_of (92 :: nat) \<noteq> CHR ''n''" "char_of (92 :: nat) \<noteq> CHR ''f''" "char_of (92 :: nat) \<noteq> CHR ''r''"
    by (simp_all add: char_of_eq_iff)
  ultimately show ?thesis
    by (auto simp: escape_char_def Let_def hex_digit_value)
qed

lemma escape_char_inj: "escape_char c @ r = escape_char d @ s \<longleftrightarrow> c = d \<and> r = s"
proof
  assume "escape_char c @ r = escape_char d @ s"
  then have "((of_char c :: nat), r) = (of_char d, s)" by (metis unescape_escape)
  then show "c = d \<and> r = s" by simp
qed simp

lemma escape_char_head: "escape_char c \<noteq> []" "hd (escape_char c) \<noteq> dquote"
proof -
  have "c = char_of (34 :: nat) \<longleftrightarrow> of_char c = (34 :: nat)"
    using char_of_eq_iff [of "34 :: nat" c] by auto
  then show "escape_char c \<noteq> []" "hd (escape_char c) \<noteq> dquote"
    by (simp_all add: escape_char_def dquote_def Let_def char_of_eq_iff)
qed

lemma escaped_head: "dquote # r \<noteq> escape_char c @ s"
  using escape_char_head [of c] by (cases "escape_char c") auto

lemma escaped_inj:
  "concat (map escape_char s) @ dquote # r = concat (map escape_char t) @ dquote # u \<Longrightarrow> s = t \<and> r = u"
proof (induction s arbitrary: t)
  case Nil
  then show ?case using escaped_head by (cases t) auto
next
  case (Cons c s)
  show ?case
  proof (cases t)
    case Nil
    with Cons.prems escaped_head [of u c] show ?thesis by simp metis
  next
    case (Cons d t')
    with Cons.prems escape_char_inj [of c _ d] Cons.IH [of t'] show ?thesis by auto
  qed
qed

lemma json_string_inj: "json_string s @ r = json_string t @ u \<longleftrightarrow> s = t \<and> r = u"
  using escaped_inj [of s r t u] by (auto simp: json_string_def)


lemma dec_nat_head: "\<exists>d ds. dec_nat n = d # ds \<and> is_digit d"
proof (induction n rule: dec_nat.induct)
  case (1 n)
  show ?case
  proof (cases "n < 10")
    case True
    then show ?thesis by (subst dec_nat.simps) (simp add: is_digit_def)
  next
    case False
    then obtain d ds where "dec_nat (n div 10) = d # ds" "is_digit d" using 1 by blast
    with False show ?thesis by (subst dec_nat.simps) simp
  qed
qed

lemma dec_nat_digits: "list_all is_digit (dec_nat n)"
proof (induction n rule: dec_nat.induct)
  case (1 n)
  have d: "is_digit (char_of (48 + k))" if "k < 10" for k :: nat
    using that by (simp add: is_digit_def Let_def of_char_of)
  show ?case using 1 d [of n] d [of "n mod 10"] by (subst dec_nat.simps) simp
qed

definition digits_value :: "string \<Rightarrow> nat" where
  "digits_value ds = foldl (\<lambda>v c. v * 10 + ((of_char c :: nat) - 48)) 0 ds"

lemma digits_value_dec: "digits_value (dec_nat n) = n"
proof (induction n rule: dec_nat.induct)
  case (1 n)
  show ?case
  proof (cases "n < 10")
    case True
    then show ?thesis by (subst dec_nat.simps) (simp add: digits_value_def)
  next
    case False
    moreover have "(of_char (char_of (48 + n mod 10) :: char) :: nat) = 48 + n mod 10"
      by (simp add: of_char_of)
    ultimately show ?thesis using 1
      by (subst dec_nat.simps) (simp add: digits_value_def)
  qed
qed

lemma dec_nat_inj:
  assumes "dec_nat n @ r = dec_nat m @ s" "closing r" "closing s"
  shows "n = m \<and> r = s"
proof -
  have "takeWhile is_digit (dec_nat k @ t) = dec_nat k" if "closing t" for k t
    using dec_nat_digits [of k] that
    by (cases t) (auto simp: closing_def takeWhile_append list_all_iff is_digit_def takeWhile_eq_all_conv)
  with assms have "dec_nat n = dec_nat m" by metis
  then have "n = m" by (metis digits_value_dec)
  with assms(1) show ?thesis by simp
qed

lemma dec_int_inj:
  assumes "dec_int i @ r = dec_int j @ s" "closing r" "closing s"
  shows "i = j \<and> r = s"
proof -
  obtain d ds e es where d: "dec_nat (nat i) = d # ds" "is_digit d" and e: "dec_nat (nat j) = e # es" "is_digit e"
    using dec_nat_head by meson
  have m: "d \<noteq> CHR ''-''" "e \<noteq> CHR ''-''" using d(2) e(2) by (auto simp: is_digit_def)
  show ?thesis
  proof (cases "i < 0"; cases "j < 0")
    assume "i < 0" "j < 0"
    then show ?thesis using assms dec_nat_inj [of "nat (- i)" r "nat (- j)" s] by (auto simp: dec_int_def)
  next
    assume "\<not> i < 0" "\<not> j < 0"
    then show ?thesis using assms dec_nat_inj [of "nat i" r "nat j" s] by (auto simp: dec_int_def)
  qed (use assms m d e in \<open>auto simp: dec_int_def\<close>)
qed

lemma join_Cons: "join sep (x # xs) = x @ (if xs = [] then [] else sep @ join sep xs)"
  by (cases xs) auto

lemma join_inj:
  assumes items: "\<And>x y r s. x \<in> set xs \<Longrightarrow> P y \<Longrightarrow> closing r \<Longrightarrow> closing s \<Longrightarrow> f x @ r = f y @ s \<Longrightarrow> x = y \<and> r = s"
    and head: "\<And>x. P x \<Longrightarrow> f x \<noteq> []" "\<And>x. P x \<Longrightarrow> hd (f x) \<noteq> c"
    and c: "c \<in> set '']}''" and xs: "list_all P xs" and ys: "list_all P ys"
    and eq: "join '','' (map f xs) @ c # r = join '','' (map f ys) @ c # s"
  shows "xs = ys \<and> r = s"
  using items xs ys eq
proof (induction xs arbitrary: ys)
  case Nil
  have "ys = []"
  proof (cases ys)
    case (Cons y zs)
    with Nil.prems(3,4) head(1) [of y] head(2) [of y] show ?thesis by (cases "f y") (auto simp: join_Cons)
  qed
  then show ?case using Nil.prems(4) by simp
next
  case (Cons x xs)
  show ?case
  proof (cases ys)
    case Nil
    with Cons.prems(2,4) head(1) [of x] head(2) [of x] show ?thesis by (cases "f x") (auto simp: join_Cons)
  next
    case ys: (Cons y zs)
    let ?a = "(if xs = [] then [] else '','' @ join '','' (map f xs)) @ c # r"
    let ?b = "(if zs = [] then [] else '','' @ join '','' (map f zs)) @ c # s"
    have "closing ?a" "closing ?b" using c by (auto simp: closing_def)
    moreover have "f x @ ?a = f y @ ?b" using Cons.prems(4) ys by (simp add: join_Cons split: if_splits)
    ultimately have xy: "x = y" and ab: "?a = ?b"
      using Cons.prems(1) [of x y ?a ?b] Cons.prems(3) ys by auto
    show ?thesis
    proof (cases "xs = [] \<or> zs = []")
      case True
      then show ?thesis using ab xy ys c by (auto split: if_splits)
    next
      case False
      then have "join '','' (map f xs) @ c # r = join '','' (map f zs) @ c # s" using ab by simp
      then have "xs = zs \<and> r = s" using Cons.IH [of zs] Cons.prems(1-3) ys by auto
      then show ?thesis using xy ys by simp
    qed
  qed
qed

definition head_kind :: "char \<Rightarrow> nat" where
  "head_kind c = (let n = (of_char c :: nat) in
     if n = 110 then 0 else if n = 116 then 1 else if n = 102 then 2 else if n = 34 then 3
     else if n = 91 then 4 else if n = 123 then 5 else if n = 44 \<or> n = 93 \<or> n = 125 then 6 else 7)"

fun json_kind :: "json \<Rightarrow> nat" where
  "json_kind JNull = 0" | "json_kind (JBool b) = (if b then 1 else 2)" | "json_kind (JStr s) = 3"
| "json_kind (JArr vs) = 4" | "json_kind (JObj obj) = 5" | "json_kind v = 7"

lemma head_kind_simps [simp]:
  "head_kind (CHR ''n'') = 0" "head_kind (CHR ''t'') = 1" "head_kind (CHR ''f'') = 2" "head_kind dquote = 3"
  "head_kind (CHR ''['') = 4" "head_kind (CHR ''{'') = 5" "head_kind (CHR ''-'') = 7"
  "head_kind (CHR '','') = 6" "head_kind (CHR '']'') = 6" "head_kind (CHR ''}'') = 6"
  by (simp_all add: head_kind_def dquote_def of_char_of)

lemma head_kind_digit [simp]: "is_digit c \<Longrightarrow> head_kind c = 7"
  by (simp add: head_kind_def is_digit_def Let_def)

lemma compact_json_kind:
  assumes "plain_json v"
  obtains c cs where "compact_json ft v = c # cs" "head_kind c = json_kind v"
proof (cases v)
  case (JInt i)
  then show ?thesis using that dec_nat_head [of "nat i"] by (cases "i < 0") (auto simp: dec_int_def)
next
  case (JBool b)
  then show ?thesis using that by (cases b) auto
qed (use assms that in \<open>auto simp: json_string_def\<close>)

lemma compact_json_head:
  assumes "plain_json v"
  shows "compact_json ft v \<noteq> []" "hd (compact_json ft v) \<notin> set '',]}''"
proof -
  obtain c cs where c: "compact_json ft v = c # cs" "head_kind c = json_kind v" using compact_json_kind [OF assms] .
  have "json_kind v \<noteq> 6" by (cases v) auto
  then have "c \<notin> set '',]}''" using c(2) by auto
  with c(1) show "compact_json ft v \<noteq> []" "hd (compact_json ft v) \<notin> set '',]}''" by simp_all
qed

lemma compact_json_same_kind:
  "plain_json v \<Longrightarrow> plain_json w \<Longrightarrow> compact_json ft v @ r = compact_json ft w @ s \<Longrightarrow> json_kind v = json_kind w"
  using compact_json_kind [of v ft] compact_json_kind [of w ft] by (metis append_Cons list.inject)

lemma compact_json_inj:
  "plain_json v \<Longrightarrow> plain_json w \<Longrightarrow> closing r \<Longrightarrow> closing s \<Longrightarrow>
    compact_json ft v @ r = compact_json ft w @ s \<Longrightarrow> v = w \<and> r = s"
proof (induction v arbitrary: w r s)
  case (JArr vs)
  from compact_json_same_kind [OF JArr.prems(1,2,5)] obtain ws where w: "w = JArr ws"
    by (cases w) (auto split: if_splits)
  have "vs = ws \<and> r = s"
  proof (rule join_inj [where P = plain_json and f = "compact_json ft" and c = "CHR '']''"])
    show "x = y \<and> r' = s'" if "x \<in> set vs" "plain_json y" "closing r'" "closing s'"
      "compact_json ft x @ r' = compact_json ft y @ s'" for x y r' s'
      using JArr.IH [OF that(1)] JArr.prems(1) that by (auto simp: list_all_iff)
  qed (use JArr.prems w compact_json_head in auto)
  then show ?case using w by simp
next
  case (JObj obj)
  let ?f = "\<lambda>(k, v). json_string k @ '':'' @ compact_json ft v"
  from compact_json_same_kind [OF JObj.prems(1,2,5)] obtain obj' where w: "w = JObj obj'"
    by (cases w) (auto split: if_splits)
  have "obj = obj' \<and> r = s"
  proof (rule join_inj [where P = "\<lambda>(k, v). plain_json v" and f = ?f and c = "CHR ''}''"])
    show "x = y \<and> r' = s'" if x: "x \<in> set obj" and y: "case y of (k, v) \<Rightarrow> plain_json v"
      and cl: "closing r'" "closing s'" and eq: "?f x @ r' = ?f y @ s'" for x y r' s'
    proof -
      obtain k v k' v' where xy: "x = (k, v)" "y = (k', v')" by (cases x; cases y)
      have "plain_json v" using JObj.prems(1) x xy by (auto simp: list_all_iff)
      moreover have "k = k'" "compact_json ft v @ r' = compact_json ft v' @ s'"
        using eq xy json_string_inj by auto
      ultimately show ?thesis
        using JObj.IH [of x v v' r' s'] x y xy cl by (auto simp: snds.simps)
    qed
  qed (use JObj.prems w in \<open>auto simp: json_string_def dquote_def char_of_eq_iff\<close>)
  then show ?case using w by simp
next
  case (JInt i)
  from compact_json_same_kind [OF JInt.prems(1,2,5)] obtain j where w: "w = JInt j"
    using JInt.prems(2) by (cases w) (auto split: if_splits)
  then show ?case using JInt.prems dec_int_inj [of i r j s] by auto
next
  case (JStr t)
  from compact_json_same_kind [OF JStr.prems(1,2,5)] obtain u where w: "w = JStr u"
    by (cases w) (auto split: if_splits)
  then show ?case using JStr.prems json_string_inj by auto
next
  case JNull
  from compact_json_same_kind [OF JNull.prems(1,2,5)] have w: "w = JNull"
    by (cases w) (auto split: if_splits)
  then show ?case using JNull.prems by auto
next
  case (JBool b)
  from compact_json_same_kind [OF JBool.prems(1,2,5)] obtain b' where w: "w = JBool b'" "b = b'"
    by (cases w) (auto split: if_splits)
  then show ?case using JBool.prems by auto
qed simp

lemma plain_sort_json: "plain_json (sort_json v) = plain_json v"
  by (induction v) (auto simp: list_all_iff snds.simps split: prod.splits)

lemma utf8_bytes_Cons:
  "utf8_bytes (c # s) = (let n = (of_char c :: nat) in
     if n < 128 then [c] else [char_of (192 + n div 64), char_of (128 + n mod 64)]) @ utf8_bytes s"
  by (simp add: utf8_bytes_def)

lemma utf8_bytes_inj: "utf8_bytes s = utf8_bytes t \<longleftrightarrow> s = t"
proof (induction s arbitrary: t)
  case Nil
  show ?case by (cases t) (auto simp: utf8_bytes_def Let_def)
next
  case (Cons c s)
  show ?case
  proof (cases t)
    case t: (Cons d t')
    let ?m = "of_char c :: nat" and ?n = "of_char d :: nat"
    have two: "?m div 64 < 4" "?n div 64 < 4"
      using of_char_256 [of c] of_char_256 [of d] by linarith+
    have code: "a = b" if "(char_of a :: char) = char_of b" "a < 256" "b < 256" for a b :: nat
      using that by (metis of_char_of mod_less)
    have lead: "char_of (192 + k div 64) \<noteq> e" if "(of_char e :: nat) < 128" "k div 64 < 4" for e and k :: nat
      using that by (auto simp: of_char_of)
    have eq: "c = d" if "?m div 64 = ?n div 64" "?m mod 64 = ?n mod 64"
      using that by (metis div_mult_mod_eq of_char_eq_iff)
    have parts: "?m div 64 = ?n div 64 \<and> ?m mod 64 = ?n mod 64"
      if h: "(char_of (192 + ?m div 64) :: char) = char_of (192 + ?n div 64)"
        "(char_of (128 + ?m mod 64) :: char) = char_of (128 + ?n mod 64)"
    proof -
      have "?m mod 64 < 64" "?n mod 64 < 64" by simp_all
      then show ?thesis using code [OF h(1)] code [OF h(2)] two by linarith
    qed
    show ?thesis
      using Cons.IH [of t'] lead [of d ?m] lead [of c ?n] two eq parts
      by (auto simp: utf8_bytes_Cons Let_def t)
  qed (auto simp: utf8_bytes_def Let_def)
qed

lemma map_of_sort_key: "distinct (map fst xs) \<Longrightarrow> map_of (sort_key fst xs) = map_of xs"
proof -
  assume d: "distinct (map fst xs)"
  then have "distinct xs" by (simp add: distinct_map)
  have "distinct (map fst (sort_key fst xs))"
    using d \<open>distinct xs\<close> by (simp add: distinct_map)
  with d show ?thesis by (simp add: map_of_inject_set)
qed

lemma sort_json_jget:
  assumes "sort_json (JObj a) = sort_json (JObj b)" "distinct (map fst a)" "distinct (map fst b)"
  shows "sort_json (jget a k) = sort_json (jget b k)"
proof -
  let ?m = "map (\<lambda>(k, v). (k, sort_json v))"
  have f: "map fst (?m x) = map fst x" for x :: dict by (simp add: case_prod_unfold comp_def)
  have "map_of (?m a) = map_of (?m b)"
    using assms map_of_sort_key [of "?m a"] map_of_sort_key [of "?m b"] by (simp del: map_map add: f)
  moreover have "map_of (?m x) k = map_option sort_json (map_of x k)" for x
    by (induction x) auto
  ultimately have "map_option sort_json (map_of a k) = map_option sort_json (map_of b k)" by metis
  then show ?thesis by (auto simp: jget_def split: option.splits)
qed

lemma canonical_json_inj:
  assumes "plain_json v" "plain_json w" "canonical_json ft v = canonical_json ft w"
  shows "sort_json v = sort_json w"
  using compact_json_inj [of "sort_json v" "sort_json w" "[]" "[]" ft] assms
  by (simp add: canonical_json_def plain_sort_json closing_def)

end
