(* ===== verification/Azure_Verification.thy ===== *)
theory Azure_Verification
  imports Azure_Publication Canonical_Json
begin

text \<open>
  The operations of \<open>azure_devops.py\<close>: reading the build identity from the agent's environment,
  publishing a review, verifying a publication before approval, and the verification receipt. The
  operations run to an error of their own (\<open>verification_failure\<close>) or to a document.
\<close>

subsection \<open>The build identity\<close>

type_synonym environment = "string \<rightharpoonup> string"

abbreviation environment_name :: string where
  "environment_name \<equiv> ''Azure Pipelines environment''"

definition required_environment :: "nat \<Rightarrow> environment \<Rightarrow> string \<Rightarrow> azure_error + string" where
  "required_environment maximum env name =
     (case env name of
        None \<Rightarrow> Inl (Azure_error environment_name name ''required variable is missing or empty'')
      | Some value \<Rightarrow>
          if strip value = [] then
            Inl (Azure_error environment_name name ''required variable is missing or empty'')
          else azure_string maximum None name environment_name (JStr value))"

definition environment_integer :: "environment \<Rightarrow> string \<Rightarrow> azure_error + int" where
  "environment_integer env name =
     attempt (required_environment 32 env name) (\<lambda>value.
     case py_int 10 value of
       None \<Rightarrow> Inl (Azure_error environment_name name ''expected a positive integer'')
     | Some parsed \<Rightarrow> azure_integer 1 name environment_name (JInt parsed))"

definition environment_uuid :: "environment \<Rightarrow> string \<Rightarrow> azure_error + string" where
  "environment_uuid env name =
     attempt (required_environment 36 env name) (\<lambda>value.
     case parse_uuid value of
       None \<Rightarrow> Inl (Azure_error environment_name name ''expected a UUID'')
     | Some n \<Rightarrow>
         if n = 0 then Inl (Azure_error environment_name name ''the nil UUID is not allowed'')
         else Inr (uuid_text n))"

definition parse_shelveset_reference :: "string \<Rightarrow> string \<Rightarrow> string \<Rightarrow> azure_error + string \<times> string" where
  "parse_shelveset_reference name path value =
     (case rpartition_at CHR '';'' value of
        (None, _) \<Rightarrow> Inl (Azure_error name path
          (''expected shelveset reference '' @ [char_of (39 :: nat)] @ ''name;owner'' @ [char_of (39 :: nat)]))
      | (Some n, ow) \<Rightarrow>
          attempt (azure_string 128 None (sub path ''name'') name (JStr n)) (\<lambda>n.
          attempt (azure_string 320 None (sub path ''owner'') name (JStr ow)) (\<lambda>ow. Inr (n, ow))))"

definition shelveset_source ::
  "string \<Rightarrow> string \<Rightarrow> azure_build_reason \<Rightarrow> azure_error + tfvc_target \<times> string option" where
  \<comment> \<open>the branch of the environment that names a shelveset\<close>
  "shelveset_source reference source_branch reason =
     attempt (azure_string 512 None ''BUILD_SOURCETFVCSHELVESET'' environment_name (JStr reference)) (\<lambda>reference.
     attempt (parse_shelveset_reference environment_name ''BUILD_SOURCETFVCSHELVESET'' reference) (\<lambda>(n, ow).
     attempt (ensure (shelveset_reason reason)
                (Azure_error environment_name ''BUILD_REASON''
                   ''shelveset builds require ValidateShelveset or CheckInShelveset'')) (\<lambda>_.
     attempt (ensure (casefold source_branch = casefold reference)
                (Azure_error environment_name ''BUILD_SOURCEBRANCH''
                   ''does not identify BUILD_SOURCETFVCSHELVESET'')) (\<lambda>_.
     Inr (Tfvc_shelveset_target TfvcTargetKind_SHELVESET n ow, Some reference)))))"

definition changeset_source ::
  "string \<Rightarrow> string \<Rightarrow> string \<Rightarrow> azure_build_reason \<Rightarrow> azure_error + tfvc_target \<times> string option" where
  "changeset_source source_version source_branch server_path reason =
     (case py_int 10 source_version of
        None \<Rightarrow> Inl (Azure_error environment_name ''BUILD_SOURCEVERSION''
          ''expected a positive TFVC changeset ID'')
      | Some changeset_id \<Rightarrow>
          attempt (azure_integer 1 ''BUILD_SOURCEVERSION'' environment_name (JInt changeset_id)) (\<lambda>_.
          attempt (ensure (\<not> shelveset_reason reason)
                     (Azure_error environment_name ''BUILD_SOURCETFVCSHELVESET''
                        ''is required for a shelveset build reason'')) (\<lambda>_.
          attempt (ensure (casefold source_branch = casefold server_path)
                     (Azure_error environment_name ''BUILD_SOURCEBRANCH''
                        ''does not match the configured TFVC server path'')) (\<lambda>_.
          Inr (Tfvc_changeset_target TfvcTargetKind_CHANGESET changeset_id, None)))))"

definition environment_collection :: "(string \<Rightarrow> bool) \<Rightarrow> string \<Rightarrow> azure_error + string" where
  "environment_collection bracketed raw =
     (case urlsplit bracketed raw of
        None \<Rightarrow> Inl Plain_value_error
      | Some parsed \<Rightarrow>
          if \<not> plain_https parsed then
            Inl (Azure_error environment_name ''SYSTEM_COLLECTIONURI''
              ''expected an HTTPS URI without credentials, query, or fragment'')
          else Inr (canonical_url parsed))"

definition environment_build ::
  "(string \<Rightarrow> bool) \<Rightarrow> environment \<Rightarrow> azure_build_reason \<Rightarrow> string \<Rightarrow> string \<Rightarrow> string \<Rightarrow> string option
    \<Rightarrow> azure_error + azure_build_context" where
  "environment_build bracketed env reason provider source_version source_branch shelveset =
     attempt (required_environment 2048 env ''SYSTEM_COLLECTIONURI'') (\<lambda>raw.
     attempt (environment_collection bracketed raw) (\<lambda>canonical.
     attempt (collection_uri bracketed ''SYSTEM_COLLECTIONURI'' environment_name (JStr canonical)) (\<lambda>uri.
     attempt (environment_uuid env ''SYSTEM_TEAMPROJECTID'') (\<lambda>project_id.
     attempt (required_environment 256 env ''SYSTEM_TEAMPROJECT'') (\<lambda>project_name.
     attempt (environment_integer env ''BUILD_BUILDID'') (\<lambda>build_id.
     attempt (required_environment 256 env ''BUILD_BUILDNUMBER'') (\<lambda>build_number.
     attempt (environment_integer env ''SYSTEM_DEFINITIONID'') (\<lambda>definition_id.
     attempt (required_environment 256 env ''BUILD_DEFINITIONNAME'') (\<lambda>definition_name.
     attempt (environment_uuid env ''BUILD_REQUESTEDFORID'') (\<lambda>requested.
     Inr \<lparr>bc_collection_uri = uri, bc_project_id = project_id, bc_project_name = project_name,
          bc_build_id = build_id, bc_build_number = build_number, bc_definition_id = definition_id,
          bc_definition_name = definition_name, bc_reason = reason, bc_repository_provider = provider,
          bc_source_version = source_version, bc_source_branch = source_branch,
          bc_requested_for_id = requested, bc_source_tfvc_shelveset = shelveset\<rparr>))))))))))"

definition azure_context_from_environment ::
  "(string \<Rightarrow> bool) \<Rightarrow> environment \<Rightarrow> json \<Rightarrow> azure_error + tfvc_association \<times> azure_build_context" where
  "azure_context_from_environment bracketed env configured_path =
     attempt (required_environment 8 env ''TF_BUILD'') (\<lambda>tf_build.
     attempt (ensure (py_lower tf_build = ''true'')
                (Azure_error environment_name ''TF_BUILD'' (''expected '' @ py_repr ''True''
                   @ '' on an Azure Pipelines agent''))) (\<lambda>_.
     attempt (required_environment 64 env ''BUILD_REPOSITORY_PROVIDER'') (\<lambda>provider.
     attempt (ensure (provider = TFVC_REPOSITORY_PROVIDER)
                (Azure_error environment_name ''BUILD_REPOSITORY_PROVIDER''
                   (''expected '' @ py_repr TFVC_REPOSITORY_PROVIDER))) (\<lambda>_.
     attempt (tfvc_server_path ''tfvc_server_path'' environment_name configured_path) (\<lambda>server_path.
     attempt (required_environment 256 env ''BUILD_SOURCEVERSION'') (\<lambda>source_version.
     attempt (required_environment 512 env ''BUILD_SOURCEBRANCH'') (\<lambda>source_branch.
     let reference = strip (case env ''BUILD_SOURCETFVCSHELVESET'' of None \<Rightarrow> [] | Some s \<Rightarrow> s) in
     attempt (required_environment 64 env ''BUILD_REASON'') (\<lambda>reason_text.
     attempt (azure_enum azure_build_reason_value azure_build_reason_members ''BUILD_REASON''
                environment_name (JStr reason_text)) (\<lambda>reason.
     attempt (if reference \<noteq> [] then shelveset_source reference source_branch reason
              else changeset_source source_version source_branch server_path reason) (\<lambda>(target, shelveset).
     attempt (environment_build bracketed env reason provider source_version source_branch shelveset) (\<lambda>build.
     Inr (\<lparr>ta_server_path = server_path, ta_target = target\<rparr>, build))))))))))))"

subsection \<open>Publishing\<close>

definition newline :: char where "newline = CHR 0x0A"

definition spaced_upper :: "string \<Rightarrow> string" where
  "spaced_upper s = upper_ascii (py_replace ''_'' '' '' s)"

definition required_fragments :: "review_binding \<Rightarrow> string list" where
  "required_fragments r =
     [''> **'' @ spaced_upper (decision_value (rvb_decision r)) @ ''**'',
      ''| Case | `'' @ rvb_case_id r @ ''` |'',
      ''| Proposed component | `'' @ component_value (rvb_component r) @ ''` |'',
      ''| Recommended action | **'' @ spaced_upper (recommended_action_value (rvb_recommended_action r)) @ ''** |'',
      ''| Policy | `'' @ rvb_policy_name r @ ''` |'',
      ''- Evidence document SHA-256: `'' @ rvb_input_sha256 r @ ''`'',
      ''- Engine version: `'' @ rvb_engine_version r @ ''`'',
      ''- Reviewed at: `'' @ rvb_reviewed_at r @ ''`'']"

definition validate_report :: "library \<Rightarrow> string \<Rightarrow> review_binding \<Rightarrow> azure_error + unit" where
  "validate_report lib raw review =
     (if raw = [] \<or> MAX_REVIEW_REPORT_BYTES < length raw then
        Inl (Azure_error ''review report'' ''$''
          (''expected from 1 to '' @ dec_nat MAX_REVIEW_REPORT_BYTES @ '' bytes''))
      else case lib_decode_utf8 lib raw of
        None \<Rightarrow> Inl (Azure_error ''review report'' ''$'' ''expected UTF-8 Markdown'')
      | Some text \<Rightarrow>
          if CHR 0x00 \<in> set text
             \<or> \<not> prefix (''# Causure evidence report'' @ [newline, newline]) text
             \<or> (\<exists>fragment \<in> set (required_fragments review). \<not> contains fragment text)
          then Inl (Azure_error ''review report'' ''$''
            ''Markdown does not correspond to the supplied review result'')
          else Inr ())"

definition artifact_integrity_of :: "library \<Rightarrow> string \<Rightarrow> string \<Rightarrow> artifact_integrity" where
  "artifact_integrity_of lib raw media_type =
     \<lparr>ai_media_type = media_type, ai_sha256 = lib_sha256 lib raw, ai_byte_count = int (length raw)\<rparr>"

definition positive_integer :: "json \<Rightarrow> bool" where
  "positive_integer v \<longleftrightarrow> (case v of JInt i \<Rightarrow> 1 \<le> i | _ \<Rightarrow> False)"

definition integer_of :: "json \<Rightarrow> int" where
  "integer_of v = (case v of JInt i \<Rightarrow> i | _ \<Rightarrow> 0)"

definition create_azure_review_publication ::
  "library \<Rightarrow> (string \<Rightarrow> bool) \<Rightarrow> string \<Rightarrow> string \<Rightarrow> tfvc_association \<Rightarrow> azure_build_context
    \<Rightarrow> json list \<Rightarrow> json \<Rightarrow> azure_error + azure_review_publication" where
  "create_azure_review_publication lib bracketed result_bytes report_bytes tfvc build work_item_ids created_at =
     (let name = ''Azure review publication'' in
      attempt (parse_review_result_bytes lib result_bytes) (\<lambda>review.
      attempt (validate_report lib report_bytes review) (\<lambda>_.
      attempt (validate_target_build_consistency name tfvc build) (\<lambda>_.
      attempt (ensure (list_all positive_integer work_item_ids \<and> distinct work_item_ids)
                 (Azure_error name ''$.work_item_ids'' ''expected unique positive integer IDs'')) (\<lambda>_.
      attempt (azure_utc_timestamp True ''$.created_at'' name created_at) (\<lambda>created.
      parse_azure_review_publication bracketed (publication_to_json
        \<lparr>arp_schema_version = AZURE_REVIEW_PUBLICATION_SCHEMA_VERSION, arp_created_at = created,
         arp_review = review, arp_tfvc = tfvc, arp_build = build,
         arp_work_item_ids = sort (map integer_of work_item_ids),
         arp_artifacts = \<lparr>
           ra_review_result = artifact_integrity_of lib result_bytes REVIEW_RESULT_MEDIA_TYPE,
           ra_review_report = artifact_integrity_of lib report_bytes REVIEW_REPORT_MEDIA_TYPE\<rparr>\<rparr>)))))))"

subsection \<open>Verifying\<close>

datatype verification_failure =
    Verification_error string string
  | Verification_value_error
  \<comment> \<open>code and message; or a ValueError that passes through\<close>

record publication_subject =
  psu_media_type :: string
  psu_sha256 :: string
  psu_byte_count :: int

record azure_review_verification =
  arv_schema_version :: string
  arv_status :: string
  arv_verified_at :: string
  arv_maximum_age_seconds :: int
  arv_publication_age_seconds :: int
  arv_publication :: publication_subject
  arv_review :: review_binding
  arv_tfvc :: tfvc_association
  arv_build_id :: int
  arv_artifacts :: review_artifacts

definition azure_error_text :: "azure_error \<Rightarrow> string" where
  "azure_error_text e = (case e of
     Azure_error name path message \<Rightarrow> ''Invalid '' @ name @ '' at '' @ path @ '': '' @ message
   | Plain_value_error \<Rightarrow> [])"

definition converting :: "string \<Rightarrow> azure_error + 'a \<Rightarrow> verification_failure + 'a" where
  \<comment> \<open>\<open>except AzureReviewValidationError as exc: raise AzureReviewVerificationError(code, str(exc))\<close>\<close>
  "converting code m = (case m of
     Inr x \<Rightarrow> Inr x
   | Inl Plain_value_error \<Rightarrow> Inl Verification_value_error
   | Inl e \<Rightarrow> Inl (Verification_error code (azure_error_text e)))"

definition verify_artifact ::
  "library \<Rightarrow> string \<Rightarrow> nat \<Rightarrow> string \<Rightarrow> artifact_integrity \<Rightarrow> verification_failure + unit" where
  "verify_artifact lib role maximum_bytes raw expected =
     (if maximum_bytes < length raw then Inl (Verification_error ''artifact_too_large''
        (role @ '' exceeds the '' @ dec_nat maximum_bytes @ ''-byte verification limit''))
      else if int (length raw) \<noteq> ai_byte_count expected then
        Inl (Verification_error ''artifact_size_mismatch''
          (role @ '' byte count does not match the publication''))
      else if lib_sha256 lib raw \<noteq> ai_sha256 expected then
        Inl (Verification_error ''artifact_digest_mismatch''
          (role @ '' SHA-256 does not match the publication''))
      else Inr ())"

definition age_seconds :: "string \<Rightarrow> string \<Rightarrow> int" where
  \<comment> \<open>\<open>int((checked - created).total_seconds())\<close> of whole-second texts in order\<close>
  "age_seconds checked created = (timestamp_value checked - timestamp_value created) div 1000000"

definition check_publication_time ::
  "string \<Rightarrow> string \<Rightarrow> int \<Rightarrow> verification_failure + int" where
  "check_publication_time checked created maximum_age =
     (if timestamp_value checked < timestamp_value created then
        Inl (Verification_error ''publication_from_future''
          ''publication creation time is later than verification time'')
      else if maximum_age < age_seconds checked created then
        Inl (Verification_error ''publication_stale''
          ''publication is older than the permitted pre-approval window'')
      else Inr (age_seconds checked created))"

definition current_review ::
  "library \<Rightarrow> string \<Rightarrow> string \<Rightarrow> verification_failure + review_binding" where
  "current_review lib result_bytes report_bytes =
     converting ''review_artifact_invalid''
       (attempt (parse_review_result_bytes lib result_bytes) (\<lambda>review.
        attempt (validate_report lib report_bytes review) (\<lambda>_. Inr review)))"

definition maximum_age_of :: "json \<Rightarrow> verification_failure + int" where
  "maximum_age_of v =
     (let bad = Inl (Verification_error ''maximum_age_invalid''
           (''maximum age must be from 1 to '' @ dec_int MAX_PUBLICATION_AGE_SECONDS @ '' seconds''))
      in case v of JInt i \<Rightarrow> if 1 \<le> i \<and> i \<le> MAX_PUBLICATION_AGE_SECONDS then Inr i else bad | _ \<Rightarrow> bad)"

definition verify_azure_review_publication ::
  "library \<Rightarrow> (string \<Rightarrow> bool) \<Rightarrow> string \<Rightarrow> string \<Rightarrow> string \<Rightarrow> tfvc_association \<Rightarrow> azure_build_context
    \<Rightarrow> json \<Rightarrow> json \<Rightarrow> verification_failure + azure_review_verification" where
  "verify_azure_review_publication lib bracketed publication_bytes result_bytes report_bytes
       expected_tfvc expected_build verified_at maximum_age_seconds =
     attempt (maximum_age_of maximum_age_seconds) (\<lambda>maximum_age.
     attempt (converting ''publication_invalid''
       (attempt (parse_azure_review_publication_bytes lib bracketed publication_bytes) (\<lambda>publication.
        attempt (azure_utc_timestamp True ''$.verified_at'' ''Azure review verification'' verified_at) (\<lambda>checked_at.
        Inr (publication, checked_at))))) (\<lambda>(publication, checked_at).
     attempt (ensure (arp_tfvc publication = expected_tfvc)
                (Verification_error ''tfvc_target_mismatch''
                   ''publication target does not match the current TFVC build'')) (\<lambda>_.
     attempt (ensure (arp_build publication = expected_build)
                (Verification_error ''build_context_mismatch''
                   ''publication build identity does not match the current Azure build'')) (\<lambda>_.
     attempt (check_publication_time checked_at (arp_created_at publication) maximum_age) (\<lambda>age.
     attempt (verify_artifact lib ''review result'' MAX_REVIEW_RESULT_BYTES result_bytes
                (ra_review_result (arp_artifacts publication))) (\<lambda>_.
     attempt (verify_artifact lib ''review report'' MAX_REVIEW_REPORT_BYTES report_bytes
                (ra_review_report (arp_artifacts publication))) (\<lambda>_.
     attempt (current_review lib result_bytes report_bytes) (\<lambda>review.
     attempt (ensure (review = arp_review publication)
                (Verification_error ''review_binding_mismatch''
                   ''review-result identity does not match the publication'')) (\<lambda>_.
     Inr \<lparr>arv_schema_version = AZURE_REVIEW_VERIFICATION_SCHEMA_VERSION, arv_status = ''verified'',
          arv_verified_at = checked_at, arv_maximum_age_seconds = maximum_age,
          arv_publication_age_seconds = age,
          arv_publication = \<lparr>psu_media_type = PUBLICATION_MEDIA_TYPE,
            psu_sha256 = lib_sha256 lib publication_bytes, psu_byte_count = int (length publication_bytes)\<rparr>,
          arv_review = arp_review publication, arv_tfvc = arp_tfvc publication,
          arv_build_id = bc_build_id (arp_build publication),
          arv_artifacts = arp_artifacts publication\<rparr>)))))))))"

subsection \<open>Receipts\<close>

definition verification_keys :: "string list" where
  "verification_keys =
     [''schema_version'', ''status'', ''verified_at'', ''maximum_age_seconds'', ''publication_age_seconds'',
      ''publication'', ''review'', ''tfvc'', ''build_id'', ''artifacts'']"

definition parse_publication_subject :: "string \<Rightarrow> json \<Rightarrow> azure_error + dict \<times> string \<times> int" where
  \<comment> \<open>the media type and byte count; the digest is read later, from the same object\<close>
  "parse_publication_subject name v =
     attempt (azure_object ''$.publication'' name [''media_type'', ''sha256'', ''byte_count''] [] v) (\<lambda>obj.
     attempt (azure_string 255 None ''$.publication.media_type'' name (jget obj ''media_type'')) (\<lambda>media_type.
     attempt (ensure (media_type = PUBLICATION_MEDIA_TYPE)
                (Azure_error name ''$.publication.media_type'' (''expected '' @ py_repr PUBLICATION_MEDIA_TYPE))) (\<lambda>_.
     attempt (azure_integer 1 ''$.publication.byte_count'' name (jget obj ''byte_count'')) (\<lambda>byte_count.
     attempt (ensure (byte_count \<le> int MAX_AZURE_PUBLICATION_BYTES)
                (Azure_error name ''$.publication.byte_count''
                   (''expected at most '' @ dec_nat MAX_AZURE_PUBLICATION_BYTES))) (\<lambda>_.
     Inr (obj, media_type, byte_count))))))"

definition parse_azure_review_verification :: "json \<Rightarrow> azure_error + azure_review_verification" where
  "parse_azure_review_verification document =
     (let name = ''Azure review verification'' in
      attempt (azure_object ''$'' name verification_keys [] document) (\<lambda>root.
      attempt (azure_string 16 None ''$.schema_version'' name (jget root ''schema_version'')) (\<lambda>version.
      attempt (ensure (version = AZURE_REVIEW_VERIFICATION_SCHEMA_VERSION)
                 (Azure_error name ''$.schema_version''
                    (''expected '' @ py_repr AZURE_REVIEW_VERIFICATION_SCHEMA_VERSION))) (\<lambda>_.
      attempt (azure_string 16 None ''$.status'' name (jget root ''status'')) (\<lambda>status.
      attempt (ensure (status = ''verified'')
                 (Azure_error name ''$.status'' (''expected '' @ py_repr ''verified''))) (\<lambda>_.
      attempt (azure_integer 1 ''$.maximum_age_seconds'' name (jget root ''maximum_age_seconds'')) (\<lambda>maximum_age.
      attempt (ensure (maximum_age \<le> MAX_PUBLICATION_AGE_SECONDS)
                 (Azure_error name ''$.maximum_age_seconds''
                    (''expected at most '' @ dec_int MAX_PUBLICATION_AGE_SECONDS))) (\<lambda>_.
      attempt (azure_integer 0 ''$.publication_age_seconds'' name (jget root ''publication_age_seconds'')) (\<lambda>age.
      attempt (ensure (age \<le> maximum_age)
                 (Azure_error name ''$.publication_age_seconds'' ''cannot exceed maximum_age_seconds'')) (\<lambda>_.
      attempt (parse_publication_subject name (jget root ''publication'')) (\<lambda>(publication_obj, media_type, byte_count).
      attempt (azure_object ''$.artifacts'' name [''review_result'', ''review_report''] []
                 (jget root ''artifacts'')) (\<lambda>artifact_obj.
      attempt (azure_utc_timestamp True ''$.verified_at'' name (jget root ''verified_at'')) (\<lambda>verified_at.
      attempt (azure_string 64 (Some sha256_ok) ''$.publication.sha256'' name (jget publication_obj ''sha256'')) (\<lambda>digest.
      attempt (parse_review ''$.review'' name (jget root ''review'')) (\<lambda>review.
      attempt (parse_tfvc ''$.tfvc'' name (jget root ''tfvc'')) (\<lambda>tfvc.
      attempt (azure_integer 1 ''$.build_id'' name (jget root ''build_id'')) (\<lambda>build_id.
      attempt (parse_artifacts name artifact_obj) (\<lambda>artifacts.
      Inr \<lparr>arv_schema_version = version, arv_status = status, arv_verified_at = verified_at,
           arv_maximum_age_seconds = maximum_age, arv_publication_age_seconds = age,
           arv_publication = \<lparr>psu_media_type = media_type, psu_sha256 = digest, psu_byte_count = byte_count\<rparr>,
           arv_review = review, arv_tfvc = tfvc, arv_build_id = build_id,
           arv_artifacts = artifacts\<rparr>))))))))))))))))))"

definition parse_azure_review_verification_bytes ::
  "library \<Rightarrow> string \<Rightarrow> azure_error + azure_review_verification" where
  "parse_azure_review_verification_bytes lib raw =
     attempt (azure_parse_json_bytes lib ''Azure review verification'' MAX_AZURE_VERIFICATION_BYTES raw)
       parse_azure_review_verification"

definition verification_to_json :: "azure_review_verification \<Rightarrow> json" where
  "verification_to_json r = JObj
     [(''schema_version'', JStr (arv_schema_version r)), (''status'', JStr (arv_status r)),
      (''verified_at'', JStr (arv_verified_at r)), (''maximum_age_seconds'', JInt (arv_maximum_age_seconds r)),
      (''publication_age_seconds'', JInt (arv_publication_age_seconds r)),
      (''publication'', JObj [(''media_type'', JStr (psu_media_type (arv_publication r))),
         (''sha256'', JStr (psu_sha256 (arv_publication r))),
         (''byte_count'', JInt (psu_byte_count (arv_publication r)))]),
      (''review'', review_to_json (arv_review r)), (''tfvc'', tfvc_to_json (arv_tfvc r)),
      (''build_id'', JInt (arv_build_id r)), (''artifacts'', artifacts_to_json (arv_artifacts r))]"

definition render_with :: "(json \<Rightarrow> string) \<Rightarrow> ('a \<Rightarrow> json) \<Rightarrow> (json \<Rightarrow> azure_error + 'a) \<Rightarrow> 'a \<Rightarrow> azure_error + string" where
  \<comment> \<open>a document is parsed back before it is written; \<open>dumps\<close> is \<open>json.dumps\<close> with an indentation of two\<close>
  "render_with dumps to_json parse x =
     attempt (parse (to_json x)) (\<lambda>validated. Inr (dumps (to_json validated) @ [newline]))"

definition render_azure_review_publication ::
  "(json \<Rightarrow> string) \<Rightarrow> (string \<Rightarrow> bool) \<Rightarrow> azure_review_publication \<Rightarrow> azure_error + string" where
  "render_azure_review_publication dumps bracketed =
     render_with dumps publication_to_json (parse_azure_review_publication bracketed)"

definition render_azure_review_verification ::
  "(json \<Rightarrow> string) \<Rightarrow> azure_review_verification \<Rightarrow> azure_error + string" where
  "render_azure_review_verification dumps = render_with dumps verification_to_json parse_azure_review_verification"

subsection \<open>Build summary\<close>

definition markdown_entities :: "(string \<times> string) list" where
  "markdown_entities =
     [([char_of (92 :: nat)], ''&#92;''), (''`'', ''&#96;''), (''|'', ''&#124;''), (''['', ''&#91;''),
      ('']'', ''&#93;''), (''('', ''&#40;''), ('')'', ''&#41;'')]"

definition markdown_text :: "string \<Rightarrow> string" where
  "markdown_text value = fold (\<lambda>(character, entity) s. py_replace character entity s) markdown_entities (html_escape value)"

fun target_label :: "tfvc_target \<Rightarrow> string" where
  "target_label (Tfvc_changeset_target _ i) = ''changeset '' @ dec_int i"
| "target_label (Tfvc_shelveset_target _ n ow) = ''shelveset '' @ n @ '';'' @ ow"

subsection \<open>Receipts parse back\<close>

definition verification_ok :: "azure_review_verification \<Rightarrow> bool" where
  "verification_ok r \<longleftrightarrow> arv_schema_version r = AZURE_REVIEW_VERIFICATION_SCHEMA_VERSION
     \<and> arv_status r = ''verified'' \<and> whole_timestamp_ok (arv_verified_at r)
     \<and> 1 \<le> arv_maximum_age_seconds r \<and> arv_maximum_age_seconds r \<le> MAX_PUBLICATION_AGE_SECONDS
     \<and> 0 \<le> arv_publication_age_seconds r \<and> arv_publication_age_seconds r \<le> arv_maximum_age_seconds r
     \<and> psu_media_type (arv_publication r) = PUBLICATION_MEDIA_TYPE
     \<and> azure_text_ok 64 (psu_sha256 (arv_publication r)) \<and> sha256_ok (psu_sha256 (arv_publication r))
     \<and> 1 \<le> psu_byte_count (arv_publication r)
     \<and> psu_byte_count (arv_publication r) \<le> int MAX_AZURE_PUBLICATION_BYTES
     \<and> review_ok (arv_review r) \<and> tfvc_ok (arv_tfvc r) \<and> 1 \<le> arv_build_id r
     \<and> artifacts_ok (arv_artifacts r)"

lemma verification_texts:
  "azure_text_ok 16 AZURE_REVIEW_VERIFICATION_SCHEMA_VERSION" "azure_text_ok 16 ''verified''"
  "azure_text_ok 255 PUBLICATION_MEDIA_TYPE"
  by (simp_all add: AZURE_REVIEW_VERIFICATION_SCHEMA_VERSION_def PUBLICATION_MEDIA_TYPE_def text_eval)

lemma parse_artifacts_render:
  "artifacts_ok a \<Longrightarrow> \<exists>obj. artifacts_to_json a = JObj obj
     \<and> exact_keys [''review_result'', ''review_report''] obj \<and> parse_artifacts n obj = Inr a"
  using artifacts_codec.parse_render [of a n] by (simp add: attempt_Inr azure_object_Inr)

lemma parse_artifacts_ok:
  "exact_keys [''review_result'', ''review_report''] obj \<Longrightarrow> parse_artifacts n obj = Inr a \<Longrightarrow> artifacts_ok a"
  using artifacts_codec.parse_ok [of n "JObj obj" a] by (auto simp: attempt_Inr azure_object_Inr)

interpretation verification_codec:
  codec "\<lambda>_. parse_azure_review_verification" verification_to_json verification_ok
proof
  show "parse_azure_review_verification (verification_to_json x) = Inr x" if ok: "verification_ok x" for x
  proof -
    have r: "parse_review p n (review_to_json (arv_review x)) = Inr (arv_review x)"
      "parse_tfvc p n (tfvc_to_json (arv_tfvc x)) = Inr (arv_tfvc x)" for p n
      using ok by (simp_all add: verification_ok_def review_codec.parse_render tfvc_codec.parse_render)
    have a: "\<exists>obj. artifacts_to_json (arv_artifacts x) = JObj obj
        \<and> exact_keys [''review_result'', ''review_report''] obj \<and> parse_artifacts n obj = Inr (arv_artifacts x)" for n
      using ok by (simp add: verification_ok_def parse_artifacts_render)
    show ?thesis
      using ok r a verification_texts
      by (cases x, cases "arv_publication x") (simp add: parse_azure_review_verification_def verification_to_json_def verification_ok_def
          parse_publication_subject_def Let_def attempt_Inr ensure_Inr azure_object_Inr azure_string_None azure_string_Some
          azure_integer_Inr azure_whole_timestamp_Inr exact_keys_def verification_keys_def)
  qed
  show "verification_ok x" if "parse_azure_review_verification v = Inr x" for v x
    using that
    by (clarsimp simp only: parse_azure_review_verification_def parse_publication_subject_def Let_def strict_iff
        split_paired_Ex prod.case)
      (simp add: verification_ok_def review_codec.parse_ok tfvc_codec.parse_ok parse_artifacts_ok)
qed

subsection \<open>When a publication verifies\<close>

lemma converting_Inr [strict_iff]: "converting code m = Inr x \<longleftrightarrow> m = Inr x"
  by (auto simp: converting_def split: sum.split azure_error.split)

lemma maximum_age_of_Inr [strict_iff]:
  "maximum_age_of v = Inr i \<longleftrightarrow> v = JInt i \<and> 1 \<le> i \<and> i \<le> MAX_PUBLICATION_AGE_SECONDS"
  by (auto simp: maximum_age_of_def Let_def split: json.split)

definition matches_artifact :: "library \<Rightarrow> nat \<Rightarrow> string \<Rightarrow> artifact_integrity \<Rightarrow> bool" where
  "matches_artifact lib maximum raw a \<longleftrightarrow>
     length raw \<le> maximum \<and> int (length raw) = ai_byte_count a \<and> lib_sha256 lib raw = ai_sha256 a"

lemma verify_artifact_Inr [strict_iff]:
  "verify_artifact lib role maximum raw a = Inr u \<longleftrightarrow> matches_artifact lib maximum raw a"
  by (auto simp: verify_artifact_def matches_artifact_def)

lemma check_publication_time_Inr [strict_iff]:
  "check_publication_time checked created maximum = Inr age \<longleftrightarrow>
     timestamp_value created \<le> timestamp_value checked \<and> age = age_seconds checked created \<and> age \<le> maximum"
  by (auto simp: check_publication_time_def)

lemma current_review_Inr [strict_iff]:
  "current_review lib a b = Inr r \<longleftrightarrow> parse_review_result_bytes lib a = Inr r \<and> validate_report lib b r = Inr ()"
  by (auto simp: current_review_def converting_Inr attempt_Inr)

definition receipt ::
  "library \<Rightarrow> string \<Rightarrow> azure_review_publication \<Rightarrow> string \<Rightarrow> int \<Rightarrow> azure_review_verification" where
  "receipt lib publication_bytes p checked_at maximum_age =
     \<lparr>arv_schema_version = AZURE_REVIEW_VERIFICATION_SCHEMA_VERSION, arv_status = ''verified'',
      arv_verified_at = checked_at, arv_maximum_age_seconds = maximum_age,
      arv_publication_age_seconds = age_seconds checked_at (arp_created_at p),
      arv_publication = \<lparr>psu_media_type = PUBLICATION_MEDIA_TYPE,
        psu_sha256 = lib_sha256 lib publication_bytes, psu_byte_count = int (length publication_bytes)\<rparr>,
      arv_review = arp_review p, arv_tfvc = arp_tfvc p, arv_build_id = bc_build_id (arp_build p),
      arv_artifacts = arp_artifacts p\<rparr>"

definition current_artifacts ::
  "library \<Rightarrow> azure_review_publication \<Rightarrow> string \<Rightarrow> string \<Rightarrow> bool" where
  "current_artifacts lib p result_bytes report_bytes \<longleftrightarrow>
     matches_artifact lib MAX_REVIEW_RESULT_BYTES result_bytes (ra_review_result (arp_artifacts p))
     \<and> matches_artifact lib MAX_REVIEW_REPORT_BYTES report_bytes (ra_review_report (arp_artifacts p))
     \<and> parse_review_result_bytes lib result_bytes = Inr (arp_review p)
     \<and> validate_report lib report_bytes (arp_review p) = Inr ()"

lemma publication_verifies_iff':
  "verify_azure_review_publication lib bracketed pub result_bytes report_bytes tfvc build now max_age = Inr r \<longleftrightarrow>
   (\<exists>p checked i. parse_azure_review_publication_bytes lib bracketed pub = Inr p
      \<and> arp_tfvc p = tfvc \<and> arp_build p = build
      \<and> now = JStr checked \<and> whole_timestamp_ok checked
      \<and> max_age = JInt i \<and> 1 \<le> i \<and> i \<le> MAX_PUBLICATION_AGE_SECONDS
      \<and> timestamp_value (arp_created_at p) \<le> timestamp_value checked
      \<and> age_seconds checked (arp_created_at p) \<le> i
      \<and> current_artifacts lib p result_bytes report_bytes
      \<and> r = receipt lib pub p checked i)"
  unfolding verify_azure_review_publication_def receipt_def current_artifacts_def
  by (auto simp: strict_iff)

text \<open>
  C15. A publication verifies exactly when its bytes decode to a publication for the expected target and
  build, the verification time is a UTC timestamp no earlier than its creation and within a
  legal maximum age, and both supplied artifacts have the recorded sizes and digests and still give
  the recorded review; the receipt then repeats the publication. No other input yields a receipt.
\<close>
theorem publication_verifies_iff:
  "verify_azure_review_publication lib bracketed pub result_bytes report_bytes tfvc build now max_age = Inr r \<longleftrightarrow>
   (\<exists>p checked i. parse_azure_review_publication_bytes lib bracketed pub = Inr p
      \<and> arp_tfvc p = tfvc \<and> arp_build p = build
      \<and> now = JStr checked \<and> whole_timestamp_ok checked
      \<and> max_age = JInt i \<and> 1 \<le> i \<and> i \<le> MAX_PUBLICATION_AGE_SECONDS
      \<and> timestamp_value (arp_created_at p) \<le> timestamp_value checked
      \<and> age_seconds checked (arp_created_at p) \<le> i
      \<and> current_artifacts lib p result_bytes report_bytes
      \<and> r = receipt lib pub p checked i)"
  by (rule publication_verifies_iff')

lemma azure_parse_json_bytes_size:
  "azure_parse_json_bytes lib d m raw = Inr v \<Longrightarrow> 1 \<le> length raw \<and> length raw \<le> m"
  by (auto simp: azure_parse_json_bytes_def Suc_le_eq split: if_splits)

lemma publication_bytes_ok:
  assumes "parse_azure_review_publication_bytes lib bracketed raw = Inr p"
  shows "publication_ok bracketed p" "1 \<le> length raw" "length raw \<le> MAX_AZURE_PUBLICATION_BYTES"
  using assms publication_codec.parse_ok azure_parse_json_bytes_size
  by (auto simp: parse_azure_review_publication_bytes_def attempt_Inr)

lemma age_seconds_nonneg: "timestamp_value created \<le> timestamp_value checked \<Longrightarrow> 0 \<le> age_seconds checked created"
  by (simp add: age_seconds_def pos_imp_zdiv_nonneg_iff)

text \<open>
  Every receipt the verifier issues parses back from its own rendering: the artifact the approval step reads
  is never refused by its strict parser.
\<close>
theorem receipt_reparses:
  assumes "verify_azure_review_publication lib bracketed pub result_bytes report_bytes tfvc build now max_age = Inr r"
    and "\<And>raw. sha256_ok (lib_sha256 lib raw)"
  shows "parse_azure_review_verification (verification_to_json r) = Inr r"
proof (rule verification_codec.parse_render)
  obtain p checked i where p: "parse_azure_review_publication_bytes lib bracketed pub = Inr p"
    and c: "whole_timestamp_ok checked" "1 \<le> i" "i \<le> MAX_PUBLICATION_AGE_SECONDS"
      "timestamp_value (arp_created_at p) \<le> timestamp_value checked" "age_seconds checked (arp_created_at p) \<le> i"
    and r: "r = receipt lib pub p checked i"
    using assms(1) unfolding publication_verifies_iff' by blast
  from publication_bytes_ok [OF p] c age_seconds_nonneg [OF c(4)] assms(2) [of pub] show "verification_ok r"
    by (simp add: r receipt_def verification_ok_def publication_ok_def build_ok_def sha256_text_ok)
qed

definition publication_of ::
  "library \<Rightarrow> string \<Rightarrow> string \<Rightarrow> tfvc_association \<Rightarrow> azure_build_context \<Rightarrow> json list \<Rightarrow> string \<Rightarrow> review_binding
    \<Rightarrow> azure_review_publication" where
  "publication_of lib result_bytes report_bytes tfvc build items created review =
     \<lparr>arp_schema_version = AZURE_REVIEW_PUBLICATION_SCHEMA_VERSION, arp_created_at = created,
      arp_review = review, arp_tfvc = tfvc, arp_build = build,
      arp_work_item_ids = sort (map integer_of items),
      arp_artifacts = \<lparr>ra_review_result = artifact_integrity_of lib result_bytes REVIEW_RESULT_MEDIA_TYPE,
        ra_review_report = artifact_integrity_of lib report_bytes REVIEW_REPORT_MEDIA_TYPE\<rparr>\<rparr>"

lemma create_publication_Inr:
  "create_azure_review_publication lib bracketed result_bytes report_bytes tfvc build items created = Inr p \<longleftrightarrow>
    (\<exists>c review. created = JStr c \<and> parse_review_result_bytes lib result_bytes = Inr review
      \<and> validate_report lib report_bytes review = Inr ()
      \<and> list_all positive_integer items \<and> distinct items
      \<and> publication_ok bracketed p
      \<and> p = publication_of lib result_bytes report_bytes tfvc build items c review)"
  unfolding create_azure_review_publication_def Let_def publication_of_def [symmetric]
  by (auto simp: attempt_Inr ensure_Inr azure_whole_timestamp_Inr validate_consistency_Inr
      publication_codec.parse_render_Inr) (auto simp: publication_ok_def publication_of_def)

lemma created_verifies_parsed:
  assumes "create_azure_review_publication lib bracketed result_bytes report_bytes tfvc build items created = Inr p"
    and "parse_azure_review_publication_bytes lib bracketed pub = Inr p"
    and "whole_timestamp_ok checked" "1 \<le> i" "i \<le> MAX_PUBLICATION_AGE_SECONDS"
    and "timestamp_value (arp_created_at p) \<le> timestamp_value checked"
    and "timestamp_value checked \<le> timestamp_value (arp_created_at p) + i * 1000000"
  shows "verify_azure_review_publication lib bracketed pub result_bytes report_bytes tfvc build (JStr checked) (JInt i)
    = Inr (receipt lib pub p checked i)"
proof -
  obtain c review where made: "parse_review_result_bytes lib result_bytes = Inr review"
      "validate_report lib report_bytes review = Inr ()" "publication_ok bracketed p"
    and p: "p = publication_of lib result_bytes report_bytes tfvc build items c review"
    using assms(1) unfolding create_publication_Inr by blast
  have "age_seconds checked (arp_created_at p) \<le> i"
    using assms(7) zdiv_mono1 [of "timestamp_value checked - timestamp_value (arp_created_at p)" "i * 1000000" 1000000]
    by (simp add: age_seconds_def)
  moreover have "current_artifacts lib p result_bytes report_bytes" "arp_tfvc p = tfvc" "arp_build p = build"
    using made by (simp_all add: p publication_of_def current_artifacts_def matches_artifact_def
        artifact_integrity_of_def publication_ok_def artifacts_ok_def artifact_ok_def)
  ultimately show ?thesis
    unfolding publication_verifies_iff' using assms(2-6) by blast
qed

text \<open>
  Verification is deaf to the recorded collection URL's syntax errors: a publication that is well
  formed up to a collection URI on which \<open>urlsplit\<close> raises makes the verifier leave with that plain
  ValueError, not with the coded error its contract names.
\<close>
theorem malformed_collection_escapes:
  assumes "publication_ok bracketed p" "azure_text_ok 2048 uri" "urlsplit bracketed uri = None"
    and "azure_parse_json_bytes lib ''Azure review publication'' MAX_AZURE_PUBLICATION_BYTES pub
      = Inr (publication_to_json (p\<lparr>arp_build := (arp_build p)\<lparr>bc_collection_uri := uri\<rparr>\<rparr>))"
    and "1 \<le> i" "i \<le> MAX_PUBLICATION_AGE_SECONDS"
  shows "verify_azure_review_publication lib bracketed pub result_bytes report_bytes tfvc build now (JInt i)
    = Inl Verification_value_error"
proof -
  let ?b = "(arp_build p)\<lparr>bc_collection_uri := uri\<rparr>"
  have s: "azure_string n None path name (JStr t) = Inr t" if "azure_text_ok n t" for n path name t
    using that by (simp add: azure_string_None)
  have b: "parse_build bracketed path name (build_to_json ?b) = Inl Plain_value_error" for path name
  proof -
    have "azure_object path name build_keys [''source_tfvc_shelveset''] (build_to_json ?b)
        = Inr (case build_to_json ?b of JObj obj \<Rightarrow> obj)"
      by (auto simp: azure_object_optional_Inr build_to_json_def keys_between_def build_keys_def omit_none_def split: option.splits)
    then show ?thesis
      using assms(1-3) TFVC_REPOSITORY_PROVIDER_text
      by (simp add: parse_build_def build_to_json_def s publication_ok_def build_ok_def collection_uri_def)
  qed
  obtain obj where a: "artifacts_to_json (arp_artifacts p) = JObj obj"
    "azure_object ''$.artifacts'' n [''review_result'', ''review_report''] [] (JObj obj) = Inr obj" for n
    using assms(1) parse_artifacts_render by (auto simp: publication_ok_def azure_object_Inr)
  have "parse_azure_review_publication bracketed (publication_to_json (p\<lparr>arp_build := ?b\<rparr>)) = Inl Plain_value_error"
  proof -
    have "azure_object ''$'' name publication_keys [] (publication_to_json (p\<lparr>arp_build := ?b\<rparr>))
        = Inr (case publication_to_json (p\<lparr>arp_build := ?b\<rparr>) of JObj obj \<Rightarrow> obj)" for name
      by (simp add: azure_object_Inr publication_to_json_def publication_keys_def exact_keys_def)
    moreover have "parse_work_items name (JArr (map JInt (arp_work_item_ids p))) = Inr (arp_work_item_ids p)" for name
      using assms(1) by (simp add: parse_work_items_Inr publication_ok_def)
    moreover have "azure_utc_timestamp True path name (JStr (arp_created_at p)) = Inr (arp_created_at p)" for path name
      using assms(1) by (simp add: azure_whole_timestamp_Inr publication_ok_def)
    ultimately show ?thesis
      using assms(1) a b PUBLICATION_SCHEMA_VERSION_text
      by (simp add: parse_azure_review_publication_def publication_to_json_def Let_def s publication_ok_def
          review_codec.parse_render tfvc_codec.parse_render)
  qed
  with assms(4-6) show ?thesis
    by (simp add: verify_azure_review_publication_def parse_azure_review_publication_bytes_def converting_def
        maximum_age_of_def)
qed
subsection \<open>The environment's identity\<close>

lemma required_environment_Inr [strict_iff]:
  "required_environment m env name = Inr s \<longleftrightarrow> env name = Some s \<and> azure_text_ok m s"
  by (auto simp: required_environment_def azure_string_None azure_text_ok_def split: option.split if_splits)

lemma environment_integer_Inr [strict_iff]:
  "environment_integer env name = Inr i \<longleftrightarrow>
    (\<exists>s. env name = Some s \<and> azure_text_ok 32 s \<and> py_int 10 s = Some i \<and> 1 \<le> i)"
  by (auto simp: environment_integer_def strict_iff split: option.split)

lemma uuid_text_ok:
  assumes "parse_uuid s = Some n" "n \<noteq> 0"
  shows "uuid_ok (uuid_text n)"
proof -
  have "parse_uuid (uuid_text n) = Some n"
    using parse_uuid_bounds [OF assms(1)] parse_uuid_text by blast
  then show ?thesis using parse_uuid_canonical [of "uuid_text n"] assms(2) by (simp add: uuid_ok_shape)
qed

lemma environment_uuid_Inr: "environment_uuid env name = Inr s \<Longrightarrow> uuid_ok s"
  by (auto simp: environment_uuid_def strict_iff uuid_text_ok split: option.splits if_splits)

lemma partition_at_eq:
  "partition_at c s = (a, Some b) \<Longrightarrow> s = a @ c # b"
  by (auto simp: partition_at_def dropWhile_eq_Cons_conv split: list.splits)

lemma rpartition_at_eq: "rpartition_at c s = (Some a, b) \<Longrightarrow> s = a @ c # b"
  by (auto simp: rpartition_at_def split: prod.splits dest!: partition_at_eq) (metis append.assoc append_Cons append_Nil rev_append rev_rev_ident rev.simps(2))

lemma shelveset_source_ok:
  assumes "shelveset_source ref branch reason = Inr (t, s)"
  obtains n ow where "t = Tfvc_shelveset_target TfvcTargetKind_SHELVESET n ow" "s = Some (n @ '';'' @ ow)"
    "target_ok t" "azure_text_ok 512 (n @ '';'' @ ow)" "casefold branch = casefold (n @ '';'' @ ow)"
    "shelveset_reason reason"
  using assms
  by (auto simp: shelveset_source_def parse_shelveset_reference_def strict_iff
      split: prod.splits option.splits dest!: rpartition_at_eq)

lemma changeset_source_ok:
  assumes "changeset_source version branch path reason = Inr (t, s)"
  obtains i where "t = Tfvc_changeset_target TfvcTargetKind_CHANGESET i" "s = None" "1 \<le> i"
    "py_int 10 version = Some i" "casefold branch = casefold path" "\<not> shelveset_reason reason"
  using assms by (auto simp: changeset_source_def strict_iff split: option.splits)

text \<open>
  The identity read from the agent's environment is always well formed, and it agrees with itself the way
  a publication must: always for a shelveset build, and for a changeset build exactly when the
  source version is the plain decimal form of its number.
\<close>
theorem environment_identity_consistent:
  assumes "azure_context_from_environment bracketed env path = Inr (t, b)"
  shows "tfvc_ok t \<and> build_ok bracketed b \<and>
    (consistent t b \<longleftrightarrow> (case ta_target t of
        Tfvc_changeset_target _ i \<Rightarrow> bc_source_version b = dec_int i
      | Tfvc_shelveset_target _ _ _ \<Rightarrow> True))"
proof -
  let ?ref = "strip (case env ''BUILD_SOURCETFVCSHELVESET'' of None \<Rightarrow> [] | Some s \<Rightarrow> s)"
  obtain sp sv sb re target sh where sp: "server_path_ok sp"
    and src: "(if ?ref \<noteq> [] then shelveset_source ?ref sb re else changeset_source sv sb sp re) = Inr (target, sh)"
    and eb: "environment_build bracketed env re TFVC_REPOSITORY_PROVIDER sv sb sh = Inr b"
    and t: "t = \<lparr>ta_server_path = sp, ta_target = target\<rparr>"
    and tx: "azure_text_ok 256 sv" "azure_text_ok 512 sb"
    using assms unfolding azure_context_from_environment_def Let_def
    by (simp only: strict_iff split_paired_Ex prod.case sum.inject prod.inject) blast
  from eb have b: "bc_reason b = re" "bc_repository_provider b = TFVC_REPOSITORY_PROVIDER"
      "bc_source_version b = sv" "bc_source_branch b = sb" "bc_source_tfvc_shelveset b = sh"
    and bok: "pred_option (azure_text_ok 512) sh \<Longrightarrow> build_ok bracketed b"
    using tx by (auto simp: environment_build_def strict_iff build_ok_def dest: environment_uuid_Inr)
  show ?thesis
  proof (cases "?ref = []")
    case True
    with src have "changeset_source sv sb sp re = Inr (target, sh)" by simp
    then show ?thesis
      by (rule changeset_source_ok) (use sp bok in \<open>simp add: t tfvc_ok_def consistent_def b\<close>)
  next
    case False
    with src have "shelveset_source ?ref sb re = Inr (target, sh)" by simp
    then show ?thesis
      by (rule shelveset_source_ok) (use sp bok in \<open>simp add: t tfvc_ok_def consistent_def b\<close>)
  qed
qed

subsection \<open>A concrete publication\<close>

definition table_library :: "(string \<times> json) list \<Rightarrow> library" where
  "table_library docs = \<lparr>lib_decode_utf8 = Some,
     lib_loads = (\<lambda>t. case map_of docs t of Some d \<Rightarrow> Inr d | None \<Rightarrow> Inl (Loads_failed ''unknown'')),
     lib_dumps = (\<lambda>_. []), lib_sha256 = (\<lambda>_. replicate 64 CHR ''a''), lib_inv_cdf = (\<lambda>_. 0)\<rparr>"

definition sample_review :: review_result where
  "sample_review = \<lparr>rr_schema_version = RESULT_SCHEMA_VERSION, rr_engine_version = ENGINE_VERSION,
     rr_policy_name = ''default-v1'', rr_case_id = ''case-1'', rr_case_title = ''Title'',
     rr_component = Component_SYSTEM_PROMPT, rr_input_sha256 = replicate 64 CHR ''a'',
     rr_reviewed_at = ''2026-01-02T03:04:05Z'', rr_decision = Decision_APPROVE,
     rr_recommended_action = RecommendedAction_PATCH, rr_summary = ''ok'', rr_metrics = [], rr_findings = []\<rparr>"

definition sample_report :: string where
  "sample_report = ''# Causure evidence report'' @ [newline, newline] @ concat (required_fragments (binding_of sample_review))"

definition sample_tfvc :: tfvc_association where
  "sample_tfvc = \<lparr>ta_server_path = ''$/P/Main'', ta_target = Tfvc_changeset_target TfvcTargetKind_CHANGESET 42\<rparr>"

definition sample_build :: azure_build_context where
  "sample_build = \<lparr>bc_collection_uri = ''https://dev.example/c/'', bc_project_id = ''12345678-1234-5678-1234-567812345678'',
     bc_project_name = ''P'', bc_build_id = 9, bc_build_number = ''9.1'', bc_definition_id = 3,
     bc_definition_name = ''CI'', bc_reason = AzureBuildReason_INDIVIDUAL_CI,
     bc_repository_provider = TFVC_REPOSITORY_PROVIDER, bc_source_version = ''42'', bc_source_branch = ''$/p/main'',
     bc_requested_for_id = ''12345678-1234-5678-1234-567812345678'', bc_source_tfvc_shelveset = None\<rparr>"

definition sample_publication :: azure_review_publication where
  "sample_publication = publication_of (table_library []) ''r'' sample_report sample_tfvc sample_build
     [JInt 7] ''2026-01-02T03:05:00Z'' (binding_of sample_review)"

definition sample_documents :: library where
  "sample_documents = table_library
     [(''r'', review_result_to_json sample_review), (''p'', publication_to_json sample_publication),
      (''q'' @ [newline], sort_json (publication_to_json sample_publication))]"

lemma eq_char_of: "c = char_of n \<longleftrightarrow> take_bit 8 n = of_char c"
  using char_of_eq_iff [of n c] by metis

lemmas char_codes = char_of_eq_iff eq_char_of

lemma contains_append: "contains part (pre @ part @ post)"
proof (induction pre)
  case Nil
  show ?case by (cases "part @ post") (auto, metis prefixI)
qed simp

lemma contains_concat: "s \<in> set ss \<Longrightarrow> contains s (h @ concat ss)"
  using contains_append [of s] by (metis append.assoc concat.simps(2) concat_append split_list)

lemma replicate_text: "azure_text_ok 64 (replicate 64 CHR ''a'')" "sha256_ok (replicate 64 CHR ''a'')"
proof -
  show "sha256_ok (replicate 64 CHR ''a'')" by (simp add: sha256_ok_def list_all_iff)
  then show "azure_text_ok 64 (replicate 64 CHR ''a'')" by (rule sha256_text_ok)
qed

lemma publication_sample_times:
  "fromisoformat (zulu_to_offset ''2026-01-02T03:04:05Z'') = Some \<lparr>dt_ordinal = 739618, dt_second = 11045, dt_micro = 0, dt_offset = Some 0\<rparr>"
  "fromisoformat (zulu_to_offset ''2026-01-02T03:05:00Z'') = Some \<lparr>dt_ordinal = 739618, dt_second = 11100, dt_micro = 0, dt_offset = Some 0\<rparr>"
  "fromisoformat (zulu_to_offset ''2026-01-02T03:15:00Z'') = Some \<lparr>dt_ordinal = 739618, dt_second = 11700, dt_micro = 0, dt_offset = Some 0\<rparr>"
  by code_simp+

lemma sample_review_timestamp: "review_timestamp_ok ''2026-01-02T03:04:05Z''"
  by (simp add: review_timestamp_ok_def publication_sample_times review_timestamp_shape_def is_digit_def text_eval)

lemma sample_whole_timestamps: "whole_timestamp_ok ''2026-01-02T03:05:00Z''" "whole_timestamp_ok ''2026-01-02T03:15:00Z''"
  by (simp_all add: whole_timestamp_ok_def utc_timestamp_ok_def publication_sample_times utc_timestamp_shape_def is_digit_def text_eval)

lemma sample_uuid: "uuid_ok ''12345678-1234-5678-1234-567812345678''"
proof -
  have "uuid_shape ''12345678-1234-5678-1234-567812345678''"
    by (simp add: uuid_shape_def lower_hex_def is_digit_def)
  moreover have "parse_uuid ''12345678-1234-5678-1234-567812345678'' \<noteq> Some 0"
    by code_simp
  ultimately show ?thesis by (simp add: uuid_ok_shape)
qed

lemma sample_collection: "collection_uri_ok bracketed ''https://dev.example/c/''"
proof -
  have u: "urlsplit bracketed ''https://dev.example/c/'' = Some \<lparr>url_scheme = ''https'', url_netloc = ''dev.example'',
      url_path = ''/c/'', url_query = [], url_fragment = []\<rparr>"
    by (simp add: urlsplit_def split_scheme_def clean_url_def partition_at_def is_alnum_def is_upper_def
        is_lower_def is_digit_def py_lower_def lower_code_def char_codes Let_def)
  show ?thesis
    by (simp add: collection_uri_ok_def u plain_https_def canonical_url_def urlunsplit_def rstrip_chars_def
        url_hostname_def url_hostinfo_def url_username_def url_password_def rpartition_at_def partition_at_def
        py_lower_def lower_code_def char_codes text_eval Let_def)
qed

lemma sample_publishable: "publishable sample_review"
  by (simp add: publishable_def sample_review_def replicate_text sample_review_timestamp ENGINE_VERSION_text
      safe_id_ok_def head_tail_match_def is_alnum_def is_upper_def is_lower_def is_digit_def text_eval)

lemma sample_report_size: "1 \<le> length sample_report" "length sample_report \<le> 2097152"
  by (simp_all add: sample_report_def required_fragments_def binding_of_def sample_review_def spaced_upper_def
      upper_ascii_def py_replace_absent RESULT_SCHEMA_VERSION_def ENGINE_VERSION_def)

lemma sample_publication_ok: "publication_ok bracketed sample_publication"
proof -
  have r: "review_ok (binding_of sample_review)"
    using sample_publishable by (simp add: publishable_def review_ok_def binding_of_def)
  have a: "artifacts_ok (arp_artifacts sample_publication)"
    by (simp add: sample_publication_def publication_of_def artifacts_ok_def artifact_ok_def artifact_integrity_of_def
        table_library_def replicate_text REVIEW_RESULT_MEDIA_TYPE_def REVIEW_REPORT_MEDIA_TYPE_def
        MAX_REVIEW_RESULT_BYTES_def MAX_REVIEW_REPORT_BYTES_def sample_report_size [simplified] text_eval)
  have t: "tfvc_ok sample_tfvc"
    by (simp add: sample_tfvc_def tfvc_ok_def server_path_ok_def tfvc_path_ok_def text_eval)
  have b: "build_ok bracketed sample_build"
    by (simp add: sample_build_def build_ok_def sample_collection sample_uuid text_eval)
  have c: "consistent sample_tfvc sample_build"
    by (simp add: sample_tfvc_def sample_build_def consistent_def shelveset_reason_def dec_int_def dec_nat.simps casefold_def lower_code_def char_codes)
  have g: "review_gap_ok ''2026-01-02T03:05:00Z'' (rvb_reviewed_at (binding_of sample_review))"
    by (simp add: review_gap_ok_def binding_of_def sample_review_def timestamp_value_def publication_sample_times
        utc_microseconds_def MAX_REVIEW_TO_PUBLICATION_SECONDS_def Let_def)
  show ?thesis
    using r a t b c g
    by (simp add: publication_ok_def sample_publication_def publication_of_def sample_whole_timestamps work_items_ok_def integer_of_def)
qed

lemma sample_decodes:
  "azure_parse_json_bytes sample_documents name MAX_REVIEW_RESULT_BYTES ''r'' = Inr (review_result_to_json sample_review)"
  "azure_parse_json_bytes sample_documents name MAX_AZURE_PUBLICATION_BYTES ''p'' = Inr (publication_to_json sample_publication)"
  by (simp_all add: azure_parse_json_bytes_def sample_documents_def table_library_def parse_json_text_def
      utf8_bytes_def MAX_REVIEW_RESULT_BYTES_def MAX_AZURE_PUBLICATION_BYTES_def)

lemma sample_report_valid: "validate_report sample_documents sample_report (binding_of sample_review) = Inr ()"
proof -
  let ?h = "''# Causure evidence report'' @ [newline, newline]"
  have "contains f sample_report" if "f \<in> set (required_fragments (binding_of sample_review))" for f
    using contains_concat [OF that, of ?h] by (simp only: sample_report_def append.assoc)
  moreover have "prefix ?h sample_report" by (simp add: sample_report_def)
  moreover have "CHR 0x00 \<notin> set sample_report"
    by (simp add: sample_report_def required_fragments_def binding_of_def sample_review_def spaced_upper_def
        upper_ascii_def is_lower_def py_replace_absent ENGINE_VERSION_def newline_def char_codes)
  moreover have "sample_report \<noteq> []" using sample_report_size by auto
  ultimately show ?thesis
    using sample_report_size by (simp add: validate_report_def MAX_REVIEW_REPORT_BYTES_def sample_documents_def table_library_def)
qed

lemma publication_sample_created:
  "create_azure_review_publication sample_documents bracketed ''r'' sample_report sample_tfvc sample_build
     [JInt 7] (JStr ''2026-01-02T03:05:00Z'') = Inr sample_publication"
proof -
  have "parse_review_result_bytes sample_documents ''r'' = Inr (binding_of sample_review)"
    using sample_publishable by (simp add: parse_review_result_bytes_def sample_decodes parse_review_binding_render)
  moreover have "sample_publication = publication_of sample_documents ''r'' sample_report sample_tfvc sample_build
     [JInt 7] ''2026-01-02T03:05:00Z'' (binding_of sample_review)"
    by (simp add: sample_publication_def publication_of_def artifact_integrity_of_def sample_documents_def table_library_def)
  ultimately show ?thesis
    using sample_report_valid sample_publication_ok
    by (auto simp: create_publication_Inr positive_integer_def)
qed

lemma sample_verified:
  "verify_azure_review_publication sample_documents (\<lambda>_. False) ''p'' ''r'' sample_report sample_tfvc sample_build
     (JStr ''2026-01-02T03:15:00Z'') (JInt 3600)
   = Inr (receipt sample_documents ''p'' sample_publication ''2026-01-02T03:15:00Z'' 3600)"
  unfolding publication_verifies_iff'
proof (intro exI conjI)
  show "parse_azure_review_publication_bytes sample_documents (\<lambda>_. False) ''p'' = Inr sample_publication"
    using sample_publication_ok publication_codec.parse_render
    by (simp add: parse_azure_review_publication_bytes_def sample_decodes)
  show "current_artifacts sample_documents sample_publication ''r'' sample_report"
    using publication_sample_created [of "\<lambda>_. False"] sample_report_size
    by (auto simp: create_publication_Inr current_artifacts_def matches_artifact_def sample_publication_def
        publication_of_def artifact_integrity_of_def sample_documents_def table_library_def
        MAX_REVIEW_RESULT_BYTES_def MAX_REVIEW_REPORT_BYTES_def)
qed (simp_all add: sample_whole_timestamps MAX_PUBLICATION_AGE_SECONDS_def sample_publication_def publication_of_def
    timestamp_value_def publication_sample_times utc_microseconds_def age_seconds_def)

theorem receipt_reparses_witness:
  "parse_azure_review_verification (verification_to_json
     (receipt sample_documents ''p'' sample_publication ''2026-01-02T03:15:00Z'' 3600))
   = Inr (receipt sample_documents ''p'' sample_publication ''2026-01-02T03:15:00Z'' 3600)"
  by (rule receipt_reparses [OF sample_verified])
    (simp add: sample_documents_def table_library_def replicate_text)

theorem malformed_collection_escapes_witness:
  "verify_azure_review_publication
     (table_library [(''p'', publication_to_json (sample_publication\<lparr>arp_build := sample_build\<lparr>bc_collection_uri := ''https://[''\<rparr>\<rparr>))])
     (\<lambda>_. False) ''p'' ''r'' sample_report sample_tfvc sample_build (JStr ''2026-01-02T03:15:00Z'') (JInt 3600)
   = Inl Verification_value_error"
proof (rule malformed_collection_escapes [where p = sample_publication and uri = "''https://[''"])
  have b: "arp_build sample_publication = sample_build" by (simp add: sample_publication_def publication_of_def)
  show "urlsplit (\<lambda>_. False) ''https://['' = None" by code_simp
  show "azure_text_ok 2048 ''https://[''" by (simp add: text_eval)
  show "azure_parse_json_bytes
      (table_library [(''p'', publication_to_json (sample_publication\<lparr>arp_build := sample_build\<lparr>bc_collection_uri := ''https://[''\<rparr>\<rparr>))])
      ''Azure review publication'' MAX_AZURE_PUBLICATION_BYTES ''p''
    = Inr (publication_to_json (sample_publication\<lparr>arp_build := (arp_build sample_publication)\<lparr>bc_collection_uri := ''https://[''\<rparr>\<rparr>))"
    by (simp add: b azure_parse_json_bytes_def table_library_def parse_json_text_def utf8_bytes_def MAX_AZURE_PUBLICATION_BYTES_def)
qed (simp_all add: sample_publication_ok MAX_PUBLICATION_AGE_SECONDS_def)

definition sample_environment :: environment where
  "sample_environment = map_of
     [(''TF_BUILD'', ''True''), (''BUILD_REPOSITORY_PROVIDER'', ''TfsVersionControl''), (''BUILD_SOURCEVERSION'', ''42''),
      (''BUILD_SOURCEBRANCH'', ''$/p/main''), (''BUILD_REASON'', ''IndividualCI''),
      (''SYSTEM_COLLECTIONURI'', ''https://Dev.Example/c''), (''SYSTEM_TEAMPROJECTID'', ''12345678-1234-5678-1234-567812345678''),
      (''SYSTEM_TEAMPROJECT'', ''P''), (''BUILD_BUILDID'', ''9''), (''BUILD_BUILDNUMBER'', ''9.1''),
      (''SYSTEM_DEFINITIONID'', ''3''), (''BUILD_DEFINITIONNAME'', ''CI''),
      (''BUILD_REQUESTEDFORID'', ''12345678123456781234567812345678'')]"

lemma sample_uuid_parsed:
  "parse_uuid ''12345678123456781234567812345678'' = Some 24197857161011715162171839636988778104"
  "parse_uuid ''12345678-1234-5678-1234-567812345678'' = Some 24197857161011715162171839636988778104"
  "uuid_text 24197857161011715162171839636988778104 = ''12345678-1234-5678-1234-567812345678''"
  by code_simp+

lemma environment_uuid_iff:
  "environment_uuid env name = Inr s \<longleftrightarrow>
    (\<exists>v. env name = Some v \<and> azure_text_ok 36 v \<and> (\<exists>n. parse_uuid v = Some n \<and> n \<noteq> 0 \<and> s = uuid_text n))"
  by (auto simp: environment_uuid_def strict_iff split: option.splits if_splits)

lemma sample_integers: "py_int 10 ''42'' = Some 42" "py_int 10 ''9'' = Some 9" "py_int 10 ''3'' = Some 3"
  by code_simp+

lemma sample_split:
  "urlsplit (\<lambda>_. False) ''https://Dev.Example/c'' = Some \<lparr>url_scheme = ''https'', url_netloc = ''Dev.Example'',
      url_path = ''/c'', url_query = [], url_fragment = []\<rparr>"
  by code_simp

lemma sample_context:
  "azure_context_from_environment (\<lambda>_. False) sample_environment (JStr ''$/P/Main'') = Inr (sample_tfvc, sample_build)"
proof -
  have env: "sample_environment ''TF_BUILD'' = Some ''True''"
    "sample_environment ''BUILD_REPOSITORY_PROVIDER'' = Some ''TfsVersionControl''"
    "sample_environment ''BUILD_SOURCEVERSION'' = Some ''42''"
    "sample_environment ''BUILD_SOURCEBRANCH'' = Some ''$/p/main''"
    "sample_environment ''BUILD_REASON'' = Some ''IndividualCI''"
    "sample_environment ''SYSTEM_COLLECTIONURI'' = Some ''https://Dev.Example/c''"
    "sample_environment ''SYSTEM_TEAMPROJECTID'' = Some ''12345678-1234-5678-1234-567812345678''"
    "sample_environment ''SYSTEM_TEAMPROJECT'' = Some ''P''"
    "sample_environment ''BUILD_BUILDID'' = Some ''9''"
    "sample_environment ''BUILD_BUILDNUMBER'' = Some ''9.1''"
    "sample_environment ''SYSTEM_DEFINITIONID'' = Some ''3''"
    "sample_environment ''BUILD_DEFINITIONNAME'' = Some ''CI''"
    "sample_environment ''BUILD_REQUESTEDFORID'' = Some ''12345678123456781234567812345678''"
    "sample_environment ''BUILD_SOURCETFVCSHELVESET'' = None"
    by (simp_all add: sample_environment_def)
  have u: "environment_uuid sample_environment ''SYSTEM_TEAMPROJECTID'' = Inr ''12345678-1234-5678-1234-567812345678''"
    "environment_uuid sample_environment ''BUILD_REQUESTEDFORID'' = Inr ''12345678-1234-5678-1234-567812345678''"
    by (simp_all add: environment_uuid_iff env text_eval sample_uuid_parsed)
  have c: "environment_collection (\<lambda>_. False) ''https://Dev.Example/c'' = Inr ''https://dev.example/c/''"
    by (simp add: environment_collection_def sample_split plain_https_def canonical_url_def urlunsplit_def rstrip_chars_def
        url_hostname_def url_hostinfo_def url_username_def url_password_def rpartition_at_def partition_at_def
        py_lower_def lower_code_def char_codes Let_def)
  have "py_lower ''True'' = ''true''" by (simp add: py_lower_def lower_code_def char_codes)
  moreover have "casefold ''$/p/main'' = casefold ''$/P/Main''" by (simp add: casefold_def lower_code_def)
  moreover have "server_path_ok ''$/P/Main''" by (simp add: server_path_ok_def tfvc_path_ok_def text_eval)
  moreover have "azure_build_reason_value AzureBuildReason_INDIVIDUAL_CI = ''IndividualCI''" by simp
  ultimately show ?thesis
    unfolding azure_context_from_environment_def Let_def environment_build_def
    by (simp only: strict_iff)
      (simp add: env TFVC_REPOSITORY_PROVIDER_def text_eval u strip_def c sample_collection changeset_source_def sample_integers
        strict_iff shelveset_reason_def sample_tfvc_def sample_build_def)
qed

theorem environment_identity_consistent_witness:
  "tfvc_ok sample_tfvc \<and> build_ok (\<lambda>_. False) sample_build \<and>
    (consistent sample_tfvc sample_build \<longleftrightarrow> (case ta_target sample_tfvc of
        Tfvc_changeset_target _ i \<Rightarrow> bc_source_version sample_build = dec_int i
      | Tfvc_shelveset_target _ _ _ \<Rightarrow> True))"
  by (rule environment_identity_consistent [OF sample_context])

end
