(* ===== verification/Azure_Rendering.thy ===== *)
theory Azure_Rendering
  imports Azure_Verification "HOL-Library.Multiset"
begin

text \<open>
  The text of a publication (\<open>render_azure_review_publication\<close>) is written with sorted keys, so what is read
  back is the rendered document with its keys in another order. The parsers of a publication do not depend on
  the order of keys, at any level, for accepted and refused documents alike; so what was created, written and read
  back verifies.
\<close>

subsection \<open>Documents with sorted keys\<close>

definition sorted_dict :: "dict \<Rightarrow> dict" where
  "sorted_dict obj = sort_key fst (map (\<lambda>(k, v). (k, sort_json v)) obj)"

lemma sort_json_JObj: "sort_json (JObj obj) = JObj (sorted_dict obj)"
  by (simp add: sorted_dict_def)

lemma map_of_filter: "map_of xs k = (case filter (\<lambda>p. fst p = k) xs of [] \<Rightarrow> None | p # _ \<Rightarrow> Some (snd p))"
  by (induction xs) auto

lemma map_of_stable_sort: "map_of (sort_key fst xs) k = map_of xs k"
  by (simp only: map_of_filter sort_key_stable)

lemma sorted_dict_jget: "jget (sorted_dict obj) k = sort_json (jget obj k)"
proof -
  have "map_of (map (\<lambda>(k, v). (k, sort_json v)) obj) k = map_option sort_json (map_of obj k)"
    by (induction obj) auto
  then show ?thesis by (simp add: jget_def sorted_dict_def map_of_stable_sort split: option.split)
qed

lemma sorted_dict_keys: "fst ` set (sorted_dict obj) = fst ` set obj" "mset (map fst (sorted_dict obj)) = mset (map fst obj)"
proof -
  have keys: "map fst (map (\<lambda>(k, v). (k, sort_json v)) obj) = map fst obj" by (induction obj) auto
  show "mset (map fst (sorted_dict obj)) = mset (map fst obj)"
    using keys by (simp only: sorted_dict_def mset_map mset_sort) (metis mset_map)
  then show "fst ` set (sorted_dict obj) = fst ` set obj" by (metis list.set_map set_mset_mset)
qed

lemma sort_mset_cong: "mset xs = mset ys \<Longrightarrow> sort (xs :: string list) = sort ys"
  by (metis mset_sort properties_for_sort sorted_sort)

lemma azure_object_sorted:
  "azure_object path name required optional (sort_json v)
     = map_sum id sorted_dict (azure_object path name required optional v)"
proof (cases v)
  case (JObj obj)
  have "sort (filter P (map fst (sorted_dict obj))) = sort (filter P (map fst obj))" for P
    by (rule sort_mset_cong) (simp only: mset_filter sorted_dict_keys)
  then show ?thesis
    by (simp add: JObj sort_json_JObj azure_object_def has_key_def sorted_dict_keys Let_def del: sort_json.simps)
qed (simp_all add: azure_object_def)

lemma attempt_map_sum: "attempt (map_sum id g m) f = attempt m (\<lambda>x. f (g x))"
  by (cases m) simp_all

lemma each_map: "each f i (map g xs) = each (\<lambda>i x. f i (g x)) i xs"
  by (induction xs arbitrary: i) simp_all

subsection \<open>No parser of a publication depends on the order of keys\<close>

lemma azure_string_sorted: "azure_string n f path name (sort_json v) = azure_string n f path name v"
  by (cases v) (simp_all add: azure_string_def)

lemma azure_integer_sorted: "azure_integer n path name (sort_json v) = azure_integer n path name v"
  by (cases v) (simp_all add: azure_integer_def)

lemma azure_enum_sorted: "azure_enum val members path name (sort_json v) = azure_enum val members path name v"
  by (cases v) (simp_all add: azure_enum_def Let_def)

lemma sort_json_null: "sort_json v = JNull \<longleftrightarrow> v = JNull"
  by (cases v) simp_all

lemmas leaves_sorted = azure_string_sorted azure_integer_sorted azure_enum_sorted

lemma values_sorted:
  "azure_utc_timestamp whole path name (sort_json v) = azure_utc_timestamp whole path name v"
  "canonical_uuid path name (sort_json v) = canonical_uuid path name v"
  "collection_uri bracketed path name (sort_json v) = collection_uri bracketed path name v"
  "tfvc_server_path path name (sort_json v) = tfvc_server_path path name v"
  "azure_optional_string n path name (sort_json v) = azure_optional_string n path name v"
  by (simp_all add: azure_utc_timestamp_def canonical_uuid_def collection_uri_def tfvc_server_path_def
      azure_optional_string_def leaves_sorted sort_json_null)

lemmas documents_sorted = azure_object_sorted attempt_map_sum sorted_dict_jget leaves_sorted values_sorted

lemma parse_artifact_sorted: "parse_artifact media n path name (sort_json v) = parse_artifact media n path name v"
  by (simp add: parse_artifact_def documents_sorted)

lemma parse_artifacts_sorted: "parse_artifacts name (sorted_dict obj) = parse_artifacts name obj"
  by (simp add: parse_artifacts_def sorted_dict_jget parse_artifact_sorted)

lemma parse_review_sorted: "parse_review path name (sort_json v) = parse_review path name v"
  by (simp add: parse_review_def documents_sorted)

lemma parse_target_sorted: "parse_target path name (sort_json v) = parse_target path name v"
proof (cases v)
  case (JObj obj)
  show ?thesis
    using azure_object_sorted [of path name _ "[]" v]
    by (simp add: JObj sort_json_JObj parse_target_def documents_sorted del: sort_json.simps cong: if_cong)
qed (simp_all add: parse_target_def)

lemma parse_tfvc_sorted: "parse_tfvc path name (sort_json v) = parse_tfvc path name v"
  by (simp add: parse_tfvc_def documents_sorted parse_target_sorted)

lemma parse_build_sorted: "parse_build bracketed path name (sort_json v) = parse_build bracketed path name v"
  by (simp add: parse_build_def documents_sorted)

lemma parse_work_items_sorted: "parse_work_items name (sort_json v) = parse_work_items name v"
  by (cases v) (simp_all add: parse_work_items_def each_map azure_integer_sorted)

lemma parse_publication_sorted:
  "parse_azure_review_publication bracketed (sort_json v) = parse_azure_review_publication bracketed v"
  by (simp add: parse_azure_review_publication_def Let_def documents_sorted parse_work_items_sorted parse_artifacts_sorted
      parse_review_sorted parse_tfvc_sorted parse_build_sorted)

subsection \<open>Properties\<close>

lemma created_publication_ok:
  "create_azure_review_publication lib bracketed result_bytes report_bytes tfvc build items created = Inr p \<Longrightarrow>
     publication_ok bracketed p"
  unfolding create_publication_Inr by blast

text \<open>
  C29. What was published verifies: a publication created from a review result, its report and the current build
  is written out by the renderer, which sorts the keys; read back from a text that decodes to the document with its
  keys so sorted, it verifies with the same artifacts and build at any later time within the allowed age.
\<close>
theorem created_publication_verifies:
  assumes "create_azure_review_publication lib bracketed result_bytes report_bytes tfvc build items created = Inr p"
    and "azure_parse_json_bytes lib ''Azure review publication'' MAX_AZURE_PUBLICATION_BYTES
        (utf8_bytes (dumps (publication_to_json p) @ [newline])) = Inr (sort_json (publication_to_json p))"
    and "whole_timestamp_ok checked" "1 \<le> i" "i \<le> MAX_PUBLICATION_AGE_SECONDS"
    and "timestamp_value (arp_created_at p) \<le> timestamp_value checked"
    and "timestamp_value checked \<le> timestamp_value (arp_created_at p) + i * 1000000"
  shows "\<exists>text. render_azure_review_publication dumps bracketed p = Inr text
    \<and> verify_azure_review_publication lib bracketed (utf8_bytes text) result_bytes report_bytes tfvc build
        (JStr checked) (JInt i) = Inr (receipt lib (utf8_bytes text) p checked i)"
proof -
  have p: "parse_azure_review_publication bracketed (publication_to_json p) = Inr p"
    using created_publication_ok [OF assms(1)] publication_codec.parse_render by simp
  then have "parse_azure_review_publication_bytes lib bracketed (utf8_bytes (dumps (publication_to_json p) @ [newline])) = Inr p"
    using assms(2) by (simp add: parse_azure_review_publication_bytes_def parse_publication_sorted)
  from created_verifies_parsed [OF assms(1) this assms(3-7)] p show ?thesis
    by (simp add: render_azure_review_publication_def render_with_def)
qed

theorem created_publication_verifies_witness:
  "\<exists>text. render_azure_review_publication (\<lambda>_. ''q'') (\<lambda>_. False) sample_publication = Inr text
    \<and> verify_azure_review_publication sample_documents (\<lambda>_. False) (utf8_bytes text) ''r'' sample_report sample_tfvc
        sample_build (JStr ''2026-01-02T03:15:00Z'') (JInt 3600)
      = Inr (receipt sample_documents (utf8_bytes text) sample_publication ''2026-01-02T03:15:00Z'' 3600)"
proof (rule created_publication_verifies [OF publication_sample_created])
  have c: "arp_created_at sample_publication = ''2026-01-02T03:05:00Z''"
    by (simp add: sample_publication_def publication_of_def)
  show "timestamp_value (arp_created_at sample_publication) \<le> timestamp_value ''2026-01-02T03:15:00Z''"
    "timestamp_value ''2026-01-02T03:15:00Z'' \<le> timestamp_value (arp_created_at sample_publication) + 3600 * 1000000"
    by (simp_all add: c timestamp_value_def publication_sample_times utc_microseconds_def)
  show "azure_parse_json_bytes sample_documents ''Azure review publication'' MAX_AZURE_PUBLICATION_BYTES
      (utf8_bytes (''q'' @ [newline])) = Inr (sort_json (publication_to_json sample_publication))"
    by (simp add: azure_parse_json_bytes_def sample_documents_def table_library_def parse_json_text_def newline_def
        utf8_bytes_def MAX_AZURE_PUBLICATION_BYTES_def)
qed (simp_all add: sample_whole_timestamps MAX_PUBLICATION_AGE_SECONDS_def)

end
