(* ===== verification/Base64url.thy ===== *)
theory Base64url
  imports Prelude
begin

text \<open>
  Base64 in the URL alphabet, as \<open>attestations.py\<close> and \<open>approvals.py\<close> use it: encoding without
  padding, and the decoder \<open>a2b_base64\<close> with and without its strict mode (as CPython 3.11 runs it).
  Byte strings are \<open>string\<close>. The encoding of any bytes decodes to them, in either mode.
\<close>

subsection \<open>Encoding\<close>

definition sextet_char :: "nat \<Rightarrow> char" where
  "sextet_char n = (if n < 26 then char_of (65 + n) else if n < 52 then char_of (71 + n)
     else if n < 62 then char_of (n - 4) else if n = 62 then CHR ''-'' else CHR ''_'')"

abbreviation byte :: "char \<Rightarrow> nat" where "byte \<equiv> of_char"

fun b64_encode :: "string \<Rightarrow> string" where
  \<comment> \<open>\<open>base64.urlsafe_b64encode\<close>\<close>
  "b64_encode [] = []"
| "b64_encode [a] = [sextet_char (byte a div 4), sextet_char (byte a mod 4 * 16), CHR ''='', CHR ''='']"
| "b64_encode [a, b] = [sextet_char (byte a div 4), sextet_char (byte a mod 4 * 16 + byte b div 16),
     sextet_char (byte b mod 16 * 4), CHR ''='']"
| "b64_encode (a # b # c # rest) =
     [sextet_char (byte a div 4), sextet_char (byte a mod 4 * 16 + byte b div 16),
      sextet_char (byte b mod 16 * 4 + byte c div 64), sextet_char (byte c mod 64)] @ b64_encode rest"

definition base64url_encode :: "string \<Rightarrow> string" where
  "base64url_encode v = rev (dropWhile (\<lambda>c. c = CHR ''='') (rev (b64_encode v)))"

subsection \<open>Decoding\<close>

definition sextet_value :: "char \<Rightarrow> nat option" where
  "sextet_value c =
     (if is_upper c then Some (byte c - 65) else if is_lower c then Some (byte c - 71)
      else if is_digit c then Some (byte c + 4)
      else if c \<in> set ''-+'' then Some 62 else if c \<in> set ''_/'' then Some 63 else None)"

fun a2b_base64 :: "bool \<Rightarrow> nat \<Rightarrow> nat \<Rightarrow> nat \<Rightarrow> bool \<Rightarrow> string \<Rightarrow> string option" where
  \<comment> \<open>position in the group of four, pending bits, padding seen in this group and at all\<close>
  "a2b_base64 strict quad left pads padded [] = (if quad = 0 then Some [] else None)"
| "a2b_base64 strict quad left pads padded (c # cs) =
     (if c = CHR ''='' then
        if 2 \<le> quad \<and> 4 \<le> quad + pads + 1 then (if strict \<and> cs \<noteq> [] then None else Some [])
        else a2b_base64 strict quad left (if 2 \<le> quad then pads + 1 else pads) True cs
      else case sextet_value c of
        None \<Rightarrow> if strict then None else a2b_base64 strict quad left pads padded cs
      | Some v \<Rightarrow>
          if strict \<and> padded then None
          else if quad = 0 then a2b_base64 strict 1 v 0 padded cs
          else if quad = 1 then
            map_option (Cons (char_of (left * 4 + v div 16))) (a2b_base64 strict 2 (v mod 16) 0 padded cs)
          else if quad = 2 then
            map_option (Cons (char_of (left * 16 + v div 4))) (a2b_base64 strict 3 (v mod 4) 0 padded cs)
          else map_option (Cons (char_of (left * 64 + v))) (a2b_base64 strict 0 0 0 padded cs))"

definition b64_decode :: "bool \<Rightarrow> string \<Rightarrow> string option" where
  \<comment> \<open>\<open>b64decode(s, altchars=b"-_", validate=strict)\<close>; \<open>None\<close> is binascii.Error or ValueError\<close>
  "b64_decode strict s =
     (if list_ex (\<lambda>c. 128 \<le> byte c) s \<or> (strict \<and> s \<noteq> [] \<and> hd s = CHR ''='') then None
      else a2b_base64 strict 0 0 0 False s)"

definition b64_padding :: "string \<Rightarrow> string" where
  \<comment> \<open>\<open>"=" * (-len(s) % 4)\<close>\<close>
  "b64_padding s = replicate (nat (- int (length s) mod 4)) CHR ''=''"

subsection \<open>Decoding the encoding\<close>

lemma byte_char [simp]: "n < 256 \<Longrightarrow> byte (char_of n) = n"
  by (simp add: of_char_of)

lemma byte_less: "byte c < 256"
  by (rule of_char_256)

lemma sextet_cases:
  assumes "n < 64"
  shows "sextet_value (sextet_char n) = Some n" "sextet_char n \<noteq> CHR ''=''" "byte (sextet_char n) < 128"
proof -
  consider "n < 26" | "26 \<le> n" "n < 52" | "52 \<le> n" "n < 62" | "n = 62" | "n = 63"
    using assms by linarith
  then have "sextet_value (sextet_char n) = Some n \<and> byte (sextet_char n) \<noteq> 61 \<and> byte (sextet_char n) < 128"
  proof cases
    case 3
    then have "byte (sextet_char n) = n - 4" by (simp add: sextet_char_def)
    then show ?thesis using 3 by (auto simp: sextet_value_def is_upper_def is_lower_def is_digit_def Let_def)
  qed (simp_all add: sextet_char_def sextet_value_def is_upper_def is_lower_def is_digit_def)
  then show "sextet_value (sextet_char n) = Some n" "sextet_char n \<noteq> CHR ''=''" "byte (sextet_char n) < 128"
    by auto
qed

lemma byte_quotients [simp]:
  "byte a div 4 < 64" "byte b div 16 < 16" "byte c div 64 < 4"
  "byte b div 16 div 16 = 0" "byte b div 16 mod 16 = byte b div 16"
  "byte c div 64 div 4 = 0" "byte c div 64 mod 4 = byte c div 64"
proof -
  show q: "byte a div 4 < 64" "byte b div 16 < 16" "byte c div 64 < 4"
    using byte_less [of a] byte_less [of b] byte_less [of c] by (simp_all add: less_mult_imp_div_less)
  from q(2) show "byte b div 16 div 16 = 0" "byte b div 16 mod 16 = byte b div 16" by (simp_all only: div_less mod_less)
  from q(3) show "byte c div 64 div 4 = 0" "byte c div 64 mod 4 = byte c div 64" by (simp_all only: div_less mod_less)
qed

lemma byte_sextets:
  "byte a mod 4 * 16 < 64" "byte a mod 4 * 16 + byte b div 16 < 64"
  "byte b mod 16 * 4 < 64" "byte b mod 16 * 4 + byte c div 64 < 64" "byte c mod 64 < 64"
proof -
  have "byte a mod 4 < 4" "byte b mod 16 < 16" by simp_all
  moreover have "byte b div 16 < 16" "byte c div 64 < 4" by simp_all
  ultimately show "byte a mod 4 * 16 < 64" "byte a mod 4 * 16 + byte b div 16 < 64"
    "byte b mod 16 * 4 < 64" "byte b mod 16 * 4 + byte c div 64 < 64" by linarith+
qed simp

lemma a2b_encode: "a2b_base64 strict 0 0 0 False (b64_encode v) = Some v"
  by (induction v rule: b64_encode.induct) (simp_all add: sextet_cases byte_sextets)

lemma b64_encode_chars: "list_all (\<lambda>c. byte c < 128) (b64_encode v)"
  by (induction v rule: b64_encode.induct) (simp_all add: sextet_cases byte_sextets)

lemma b64_encode_head: "v \<noteq> [] \<Longrightarrow> hd (b64_encode v) \<noteq> CHR ''=''"
  by (cases v rule: b64_encode.cases) (simp_all add: sextet_cases byte_sextets)

lemma b64_encode_Nil: "b64_encode v = [] \<longleftrightarrow> v = []"
  by (cases v rule: b64_encode.cases) simp_all

lemma b64_decode_encode: "b64_decode strict (b64_encode v) = Some v"
proof -
  have "\<not> list_ex (\<lambda>c. 128 \<le> byte c) (b64_encode v)"
    using b64_encode_chars [of v] by (auto simp: list_all_iff list_ex_iff)
  then show ?thesis
    using b64_encode_head [of v] b64_encode_Nil [of v] by (auto simp: b64_decode_def a2b_encode)
qed

subsection \<open>Removing and restoring the padding\<close>

lemma b64_encode_length: "length (b64_encode v) = 4 * ((length v + 2) div 3)"
proof (induction v rule: b64_encode.induct)
  case (4 a b c rest)
  have "(length (a # b # c # rest) + 2) div 3 = (length rest + 2) div 3 + 1" by simp
  then show ?case using 4 by simp
qed simp_all

lemma encode_body:
  "\<exists>body k. b64_encode v = body @ replicate k CHR ''='' \<and> k < 3
     \<and> (body \<noteq> [] \<longrightarrow> last body \<noteq> CHR ''='') \<and> (v = [] \<longrightarrow> k = 0)"
proof (induction v rule: b64_encode.induct)
  case 1
  show ?case by simp
next
  case (2 a)
  show ?case
    by (intro exI [of _ "[sextet_char (byte a div 4), sextet_char (byte a mod 4 * 16)]"] exI [of _ "Suc (Suc 0)"])
      (simp add: sextet_cases byte_sextets)
next
  case (3 a b)
  show ?case
    by (intro exI [of _ "[sextet_char (byte a div 4), sextet_char (byte a mod 4 * 16 + byte b div 16),
        sextet_char (byte b mod 16 * 4)]"] exI [of _ "Suc 0"])
      (simp add: sextet_cases byte_sextets)
next
  case (4 a b c rest)
  then obtain body k where e: "b64_encode rest = body @ replicate k CHR ''=''" "k < 3"
    "body \<noteq> [] \<longrightarrow> last body \<noteq> CHR ''=''" "rest = [] \<longrightarrow> k = 0" by blast
  let ?g = "[sextet_char (byte a div 4), sextet_char (byte a mod 4 * 16 + byte b div 16),
      sextet_char (byte b mod 16 * 4 + byte c div 64), sextet_char (byte c mod 64)]"
  have "b64_encode (a # b # c # rest) = (?g @ body) @ replicate k CHR ''=''" using e(1) by simp
  moreover have "last (?g @ body) \<noteq> CHR ''=''" using e(3) by (simp add: sextet_cases byte_sextets)
  ultimately show ?case using e(2) by blast
qed

lemma base64url_padding: "base64url_encode v @ b64_padding (base64url_encode v) = b64_encode v"
proof -
  obtain body k where e: "b64_encode v = body @ replicate k CHR ''=''" "k < 3"
    "body \<noteq> [] \<longrightarrow> last body \<noteq> CHR ''=''" using encode_body by blast
  have "dropWhile (\<lambda>c. c = CHR ''='') (rev body) = rev body"
    using e(3) by (cases body rule: rev_cases) simp_all
  then have b: "base64url_encode v = body"
    by (simp add: base64url_encode_def e(1) dropWhile_append)
  obtain m where "length body + k = 4 * m"
    using b64_encode_length [of v] e(1) by simp
  then have "- int (length body) = int k + (- int m) * 4" by linarith
  then have "- int (length body) mod 4 = int k mod 4" by (simp only: mod_mult_self1)
  then have "- int (length body) mod 4 = int k" using e(2) by simp
  then show ?thesis by (simp add: b b64_padding_def e(1))
qed

lemma base64url_decodes:
  "b64_decode strict (base64url_encode v @ b64_padding (base64url_encode v)) = Some v"
  by (simp add: base64url_padding b64_decode_encode)

lemma base64url_inj: "base64url_encode v = base64url_encode w \<longleftrightarrow> v = w"
  by (metis base64url_decodes option.inject)

end
