(* ===== verification/Wire_Values.thy ===== *)
theory Wire_Values
  imports Fail_Fast Base64url Py_Text Review_Binding
begin

text \<open>
  The values of signed documents, as \<open>attestations.py\<close> and \<open>approvals.py\<close> read them with the same
  helpers: objects that list their fields, bounded arrays and strings, integers, enumerations,
  whole-second UTC timestamps and canonical base64url of a fixed number of bytes. Each helper takes
  the error to raise as a function of the path and the message.
\<close>

type_synonym 'e raiser = "string \<Rightarrow> string \<Rightarrow> 'e"

subsection \<open>Reading\<close>

definition wire_object :: "'e raiser \<Rightarrow> string \<Rightarrow> string list \<Rightarrow> string list \<Rightarrow> json \<Rightarrow> 'e + dict" where
  "wire_object err path required optional v =
     (case v of JObj obj \<Rightarrow>
        (let unknown = sort (filter (\<lambda>k. k \<notin> set required \<and> k \<notin> set optional) (map fst obj));
             missing = sort (filter (\<lambda>k. \<not> has_key obj k) required)
         in if unknown \<noteq> [] then Inl (err path (''unknown field: '' @ hd unknown))
            else if missing \<noteq> [] then Inl (err path (''missing required field: '' @ hd missing))
            else Inr obj)
      | _ \<Rightarrow> Inl (err path ''expected an object''))"

definition wire_array :: "'e raiser \<Rightarrow> nat \<Rightarrow> nat \<Rightarrow> string \<Rightarrow> json \<Rightarrow> 'e + json list" where
  "wire_array err minimum maximum path v =
     (case v of JArr vs \<Rightarrow>
        (if minimum \<le> length vs \<and> length vs \<le> maximum then Inr vs
         else Inl (err path (''expected from '' @ dec_nat minimum @ '' to '' @ dec_nat maximum @ '' item(s)'')))
      | _ \<Rightarrow> Inl (err path ''expected an array''))"

definition wire_string :: "'e raiser \<Rightarrow> nat \<Rightarrow> (string \<Rightarrow> bool) option \<Rightarrow> string \<Rightarrow> json \<Rightarrow> 'e + string" where
  "wire_string err maximum matches path v =
     (case v of JStr s \<Rightarrow>
        (if s = [] then Inl (err path ''expected a non-empty string'')
         else if maximum < length s then
           Inl (err path (''must not exceed '' @ dec_nat maximum @ '' characters''))
         else if \<not> utf8_encodable s then Inl (err path ''must contain valid Unicode scalar values'')
         else case matches of None \<Rightarrow> Inr s
           | Some f \<Rightarrow> if f s then Inr s else Inl (err path ''value does not match the required format''))
      | _ \<Rightarrow> Inl (err path ''expected a non-empty string''))"

definition wire_integer :: "'e raiser \<Rightarrow> int \<Rightarrow> int option \<Rightarrow> string \<Rightarrow> json \<Rightarrow> 'e + int" where
  "wire_integer err minimum maximum path v =
     (case v of JInt i \<Rightarrow>
        (if i < minimum \<or> (case maximum of None \<Rightarrow> False | Some m \<Rightarrow> m < i)
         then Inl (err path (''expected an integer of at least '' @ dec_int minimum
           @ (case maximum of None \<Rightarrow> [] | Some m \<Rightarrow> '' and at most '' @ dec_int m)))
         else Inr i)
      | _ \<Rightarrow> Inl (err path ''expected an integer''))"

definition wire_enum :: "'e raiser \<Rightarrow> ('a \<Rightarrow> string) \<Rightarrow> 'a list \<Rightarrow> string \<Rightarrow> json \<Rightarrow> 'e + 'a" where
  "wire_enum err val members path v =
     (let bad = Inl (err path (''expected one of: '' @ join '', '' (map val members)))
      in case v of JStr s \<Rightarrow> (case enum_lookup val members s of Some m \<Rightarrow> Inr m | None \<Rightarrow> bad)
         | _ \<Rightarrow> bad)"

definition wire_timestamp_shape :: "string \<Rightarrow> bool" where
  \<comment> \<open>month 01 to 12, day 00 to 31, hour 00 to 23, minute and second 00 to 59\<close>
  "wire_timestamp_shape s \<longleftrightarrow> utc_timestamp_shape s \<and>
     (if s ! 5 = CHR ''0'' then s ! 6 \<noteq> CHR ''0'' else s ! 5 = CHR ''1'' \<and> s ! 6 \<in> set ''012'') \<and>
     (s ! 8 \<in> set ''012'' \<or> (s ! 8 = CHR ''3'' \<and> s ! 9 \<in> set ''01'')) \<and>
     (s ! 11 \<in> set ''01'' \<or> (s ! 11 = CHR ''2'' \<and> s ! 12 \<in> set ''0123'')) \<and>
     s ! 14 \<in> set ''012345'' \<and> s ! 17 \<in> set ''012345''"

definition wire_timestamp :: "'e raiser \<Rightarrow> string \<Rightarrow> json \<Rightarrow> 'e + string" where
  "wire_timestamp err path v =
     attempt (wire_string err 20 (Some wire_timestamp_shape) path v) (\<lambda>result.
     case fromisoformat (zulu_to_offset result) of
       None \<Rightarrow> Inl (err path ''expected a real UTC timestamp in YYYY-MM-DDTHH:MM:SSZ form'')
     | Some parsed \<Rightarrow>
         if dt_offset parsed \<noteq> Some 0 then Inl (err path ''expected a UTC timestamp'') else Inr result)"

definition wire_base64url :: "'e raiser \<Rightarrow> nat \<Rightarrow> string \<Rightarrow> json \<Rightarrow> 'e + string" where
  "wire_base64url err expected_bytes path v =
     attempt (wire_string err 512 None path v) (\<lambda>encoded.
     case b64_decode True (encoded @ b64_padding encoded) of
       None \<Rightarrow> Inl (err path ''expected canonical unpadded base64url'')
     | Some decoded \<Rightarrow>
         if length decoded \<noteq> expected_bytes \<or> base64url_encode decoded \<noteq> encoded
         then Inl (err path (''expected canonical unpadded base64url for '' @ dec_nat expected_bytes @ '' bytes''))
         else Inr encoded)"

subsection \<open>Formats\<close>

definition wire_id_ok :: "string \<Rightarrow> bool" where
  "wire_id_ok = head_tail_match is_alnum (\<lambda>c. is_alnum c \<or> c \<in> set ''._:+/-'') 2 127"

definition media_name_ok :: "string \<Rightarrow> bool" where
  "media_name_ok = head_tail_match (\<lambda>c. is_lower c \<or> is_digit c)
     (\<lambda>c. is_lower c \<or> is_digit c \<or> c \<in> set ''!#$&^_.+-'') 0 126"

definition media_type_ok :: "string \<Rightarrow> bool" where
  "media_type_ok s \<longleftrightarrow> (case partition_at CHR ''/'' s of
     (a, Some b) \<Rightarrow> media_name_ok a \<and> media_name_ok b | (a, None) \<Rightarrow> False)"

subsection \<open>When a value is accepted\<close>

definition wire_text_ok :: "nat \<Rightarrow> string \<Rightarrow> bool" where
  "wire_text_ok maximum s \<longleftrightarrow> s \<noteq> [] \<and> length s \<le> maximum"

definition wire_timestamp_ok :: "string \<Rightarrow> bool" where
  "wire_timestamp_ok s \<longleftrightarrow> wire_text_ok 20 s \<and> wire_timestamp_shape s
     \<and> (case fromisoformat (zulu_to_offset s) of None \<Rightarrow> False | Some t \<Rightarrow> dt_offset t = Some 0)"

definition base64url_ok :: "nat \<Rightarrow> string \<Rightarrow> bool" where
  "base64url_ok n s \<longleftrightarrow> (case b64_decode True (s @ b64_padding s) of None \<Rightarrow> False
     | Some bytes \<Rightarrow> length bytes = n \<and> base64url_encode bytes = s)"

lemma wire_object_Inr [strict_iff]:
  "wire_object err path required [] v = Inr obj \<longleftrightarrow> v = JObj obj \<and> exact_keys required obj"
  by (auto simp: wire_object_def exact_keys_def Let_def has_key_def filter_empty_conv
      split: json.split if_splits)

lemma wire_object_optional_Inr:
  "wire_object err path required optional v = Inr obj \<longleftrightarrow> v = JObj obj \<and> keys_between required optional obj"
  by (auto simp: wire_object_def keys_between_def Let_def has_key_def filter_empty_conv
      split: json.split if_splits)

lemma wire_array_Inr [strict_iff]:
  "wire_array err lo hi path v = Inr vs \<longleftrightarrow> v = JArr vs \<and> lo \<le> length vs \<and> length vs \<le> hi"
  by (auto simp: wire_array_def split: json.split)

lemma wire_string_None [strict_iff]:
  "wire_string err n None path v = Inr s \<longleftrightarrow> v = JStr s \<and> wire_text_ok n s"
  by (auto simp: wire_string_def wire_text_ok_def split: json.split if_splits)

lemma wire_string_Some [strict_iff]:
  "wire_string err n (Some f) path v = Inr s \<longleftrightarrow> v = JStr s \<and> wire_text_ok n s \<and> f s"
  by (auto simp: wire_string_def wire_text_ok_def split: json.split if_splits)

lemma wire_integer_Inr [strict_iff]:
  "wire_integer err m None path v = Inr i \<longleftrightarrow> v = JInt i \<and> m \<le> i"
  "wire_integer err m (Some h) path v = Inr i \<longleftrightarrow> v = JInt i \<and> m \<le> i \<and> i \<le> h"
  by (auto simp: wire_integer_def split: json.split if_splits)

lemma wire_timestamp_Inr [strict_iff]:
  "wire_timestamp err path v = Inr s \<longleftrightarrow> v = JStr s \<and> wire_timestamp_ok s"
  by (auto simp: wire_timestamp_def wire_timestamp_ok_def attempt_Inr wire_string_Some split: option.split if_splits)

lemma base64url_ok_encode: "base64url_ok n s \<longleftrightarrow> (\<exists>bytes. length bytes = n \<and> s = base64url_encode bytes)"
  using base64url_decodes by (auto simp: base64url_ok_def split: option.splits)

lemma wire_base64url_Inr [strict_iff]:
  "wire_base64url err n path v = Inr s \<longleftrightarrow> v = JStr s \<and> wire_text_ok 512 s \<and> base64url_ok n s"
  by (auto simp: wire_base64url_def base64url_ok_def attempt_Inr wire_string_None split: option.split if_splits)

context str_enum
begin

lemma wire_enum_Inr: "wire_enum err val members path v = Inr m \<longleftrightarrow> v = JStr (val m)"
  by (cases v) (auto simp: wire_enum_def lookup_Some lookup_None inj_val split: option.split)

end

lemma wire_timestamp_whole:
  assumes "wire_timestamp_ok s"
  shows "utc_timestamp_ok s" "timestamp_value s mod 1000000 = 0"
proof -
  show u: "utc_timestamp_ok s"
    using assms by (simp add: wire_timestamp_ok_def wire_timestamp_shape_def utc_timestamp_ok_def)
  show "timestamp_value s mod 1000000 = 0" by (rule utc_timestamp_value_whole [OF u])
qed

context exact_codec
begin

lemma each_exact: "each parse i (map render xs) = Inr ys \<longleftrightarrow> ys = xs \<and> list_all ok xs"
proof (induction xs arbitrary: i ys)
  case (Cons x xs)
  then show ?case by (auto simp: attempt_Inr parse_render_Inr)
qed auto

end

end
