(* ===== verification/Attestations.thy ===== *)
theory Attestations
  imports Wire_Values Canonical_Json
begin

text \<open>
  \<open>attestations.py\<close>: detached producer attestations over exact artifact bytes, the trust store that
  binds keys to producers, the revocation list, signing and verification. Ed25519 (the package
  cryptography) is the parameter \<open>ed25519\<close>; SHA-256 comes from \<open>library\<close>. The bytes of the signature
  are canonical JSON, written out in Canonical_Json.
\<close>

subsection \<open>Documents\<close>

definition ARTIFACT_ATTESTATION_SCHEMA_VERSION :: string where "ARTIFACT_ATTESTATION_SCHEMA_VERSION = ''1.0''"
definition ATTESTATION_TRUST_STORE_SCHEMA_VERSION :: string where "ATTESTATION_TRUST_STORE_SCHEMA_VERSION = ''1.0''"
definition ATTESTATION_REVOCATION_LIST_SCHEMA_VERSION :: string where
  "ATTESTATION_REVOCATION_LIST_SCHEMA_VERSION = ''1.0''"
definition ATTESTATION_VERIFICATION_SCHEMA_VERSION :: string where "ATTESTATION_VERIFICATION_SCHEMA_VERSION = ''1.0''"
definition MAX_REVOCATION_AGE_SECONDS :: int where "MAX_REVOCATION_AGE_SECONDS = 31 * 24 * 60 * 60"

datatype attestation_error =
    Attestation_invalid string string string
  | Attestation_key_error string
  | Attestation_failed string string
  | Attestation_value_error string
  | Attestation_overflow
  \<comment> \<open>AttestationValidationError, AttestationKeyError, AttestationVerificationError, ValueError, OverflowError\<close>

record artifact_subject =
  as_artifact_id :: string
  as_media_type :: string
  as_sha256 :: string
  as_byte_count :: int

record producer_identity =
  pi_producer_id :: string
  pi_key_id :: string

record retention_requirement =
  rq_class_id :: string
  rq_retain_until :: string

record artifact_signature =
  sg_algorithm :: signature_algorithm
  sg_canonicalization :: signature_canonicalization
  sg_value :: string

record artifact_attestation =
  at_schema_version :: string
  at_artifact :: artifact_subject
  at_producer :: producer_identity
  at_issued_at :: string
  at_expires_at :: string
  at_retention :: retention_requirement
  at_revocation_list_id :: string
  at_signature :: artifact_signature

record trusted_producer_key =
  tk_key_id :: string
  tk_producer_id :: string
  tk_algorithm :: signature_algorithm
  tk_public_key_base64url :: string
  tk_valid_from :: string
  tk_valid_until :: string

record attestation_trust_store =
  ts_schema_version :: string
  ts_store_id :: string
  ts_revocation_list_id :: string
  ts_keys :: "trusted_producer_key list"

record key_revocation =
  kr_key_id :: string
  kr_revoked_at :: string
  kr_mode :: revocation_mode
  kr_reason :: string

record attestation_revocation_list =
  rl_schema_version :: string
  rl_list_id :: string
  rl_updated_at :: string
  rl_revoked_keys :: "key_revocation list"

record attestation_verification =
  vr_schema_version :: string
  vr_verifier_version :: string
  vr_status :: string
  vr_artifact :: artifact_subject
  vr_producer :: producer_identity
  vr_issued_at :: string
  vr_expires_at :: string
  vr_retention :: retention_requirement
  vr_signature_algorithm :: signature_algorithm
  vr_canonicalization :: signature_canonicalization
  vr_trust_store_id :: string
  vr_revocation_list_id :: string
  vr_revocation_list_updated_at :: string
  vr_checked_at :: string

subsection \<open>Parsing\<close>

definition attestation_id :: "string \<Rightarrow> string \<Rightarrow> json \<Rightarrow> attestation_error + string" where
  \<comment> \<open>\<open>_string(..., pattern=_SAFE_ID_PATTERN, maximum=128)\<close>\<close>
  "attestation_id name = wire_string (Attestation_invalid name) 128 (Some wire_id_ok)"

definition parse_attested_artifact :: "string \<Rightarrow> string \<Rightarrow> json \<Rightarrow> attestation_error + artifact_subject" where
  "parse_attested_artifact path name v =
     attempt (wire_object (Attestation_invalid name) path
                [''artifact_id'', ''media_type'', ''sha256'', ''byte_count''] [] v) (\<lambda>obj.
     attempt (attestation_id name (sub path ''artifact_id'') (jget obj ''artifact_id'')) (\<lambda>artifact_id.
     attempt (wire_string (Attestation_invalid name) 255 (Some media_type_ok)
                (sub path ''media_type'') (jget obj ''media_type'')) (\<lambda>media_type.
     attempt (wire_string (Attestation_invalid name) 64 (Some sha256_ok)
                (sub path ''sha256'') (jget obj ''sha256'')) (\<lambda>sha256.
     attempt (wire_integer (Attestation_invalid name) 1 None
                (sub path ''byte_count'') (jget obj ''byte_count'')) (\<lambda>byte_count.
     Inr \<lparr>as_artifact_id = artifact_id, as_media_type = media_type, as_sha256 = sha256,
          as_byte_count = byte_count\<rparr>)))))"

definition parse_producer :: "string \<Rightarrow> string \<Rightarrow> json \<Rightarrow> attestation_error + producer_identity" where
  "parse_producer path name v =
     attempt (wire_object (Attestation_invalid name) path [''producer_id'', ''key_id''] [] v) (\<lambda>obj.
     attempt (attestation_id name (sub path ''producer_id'') (jget obj ''producer_id'')) (\<lambda>producer_id.
     attempt (attestation_id name (sub path ''key_id'') (jget obj ''key_id'')) (\<lambda>key_id.
     Inr \<lparr>pi_producer_id = producer_id, pi_key_id = key_id\<rparr>)))"

definition parse_retention :: "string \<Rightarrow> string \<Rightarrow> json \<Rightarrow> attestation_error + retention_requirement" where
  "parse_retention path name v =
     attempt (wire_object (Attestation_invalid name) path [''class_id'', ''retain_until''] [] v) (\<lambda>obj.
     attempt (attestation_id name (sub path ''class_id'') (jget obj ''class_id'')) (\<lambda>class_id.
     attempt (wire_timestamp (Attestation_invalid name) (sub path ''retain_until'') (jget obj ''retain_until''))
       (\<lambda>retain_until.
     Inr \<lparr>rq_class_id = class_id, rq_retain_until = retain_until\<rparr>)))"

definition attestation_keys :: "string list" where
  "attestation_keys =
     [''schema_version'', ''artifact'', ''producer'', ''issued_at'', ''expires_at'', ''retention'',
      ''revocation_list_id'', ''signature'']"

definition parse_signature :: "string \<Rightarrow> dict \<Rightarrow> attestation_error + artifact_signature" where
  "parse_signature name obj =
     attempt (wire_enum (Attestation_invalid name) signature_algorithm_value signature_algorithm_members
                ''$.signature.algorithm'' (jget obj ''algorithm'')) (\<lambda>algorithm.
     attempt (wire_enum (Attestation_invalid name) signature_canonicalization_value signature_canonicalization_members
                ''$.signature.canonicalization'' (jget obj ''canonicalization'')) (\<lambda>canonicalization.
     attempt (wire_base64url (Attestation_invalid name) 64 ''$.signature.value'' (jget obj ''value'')) (\<lambda>val.
     Inr \<lparr>sg_algorithm = algorithm, sg_canonicalization = canonicalization, sg_value = val\<rparr>)))"

definition parse_artifact_attestation :: "json \<Rightarrow> attestation_error + artifact_attestation" where
  "parse_artifact_attestation document =
     (let name = ''artifact attestation''; err = Attestation_invalid name in
     attempt (wire_object err ''$'' attestation_keys [] document) (\<lambda>rt.
     attempt (ensure (jget rt ''schema_version'' = JStr ARTIFACT_ATTESTATION_SCHEMA_VERSION)
                (err ''$.schema_version'' (''expected '' @ ARTIFACT_ATTESTATION_SCHEMA_VERSION))) (\<lambda>_.
     attempt (wire_object err ''$.signature'' [''algorithm'', ''canonicalization'', ''value''] []
                (jget rt ''signature'')) (\<lambda>signature_obj.
     attempt (wire_timestamp err ''$.issued_at'' (jget rt ''issued_at'')) (\<lambda>issued_at.
     attempt (wire_timestamp err ''$.expires_at'' (jget rt ''expires_at'')) (\<lambda>expires_at.
     attempt (parse_retention ''$.retention'' name (jget rt ''retention'')) (\<lambda>retention.
     attempt (ensure (timestamp_value issued_at < timestamp_value expires_at)
                (err ''$.expires_at'' ''must be later than issued_at'')) (\<lambda>_.
     attempt (ensure (timestamp_value expires_at \<le> timestamp_value (rq_retain_until retention))
                (err ''$.retention.retain_until'' ''must be at or after expires_at'')) (\<lambda>_.
     attempt (parse_attested_artifact ''$.artifact'' name (jget rt ''artifact'')) (\<lambda>artifact.
     attempt (parse_producer ''$.producer'' name (jget rt ''producer'')) (\<lambda>producer.
     attempt (attestation_id name ''$.revocation_list_id'' (jget rt ''revocation_list_id'')) (\<lambda>list_id.
     attempt (parse_signature name signature_obj) (\<lambda>signature.
     Inr \<lparr>at_schema_version = ARTIFACT_ATTESTATION_SCHEMA_VERSION, at_artifact = artifact,
          at_producer = producer, at_issued_at = issued_at, at_expires_at = expires_at,
          at_retention = retention, at_revocation_list_id = list_id, at_signature = signature\<rparr>)))))))))))))"

abbreviation trust_store_name :: string where "trust_store_name \<equiv> ''attestation trust store''"

definition parse_trusted_key :: "nat \<Rightarrow> json \<Rightarrow> attestation_error + trusted_producer_key" where
  "parse_trusted_key index item =
     (let name = trust_store_name; err = Attestation_invalid name; path = at_index ''$.keys'' index in
     attempt (wire_object err path
                [''key_id'', ''producer_id'', ''algorithm'', ''public_key_base64url'', ''valid_from'', ''valid_until'']
                [] item) (\<lambda>obj.
     attempt (wire_timestamp err (sub path ''valid_from'') (jget obj ''valid_from'')) (\<lambda>valid_from.
     attempt (wire_timestamp err (sub path ''valid_until'') (jget obj ''valid_until'')) (\<lambda>valid_until.
     attempt (ensure (timestamp_value valid_from < timestamp_value valid_until)
                (err (sub path ''valid_until'') ''must be later than valid_from'')) (\<lambda>_.
     attempt (attestation_id name (sub path ''key_id'') (jget obj ''key_id'')) (\<lambda>key_id.
     attempt (attestation_id name (sub path ''producer_id'') (jget obj ''producer_id'')) (\<lambda>producer_id.
     attempt (wire_enum err signature_algorithm_value signature_algorithm_members
                (sub path ''algorithm'') (jget obj ''algorithm'')) (\<lambda>algorithm.
     attempt (wire_base64url err 32 (sub path ''public_key_base64url'') (jget obj ''public_key_base64url''))
       (\<lambda>public_key.
     Inr \<lparr>tk_key_id = key_id, tk_producer_id = producer_id, tk_algorithm = algorithm,
          tk_public_key_base64url = public_key, tk_valid_from = valid_from, tk_valid_until = valid_until\<rparr>)))))))))"

definition parse_attestation_trust_store :: "json \<Rightarrow> attestation_error + attestation_trust_store" where
  "parse_attestation_trust_store document =
     (let name = trust_store_name; err = Attestation_invalid name in
     attempt (wire_object err ''$'' [''schema_version'', ''store_id'', ''revocation_list_id'', ''keys''] [] document) (\<lambda>rt.
     attempt (ensure (jget rt ''schema_version'' = JStr ATTESTATION_TRUST_STORE_SCHEMA_VERSION)
                (err ''$.schema_version'' (''expected '' @ ATTESTATION_TRUST_STORE_SCHEMA_VERSION))) (\<lambda>_.
     attempt (wire_array err 1 1000 ''$.keys'' (jget rt ''keys'')) (\<lambda>items.
     attempt (each parse_trusted_key 0 items) (\<lambda>keys.
     attempt (ensure (distinct (map tk_key_id keys)) (err ''$.keys'' ''key IDs must be unique'')) (\<lambda>_.
     attempt (attestation_id name ''$.store_id'' (jget rt ''store_id'')) (\<lambda>store_id.
     attempt (attestation_id name ''$.revocation_list_id'' (jget rt ''revocation_list_id'')) (\<lambda>list_id.
     Inr \<lparr>ts_schema_version = ATTESTATION_TRUST_STORE_SCHEMA_VERSION, ts_store_id = store_id,
          ts_revocation_list_id = list_id, ts_keys = keys\<rparr>))))))))"

abbreviation revocation_list_name :: string where "revocation_list_name \<equiv> ''attestation revocation list''"

definition parse_key_revocation :: "string \<Rightarrow> nat \<Rightarrow> json \<Rightarrow> attestation_error + key_revocation" where
  "parse_key_revocation updated_at index item =
     (let name = revocation_list_name; err = Attestation_invalid name; path = at_index ''$.revoked_keys'' index in
     attempt (wire_object err path [''key_id'', ''revoked_at'', ''mode'', ''reason''] [] item) (\<lambda>obj.
     attempt (wire_timestamp err (sub path ''revoked_at'') (jget obj ''revoked_at'')) (\<lambda>revoked_at.
     attempt (ensure (timestamp_value revoked_at \<le> timestamp_value updated_at)
                (err (sub path ''revoked_at'') ''must not be later than updated_at'')) (\<lambda>_.
     attempt (attestation_id name (sub path ''key_id'') (jget obj ''key_id'')) (\<lambda>key_id.
     attempt (wire_enum err revocation_mode_value revocation_mode_members
                (sub path ''mode'') (jget obj ''mode'')) (\<lambda>mode.
     attempt (wire_string err 256 None (sub path ''reason'') (jget obj ''reason'')) (\<lambda>reason.
     Inr \<lparr>kr_key_id = key_id, kr_revoked_at = revoked_at, kr_mode = mode, kr_reason = reason\<rparr>)))))))"

definition parse_attestation_revocation_list :: "json \<Rightarrow> attestation_error + attestation_revocation_list" where
  "parse_attestation_revocation_list document =
     (let name = revocation_list_name; err = Attestation_invalid name in
     attempt (wire_object err ''$'' [''schema_version'', ''list_id'', ''updated_at'', ''revoked_keys''] [] document) (\<lambda>rt.
     attempt (ensure (jget rt ''schema_version'' = JStr ATTESTATION_REVOCATION_LIST_SCHEMA_VERSION)
                (err ''$.schema_version'' (''expected '' @ ATTESTATION_REVOCATION_LIST_SCHEMA_VERSION))) (\<lambda>_.
     attempt (wire_timestamp err ''$.updated_at'' (jget rt ''updated_at'')) (\<lambda>updated_at.
     attempt (wire_array err 0 10000 ''$.revoked_keys'' (jget rt ''revoked_keys'')) (\<lambda>items.
     attempt (each (parse_key_revocation updated_at) 0 items) (\<lambda>revoked.
     attempt (ensure (distinct (map kr_key_id revoked)) (err ''$.revoked_keys'' ''key IDs must be unique'')) (\<lambda>_.
     attempt (attestation_id name ''$.list_id'' (jget rt ''list_id'')) (\<lambda>list_id.
     Inr \<lparr>rl_schema_version = ATTESTATION_REVOCATION_LIST_SCHEMA_VERSION, rl_list_id = list_id,
          rl_updated_at = updated_at, rl_revoked_keys = revoked\<rparr>))))))))"

subsection \<open>Rendering\<close>

definition attested_artifact_to_json :: "artifact_subject \<Rightarrow> json" where
  "attested_artifact_to_json a = JObj [(''artifact_id'', JStr (as_artifact_id a)),
     (''media_type'', JStr (as_media_type a)), (''sha256'', JStr (as_sha256 a)),
     (''byte_count'', JInt (as_byte_count a))]"

definition producer_to_json :: "producer_identity \<Rightarrow> json" where
  "producer_to_json p = JObj [(''producer_id'', JStr (pi_producer_id p)), (''key_id'', JStr (pi_key_id p))]"

definition retention_to_json :: "retention_requirement \<Rightarrow> json" where
  "retention_to_json r = JObj [(''class_id'', JStr (rq_class_id r)), (''retain_until'', JStr (rq_retain_until r))]"

definition signature_to_json :: "artifact_signature \<Rightarrow> json" where
  "signature_to_json s = JObj [(''algorithm'', JStr (signature_algorithm_value (sg_algorithm s))),
     (''canonicalization'', JStr (signature_canonicalization_value (sg_canonicalization s))),
     (''value'', JStr (sg_value s))]"

definition attestation_fields :: "artifact_attestation \<Rightarrow> json \<Rightarrow> json" where
  "attestation_fields a signature = JObj [(''schema_version'', JStr (at_schema_version a)),
     (''artifact'', attested_artifact_to_json (at_artifact a)), (''producer'', producer_to_json (at_producer a)),
     (''issued_at'', JStr (at_issued_at a)), (''expires_at'', JStr (at_expires_at a)),
     (''retention'', retention_to_json (at_retention a)),
     (''revocation_list_id'', JStr (at_revocation_list_id a)), (''signature'', signature)]"

definition attestation_to_json :: "artifact_attestation \<Rightarrow> json" where
  "attestation_to_json a = attestation_fields a (signature_to_json (at_signature a))"

definition trusted_key_to_json :: "trusted_producer_key \<Rightarrow> json" where
  "trusted_key_to_json k = JObj [(''key_id'', JStr (tk_key_id k)), (''producer_id'', JStr (tk_producer_id k)),
     (''algorithm'', JStr (signature_algorithm_value (tk_algorithm k))),
     (''public_key_base64url'', JStr (tk_public_key_base64url k)),
     (''valid_from'', JStr (tk_valid_from k)), (''valid_until'', JStr (tk_valid_until k))]"

definition trust_store_to_json :: "attestation_trust_store \<Rightarrow> json" where
  "trust_store_to_json t = JObj [(''schema_version'', JStr (ts_schema_version t)),
     (''store_id'', JStr (ts_store_id t)), (''revocation_list_id'', JStr (ts_revocation_list_id t)),
     (''keys'', JArr (map trusted_key_to_json (ts_keys t)))]"

definition key_revocation_to_json :: "key_revocation \<Rightarrow> json" where
  "key_revocation_to_json k = JObj [(''key_id'', JStr (kr_key_id k)), (''revoked_at'', JStr (kr_revoked_at k)),
     (''mode'', JStr (revocation_mode_value (kr_mode k))), (''reason'', JStr (kr_reason k))]"

definition revocation_list_to_json :: "attestation_revocation_list \<Rightarrow> json" where
  "revocation_list_to_json r = JObj [(''schema_version'', JStr (rl_schema_version r)),
     (''list_id'', JStr (rl_list_id r)), (''updated_at'', JStr (rl_updated_at r)),
     (''revoked_keys'', JArr (map key_revocation_to_json (rl_revoked_keys r)))]"

definition attestation_payload_bytes :: "artifact_attestation \<Rightarrow> string" where
  \<comment> \<open>the document holds no float, so the text of floats does not matter\<close>
  "attestation_payload_bytes a = utf8_bytes (canonical_json (\<lambda>_. [])
     (attestation_fields a (JObj
        [(''algorithm'', JStr (signature_algorithm_value (sg_algorithm (at_signature a)))),
         (''canonicalization'', JStr (signature_canonicalization_value (sg_canonicalization (at_signature a))))])))"

definition attestation_verification_to_json :: "attestation_verification \<Rightarrow> json" where
  "attestation_verification_to_json v = JObj [(''schema_version'', JStr (vr_schema_version v)),
     (''verifier_version'', JStr (vr_verifier_version v)), (''status'', JStr (vr_status v)),
     (''artifact'', attested_artifact_to_json (vr_artifact v)), (''producer'', producer_to_json (vr_producer v)),
     (''issued_at'', JStr (vr_issued_at v)), (''expires_at'', JStr (vr_expires_at v)),
     (''retention'', retention_to_json (vr_retention v)),
     (''signature_algorithm'', JStr (signature_algorithm_value (vr_signature_algorithm v))),
     (''canonicalization'', JStr (signature_canonicalization_value (vr_canonicalization v))),
     (''trust_store_id'', JStr (vr_trust_store_id v)), (''revocation_list_id'', JStr (vr_revocation_list_id v)),
     (''revocation_list_updated_at'', JStr (vr_revocation_list_updated_at v)),
     (''checked_at'', JStr (vr_checked_at v))]"

definition render_artifact_attestation :: "(json \<Rightarrow> string) \<Rightarrow> artifact_attestation \<Rightarrow> string" where
  \<comment> \<open>the first argument is \<open>json.dumps\<close> with an indentation of two\<close>
  "render_artifact_attestation dumps a = dumps (attestation_to_json a) @ [CHR 0x0A]"

definition render_attestation_verification :: "(json \<Rightarrow> string) \<Rightarrow> attestation_verification \<Rightarrow> string" where
  "render_attestation_verification dumps v = dumps (attestation_verification_to_json v) @ [CHR 0x0A]"

subsection \<open>Keys\<close>

datatype loaded_key = Load_failed | Foreign_key | Ed25519_key string
  \<comment> \<open>TypeError, ValueError or UnsupportedAlgorithm; a key of another type; the raw key\<close>

record ed25519 =
  ed_installed :: bool
  ed_load_private :: "string \<Rightarrow> string option \<Rightarrow> loaded_key"
  ed_load_public :: "string \<Rightarrow> loaded_key"
  ed_public_key :: "string \<Rightarrow> string"
  ed_sign :: "string \<Rightarrow> string \<Rightarrow> string"
  ed_from_public_bytes :: "string \<Rightarrow> bool"
  ed_verify :: "string \<Rightarrow> string \<Rightarrow> string \<Rightarrow> bool"

definition cryptography_types :: "ed25519 \<Rightarrow> attestation_error + unit" where
  "cryptography_types ed = ensure (ed_installed ed) (Attestation_key_error
     (''Ed25519 support requires: pip install '' @ [CHR 0x22] @ ''causure[attestation]'' @ [CHR 0x22]))"

definition load_private_key :: "ed25519 \<Rightarrow> string \<Rightarrow> string option \<Rightarrow> attestation_error + string" where
  "load_private_key ed private_key_pem password =
     attempt (cryptography_types ed) (\<lambda>_.
     case ed_load_private ed private_key_pem password of
       Load_failed \<Rightarrow> Inl (Attestation_key_error
         ''Ed25519 private key could not be loaded; check the key and password'')
     | Foreign_key \<Rightarrow> Inl (Attestation_key_error ''private key must be an Ed25519 PEM key'')
     | Ed25519_key k \<Rightarrow> Inr k)"

definition public_key_base64url_from_pem :: "ed25519 \<Rightarrow> string \<Rightarrow> string option \<Rightarrow> attestation_error + string" where
  \<comment> \<open>the AttestationKeyError raised for a public key of another type is a ValueError, so the
    handler of the same \<open>try\<close> catches it and goes on to read the text as a private key\<close>
  "public_key_base64url_from_pem ed key_pem password =
     attempt (cryptography_types ed) (\<lambda>_.
     case ed_load_public ed key_pem of
       Ed25519_key raw \<Rightarrow> Inr (base64url_encode raw)
     | _ \<Rightarrow> attempt (load_private_key ed key_pem password) (\<lambda>k. Inr (base64url_encode (ed_public_key ed k))))"

subsection \<open>Signing\<close>

record attestation_request =
  aq_artifact_id :: string
  aq_media_type :: string
  aq_producer_id :: string
  aq_key_id :: string
  aq_issued_at :: string
  aq_expires_at :: string
  aq_retention_class :: string
  aq_retain_until :: string
  aq_revocation_list_id :: string

definition unsigned_attestation :: "library \<Rightarrow> string \<Rightarrow> attestation_request \<Rightarrow> artifact_attestation" where
  \<comment> \<open>the document that is signed, with 64 zero bytes in place of the signature\<close>
  "unsigned_attestation lib raw_bytes q =
     \<lparr>at_schema_version = ARTIFACT_ATTESTATION_SCHEMA_VERSION,
      at_artifact = \<lparr>as_artifact_id = aq_artifact_id q, as_media_type = aq_media_type q,
        as_sha256 = lib_sha256 lib raw_bytes, as_byte_count = int (length raw_bytes)\<rparr>,
      at_producer = \<lparr>pi_producer_id = aq_producer_id q, pi_key_id = aq_key_id q\<rparr>,
      at_issued_at = aq_issued_at q, at_expires_at = aq_expires_at q,
      at_retention = \<lparr>rq_class_id = aq_retention_class q, rq_retain_until = aq_retain_until q\<rparr>,
      at_revocation_list_id = aq_revocation_list_id q,
      at_signature = \<lparr>sg_algorithm = SignatureAlgorithm_ED25519,
        sg_canonicalization = SignatureCanonicalization_CAUSURE_JSON_V1,
        sg_value = base64url_encode (replicate 64 (CHR 0x00))\<rparr>\<rparr>"

definition create_artifact_attestation ::
  "library \<Rightarrow> ed25519 \<Rightarrow> string \<Rightarrow> attestation_request \<Rightarrow> string \<Rightarrow> string option
    \<Rightarrow> attestation_error + artifact_attestation" where
  "create_artifact_attestation lib ed raw_bytes q private_key_pem password =
     attempt (ensure (raw_bytes \<noteq> []) (Attestation_value_error
                ''raw_bytes must contain the exact non-empty artifact bytes'')) (\<lambda>_.
     attempt (ensure (private_key_pem \<noteq> []) (Attestation_key_error ''private key must contain PEM bytes'')) (\<lambda>_.
     attempt (parse_artifact_attestation (attestation_to_json (unsigned_attestation lib raw_bytes q))) (\<lambda>attestation.
     attempt (load_private_key ed private_key_pem password) (\<lambda>key.
     Inr (attestation\<lparr>at_signature := (at_signature attestation)
       \<lparr>sg_value := base64url_encode (ed_sign ed key (attestation_payload_bytes attestation))\<rparr>\<rparr>)))))"

subsection \<open>Verification\<close>

definition bounded_seconds :: "string \<Rightarrow> int \<Rightarrow> json \<Rightarrow> attestation_error + int" where
  \<comment> \<open>a number of seconds from 0 to a bound; booleans are refused\<close>
  "bounded_seconds message bound v = (case v of
     JInt i \<Rightarrow> if 0 \<le> i \<and> i \<le> bound then Inr i else Inl (Attestation_value_error message)
   | _ \<Rightarrow> Inl (Attestation_value_error message))"

abbreviation failed :: "string \<Rightarrow> string \<Rightarrow> attestation_error" where
  "failed \<equiv> Attestation_failed"

definition select_trusted_key ::
  "artifact_attestation \<Rightarrow> attestation_trust_store \<Rightarrow> attestation_revocation_list
    \<Rightarrow> attestation_error + trusted_producer_key" where
  "select_trusted_key a store revocations =
     attempt (ensure (ts_revocation_list_id store = at_revocation_list_id a)
       (failed ''revocation_list_mismatch'' (''attestation does not name the trust store'' @ [CHR 0x27] @ ''s revocation list''))) (\<lambda>_.
     attempt (ensure (rl_list_id revocations = ts_revocation_list_id store)
       (failed ''revocation_list_mismatch'' ''supplied revocation list does not match the trust store'')) (\<lambda>_.
     case find (\<lambda>k. tk_key_id k = pi_key_id (at_producer a)) (ts_keys store) of
       None \<Rightarrow> Inl (failed ''untrusted_key'' ''producer key is not present in the trust store'')
     | Some k \<Rightarrow>
         attempt (ensure (tk_producer_id k = pi_producer_id (at_producer a))
           (failed ''producer_mismatch'' ''producer identity is not bound to the selected key'')) (\<lambda>_.
         attempt (ensure (tk_algorithm k = sg_algorithm (at_signature a))
           (failed ''algorithm_mismatch'' ''attestation and trusted key algorithms do not match'')) (\<lambda>_.
         Inr k))))"

definition lenient_bytes :: "string \<Rightarrow> string" where
  \<comment> \<open>\<open>urlsafe_b64decode\<close> of a text that was checked before\<close>
  "lenient_bytes s = (case b64_decode False (s @ b64_padding s) of Some bytes \<Rightarrow> bytes | None \<Rightarrow> [])"

definition check_signature :: "ed25519 \<Rightarrow> artifact_attestation \<Rightarrow> trusted_producer_key \<Rightarrow> attestation_error + unit" where
  "check_signature ed a k =
     attempt (cryptography_types ed) (\<lambda>_.
     let public_bytes = lenient_bytes (tk_public_key_base64url k);
         signature_bytes = lenient_bytes (sg_value (at_signature a)) in
     if \<not> ed_from_public_bytes ed public_bytes then
       Inl (failed ''invalid_public_key'' ''trusted Ed25519 public key could not be loaded'')
     else if \<not> ed_verify ed public_bytes signature_bytes (attestation_payload_bytes a) then
       Inl (failed ''invalid_signature'' ''signature does not authenticate the attestation payload'')
     else Inr ())"

definition check_artifact_bytes :: "library \<Rightarrow> string \<Rightarrow> artifact_subject \<Rightarrow> attestation_error + unit" where
  "check_artifact_bytes lib raw_bytes artifact =
     attempt (ensure (int (length raw_bytes) = as_byte_count artifact)
       (failed ''artifact_size_mismatch'' ''artifact byte count does not match the signed subject'')) (\<lambda>_.
     ensure (lib_sha256 lib raw_bytes = as_sha256 artifact)
       (failed ''artifact_digest_mismatch'' ''artifact digest does not match the signed subject''))"

definition after :: "string \<Rightarrow> int \<Rightarrow> attestation_error + int" where
  \<comment> \<open>\<open>checked_time + timedelta(seconds=n)\<close>; a date after year 9999 is an OverflowError\<close>
  "after t seconds = (let v = timestamp_value t + seconds * 1000000 in
     if v < 3652060 * 86400 * 1000000 then Inr v else Inl Attestation_overflow)"

definition check_validity :: "artifact_attestation \<Rightarrow> trusted_producer_key \<Rightarrow> string \<Rightarrow> int \<Rightarrow> attestation_error + unit" where
  "check_validity a k checked skew =
     (let issued = timestamp_value (at_issued_at a); expires = timestamp_value (at_expires_at a);
          key_start = timestamp_value (tk_valid_from k); key_end = timestamp_value (tk_valid_until k) in
     attempt (ensure (key_start \<le> issued)
       (failed ''key_not_yet_valid'' ''attestation was issued before the trusted key validity window'')) (\<lambda>_.
     attempt (ensure (issued < key_end \<and> expires \<le> key_end)
       (failed ''key_validity_exceeded'' ''attestation validity is not contained by the key validity window'')) (\<lambda>_.
     attempt (after checked skew) (\<lambda>latest.
     attempt (ensure (issued \<le> latest)
       (failed ''issued_in_future'' ''attestation issue time exceeds the allowed clock skew'')) (\<lambda>_.
     ensure (timestamp_value checked < expires)
       (failed ''attestation_expired'' ''attestation validity window has ended''))))))"

definition check_revocations ::
  "artifact_attestation \<Rightarrow> trusted_producer_key \<Rightarrow> attestation_revocation_list \<Rightarrow> string \<Rightarrow> int \<Rightarrow> int
    \<Rightarrow> attestation_error + unit" where
  "check_revocations a k revocations checked maximum_age skew =
     (let updated = timestamp_value (rl_updated_at revocations) in
     attempt (after checked skew) (\<lambda>latest.
     attempt (ensure (updated \<le> latest)
       (failed ''revocation_list_from_future'' ''revocation list timestamp exceeds the allowed clock skew'')) (\<lambda>_.
     attempt (ensure (timestamp_value checked - updated \<le> (maximum_age + skew) * 1000000)
       (failed ''revocation_list_stale'' ''revocation list is older than the allowed freshness window'')) (\<lambda>_.
     case find (\<lambda>e. kr_key_id e = tk_key_id k) (rl_revoked_keys revocations) of
       None \<Rightarrow> Inr ()
     | Some e \<Rightarrow> ensure (\<not> (kr_mode e = RevocationMode_ALL_SIGNATURES
           \<or> timestamp_value (kr_revoked_at e) \<le> timestamp_value (at_issued_at a)))
         (failed ''key_revoked'' ''producer key is revoked for this attestation'')))))"

definition verify_artifact_attestation ::
  "library \<Rightarrow> ed25519 \<Rightarrow> string \<Rightarrow> artifact_attestation \<Rightarrow> attestation_trust_store \<Rightarrow> attestation_revocation_list
    \<Rightarrow> json \<Rightarrow> json \<Rightarrow> json \<Rightarrow> attestation_error + attestation_verification" where
  "verify_artifact_attestation lib ed raw_bytes att ts rl checked_at max_revocation_age_seconds clock_skew_seconds =
     attempt (parse_artifact_attestation (attestation_to_json att)) (\<lambda>attestation.
     attempt (parse_attestation_trust_store (trust_store_to_json ts)) (\<lambda>trust_store.
     attempt (parse_attestation_revocation_list (revocation_list_to_json rl)) (\<lambda>revocations.
     attempt (ensure (raw_bytes \<noteq> [])
       (failed ''artifact_invalid'' ''artifact must contain non-empty exact bytes'')) (\<lambda>_.
     attempt (bounded_seconds (''max_revocation_age_seconds must be an integer from 0 to ''
       @ dec_int MAX_REVOCATION_AGE_SECONDS) MAX_REVOCATION_AGE_SECONDS max_revocation_age_seconds) (\<lambda>maximum_age.
     attempt (bounded_seconds ''clock_skew_seconds must be an integer from 0 to 3600'' 3600 clock_skew_seconds) (\<lambda>skew.
     attempt (wire_timestamp (Attestation_invalid ''attestation verification request'') ''$.checked_at'' checked_at) (\<lambda>checked.
     attempt (select_trusted_key attestation trust_store revocations) (\<lambda>trusted_key.
     attempt (check_signature ed attestation trusted_key) (\<lambda>_.
     attempt (check_artifact_bytes lib raw_bytes (at_artifact attestation)) (\<lambda>_.
     attempt (check_validity attestation trusted_key checked skew) (\<lambda>_.
     attempt (check_revocations attestation trusted_key revocations checked maximum_age skew) (\<lambda>_.
     Inr \<lparr>vr_schema_version = ATTESTATION_VERIFICATION_SCHEMA_VERSION, vr_verifier_version = PACKAGE_VERSION,
          vr_status = ''verified'', vr_artifact = at_artifact attestation, vr_producer = at_producer attestation,
          vr_issued_at = at_issued_at attestation, vr_expires_at = at_expires_at attestation,
          vr_retention = at_retention attestation,
          vr_signature_algorithm = sg_algorithm (at_signature attestation),
          vr_canonicalization = sg_canonicalization (at_signature attestation),
          vr_trust_store_id = ts_store_id trust_store, vr_revocation_list_id = rl_list_id revocations,
          vr_revocation_list_updated_at = rl_updated_at revocations, vr_checked_at = checked\<rparr>))))))))))))"

subsection \<open>Accepted documents\<close>

lemmas wire_enums_Inr [strict_iff] =
  signature_algorithm.wire_enum_Inr signature_canonicalization.wire_enum_Inr revocation_mode.wire_enum_Inr

lemmas wire_values_inj [strict_iff] =
  signature_algorithm.inj_val signature_canonicalization.inj_val revocation_mode.inj_val

definition safe_text_ok :: "string \<Rightarrow> bool" where
  "safe_text_ok s \<longleftrightarrow> wire_text_ok 128 s \<and> wire_id_ok s"

lemma attestation_id_Inr [strict_iff]: "attestation_id name path v = Inr s \<longleftrightarrow> v = JStr s \<and> safe_text_ok s"
  by (simp add: attestation_id_def safe_text_ok_def wire_string_Some)

definition attested_artifact_ok :: "artifact_subject \<Rightarrow> bool" where
  "attested_artifact_ok a \<longleftrightarrow> safe_text_ok (as_artifact_id a)
     \<and> wire_text_ok 255 (as_media_type a) \<and> media_type_ok (as_media_type a)
     \<and> wire_text_ok 64 (as_sha256 a) \<and> sha256_ok (as_sha256 a) \<and> 1 \<le> as_byte_count a"

definition producer_ok :: "producer_identity \<Rightarrow> bool" where
  "producer_ok p \<longleftrightarrow> safe_text_ok (pi_producer_id p) \<and> safe_text_ok (pi_key_id p)"

definition retention_ok :: "retention_requirement \<Rightarrow> bool" where
  "retention_ok r \<longleftrightarrow> safe_text_ok (rq_class_id r) \<and> wire_timestamp_ok (rq_retain_until r)"

definition encoded_ok :: "nat \<Rightarrow> string \<Rightarrow> bool" where
  "encoded_ok n s \<longleftrightarrow> wire_text_ok 512 s \<and> base64url_ok n s"

definition attestation_ok :: "artifact_attestation \<Rightarrow> bool" where
  "attestation_ok a \<longleftrightarrow> at_schema_version a = ARTIFACT_ATTESTATION_SCHEMA_VERSION
     \<and> attested_artifact_ok (at_artifact a) \<and> producer_ok (at_producer a)
     \<and> wire_timestamp_ok (at_issued_at a) \<and> wire_timestamp_ok (at_expires_at a) \<and> retention_ok (at_retention a)
     \<and> timestamp_value (at_issued_at a) < timestamp_value (at_expires_at a)
     \<and> timestamp_value (at_expires_at a) \<le> timestamp_value (rq_retain_until (at_retention a))
     \<and> safe_text_ok (at_revocation_list_id a) \<and> encoded_ok 64 (sg_value (at_signature a))"

definition trusted_key_ok :: "trusted_producer_key \<Rightarrow> bool" where
  "trusted_key_ok k \<longleftrightarrow> safe_text_ok (tk_key_id k) \<and> safe_text_ok (tk_producer_id k)
     \<and> encoded_ok 32 (tk_public_key_base64url k)
     \<and> wire_timestamp_ok (tk_valid_from k) \<and> wire_timestamp_ok (tk_valid_until k)
     \<and> timestamp_value (tk_valid_from k) < timestamp_value (tk_valid_until k)"

definition trust_store_ok :: "attestation_trust_store \<Rightarrow> bool" where
  "trust_store_ok t \<longleftrightarrow> ts_schema_version t = ATTESTATION_TRUST_STORE_SCHEMA_VERSION
     \<and> safe_text_ok (ts_store_id t) \<and> safe_text_ok (ts_revocation_list_id t)
     \<and> 1 \<le> length (ts_keys t) \<and> length (ts_keys t) \<le> 1000
     \<and> list_all trusted_key_ok (ts_keys t) \<and> distinct (map tk_key_id (ts_keys t))"

definition key_revocation_ok :: "string \<Rightarrow> key_revocation \<Rightarrow> bool" where
  "key_revocation_ok updated_at k \<longleftrightarrow> safe_text_ok (kr_key_id k) \<and> wire_timestamp_ok (kr_revoked_at k)
     \<and> timestamp_value (kr_revoked_at k) \<le> timestamp_value updated_at \<and> wire_text_ok 256 (kr_reason k)"

definition revocation_list_ok :: "attestation_revocation_list \<Rightarrow> bool" where
  "revocation_list_ok r \<longleftrightarrow> rl_schema_version r = ATTESTATION_REVOCATION_LIST_SCHEMA_VERSION
     \<and> safe_text_ok (rl_list_id r) \<and> wire_timestamp_ok (rl_updated_at r)
     \<and> length (rl_revoked_keys r) \<le> 10000
     \<and> list_all (key_revocation_ok (rl_updated_at r)) (rl_revoked_keys r)
     \<and> distinct (map kr_key_id (rl_revoked_keys r))"

lemma parse_attested_artifact_render [strict_iff]:
  "parse_attested_artifact path name (attested_artifact_to_json a) = Inr b \<longleftrightarrow> b = a \<and> attested_artifact_ok a"
  by (cases a) (auto simp: parse_attested_artifact_def attested_artifact_to_json_def strict_iff exact_keys_def
      attested_artifact_ok_def)

lemma parse_attested_artifact_ok: "parse_attested_artifact path name v = Inr a \<Longrightarrow> attested_artifact_ok a"
  by (auto simp: parse_attested_artifact_def strict_iff attested_artifact_ok_def)

lemma parse_producer_render [strict_iff]:
  "parse_producer path name (producer_to_json a) = Inr b \<longleftrightarrow> b = a \<and> producer_ok a"
  by (cases a) (auto simp: parse_producer_def producer_to_json_def strict_iff exact_keys_def producer_ok_def)

lemma parse_producer_ok: "parse_producer path name v = Inr a \<Longrightarrow> producer_ok a"
  by (auto simp: parse_producer_def strict_iff producer_ok_def)

lemma parse_retention_render [strict_iff]:
  "parse_retention path name (retention_to_json a) = Inr b \<longleftrightarrow> b = a \<and> retention_ok a"
  by (cases a) (auto simp: parse_retention_def retention_to_json_def strict_iff exact_keys_def retention_ok_def)

lemma parse_retention_ok: "parse_retention path name v = Inr a \<Longrightarrow> retention_ok a"
  by (auto simp: parse_retention_def strict_iff retention_ok_def)

lemma parse_attestation_render [strict_iff]:
  "parse_artifact_attestation (attestation_to_json a) = Inr b \<longleftrightarrow> b = a \<and> attestation_ok a"
proof (cases a)
  case (fields sv art prod iss exp ret lst sig)
  show ?thesis
    by (cases sig)
      (auto simp: fields parse_artifact_attestation_def parse_signature_def attestation_to_json_def
        attestation_fields_def signature_to_json_def attestation_keys_def attestation_ok_def encoded_ok_def
        strict_iff exact_keys_def Let_def)
qed

lemma parse_attestation_ok: "parse_artifact_attestation v = Inr a \<Longrightarrow> attestation_ok a"
  by (auto simp: parse_artifact_attestation_def parse_signature_def attestation_ok_def encoded_ok_def strict_iff Let_def
      dest: parse_attested_artifact_ok parse_producer_ok parse_retention_ok)

interpretation attestation_codec:
  exact_codec "\<lambda>i. parse_artifact_attestation" attestation_to_json attestation_ok
  by unfold_locales (simp_all add: parse_attestation_render parse_attestation_ok)

lemma parse_trusted_key_render:
  "parse_trusted_key i (trusted_key_to_json a) = Inr b \<longleftrightarrow> b = a \<and> trusted_key_ok a"
  by (cases a) (auto simp: parse_trusted_key_def trusted_key_to_json_def trusted_key_ok_def encoded_ok_def
      strict_iff exact_keys_def Let_def)

lemma parse_trusted_key_ok: "parse_trusted_key i v = Inr a \<Longrightarrow> trusted_key_ok a"
  by (auto simp: parse_trusted_key_def trusted_key_ok_def encoded_ok_def strict_iff Let_def)

interpretation trusted_key_codec: exact_codec parse_trusted_key trusted_key_to_json trusted_key_ok
  by unfold_locales (simp_all add: parse_trusted_key_render parse_trusted_key_ok)

lemma parse_key_revocation_render:
  "parse_key_revocation u i (key_revocation_to_json a) = Inr b \<longleftrightarrow> b = a \<and> key_revocation_ok u a"
  by (cases a) (auto simp: parse_key_revocation_def key_revocation_to_json_def key_revocation_ok_def
      strict_iff exact_keys_def Let_def)

lemma parse_key_revocation_ok: "parse_key_revocation u i v = Inr a \<Longrightarrow> key_revocation_ok u a"
  by (auto simp: parse_key_revocation_def key_revocation_ok_def strict_iff Let_def)

interpretation key_revocation_codec:
  exact_codec "parse_key_revocation u" key_revocation_to_json "key_revocation_ok u" for u
  by unfold_locales (simp_all add: parse_key_revocation_render parse_key_revocation_ok)

lemma trust_store_each [strict_iff]:
  "each parse_trusted_key i (map trusted_key_to_json xs) = Inr ys \<longleftrightarrow> ys = xs \<and> list_all trusted_key_ok xs"
  by (rule trusted_key_codec.each_exact)

lemma revocations_each [strict_iff]:
  "each (parse_key_revocation u) i (map key_revocation_to_json xs) = Inr ys
    \<longleftrightarrow> ys = xs \<and> list_all (key_revocation_ok u) xs"
  by (rule key_revocation_codec.each_exact)

lemma parse_trust_store_render [strict_iff]:
  "parse_attestation_trust_store (trust_store_to_json t) = Inr u \<longleftrightarrow> u = t \<and> trust_store_ok t"
  by (cases t) (auto simp: parse_attestation_trust_store_def trust_store_to_json_def trust_store_ok_def
      strict_iff exact_keys_def Let_def)

lemma parse_trust_store_ok: "parse_attestation_trust_store v = Inr t \<Longrightarrow> trust_store_ok t"
  by (auto simp: parse_attestation_trust_store_def trust_store_ok_def strict_iff Let_def
      dest: trusted_key_codec.each_ok each_length)

interpretation trust_store_codec:
  exact_codec "\<lambda>i. parse_attestation_trust_store" trust_store_to_json trust_store_ok
  by unfold_locales (simp_all add: parse_trust_store_render parse_trust_store_ok)

lemma parse_revocation_list_render [strict_iff]:
  "parse_attestation_revocation_list (revocation_list_to_json t) = Inr u \<longleftrightarrow> u = t \<and> revocation_list_ok t"
  by (cases t) (auto simp: parse_attestation_revocation_list_def revocation_list_to_json_def revocation_list_ok_def
      strict_iff exact_keys_def Let_def)

lemma parse_revocation_list_ok: "parse_attestation_revocation_list v = Inr t \<Longrightarrow> revocation_list_ok t"
  by (auto simp: parse_attestation_revocation_list_def revocation_list_ok_def strict_iff Let_def
      dest: key_revocation_codec.each_ok each_length)

interpretation revocation_list_codec:
  exact_codec "\<lambda>i. parse_attestation_revocation_list" revocation_list_to_json revocation_list_ok
  by unfold_locales (simp_all add: parse_revocation_list_render parse_revocation_list_ok)

subsection \<open>When verification succeeds\<close>

definition seconds_within :: "int \<Rightarrow> json \<Rightarrow> int \<Rightarrow> bool" where
  "seconds_within bound v i \<longleftrightarrow> v = JInt i \<and> 0 \<le> i \<and> i \<le> bound"

lemma bounded_seconds_Inr [strict_iff]: "bounded_seconds message bound v = Inr i \<longleftrightarrow> seconds_within bound v i"
  by (auto simp: bounded_seconds_def seconds_within_def split: json.split)

lemma after_Inr [strict_iff]:
  "after t s = Inr v \<longleftrightarrow> v = timestamp_value t + s * 1000000 \<and> v < 3652060 * 86400 * 1000000"
  by (auto simp: after_def Let_def)

lemma find_unique:
  "distinct (map f xs) \<Longrightarrow> find (\<lambda>x. f x = k) xs = Some y \<longleftrightarrow> y \<in> set xs \<and> f y = k"
  by (induction xs) auto

definition key_of :: "attestation_trust_store \<Rightarrow> artifact_attestation \<Rightarrow> trusted_producer_key \<Rightarrow> bool" where
  \<comment> \<open>the key of the store that the attestation names, for the producer it names\<close>
  "key_of store a k \<longleftrightarrow> k \<in> set (ts_keys store) \<and> tk_key_id k = pi_key_id (at_producer a)
     \<and> tk_producer_id k = pi_producer_id (at_producer a) \<and> tk_algorithm k = sg_algorithm (at_signature a)"

lemma select_trusted_key_Inr:
  assumes "distinct (map tk_key_id (ts_keys store))"
  shows "select_trusted_key a store revocations = Inr k \<longleftrightarrow>
    at_revocation_list_id a = ts_revocation_list_id store \<and> rl_list_id revocations = ts_revocation_list_id store
      \<and> key_of store a k"
proof -
  note f = find_unique [OF assms, of "pi_key_id (at_producer a)"]
  show ?thesis
  proof (cases "find (\<lambda>k. tk_key_id k = pi_key_id (at_producer a)) (ts_keys store)")
    case None
    then have "\<not> key_of store a k" using f [of k] by (auto simp: key_of_def)
    then show ?thesis using None by (auto simp: select_trusted_key_def attempt_Inr ensure_Inr)
  next
    case (Some j)
    with f [of j] f [of k] show ?thesis
      by (auto simp: select_trusted_key_def attempt_Inr ensure_Inr key_of_def)
  qed
qed

definition authentic :: "ed25519 \<Rightarrow> artifact_attestation \<Rightarrow> trusted_producer_key \<Rightarrow> bool" where
  \<comment> \<open>the signature of the attestation under the key verifies over its payload\<close>
  "authentic ed a k \<longleftrightarrow> ed_installed ed \<and> ed_from_public_bytes ed (lenient_bytes (tk_public_key_base64url k))
     \<and> ed_verify ed (lenient_bytes (tk_public_key_base64url k)) (lenient_bytes (sg_value (at_signature a)))
         (attestation_payload_bytes a)"

lemma check_signature_Inr [strict_iff]: "check_signature ed a k = Inr u \<longleftrightarrow> authentic ed a k"
  by (auto simp: check_signature_def cryptography_types_def authentic_def attempt_Inr ensure_Inr Let_def)

definition exact_bytes :: "library \<Rightarrow> string \<Rightarrow> artifact_subject \<Rightarrow> bool" where
  "exact_bytes lib raw_bytes a \<longleftrightarrow> int (length raw_bytes) = as_byte_count a \<and> lib_sha256 lib raw_bytes = as_sha256 a"

lemma check_artifact_bytes_Inr [strict_iff]:
  "check_artifact_bytes lib raw_bytes a = Inr u \<longleftrightarrow> exact_bytes lib raw_bytes a"
  by (auto simp: check_artifact_bytes_def exact_bytes_def attempt_Inr ensure_Inr)

definition in_date_range :: "int \<Rightarrow> bool" where
  "in_date_range v \<longleftrightarrow> v < 3652060 * 86400 * 1000000"

definition valid_at :: "artifact_attestation \<Rightarrow> trusted_producer_key \<Rightarrow> string \<Rightarrow> int \<Rightarrow> bool" where
  "valid_at a k checked skew \<longleftrightarrow>
     timestamp_value (tk_valid_from k) \<le> timestamp_value (at_issued_at a)
     \<and> timestamp_value (at_issued_at a) < timestamp_value (tk_valid_until k)
     \<and> timestamp_value (at_expires_at a) \<le> timestamp_value (tk_valid_until k)
     \<and> timestamp_value (at_issued_at a) \<le> timestamp_value checked + skew * 1000000
     \<and> timestamp_value checked < timestamp_value (at_expires_at a)
     \<and> in_date_range (timestamp_value checked + skew * 1000000)"

lemma check_validity_Inr [strict_iff]: "check_validity a k checked skew = Inr u \<longleftrightarrow> valid_at a k checked skew"
  by (auto simp: check_validity_def valid_at_def in_date_range_def strict_iff Let_def)

definition not_revoked :: "artifact_attestation \<Rightarrow> trusted_producer_key \<Rightarrow> attestation_revocation_list \<Rightarrow> bool" where
  "not_revoked a k revocations \<longleftrightarrow> list_all (\<lambda>e. kr_key_id e = tk_key_id k \<longrightarrow>
     kr_mode e = RevocationMode_ISSUED_AT_OR_AFTER \<and> timestamp_value (at_issued_at a) < timestamp_value (kr_revoked_at e))
     (rl_revoked_keys revocations)"

definition fresh_list :: "attestation_revocation_list \<Rightarrow> string \<Rightarrow> int \<Rightarrow> int \<Rightarrow> bool" where
  "fresh_list revocations checked maximum_age skew \<longleftrightarrow>
     timestamp_value (rl_updated_at revocations) \<le> timestamp_value checked + skew * 1000000
     \<and> timestamp_value checked \<le> timestamp_value (rl_updated_at revocations) + (maximum_age + skew) * 1000000
     \<and> in_date_range (timestamp_value checked + skew * 1000000)"

lemma check_revocations_Inr:
  assumes "distinct (map kr_key_id (rl_revoked_keys r))"
  shows "check_revocations a k r checked age skew = Inr u \<longleftrightarrow> fresh_list r checked age skew \<and> not_revoked a k r"
proof -
  note f = find_unique [OF assms, of "tk_key_id k"]
  show ?thesis
  proof (cases "find (\<lambda>e. kr_key_id e = tk_key_id k) (rl_revoked_keys r)")
    case None
    then have "not_revoked a k r" by (auto simp: not_revoked_def list_all_iff find_None_iff)
    then show ?thesis using None
      by (auto simp: check_revocations_def fresh_list_def in_date_range_def strict_iff Let_def)
  next
    case (Some e)
    have "y \<in> set (rl_revoked_keys r) \<and> kr_key_id y = tk_key_id k \<longleftrightarrow> y = e" for y
      using f [of y] Some by auto
    then have "not_revoked a k r \<longleftrightarrow> kr_mode e = RevocationMode_ISSUED_AT_OR_AFTER
        \<and> timestamp_value (at_issued_at a) < timestamp_value (kr_revoked_at e)"
      unfolding not_revoked_def list_all_iff by metis
    moreover have "kr_mode e = RevocationMode_ISSUED_AT_OR_AFTER \<longleftrightarrow> kr_mode e \<noteq> RevocationMode_ALL_SIGNATURES"
      by (cases "kr_mode e") simp_all
    ultimately show ?thesis using Some
      by (auto simp: check_revocations_def fresh_list_def in_date_range_def strict_iff Let_def)
  qed
qed

definition verification_receipt ::
  "artifact_attestation \<Rightarrow> attestation_trust_store \<Rightarrow> attestation_revocation_list \<Rightarrow> string \<Rightarrow> attestation_verification" where
  "verification_receipt a t r checked =
     \<lparr>vr_schema_version = ''1.0'', vr_verifier_version = PACKAGE_VERSION,
      vr_status = ''verified'', vr_artifact = at_artifact a, vr_producer = at_producer a,
      vr_issued_at = at_issued_at a, vr_expires_at = at_expires_at a, vr_retention = at_retention a,
      vr_signature_algorithm = sg_algorithm (at_signature a),
      vr_canonicalization = sg_canonicalization (at_signature a), vr_trust_store_id = ts_store_id t,
      vr_revocation_list_id = rl_list_id r, vr_revocation_list_updated_at = rl_updated_at r, vr_checked_at = checked\<rparr>"

lemma attestation_verifies:
  "verify_artifact_attestation lib ed raw a t r checked_at max_age clock_skew = Inr v \<longleftrightarrow>
    attestation_ok a \<and> trust_store_ok t \<and> revocation_list_ok r \<and> raw \<noteq> [] \<and>
    (\<exists>age skew checked k. seconds_within MAX_REVOCATION_AGE_SECONDS max_age age \<and> seconds_within 3600 clock_skew skew
       \<and> checked_at = JStr checked \<and> wire_timestamp_ok checked
       \<and> at_revocation_list_id a = ts_revocation_list_id t \<and> rl_list_id r = ts_revocation_list_id t
       \<and> key_of t a k \<and> authentic ed a k \<and> exact_bytes lib raw (at_artifact a)
       \<and> valid_at a k checked skew \<and> fresh_list r checked age skew \<and> not_revoked a k r
       \<and> v = verification_receipt a t r checked)"
proof (cases "attestation_ok a \<and> trust_store_ok t \<and> revocation_list_ok r")
  case True
  then have d: "distinct (map tk_key_id (ts_keys t))" "distinct (map kr_key_id (rl_revoked_keys r))"
    by (simp_all add: trust_store_ok_def revocation_list_ok_def)
  from True show ?thesis
    unfolding verify_artifact_attestation_def
    by (auto simp: strict_iff select_trusted_key_Inr [OF d(1)] check_revocations_Inr [OF d(2)]
        verification_receipt_def ATTESTATION_VERIFICATION_SCHEMA_VERSION_def)
next
  case False
  then show ?thesis by (auto simp: verify_artifact_attestation_def strict_iff)
qed

text \<open>
  C19. An attestation verifies exactly when all three documents are well formed, the artifact is the
  exact bytes that were attested, the store's one revocation list is the one supplied and named, the
  named key belongs to the named producer and signed the payload, the attestation lies inside the
  key's validity and is current, the revocation list is fresh, and the key is not revoked for the
  time of issue. The receipt then repeats what was verified.
\<close>
theorem attestation_verifies_iff:
  "verify_artifact_attestation lib ed raw a t r checked_at max_age clock_skew = Inr v \<longleftrightarrow>
    attestation_ok a \<and> trust_store_ok t \<and> revocation_list_ok r \<and> raw \<noteq> [] \<and>
    (\<exists>age skew checked k. seconds_within MAX_REVOCATION_AGE_SECONDS max_age age \<and> seconds_within 3600 clock_skew skew
       \<and> checked_at = JStr checked \<and> wire_timestamp_ok checked
       \<and> at_revocation_list_id a = ts_revocation_list_id t \<and> rl_list_id r = ts_revocation_list_id t
       \<and> key_of t a k \<and> authentic ed a k \<and> exact_bytes lib raw (at_artifact a)
       \<and> valid_at a k checked skew \<and> fresh_list r checked age skew \<and> not_revoked a k r
       \<and> v = verification_receipt a t r checked)"
  by (rule attestation_verifies)

subsection \<open>What the signature binds\<close>

lemma sort_json_JStr [simp]: "sort_json v = JStr s \<longleftrightarrow> v = JStr s"
  by (cases v) auto

lemma sort_json_JInt [simp]: "sort_json v = JInt i \<longleftrightarrow> v = JInt i"
  by (cases v) auto

definition payload_document :: "artifact_attestation \<Rightarrow> json" where
  "payload_document a = attestation_fields a (JObj
     [(''algorithm'', JStr (signature_algorithm_value (sg_algorithm (at_signature a)))),
      (''canonicalization'', JStr (signature_canonicalization_value (sg_canonicalization (at_signature a))))])"

lemma attested_artifact_canonical:
  assumes "sort_json (attested_artifact_to_json a) = sort_json (attested_artifact_to_json b)"
  shows "a = b"
proof -
  note f = sort_json_jget [OF assms [unfolded attested_artifact_to_json_def]]
  from f [of "''artifact_id''"] f [of "''media_type''"] f [of "''sha256''"] f [of "''byte_count''"]
  show ?thesis by simp
qed

lemma producer_canonical:
  assumes "sort_json (producer_to_json a) = sort_json (producer_to_json b)"
  shows "a = b"
proof -
  note f = sort_json_jget [OF assms [unfolded producer_to_json_def]]
  from f [of "''producer_id''"] f [of "''key_id''"] show ?thesis by simp
qed

lemma retention_canonical:
  assumes "sort_json (retention_to_json a) = sort_json (retention_to_json b)"
  shows "a = b"
proof -
  note f = sort_json_jget [OF assms [unfolded retention_to_json_def]]
  from f [of "''class_id''"] f [of "''retain_until''"] show ?thesis by simp
qed

lemma payload_plain: "plain_json (payload_document a)"
  by (simp add: payload_document_def attestation_fields_def attested_artifact_to_json_def producer_to_json_def
      retention_to_json_def)

lemma payload_canonical:
  assumes "sort_json (payload_document a) = sort_json (payload_document b)"
  shows "b = a\<lparr>at_signature := (at_signature a)\<lparr>sg_value := sg_value (at_signature b)\<rparr>\<rparr>"
proof -
  note f = sort_json_jget [OF assms [unfolded payload_document_def attestation_fields_def]]
  have "sort_json (attested_artifact_to_json (at_artifact a)) = sort_json (attested_artifact_to_json (at_artifact b))"
    "sort_json (producer_to_json (at_producer a)) = sort_json (producer_to_json (at_producer b))"
    "sort_json (retention_to_json (at_retention a)) = sort_json (retention_to_json (at_retention b))"
    using f [of "''artifact''"] f [of "''producer''"] f [of "''retention''"] by simp_all
  note parts = attested_artifact_canonical [OF this(1)] producer_canonical [OF this(2)] retention_canonical [OF this(3)]
  have "at_schema_version a = at_schema_version b" "at_issued_at a = at_issued_at b"
    "at_expires_at a = at_expires_at b" "at_revocation_list_id a = at_revocation_list_id b"
    using f [of "''schema_version''"] f [of "''issued_at''"] f [of "''expires_at''"] f [of "''revocation_list_id''"]
    by simp_all
  moreover have "sg_algorithm (at_signature a) = sg_algorithm (at_signature b)
    \<and> sg_canonicalization (at_signature a) = sg_canonicalization (at_signature b)"
    using f [of "''signature''"] by (simp add: signature_algorithm.inj_val signature_canonicalization.inj_val)
  ultimately show ?thesis using parts by simp
qed

lemma payload_of: "attestation_payload_bytes a = utf8_bytes (canonical_json (\<lambda>_. []) (payload_document a))"
  by (simp add: attestation_payload_bytes_def payload_document_def)

lemma payload_binds:
  "attestation_payload_bytes (a\<lparr>at_signature := (at_signature a)\<lparr>sg_value := s\<rparr>\<rparr>) = attestation_payload_bytes a"
  by (simp add: payload_of payload_document_def attestation_fields_def)

text \<open>
  C26. The signed bytes determine the attestation up to the signature value: two attestations with the
  same payload agree on artifact, producer, times, retention, revocation list, algorithm and
  canonicalization. A signature therefore cannot be moved to an attestation that says anything else.
\<close>
theorem payload_binds_every_field:
  "attestation_payload_bytes a = attestation_payload_bytes b \<longleftrightarrow>
    b = a\<lparr>at_signature := (at_signature a)\<lparr>sg_value := sg_value (at_signature b)\<rparr>\<rparr>"
proof
  assume "attestation_payload_bytes a = attestation_payload_bytes b"
  then have "canonical_json (\<lambda>_. []) (payload_document a) = canonical_json (\<lambda>_. []) (payload_document b)"
    by (simp add: payload_of utf8_bytes_inj)
  then show "b = a\<lparr>at_signature := (at_signature a)\<lparr>sg_value := sg_value (at_signature b)\<rparr>\<rparr>"
    by (intro payload_canonical canonical_json_inj [OF payload_plain payload_plain])
next
  show "b = a\<lparr>at_signature := (at_signature a)\<lparr>sg_value := sg_value (at_signature b)\<rparr>\<rparr> \<Longrightarrow>
    attestation_payload_bytes a = attestation_payload_bytes b" by (metis payload_binds)
qed

subsection \<open>Signing and verifying\<close>

definition ed25519_laws :: "ed25519 \<Rightarrow> bool" where
  \<comment> \<open>RFC 8032: a signature has 64 bytes, a public key 32, and a signature made with a key verifies under its public key\<close>
  "ed25519_laws ed \<longleftrightarrow> (\<forall>key message. length (ed_sign ed key message) = 64 \<and> length (ed_public_key ed key) = 32
     \<and> ed_from_public_bytes ed (ed_public_key ed key)
     \<and> ed_verify ed (ed_public_key ed key) (ed_sign ed key message) message)"

lemma lenient_encode [simp]: "lenient_bytes (base64url_encode v) = v"
  by (simp add: lenient_bytes_def base64url_decodes)

lemma create_attestation_Inr:
  "create_artifact_attestation lib ed raw q pem password = Inr a \<longleftrightarrow>
    raw \<noteq> [] \<and> pem \<noteq> [] \<and> attestation_ok (unsigned_attestation lib raw q) \<and> ed_installed ed \<and>
    (\<exists>key. ed_load_private ed pem password = Ed25519_key key \<and>
       a = (unsigned_attestation lib raw q)\<lparr>at_signature := (at_signature (unsigned_attestation lib raw q))
         \<lparr>sg_value := base64url_encode (ed_sign ed key (attestation_payload_bytes (unsigned_attestation lib raw q)))\<rparr>\<rparr>)"
  by (auto simp: create_artifact_attestation_def load_private_key_def cryptography_types_def strict_iff
      split: loaded_key.splits)

lemma encoded_ok_encode: "length v = n \<Longrightarrow> 1 \<le> n \<Longrightarrow> n \<le> 300 \<Longrightarrow> encoded_ok n (base64url_encode v)"
proof -
  assume n: "length v = n" "1 \<le> n" "n \<le> 300"
  have "length (base64url_encode v) \<le> length (b64_encode v)"
    using length_dropWhile_le [of _ "rev (b64_encode v)"] by (simp add: base64url_encode_def)
  moreover have "base64url_encode v \<noteq> []"
  proof -
    have "base64url_encode [] = []" by (simp add: base64url_encode_def)
    moreover have "v \<noteq> []" using n by auto
    ultimately show ?thesis by (metis base64url_inj)
  qed
  ultimately show ?thesis
    using n by (auto simp: encoded_ok_def wire_text_ok_def base64url_ok_encode b64_encode_length)
qed

text \<open>
  C32. An attestation that was created with a key verifies, at any time inside its validity, against
  every well-formed trust store that binds the public half of the key to the producer and names the
  supplied fresh revocation list, as long as the key is not revoked for it.
\<close>
theorem created_attestation_verifies:
  assumes "ed25519_laws ed" "create_artifact_attestation lib ed raw q pem password = Inr a"
    "ed_load_private ed pem password = Ed25519_key key"
    "trust_store_ok t" "key_of t a k" "tk_public_key_base64url k = base64url_encode (ed_public_key ed key)"
    "revocation_list_ok r" "ts_revocation_list_id t = aq_revocation_list_id q" "rl_list_id r = ts_revocation_list_id t"
    "not_revoked a k r" "wire_timestamp_ok checked" "0 \<le> skew" "skew \<le> 3600"
    "0 \<le> age" "age \<le> MAX_REVOCATION_AGE_SECONDS"
    "valid_at a k checked skew" "fresh_list r checked age skew"
  shows "verify_artifact_attestation lib ed raw a t r (JStr checked) (JInt age) (JInt skew)
    = Inr (verification_receipt a t r checked)"
proof -
  let ?u = "unsigned_attestation lib raw q"
  from assms(2,3) have raw: "raw \<noteq> []" and u: "attestation_ok ?u" and inst: "ed_installed ed"
    and a: "a = ?u\<lparr>at_signature := (at_signature ?u)
        \<lparr>sg_value := base64url_encode (ed_sign ed key (attestation_payload_bytes ?u))\<rparr>\<rparr>"
    by (auto simp: create_attestation_Inr)
  have payload: "attestation_payload_bytes a = attestation_payload_bytes ?u"
    by (simp add: payload_binds a)
  have sign: "length (ed_sign ed key m) = 64" "ed_from_public_bytes ed (ed_public_key ed key)"
    "ed_verify ed (ed_public_key ed key) (ed_sign ed key m) m" for m
    using assms(1) by (simp_all add: ed25519_laws_def)
  have "attestation_ok a"
    using u by (simp add: a attestation_ok_def encoded_ok_encode sign)
  moreover have "authentic ed a k"
    using inst sign by (simp add: authentic_def assms(6) payload) (simp add: a)
  moreover have "exact_bytes lib raw (at_artifact a)"
    by (simp add: a exact_bytes_def unsigned_attestation_def)
  moreover have "at_revocation_list_id a = ts_revocation_list_id t"
    by (simp add: a assms(8) unsigned_attestation_def)
  ultimately show ?thesis
    using assms raw by (auto simp: attestation_verifies seconds_within_def)
qed

text \<open>
  Attestations, trust stores and revocation lists survive rendering and strict parsing, and only
  well-formed ones do: unique key identifiers, ordered validity, revocations not after the update.
\<close>
theorem attestation_documents_roundtrip:
  "(parse_artifact_attestation (attestation_to_json a) = Inr a' \<longleftrightarrow> a' = a \<and> attestation_ok a)
   \<and> (parse_attestation_trust_store (trust_store_to_json t) = Inr t' \<longleftrightarrow> t' = t \<and> trust_store_ok t)
   \<and> (parse_attestation_revocation_list (revocation_list_to_json r) = Inr r' \<longleftrightarrow> r' = r \<and> revocation_list_ok r)"
  by (simp add: attestation_codec.parse_render_Inr trust_store_codec.parse_render_Inr
      revocation_list_codec.parse_render_Inr)

text \<open>
  A base64url field of \<open>n\<close> bytes accepts exactly the canonical unpadded encodings of \<open>n\<close> bytes:
  no padding, no foreign character and no stray low bits, so a key or signature has one spelling.
\<close>
theorem base64url_field_canonical:
  "wire_base64url err n path v = Inr s \<longleftrightarrow>
    v = JStr s \<and> s \<noteq> [] \<and> length s \<le> 512 \<and> (\<exists>bytes. length bytes = n \<and> s = base64url_encode bytes)"
  by (auto simp: wire_base64url_Inr base64url_ok_encode wire_text_ok_def)

lemma foreign_public_key_reported_as_private:
  "ed_installed ed \<Longrightarrow> ed_load_public ed pem = Foreign_key \<Longrightarrow> ed_load_private ed pem password = Load_failed \<Longrightarrow>
    public_key_base64url_from_pem ed pem password
      = Inl (Attestation_key_error ''Ed25519 private key could not be loaded; check the key and password'')"
  by (simp add: public_key_base64url_from_pem_def load_private_key_def cryptography_types_def)

subsection \<open>A concrete attestation\<close>

definition sample_ed25519 :: ed25519 where
  "sample_ed25519 = \<lparr>ed_installed = True, ed_load_private = \<lambda>_ _. Ed25519_key ''k'', ed_load_public = \<lambda>_. Load_failed,
     ed_public_key = \<lambda>_. replicate 32 (CHR ''p''), ed_sign = \<lambda>_ _. replicate 64 (CHR ''s''),
     ed_from_public_bytes = \<lambda>_. True, ed_verify = \<lambda>_ _ _. True\<rparr>"

definition sample_hashes :: library where
  "sample_hashes = \<lparr>lib_decode_utf8 = Some, lib_loads = \<lambda>_. Inl (Loads_failed []), lib_dumps = \<lambda>_. [],
     lib_sha256 = \<lambda>_. replicate 64 CHR ''a'', lib_inv_cdf = id\<rparr>"

definition sample_request :: attestation_request where
  "sample_request = \<lparr>aq_artifact_id = ''artifact-1'', aq_media_type = ''application/json'', aq_producer_id = ''producer-1'',
     aq_key_id = ''key-1'', aq_issued_at = ''2026-01-02T00:00:00Z'', aq_expires_at = ''2026-01-03T00:00:00Z'',
     aq_retention_class = ''standard'', aq_retain_until = ''2026-01-04T00:00:00Z'',
     aq_revocation_list_id = ''list-1''\<rparr>"

definition sample_key :: trusted_producer_key where
  "sample_key = \<lparr>tk_key_id = ''key-1'', tk_producer_id = ''producer-1'', tk_algorithm = SignatureAlgorithm_ED25519,
     tk_public_key_base64url = base64url_encode (replicate 32 (CHR ''p'')),
     tk_valid_from = ''2026-01-01T00:00:00Z'', tk_valid_until = ''2026-01-04T00:00:00Z''\<rparr>"

definition sample_store :: attestation_trust_store where
  "sample_store = \<lparr>ts_schema_version = ''1.0'', ts_store_id = ''store-1'', ts_revocation_list_id = ''list-1'',
     ts_keys = [sample_key]\<rparr>"

definition sample_revocations :: attestation_revocation_list where
  "sample_revocations = \<lparr>rl_schema_version = ''1.0'', rl_list_id = ''list-1'', rl_updated_at = ''2026-01-02T00:00:00Z'',
     rl_revoked_keys = []\<rparr>"

definition sample_attestation :: artifact_attestation where
  "sample_attestation = (unsigned_attestation sample_hashes ''bytes'' sample_request)\<lparr>at_signature :=
     \<lparr>sg_algorithm = SignatureAlgorithm_ED25519, sg_canonicalization = SignatureCanonicalization_CAUSURE_JSON_V1,
      sg_value = base64url_encode (replicate 64 (CHR ''s''))\<rparr>\<rparr>"

lemma attestation_sample_times:
  "wire_timestamp_ok ''2026-01-01T00:00:00Z''" "wire_timestamp_ok ''2026-01-02T00:00:00Z''"
  "wire_timestamp_ok ''2026-01-03T00:00:00Z''" "wire_timestamp_ok ''2026-01-04T00:00:00Z''"
  "timestamp_value ''2026-01-01T00:00:00Z'' = 63902908800000000"
  "timestamp_value ''2026-01-02T00:00:00Z'' = 63902995200000000"
  "timestamp_value ''2026-01-03T00:00:00Z'' = 63903081600000000"
  "timestamp_value ''2026-01-04T00:00:00Z'' = 63903168000000000"
  by code_simp+

lemma sample_identifiers:
  "safe_text_ok ''key-1''" "safe_text_ok ''producer-1''" "safe_text_ok ''store-1''" "safe_text_ok ''list-1''"
  "safe_text_ok ''artifact-1''" "safe_text_ok ''standard''" "wire_text_ok 255 ''application/json''"
  "media_type_ok ''application/json''"
  by code_simp+

lemma sample_attestation_ok:
  "attestation_ok (unsigned_attestation sample_hashes ''bytes'' sample_request)"
  by (simp add: attestation_ok_def attested_artifact_ok_def producer_ok_def retention_ok_def unsigned_attestation_def
      sample_request_def sample_hashes_def sample_identifiers attestation_sample_times encoded_ok_encode
      ARTIFACT_ATTESTATION_SCHEMA_VERSION_def wire_text_ok_def sha256_ok_def list_all_iff)

lemma sample_store_ok: "trust_store_ok sample_store"
  by (simp add: trust_store_ok_def sample_store_def trusted_key_ok_def sample_key_def sample_identifiers
      attestation_sample_times encoded_ok_encode ATTESTATION_TRUST_STORE_SCHEMA_VERSION_def)

lemma sample_revocations_ok: "revocation_list_ok sample_revocations"
  by (simp add: revocation_list_ok_def sample_revocations_def sample_identifiers attestation_sample_times
      ATTESTATION_REVOCATION_LIST_SCHEMA_VERSION_def)

lemma attestation_sample_created:
  "create_artifact_attestation sample_hashes sample_ed25519 ''bytes'' sample_request ''pem'' None = Inr sample_attestation"
  by (simp add: create_attestation_Inr sample_attestation_ok)
    (simp add: sample_ed25519_def sample_attestation_def unsigned_attestation_def)

lemma sample_ed25519_laws: "ed25519_laws sample_ed25519"
  by (simp add: ed25519_laws_def sample_ed25519_def)

lemma sample_attestation_fields:
  "at_issued_at sample_attestation = ''2026-01-02T00:00:00Z''" "at_expires_at sample_attestation = ''2026-01-03T00:00:00Z''"
  "at_producer sample_attestation = \<lparr>pi_producer_id = ''producer-1'', pi_key_id = ''key-1''\<rparr>"
  "sg_algorithm (at_signature sample_attestation) = SignatureAlgorithm_ED25519"
  by (simp_all add: sample_attestation_def unsigned_attestation_def sample_request_def)

theorem created_attestation_verifies_witness:
  "verify_artifact_attestation sample_hashes sample_ed25519 ''bytes'' sample_attestation sample_store sample_revocations
     (JStr ''2026-01-02T00:00:00Z'') (JInt 86400) (JInt 300)
    = Inr (verification_receipt sample_attestation sample_store sample_revocations ''2026-01-02T00:00:00Z'')"
proof (rule created_attestation_verifies [OF sample_ed25519_laws attestation_sample_created])
  show "ed_load_private sample_ed25519 ''pem'' None = Ed25519_key ''k''" by (simp add: sample_ed25519_def)
  show "trust_store_ok sample_store" by (rule sample_store_ok)
  show "key_of sample_store sample_attestation sample_key"
    by (simp add: key_of_def sample_attestation_fields) (simp add: sample_store_def sample_key_def)
  show "tk_public_key_base64url sample_key = base64url_encode (ed_public_key sample_ed25519 ''k'')"
    by (simp add: sample_key_def sample_ed25519_def)
  show "revocation_list_ok sample_revocations" by (rule sample_revocations_ok)
  show "ts_revocation_list_id sample_store = aq_revocation_list_id sample_request"
    "rl_list_id sample_revocations = ts_revocation_list_id sample_store"
    "not_revoked sample_attestation sample_key sample_revocations"
    by (simp_all add: sample_store_def sample_request_def sample_revocations_def not_revoked_def)
  show "wire_timestamp_ok ''2026-01-02T00:00:00Z''" by (rule attestation_sample_times)
  show "valid_at sample_attestation sample_key ''2026-01-02T00:00:00Z'' 300"
    by (simp add: valid_at_def sample_attestation_fields sample_key_def attestation_sample_times in_date_range_def)
  show "fresh_list sample_revocations ''2026-01-02T00:00:00Z'' 86400 300"
    by (simp add: fresh_list_def sample_revocations_def attestation_sample_times in_date_range_def)
qed (simp_all add: MAX_REVOCATION_AGE_SECONDS_def)

end
