(* ===== verification/Approval_Documents.thy ===== *)
theory Approval_Documents
  imports Attestations Azure_Verification
begin

text \<open>
  The documents of \<open>approvals.py\<close>: signed approval assertions, the trust store of approval
  authorities, their revocation list, and the verification receipt, with their strict parsers and
  renderings. The values are read with the helpers of Wire_Values.
\<close>

subsection \<open>Documents\<close>

definition APPROVAL_ASSERTION_SCHEMA_VERSION :: string where "APPROVAL_ASSERTION_SCHEMA_VERSION = ''1.0''"
definition APPROVAL_TRUST_STORE_SCHEMA_VERSION :: string where "APPROVAL_TRUST_STORE_SCHEMA_VERSION = ''1.0''"
definition APPROVAL_REVOCATION_LIST_SCHEMA_VERSION :: string where "APPROVAL_REVOCATION_LIST_SCHEMA_VERSION = ''1.0''"
definition APPROVAL_VERIFICATION_SCHEMA_VERSION :: string where "APPROVAL_VERIFICATION_SCHEMA_VERSION = ''1.0''"

definition MAX_APPROVAL_ASSERTION_BYTES :: nat where "MAX_APPROVAL_ASSERTION_BYTES = 1024 * 1024"
definition MAX_APPROVAL_REVOCATION_AGE_SECONDS :: int where "MAX_APPROVAL_REVOCATION_AGE_SECONDS = 31 * 24 * 60 * 60"
definition MAX_APPROVAL_LIFETIME_SECONDS :: int where "MAX_APPROVAL_LIFETIME_SECONDS = 24 * 60 * 60"
definition MAX_VERIFICATION_TO_AUTHENTICATION_SECONDS :: int where
  "MAX_VERIFICATION_TO_AUTHENTICATION_SECONDS = 24 * 60 * 60"
definition MAX_AUTHENTICATION_TO_ISSUE_SECONDS :: int where "MAX_AUTHENTICATION_TO_ISSUE_SECONDS = 15 * 60"

definition AZURE_VERIFICATION_MEDIA_TYPE :: string where
  "AZURE_VERIFICATION_MEDIA_TYPE = ''application/vnd.causure.azure-review-verification+json''"
definition APPROVAL_ASSERTION_MEDIA_TYPE :: string where
  "APPROVAL_ASSERTION_MEDIA_TYPE = ''application/vnd.causure.approval-assertion+json''"

datatype approval_error =
    Approval_invalid string string string
  | Approval_key_error string
  | Approval_failed string string
  | Approval_value_error string
  | Approval_plain_value_error
  | Approval_overflow
  \<comment> \<open>ApprovalValidationError, ApprovalKeyError, ApprovalVerificationError, ValueError with a message,
    a ValueError passed through from the Azure layer, OverflowError\<close>

record approval_document_subject =
  ad_media_type :: string
  ad_sha256 :: string
  ad_byte_count :: int

record approval_subject =
  su_publication :: approval_document_subject
  su_verification :: approval_document_subject

record approval_authority =
  au_authority_id :: string
  au_key_id :: string

record approver_identity =
  ap_identity_provider :: string
  ap_subject_id :: string
  ap_authentication_method :: approval_authentication_method
  ap_authentication_event_id :: string
  ap_authenticated_at :: string

record policy_exception =
  px_finding_codes :: "string list"
  px_justification :: string

record approval_signature =
  ps_algorithm :: signature_algorithm
  ps_canonicalization :: signature_canonicalization
  ps_value :: string

record approval_assertion =
  aa_schema_version :: string
  aa_assertion_id :: string
  aa_authority :: approval_authority
  aa_approver :: approver_identity
  aa_action :: approval_action
  aa_gate_effect :: approval_gate_effect
  aa_issued_at :: string
  aa_expires_at :: string
  aa_subject :: approval_subject
  aa_revocation_list_id :: string
  aa_signature :: approval_signature
  aa_exception :: "policy_exception option"

record trusted_approval_key =
  ak_key_id :: string
  ak_authority_id :: string
  ak_algorithm :: signature_algorithm
  ak_public_key_base64url :: string
  ak_valid_from :: string
  ak_valid_until :: string
  ak_allowed_actions :: "approval_action list"

record approval_trust_store =
  as_schema_version :: string
  as_store_id :: string
  as_revocation_list_id :: string
  as_keys :: "trusted_approval_key list"

record approval_key_revocation =
  av_key_id :: string
  av_revoked_at :: string
  av_mode :: revocation_mode
  av_reason :: string

record approval_revocation_list =
  al_schema_version :: string
  al_list_id :: string
  al_updated_at :: string
  al_revoked_keys :: "approval_key_revocation list"

record approval_verification =
  pv_schema_version :: string
  pv_verifier_version :: string
  pv_status :: string
  pv_checked_at :: string
  pv_assertion :: approval_document_subject
  pv_authority :: approval_authority
  pv_approver :: approver_identity
  pv_action :: approval_action
  pv_gate_effect :: approval_gate_effect
  pv_issued_at :: string
  pv_expires_at :: string
  pv_subject :: approval_subject
  pv_review :: review_binding
  pv_tfvc :: tfvc_association
  pv_build_id :: int
  pv_trust_store_id :: string
  pv_revocation_list_id :: string
  pv_revocation_list_updated_at :: string
  pv_exception :: "policy_exception option"

subsection \<open>Parsing\<close>

definition approval_id :: "string \<Rightarrow> string \<Rightarrow> json \<Rightarrow> approval_error + string" where
  \<comment> \<open>\<open>_string(..., pattern=_SAFE_ID_PATTERN, maximum=128)\<close>\<close>
  "approval_id name = wire_string (Approval_invalid name) 128 (Some wire_id_ok)"

definition finding_code_ok :: "string \<Rightarrow> bool" where
  "finding_code_ok = head_tail_match is_alnum (\<lambda>c. is_alnum c \<or> c \<in> set ''._-'') 2 127"

definition parse_approval_document_subject ::
  "string \<Rightarrow> nat \<Rightarrow> string \<Rightarrow> string \<Rightarrow> json \<Rightarrow> approval_error + approval_document_subject" where
  "parse_approval_document_subject media_type maximum_bytes path name v =
     (let err = Approval_invalid name in
     attempt (wire_object err path [''media_type'', ''sha256'', ''byte_count''] [] v) (\<lambda>obj.
     attempt (wire_string err 255 None (sub path ''media_type'') (jget obj ''media_type'')) (\<lambda>parsed_media_type.
     attempt (ensure (parsed_media_type = media_type)
                (err (sub path ''media_type'') (''expected '' @ py_repr media_type))) (\<lambda>_.
     attempt (wire_string err 64 (Some sha256_ok) (sub path ''sha256'') (jget obj ''sha256'')) (\<lambda>sha256.
     attempt (wire_integer err 1 (Some (int maximum_bytes)) (sub path ''byte_count'') (jget obj ''byte_count''))
       (\<lambda>byte_count.
     Inr \<lparr>ad_media_type = parsed_media_type, ad_sha256 = sha256, ad_byte_count = byte_count\<rparr>))))))"

definition parse_approval_subject :: "string \<Rightarrow> string \<Rightarrow> json \<Rightarrow> approval_error + approval_subject" where
  "parse_approval_subject path name v =
     attempt (wire_object (Approval_invalid name) path [''publication'', ''verification''] [] v) (\<lambda>obj.
     attempt (parse_approval_document_subject PUBLICATION_MEDIA_TYPE MAX_AZURE_PUBLICATION_BYTES
                (sub path ''publication'') name (jget obj ''publication'')) (\<lambda>publication.
     attempt (parse_approval_document_subject AZURE_VERIFICATION_MEDIA_TYPE MAX_AZURE_VERIFICATION_BYTES
                (sub path ''verification'') name (jget obj ''verification'')) (\<lambda>verification.
     Inr \<lparr>su_publication = publication, su_verification = verification\<rparr>)))"

definition parse_authority :: "string \<Rightarrow> string \<Rightarrow> json \<Rightarrow> approval_error + approval_authority" where
  "parse_authority path name v =
     attempt (wire_object (Approval_invalid name) path [''authority_id'', ''key_id''] [] v) (\<lambda>obj.
     attempt (approval_id name (sub path ''authority_id'') (jget obj ''authority_id'')) (\<lambda>authority_id.
     attempt (approval_id name (sub path ''key_id'') (jget obj ''key_id'')) (\<lambda>key_id.
     Inr \<lparr>au_authority_id = authority_id, au_key_id = key_id\<rparr>)))"

definition parse_approver :: "string \<Rightarrow> string \<Rightarrow> json \<Rightarrow> approval_error + approver_identity" where
  "parse_approver path name v =
     attempt (wire_object (Approval_invalid name) path
       [''identity_provider'', ''subject_id'', ''authentication_method'', ''authentication_event_id'', ''authenticated_at'']
       [] v) (\<lambda>obj.
     attempt (approval_id name (sub path ''identity_provider'') (jget obj ''identity_provider'')) (\<lambda>provider.
     attempt (approval_id name (sub path ''subject_id'') (jget obj ''subject_id'')) (\<lambda>subject_id.
     attempt (wire_enum (Approval_invalid name) approval_authentication_method_value
                approval_authentication_method_members
                (sub path ''authentication_method'') (jget obj ''authentication_method'')) (\<lambda>method.
     attempt (approval_id name (sub path ''authentication_event_id'') (jget obj ''authentication_event_id'')) (\<lambda>event_id.
     attempt (wire_timestamp (Approval_invalid name) (sub path ''authenticated_at'') (jget obj ''authenticated_at''))
       (\<lambda>authenticated_at.
     Inr \<lparr>ap_identity_provider = provider, ap_subject_id = subject_id, ap_authentication_method = method,
          ap_authentication_event_id = event_id, ap_authenticated_at = authenticated_at\<rparr>))))))"

definition parse_finding_text :: "string \<Rightarrow> string \<Rightarrow> nat \<Rightarrow> json \<Rightarrow> approval_error + string" where
  "parse_finding_text path name index item =
     wire_string (Approval_invalid name) 128 (Some finding_code_ok) (at_index (sub path ''finding_codes'') index) item"

definition parse_exception :: "string \<Rightarrow> string \<Rightarrow> json \<Rightarrow> approval_error + policy_exception" where
  "parse_exception path name v =
     (let err = Approval_invalid name in
     attempt (wire_object err path [''finding_codes'', ''justification''] [] v) (\<lambda>obj.
     attempt (wire_array err 1 64 (sub path ''finding_codes'') (jget obj ''finding_codes'')) (\<lambda>items.
     attempt (each (parse_finding_text path name) 0 items) (\<lambda>codes.
     attempt (ensure (sort codes = codes \<and> distinct codes)
                (err (sub path ''finding_codes'') ''must be unique and sorted'')) (\<lambda>_.
     attempt (wire_string err 2048 (Some no_control) (sub path ''justification'') (jget obj ''justification''))
       (\<lambda>justification.
     Inr \<lparr>px_finding_codes = codes, px_justification = justification\<rparr>))))))"

definition assertion_keys :: "string list" where
  "assertion_keys =
     [''schema_version'', ''assertion_id'', ''authority'', ''approver'', ''action'', ''gate_effect'', ''issued_at'',
      ''expires_at'', ''subject'', ''revocation_list_id'', ''signature'']"

abbreviation assertion_name :: string where "assertion_name \<equiv> ''approval assertion''"

definition parse_assertion_action ::
  "dict \<Rightarrow> approval_error + approval_action \<times> approval_gate_effect \<times> policy_exception option" where
  \<comment> \<open>action, gate effect and exception: an exception belongs to an exception action and to no other\<close>
  "parse_assertion_action rt =
     (let name = assertion_name; err = Approval_invalid name in
     attempt (wire_enum err approval_action_value approval_action_members ''$.action'' (jget rt ''action'')) (\<lambda>action.
     attempt (wire_enum err approval_gate_effect_value approval_gate_effect_members
                ''$.gate_effect'' (jget rt ''gate_effect'')) (\<lambda>gate_effect.
     attempt (ensure (gate_effect = ApprovalGateEffect_RECORD_ONLY)
                (err ''$.gate_effect'' ''expected record_only'')) (\<lambda>_.
     attempt (if has_key rt ''exception''
              then attempt (parse_exception ''$.exception'' name (jget rt ''exception'')) (\<lambda>e. Inr (Some e))
              else Inr None) (\<lambda>exc.
     attempt (ensure (\<not> (action = ApprovalAction_APPROVE \<and> exc \<noteq> None))
                (err ''$.exception'' ''must be absent for an approve action'')) (\<lambda>_.
     attempt (ensure (\<not> (action = ApprovalAction_EXCEPTION \<and> exc = None))
                (err ''$.exception'' ''is required for an exception action'')) (\<lambda>_.
     Inr (action, gate_effect, exc))))))))"

definition parse_assertion_times :: "dict \<Rightarrow> approval_error + string \<times> string \<times> approver_identity" where
  "parse_assertion_times rt =
     (let name = assertion_name; err = Approval_invalid name in
     attempt (wire_timestamp err ''$.issued_at'' (jget rt ''issued_at'')) (\<lambda>issued_at.
     attempt (wire_timestamp err ''$.expires_at'' (jget rt ''expires_at'')) (\<lambda>expires_at.
     attempt (parse_approver ''$.approver'' name (jget rt ''approver'')) (\<lambda>approver.
     let issued = timestamp_value issued_at; expires = timestamp_value expires_at;
         authenticated = timestamp_value (ap_authenticated_at approver) in
     attempt (ensure (authenticated \<le> issued)
                (err ''$.approver.authenticated_at'' ''must be at or before issued_at'')) (\<lambda>_.
     attempt (ensure (issued - authenticated \<le> MAX_AUTHENTICATION_TO_ISSUE_SECONDS * 1000000)
                (err ''$.issued_at'' ''must be within 15 minutes of approver authentication'')) (\<lambda>_.
     attempt (ensure (issued < expires) (err ''$.expires_at'' ''must be later than issued_at'')) (\<lambda>_.
     attempt (ensure (expires - issued \<le> MAX_APPROVAL_LIFETIME_SECONDS * 1000000)
                (err ''$.expires_at'' ''approval lifetime must not exceed 24 hours'')) (\<lambda>_.
     Inr (issued_at, expires_at, approver)))))))))"

definition parse_approval_signature :: "dict \<Rightarrow> approval_error + approval_signature" where
  "parse_approval_signature obj =
     (let err = Approval_invalid assertion_name in
     attempt (wire_enum err signature_algorithm_value signature_algorithm_members
                ''$.signature.algorithm'' (jget obj ''algorithm'')) (\<lambda>algorithm.
     attempt (wire_enum err signature_canonicalization_value signature_canonicalization_members
                ''$.signature.canonicalization'' (jget obj ''canonicalization'')) (\<lambda>canonicalization.
     attempt (wire_base64url err 64 ''$.signature.value'' (jget obj ''value'')) (\<lambda>val.
     Inr \<lparr>ps_algorithm = algorithm, ps_canonicalization = canonicalization, ps_value = val\<rparr>))))"

definition parse_approval_assertion :: "json \<Rightarrow> approval_error + approval_assertion" where
  "parse_approval_assertion document =
     (let name = assertion_name; err = Approval_invalid name in
     attempt (wire_object err ''$'' assertion_keys [''exception''] document) (\<lambda>rt.
     attempt (ensure (jget rt ''schema_version'' = JStr APPROVAL_ASSERTION_SCHEMA_VERSION)
                (err ''$.schema_version'' (''expected '' @ APPROVAL_ASSERTION_SCHEMA_VERSION))) (\<lambda>_.
     attempt (parse_assertion_action rt) (\<lambda>(action, gate_effect, exc).
     attempt (parse_assertion_times rt) (\<lambda>(issued_at, expires_at, approver).
     attempt (wire_object err ''$.signature'' [''algorithm'', ''canonicalization'', ''value''] []
                (jget rt ''signature'')) (\<lambda>signature_obj.
     attempt (approval_id name ''$.assertion_id'' (jget rt ''assertion_id'')) (\<lambda>assertion_id.
     attempt (parse_authority ''$.authority'' name (jget rt ''authority'')) (\<lambda>authority.
     attempt (parse_approval_subject ''$.subject'' name (jget rt ''subject'')) (\<lambda>subject.
     attempt (approval_id name ''$.revocation_list_id'' (jget rt ''revocation_list_id'')) (\<lambda>list_id.
     attempt (parse_approval_signature signature_obj) (\<lambda>signature.
     Inr \<lparr>aa_schema_version = APPROVAL_ASSERTION_SCHEMA_VERSION, aa_assertion_id = assertion_id,
          aa_authority = authority, aa_approver = approver, aa_action = action, aa_gate_effect = gate_effect,
          aa_issued_at = issued_at, aa_expires_at = expires_at, aa_subject = subject,
          aa_revocation_list_id = list_id, aa_signature = signature, aa_exception = exc\<rparr>)))))))))))"

abbreviation approval_store_name :: string where "approval_store_name \<equiv> ''approval trust store''"

definition parse_allowed_action :: "string \<Rightarrow> nat \<Rightarrow> json \<Rightarrow> approval_error + approval_action" where
  "parse_allowed_action path index item =
     wire_enum (Approval_invalid approval_store_name) approval_action_value approval_action_members
       (at_index (sub path ''allowed_actions'') index) item"

definition parse_approval_key :: "nat \<Rightarrow> json \<Rightarrow> approval_error + trusted_approval_key" where
  "parse_approval_key index item =
     (let name = approval_store_name; err = Approval_invalid name; path = at_index ''$.keys'' index in
     attempt (wire_object err path
                [''key_id'', ''authority_id'', ''algorithm'', ''public_key_base64url'', ''valid_from'', ''valid_until'',
                 ''allowed_actions''] [] item) (\<lambda>obj.
     attempt (wire_timestamp err (sub path ''valid_from'') (jget obj ''valid_from'')) (\<lambda>valid_from.
     attempt (wire_timestamp err (sub path ''valid_until'') (jget obj ''valid_until'')) (\<lambda>valid_until.
     attempt (ensure (timestamp_value valid_from < timestamp_value valid_until)
                (err (sub path ''valid_until'') ''must be later than valid_from'')) (\<lambda>_.
     attempt (wire_array err 1 (length approval_action_members) (sub path ''allowed_actions'')
                (jget obj ''allowed_actions'')) (\<lambda>items.
     attempt (each (parse_allowed_action path) 0 items) (\<lambda>actions.
     attempt (ensure (sort_key approval_action_value actions = actions \<and> distinct actions)
                (err (sub path ''allowed_actions'') ''must be unique and sorted'')) (\<lambda>_.
     attempt (approval_id name (sub path ''key_id'') (jget obj ''key_id'')) (\<lambda>key_id.
     attempt (approval_id name (sub path ''authority_id'') (jget obj ''authority_id'')) (\<lambda>authority_id.
     attempt (wire_enum err signature_algorithm_value signature_algorithm_members
                (sub path ''algorithm'') (jget obj ''algorithm'')) (\<lambda>algorithm.
     attempt (wire_base64url err 32 (sub path ''public_key_base64url'') (jget obj ''public_key_base64url''))
       (\<lambda>public_key.
     Inr \<lparr>ak_key_id = key_id, ak_authority_id = authority_id, ak_algorithm = algorithm,
          ak_public_key_base64url = public_key, ak_valid_from = valid_from, ak_valid_until = valid_until,
          ak_allowed_actions = actions\<rparr>))))))))))))"

definition parse_approval_trust_store :: "json \<Rightarrow> approval_error + approval_trust_store" where
  "parse_approval_trust_store document =
     (let name = approval_store_name; err = Approval_invalid name in
     attempt (wire_object err ''$'' [''schema_version'', ''store_id'', ''revocation_list_id'', ''keys''] [] document) (\<lambda>rt.
     attempt (ensure (jget rt ''schema_version'' = JStr APPROVAL_TRUST_STORE_SCHEMA_VERSION)
                (err ''$.schema_version'' (''expected '' @ APPROVAL_TRUST_STORE_SCHEMA_VERSION))) (\<lambda>_.
     attempt (wire_array err 1 1000 ''$.keys'' (jget rt ''keys'')) (\<lambda>items.
     attempt (each parse_approval_key 0 items) (\<lambda>keys.
     attempt (ensure (distinct (map ak_key_id keys)) (err ''$.keys'' ''key IDs must be unique'')) (\<lambda>_.
     attempt (approval_id name ''$.store_id'' (jget rt ''store_id'')) (\<lambda>store_id.
     attempt (approval_id name ''$.revocation_list_id'' (jget rt ''revocation_list_id'')) (\<lambda>list_id.
     Inr \<lparr>as_schema_version = APPROVAL_TRUST_STORE_SCHEMA_VERSION, as_store_id = store_id,
          as_revocation_list_id = list_id, as_keys = keys\<rparr>))))))))"

abbreviation approval_list_name :: string where "approval_list_name \<equiv> ''approval revocation list''"

definition parse_approval_revocation :: "nat \<Rightarrow> json \<Rightarrow> approval_error + approval_key_revocation" where
  "parse_approval_revocation index item =
     (let name = approval_list_name; err = Approval_invalid name; path = at_index ''$.revoked_keys'' index in
     attempt (wire_object err path [''key_id'', ''revoked_at'', ''mode'', ''reason''] [] item) (\<lambda>obj.
     attempt (approval_id name (sub path ''key_id'') (jget obj ''key_id'')) (\<lambda>key_id.
     attempt (wire_timestamp err (sub path ''revoked_at'') (jget obj ''revoked_at'')) (\<lambda>revoked_at.
     attempt (wire_enum err revocation_mode_value revocation_mode_members
                (sub path ''mode'') (jget obj ''mode'')) (\<lambda>mode.
     attempt (wire_string err 512 (Some no_control) (sub path ''reason'') (jget obj ''reason'')) (\<lambda>reason.
     Inr \<lparr>av_key_id = key_id, av_revoked_at = revoked_at, av_mode = mode, av_reason = reason\<rparr>))))))"

definition parse_approval_revocation_list :: "json \<Rightarrow> approval_error + approval_revocation_list" where
  "parse_approval_revocation_list document =
     (let name = approval_list_name; err = Approval_invalid name in
     attempt (wire_object err ''$'' [''schema_version'', ''list_id'', ''updated_at'', ''revoked_keys''] [] document) (\<lambda>rt.
     attempt (ensure (jget rt ''schema_version'' = JStr APPROVAL_REVOCATION_LIST_SCHEMA_VERSION)
                (err ''$.schema_version'' (''expected '' @ APPROVAL_REVOCATION_LIST_SCHEMA_VERSION))) (\<lambda>_.
     attempt (wire_array err 0 10000 ''$.revoked_keys'' (jget rt ''revoked_keys'')) (\<lambda>items.
     attempt (each parse_approval_revocation 0 items) (\<lambda>revoked.
     attempt (ensure (distinct (map av_key_id revoked)) (err ''$.revoked_keys'' ''key IDs must be unique'')) (\<lambda>_.
     attempt (approval_id name ''$.list_id'' (jget rt ''list_id'')) (\<lambda>list_id.
     attempt (wire_timestamp err ''$.updated_at'' (jget rt ''updated_at'')) (\<lambda>updated_at.
     Inr \<lparr>al_schema_version = APPROVAL_REVOCATION_LIST_SCHEMA_VERSION, al_list_id = list_id,
          al_updated_at = updated_at, al_revoked_keys = revoked\<rparr>))))))))"

subsection \<open>Rendering\<close>

definition approval_document_subject_to_json :: "approval_document_subject \<Rightarrow> json" where
  "approval_document_subject_to_json d = JObj [(''media_type'', JStr (ad_media_type d)),
     (''sha256'', JStr (ad_sha256 d)), (''byte_count'', JInt (ad_byte_count d))]"

definition approval_subject_to_json :: "approval_subject \<Rightarrow> json" where
  "approval_subject_to_json s = JObj [(''publication'', approval_document_subject_to_json (su_publication s)),
     (''verification'', approval_document_subject_to_json (su_verification s))]"

definition authority_to_json :: "approval_authority \<Rightarrow> json" where
  "authority_to_json a = JObj [(''authority_id'', JStr (au_authority_id a)), (''key_id'', JStr (au_key_id a))]"

definition approver_to_json :: "approver_identity \<Rightarrow> json" where
  "approver_to_json a = JObj [(''identity_provider'', JStr (ap_identity_provider a)),
     (''subject_id'', JStr (ap_subject_id a)),
     (''authentication_method'', JStr (approval_authentication_method_value (ap_authentication_method a))),
     (''authentication_event_id'', JStr (ap_authentication_event_id a)),
     (''authenticated_at'', JStr (ap_authenticated_at a))]"

definition exception_to_json :: "policy_exception \<Rightarrow> json" where
  "exception_to_json e = JObj [(''finding_codes'', JArr (map JStr (px_finding_codes e))),
     (''justification'', JStr (px_justification e))]"

definition assertion_fields :: "approval_assertion \<Rightarrow> json \<Rightarrow> json" where
  \<comment> \<open>an absent exception is left out\<close>
  "assertion_fields a signature = JObj ([(''schema_version'', JStr (aa_schema_version a)),
     (''assertion_id'', JStr (aa_assertion_id a)), (''authority'', authority_to_json (aa_authority a)),
     (''approver'', approver_to_json (aa_approver a)), (''action'', JStr (approval_action_value (aa_action a))),
     (''gate_effect'', JStr (approval_gate_effect_value (aa_gate_effect a))),
     (''issued_at'', JStr (aa_issued_at a)), (''expires_at'', JStr (aa_expires_at a)),
     (''subject'', approval_subject_to_json (aa_subject a)),
     (''revocation_list_id'', JStr (aa_revocation_list_id a)), (''signature'', signature)]
     @ (case aa_exception a of None \<Rightarrow> [] | Some e \<Rightarrow> [(''exception'', exception_to_json e)]))"

definition approval_signature_to_json :: "approval_signature \<Rightarrow> json" where
  "approval_signature_to_json s = JObj [(''algorithm'', JStr (signature_algorithm_value (ps_algorithm s))),
     (''canonicalization'', JStr (signature_canonicalization_value (ps_canonicalization s))),
     (''value'', JStr (ps_value s))]"

definition assertion_to_json :: "approval_assertion \<Rightarrow> json" where
  "assertion_to_json a = assertion_fields a (approval_signature_to_json (aa_signature a))"

definition approval_payload_document :: "approval_assertion \<Rightarrow> json" where
  "approval_payload_document a = assertion_fields a (JObj
     [(''algorithm'', JStr (signature_algorithm_value (ps_algorithm (aa_signature a)))),
      (''canonicalization'', JStr (signature_canonicalization_value (ps_canonicalization (aa_signature a))))])"

definition approval_payload_bytes :: "approval_assertion \<Rightarrow> string" where
  \<comment> \<open>the document holds no float\<close>
  "approval_payload_bytes a = utf8_bytes (canonical_json (\<lambda>_. []) (approval_payload_document a))"

definition approval_key_to_json :: "trusted_approval_key \<Rightarrow> json" where
  "approval_key_to_json k = JObj [(''key_id'', JStr (ak_key_id k)), (''authority_id'', JStr (ak_authority_id k)),
     (''algorithm'', JStr (signature_algorithm_value (ak_algorithm k))),
     (''public_key_base64url'', JStr (ak_public_key_base64url k)),
     (''valid_from'', JStr (ak_valid_from k)), (''valid_until'', JStr (ak_valid_until k)),
     (''allowed_actions'', JArr (map (\<lambda>a. JStr (approval_action_value a)) (ak_allowed_actions k)))]"

definition approval_store_to_json :: "approval_trust_store \<Rightarrow> json" where
  "approval_store_to_json t = JObj [(''schema_version'', JStr (as_schema_version t)),
     (''store_id'', JStr (as_store_id t)), (''revocation_list_id'', JStr (as_revocation_list_id t)),
     (''keys'', JArr (map approval_key_to_json (as_keys t)))]"

definition approval_revocation_to_json :: "approval_key_revocation \<Rightarrow> json" where
  "approval_revocation_to_json k = JObj [(''key_id'', JStr (av_key_id k)), (''revoked_at'', JStr (av_revoked_at k)),
     (''mode'', JStr (revocation_mode_value (av_mode k))), (''reason'', JStr (av_reason k))]"

definition approval_list_to_json :: "approval_revocation_list \<Rightarrow> json" where
  "approval_list_to_json r = JObj [(''schema_version'', JStr (al_schema_version r)),
     (''list_id'', JStr (al_list_id r)), (''updated_at'', JStr (al_updated_at r)),
     (''revoked_keys'', JArr (map approval_revocation_to_json (al_revoked_keys r)))]"

definition approval_verification_to_json :: "approval_verification \<Rightarrow> json" where
  "approval_verification_to_json v = JObj ([(''schema_version'', JStr (pv_schema_version v)),
     (''verifier_version'', JStr (pv_verifier_version v)), (''status'', JStr (pv_status v)),
     (''checked_at'', JStr (pv_checked_at v)), (''assertion'', approval_document_subject_to_json (pv_assertion v)),
     (''authority'', authority_to_json (pv_authority v)), (''approver'', approver_to_json (pv_approver v)),
     (''action'', JStr (approval_action_value (pv_action v))),
     (''gate_effect'', JStr (approval_gate_effect_value (pv_gate_effect v))),
     (''issued_at'', JStr (pv_issued_at v)), (''expires_at'', JStr (pv_expires_at v)),
     (''subject'', approval_subject_to_json (pv_subject v)), (''review'', review_to_json (pv_review v)),
     (''tfvc'', tfvc_to_json (pv_tfvc v)), (''build_id'', JInt (pv_build_id v)),
     (''trust_store_id'', JStr (pv_trust_store_id v)), (''revocation_list_id'', JStr (pv_revocation_list_id v)),
     (''revocation_list_updated_at'', JStr (pv_revocation_list_updated_at v))]
     @ (case pv_exception v of None \<Rightarrow> [] | Some e \<Rightarrow> [(''exception'', exception_to_json e)]))"

definition render_approval_assertion :: "(json \<Rightarrow> string) \<Rightarrow> approval_assertion \<Rightarrow> approval_error + string" where
  \<comment> \<open>the first argument is \<open>json.dumps\<close> with an indentation of two\<close>
  "render_approval_assertion dumps a = attempt (parse_approval_assertion (assertion_to_json a))
     (\<lambda>validated. Inr (dumps (assertion_to_json validated) @ [CHR 0x0A]))"

definition render_approval_verification :: "(json \<Rightarrow> string) \<Rightarrow> approval_verification \<Rightarrow> string" where
  "render_approval_verification dumps v = dumps (approval_verification_to_json v) @ [CHR 0x0A]"

subsection \<open>Accepted documents\<close>

lemmas approval_enums_Inr [strict_iff] =
  approval_action.wire_enum_Inr approval_authentication_method.wire_enum_Inr approval_gate_effect.wire_enum_Inr

lemmas approval_values_inj [strict_iff] =
  approval_action.inj_val approval_authentication_method.inj_val approval_gate_effect.inj_val

lemma approval_id_Inr [strict_iff]: "approval_id name path v = Inr s \<longleftrightarrow> v = JStr s \<and> safe_text_ok s"
  by (simp add: approval_id_def safe_text_ok_def wire_string_Some)

definition approval_document_ok :: "string \<Rightarrow> nat \<Rightarrow> approval_document_subject \<Rightarrow> bool" where
  "approval_document_ok media_type maximum_bytes d \<longleftrightarrow> ad_media_type d = media_type
     \<and> wire_text_ok 255 (ad_media_type d) \<and> wire_text_ok 64 (ad_sha256 d) \<and> sha256_ok (ad_sha256 d)
     \<and> 1 \<le> ad_byte_count d \<and> ad_byte_count d \<le> int maximum_bytes"

definition approval_subject_ok :: "approval_subject \<Rightarrow> bool" where
  "approval_subject_ok s \<longleftrightarrow>
     approval_document_ok PUBLICATION_MEDIA_TYPE MAX_AZURE_PUBLICATION_BYTES (su_publication s)
     \<and> approval_document_ok AZURE_VERIFICATION_MEDIA_TYPE MAX_AZURE_VERIFICATION_BYTES (su_verification s)"

definition authority_ok :: "approval_authority \<Rightarrow> bool" where
  "authority_ok a \<longleftrightarrow> safe_text_ok (au_authority_id a) \<and> safe_text_ok (au_key_id a)"

definition approver_ok :: "approver_identity \<Rightarrow> bool" where
  "approver_ok a \<longleftrightarrow> safe_text_ok (ap_identity_provider a) \<and> safe_text_ok (ap_subject_id a)
     \<and> safe_text_ok (ap_authentication_event_id a) \<and> wire_timestamp_ok (ap_authenticated_at a)"

definition finding_text_ok :: "string \<Rightarrow> bool" where
  "finding_text_ok s \<longleftrightarrow> wire_text_ok 128 s \<and> finding_code_ok s"

definition exception_ok :: "policy_exception \<Rightarrow> bool" where
  "exception_ok e \<longleftrightarrow> list_all finding_text_ok (px_finding_codes e)
     \<and> 1 \<le> length (px_finding_codes e) \<and> length (px_finding_codes e) \<le> 64
     \<and> sort (px_finding_codes e) = px_finding_codes e \<and> distinct (px_finding_codes e)
     \<and> wire_text_ok 2048 (px_justification e) \<and> no_control (px_justification e)"

definition assertion_times_ok :: "approval_assertion \<Rightarrow> bool" where
  \<comment> \<open>authenticated at most 15 minutes before issue, expiring within 24 hours of it\<close>
  "assertion_times_ok a \<longleftrightarrow> wire_timestamp_ok (aa_issued_at a) \<and> wire_timestamp_ok (aa_expires_at a)
     \<and> timestamp_value (ap_authenticated_at (aa_approver a)) \<le> timestamp_value (aa_issued_at a)
     \<and> timestamp_value (aa_issued_at a) - timestamp_value (ap_authenticated_at (aa_approver a))
         \<le> MAX_AUTHENTICATION_TO_ISSUE_SECONDS * 1000000
     \<and> timestamp_value (aa_issued_at a) < timestamp_value (aa_expires_at a)
     \<and> timestamp_value (aa_expires_at a) - timestamp_value (aa_issued_at a) \<le> MAX_APPROVAL_LIFETIME_SECONDS * 1000000"

definition assertion_action_ok :: "approval_assertion \<Rightarrow> bool" where
  "assertion_action_ok a \<longleftrightarrow> aa_gate_effect a = ApprovalGateEffect_RECORD_ONLY
     \<and> (aa_exception a = None \<longleftrightarrow> aa_action a = ApprovalAction_APPROVE)
     \<and> (case aa_exception a of None \<Rightarrow> True | Some e \<Rightarrow> exception_ok e)"

definition assertion_ok :: "approval_assertion \<Rightarrow> bool" where
  "assertion_ok a \<longleftrightarrow> aa_schema_version a = APPROVAL_ASSERTION_SCHEMA_VERSION \<and> safe_text_ok (aa_assertion_id a)
     \<and> authority_ok (aa_authority a) \<and> approver_ok (aa_approver a) \<and> assertion_action_ok a \<and> assertion_times_ok a
     \<and> approval_subject_ok (aa_subject a) \<and> safe_text_ok (aa_revocation_list_id a)
     \<and> encoded_ok 64 (ps_value (aa_signature a))"

definition approval_key_ok :: "trusted_approval_key \<Rightarrow> bool" where
  "approval_key_ok k \<longleftrightarrow> safe_text_ok (ak_key_id k) \<and> safe_text_ok (ak_authority_id k)
     \<and> encoded_ok 32 (ak_public_key_base64url k)
     \<and> wire_timestamp_ok (ak_valid_from k) \<and> wire_timestamp_ok (ak_valid_until k)
     \<and> timestamp_value (ak_valid_from k) < timestamp_value (ak_valid_until k)
     \<and> 1 \<le> length (ak_allowed_actions k) \<and> length (ak_allowed_actions k) \<le> length approval_action_members
     \<and> sort_key approval_action_value (ak_allowed_actions k) = ak_allowed_actions k \<and> distinct (ak_allowed_actions k)"

definition approval_store_ok :: "approval_trust_store \<Rightarrow> bool" where
  "approval_store_ok t \<longleftrightarrow> as_schema_version t = APPROVAL_TRUST_STORE_SCHEMA_VERSION
     \<and> safe_text_ok (as_store_id t) \<and> safe_text_ok (as_revocation_list_id t)
     \<and> 1 \<le> length (as_keys t) \<and> length (as_keys t) \<le> 1000
     \<and> list_all approval_key_ok (as_keys t) \<and> distinct (map ak_key_id (as_keys t))"

definition approval_revocation_ok :: "approval_key_revocation \<Rightarrow> bool" where
  "approval_revocation_ok k \<longleftrightarrow> safe_text_ok (av_key_id k) \<and> wire_timestamp_ok (av_revoked_at k)
     \<and> wire_text_ok 512 (av_reason k) \<and> no_control (av_reason k)"

definition approval_list_ok :: "approval_revocation_list \<Rightarrow> bool" where
  "approval_list_ok r \<longleftrightarrow> al_schema_version r = APPROVAL_REVOCATION_LIST_SCHEMA_VERSION
     \<and> safe_text_ok (al_list_id r) \<and> wire_timestamp_ok (al_updated_at r)
     \<and> length (al_revoked_keys r) \<le> 10000
     \<and> list_all approval_revocation_ok (al_revoked_keys r) \<and> distinct (map av_key_id (al_revoked_keys r))"

lemma parse_approval_document_render [strict_iff]:
  "parse_approval_document_subject m n path name (approval_document_subject_to_json d) = Inr e
    \<longleftrightarrow> e = d \<and> approval_document_ok m n d"
  by (cases d) (auto simp: parse_approval_document_subject_def approval_document_subject_to_json_def strict_iff
      exact_keys_def approval_document_ok_def Let_def)

lemma parse_approval_document_ok:
  "parse_approval_document_subject m n path name v = Inr d \<Longrightarrow> approval_document_ok m n d"
  by (auto simp: parse_approval_document_subject_def strict_iff approval_document_ok_def Let_def)

lemma parse_approval_subject_render [strict_iff]:
  "parse_approval_subject path name (approval_subject_to_json s) = Inr t \<longleftrightarrow> t = s \<and> approval_subject_ok s"
  by (cases s) (auto simp: parse_approval_subject_def approval_subject_to_json_def strict_iff exact_keys_def
      approval_subject_ok_def)

lemma parse_approval_subject_ok: "parse_approval_subject path name v = Inr s \<Longrightarrow> approval_subject_ok s"
  by (auto simp: parse_approval_subject_def strict_iff approval_subject_ok_def dest: parse_approval_document_ok)

lemma parse_authority_render [strict_iff]:
  "parse_authority path name (authority_to_json a) = Inr b \<longleftrightarrow> b = a \<and> authority_ok a"
  by (cases a) (auto simp: parse_authority_def authority_to_json_def strict_iff exact_keys_def authority_ok_def)

lemma parse_authority_ok: "parse_authority path name v = Inr a \<Longrightarrow> authority_ok a"
  by (auto simp: parse_authority_def strict_iff authority_ok_def)

lemma parse_approver_render [strict_iff]:
  "parse_approver path name (approver_to_json a) = Inr b \<longleftrightarrow> b = a \<and> approver_ok a"
  by (cases a) (auto simp: parse_approver_def approver_to_json_def strict_iff exact_keys_def approver_ok_def)

lemma parse_approver_ok: "parse_approver path name v = Inr a \<Longrightarrow> approver_ok a"
  by (auto simp: parse_approver_def strict_iff approver_ok_def)

interpretation finding_text_codec: exact_codec "parse_finding_text path name" JStr finding_text_ok for path name
  by unfold_locales (auto simp: parse_finding_text_def strict_iff finding_text_ok_def)

lemma finding_texts_each [strict_iff]:
  "each (parse_finding_text path name) i (map JStr xs) = Inr ys \<longleftrightarrow> ys = xs \<and> list_all finding_text_ok xs"
  by (rule finding_text_codec.each_exact)

lemma parse_exception_render [strict_iff]:
  "parse_exception path name (exception_to_json e) = Inr f \<longleftrightarrow> f = e \<and> exception_ok e"
  by (cases e) (auto simp: parse_exception_def exception_to_json_def strict_iff exact_keys_def exception_ok_def Let_def)

lemma parse_exception_ok: "parse_exception path name v = Inr e \<Longrightarrow> exception_ok e"
  by (auto simp: parse_exception_def strict_iff exception_ok_def Let_def dest: finding_text_codec.each_ok each_length)

interpretation allowed_action_codec:
  exact_codec "parse_allowed_action path" "\<lambda>a. JStr (approval_action_value a)" "\<lambda>_. True" for path
  by unfold_locales (auto simp: parse_allowed_action_def strict_iff)

lemma allowed_actions_each [strict_iff]:
  "each (parse_allowed_action path) i (map (\<lambda>a. JStr (approval_action_value a)) xs) = Inr ys \<longleftrightarrow> ys = xs"
  using allowed_action_codec.each_exact [of path i xs ys] by (simp add: list_all_iff)

lemma parse_approval_key_render:
  "parse_approval_key i (approval_key_to_json a) = Inr b \<longleftrightarrow> b = a \<and> approval_key_ok a"
  by (cases a) (auto simp: parse_approval_key_def approval_key_to_json_def approval_key_ok_def encoded_ok_def
      strict_iff exact_keys_def Let_def)

lemma parse_approval_key_ok: "parse_approval_key i v = Inr a \<Longrightarrow> approval_key_ok a"
  by (auto simp: parse_approval_key_def approval_key_ok_def encoded_ok_def strict_iff Let_def dest: each_length)

interpretation approval_key_codec: exact_codec parse_approval_key approval_key_to_json approval_key_ok
  by unfold_locales (simp_all add: parse_approval_key_render parse_approval_key_ok)

lemma approval_keys_each [strict_iff]:
  "each parse_approval_key i (map approval_key_to_json xs) = Inr ys \<longleftrightarrow> ys = xs \<and> list_all approval_key_ok xs"
  by (rule approval_key_codec.each_exact)

lemma parse_approval_revocation_render:
  "parse_approval_revocation i (approval_revocation_to_json a) = Inr b \<longleftrightarrow> b = a \<and> approval_revocation_ok a"
  by (cases a) (auto simp: parse_approval_revocation_def approval_revocation_to_json_def approval_revocation_ok_def
      strict_iff exact_keys_def Let_def)

lemma parse_approval_revocation_ok: "parse_approval_revocation i v = Inr a \<Longrightarrow> approval_revocation_ok a"
  by (auto simp: parse_approval_revocation_def approval_revocation_ok_def strict_iff Let_def)

interpretation approval_revocation_codec:
  exact_codec parse_approval_revocation approval_revocation_to_json approval_revocation_ok
  by unfold_locales (simp_all add: parse_approval_revocation_render parse_approval_revocation_ok)

lemma approval_revocations_each [strict_iff]:
  "each parse_approval_revocation i (map approval_revocation_to_json xs) = Inr ys
    \<longleftrightarrow> ys = xs \<and> list_all approval_revocation_ok xs"
  by (rule approval_revocation_codec.each_exact)

lemma parse_approval_store_render [strict_iff]:
  "parse_approval_trust_store (approval_store_to_json t) = Inr u \<longleftrightarrow> u = t \<and> approval_store_ok t"
  by (cases t) (auto simp: parse_approval_trust_store_def approval_store_to_json_def approval_store_ok_def
      strict_iff exact_keys_def Let_def)

lemma parse_approval_store_ok: "parse_approval_trust_store v = Inr t \<Longrightarrow> approval_store_ok t"
  by (auto simp: parse_approval_trust_store_def approval_store_ok_def strict_iff Let_def
      dest: approval_key_codec.each_ok each_length)

lemma parse_approval_list_render [strict_iff]:
  "parse_approval_revocation_list (approval_list_to_json t) = Inr u \<longleftrightarrow> u = t \<and> approval_list_ok t"
  by (cases t) (auto simp: parse_approval_revocation_list_def approval_list_to_json_def approval_list_ok_def
      strict_iff exact_keys_def Let_def)

lemma parse_approval_list_ok: "parse_approval_revocation_list v = Inr t \<Longrightarrow> approval_list_ok t"
  by (auto simp: parse_approval_revocation_list_def approval_list_ok_def strict_iff Let_def
      dest: approval_revocation_codec.each_ok each_length)

interpretation approval_store_codec:
  exact_codec "\<lambda>i. parse_approval_trust_store" approval_store_to_json approval_store_ok
  by unfold_locales (simp_all add: parse_approval_store_render parse_approval_store_ok)

interpretation approval_list_codec:
  exact_codec "\<lambda>i. parse_approval_revocation_list" approval_list_to_json approval_list_ok
  by unfold_locales (simp_all add: parse_approval_list_render parse_approval_list_ok)

lemma keys_between_optional:
  "keys_between required [k] obj \<longleftrightarrow>
    set required \<subseteq> set (map fst obj) \<and> set (map fst obj) \<subseteq> insert k (set required)"
  by (auto simp: keys_between_def)

lemma wire_object_optional [strict_iff]:
  "wire_object err path required [k] v = Inr obj \<longleftrightarrow> v = JObj obj \<and> keys_between required [k] obj"
  by (rule wire_object_optional_Inr)

lemma approval_action_cases: "a = ApprovalAction_EXCEPTION \<longleftrightarrow> a \<noteq> ApprovalAction_APPROVE"
  by (cases a) simp_all

definition exception_of :: "dict \<Rightarrow> policy_exception option \<Rightarrow> bool" where
  "exception_of rt exc \<longleftrightarrow> (if has_key rt ''exception''
     then \<exists>e. exc = Some e \<and> parse_exception ''$.exception'' assertion_name (jget rt ''exception'') = Inr e
     else exc = None)"

lemma parse_assertion_action_Inr [strict_iff]:
  "parse_assertion_action rt = Inr (action, eff, exc) \<longleftrightarrow>
    jget rt ''action'' = JStr (approval_action_value action)
    \<and> jget rt ''gate_effect'' = JStr (approval_gate_effect_value eff) \<and> eff = ApprovalGateEffect_RECORD_ONLY
    \<and> exception_of rt exc \<and> (exc = None \<longleftrightarrow> action = ApprovalAction_APPROVE)"
  by (cases exc) (auto simp: parse_assertion_action_def exception_of_def strict_iff Let_def approval_action_cases
      split: if_splits)

lemma parse_assertion_times_Inr [strict_iff]:
  "parse_assertion_times rt = Inr (issued, expires, approver) \<longleftrightarrow>
    jget rt ''issued_at'' = JStr issued \<and> wire_timestamp_ok issued
    \<and> jget rt ''expires_at'' = JStr expires \<and> wire_timestamp_ok expires
    \<and> parse_approver ''$.approver'' assertion_name (jget rt ''approver'') = Inr approver
    \<and> timestamp_value (ap_authenticated_at approver) \<le> timestamp_value issued
    \<and> timestamp_value issued - timestamp_value (ap_authenticated_at approver) \<le> MAX_AUTHENTICATION_TO_ISSUE_SECONDS * 1000000
    \<and> timestamp_value issued < timestamp_value expires
    \<and> timestamp_value expires - timestamp_value issued \<le> MAX_APPROVAL_LIFETIME_SECONDS * 1000000"
  by (auto simp: parse_assertion_times_def strict_iff Let_def)

lemma parse_approval_signature_Inr [strict_iff]:
  "parse_approval_signature obj = Inr s \<longleftrightarrow>
    jget obj ''algorithm'' = JStr (signature_algorithm_value (ps_algorithm s))
    \<and> jget obj ''canonicalization'' = JStr (signature_canonicalization_value (ps_canonicalization s))
    \<and> jget obj ''value'' = JStr (ps_value s) \<and> encoded_ok 64 (ps_value s)"
  by (cases s) (auto simp: parse_approval_signature_def strict_iff Let_def encoded_ok_def)

definition assertion_dict :: "approval_assertion \<Rightarrow> dict" where
  "assertion_dict a = (case assertion_to_json a of JObj rt \<Rightarrow> rt | _ \<Rightarrow> [])"

lemma assertion_dict: "assertion_to_json a = JObj (assertion_dict a)"
  by (simp add: assertion_dict_def assertion_to_json_def assertion_fields_def)

lemma assertion_dict_get:
  "jget (assertion_dict a) ''schema_version'' = JStr (aa_schema_version a)"
  "jget (assertion_dict a) ''assertion_id'' = JStr (aa_assertion_id a)"
  "jget (assertion_dict a) ''authority'' = authority_to_json (aa_authority a)"
  "jget (assertion_dict a) ''approver'' = approver_to_json (aa_approver a)"
  "jget (assertion_dict a) ''action'' = JStr (approval_action_value (aa_action a))"
  "jget (assertion_dict a) ''gate_effect'' = JStr (approval_gate_effect_value (aa_gate_effect a))"
  "jget (assertion_dict a) ''issued_at'' = JStr (aa_issued_at a)"
  "jget (assertion_dict a) ''expires_at'' = JStr (aa_expires_at a)"
  "jget (assertion_dict a) ''subject'' = approval_subject_to_json (aa_subject a)"
  "jget (assertion_dict a) ''revocation_list_id'' = JStr (aa_revocation_list_id a)"
  "jget (assertion_dict a) ''signature'' = approval_signature_to_json (aa_signature a)"
  "keys_between assertion_keys [''exception''] (assertion_dict a)"
  by (cases "aa_exception a"; simp add: assertion_dict_def assertion_to_json_def assertion_fields_def
      keys_between_optional assertion_keys_def)+

lemma assertion_dict_exception:
  "exception_of (assertion_dict a) exc \<longleftrightarrow>
    exc = aa_exception a \<and> (case aa_exception a of None \<Rightarrow> True | Some e \<Rightarrow> exception_ok e)"
  by (auto simp: exception_of_def assertion_dict_def assertion_to_json_def assertion_fields_def has_key_def
      parse_exception_render split: option.split)

lemma signature_fields:
  "approval_signature_to_json s = JObj sig \<longleftrightarrow> sig = [(''algorithm'', JStr (signature_algorithm_value (ps_algorithm s))),
     (''canonicalization'', JStr (signature_canonicalization_value (ps_canonicalization s))),
     (''value'', JStr (ps_value s))]"
  "exact_keys [''algorithm'', ''canonicalization'', ''value''] [(''algorithm'', u), (''canonicalization'', v), (''value'', w)]"
  "parse_approval_signature [(''algorithm'', JStr (signature_algorithm_value (ps_algorithm s))),
     (''canonicalization'', JStr (signature_canonicalization_value (ps_canonicalization s))),
     (''value'', JStr (ps_value s))] = Inr t \<longleftrightarrow> t = s \<and> encoded_ok 64 (ps_value s)"
proof -
  show "approval_signature_to_json s = JObj sig \<longleftrightarrow> sig = [(''algorithm'', JStr (signature_algorithm_value (ps_algorithm s))),
     (''canonicalization'', JStr (signature_canonicalization_value (ps_canonicalization s))),
     (''value'', JStr (ps_value s))]"
    unfolding approval_signature_to_json_def json.inject by (rule eq_commute)
  show "exact_keys [''algorithm'', ''canonicalization'', ''value''] [(''algorithm'', u), (''canonicalization'', v), (''value'', w)]"
    by (simp add: exact_keys_def)
  show "parse_approval_signature [(''algorithm'', JStr (signature_algorithm_value (ps_algorithm s))),
     (''canonicalization'', JStr (signature_canonicalization_value (ps_canonicalization s))),
     (''value'', JStr (ps_value s))] = Inr t \<longleftrightarrow> t = s \<and> encoded_ok 64 (ps_value s)"
    by (cases s; cases t) (auto simp: parse_approval_signature_Inr signature_algorithm.inj_val
        signature_canonicalization.inj_val simp del: signature_algorithm_value.simps signature_canonicalization_value.simps)
qed

lemma parse_approval_assertion_render [strict_iff]:
  "parse_approval_assertion (assertion_to_json a) = Inr b \<longleftrightarrow> b = a \<and> assertion_ok a"
proof -
  have "parse_approval_assertion (assertion_to_json a) = Inr b \<longleftrightarrow>
    b = \<lparr>aa_schema_version = APPROVAL_ASSERTION_SCHEMA_VERSION, aa_assertion_id = aa_assertion_id a,
          aa_authority = aa_authority a, aa_approver = aa_approver a, aa_action = aa_action a,
          aa_gate_effect = aa_gate_effect a, aa_issued_at = aa_issued_at a, aa_expires_at = aa_expires_at a,
          aa_subject = aa_subject a, aa_revocation_list_id = aa_revocation_list_id a,
          aa_signature = aa_signature a, aa_exception = aa_exception a\<rparr> \<and> assertion_ok a"
    unfolding parse_approval_assertion_def Let_def assertion_dict
    by (simp only: attempt_Inr ensure_Inr wire_object_optional wire_object_Inr approval_id_Inr split_paired_Ex
        prod.case json.inject simp_thms sum.inject parse_assertion_action_Inr parse_assertion_times_Inr)
      (auto simp: assertion_dict_get assertion_dict_exception signature_fields parse_authority_render
        parse_approver_render parse_approval_subject_render approval_values_inj
        assertion_ok_def assertion_action_ok_def assertion_times_ok_def simp del: approval_action_value.simps approval_gate_effect_value.simps)
  then show ?thesis by (cases a) (auto simp: assertion_ok_def)
qed

lemma parse_approval_assertion_ok: "parse_approval_assertion v = Inr a \<Longrightarrow> assertion_ok a"
  by (clarsimp simp only: parse_approval_assertion_def Let_def strict_iff split_paired_Ex prod.case)
    (auto simp: assertion_ok_def assertion_action_ok_def assertion_times_ok_def exception_of_def
      split: if_splits option.splits
      dest: parse_authority_ok parse_approver_ok parse_approval_subject_ok parse_exception_ok)

interpretation assertion_codec: exact_codec "\<lambda>i. parse_approval_assertion" assertion_to_json assertion_ok
  by unfold_locales (simp_all add: parse_approval_assertion_render parse_approval_assertion_ok)

end
