(* ===== verification/Approvals.thy ===== *)
theory Approvals
  imports Approval_Documents
begin

text \<open>
  The operations of \<open>approvals.py\<close>: issuing a signed approval or policy exception over the exact
  bytes of a publication and its verification receipt, and verifying one. The checks of the Azure
  layer are those of Azure_Verification; Ed25519 is the parameter \<open>ed25519\<close>.
\<close>

subsection \<open>Keys and subjects\<close>

definition approval_cryptography_types :: "ed25519 \<Rightarrow> approval_error + unit" where
  "approval_cryptography_types ed = ensure (ed_installed ed) (Approval_key_error
     (''Ed25519 approval support requires: pip install '' @ [CHR 0x22] @ ''causure[approval]'' @ [CHR 0x22]))"

definition load_approval_key :: "ed25519 \<Rightarrow> string \<Rightarrow> string option \<Rightarrow> approval_error + string" where
  "load_approval_key ed private_key_pem password =
     attempt (approval_cryptography_types ed) (\<lambda>_.
     case ed_load_private ed private_key_pem password of
       Load_failed \<Rightarrow> Inl (Approval_key_error
         ''Ed25519 private key could not be loaded; check the key and password'')
     | Foreign_key \<Rightarrow> Inl (Approval_key_error ''private key must be an Ed25519 PEM key'')
     | Ed25519_key k \<Rightarrow> Inr k)"

definition document_subject ::
  "library \<Rightarrow> string \<Rightarrow> nat \<Rightarrow> string \<Rightarrow> string \<Rightarrow> approval_error + approval_document_subject" where
  "document_subject lib media_type maximum_bytes role raw_bytes =
     (if raw_bytes = [] then Inl (Approval_invalid role ''$'' ''document must contain exact non-empty bytes'')
      else if maximum_bytes < length raw_bytes then
        Inl (Approval_invalid role ''$'' (''document exceeds the '' @ dec_nat maximum_bytes @ ''-byte limit''))
      else Inr \<lparr>ad_media_type = media_type, ad_sha256 = lib_sha256 lib raw_bytes,
                ad_byte_count = int (length raw_bytes)\<rparr>)"

definition assert_subject_matches ::
  "library \<Rightarrow> string \<Rightarrow> approval_document_subject \<Rightarrow> string \<Rightarrow> approval_error + unit" where
  "assert_subject_matches lib role expected raw_bytes =
     (let spoken = py_replace ''_'' '' '' role in
      if int (length raw_bytes) \<noteq> ad_byte_count expected then
        Inl (Approval_failed (role @ ''_size_mismatch'') (spoken @ '' byte count does not match the signed subject''))
      else if lib_sha256 lib raw_bytes \<noteq> ad_sha256 expected then
        Inl (Approval_failed (role @ ''_digest_mismatch'') (spoken @ '' SHA-256 does not match the signed subject''))
      else Inr ())"

subsection \<open>The chain of documents\<close>

definition from_azure :: "azure_error + 'a \<Rightarrow> approval_error + 'a" where
  \<comment> \<open>\<open>except AzureReviewValidationError as exc: raise ApprovalValidationError("approval subject", "$", str(exc))\<close>\<close>
  "from_azure m = (case m of
     Inr x \<Rightarrow> Inr x
   | Inl Plain_value_error \<Rightarrow> Inl Approval_plain_value_error
   | Inl e \<Rightarrow> Inl (Approval_invalid ''approval subject'' ''$'' (azure_error_text e)))"

record receipt_chain =
  ch_publication :: azure_review_publication
  ch_verification :: azure_review_verification
  ch_consequential_codes :: "string list"

definition check_chain ::
  "library \<Rightarrow> string \<Rightarrow> string \<Rightarrow> azure_review_publication \<Rightarrow> azure_review_verification \<Rightarrow> review_binding
    \<Rightarrow> approval_error + unit" where
  "check_chain lib publication_bytes review_result_bytes publication verification review =
     (let err = Approval_invalid ''approval subject'' in
     attempt (ensure (arv_publication verification =
         \<lparr>psu_media_type = PUBLICATION_MEDIA_TYPE, psu_sha256 = lib_sha256 lib publication_bytes,
          psu_byte_count = int (length publication_bytes)\<rparr>)
       (err ''$.verification.publication'' ''does not bind the exact supplied publication bytes'')) (\<lambda>_.
     attempt (ensure (arv_review verification = arp_review publication \<and> review = arp_review publication)
       (err ''$.verification.review'' ''review identity does not match the exact publication and result'')) (\<lambda>_.
     attempt (ensure (arv_tfvc verification = arp_tfvc publication)
       (err ''$.verification.tfvc'' ''TFVC target does not match the exact publication'')) (\<lambda>_.
     attempt (ensure (arv_build_id verification = bc_build_id (arp_build publication))
       (err ''$.verification.build_id'' ''build ID does not match the exact publication'')) (\<lambda>_.
     attempt (ensure (arv_artifacts verification = arp_artifacts publication)
       (err ''$.verification.artifacts'' ''artifact bindings do not match the exact publication'')) (\<lambda>_.
     let result_artifact = ra_review_result (arp_artifacts publication);
         created = timestamp_value (arp_created_at publication);
         verified = timestamp_value (arv_verified_at verification) in
     attempt (ensure (int (length review_result_bytes) = ai_byte_count result_artifact)
       (err ''$.result'' ''review-result byte count does not match the publication'')) (\<lambda>_.
     attempt (ensure (lib_sha256 lib review_result_bytes = ai_sha256 result_artifact)
       (err ''$.result'' ''review-result SHA-256 does not match the publication'')) (\<lambda>_.
     attempt (ensure (created \<le> verified)
       (err ''$.verification.verified_at'' ''must be at or after publication creation'')) (\<lambda>_.
     ensure (age_seconds (arv_verified_at verification) (arp_created_at publication)
               = arv_publication_age_seconds verification)
       (err ''$.verification.publication_age_seconds''
          ''does not match the publication and verification timestamps''))))))))))"

definition consequential_codes :: "review_finding_binding list \<Rightarrow> string list" where
  "consequential_codes findings =
     sort (map rfb_code (filter (\<lambda>f. rfb_consequence f \<noteq> Consequence_NONE) findings))"

definition validate_receipt_chain ::
  "library \<Rightarrow> (string \<Rightarrow> bool) \<Rightarrow> string \<Rightarrow> string \<Rightarrow> string \<Rightarrow> approval_error + receipt_chain" where
  "validate_receipt_chain lib bracketed publication_bytes verification_bytes review_result_bytes =
     attempt (from_azure (parse_azure_review_publication_bytes lib bracketed publication_bytes)) (\<lambda>publication.
     attempt (from_azure (parse_azure_review_verification_bytes lib verification_bytes)) (\<lambda>verification.
     attempt (from_azure (parse_review_result_bytes lib review_result_bytes)) (\<lambda>review.
     attempt (from_azure (parse_review_result_findings_bytes lib review_result_bytes)) (\<lambda>findings.
     attempt (check_chain lib publication_bytes review_result_bytes publication verification review) (\<lambda>_.
     Inr \<lparr>ch_publication = publication, ch_verification = verification,
          ch_consequential_codes = consequential_codes findings\<rparr>)))))"

definition validate_action_scope :: "approval_assertion \<Rightarrow> receipt_chain \<Rightarrow> approval_error + unit" where
  "validate_action_scope assertion chain =
     (let err = Approval_invalid assertion_name; codes = ch_consequential_codes chain;
          decision = rvb_decision (arp_review (ch_publication chain));
          verified = timestamp_value (arv_verified_at (ch_verification chain));
          authenticated = timestamp_value (ap_authenticated_at (aa_approver assertion)) in
     attempt (ensure (verified \<le> authenticated)
       (err ''$.approver.authenticated_at'' ''must be at or after the bound pre-approval verification'')) (\<lambda>_.
     attempt (ensure (authenticated - verified \<le> MAX_VERIFICATION_TO_AUTHENTICATION_SECONDS * 1000000)
       (err ''$.approver.authenticated_at'' ''must be within 24 hours of the bound pre-approval verification'')) (\<lambda>_.
     attempt (ensure (timestamp_value (aa_expires_at assertion) - verified \<le> MAX_APPROVAL_LIFETIME_SECONDS * 1000000)
       (err ''$.expires_at'' ''must be within 24 hours of the bound pre-approval verification'')) (\<lambda>_.
     if aa_action assertion = ApprovalAction_APPROVE then
       ensure (decision = Decision_APPROVE) (err ''$.action'' ''approve is valid only for an approve gate decision'')
     else
     attempt (ensure (decision \<noteq> Decision_APPROVE)
       (err ''$.action'' ''exception is valid only for a non-approve gate decision'')) (\<lambda>_.
     attempt (ensure (codes \<noteq> [])
       (err ''$.exception.finding_codes'' ''the non-approve result has no decision-affecting findings to except'')) (\<lambda>_.
     ensure (map_option px_finding_codes (aa_exception assertion) = Some codes)
       (err ''$.exception.finding_codes'' ''must exactly cover every decision-affecting finding'')))))))"

subsection \<open>Issuing\<close>

record approval_request =
  rq_assertion_id :: string
  rq_authority_id :: string
  rq_key_id :: string
  rq_approver_id :: string
  rq_identity_provider :: string
  rq_authentication_method :: string
  rq_authentication_event_id :: string
  rq_authenticated_at :: string
  rq_action :: string
  rq_issued_at :: string
  rq_expires_at :: string
  rq_revocation_list_id :: string
  rq_finding_codes :: "string list"
  rq_justification :: "string option"

definition requested_exception :: "approval_action \<Rightarrow> approval_request \<Rightarrow> approval_error + json option" where
  \<comment> \<open>an approval takes neither finding codes nor a justification; an exception takes both as they come\<close>
  "requested_exception action q =
     (let err = Approval_invalid assertion_name in
      if action = ApprovalAction_APPROVE then
        attempt (ensure (rq_finding_codes q = [])
          (err ''$.exception.finding_codes'' ''must be absent for an approve action'')) (\<lambda>_.
        attempt (ensure (rq_justification q = None)
          (err ''$.exception.justification'' ''must be absent for an approve action'')) (\<lambda>_.
        Inr None))
      else Inr (Some (JObj [(''finding_codes'', JArr (map JStr (sort (rq_finding_codes q)))),
        (''justification'', case rq_justification q of None \<Rightarrow> JNull | Some j \<Rightarrow> JStr j)])))"

definition assertion_request_document ::
  "approval_request \<Rightarrow> approval_action \<Rightarrow> json option \<Rightarrow> approval_subject \<Rightarrow> json" where
  "assertion_request_document q action exc subject = JObj
     ([(''schema_version'', JStr APPROVAL_ASSERTION_SCHEMA_VERSION), (''assertion_id'', JStr (rq_assertion_id q)),
       (''authority'', JObj [(''authority_id'', JStr (rq_authority_id q)), (''key_id'', JStr (rq_key_id q))]),
       (''approver'', JObj [(''identity_provider'', JStr (rq_identity_provider q)),
          (''subject_id'', JStr (rq_approver_id q)),
          (''authentication_method'', JStr (rq_authentication_method q)),
          (''authentication_event_id'', JStr (rq_authentication_event_id q)),
          (''authenticated_at'', JStr (rq_authenticated_at q))]),
       (''action'', JStr (approval_action_value action)),
       (''gate_effect'', JStr (approval_gate_effect_value ApprovalGateEffect_RECORD_ONLY)),
       (''issued_at'', JStr (rq_issued_at q)), (''expires_at'', JStr (rq_expires_at q)),
       (''subject'', approval_subject_to_json subject),
       (''revocation_list_id'', JStr (rq_revocation_list_id q)),
       (''signature'', JObj [(''algorithm'', JStr (signature_algorithm_value SignatureAlgorithm_ED25519)),
          (''canonicalization'', JStr (signature_canonicalization_value SignatureCanonicalization_CAUSURE_JSON_V1)),
          (''value'', JStr (base64url_encode (replicate 64 (CHR 0x00))))])]
      @ (case exc of None \<Rightarrow> [] | Some e \<Rightarrow> [(''exception'', e)]))"

definition create_approval_assertion ::
  "library \<Rightarrow> ed25519 \<Rightarrow> (string \<Rightarrow> bool) \<Rightarrow> string \<Rightarrow> string \<Rightarrow> string \<Rightarrow> approval_request \<Rightarrow> string
    \<Rightarrow> string option \<Rightarrow> approval_error + approval_assertion" where
  "create_approval_assertion lib ed bracketed publication_bytes verification_bytes review_result_bytes q
       private_key_pem password =
     attempt (ensure (private_key_pem \<noteq> []) (Approval_key_error ''private key must contain PEM bytes'')) (\<lambda>_.
     attempt (validate_receipt_chain lib bracketed publication_bytes verification_bytes review_result_bytes) (\<lambda>chain.
     attempt (case enum_lookup approval_action_value approval_action_members (rq_action q) of
                None \<Rightarrow> Inl (Approval_invalid assertion_name ''$.action'' ''expected approve or exception'')
              | Some a \<Rightarrow> Inr a) (\<lambda>action.
     attempt (requested_exception action q) (\<lambda>exc.
     attempt (document_subject lib PUBLICATION_MEDIA_TYPE MAX_AZURE_PUBLICATION_BYTES
                ''Azure review publication'' publication_bytes) (\<lambda>publication.
     attempt (document_subject lib AZURE_VERIFICATION_MEDIA_TYPE MAX_AZURE_VERIFICATION_BYTES
                ''Azure review verification'' verification_bytes) (\<lambda>verification.
     attempt (parse_approval_assertion (assertion_request_document q action exc
                \<lparr>su_publication = publication, su_verification = verification\<rparr>)) (\<lambda>assertion.
     attempt (validate_action_scope assertion chain) (\<lambda>_.
     attempt (load_approval_key ed private_key_pem password) (\<lambda>key.
     Inr (assertion\<lparr>aa_signature := (aa_signature assertion)
       \<lparr>ps_value := base64url_encode (ed_sign ed key (approval_payload_bytes assertion))\<rparr>\<rparr>))))))))))"

subsection \<open>Verifying\<close>

definition approval_error_text :: "approval_error \<Rightarrow> string" where
  "approval_error_text e = (case e of
     Approval_invalid name path message \<Rightarrow> ''Invalid '' @ name @ '' at '' @ path @ '': '' @ message
   | _ \<Rightarrow> [])"

definition read_assertion ::
  "library \<Rightarrow> (string \<Rightarrow> string) \<Rightarrow> string \<Rightarrow> approval_error + approval_document_subject \<times> approval_assertion" where
  \<comment> \<open>every failure to read the assertion is \<open>assertion_invalid\<close> with the text of the cause; the second
    argument is the text of the codec's own error\<close>
  "read_assertion lib codec_text assertion_bytes =
     (let bad = (\<lambda>text. Approval_failed ''assertion_invalid'' text);
          reading = (\<lambda>m. case m of Inr x \<Rightarrow> Inr x | Inl e \<Rightarrow> Inl (bad (approval_error_text e))) in
     attempt (reading (document_subject lib APPROVAL_ASSERTION_MEDIA_TYPE MAX_APPROVAL_ASSERTION_BYTES
                assertion_name assertion_bytes)) (\<lambda>subject.
     attempt (case lib_decode_utf8 lib assertion_bytes of
                None \<Rightarrow> Inl (bad (codec_text assertion_bytes)) | Some text \<Rightarrow> Inr text) (\<lambda>text.
     attempt (case parse_json_text lib text assertion_name MAX_APPROVAL_ASSERTION_BYTES of
                Inl e \<Rightarrow> Inl (bad e) | Inr document \<Rightarrow> Inr document) (\<lambda>document.
     attempt (case parse_approval_assertion document of
                Inl e \<Rightarrow> Inl (bad (approval_error_text e)) | Inr a \<Rightarrow> Inr a) (\<lambda>assertion.
     Inr (subject, assertion))))))"

definition approval_seconds :: "string \<Rightarrow> int \<Rightarrow> json \<Rightarrow> approval_error + int" where
  "approval_seconds message bound v = (case v of
     JInt i \<Rightarrow> if 0 \<le> i \<and> i \<le> bound then Inr i else Inl (Approval_value_error message)
   | _ \<Rightarrow> Inl (Approval_value_error message))"

definition select_approval_key ::
  "approval_assertion \<Rightarrow> approval_trust_store \<Rightarrow> approval_revocation_list \<Rightarrow> approval_error + trusted_approval_key" where
  "select_approval_key a store revocations =
     attempt (ensure (as_revocation_list_id store = aa_revocation_list_id a)
       (Approval_failed ''revocation_list_mismatch''
          (''assertion does not name the trust store'' @ [CHR 0x27] @ ''s revocation list''))) (\<lambda>_.
     attempt (ensure (al_list_id revocations = as_revocation_list_id store)
       (Approval_failed ''revocation_list_mismatch'' ''supplied revocation list does not match the trust store'')) (\<lambda>_.
     case find (\<lambda>k. ak_key_id k = au_key_id (aa_authority a)) (as_keys store) of
       None \<Rightarrow> Inl (Approval_failed ''untrusted_key'' ''approval-authority key is not present in the trust store'')
     | Some k \<Rightarrow>
         attempt (ensure (ak_authority_id k = au_authority_id (aa_authority a))
           (Approval_failed ''authority_mismatch'' ''approval authority is not bound to the selected key'')) (\<lambda>_.
         attempt (ensure (aa_action a \<in> set (ak_allowed_actions k))
           (Approval_failed ''action_not_authorized''
              ''trusted authority key is not authorized for this approval action'')) (\<lambda>_.
         attempt (ensure (ak_algorithm k = ps_algorithm (aa_signature a))
           (Approval_failed ''algorithm_mismatch'' ''assertion and trusted key algorithms do not match'')) (\<lambda>_.
         Inr k)))))"

definition check_approval_signature :: "ed25519 \<Rightarrow> approval_assertion \<Rightarrow> trusted_approval_key \<Rightarrow> approval_error + unit" where
  "check_approval_signature ed a k =
     attempt (approval_cryptography_types ed) (\<lambda>_.
     let public_bytes = lenient_bytes (ak_public_key_base64url k);
         signature_bytes = lenient_bytes (ps_value (aa_signature a)) in
     if \<not> ed_from_public_bytes ed public_bytes then
       Inl (Approval_failed ''invalid_public_key'' ''trusted Ed25519 public key could not be loaded'')
     else if \<not> ed_verify ed public_bytes signature_bytes (approval_payload_bytes a) then
       Inl (Approval_failed ''invalid_signature'' ''signature does not authenticate the approval assertion'')
     else Inr ())"

definition approval_after :: "string \<Rightarrow> int \<Rightarrow> approval_error + int" where
  \<comment> \<open>\<open>checked_time + skew\<close>; a date after year 9999 is an OverflowError\<close>
  "approval_after t seconds = (let v = timestamp_value t + seconds * 1000000 in
     if v < 3652060 * 86400 * 1000000 then Inr v else Inl Approval_overflow)"

definition check_approval_validity ::
  "approval_assertion \<Rightarrow> trusted_approval_key \<Rightarrow> string \<Rightarrow> int \<Rightarrow> approval_error + unit" where
  "check_approval_validity a k checked skew =
     (let issued = timestamp_value (aa_issued_at a); expires = timestamp_value (aa_expires_at a);
          key_start = timestamp_value (ak_valid_from k); key_end = timestamp_value (ak_valid_until k) in
     attempt (ensure (key_start \<le> issued)
       (Approval_failed ''key_not_yet_valid'' ''assertion was issued before the trusted key validity window'')) (\<lambda>_.
     attempt (ensure (issued < key_end \<and> expires \<le> key_end)
       (Approval_failed ''key_validity_exceeded''
          ''assertion validity is not contained by the key validity window'')) (\<lambda>_.
     attempt (approval_after checked skew) (\<lambda>latest.
     attempt (ensure (issued \<le> latest)
       (Approval_failed ''issued_in_future'' ''assertion issue time exceeds the allowed clock skew'')) (\<lambda>_.
     ensure (timestamp_value checked < expires)
       (Approval_failed ''approval_expired'' ''approval assertion validity window has ended''))))))"

definition check_approval_revocations ::
  "approval_assertion \<Rightarrow> trusted_approval_key \<Rightarrow> approval_revocation_list \<Rightarrow> string \<Rightarrow> int \<Rightarrow> int
    \<Rightarrow> approval_error + unit" where
  "check_approval_revocations a k revocations checked maximum_age skew =
     (let updated = timestamp_value (al_updated_at revocations) in
     attempt (approval_after checked skew) (\<lambda>latest.
     attempt (ensure (updated \<le> latest)
       (Approval_failed ''revocation_list_from_future''
          ''revocation list timestamp exceeds the allowed clock skew'')) (\<lambda>_.
     attempt (ensure (timestamp_value checked - updated \<le> (maximum_age + skew) * 1000000)
       (Approval_failed ''revocation_list_stale''
          ''revocation list is older than the allowed freshness window'')) (\<lambda>_.
     case find (\<lambda>e. av_key_id e = ak_key_id k) (al_revoked_keys revocations) of
       None \<Rightarrow> Inr ()
     | Some e \<Rightarrow> ensure (\<not> (av_mode e = RevocationMode_ALL_SIGNATURES
           \<or> timestamp_value (av_revoked_at e) \<le> timestamp_value (aa_issued_at a)))
         (Approval_failed ''key_revoked'' ''approval-authority key is revoked for this assertion'')))))"

definition chain_failure :: "approval_error \<Rightarrow> approval_error" where
  \<comment> \<open>the handlers around the chain: a verification error passes, a validation error of the approval or
    Azure layer becomes \<open>approval_chain_invalid\<close>, any other exception passes\<close>
  "chain_failure e = (case e of
     Approval_invalid _ _ _ \<Rightarrow> Approval_failed ''approval_chain_invalid''
       ''the signed Azure publication, receipt, or artifacts do not form a valid chain''
   | _ \<Rightarrow> e)"

definition expected_receipt ::
  "library \<Rightarrow> (string \<Rightarrow> bool) \<Rightarrow> string \<Rightarrow> string \<Rightarrow> string \<Rightarrow> tfvc_association \<Rightarrow> azure_build_context
    \<Rightarrow> azure_review_verification \<Rightarrow> approval_error + azure_review_verification" where
  "expected_receipt lib bracketed publication_bytes review_result_bytes review_report_bytes expected_tfvc
       expected_build verification =
     (case verify_azure_review_publication lib bracketed publication_bytes review_result_bytes review_report_bytes
         expected_tfvc expected_build (JStr (arv_verified_at verification))
         (JInt (arv_maximum_age_seconds verification)) of
        Inr v \<Rightarrow> Inr v
      | Inl Verification_value_error \<Rightarrow> Inl Approval_plain_value_error
      | Inl (Verification_error code message) \<Rightarrow> Inl (Approval_failed ''approval_chain_invalid''
          ''the signed Azure publication, receipt, or artifacts do not form a valid chain''))"

definition verify_approval_chain ::
  "library \<Rightarrow> (string \<Rightarrow> bool) \<Rightarrow> string \<Rightarrow> string \<Rightarrow> string \<Rightarrow> string \<Rightarrow> tfvc_association \<Rightarrow> azure_build_context
    \<Rightarrow> approval_assertion \<Rightarrow> approval_error + receipt_chain" where
  "verify_approval_chain lib bracketed publication_bytes verification_bytes review_result_bytes review_report_bytes
       expected_tfvc expected_build assertion =
     (case
       attempt (validate_receipt_chain lib bracketed publication_bytes verification_bytes review_result_bytes) (\<lambda>chain.
       attempt (expected_receipt lib bracketed publication_bytes review_result_bytes review_report_bytes
                  expected_tfvc expected_build (ch_verification chain)) (\<lambda>expected_verification.
       attempt (ensure (expected_verification = ch_verification chain)
         (Approval_failed ''verification_receipt_mismatch''
            ''supplied Azure verification is not the deterministic receipt for the artifacts'')) (\<lambda>_.
       attempt (validate_action_scope assertion chain) (\<lambda>_. Inr chain))))
      of Inr chain \<Rightarrow> Inr chain | Inl e \<Rightarrow> Inl (chain_failure e))"

record approval_inputs =
  \<comment> \<open>the bytes of the five documents, in the order of the arguments\<close>
  in_assertion :: string
  in_publication :: string
  in_verification :: string
  in_review_result :: string
  in_review_report :: string

definition verify_approval_assertion ::
  "library \<Rightarrow> ed25519 \<Rightarrow> (string \<Rightarrow> bool) \<Rightarrow> (string \<Rightarrow> string) \<Rightarrow> approval_inputs \<Rightarrow> approval_trust_store
    \<Rightarrow> approval_revocation_list \<Rightarrow> tfvc_association \<Rightarrow> azure_build_context \<Rightarrow> json \<Rightarrow> json \<Rightarrow> json
    \<Rightarrow> approval_error + approval_verification" where
  "verify_approval_assertion lib ed bracketed codec_text inputs ts rl expected_tfvc expected_build checked_at
       max_revocation_age_seconds clock_skew_seconds =
     attempt (read_assertion lib codec_text (in_assertion inputs)) (\<lambda>(assertion_subject, assertion).
     attempt (parse_approval_trust_store (approval_store_to_json ts)) (\<lambda>trust_store.
     attempt (parse_approval_revocation_list (approval_list_to_json rl)) (\<lambda>revocations.
     attempt (approval_seconds (''max_revocation_age_seconds must be an integer from 0 to ''
       @ dec_int MAX_APPROVAL_REVOCATION_AGE_SECONDS) MAX_APPROVAL_REVOCATION_AGE_SECONDS
       max_revocation_age_seconds) (\<lambda>maximum_age.
     attempt (approval_seconds ''clock_skew_seconds must be an integer from 0 to 3600'' 3600 clock_skew_seconds) (\<lambda>skew.
     attempt (wire_timestamp (Approval_invalid ''approval verification request'') ''$.checked_at'' checked_at) (\<lambda>checked.
     attempt (select_approval_key assertion trust_store revocations) (\<lambda>trusted_key.
     attempt (check_approval_signature ed assertion trusted_key) (\<lambda>_.
     attempt (check_approval_validity assertion trusted_key checked skew) (\<lambda>_.
     attempt (check_approval_revocations assertion trusted_key revocations checked maximum_age skew) (\<lambda>_.
     attempt (assert_subject_matches lib ''publication'' (su_publication (aa_subject assertion))
                (in_publication inputs)) (\<lambda>_.
     attempt (assert_subject_matches lib ''verification'' (su_verification (aa_subject assertion))
                (in_verification inputs)) (\<lambda>_.
     attempt (verify_approval_chain lib bracketed (in_publication inputs) (in_verification inputs)
                (in_review_result inputs) (in_review_report inputs) expected_tfvc expected_build assertion) (\<lambda>chain.
     Inr \<lparr>pv_schema_version = APPROVAL_VERIFICATION_SCHEMA_VERSION, pv_verifier_version = PACKAGE_VERSION,
          pv_status = ''verified'', pv_checked_at = checked, pv_assertion = assertion_subject,
          pv_authority = aa_authority assertion, pv_approver = aa_approver assertion,
          pv_action = aa_action assertion, pv_gate_effect = aa_gate_effect assertion,
          pv_issued_at = aa_issued_at assertion, pv_expires_at = aa_expires_at assertion,
          pv_subject = aa_subject assertion, pv_review = arp_review (ch_publication chain),
          pv_tfvc = arp_tfvc (ch_publication chain), pv_build_id = bc_build_id (arp_build (ch_publication chain)),
          pv_trust_store_id = as_store_id trust_store, pv_revocation_list_id = al_list_id revocations,
          pv_revocation_list_updated_at = al_updated_at revocations,
          pv_exception = aa_exception assertion\<rparr>)))))))))))))"

subsection \<open>When an approval is accepted\<close>

lemma from_azure_Inr [strict_iff]: "from_azure m = Inr x \<longleftrightarrow> m = Inr x"
  by (auto simp: from_azure_def split: sum.split azure_error.split)

lemma approval_seconds_Inr [strict_iff]: "approval_seconds message bound v = Inr i \<longleftrightarrow> seconds_within bound v i"
  by (auto simp: approval_seconds_def seconds_within_def split: json.split)

lemma approval_after_Inr [strict_iff]:
  "approval_after t s = Inr v \<longleftrightarrow> v = timestamp_value t + s * 1000000 \<and> in_date_range v"
  by (auto simp: approval_after_def in_date_range_def Let_def)

definition subject_matches :: "library \<Rightarrow> approval_document_subject \<Rightarrow> string \<Rightarrow> bool" where
  "subject_matches lib d raw \<longleftrightarrow> int (length raw) = ad_byte_count d \<and> lib_sha256 lib raw = ad_sha256 d"

lemma assert_subject_matches_Inr [strict_iff]:
  "assert_subject_matches lib role d raw = Inr u \<longleftrightarrow> subject_matches lib d raw"
  by (auto simp: assert_subject_matches_def subject_matches_def Let_def)

definition approval_key_of :: "approval_trust_store \<Rightarrow> approval_assertion \<Rightarrow> trusted_approval_key \<Rightarrow> bool" where
  \<comment> \<open>the key of the store that the assertion names, for its authority and its action\<close>
  "approval_key_of store a k \<longleftrightarrow> k \<in> set (as_keys store) \<and> ak_key_id k = au_key_id (aa_authority a)
     \<and> ak_authority_id k = au_authority_id (aa_authority a) \<and> aa_action a \<in> set (ak_allowed_actions k)
     \<and> ak_algorithm k = ps_algorithm (aa_signature a)"

lemma select_approval_key_Inr:
  assumes "distinct (map ak_key_id (as_keys store))"
  shows "select_approval_key a store revocations = Inr k \<longleftrightarrow>
    aa_revocation_list_id a = as_revocation_list_id store \<and> al_list_id revocations = as_revocation_list_id store
      \<and> approval_key_of store a k"
proof -
  note f = find_unique [OF assms, of "au_key_id (aa_authority a)"]
  show ?thesis
  proof (cases "find (\<lambda>k. ak_key_id k = au_key_id (aa_authority a)) (as_keys store)")
    case None
    then have "\<not> approval_key_of store a k" using f [of k] by (auto simp: approval_key_of_def)
    then show ?thesis using None by (auto simp: select_approval_key_def attempt_Inr ensure_Inr)
  next
    case (Some j)
    with f [of j] f [of k] show ?thesis
      by (auto simp: select_approval_key_def attempt_Inr ensure_Inr approval_key_of_def)
  qed
qed

definition approval_authentic :: "ed25519 \<Rightarrow> approval_assertion \<Rightarrow> trusted_approval_key \<Rightarrow> bool" where
  "approval_authentic ed a k \<longleftrightarrow> ed_installed ed \<and> ed_from_public_bytes ed (lenient_bytes (ak_public_key_base64url k))
     \<and> ed_verify ed (lenient_bytes (ak_public_key_base64url k)) (lenient_bytes (ps_value (aa_signature a)))
         (approval_payload_bytes a)"

lemma check_approval_signature_Inr [strict_iff]:
  "check_approval_signature ed a k = Inr u \<longleftrightarrow> approval_authentic ed a k"
  by (auto simp: check_approval_signature_def approval_cryptography_types_def approval_authentic_def attempt_Inr
      ensure_Inr Let_def)

definition approval_valid_at :: "approval_assertion \<Rightarrow> trusted_approval_key \<Rightarrow> string \<Rightarrow> int \<Rightarrow> bool" where
  "approval_valid_at a k checked skew \<longleftrightarrow>
     timestamp_value (ak_valid_from k) \<le> timestamp_value (aa_issued_at a)
     \<and> timestamp_value (aa_issued_at a) < timestamp_value (ak_valid_until k)
     \<and> timestamp_value (aa_expires_at a) \<le> timestamp_value (ak_valid_until k)
     \<and> timestamp_value (aa_issued_at a) \<le> timestamp_value checked + skew * 1000000
     \<and> timestamp_value checked < timestamp_value (aa_expires_at a)
     \<and> in_date_range (timestamp_value checked + skew * 1000000)"

lemma check_approval_validity_Inr [strict_iff]:
  "check_approval_validity a k checked skew = Inr u \<longleftrightarrow> approval_valid_at a k checked skew"
  by (auto simp: check_approval_validity_def approval_valid_at_def strict_iff Let_def)

definition approval_not_revoked :: "approval_assertion \<Rightarrow> trusted_approval_key \<Rightarrow> approval_revocation_list \<Rightarrow> bool" where
  "approval_not_revoked a k revocations \<longleftrightarrow> list_all (\<lambda>e. av_key_id e = ak_key_id k \<longrightarrow>
     av_mode e = RevocationMode_ISSUED_AT_OR_AFTER \<and> timestamp_value (aa_issued_at a) < timestamp_value (av_revoked_at e))
     (al_revoked_keys revocations)"

definition approval_list_fresh :: "approval_revocation_list \<Rightarrow> string \<Rightarrow> int \<Rightarrow> int \<Rightarrow> bool" where
  "approval_list_fresh revocations checked maximum_age skew \<longleftrightarrow>
     timestamp_value (al_updated_at revocations) \<le> timestamp_value checked + skew * 1000000
     \<and> timestamp_value checked \<le> timestamp_value (al_updated_at revocations) + (maximum_age + skew) * 1000000
     \<and> in_date_range (timestamp_value checked + skew * 1000000)"

lemma revocation_mode_cases: "m = RevocationMode_ISSUED_AT_OR_AFTER \<longleftrightarrow> m \<noteq> RevocationMode_ALL_SIGNATURES"
  by (cases m) simp_all

lemma check_approval_revocations_Inr:
  assumes "distinct (map av_key_id (al_revoked_keys r))"
  shows "check_approval_revocations a k r checked age skew = Inr u \<longleftrightarrow>
    approval_list_fresh r checked age skew \<and> approval_not_revoked a k r"
proof -
  note f = find_unique [OF assms, of "ak_key_id k"]
  show ?thesis
  proof (cases "find (\<lambda>e. av_key_id e = ak_key_id k) (al_revoked_keys r)")
    case None
    then have "approval_not_revoked a k r" by (auto simp: approval_not_revoked_def list_all_iff find_None_iff)
    then show ?thesis using None
      by (auto simp: check_approval_revocations_def approval_list_fresh_def strict_iff Let_def)
  next
    case (Some e)
    have "y \<in> set (al_revoked_keys r) \<and> av_key_id y = ak_key_id k \<longleftrightarrow> y = e" for y
      using f [of y] Some by auto
    then have "approval_not_revoked a k r \<longleftrightarrow> av_mode e = RevocationMode_ISSUED_AT_OR_AFTER
        \<and> timestamp_value (aa_issued_at a) < timestamp_value (av_revoked_at e)"
      unfolding approval_not_revoked_def list_all_iff by metis
    then show ?thesis using Some
      by (auto simp: check_approval_revocations_def approval_list_fresh_def strict_iff Let_def revocation_mode_cases)
  qed
qed

definition chain_ok :: "library \<Rightarrow> string \<Rightarrow> string \<Rightarrow> azure_review_publication \<Rightarrow> azure_review_verification \<Rightarrow> bool" where
  \<comment> \<open>the receipt repeats the publication it names, whose result artifact is the supplied one\<close>
  "chain_ok lib publication_bytes review_result_bytes p v \<longleftrightarrow>
     arv_publication v = \<lparr>psu_media_type = PUBLICATION_MEDIA_TYPE, psu_sha256 = lib_sha256 lib publication_bytes,
       psu_byte_count = int (length publication_bytes)\<rparr>
     \<and> arv_review v = arp_review p \<and> arv_tfvc v = arp_tfvc p \<and> arv_build_id v = bc_build_id (arp_build p)
     \<and> arv_artifacts v = arp_artifacts p
     \<and> int (length review_result_bytes) = ai_byte_count (ra_review_result (arp_artifacts p))
     \<and> lib_sha256 lib review_result_bytes = ai_sha256 (ra_review_result (arp_artifacts p))
     \<and> timestamp_value (arp_created_at p) \<le> timestamp_value (arv_verified_at v)
     \<and> age_seconds (arv_verified_at v) (arp_created_at p) = arv_publication_age_seconds v"

lemma check_chain_Inr [strict_iff]:
  "check_chain lib pub result p v review = Inr u \<longleftrightarrow> chain_ok lib pub result p v \<and> review = arp_review p"
  by (auto simp: check_chain_def chain_ok_def strict_iff Let_def)

definition chain_of :: "library \<Rightarrow> (string \<Rightarrow> bool) \<Rightarrow> string \<Rightarrow> string \<Rightarrow> string \<Rightarrow> receipt_chain \<Rightarrow> bool" where
  "chain_of lib bracketed pub ver result c \<longleftrightarrow>
     parse_azure_review_publication_bytes lib bracketed pub = Inr (ch_publication c)
     \<and> parse_azure_review_verification_bytes lib ver = Inr (ch_verification c)
     \<and> parse_review_result_bytes lib result = Inr (arp_review (ch_publication c))
     \<and> chain_ok lib pub result (ch_publication c) (ch_verification c)
     \<and> (\<exists>findings. parse_review_result_findings_bytes lib result = Inr findings
         \<and> ch_consequential_codes c = consequential_codes findings)"

lemma validate_receipt_chain_Inr [strict_iff]:
  "validate_receipt_chain lib bracketed pub ver result = Inr c \<longleftrightarrow> chain_of lib bracketed pub ver result c"
  by (cases c) (auto simp: validate_receipt_chain_def chain_of_def strict_iff)

definition in_scope :: "approval_assertion \<Rightarrow> receipt_chain \<Rightarrow> bool" where
  \<comment> \<open>an approval needs an approved review; an exception needs a refused one and names every finding behind the refusal\<close>
  "in_scope a c \<longleftrightarrow>
     timestamp_value (arv_verified_at (ch_verification c)) \<le> timestamp_value (ap_authenticated_at (aa_approver a))
     \<and> timestamp_value (ap_authenticated_at (aa_approver a))
         \<le> timestamp_value (arv_verified_at (ch_verification c)) + MAX_VERIFICATION_TO_AUTHENTICATION_SECONDS * 1000000
     \<and> timestamp_value (aa_expires_at a)
         \<le> timestamp_value (arv_verified_at (ch_verification c)) + MAX_APPROVAL_LIFETIME_SECONDS * 1000000
     \<and> (if aa_action a = ApprovalAction_APPROVE
        then rvb_decision (arp_review (ch_publication c)) = Decision_APPROVE
        else rvb_decision (arp_review (ch_publication c)) \<noteq> Decision_APPROVE \<and> ch_consequential_codes c \<noteq> []
          \<and> map_option px_finding_codes (aa_exception a) = Some (ch_consequential_codes c))"

lemma validate_action_scope_Inr [strict_iff]: "validate_action_scope a c = Inr u \<longleftrightarrow> in_scope a c"
  by (auto simp: validate_action_scope_def in_scope_def strict_iff Let_def)

lemma chain_failure_Inr:
  "(case m of Inr c \<Rightarrow> Inr c | Inl e \<Rightarrow> Inl (chain_failure e)) = Inr c \<longleftrightarrow> m = Inr c"
  by (cases m) simp_all

lemma expected_receipt_Inr [strict_iff]:
  "expected_receipt lib bracketed pub result report tfvc build v = Inr w \<longleftrightarrow>
    verify_azure_review_publication lib bracketed pub result report tfvc build
      (JStr (arv_verified_at v)) (JInt (arv_maximum_age_seconds v)) = Inr w"
  by (auto simp: expected_receipt_def split: sum.split verification_failure.split)

lemma verify_approval_chain_Inr [strict_iff]:
  "verify_approval_chain lib bracketed pub ver result report tfvc build a = Inr c \<longleftrightarrow>
    chain_of lib bracketed pub ver result c \<and> in_scope a c
    \<and> verify_azure_review_publication lib bracketed pub result report tfvc build
        (JStr (arv_verified_at (ch_verification c))) (JInt (arv_maximum_age_seconds (ch_verification c)))
        = Inr (ch_verification c)"
  by (auto simp: verify_approval_chain_def chain_failure_Inr strict_iff)

definition assertion_subject :: "library \<Rightarrow> string \<Rightarrow> approval_document_subject" where
  "assertion_subject lib raw = \<lparr>ad_media_type = APPROVAL_ASSERTION_MEDIA_TYPE, ad_sha256 = lib_sha256 lib raw,
     ad_byte_count = int (length raw)\<rparr>"

definition decoded_assertion :: "library \<Rightarrow> string \<Rightarrow> approval_assertion \<Rightarrow> bool" where
  \<comment> \<open>the bytes decode, within the limit, to the assertion\<close>
  "decoded_assertion lib raw a \<longleftrightarrow> raw \<noteq> [] \<and> length raw \<le> MAX_APPROVAL_ASSERTION_BYTES
     \<and> (\<exists>text document. lib_decode_utf8 lib raw = Some text
         \<and> parse_json_text lib text assertion_name MAX_APPROVAL_ASSERTION_BYTES = Inr document
         \<and> parse_approval_assertion document = Inr a)"

lemma read_assertion_Inr [strict_iff]:
  "read_assertion lib codec_text raw = Inr (d, a) \<longleftrightarrow> d = assertion_subject lib raw \<and> decoded_assertion lib raw a"
  by (auto simp: read_assertion_def document_subject_def assertion_subject_def decoded_assertion_def attempt_Inr
      Let_def split: option.splits sum.splits)

definition approval_receipt ::
  "library \<Rightarrow> approval_inputs \<Rightarrow> approval_assertion \<Rightarrow> receipt_chain \<Rightarrow> approval_trust_store \<Rightarrow> approval_revocation_list
    \<Rightarrow> string \<Rightarrow> approval_verification" where
  "approval_receipt lib inputs a c t r checked =
     \<lparr>pv_schema_version = ''1.0'', pv_verifier_version = PACKAGE_VERSION, pv_status = ''verified'',
      pv_checked_at = checked, pv_assertion = assertion_subject lib (in_assertion inputs),
      pv_authority = aa_authority a, pv_approver = aa_approver a, pv_action = aa_action a,
      pv_gate_effect = aa_gate_effect a, pv_issued_at = aa_issued_at a, pv_expires_at = aa_expires_at a,
      pv_subject = aa_subject a, pv_review = arp_review (ch_publication c), pv_tfvc = arp_tfvc (ch_publication c),
      pv_build_id = bc_build_id (arp_build (ch_publication c)), pv_trust_store_id = as_store_id t,
      pv_revocation_list_id = al_list_id r, pv_revocation_list_updated_at = al_updated_at r,
      pv_exception = aa_exception a\<rparr>"

definition approval_conditions ::
  "library \<Rightarrow> ed25519 \<Rightarrow> (string \<Rightarrow> bool) \<Rightarrow> approval_inputs \<Rightarrow> approval_trust_store \<Rightarrow> approval_revocation_list
    \<Rightarrow> tfvc_association \<Rightarrow> azure_build_context \<Rightarrow> string \<Rightarrow> int \<Rightarrow> int \<Rightarrow> approval_assertion \<Rightarrow> trusted_approval_key
    \<Rightarrow> receipt_chain \<Rightarrow> bool" where
  "approval_conditions lib ed bracketed inputs t r tfvc build checked age skew a k c \<longleftrightarrow>
     decoded_assertion lib (in_assertion inputs) a
     \<and> aa_revocation_list_id a = as_revocation_list_id t \<and> al_list_id r = as_revocation_list_id t
     \<and> approval_key_of t a k \<and> approval_authentic ed a k \<and> approval_valid_at a k checked skew
     \<and> approval_list_fresh r checked age skew \<and> approval_not_revoked a k r
     \<and> subject_matches lib (su_publication (aa_subject a)) (in_publication inputs)
     \<and> subject_matches lib (su_verification (aa_subject a)) (in_verification inputs)
     \<and> chain_of lib bracketed (in_publication inputs) (in_verification inputs) (in_review_result inputs) c
     \<and> verify_azure_review_publication lib bracketed (in_publication inputs) (in_review_result inputs)
         (in_review_report inputs) tfvc build (JStr (arv_verified_at (ch_verification c)))
         (JInt (arv_maximum_age_seconds (ch_verification c))) = Inr (ch_verification c)
     \<and> in_scope a c"

lemma approval_verifies:
  "verify_approval_assertion lib ed bracketed codec_text inputs t r tfvc build checked_at max_age clock_skew = Inr v \<longleftrightarrow>
    approval_store_ok t \<and> approval_list_ok r \<and>
    (\<exists>age skew checked a k c. seconds_within MAX_APPROVAL_REVOCATION_AGE_SECONDS max_age age
       \<and> seconds_within 3600 clock_skew skew \<and> checked_at = JStr checked \<and> wire_timestamp_ok checked
       \<and> approval_conditions lib ed bracketed inputs t r tfvc build checked age skew a k c
       \<and> v = approval_receipt lib inputs a c t r checked)"
proof (cases "approval_store_ok t \<and> approval_list_ok r")
  case True
  then have d: "distinct (map ak_key_id (as_keys t))" "distinct (map av_key_id (al_revoked_keys r))"
    by (simp_all add: approval_store_ok_def approval_list_ok_def)
  from True show ?thesis
    unfolding verify_approval_assertion_def approval_conditions_def
    by (simp add: strict_iff select_approval_key_Inr [OF d(1)] check_approval_revocations_Inr [OF d(2)]
        split_paired_Ex approval_receipt_def APPROVAL_VERIFICATION_SCHEMA_VERSION_def) blast
next
  case False
  then show ?thesis by (auto simp: verify_approval_assertion_def strict_iff)
qed

subsection \<open>What an approval authorizes\<close>

text \<open>
  C12. An approval or exception verifies exactly when its bytes decode to an assertion whose authority
  key is trusted for its action and signed it, that is inside the key's validity, current, fresh and
  not revoked, whose signed digests are those of the publication and receipt, which form a chain the
  Azure verifier re-derives for the current target and build, and whose action is in scope of the review.
\<close>
theorem approval_verifies_iff:
  "verify_approval_assertion lib ed bracketed codec_text inputs t r tfvc build checked_at max_age clock_skew = Inr v \<longleftrightarrow>
    approval_store_ok t \<and> approval_list_ok r \<and>
    (\<exists>age skew checked a k c. seconds_within MAX_APPROVAL_REVOCATION_AGE_SECONDS max_age age
       \<and> seconds_within 3600 clock_skew skew \<and> checked_at = JStr checked \<and> wire_timestamp_ok checked
       \<and> approval_conditions lib ed bracketed inputs t r tfvc build checked age skew a k c
       \<and> v = approval_receipt lib inputs a c t r checked)"
  by (rule approval_verifies)

lemma approval_payload_value:
  "approval_payload_bytes (a\<lparr>aa_signature := (aa_signature a)\<lparr>ps_value := s\<rparr>\<rparr>) = approval_payload_bytes a"
  by (simp add: approval_payload_bytes_def approval_payload_document_def assertion_fields_def)

lemma request_fields:
  assumes "parse_approval_assertion (assertion_request_document q action exc s) = Inr b"
  shows "aa_subject b = s"
proof -
  define rt where "rt = (case assertion_request_document q action exc s of JObj rt \<Rightarrow> rt | _ \<Rightarrow> [])"
  have d: "assertion_request_document q action exc s = JObj rt"
    by (simp add: rt_def assertion_request_document_def)
  have "jget rt ''subject'' = approval_subject_to_json s"
    by (simp add: rt_def assertion_request_document_def)
  with assms show ?thesis
    unfolding d parse_approval_assertion_def Let_def
    by (clarsimp simp only: attempt_Inr wire_object_optional split_paired_Ex prod.case json.inject)
      (simp add: parse_approval_subject_render)
qed

lemma document_subject_Inr [strict_iff]:
  "document_subject lib media maximum role raw = Inr d \<longleftrightarrow> raw \<noteq> [] \<and> length raw \<le> maximum
    \<and> d = \<lparr>ad_media_type = media, ad_sha256 = lib_sha256 lib raw, ad_byte_count = int (length raw)\<rparr>"
  by (auto simp: document_subject_def)

lemma load_approval_key_Inr [strict_iff]:
  "load_approval_key ed pem password = Inr key \<longleftrightarrow> ed_installed ed \<and> ed_load_private ed pem password = Ed25519_key key"
  by (auto simp: load_approval_key_def approval_cryptography_types_def attempt_Inr ensure_Inr split: loaded_key.split)

lemma create_approval_facts:
  assumes "create_approval_assertion lib ed bracketed pub ver result q pem password = Inr a"
  obtains u key c where "ed_installed ed" "ed_load_private ed pem password = Ed25519_key key"
    "chain_of lib bracketed pub ver result c" "in_scope u c" "assertion_ok u"
    "subject_matches lib (su_publication (aa_subject u)) pub" "subject_matches lib (su_verification (aa_subject u)) ver"
    "a = u\<lparr>aa_signature := (aa_signature u)\<lparr>ps_value := base64url_encode (ed_sign ed key (approval_payload_bytes u))\<rparr>\<rparr>"
  using assms
  by (clarsimp simp only: create_approval_assertion_def strict_iff)
    (metis (no_types, lifting) approval_document_subject.select_convs(2,3) approval_subject.select_convs(1,2)
      parse_approval_assertion_ok request_fields subject_matches_def)

text \<open>
  C35. A created approval verifies: the record an authority issues over a publication and its receipt is
  accepted, at any time it is current, by every verifier that trusts the key for the action, has a
  fresh list that does not revoke it, and re-derives the receipt for the same target and build.
\<close>
theorem created_approval_verifies:
  assumes "ed25519_laws ed"
    "create_approval_assertion lib ed bracketed (in_publication i) (in_verification i) (in_review_result i) q pem password
       = Inr a"
    "ed_load_private ed pem password = Ed25519_key key" "decoded_assertion lib (in_assertion i) a"
    "approval_store_ok t" "approval_list_ok r"
    "aa_revocation_list_id a = as_revocation_list_id t" "al_list_id r = as_revocation_list_id t"
    "approval_key_of t a k" "ak_public_key_base64url k = base64url_encode (ed_public_key ed key)"
    "approval_not_revoked a k r" "wire_timestamp_ok checked" "approval_valid_at a k checked skew"
    "approval_list_fresh r checked age skew" "0 \<le> skew" "skew \<le> 3600"
    "0 \<le> age" "age \<le> MAX_APPROVAL_REVOCATION_AGE_SECONDS"
    "parse_azure_review_verification_bytes lib (in_verification i) = Inr w"
    "verify_azure_review_publication lib bracketed (in_publication i) (in_review_result i) (in_review_report i)
       tfvc build (JStr (arv_verified_at w)) (JInt (arv_maximum_age_seconds w)) = Inr w"
  shows "\<exists>v. verify_approval_assertion lib ed bracketed codec_text i t r tfvc build (JStr checked) (JInt age) (JInt skew)
    = Inr v \<and> pv_action v = aa_action a \<and> pv_review v = arv_review w"
proof -
  from assms(2) obtain u key' c where c: "ed_installed ed" "ed_load_private ed pem password = Ed25519_key key'"
    "chain_of lib bracketed (in_publication i) (in_verification i) (in_review_result i) c" "in_scope u c"
    "subject_matches lib (su_publication (aa_subject u)) (in_publication i)"
    "subject_matches lib (su_verification (aa_subject u)) (in_verification i)"
    and a: "a = u\<lparr>aa_signature := (aa_signature u)\<lparr>ps_value := base64url_encode (ed_sign ed key' (approval_payload_bytes u))\<rparr>\<rparr>"
    by (rule create_approval_facts)
  have key: "key' = key" using c(2) assms(3) by simp
  have w: "ch_verification c = w" "arv_review w = arp_review (ch_publication c)"
    using c(3) assms(19) by (auto simp: chain_of_def chain_ok_def)
  have "approval_payload_bytes a = approval_payload_bytes u" by (simp only: a approval_payload_value)
  moreover have "ed_from_public_bytes ed (ed_public_key ed key)"
    "ed_verify ed (ed_public_key ed key) (ed_sign ed key m) m" for m
    using assms(1) by (simp_all add: ed25519_laws_def)
  ultimately have "approval_authentic ed a k"
    using c(1) by (simp add: approval_authentic_def assms(10)) (simp add: a key)
  moreover have "in_scope a c" "subject_matches lib (su_publication (aa_subject a)) (in_publication i)"
    "subject_matches lib (su_verification (aa_subject a)) (in_verification i)"
    using c by (simp_all add: a in_scope_def)
  ultimately have "approval_conditions lib ed bracketed i t r tfvc build checked age skew a k c"
    using assms c(3) w(1) by (simp add: approval_conditions_def)
  then have "verify_approval_assertion lib ed bracketed codec_text i t r tfvc build (JStr checked) (JInt age) (JInt skew)
      = Inr (approval_receipt lib i a c t r checked)"
    unfolding approval_verifies seconds_within_def using assms by blast
  then show ?thesis by (simp add: approval_receipt_def w)
qed

lemma sort_filter_map_set: "set (consequential_codes fs) = {rfb_code f | f. f \<in> set fs \<and> rfb_consequence f \<noteq> Consequence_NONE}"
  by (auto simp: consequential_codes_def)

text \<open>
  C9. A verified record never widens the gate: it only records, an approval belongs to a review that
  approved and carries no exception, and an exception belongs to a review that did not, naming exactly
  the findings of that review that affected its decision.
\<close>
theorem verified_action_in_scope:
  assumes "verify_approval_assertion lib ed bracketed codec_text i t r tfvc build checked_at max_age skew = Inr v"
  shows "pv_gate_effect v = ApprovalGateEffect_RECORD_ONLY
    \<and> (pv_action v = ApprovalAction_APPROVE \<longrightarrow>
        rvb_decision (pv_review v) = Decision_APPROVE \<and> pv_exception v = None)
    \<and> (pv_action v = ApprovalAction_EXCEPTION \<longrightarrow> rvb_decision (pv_review v) \<noteq> Decision_APPROVE
        \<and> (\<exists>findings e. parse_review_result_findings_bytes lib (in_review_result i) = Inr findings
             \<and> pv_exception v = Some e
             \<and> set (px_finding_codes e) = {rfb_code f | f. f \<in> set findings \<and> rfb_consequence f \<noteq> Consequence_NONE}))"
proof -
  from assms obtain a k c checked age sk where
      c: "approval_conditions lib ed bracketed i t r tfvc build checked age sk a k c"
    and v: "v = approval_receipt lib i a c t r checked"
    unfolding approval_verifies by blast
  then have ok: "assertion_action_ok a" and sc: "in_scope a c"
    and ch: "chain_of lib bracketed (in_publication i) (in_verification i) (in_review_result i) c"
    using parse_approval_assertion_ok by (auto simp: approval_conditions_def decoded_assertion_def assertion_ok_def)
  from ch obtain findings where f: "parse_review_result_findings_bytes lib (in_review_result i) = Inr findings"
    "ch_consequential_codes c = consequential_codes findings" by (auto simp: chain_of_def)
  show ?thesis
  proof (cases "aa_action a")
    case ApprovalAction_APPROVE
    then show ?thesis using ok sc by (simp add: v approval_receipt_def assertion_action_ok_def in_scope_def)
  next
    case ApprovalAction_EXCEPTION
    then obtain e where "aa_exception a = Some e" "px_finding_codes e = consequential_codes findings"
      using sc f(2) by (auto simp: in_scope_def)
    then show ?thesis using ApprovalAction_EXCEPTION ok sc f sort_filter_map_set [of findings]
      by (auto simp: v approval_receipt_def assertion_action_ok_def in_scope_def)
  qed
qed

lemma gate_codes_ok: "f \<in> set (review_findings c p) \<Longrightarrow> finding_text_ok (f_code f)"
proof -
  assume "f \<in> set (review_findings c p)"
  then have "f_code f \<in> set (map f_code (review_findings c p))" by simp
  also have "\<dots> \<subseteq> set [''CAUSURE-REQ-001'', ''CAUSURE-VER-001'', ''CAUSURE-VER-002'', ''CAUSURE-ATT-001'',
      ''CAUSURE-ATT-002'', ''CAUSURE-ATT-003'', ''CAUSURE-ATT-004'', ''CAUSURE-ATT-005'', ''CAUSURE-NULL-001'',
      ''CAUSURE-MIN-001'', ''CAUSURE-VAL-001'', ''CAUSURE-VAL-002'', ''CAUSURE-VAL-003'', ''CAUSURE-MET-001'',
      ''CAUSURE-MET-002'']" (is "_ \<subseteq> set ?codes")
    using metric_codes [of c p] by (auto simp: review_codes attribution_codes_def split: option.splits)
  finally have "f_code f \<in> set ?codes" .
  moreover have "list_all finding_text_ok ?codes" by code_simp
  ultimately show ?thesis unfolding list_all_iff by blast
qed

lemma gate_codes_count: "length (review_findings c p) \<le> 15"
proof -
  have "length (map f_code (review_findings c p)) \<le> 15"
    using metric_codes [of c p] unfolding review_codes attribution_codes_def by (auto split: option.splits)
  then show ?thesis by simp
qed

lemma distinct_sort_filter:
  "distinct (map f xs) \<Longrightarrow> distinct (sort (map f (filter P xs)))"
  by (induction xs) (auto simp: distinct_map_filter)

text \<open>
  C23. Every result of the gate has exactly one kind of approval record: it has no decision-affecting
  finding exactly when it approves, and otherwise its decision-affecting findings are, as they stand,
  the codes of an acceptable exception (sorted, unique, well formed and at most 64), under any
  acceptable justification. No refusal of the gate is beyond the reach of the exception process.
\<close>
theorem gate_result_has_one_record:
  assumes "review_case sha iso_z now c (Some p) at_time = Inr res" "wire_text_ok 2048 j" "no_control j"
  shows "(rr_decision res = Decision_APPROVE \<longleftrightarrow> consequential_codes (map finding_binding (rr_findings res)) = [])
    \<and> (rr_decision res \<noteq> Decision_APPROVE \<longrightarrow>
        exception_ok \<lparr>px_finding_codes = consequential_codes (map finding_binding (rr_findings res)), px_justification = j\<rparr>)"
proof -
  let ?fs = "review_findings c p"
  have r: "rr_findings res = ?fs" "rr_decision res = fst (decision_for ?fs)"
    using assms(1) by (auto simp: review_case_def Let_def split: prod.splits if_splits)
  let ?codes = "consequential_codes (map finding_binding ?fs)"
  have codes: "?codes = sort (map f_code (filter (\<lambda>f. f_consequence f \<noteq> Consequence_NONE) ?fs))"
    by (simp add: consequential_codes_def filter_map comp_def finding_binding_def)
  have empty: "?codes = [] \<longleftrightarrow> clean ?fs"
    by (auto simp: codes clean_def list_all_iff filter_empty_conv)
  have "length ?codes \<le> 64"
    using le_trans [OF length_filter_le gate_codes_count [of c p], of "\<lambda>f. f_consequence f \<noteq> Consequence_NONE"]
    by (simp add: codes)
  moreover have "list_all finding_text_ok ?codes"
    using gate_codes_ok by (auto simp: codes list_all_iff)
  moreover have "distinct ?codes"
    unfolding codes by (rule distinct_sort_filter [OF review_codes_distinct])
  ultimately have "?codes \<noteq> [] \<Longrightarrow> exception_ok \<lparr>px_finding_codes = ?codes, px_justification = j\<rparr>"
    using assms(2,3) by (auto simp: exception_ok_def Suc_le_eq codes)
  then show ?thesis
    using empty by (simp add: r approve_iff_clean)
qed

theorem gate_result_has_one_record_witness:
  "\<exists>res. review_case (\<lambda>_. []) (\<lambda>_. []) \<lparr>dt_ordinal = 1, dt_second = 0, dt_micro = 0, dt_offset = Some 0\<rparr>
      (sample_case False) (Some default_policy) None = Inr res
    \<and> exception_ok \<lparr>px_finding_codes = consequential_codes (map finding_binding (rr_findings res)), px_justification = ''accepted''\<rparr>"
proof -
  let ?now = "\<lparr>dt_ordinal = 1, dt_second = 0, dt_micro = 0, dt_offset = Some 0\<rparr> :: py_datetime"
  obtain res where r: "review_case (\<lambda>_. []) (\<lambda>_. []) ?now (sample_case False) (Some default_policy) None = Inr res"
    by (cases "decision_for (review_findings (sample_case False) default_policy)") (simp add: review_case_def)
  have d: "rr_decision res = fst (decision_for (review_findings (sample_case False) default_policy))"
    using r by (auto simp: review_case_def Let_def split: prod.splits)
  have "fst (decision_for (review_findings (sample_case False) default_policy)) \<in> {Decision_REJECT, Decision_HUMAN_REVIEW}"
    by (rule review_rejects_critical)
      (simp_all add: critical_regressions_def eligible_regression_def cases_of_kind_def sample_defs default_policy_def)
  then have "rr_decision res \<noteq> Decision_APPROVE" by (auto simp: d)
  moreover have "wire_text_ok 2048 ''accepted''" "no_control ''accepted''" by (simp_all add: wire_text_ok_def no_control_def)
  ultimately show ?thesis using gate_result_has_one_record [OF r] r by blast
qed
subsection \<open>A concrete approval\<close>

definition sample_receipt :: azure_review_verification where
  "sample_receipt = receipt sample_documents ''p'' sample_publication ''2026-01-02T03:15:00Z'' 3600"

definition sample_approval_request :: approval_request where
  "sample_approval_request = \<lparr>rq_assertion_id = ''assertion-1'', rq_authority_id = ''authority-1'', rq_key_id = ''key-1'',
     rq_approver_id = ''approver-1'', rq_identity_provider = ''provider-1'',
     rq_authentication_method = ''organizational_sso'', rq_authentication_event_id = ''event-1'',
     rq_authenticated_at = ''2026-01-02T03:15:00Z'', rq_action = ''approve'', rq_issued_at = ''2026-01-02T03:15:00Z'',
     rq_expires_at = ''2026-01-02T04:00:00Z'', rq_revocation_list_id = ''list-1'',
     rq_finding_codes = [], rq_justification = None\<rparr>"

definition sample_approval_subject :: approval_subject where
  "sample_approval_subject =
     \<lparr>su_publication = \<lparr>ad_media_type = PUBLICATION_MEDIA_TYPE, ad_sha256 = replicate 64 CHR ''a'', ad_byte_count = 1\<rparr>,
      su_verification = \<lparr>ad_media_type = AZURE_VERIFICATION_MEDIA_TYPE, ad_sha256 = replicate 64 CHR ''a'', ad_byte_count = 1\<rparr>\<rparr>"

definition sample_assertion_with :: "string \<Rightarrow> approval_assertion" where
  "sample_assertion_with sig = \<lparr>aa_schema_version = APPROVAL_ASSERTION_SCHEMA_VERSION, aa_assertion_id = ''assertion-1'',
     aa_authority = \<lparr>au_authority_id = ''authority-1'', au_key_id = ''key-1''\<rparr>,
     aa_approver = \<lparr>ap_identity_provider = ''provider-1'', ap_subject_id = ''approver-1'',
       ap_authentication_method = ApprovalAuthenticationMethod_ORGANIZATIONAL_SSO,
       ap_authentication_event_id = ''event-1'', ap_authenticated_at = ''2026-01-02T03:15:00Z''\<rparr>,
     aa_action = ApprovalAction_APPROVE, aa_gate_effect = ApprovalGateEffect_RECORD_ONLY,
     aa_issued_at = ''2026-01-02T03:15:00Z'', aa_expires_at = ''2026-01-02T04:00:00Z'',
     aa_subject = sample_approval_subject, aa_revocation_list_id = ''list-1'',
     aa_signature = \<lparr>ps_algorithm = SignatureAlgorithm_ED25519,
       ps_canonicalization = SignatureCanonicalization_CAUSURE_JSON_V1, ps_value = base64url_encode sig\<rparr>,
     aa_exception = None\<rparr>"

abbreviation sample_assertion :: approval_assertion where
  "sample_assertion \<equiv> sample_assertion_with (replicate 64 (CHR ''s''))"

definition approval_documents :: library where
  "approval_documents = table_library
     [(''r'', review_result_to_json sample_review), (''p'', publication_to_json sample_publication),
      (''v'', verification_to_json sample_receipt), (''a'', assertion_to_json sample_assertion)]"

definition sample_approval_key :: trusted_approval_key where
  "sample_approval_key = \<lparr>ak_key_id = ''key-1'', ak_authority_id = ''authority-1'', ak_algorithm = SignatureAlgorithm_ED25519,
     ak_public_key_base64url = base64url_encode (replicate 32 (CHR ''p'')),
     ak_valid_from = ''2026-01-01T00:00:00Z'', ak_valid_until = ''2026-01-04T00:00:00Z'',
     ak_allowed_actions = [ApprovalAction_APPROVE]\<rparr>"

definition sample_approval_store :: approval_trust_store where
  "sample_approval_store = \<lparr>as_schema_version = ''1.0'', as_store_id = ''store-1'', as_revocation_list_id = ''list-1'',
     as_keys = [sample_approval_key]\<rparr>"

definition sample_approval_list :: approval_revocation_list where
  "sample_approval_list = \<lparr>al_schema_version = ''1.0'', al_list_id = ''list-1'',
     al_updated_at = ''2026-01-02T00:00:00Z'', al_revoked_keys = []\<rparr>"

definition sample_inputs :: approval_inputs where
  "sample_inputs = \<lparr>in_assertion = ''a'', in_publication = ''p'', in_verification = ''v'', in_review_result = ''r'',
     in_review_report = sample_report\<rparr>"

lemma approval_sample_times:
  "wire_timestamp_ok ''2026-01-02T03:15:00Z''" "wire_timestamp_ok ''2026-01-02T04:00:00Z''"
  "timestamp_value ''2026-01-02T03:15:00Z'' = 63903006900000000"
  "timestamp_value ''2026-01-02T04:00:00Z'' = 63903009600000000"
  "timestamp_value ''2026-01-02T03:05:00Z'' = 63903006300000000"
  by code_simp+

lemma approval_sample_ids:
  "safe_text_ok ''assertion-1''" "safe_text_ok ''authority-1''" "safe_text_ok ''approver-1''"
  "safe_text_ok ''provider-1''" "safe_text_ok ''event-1''"
  by code_simp+

lemma sample_assertion_ok: "length sig = 64 \<Longrightarrow> assertion_ok (sample_assertion_with sig)"
  by (simp add: assertion_ok_def sample_assertion_with_def authority_ok_def approver_ok_def assertion_action_ok_def
      assertion_times_ok_def approval_subject_ok_def approval_document_ok_def sample_approval_subject_def
      sample_identifiers approval_sample_ids approval_sample_times encoded_ok_encode replicate_text wire_text_ok_def
      PUBLICATION_MEDIA_TYPE_def AZURE_VERIFICATION_MEDIA_TYPE_def MAX_AZURE_PUBLICATION_BYTES_def
      MAX_AZURE_VERIFICATION_BYTES_def MAX_AUTHENTICATION_TO_ISSUE_SECONDS_def MAX_APPROVAL_LIFETIME_SECONDS_def)

lemma sample_approval_store_ok: "approval_store_ok sample_approval_store"
  by (simp add: approval_store_ok_def sample_approval_store_def approval_key_ok_def sample_approval_key_def
      sample_identifiers approval_sample_ids attestation_sample_times encoded_ok_encode
      APPROVAL_TRUST_STORE_SCHEMA_VERSION_def approval_action_members_def)

lemma sample_approval_list_ok: "approval_list_ok sample_approval_list"
  by (simp add: approval_list_ok_def sample_approval_list_def sample_identifiers attestation_sample_times
      APPROVAL_REVOCATION_LIST_SCHEMA_VERSION_def)

lemma approval_decodes:
  "azure_parse_json_bytes approval_documents name MAX_REVIEW_RESULT_BYTES ''r'' = Inr (review_result_to_json sample_review)"
  "azure_parse_json_bytes approval_documents name MAX_AZURE_PUBLICATION_BYTES ''p'' = Inr (publication_to_json sample_publication)"
  "azure_parse_json_bytes approval_documents name MAX_AZURE_VERIFICATION_BYTES ''v'' = Inr (verification_to_json sample_receipt)"
  by (simp_all add: azure_parse_json_bytes_def approval_documents_def table_library_def parse_json_text_def
      utf8_bytes_def MAX_REVIEW_RESULT_BYTES_def MAX_AZURE_PUBLICATION_BYTES_def MAX_AZURE_VERIFICATION_BYTES_def)

lemma approval_assertion_decodes: "decoded_assertion approval_documents ''a'' sample_assertion"
  by (simp add: decoded_assertion_def approval_documents_def table_library_def parse_json_text_def utf8_bytes_def
      MAX_APPROVAL_ASSERTION_BYTES_def parse_approval_assertion_render sample_assertion_ok)

lemma approval_publication_parses:
  "parse_azure_review_publication_bytes approval_documents (\<lambda>_. False) ''p'' = Inr sample_publication"
  using sample_publication_ok publication_codec.parse_render
  by (simp add: parse_azure_review_publication_bytes_def approval_decodes)

lemma sample_created_at: "arp_created_at sample_publication = ''2026-01-02T03:05:00Z''"
  by (simp add: sample_publication_def publication_of_def)

lemma sample_age: "age_seconds ''2026-01-02T03:15:00Z'' ''2026-01-02T03:05:00Z'' = 600"
  by (simp add: age_seconds_def approval_sample_times)

lemma approval_receipt_ok: "verification_ok sample_receipt"
  using sample_publication_ok [of "\<lambda>_. False"]
  by (simp add: publication_ok_def build_ok_def verification_ok_def sample_receipt_def receipt_def sample_created_at
      sample_age sample_whole_timestamps MAX_PUBLICATION_AGE_SECONDS_def MAX_AZURE_PUBLICATION_BYTES_def replicate_text
      sample_documents_def table_library_def)

lemma approval_receipt_parses:
  "parse_azure_review_verification_bytes approval_documents ''v'' = Inr sample_receipt"
  using approval_receipt_ok verification_codec.parse_render
  by (simp add: parse_azure_review_verification_bytes_def approval_decodes)

lemma approval_result_parses:
  "parse_review_result_bytes approval_documents ''r'' = Inr (binding_of sample_review)"
  "parse_review_result_findings_bytes approval_documents ''r'' = Inr []"
proof -
  have b: "parse_review_binding n (review_result_to_json sample_review) = Inr (binding_of sample_review)" for n
    using sample_publishable by (simp add: parse_review_binding_render)
  show "parse_review_result_bytes approval_documents ''r'' = Inr (binding_of sample_review)"
    by (simp add: parse_review_result_bytes_def approval_decodes b)
  show "parse_review_result_findings_bytes approval_documents ''r'' = Inr []"
    by (simp add: parse_review_result_findings_bytes_def approval_decodes b)
      (simp add: review_result_to_json_def sample_review_def parse_review_findings_def)
qed

lemma validate_report_decoding:
  "lib_decode_utf8 l = lib_decode_utf8 m \<Longrightarrow> validate_report l = validate_report m"
  by (simp add: validate_report_def fun_eq_iff)

lemma approval_hash: "lib_sha256 approval_documents = (\<lambda>_. replicate 64 CHR ''a'')"
  by (simp add: approval_documents_def table_library_def)

lemma approval_azure_verified:
  "verify_azure_review_publication approval_documents (\<lambda>_. False) ''p'' ''r'' sample_report sample_tfvc sample_build
     (JStr (arv_verified_at sample_receipt)) (JInt (arv_maximum_age_seconds sample_receipt)) = Inr sample_receipt"
  unfolding publication_verifies_iff'
proof (intro exI conjI)
  show "parse_azure_review_publication_bytes approval_documents (\<lambda>_. False) ''p'' = Inr sample_publication"
    by (rule approval_publication_parses)
  have "validate_report approval_documents sample_report (binding_of sample_review) = Inr ()"
    using sample_report_valid validate_report_decoding [of approval_documents sample_documents]
    by (simp add: approval_documents_def sample_documents_def table_library_def)
  then show "current_artifacts approval_documents sample_publication ''r'' sample_report"
    using sample_report_size approval_hash
    by (simp add: current_artifacts_def matches_artifact_def approval_result_parses sample_publication_def
        publication_of_def artifact_integrity_of_def table_library_def
        MAX_REVIEW_RESULT_BYTES_def MAX_REVIEW_REPORT_BYTES_def)
  show "sample_receipt = receipt approval_documents ''p'' sample_publication ''2026-01-02T03:15:00Z'' 3600"
    by (simp add: sample_receipt_def receipt_def sample_documents_def approval_documents_def table_library_def)
qed (simp_all add: sample_receipt_def receipt_def sample_whole_timestamps MAX_PUBLICATION_AGE_SECONDS_def
    sample_publication_def publication_of_def approval_sample_times sample_age)

definition sample_chain :: receipt_chain where
  "sample_chain = \<lparr>ch_publication = sample_publication, ch_verification = sample_receipt, ch_consequential_codes = []\<rparr>"

lemma approval_sample_chain: "chain_of approval_documents (\<lambda>_. False) ''p'' ''v'' ''r'' sample_chain"
proof -
  have "binding_of sample_review = arp_review sample_publication"
    by (simp add: sample_publication_def publication_of_def)
  then show ?thesis
    by (simp add: chain_of_def sample_chain_def approval_publication_parses approval_receipt_parses approval_result_parses
        consequential_codes_def chain_ok_def)
      (simp add: sample_receipt_def receipt_def sample_created_at sample_age approval_sample_times approval_documents_def
        sample_documents_def table_library_def sample_publication_def publication_of_def artifact_integrity_of_def)
qed

lemma approval_sample_scope: "in_scope (sample_assertion_with sig) sample_chain"
  by (simp add: in_scope_def sample_assertion_with_def sample_chain_def sample_receipt_def receipt_def approval_sample_times
      MAX_VERIFICATION_TO_AUTHENTICATION_SECONDS_def MAX_APPROVAL_LIFETIME_SECONDS_def)
    (simp add: sample_publication_def publication_of_def binding_of_def sample_review_def)

lemma sample_request_document:
  "assertion_request_document sample_approval_request ApprovalAction_APPROVE None sample_approval_subject
    = assertion_to_json (sample_assertion_with (replicate 64 (CHR 0x00)))"
  by (simp add: assertion_request_document_def assertion_to_json_def assertion_fields_def sample_approval_request_def
      sample_assertion_with_def authority_to_json_def approver_to_json_def approval_signature_to_json_def)

lemma approval_sample_created:
  "create_approval_assertion approval_documents sample_ed25519 (\<lambda>_. False) ''p'' ''v'' ''r'' sample_approval_request
     ''pem'' None = Inr sample_assertion"
proof -
  have chain: "validate_receipt_chain approval_documents (\<lambda>_. False) ''p'' ''v'' ''r'' = Inr sample_chain"
    by (simp add: validate_receipt_chain_Inr approval_sample_chain)
  have scope: "validate_action_scope (sample_assertion_with sig) sample_chain = Inr ()" for sig
    by (simp add: validate_action_scope_Inr approval_sample_scope)
  have parse: "parse_approval_assertion (assertion_request_document sample_approval_request ApprovalAction_APPROVE None
      sample_approval_subject) = Inr (sample_assertion_with (replicate 64 (CHR 0x00)))"
    by (simp add: sample_request_document parse_approval_assertion_render sample_assertion_ok)
  have action: "enum_lookup approval_action_value approval_action_members (rq_action sample_approval_request)
      = Some ApprovalAction_APPROVE"
    by (simp add: sample_approval_request_def approval_action.lookup_value [of ApprovalAction_APPROVE, simplified])
  have exc: "requested_exception ApprovalAction_APPROVE sample_approval_request = Inr None"
    by (simp add: requested_exception_def sample_approval_request_def)
  have subject: "document_subject approval_documents PUBLICATION_MEDIA_TYPE MAX_AZURE_PUBLICATION_BYTES role ''p''
      = Inr (su_publication sample_approval_subject)"
    "document_subject approval_documents AZURE_VERIFICATION_MEDIA_TYPE MAX_AZURE_VERIFICATION_BYTES role ''v''
      = Inr (su_verification sample_approval_subject)" for role
    by (simp_all add: document_subject_def approval_documents_def table_library_def sample_approval_subject_def
        MAX_AZURE_PUBLICATION_BYTES_def MAX_AZURE_VERIFICATION_BYTES_def)
  have key: "load_approval_key sample_ed25519 ''pem'' None = Inr ''k''"
    by (simp add: load_approval_key_Inr) (simp add: sample_ed25519_def)
  have both: "\<lparr>su_publication = su_publication s, su_verification = su_verification s\<rparr> = s" for s :: approval_subject
    by (cases s) simp
  have sign: "ed_sign sample_ed25519 k m = replicate 64 (CHR ''s'')" for k m by (simp add: sample_ed25519_def)
  show ?thesis
    by (simp add: create_approval_assertion_def chain action exc subject both parse scope key sign)
      (simp add: sample_assertion_with_def)
qed

lemma sample_approval_conditions:
  "ed_load_private sample_ed25519 ''pem'' None = Ed25519_key ''k''"
  "aa_revocation_list_id sample_assertion = as_revocation_list_id sample_approval_store"
  "al_list_id sample_approval_list = as_revocation_list_id sample_approval_store"
  "approval_key_of sample_approval_store sample_assertion sample_approval_key"
  "ak_public_key_base64url sample_approval_key = base64url_encode (ed_public_key sample_ed25519 ''k'')"
  "approval_not_revoked sample_assertion sample_approval_key sample_approval_list"
  "approval_valid_at sample_assertion sample_approval_key ''2026-01-02T03:15:00Z'' 300"
  "approval_list_fresh sample_approval_list ''2026-01-02T03:15:00Z'' 86400 300"
  by (simp_all add: sample_ed25519_def sample_assertion_with_def sample_approval_store_def sample_approval_list_def
      approval_key_of_def sample_approval_key_def approval_not_revoked_def approval_valid_at_def approval_list_fresh_def
      approval_sample_times attestation_sample_times in_date_range_def)

theorem created_approval_verifies_witness:
  "\<exists>v. verify_approval_assertion approval_documents sample_ed25519 (\<lambda>_. False) (\<lambda>_. []) sample_inputs sample_approval_store
      sample_approval_list sample_tfvc sample_build (JStr ''2026-01-02T03:15:00Z'') (JInt 86400) (JInt 300) = Inr v
    \<and> pv_action v = aa_action sample_assertion \<and> pv_review v = arv_review sample_receipt"
proof (rule created_approval_verifies [OF sample_ed25519_laws, where key = "''k''" and k = sample_approval_key and w = sample_receipt])
  show "create_approval_assertion approval_documents sample_ed25519 (\<lambda>_. False) (in_publication sample_inputs)
      (in_verification sample_inputs) (in_review_result sample_inputs) sample_approval_request ''pem'' None
      = Inr sample_assertion"
    by (simp add: sample_inputs_def approval_sample_created)
  show "decoded_assertion approval_documents (in_assertion sample_inputs) sample_assertion"
    by (simp add: sample_inputs_def approval_assertion_decodes)
  show "parse_azure_review_verification_bytes approval_documents (in_verification sample_inputs) = Inr sample_receipt"
    by (simp add: sample_inputs_def approval_receipt_parses)
  show "verify_azure_review_publication approval_documents (\<lambda>_. False) (in_publication sample_inputs)
      (in_review_result sample_inputs) (in_review_report sample_inputs) sample_tfvc sample_build
      (JStr (arv_verified_at sample_receipt)) (JInt (arv_maximum_age_seconds sample_receipt)) = Inr sample_receipt"
    by (simp add: sample_inputs_def approval_azure_verified)
qed (simp_all add: sample_approval_conditions sample_approval_store_ok sample_approval_list_ok approval_sample_times
    MAX_APPROVAL_REVOCATION_AGE_SECONDS_def)

lemma sample_verified_record:
  "verify_approval_assertion approval_documents sample_ed25519 (\<lambda>_. False) (\<lambda>_. []) sample_inputs sample_approval_store
     sample_approval_list sample_tfvc sample_build (JStr ''2026-01-02T03:15:00Z'') (JInt 86400) (JInt 300)
   = Inr (approval_receipt approval_documents sample_inputs sample_assertion sample_chain sample_approval_store
       sample_approval_list ''2026-01-02T03:15:00Z'')"
proof -
  have "approval_authentic sample_ed25519 sample_assertion sample_approval_key"
    by (simp add: approval_authentic_def sample_ed25519_def)
  moreover have "subject_matches approval_documents (su_publication (aa_subject sample_assertion)) ''p''"
    "subject_matches approval_documents (su_verification (aa_subject sample_assertion)) ''v''"
    by (simp_all add: subject_matches_def sample_assertion_with_def sample_approval_subject_def approval_documents_def
        table_library_def)
  ultimately have "approval_conditions approval_documents sample_ed25519 (\<lambda>_. False) sample_inputs sample_approval_store
      sample_approval_list sample_tfvc sample_build ''2026-01-02T03:15:00Z'' 86400 300 sample_assertion
      sample_approval_key sample_chain"
    by (simp add: approval_conditions_def sample_approval_conditions sample_inputs_def approval_assertion_decodes
        approval_sample_chain approval_sample_scope)
      (simp add: sample_chain_def approval_azure_verified)
  then show ?thesis
    unfolding approval_verifies seconds_within_def
    using sample_approval_store_ok sample_approval_list_ok approval_sample_times(1)
    by (auto simp: MAX_APPROVAL_REVOCATION_AGE_SECONDS_def)
qed

theorem verified_action_in_scope_witness:
  "rvb_decision (pv_review (approval_receipt approval_documents sample_inputs sample_assertion sample_chain
     sample_approval_store sample_approval_list ''2026-01-02T03:15:00Z'')) = Decision_APPROVE"
proof -
  have "pv_action (approval_receipt approval_documents sample_inputs sample_assertion sample_chain
     sample_approval_store sample_approval_list ''2026-01-02T03:15:00Z'') = ApprovalAction_APPROVE"
    by (simp add: approval_receipt_def sample_assertion_with_def)
  with verified_action_in_scope [OF sample_verified_record] show ?thesis by blast
qed

subsection \<open>What an approval signature binds\<close>

definition approval_dict :: "approval_assertion \<Rightarrow> json \<Rightarrow> dict" where
  "approval_dict a signature = (case assertion_fields a signature of JObj obj \<Rightarrow> obj | _ \<Rightarrow> [])"

lemma approval_dict: "assertion_fields a s = JObj (approval_dict a s)" "distinct (map fst (approval_dict a s))"
  by (simp_all add: approval_dict_def assertion_fields_def split: option.split)

lemma approval_dict_get:
  "jget (approval_dict a s) ''schema_version'' = JStr (aa_schema_version a)"
  "jget (approval_dict a s) ''assertion_id'' = JStr (aa_assertion_id a)"
  "jget (approval_dict a s) ''authority'' = authority_to_json (aa_authority a)"
  "jget (approval_dict a s) ''approver'' = approver_to_json (aa_approver a)"
  "jget (approval_dict a s) ''action'' = JStr (approval_action_value (aa_action a))"
  "jget (approval_dict a s) ''gate_effect'' = JStr (approval_gate_effect_value (aa_gate_effect a))"
  "jget (approval_dict a s) ''issued_at'' = JStr (aa_issued_at a)"
  "jget (approval_dict a s) ''expires_at'' = JStr (aa_expires_at a)"
  "jget (approval_dict a s) ''subject'' = approval_subject_to_json (aa_subject a)"
  "jget (approval_dict a s) ''revocation_list_id'' = JStr (aa_revocation_list_id a)"
  "jget (approval_dict a s) ''signature'' = s"
  "jget (approval_dict a s) ''exception'' = (case aa_exception a of None \<Rightarrow> JNull | Some e \<Rightarrow> exception_to_json e)"
  by (cases "aa_exception a"; simp add: approval_dict_def assertion_fields_def)+

lemma authority_canonical:
  assumes "sort_json (authority_to_json a) = sort_json (authority_to_json b)"
  shows "a = b"
proof -
  note f = sort_json_jget [OF assms [unfolded authority_to_json_def]]
  from f [of "''authority_id''"] f [of "''key_id''"] show ?thesis by simp
qed

lemma approver_canonical:
  assumes "sort_json (approver_to_json a) = sort_json (approver_to_json b)"
  shows "a = b"
proof -
  note f = sort_json_jget [OF assms [unfolded approver_to_json_def]]
  from f [of "''identity_provider''"] f [of "''subject_id''"] f [of "''authentication_method''"]
    f [of "''authentication_event_id''"] f [of "''authenticated_at''"]
  show ?thesis by (simp add: approval_authentication_method.inj_val)
qed

lemma approval_document_canonical:
  assumes "sort_json (approval_document_subject_to_json a) = sort_json (approval_document_subject_to_json b)"
  shows "a = b"
proof -
  note f = sort_json_jget [OF assms [unfolded approval_document_subject_to_json_def]]
  from f [of "''media_type''"] f [of "''sha256''"] f [of "''byte_count''"] show ?thesis by simp
qed

lemma approval_subject_canonical:
  assumes "sort_json (approval_subject_to_json a) = sort_json (approval_subject_to_json b)"
  shows "a = b"
proof -
  note f = sort_json_jget [OF assms [unfolded approval_subject_to_json_def]]
  have "sort_json (approval_document_subject_to_json (su_publication a))
      = sort_json (approval_document_subject_to_json (su_publication b))"
    "sort_json (approval_document_subject_to_json (su_verification a))
      = sort_json (approval_document_subject_to_json (su_verification b))"
    using f [of "''publication''"] f [of "''verification''"] by simp_all
  then show ?thesis using approval_document_canonical by auto
qed

lemma exception_canonical:
  assumes "sort_json (exception_to_json a) = sort_json (exception_to_json b)"
  shows "a = b"
proof -
  note f = sort_json_jget [OF assms [unfolded exception_to_json_def]]
  have "map (\<lambda>c. sort_json (JStr c)) (px_finding_codes a) = map (\<lambda>c. sort_json (JStr c)) (px_finding_codes b)"
    using f [of "''finding_codes''"] by (simp add: comp_def)
  then have "px_finding_codes a = px_finding_codes b"
    by (simp add: inj_map_eq_map inj_def)
  then show ?thesis using f [of "''justification''"] by simp
qed

lemma optional_exception_canonical:
  assumes "sort_json (case x of None \<Rightarrow> JNull | Some e \<Rightarrow> exception_to_json e)
    = sort_json (case y of None \<Rightarrow> JNull | Some e \<Rightarrow> exception_to_json e)"
  shows "x = y"
  using assms exception_canonical by (cases x; cases y) (auto simp: exception_to_json_def)

lemma approval_document_plain: "plain_json (approval_payload_document a)"
  by (auto simp: approval_payload_document_def assertion_fields_def authority_to_json_def approver_to_json_def
      approval_subject_to_json_def approval_document_subject_to_json_def exception_to_json_def list_all_iff
      split: option.split)

text \<open>
  The signed bytes determine the approval up to the signature value: who approved, what action and
  exception, the times, the digests of the publication and its receipt, and the revocation list.
\<close>
theorem approval_payload_binds_every_field:
  "approval_payload_bytes a = approval_payload_bytes b \<longleftrightarrow>
    b = a\<lparr>aa_signature := (aa_signature a)\<lparr>ps_value := ps_value (aa_signature b)\<rparr>\<rparr>"
proof
  assume "approval_payload_bytes a = approval_payload_bytes b"
  then have "canonical_json (\<lambda>_. []) (approval_payload_document a) = canonical_json (\<lambda>_. []) (approval_payload_document b)"
    by (simp add: approval_payload_bytes_def utf8_bytes_inj)
  from canonical_json_inj [OF approval_document_plain approval_document_plain this]
  have eq: "sort_json (approval_payload_document a) = sort_json (approval_payload_document b)" .
  note g = sort_json_jget [OF eq [unfolded approval_payload_document_def approval_dict(1)] approval_dict(2) approval_dict(2)]
  note parts = authority_canonical [OF g [of "''authority''", unfolded approval_dict_get]]
    approver_canonical [OF g [of "''approver''", unfolded approval_dict_get]]
    approval_subject_canonical [OF g [of "''subject''", unfolded approval_dict_get]]
    optional_exception_canonical [OF g [of "''exception''", unfolded approval_dict_get]]
  have "aa_schema_version a = aa_schema_version b" "aa_assertion_id a = aa_assertion_id b"
    "aa_issued_at a = aa_issued_at b" "aa_expires_at a = aa_expires_at b"
    "aa_revocation_list_id a = aa_revocation_list_id b"
    using g [of "''schema_version''"] g [of "''assertion_id''"] g [of "''issued_at''"] g [of "''expires_at''"]
      g [of "''revocation_list_id''"] by (simp_all add: approval_dict_get)
  moreover have "aa_action a = aa_action b" "aa_gate_effect a = aa_gate_effect b"
    using g [of "''action''"] g [of "''gate_effect''"]
    by (simp_all add: approval_dict_get approval_action.inj_val approval_gate_effect.inj_val)
  moreover have "ps_algorithm (aa_signature a) = ps_algorithm (aa_signature b)
    \<and> ps_canonicalization (aa_signature a) = ps_canonicalization (aa_signature b)"
    using g [of "''signature''"]
    by (simp add: approval_dict_get signature_algorithm.inj_val signature_canonicalization.inj_val)
  ultimately show "b = a\<lparr>aa_signature := (aa_signature a)\<lparr>ps_value := ps_value (aa_signature b)\<rparr>\<rparr>"
    using parts by simp
qed (metis approval_payload_value)

text \<open>
  Assertions, approval trust stores and approval revocation lists survive rendering and strict
  parsing, and only well-formed ones do: an exception exactly on exception actions, authentication at
  most 15 minutes before issue, a lifetime of at most a day, unique keys, sorted allowed actions.
\<close>
theorem approval_documents_roundtrip:
  "(parse_approval_assertion (assertion_to_json a) = Inr a' \<longleftrightarrow> a' = a \<and> assertion_ok a)
   \<and> (parse_approval_trust_store (approval_store_to_json t) = Inr t' \<longleftrightarrow> t' = t \<and> approval_store_ok t)
   \<and> (parse_approval_revocation_list (approval_list_to_json r) = Inr r' \<longleftrightarrow> r' = r \<and> approval_list_ok r)"
  by (simp add: assertion_codec.parse_render_Inr approval_store_codec.parse_render_Inr
      approval_list_codec.parse_render_Inr)

end
