(* ===== verification/Trace_Values.thy ===== *)
theory Trace_Values
  imports Wire_Values Canonical_Json
begin

text \<open>
  The values of trace documents, as \<open>collector.py\<close>, \<open>trace_manifest.py\<close> and \<open>fixtures.py\<close> read
  them: strings with a format, bounded integers, canonical uint64 decimal texts, arrays, the shared
  constants, and Python's equality of decoded JSON. Each reader takes the error to raise as a
  function of the path and the message.
\<close>

subsection \<open>Constants\<close>

definition TRACE_MANIFEST_SCHEMA_VERSION :: string where "TRACE_MANIFEST_SCHEMA_VERSION = ''1.0''"
definition INVESTIGATION_FIXTURE_SCHEMA_VERSION :: string where "INVESTIGATION_FIXTURE_SCHEMA_VERSION = ''1.0''"

definition UINT64_MAX :: int where "UINT64_MAX = 2 ^ 64 - 1"

definition OMITTED_TRACE_FIELD_GROUPS :: "string list" where
  "OMITTED_TRACE_FIELD_GROUPS =
     [''resource_attributes'', ''scope_attributes'', ''span_events'', ''span_links'', ''span_names'',
      ''span_status_messages'']"

definition SAFE_TRACE_TEXT_ATTRIBUTES :: "string list" where
  "SAFE_TRACE_TEXT_ATTRIBUTES =
     [''embedding.model_name'', ''gen_ai.operation.name'', ''gen_ai.provider.name'', ''gen_ai.request.model'',
      ''gen_ai.response.model'', ''llm.model_name'', ''llm.provider'', ''llm.system'', ''openinference.span.kind'']"

definition SAFE_TRACE_NUMERIC_ATTRIBUTES :: "string list" where
  "SAFE_TRACE_NUMERIC_ATTRIBUTES =
     [''gen_ai.usage.completion_tokens'', ''gen_ai.usage.input_tokens'', ''gen_ai.usage.output_tokens'',
      ''gen_ai.usage.prompt_tokens'', ''llm.cost.completion'', ''llm.cost.completion_details.audio'',
      ''llm.cost.completion_details.output'', ''llm.cost.completion_details.reasoning'', ''llm.cost.prompt'',
      ''llm.cost.prompt_details.audio'', ''llm.cost.prompt_details.cache_input'',
      ''llm.cost.prompt_details.cache_read'', ''llm.cost.prompt_details.cache_write'',
      ''llm.cost.prompt_details.input'', ''llm.cost.total'', ''llm.token_count.completion'',
      ''llm.token_count.completion_details.audio'', ''llm.token_count.completion_details.reasoning'',
      ''llm.token_count.prompt'', ''llm.token_count.prompt_details.audio'',
      ''llm.token_count.prompt_details.cache_read'', ''llm.token_count.prompt_details.cache_write'',
      ''llm.token_count.total'']"

definition safe_trace_text :: "string \<Rightarrow> bool" where
  "safe_trace_text = head_tail_match is_alnum (\<lambda>c. is_alnum c \<or> c \<in> set ''._:/+-'') 0 127"

definition trace_version_ok :: "string \<Rightarrow> bool" where
  "trace_version_ok = head_tail_match is_alnum (\<lambda>c. is_alnum c \<or> c \<in> set ''.+-'') 0 63"

subsection \<open>Reading\<close>

definition trace_array :: "'e raiser \<Rightarrow> nat \<Rightarrow> nat option \<Rightarrow> string \<Rightarrow> json \<Rightarrow> 'e + json list" where
  "trace_array err minimum maximum path v =
     (case v of JArr vs \<Rightarrow>
        (if length vs < minimum \<or> (case maximum of None \<Rightarrow> False | Some m \<Rightarrow> m < length vs)
         then Inl (err path (case maximum of
             None \<Rightarrow> ''expected at least '' @ dec_nat minimum @ '' item(s)''
           | Some m \<Rightarrow> ''expected from '' @ dec_nat minimum @ '' to '' @ dec_nat m @ '' item(s)''))
         else Inr vs)
      | _ \<Rightarrow> Inl (err path ''expected an array''))"

definition trace_string :: "'e raiser \<Rightarrow> (string \<Rightarrow> bool) option \<Rightarrow> string \<Rightarrow> json \<Rightarrow> 'e + string" where
  "trace_string err matches path v =
     (case v of JStr s \<Rightarrow>
        (if s = [] then Inl (err path ''expected a non-empty string'')
         else case matches of None \<Rightarrow> Inr s
           | Some f \<Rightarrow> if f s then Inr s else Inl (err path ''value does not match the required format''))
      | _ \<Rightarrow> Inl (err path ''expected a non-empty string''))"

definition trace_integer :: "'e raiser \<Rightarrow> int \<Rightarrow> int option \<Rightarrow> string \<Rightarrow> json \<Rightarrow> 'e + int" where
  "trace_integer err minimum maximum path v =
     (case v of JInt i \<Rightarrow>
        (if i < minimum \<or> (case maximum of None \<Rightarrow> False | Some m \<Rightarrow> m < i)
         then Inl (err path (case maximum of
             None \<Rightarrow> ''expected an integer of at least '' @ dec_int minimum
           | Some m \<Rightarrow> ''expected an integer from '' @ dec_int minimum @ '' to '' @ dec_int m))
         else Inr i)
      | _ \<Rightarrow> Inl (err path ''expected an integer''))"

definition decimal_value :: "string \<Rightarrow> int" where
  \<comment> \<open>\<open>int(s)\<close> of a text of decimal digits\<close>
  "decimal_value s = foldl (\<lambda>n c. 10 * n + (of_char c - 48)) 0 s"

definition is_decimal :: "string \<Rightarrow> bool" where
  \<comment> \<open>\<open>s.isdecimal()\<close>\<close>
  "is_decimal s \<longleftrightarrow> s \<noteq> [] \<and> list_all is_digit s"

definition trace_decimal :: "'e raiser \<Rightarrow> string \<Rightarrow> string \<Rightarrow> json \<Rightarrow> 'e + string" where
  \<comment> \<open>the second argument is the message for a text of more than 20 digits\<close>
  "trace_decimal err too_long path v =
     (let bad = Inl (err path ''expected a canonical uint64 decimal string'') in
      case v of JStr s \<Rightarrow>
        (if \<not> is_decimal s then bad
         else if length (dec_int UINT64_MAX) < length s then Inl (err path too_long)
         else if UINT64_MAX < decimal_value s \<or> dec_int (decimal_value s) \<noteq> s then bad
         else Inr s)
      | _ \<Rightarrow> bad)"

definition optional_field :: "(json \<Rightarrow> 'e + 'a) \<Rightarrow> dict \<Rightarrow> string \<Rightarrow> 'e + 'a option" where
  \<comment> \<open>\<open>parse(obj[key]) if key in obj else None\<close>\<close>
  "optional_field parse obj key =
     (if has_key obj key then attempt (parse (jget obj key)) (\<lambda>x. Inr (Some x)) else Inr None)"

subsection \<open>Equality of decoded JSON\<close>

fun py_number :: "json \<Rightarrow> rat option" where
  \<comment> \<open>the number a boolean, an integer or a finite float compares as\<close>
  "py_number (JBool b) = Some (if b then 1 else 0)"
| "py_number (JInt i) = Some (of_int i)"
| "py_number (JFloat (Fin x)) = Some x"
| "py_number v = None"

function py_equal :: "json \<Rightarrow> json \<Rightarrow> bool" where
  \<comment> \<open>\<open>==\<close>: numbers across their types, objects without regard to order\<close>
  "py_equal (JArr vs) w = (case w of
      JArr ws \<Rightarrow> length vs = length ws \<and> list_all (\<lambda>(a, b). py_equal a b) (zip vs ws)
    | _ \<Rightarrow> False)"
| "py_equal (JObj obj) w = (case w of
      JObj obj' \<Rightarrow> length obj = length obj' \<and>
        list_all (\<lambda>(k, a). case map_of obj' k of None \<Rightarrow> False | Some b \<Rightarrow> py_equal a b) obj
    | _ \<Rightarrow> False)"
| "py_equal JNull w = (w = JNull)"
| "py_equal (JStr s) w = (w = JStr s)"
| "py_equal (JBool b) w = (py_number w = Some (if b then 1 else 0))"
| "py_equal (JInt i) w = (py_number w = Some (of_int i))"
| "py_equal (JFloat f) w = (case f of
      Fin x \<Rightarrow> py_number w = Some x
    | NaN \<Rightarrow> False
    | _ \<Rightarrow> w = JFloat f)"
  by pat_completeness auto

termination
proof (relation "measure (\<lambda>(v, w). size v)", goal_cases)
  case (2 vs w ws z a b)
  then have "a \<in> set vs" by (auto dest: set_zip_leftD)
  then have "size a \<le> size_list size vs" by (rule size_list_estimation') simp
  then show ?case by simp
next
  case (3 obj w obj' z k a b)
  then have "(k, a) \<in> set obj" by simp
  then have "size a \<le> size_list (size_prod (\<lambda>x. 0) size) obj"
    by (rule size_list_estimation') simp
  then show ?case by simp
qed simp


subsection \<open>When a value is accepted\<close>

definition in_bounds :: "int \<Rightarrow> int option \<Rightarrow> int \<Rightarrow> bool" where
  "in_bounds minimum maximum i \<longleftrightarrow> minimum \<le> i \<and> (case maximum of None \<Rightarrow> True | Some m \<Rightarrow> i \<le> m)"

definition decimal_ok :: "string \<Rightarrow> bool" where
  "decimal_ok s \<longleftrightarrow> (\<exists>n. 0 \<le> n \<and> n \<le> UINT64_MAX \<and> s = dec_int n)"

lemma in_bounds_simps [simp]:
  "in_bounds lo None i \<longleftrightarrow> lo \<le> i" "in_bounds lo (Some hi) i \<longleftrightarrow> lo \<le> i \<and> i \<le> hi"
  by (auto simp: in_bounds_def)

lemma trace_array_Inr [strict_iff]:
  "trace_array err lo None path v = Inr vs \<longleftrightarrow> v = JArr vs \<and> lo \<le> length vs"
  "trace_array err lo (Some hi) path v = Inr vs \<longleftrightarrow> v = JArr vs \<and> lo \<le> length vs \<and> length vs \<le> hi"
  by (auto simp: trace_array_def split: json.split if_splits)

lemma trace_string_Inr [strict_iff]:
  "trace_string err None path v = Inr s \<longleftrightarrow> v = JStr s \<and> s \<noteq> []"
  "trace_string err (Some f) path v = Inr s \<longleftrightarrow> v = JStr s \<and> s \<noteq> [] \<and> f s"
  by (auto simp: trace_string_def split: json.split if_splits)

lemma trace_integer_Inr [strict_iff]:
  "trace_integer err lo hi path v = Inr i \<longleftrightarrow> v = JInt i \<and> in_bounds lo hi i"
  by (auto simp: trace_integer_def in_bounds_def split: json.split if_splits option.splits)

lemma digits_foldl:
  "list_all is_digit s \<Longrightarrow>
     foldl (\<lambda>n c. 10 * n + (of_char c - 48)) (int k) s = int (foldl (\<lambda>v c. v * 10 + (of_char c - 48)) k s)"
proof (induction s arbitrary: k)
  case (Cons c s)
  have "48 \<le> (of_char c :: nat)" using Cons.prems by (simp add: is_digit_def Let_def)
  moreover have "(of_char c :: int) = int (of_char c)" by (cases c) (simp add: of_char_def)
  ultimately have "10 * int k + (of_char c - 48) = int (k * 10 + (of_char c - 48))" by simp
  with Cons.IH [of "k * 10 + (of_char c - 48)"] Cons.prems show ?case by (simp add: mult.commute)
qed simp

lemma decimal_value_digits: "list_all is_digit s \<Longrightarrow> decimal_value s = int (digits_value s)"
  using digits_foldl [of s 0] by (simp add: decimal_value_def digits_value_def)

lemma decimal_value_dec: "0 \<le> n \<Longrightarrow> decimal_value (dec_int n) = n"
  using dec_nat_digits [of "nat n"] by (simp add: dec_int_def decimal_value_digits digits_value_dec)

lemma is_decimal_dec: "0 \<le> n \<Longrightarrow> is_decimal (dec_int n)"
  using dec_nat_digits [of "nat n"] dec_nat_head [of "nat n"] by (auto simp: dec_int_def is_decimal_def)

lemma dec_nat_length: "n < 10 ^ k \<Longrightarrow> 0 < k \<Longrightarrow> length (dec_nat n) \<le> k"
proof (induction k arbitrary: n)
  case (Suc k)
  show ?case
  proof (cases "n < 10")
    case True
    then show ?thesis by (subst dec_nat.simps) simp
  next
    case False
    with Suc.prems have "n div 10 < 10 ^ k" "0 < k" by (auto intro: gr0I)
    with False Suc.IH show ?thesis by (subst dec_nat.simps) simp
  qed
qed simp

lemma uint64_text: "length (dec_int UINT64_MAX) = 20"
  by (simp add: UINT64_MAX_def dec_int_def dec_nat.simps)

lemma decimal_ok_length: "decimal_ok s \<Longrightarrow> length s \<le> 20"
proof -
  assume "decimal_ok s"
  then obtain n where n: "0 \<le> n" "n \<le> UINT64_MAX" "s = dec_int n" by (auto simp: decimal_ok_def)
  then have "nat n < 10 ^ 20" by (simp add: UINT64_MAX_def nat_less_iff)
  from dec_nat_length [OF this] n show ?thesis by (simp add: dec_int_def)
qed

lemma dec_decimal: "is_decimal s \<Longrightarrow> 0 \<le> decimal_value s"
  by (simp add: is_decimal_def decimal_value_digits)

lemma decimal_ok_iff:
  "decimal_ok s \<longleftrightarrow> is_decimal s \<and> decimal_value s \<le> UINT64_MAX \<and> dec_int (decimal_value s) = s"
proof
  assume "decimal_ok s"
  then obtain n where n: "0 \<le> n" "n \<le> UINT64_MAX" "s = dec_int n" by (auto simp: decimal_ok_def)
  show "is_decimal s \<and> decimal_value s \<le> UINT64_MAX \<and> dec_int (decimal_value s) = s"
    using n(1,2) unfolding n(3) by (simp add: is_decimal_dec decimal_value_dec)
next
  assume s: "is_decimal s \<and> decimal_value s \<le> UINT64_MAX \<and> dec_int (decimal_value s) = s"
  then show "decimal_ok s"
    unfolding decimal_ok_def by (intro exI [of _ "decimal_value s"]) (simp add: dec_decimal)
qed

lemma trace_decimal_Inr [strict_iff]:
  "trace_decimal err too_long path v = Inr s \<longleftrightarrow> v = JStr s \<and> decimal_ok s"
  using decimal_ok_length [of s]
  by (cases v) (auto simp: trace_decimal_def uint64_text not_less decimal_ok_iff Let_def split: if_splits)

lemma optional_field_None [strict_iff]:
  "optional_field parse obj k = Inr None \<longleftrightarrow> \<not> has_key obj k"
  by (simp add: optional_field_def attempt_Inr)

lemma optional_field_Some [strict_iff]:
  "optional_field parse obj k = Inr (Some x) \<longleftrightarrow> has_key obj k \<and> parse (jget obj k) = Inr x"
  by (simp add: optional_field_def attempt_Inr)

lemma optional_field_Inr:
  "optional_field parse obj k = Inr x \<longleftrightarrow>
     (case x of None \<Rightarrow> \<not> has_key obj k | Some y \<Rightarrow> has_key obj k \<and> parse (jget obj k) = Inr y)"
  by (cases x) (simp_all add: strict_iff)

end
