(* ===== verification/Trace_Manifest.thy ===== *)
theory Trace_Manifest
  imports Trace_Values Case_Parser
begin

text \<open>
  \<open>trace_manifest.py\<close>, with the documents of \<open>collector.py\<close>: the redacted manifest of a trace
  export, its strict parser and its rendering. A span keeps hashes of its identifiers, times, enum
  numbers and the allowlisted attributes; their values are the JSON primitives themselves.
\<close>

subsection \<open>Documents\<close>

datatype trace_manifest_error = Trace_manifest_invalid string string

record trace_source =
  ts_artifact_id :: string
  ts_format :: trace_source_format
  ts_media_type :: string
  ts_sha256 :: string
  ts_byte_count :: int
  ts_trace_count :: int
  ts_span_count :: int
  ts_source_embedded :: bool

record redaction_summary =
  rs_strategy :: redaction_strategy
  rs_raw_content_included :: bool
  rs_retained_attribute_count :: int
  rs_redacted_attribute_count :: int
  rs_dropped_attribute_count :: int
  rs_omitted_field_groups :: "string list"

record collected_span =
  cs_evidence_ref :: string
  cs_trace_id_sha256 :: string
  cs_span_id_sha256 :: string
  cs_parent_span_id_sha256 :: "string option"
  cs_start_time_unix_nano :: "string option"
  cs_end_time_unix_nano :: "string option"
  cs_duration_nano :: "string option"
  cs_kind :: "int option"
  cs_status_code :: "int option"
  cs_attributes :: dict

record trace_manifest =
  tm_schema_version :: string
  tm_collector_version :: string
  tm_source :: trace_source
  tm_redaction :: redaction_summary
  tm_spans :: "collected_span list"

subsection \<open>Parsing\<close>

abbreviation trace_sha256 :: "string \<Rightarrow> json \<Rightarrow> trace_manifest_error + string" where
  "trace_sha256 \<equiv> trace_string Trace_manifest_invalid (Some sha256_ok)"

definition is_nonnegative_finite_number :: "json \<Rightarrow> bool" where
  "is_nonnegative_finite_number v = (case v of
      JInt i \<Rightarrow> float_of_int i \<noteq> None \<and> 0 \<le> i
    | JFloat (Fin x) \<Rightarrow> 0 \<le> x
    | _ \<Rightarrow> False)"

definition parse_trace_source :: "json \<Rightarrow> trace_manifest_error + trace_source" where
  "parse_trace_source v =
     (let err = Trace_manifest_invalid; path = ''$.source'' in
     attempt (wire_object err path
       [''artifact_id'', ''format'', ''media_type'', ''sha256'', ''byte_count'', ''trace_count'', ''span_count'',
        ''source_embedded''] [] v) (\<lambda>obj.
     attempt (ensure (jget obj ''media_type'' = JStr ''application/json'')
                (err (sub path ''media_type'') ''expected application/json'')) (\<lambda>_.
     attempt (ensure (jget obj ''source_embedded'' = JBool False)
                (err (sub path ''source_embedded'') ''source content must not be embedded'')) (\<lambda>_.
     attempt (trace_string err (Some safe_id_ok) (sub path ''artifact_id'') (jget obj ''artifact_id'')) (\<lambda>artifact_id.
     attempt (wire_enum err trace_source_format_value trace_source_format_members
                (sub path ''format'') (jget obj ''format'')) (\<lambda>format.
     attempt (trace_sha256 (sub path ''sha256'') (jget obj ''sha256'')) (\<lambda>sha256.
     attempt (trace_integer err 1 None (sub path ''byte_count'') (jget obj ''byte_count'')) (\<lambda>byte_count.
     attempt (trace_integer err 1 None (sub path ''trace_count'') (jget obj ''trace_count'')) (\<lambda>trace_count.
     attempt (trace_integer err 1 None (sub path ''span_count'') (jget obj ''span_count'')) (\<lambda>span_count.
     Inr \<lparr>ts_artifact_id = artifact_id, ts_format = format, ts_media_type = ''application/json'', ts_sha256 = sha256,
          ts_byte_count = byte_count, ts_trace_count = trace_count, ts_span_count = span_count,
          ts_source_embedded = False\<rparr>))))))))))"

definition parse_redaction :: "json \<Rightarrow> trace_manifest_error + redaction_summary" where
  "parse_redaction v =
     (let err = Trace_manifest_invalid; path = ''$.redaction'' in
     attempt (wire_object err path
       [''strategy'', ''raw_content_included'', ''retained_attribute_count'', ''redacted_attribute_count'',
        ''dropped_attribute_count'', ''omitted_field_groups''] [] v) (\<lambda>obj.
     attempt (ensure (jget obj ''raw_content_included'' = JBool False)
                (err (sub path ''raw_content_included'') ''raw content must not be included'')) (\<lambda>_.
     attempt (trace_array err (length OMITTED_TRACE_FIELD_GROUPS) None (sub path ''omitted_field_groups'')
                (jget obj ''omitted_field_groups'')) (\<lambda>items.
     attempt (each (\<lambda>index. trace_string err None (at_index (sub path ''omitted_field_groups'') index)) 0 items)
       (\<lambda>omitted.
     attempt (ensure (omitted = OMITTED_TRACE_FIELD_GROUPS)
                (err (sub path ''omitted_field_groups'') ''expected the canonical omitted-field list'')) (\<lambda>_.
     attempt (wire_enum err redaction_strategy_value redaction_strategy_members
                (sub path ''strategy'') (jget obj ''strategy'')) (\<lambda>strategy.
     attempt (trace_integer err 0 None (sub path ''retained_attribute_count'') (jget obj ''retained_attribute_count''))
       (\<lambda>retained.
     attempt (trace_integer err 0 None (sub path ''redacted_attribute_count'') (jget obj ''redacted_attribute_count''))
       (\<lambda>redacted.
     attempt (trace_integer err 0 None (sub path ''dropped_attribute_count'') (jget obj ''dropped_attribute_count''))
       (\<lambda>dropped.
     Inr \<lparr>rs_strategy = strategy, rs_raw_content_included = False, rs_retained_attribute_count = retained,
          rs_redacted_attribute_count = redacted, rs_dropped_attribute_count = dropped,
          rs_omitted_field_groups = omitted\<rparr>))))))))))"

definition parse_attribute :: "json \<Rightarrow> string \<Rightarrow> string \<Rightarrow> trace_manifest_error + json" where
  "parse_attribute v path key =
     (let err = Trace_manifest_invalid in
      if key \<in> set SAFE_TRACE_TEXT_ATTRIBUTES then
        attempt (trace_string err None path v) (\<lambda>text.
          if key = ''openinference.span.kind'' then
            attempt (wire_enum err openinference_span_kind_value openinference_span_kind_members path (JStr text))
              (\<lambda>kind. Inr (JStr (openinference_span_kind_value kind)))
          else if \<not> safe_trace_text text then
            Inl (err path ''text metadata does not match the safe identifier format'')
          else Inr (JStr text))
      else if key \<in> set SAFE_TRACE_NUMERIC_ATTRIBUTES then
        (if \<not> is_nonnegative_finite_number v
         then Inl (err path ''numeric metadata must be a non-negative finite number'') else Inr v)
      else Inl (err path (''attribute is not allowlisted: '' @ key)))"

fun parse_attributes :: "string \<Rightarrow> dict \<Rightarrow> trace_manifest_error + dict" where
  "parse_attributes path [] = Inr []"
| "parse_attributes path ((key, v) # items) =
     attempt (parse_attribute v (path @ ''.attributes.'' @ key) key) (\<lambda>x.
     attempt (parse_attributes path items) (\<lambda>xs. Inr ((key, x) # xs)))"

definition span_ref :: "string \<Rightarrow> string \<Rightarrow> string" where
  "span_ref source_sha256 span_hash = ''trace-sha256://'' @ source_sha256 @ ''/spans/'' @ span_hash"

definition parse_span_times ::
  "string \<Rightarrow> dict \<Rightarrow> trace_manifest_error + string option \<times> string option \<times> string option" where
  "parse_span_times path obj =
     (let err = Trace_manifest_invalid;
          decimal = (\<lambda>key. optional_field
            (trace_decimal err ''decimal string exceeds the uint64 range'' (sub path key)) obj key)
      in
     attempt (decimal ''start_time_unix_nano'') (\<lambda>start.
     attempt (decimal ''end_time_unix_nano'') (\<lambda>end_time.
     attempt (decimal ''duration_nano'') (\<lambda>duration.
     attempt (case (start, end_time) of
         (Some s, Some e) \<Rightarrow>
           attempt (ensure (decimal_value s \<le> decimal_value e) (err path ''span end time precedes start time'')) (\<lambda>_.
           ensure (duration = Some (dec_int (decimal_value e - decimal_value s)))
             (err (sub path ''duration_nano'') ''duration does not match the start and end timestamps''))
       | _ \<Rightarrow> ensure (duration = None)
             (err (sub path ''duration_nano'') ''duration requires both start and end timestamps'')) (\<lambda>_.
     Inr (start, end_time, duration))))))"

definition parse_span :: "string \<Rightarrow> nat \<Rightarrow> json \<Rightarrow> trace_manifest_error + collected_span" where
  "parse_span source_sha256 index v =
     (let err = Trace_manifest_invalid; path = at_index ''$.spans'' index in
     attempt (wire_object err path [''evidence_ref'', ''trace_id_sha256'', ''span_id_sha256'', ''attributes'']
       [''parent_span_id_sha256'', ''start_time_unix_nano'', ''end_time_unix_nano'', ''duration_nano'', ''kind'',
        ''status_code''] v) (\<lambda>obj.
     attempt (trace_sha256 (sub path ''trace_id_sha256'') (jget obj ''trace_id_sha256'')) (\<lambda>trace_hash.
     attempt (trace_sha256 (sub path ''span_id_sha256'') (jget obj ''span_id_sha256'')) (\<lambda>span_hash.
     attempt (trace_string err None (sub path ''evidence_ref'') (jget obj ''evidence_ref'')) (\<lambda>evidence_ref.
     attempt (ensure (evidence_ref = span_ref source_sha256 span_hash)
                (err (sub path ''evidence_ref'') ''reference does not match the source and span hashes'')) (\<lambda>_.
     attempt (optional_field (trace_sha256 (sub path ''parent_span_id_sha256'')) obj ''parent_span_id_sha256'')
       (\<lambda>parent_hash.
     attempt (ensure (parent_hash \<noteq> Some span_hash)
                (err (sub path ''parent_span_id_sha256'') ''a span cannot be its own parent'')) (\<lambda>_.
     attempt (parse_span_times path obj) (\<lambda>(start, end_time, duration).
     attempt (wire_object err (sub path ''attributes'') []
                (SAFE_TRACE_TEXT_ATTRIBUTES @ SAFE_TRACE_NUMERIC_ATTRIBUTES) (jget obj ''attributes'')) (\<lambda>attributes_obj.
     attempt (parse_attributes path (sort_key fst attributes_obj)) (\<lambda>attributes.
     attempt (optional_field (trace_integer err 0 (Some 5) (sub path ''kind'')) obj ''kind'') (\<lambda>kind.
     attempt (optional_field (trace_integer err 0 (Some 2) (sub path ''status_code'')) obj ''status_code'')
       (\<lambda>status_code.
     Inr \<lparr>cs_evidence_ref = evidence_ref, cs_trace_id_sha256 = trace_hash, cs_span_id_sha256 = span_hash,
          cs_parent_span_id_sha256 = parent_hash, cs_start_time_unix_nano = start, cs_end_time_unix_nano = end_time,
          cs_duration_nano = duration, cs_kind = kind, cs_status_code = status_code,
          cs_attributes = attributes\<rparr>)))))))))))))"

definition check_spans :: "trace_source \<Rightarrow> redaction_summary \<Rightarrow> collected_span list \<Rightarrow> trace_manifest_error + unit" where
  \<comment> \<open>the checks of a manifest over all its spans\<close>
  "check_spans source redaction spans =
     (let err = Trace_manifest_invalid in
     attempt (ensure (ts_span_count source = int (length spans))
                (err ''$.source.span_count'' ''count does not match the spans array'')) (\<lambda>_.
     attempt (ensure (ts_trace_count source = int (length (remdups (map cs_trace_id_sha256 spans))))
                (err ''$.source.trace_count'' ''count does not match the distinct trace hashes'')) (\<lambda>_.
     attempt (ensure (distinct (map (\<lambda>s. (cs_trace_id_sha256 s, cs_span_id_sha256 s)) spans))
                (err ''$.spans'' ''span identities must be unique'')) (\<lambda>_.
     attempt (ensure (distinct (map cs_evidence_ref spans))
                (err ''$.spans'' ''evidence references must be unique'')) (\<lambda>_.
     ensure (rs_retained_attribute_count redaction = int (sum_list (map (\<lambda>s. length (cs_attributes s)) spans)))
       (err ''$.redaction.retained_attribute_count'' ''count does not match retained span attributes''))))))"

definition parse_trace_manifest :: "json \<Rightarrow> trace_manifest_error + trace_manifest" where
  "parse_trace_manifest document =
     (let err = Trace_manifest_invalid in
     attempt (wire_object err ''$'' [''schema_version'', ''collector_version'', ''source'', ''redaction'', ''spans''] []
                document) (\<lambda>rt.
     attempt (ensure (jget rt ''schema_version'' = JStr TRACE_MANIFEST_SCHEMA_VERSION)
                (err ''$.schema_version'' (''expected '' @ TRACE_MANIFEST_SCHEMA_VERSION))) (\<lambda>_.
     attempt (trace_string err (Some trace_version_ok) ''$.collector_version'' (jget rt ''collector_version''))
       (\<lambda>collector_version.
     attempt (parse_trace_source (jget rt ''source'')) (\<lambda>source.
     attempt (parse_redaction (jget rt ''redaction'')) (\<lambda>redaction.
     attempt (trace_array err 1 None ''$.spans'' (jget rt ''spans'')) (\<lambda>items.
     attempt (each (parse_span (ts_sha256 source)) 0 items) (\<lambda>spans.
     attempt (check_spans source redaction spans) (\<lambda>_.
     Inr \<lparr>tm_schema_version = TRACE_MANIFEST_SCHEMA_VERSION, tm_collector_version = collector_version,
          tm_source = source, tm_redaction = redaction, tm_spans = spans\<rparr>)))))))))"

subsection \<open>Rendering\<close>

definition trace_source_to_json :: "trace_source \<Rightarrow> json" where
  "trace_source_to_json s = JObj
     [(''artifact_id'', JStr (ts_artifact_id s)), (''format'', JStr (trace_source_format_value (ts_format s))),
      (''media_type'', JStr (ts_media_type s)), (''sha256'', JStr (ts_sha256 s)),
      (''byte_count'', JInt (ts_byte_count s)), (''trace_count'', JInt (ts_trace_count s)),
      (''span_count'', JInt (ts_span_count s)), (''source_embedded'', JBool (ts_source_embedded s))]"

definition redaction_to_json :: "redaction_summary \<Rightarrow> json" where
  "redaction_to_json r = JObj
     [(''strategy'', JStr (redaction_strategy_value (rs_strategy r))),
      (''raw_content_included'', JBool (rs_raw_content_included r)),
      (''retained_attribute_count'', JInt (rs_retained_attribute_count r)),
      (''redacted_attribute_count'', JInt (rs_redacted_attribute_count r)),
      (''dropped_attribute_count'', JInt (rs_dropped_attribute_count r)),
      (''omitted_field_groups'', JArr (map JStr (rs_omitted_field_groups r)))]"

definition span_dict :: "collected_span \<Rightarrow> dict" where
  "span_dict s =
     [(''evidence_ref'', JStr (cs_evidence_ref s)), (''trace_id_sha256'', JStr (cs_trace_id_sha256 s)),
      (''span_id_sha256'', JStr (cs_span_id_sha256 s))] @
     omit_none ''parent_span_id_sha256'' (map_option JStr (cs_parent_span_id_sha256 s)) @
     omit_none ''start_time_unix_nano'' (map_option JStr (cs_start_time_unix_nano s)) @
     omit_none ''end_time_unix_nano'' (map_option JStr (cs_end_time_unix_nano s)) @
     omit_none ''duration_nano'' (map_option JStr (cs_duration_nano s)) @
     omit_none ''kind'' (map_option JInt (cs_kind s)) @
     omit_none ''status_code'' (map_option JInt (cs_status_code s)) @
     [(''attributes'', JObj (cs_attributes s))]"

definition trace_manifest_to_json :: "trace_manifest \<Rightarrow> json" where
  "trace_manifest_to_json m = JObj
     [(''schema_version'', JStr (tm_schema_version m)), (''collector_version'', JStr (tm_collector_version m)),
      (''source'', trace_source_to_json (tm_source m)), (''redaction'', redaction_to_json (tm_redaction m)),
      (''spans'', JArr (map (\<lambda>s. JObj (span_dict s)) (tm_spans m)))]"

definition render_trace_manifest :: "(json \<Rightarrow> string) \<Rightarrow> trace_manifest \<Rightarrow> string" where
  \<comment> \<open>the argument is \<open>json.dumps(..., indent=2, sort_keys=True)\<close>\<close>
  "render_trace_manifest dumps m = dumps (trace_manifest_to_json m) @ [CHR 0x0A]"

subsection \<open>Well-formed manifests\<close>

lemmas trace_enums_Inr [strict_iff] =
  trace_source_format.wire_enum_Inr redaction_strategy.wire_enum_Inr openinference_span_kind.wire_enum_Inr
  trace_source_format.inj_val redaction_strategy.inj_val openinference_span_kind.inj_val

definition span_kind_text :: "string \<Rightarrow> bool" where
  "span_kind_text t \<longleftrightarrow> t \<in> set (map openinference_span_kind_value openinference_span_kind_members)"

definition attribute_ok :: "string \<times> json \<Rightarrow> bool" where
  "attribute_ok p \<longleftrightarrow> (case p of (key, v) \<Rightarrow>
     if key \<in> set SAFE_TRACE_TEXT_ATTRIBUTES then
       (case v of JStr t \<Rightarrow> if key = ''openinference.span.kind'' then span_kind_text t else safe_trace_text t | _ \<Rightarrow> False)
     else key \<in> set SAFE_TRACE_NUMERIC_ATTRIBUTES \<and> is_nonnegative_finite_number v)"

definition attributes_ok :: "dict \<Rightarrow> bool" where
  "attributes_ok attrs \<longleftrightarrow> sorted (map fst attrs) \<and> list_all attribute_ok attrs"

definition trace_source_ok :: "trace_source \<Rightarrow> bool" where
  "trace_source_ok s \<longleftrightarrow> safe_id_ok (ts_artifact_id s) \<and> ts_media_type s = ''application/json''
     \<and> sha256_ok (ts_sha256 s) \<and> 1 \<le> ts_byte_count s \<and> 1 \<le> ts_trace_count s \<and> 1 \<le> ts_span_count s
     \<and> \<not> ts_source_embedded s"

definition redaction_ok :: "redaction_summary \<Rightarrow> bool" where
  "redaction_ok r \<longleftrightarrow> \<not> rs_raw_content_included r \<and> rs_omitted_field_groups r = OMITTED_TRACE_FIELD_GROUPS
     \<and> 0 \<le> rs_retained_attribute_count r \<and> 0 \<le> rs_redacted_attribute_count r \<and> 0 \<le> rs_dropped_attribute_count r"

definition span_times_ok :: "string option \<Rightarrow> string option \<Rightarrow> string option \<Rightarrow> bool" where
  "span_times_ok start end_time duration \<longleftrightarrow>
     (case start of None \<Rightarrow> True | Some s \<Rightarrow> decimal_ok s) \<and> (case end_time of None \<Rightarrow> True | Some e \<Rightarrow> decimal_ok e)
     \<and> (case duration of None \<Rightarrow> True | Some d \<Rightarrow> decimal_ok d)
     \<and> (case (start, end_time) of
          (Some s, Some e) \<Rightarrow> decimal_value s \<le> decimal_value e
             \<and> duration = Some (dec_int (decimal_value e - decimal_value s))
        | _ \<Rightarrow> duration = None)"

definition not_own_parent :: "collected_span \<Rightarrow> bool" where
  "not_own_parent s \<longleftrightarrow> cs_parent_span_id_sha256 s \<noteq> Some (cs_span_id_sha256 s)"

definition span_ok :: "string \<Rightarrow> collected_span \<Rightarrow> bool" where
  "span_ok source_sha256 s \<longleftrightarrow> cs_evidence_ref s = span_ref source_sha256 (cs_span_id_sha256 s)
     \<and> sha256_ok (cs_trace_id_sha256 s) \<and> sha256_ok (cs_span_id_sha256 s)
     \<and> (case cs_parent_span_id_sha256 s of None \<Rightarrow> True | Some p \<Rightarrow> sha256_ok p) \<and> not_own_parent s
     \<and> span_times_ok (cs_start_time_unix_nano s) (cs_end_time_unix_nano s) (cs_duration_nano s)
     \<and> (case cs_kind s of None \<Rightarrow> True | Some k \<Rightarrow> 0 \<le> k \<and> k \<le> 5)
     \<and> (case cs_status_code s of None \<Rightarrow> True | Some c \<Rightarrow> 0 \<le> c \<and> c \<le> 2)
     \<and> attributes_ok (cs_attributes s)"

definition spans_agree :: "trace_source \<Rightarrow> redaction_summary \<Rightarrow> collected_span list \<Rightarrow> bool" where
  \<comment> \<open>the counts and identities a manifest declares are those of its spans\<close>
  "spans_agree source redaction spans \<longleftrightarrow> ts_span_count source = int (length spans)
     \<and> ts_trace_count source = int (card (cs_trace_id_sha256 ` set spans))
     \<and> distinct (map (\<lambda>s. (cs_trace_id_sha256 s, cs_span_id_sha256 s)) spans)
     \<and> distinct (map cs_evidence_ref spans)
     \<and> rs_retained_attribute_count redaction = int (sum_list (map (\<lambda>s. length (cs_attributes s)) spans))"

definition trace_manifest_ok :: "trace_manifest \<Rightarrow> bool" where
  "trace_manifest_ok m \<longleftrightarrow> tm_schema_version m = TRACE_MANIFEST_SCHEMA_VERSION
     \<and> trace_version_ok (tm_collector_version m) \<and> trace_source_ok (tm_source m) \<and> redaction_ok (tm_redaction m)
     \<and> tm_spans m \<noteq> [] \<and> list_all (span_ok (ts_sha256 (tm_source m))) (tm_spans m)
     \<and> spans_agree (tm_source m) (tm_redaction m) (tm_spans m)"

lemma head_tail_nonempty [simp]: "\<not> head_tail_match F R lo hi []"
  by (simp add: head_tail_match_def)

lemma formats_nonempty [simp]:
  "\<not> sha256_ok []" "\<not> safe_id_ok []" "\<not> trace_version_ok []" "\<not> safe_trace_text []" "\<not> span_kind_text []"
  by (simp_all add: sha256_ok_def safe_id_ok_def trace_version_ok_def safe_trace_text_def span_kind_text_def
      openinference_span_kind_members_def)

lemma trace_sha256_Inr [strict_iff]: "trace_sha256 path v = Inr s \<longleftrightarrow> v = JStr s \<and> sha256_ok s"
  using formats_nonempty by (auto simp: trace_string_Inr)

lemma parse_trace_source_render [strict_iff]:
  "parse_trace_source (trace_source_to_json s) = Inr t \<longleftrightarrow> t = s \<and> trace_source_ok s"
  using formats_nonempty
  by (cases s) (auto simp: parse_trace_source_def trace_source_to_json_def strict_iff exact_keys_def
      trace_source_ok_def Let_def)

lemma parse_trace_source_ok: "parse_trace_source v = Inr s \<Longrightarrow> trace_source_ok s"
  by (auto simp: parse_trace_source_def strict_iff trace_source_ok_def Let_def)

interpretation omitted_codec: exact_codec
  "\<lambda>i. trace_string Trace_manifest_invalid None (at_index path i)" JStr "\<lambda>s. s \<noteq> []" for path
  by unfold_locales (auto simp: strict_iff)

lemma OMITTED_nonempty: "list_all (\<lambda>s. s \<noteq> []) OMITTED_TRACE_FIELD_GROUPS"
  by (simp add: OMITTED_TRACE_FIELD_GROUPS_def)

lemma parse_redaction_render [strict_iff]:
  "parse_redaction (redaction_to_json r) = Inr t \<longleftrightarrow> t = r \<and> redaction_ok r"
  using OMITTED_nonempty
  by (cases r) (auto simp: parse_redaction_def redaction_to_json_def strict_iff exact_keys_def
      redaction_ok_def omitted_codec.each_exact Let_def)

lemma parse_redaction_ok: "parse_redaction v = Inr r \<Longrightarrow> redaction_ok r"
  by (auto simp: parse_redaction_def strict_iff redaction_ok_def Let_def)

lemma wire_enum_span_kind:
  "wire_enum err openinference_span_kind_value openinference_span_kind_members path (JStr t) = Inr k
    \<longleftrightarrow> t = openinference_span_kind_value k"
  by (auto simp: strict_iff)

lemma span_kind_text_iff: "span_kind_text t \<longleftrightarrow> (\<exists>k. t = openinference_span_kind_value k)"
  using openinference_span_kind.complete by (auto simp: span_kind_text_def)

lemma span_kind_value_nonempty [simp]: "openinference_span_kind_value k \<noteq> []"
  by (cases k) simp_all

lemma parse_attribute_Inr:
  "parse_attribute v path key = Inr x \<longleftrightarrow> x = v \<and> attribute_ok (key, v)"
proof (cases "key \<in> set SAFE_TRACE_TEXT_ATTRIBUTES")
  case True
  then show ?thesis
    using formats_nonempty
    by (cases v) (auto simp: parse_attribute_def attribute_ok_def strict_iff span_kind_text_iff)
next
  case False
  then show ?thesis by (auto simp: parse_attribute_def attribute_ok_def)
qed

lemma parse_attributes_Inr [strict_iff]:
  "parse_attributes path items = Inr xs \<longleftrightarrow> xs = items \<and> list_all attribute_ok items"
  by (induction path items arbitrary: xs rule: parse_attributes.induct) (auto simp: attempt_Inr parse_attribute_Inr)

lemma span_times_Inr [strict_iff]:
  "parse_span_times path obj = Inr (a, b, c) \<longleftrightarrow>
     optional_field (trace_decimal Trace_manifest_invalid ''decimal string exceeds the uint64 range''
       (sub path ''start_time_unix_nano'')) obj ''start_time_unix_nano'' = Inr a \<and>
     optional_field (trace_decimal Trace_manifest_invalid ''decimal string exceeds the uint64 range''
       (sub path ''end_time_unix_nano'')) obj ''end_time_unix_nano'' = Inr b \<and>
     optional_field (trace_decimal Trace_manifest_invalid ''decimal string exceeds the uint64 range''
       (sub path ''duration_nano'')) obj ''duration_nano'' = Inr c \<and>
     span_times_ok a b c"
  by (cases a; cases b; cases c)
    (auto simp: parse_span_times_def attempt_Inr ensure_Inr Let_def span_times_ok_def optional_field_Inr
      trace_decimal_Inr split: option.splits)

lemma check_spans_Inr [strict_iff]:
  "check_spans source redaction spans = Inr u \<longleftrightarrow> spans_agree source redaction spans"
proof -
  have "length (remdups (map cs_trace_id_sha256 spans)) = card (cs_trace_id_sha256 ` set spans)"
    by (metis length_remdups_card_conv set_map)
  then show ?thesis by (auto simp: check_spans_def attempt_Inr ensure_Inr Let_def spans_agree_def)
qed

lemma span_dict_get:
  "jget (span_dict s) ''evidence_ref'' = JStr (cs_evidence_ref s)"
  "jget (span_dict s) ''trace_id_sha256'' = JStr (cs_trace_id_sha256 s)"
  "jget (span_dict s) ''span_id_sha256'' = JStr (cs_span_id_sha256 s)"
  "jget (span_dict s) ''attributes'' = JObj (cs_attributes s)"
  by (auto simp: span_dict_def omit_none_def split: option.split)

lemma optional_field_render:
  "optional_field parse (span_dict s) ''parent_span_id_sha256'' = (case cs_parent_span_id_sha256 s of
     None \<Rightarrow> Inr None | Some p \<Rightarrow> attempt (parse (JStr p)) (\<lambda>x. Inr (Some x)))"
  "optional_field parse (span_dict s) ''start_time_unix_nano'' = (case cs_start_time_unix_nano s of
     None \<Rightarrow> Inr None | Some p \<Rightarrow> attempt (parse (JStr p)) (\<lambda>x. Inr (Some x)))"
  "optional_field parse (span_dict s) ''end_time_unix_nano'' = (case cs_end_time_unix_nano s of
     None \<Rightarrow> Inr None | Some p \<Rightarrow> attempt (parse (JStr p)) (\<lambda>x. Inr (Some x)))"
  "optional_field parse (span_dict s) ''duration_nano'' = (case cs_duration_nano s of
     None \<Rightarrow> Inr None | Some p \<Rightarrow> attempt (parse (JStr p)) (\<lambda>x. Inr (Some x)))"
  "optional_field parse' (span_dict s) ''kind'' = (case cs_kind s of
     None \<Rightarrow> Inr None | Some p \<Rightarrow> attempt (parse' (JInt p)) (\<lambda>x. Inr (Some x)))"
  "optional_field parse' (span_dict s) ''status_code'' = (case cs_status_code s of
     None \<Rightarrow> Inr None | Some p \<Rightarrow> attempt (parse' (JInt p)) (\<lambda>x. Inr (Some x)))"
  by (auto simp: span_dict_def omit_none_def optional_field_def has_key_def split: option.split)

lemma span_dict_keys:
  "keys_between [''evidence_ref'', ''trace_id_sha256'', ''span_id_sha256'', ''attributes'']
     [''parent_span_id_sha256'', ''start_time_unix_nano'', ''end_time_unix_nano'', ''duration_nano'', ''kind'',
      ''status_code''] (span_dict s)"
  by (auto simp: keys_between_def span_dict_def omit_none_def split: option.split)

lemma attributes_keys: "list_all attribute_ok xs \<Longrightarrow>
    keys_between [] (SAFE_TRACE_TEXT_ATTRIBUTES @ SAFE_TRACE_NUMERIC_ATTRIBUTES) xs"
  by (auto simp: keys_between_def attribute_ok_def list_all_iff split: if_splits prod.splits; blast)

lemma span_field_Inr:
  "optional_field (trace_sha256 p) (span_dict s) ''parent_span_id_sha256'' = Inr x \<longleftrightarrow>
     x = cs_parent_span_id_sha256 s \<and> (case cs_parent_span_id_sha256 s of None \<Rightarrow> True | Some h \<Rightarrow> sha256_ok h)"
  "optional_field (trace_decimal e m p) (span_dict s) ''start_time_unix_nano'' = Inr x \<longleftrightarrow>
     x = cs_start_time_unix_nano s \<and> (case cs_start_time_unix_nano s of None \<Rightarrow> True | Some h \<Rightarrow> decimal_ok h)"
  "optional_field (trace_decimal e m p) (span_dict s) ''end_time_unix_nano'' = Inr x \<longleftrightarrow>
     x = cs_end_time_unix_nano s \<and> (case cs_end_time_unix_nano s of None \<Rightarrow> True | Some h \<Rightarrow> decimal_ok h)"
  "optional_field (trace_decimal e m p) (span_dict s) ''duration_nano'' = Inr x \<longleftrightarrow>
     x = cs_duration_nano s \<and> (case cs_duration_nano s of None \<Rightarrow> True | Some h \<Rightarrow> decimal_ok h)"
  "optional_field (trace_integer e 0 (Some n) p) (span_dict s) ''kind'' = Inr y \<longleftrightarrow>
     y = cs_kind s \<and> (case cs_kind s of None \<Rightarrow> True | Some k \<Rightarrow> 0 \<le> k \<and> k \<le> n)"
  "optional_field (trace_integer e 0 (Some n) p) (span_dict s) ''status_code'' = Inr y \<longleftrightarrow>
     y = cs_status_code s \<and> (case cs_status_code s of None \<Rightarrow> True | Some k \<Rightarrow> 0 \<le> k \<and> k \<le> n)"
  by (auto simp: optional_field_render attempt_Inr trace_sha256_Inr trace_decimal_Inr trace_integer_Inr split: option.split)

lemma sort_attributes: "attributes_ok xs \<Longrightarrow> sort_key fst xs = xs"
  by (simp add: attributes_ok_def sort_key_id_if_sorted)

lemma attributes_ok_sort: "list_all attribute_ok (sort_key fst xs) \<Longrightarrow> attributes_ok (sort_key fst xs)"
  by (simp add: attributes_ok_def)

lemma parse_span_render:
  assumes "span_ok src s"
  shows "parse_span src i (JObj (span_dict s)) = Inr s"
proof -
  have "list_all attribute_ok (cs_attributes s)" "sort_key fst (cs_attributes s) = cs_attributes s"
    using assms sort_attributes by (auto simp: span_ok_def attributes_ok_def)
  moreover from this(1) have "keys_between [] (SAFE_TRACE_TEXT_ATTRIBUTES @ SAFE_TRACE_NUMERIC_ATTRIBUTES) (cs_attributes s)"
    by (rule attributes_keys)
  moreover have "span_ref src (cs_span_id_sha256 s) \<noteq> []" by (simp add: span_ref_def)
  ultimately show ?thesis
    using assms formats_nonempty(1) unfolding span_ok_def not_own_parent_def
    apply (simp only: parse_span_def Let_def attempt_Inr ensure_Inr wire_object_optional_Inr split_paired_Ex prod.case
        json.inject simp_thms span_times_Inr span_field_Inr sum.inject)
    apply (simp add: span_dict_get wire_object_optional_Inr trace_sha256_Inr trace_string_Inr span_field_Inr
        span_dict_keys parse_attributes_Inr span_times_ok_def)
    apply auto
    done
qed

lemma option_ok_field:
  "optional_field (trace_sha256 p) obj k = Inr x \<Longrightarrow> case x of None \<Rightarrow> True | Some h \<Rightarrow> sha256_ok h"
  "optional_field (trace_integer e 0 (Some n) p) obj k = Inr y \<Longrightarrow> case y of None \<Rightarrow> True | Some i \<Rightarrow> 0 \<le> i \<and> i \<le> n"
  by (auto simp: optional_field_Inr trace_sha256_Inr trace_integer_Inr split: option.splits)

lemma parse_span_ok: "parse_span src i v = Inr s \<Longrightarrow> span_ok src s"
  apply (clarsimp simp only: parse_span_def Let_def attempt_Inr ensure_Inr wire_object_optional_Inr split_paired_Ex
      prod.case sum.inject span_times_Inr trace_sha256_Inr trace_string_Inr parse_attributes_Inr)
  apply (auto simp: span_ok_def not_own_parent_def attributes_ok_sort dest: option_ok_field)
  done

interpretation span_codec: codec "parse_span src" "\<lambda>s. JObj (span_dict s)" "span_ok src" for src
  by unfold_locales (auto intro: parse_span_render parse_span_ok)

lemma parse_trace_manifest_ok: "parse_trace_manifest v = Inr m \<Longrightarrow> trace_manifest_ok m"
  using formats_nonempty
  by (auto simp: parse_trace_manifest_def strict_iff trace_manifest_ok_def Let_def
      dest: span_codec.each_ok each_length parse_trace_source_ok parse_redaction_ok)

lemma parse_trace_manifest_render:
  "parse_trace_manifest (trace_manifest_to_json m) = Inr m \<longleftrightarrow> trace_manifest_ok m"
proof
  assume m: "trace_manifest_ok m"
  then have "each (parse_span (ts_sha256 (tm_source m))) 0 (map (\<lambda>s. JObj (span_dict s)) (tm_spans m)) = Inr (tm_spans m)"
    by (auto simp: trace_manifest_ok_def intro: span_codec.each_render)
  with m formats_nonempty show "parse_trace_manifest (trace_manifest_to_json m) = Inr m"
    by (auto simp: parse_trace_manifest_def trace_manifest_to_json_def strict_iff exact_keys_def trace_manifest_ok_def
        Let_def Suc_le_eq)
qed (rule parse_trace_manifest_ok)

text \<open>
  The strict parser of trace manifests and their rendering are inverse on exactly the well-formed
  manifests: whatever it accepts is well formed, and a well-formed manifest is read back unchanged. Well
  formed means that no span is its own parent, every attribute is allowlisted with a safe value, and the
  declared counts and identities are those of the spans.
\<close>
theorem trace_manifest_roundtrip:
  "(parse_trace_manifest (trace_manifest_to_json m) = Inr m \<longleftrightarrow> trace_manifest_ok m)
   \<and> (parse_trace_manifest v = Inr m \<longrightarrow> trace_manifest_ok m)"
  using parse_trace_manifest_render parse_trace_manifest_ok by blast

end
