(* ===== verification/Collector.thy ===== *)
theory Collector
  imports Trace_Manifest "HOL-Library.Product_Lexorder" "HOL-Library.Multiset"
begin

text \<open>
  \<open>collector.py\<close>: projecting an OTLP JSON trace export onto a redacted manifest. Identifiers
  are replaced by fingerprints, only allowlisted attributes with safe values are kept, everything else
  is counted. The mutable counters and sets of the loops are the record \<open>collection\<close>, passed along.
\<close>

subsection \<open>Reading the export\<close>

datatype trace_collection_error = Trace_collection_error string string

definition MAX_TRACE_DOCUMENT_BYTES :: nat where "MAX_TRACE_DOCUMENT_BYTES = 16 * 1024 * 1024"
definition DEFAULT_MAX_SPANS :: int where "DEFAULT_MAX_SPANS = 10000"
definition MAX_CONFIGURABLE_SPANS :: int where "MAX_CONFIGURABLE_SPANS = 100000"
definition INT64_MIN :: int where "INT64_MIN = - (2 ^ 63)"
definition INT64_MAX :: int where "INT64_MAX = 2 ^ 63 - 1"

definition SENSITIVE_KEY_FRAGMENTS :: "string list" where
  "SENSITIVE_KEY_FRAGMENTS =
     [''api_key'', ''arguments'', ''authorization'', ''content'', ''cookie'', ''document'', ''input'', ''message'',
      ''metadata'', ''output'', ''password'', ''prompt'', ''query'', ''reasoning'', ''secret'', ''session'',
      ''signature'', ''tool_call'', ''url'', ''user'']"

definition fingerprint :: "library \<Rightarrow> string \<Rightarrow> string \<Rightarrow> string" where
  "fingerprint lib domain v = lib_sha256 lib (utf8_bytes (''causure:'' @ domain @ '':'' @ v))"

definition required_object :: "json \<Rightarrow> string \<Rightarrow> trace_collection_error + dict" where
  "required_object v path = (case v of JObj obj \<Rightarrow> Inr obj | _ \<Rightarrow> Inl (Trace_collection_error path ''expected an object''))"

definition required_list :: "json \<Rightarrow> string \<Rightarrow> trace_collection_error + json list" where
  "required_list v path = (case v of JArr vs \<Rightarrow> Inr vs | _ \<Rightarrow> Inl (Trace_collection_error path ''expected an array''))"

definition hex_char :: "char \<Rightarrow> bool" where
  "hex_char c \<longleftrightarrow> is_digit c \<or> c \<in> set ''abcdefABCDEF''"

definition required_hex_id :: "json \<Rightarrow> string \<Rightarrow> nat \<Rightarrow> trace_collection_error + string" where
  \<comment> \<open>the last argument is the number of characters of the pattern\<close>
  "required_hex_id v path n =
     (case v of JStr s \<Rightarrow>
        (if length s = n \<and> list_all hex_char s then
           (let normalized = py_lower s in
            if set normalized = {CHR ''0''}
            then Inl (Trace_collection_error path ''all-zero identifiers are invalid'') else Inr normalized)
         else Inl (Trace_collection_error path ''expected a correctly sized hexadecimal identifier''))
      | _ \<Rightarrow> Inl (Trace_collection_error path ''expected a correctly sized hexadecimal identifier''))"

definition optional_decimal :: "json \<Rightarrow> string \<Rightarrow> trace_collection_error + string option" where
  "optional_decimal v path =
     (let bad = Inl (Trace_collection_error path ''expected a non-negative decimal integer'');
          bounded = (\<lambda>number. if 0 \<le> number \<and> number \<le> UINT64_MAX then Inr (Some (dec_int number))
            else Inl (Trace_collection_error path ''decimal integer is outside the uint64 range''))
      in case v of
        JNull \<Rightarrow> Inr None
      | JInt i \<Rightarrow> bounded i
      | JStr s \<Rightarrow> if is_decimal s \<and> length s \<le> length (dec_int UINT64_MAX) then bounded (decimal_value s) else bad
      | _ \<Rightarrow> bad)"

definition optional_enum_integer :: "json \<Rightarrow> string \<Rightarrow> int \<Rightarrow> trace_collection_error + int option" where
  "optional_enum_integer v path maximum =
     (let bad = Inl (Trace_collection_error path (''expected an integer enum value from 0 to '' @ dec_int maximum))
      in case v of JNull \<Rightarrow> Inr None
      | JInt i \<Rightarrow> if 0 \<le> i \<and> i \<le> maximum then Inr (Some i) else bad
      | _ \<Rightarrow> bad)"

subsection \<open>Attribute values\<close>

definition signed_digits :: "string \<Rightarrow> int option" where
  \<comment> \<open>a text of at most 19 digits after an optional minus, and its value\<close>
  "signed_digits s =
     (case s of [] \<Rightarrow> None
      | c # cs \<Rightarrow> let (sign, digits) = (if c = CHR ''-'' then (- 1, cs) else (1, c # cs))
          in if length digits \<le> 19 \<and> is_decimal digits then Some (sign * decimal_value digits) else None)"

definition int64 :: "int \<Rightarrow> json option" where
  "int64 i = (if INT64_MIN \<le> i \<and> i \<le> INT64_MAX then Some (JInt i) else None)"

definition decode_primitive :: "json \<Rightarrow> json option" where
  "decode_primitive v =
     (case v of JObj obj \<Rightarrow>
        (case filter (has_key obj) [''stringValue'', ''intValue'', ''doubleValue'', ''boolValue''] of
           [key] \<Rightarrow>
             (let raw = jget obj key in
              if key = ''stringValue'' then (case raw of JStr s \<Rightarrow> Some (JStr s) | _ \<Rightarrow> None)
              else if key = ''boolValue'' then (case raw of JBool b \<Rightarrow> Some (JBool b) | _ \<Rightarrow> None)
              else if key = ''intValue'' then
                (case raw of JInt i \<Rightarrow> int64 i
                 | JStr s \<Rightarrow> Option.bind (signed_digits s) int64
                 | _ \<Rightarrow> None)
              else (case raw of JInt i \<Rightarrow> map_option (JFloat \<circ> Fin) (float_of_int i)
                 | JFloat (Fin x) \<Rightarrow> Some (JFloat (Fin x))
                 | _ \<Rightarrow> None))
         | _ \<Rightarrow> None)
      | _ \<Rightarrow> None)"

definition py_upper :: "string \<Rightarrow> string" where
  \<comment> \<open>\<open>s.upper()\<close>; the micro sign and the y with diaeresis, whose capitals lie outside Latin-1 and are no
    ASCII letters either, are left as they are\<close>
  "py_upper s = concat (map (\<lambda>c. let n = (of_char c :: nat) in
     if n = 223 then ''SS''
     else if is_lower c \<or> (224 \<le> n \<and> n \<le> 254 \<and> n \<noteq> 247) then [char_of (n - 32)] else [c]) s)"

definition safe_text_value :: "string \<Rightarrow> json option \<Rightarrow> string option" where
  "safe_text_value key v =
     (case v of Some (JStr s) \<Rightarrow>
        (if key = ''openinference.span.kind'' then
           (let normalized = py_upper s in if span_kind_text normalized then Some normalized else None)
         else if safe_trace_text s then Some s else None)
      | _ \<Rightarrow> None)"

definition safe_numeric_value :: "json option \<Rightarrow> json option" where
  \<comment> \<open>a decoded integer fits 64 bits, so that converting it to a float neither raises nor gives an infinity\<close>
  "safe_numeric_value v =
     (case v of Some (JInt i) \<Rightarrow> (if i < 0 then None else Some (JInt i))
      | Some (JFloat (Fin x)) \<Rightarrow> (if x < 0 then None else Some (JFloat (Fin x)))
      | _ \<Rightarrow> None)"

fun codes_contain :: "nat list \<Rightarrow> nat list \<Rightarrow> bool" where
  "codes_contain part [] = (part = [])"
| "codes_contain part (c # cs) = (prefix part (c # cs) \<or> codes_contain part cs)"

definition is_sensitive_key :: "string \<Rightarrow> bool" where
  "is_sensitive_key key \<longleftrightarrow>
     (\<exists>fragment \<in> set SENSITIVE_KEY_FRAGMENTS. codes_contain (map of_char fragment) (casefold key))"

record redaction_counts =
  rc_retained :: nat
  rc_redacted :: nat
  rc_dropped :: nat

abbreviation count_retained :: "redaction_counts \<Rightarrow> redaction_counts" where
  "count_retained c \<equiv> c\<lparr>rc_retained := Suc (rc_retained c)\<rparr>"
abbreviation count_redacted :: "redaction_counts \<Rightarrow> redaction_counts" where
  "count_redacted c \<equiv> c\<lparr>rc_redacted := Suc (rc_redacted c)\<rparr>"
abbreviation count_dropped :: "redaction_counts \<Rightarrow> redaction_counts" where
  "count_dropped c \<equiv> c\<lparr>rc_dropped := Suc (rc_dropped c)\<rparr>"

definition keep_attribute :: "string \<Rightarrow> json \<Rightarrow> json option" where
  \<comment> \<open>the value retained for an allowlisted key; the argument is \<open>attribute.get("value")\<close>\<close>
  "keep_attribute key v =
     (if key \<in> set SAFE_TRACE_TEXT_ATTRIBUTES then map_option JStr (safe_text_value key (decode_primitive v))
      else safe_numeric_value (decode_primitive v))"

fun filter_attributes_from ::
  "string \<Rightarrow> nat \<Rightarrow> string list \<Rightarrow> dict \<Rightarrow> redaction_counts \<Rightarrow> json list \<Rightarrow>
     trace_collection_error + dict \<times> redaction_counts" where
  "filter_attributes_from path index seen retained counts [] = Inr (retained, counts)"
| "filter_attributes_from path index seen retained counts (item # items) =
     (let item_path = at_index path index; err = Trace_collection_error in
     attempt (required_object item item_path) (\<lambda>attr.
     case jget attr ''key'' of
       JStr key \<Rightarrow>
         if key = [] \<or> 256 < length key then Inl (err (item_path @ ''.key'') ''expected a non-empty attribute key'')
         else if key \<in> set seen then Inl (err item_path ''duplicate attribute key'')
         else if key \<in> set SAFE_TRACE_TEXT_ATTRIBUTES \<or> key \<in> set SAFE_TRACE_NUMERIC_ATTRIBUTES then
           (case keep_attribute key (jget attr ''value'') of
              None \<Rightarrow> filter_attributes_from path (Suc index) (key # seen) retained (count_redacted counts) items
            | Some v \<Rightarrow> filter_attributes_from path (Suc index) (key # seen) (retained @ [(key, v)])
                (count_retained counts) items)
         else filter_attributes_from path (Suc index) (key # seen) retained
           (if is_sensitive_key key then count_redacted counts else count_dropped counts) items
     | _ \<Rightarrow> Inl (err (item_path @ ''.key'') ''expected a non-empty attribute key'')))"

definition filter_attributes ::
  "json \<Rightarrow> string \<Rightarrow> redaction_counts \<Rightarrow> trace_collection_error + dict \<times> redaction_counts" where
  "filter_attributes v path counts =
     attempt (required_list v path) (\<lambda>attributes.
     attempt (filter_attributes_from path 0 [] [] counts attributes) (\<lambda>(retained, counts').
     Inr (sort_key fst retained, counts')))"

subsection \<open>Spans\<close>

definition jget_or :: "json \<Rightarrow> dict \<Rightarrow> string \<Rightarrow> json" where
  \<comment> \<open>\<open>obj.get(key, fallback)\<close>\<close>
  "jget_or fallback obj k = (if has_key obj k then jget obj k else fallback)"

definition collect_times ::
  "string \<Rightarrow> dict \<Rightarrow> trace_collection_error + string option \<times> string option \<times> string option" where
  "collect_times path sp =
     attempt (optional_decimal (jget sp ''startTimeUnixNano'') (path @ ''.startTimeUnixNano'')) (\<lambda>start.
     attempt (optional_decimal (jget sp ''endTimeUnixNano'') (path @ ''.endTimeUnixNano'')) (\<lambda>end_time.
     case (start, end_time) of
       (Some s, Some e) \<Rightarrow>
         if decimal_value e < decimal_value s
         then Inl (Trace_collection_error path ''span end time precedes its start time'')
         else Inr (start, end_time, Some (dec_int (decimal_value e - decimal_value s)))
     | _ \<Rightarrow> Inr (start, end_time, None)))"

definition collect_status :: "string \<Rightarrow> json \<Rightarrow> trace_collection_error + int option" where
  "collect_status path status_value =
     (if status_value = JNull then Inr None
      else attempt (required_object status_value (path @ ''.status'')) (\<lambda>status.
        optional_enum_integer (jget status ''code'') (path @ ''.status.code'') 2))"

definition collect_span ::
  "library \<Rightarrow> json \<Rightarrow> string \<Rightarrow> string \<Rightarrow> redaction_counts \<Rightarrow>
     trace_collection_error + (collected_span \<times> string \<times> string) \<times> redaction_counts" where
  "collect_span lib v path source_sha256 counts =
     attempt (required_object v path) (\<lambda>sp.
     attempt (required_hex_id (jget sp ''traceId'') (path @ ''.traceId'') 32) (\<lambda>trace_id.
     attempt (required_hex_id (jget sp ''spanId'') (path @ ''.spanId'') 16) (\<lambda>span_id.
     attempt (if jget sp ''parentSpanId'' \<in> {JNull, JStr []} then Inr None
              else attempt (required_hex_id (jget sp ''parentSpanId'') (path @ ''.parentSpanId'') 16)
                (\<lambda>p. Inr (Some p))) (\<lambda>parent_id.
     attempt (ensure (case jget sp ''name'' of JStr name \<Rightarrow> name \<noteq> [] | _ \<Rightarrow> False)
                (Trace_collection_error (path @ ''.name'') ''expected a non-empty span name'')) (\<lambda>_.
     attempt (collect_times path sp) (\<lambda>(start, end_time, duration).
     attempt (collect_status path (jget sp ''status'')) (\<lambda>status_code.
     let trace_hash = fingerprint lib ''trace-id'' trace_id;
         span_hash = fingerprint lib ''span-id'' (trace_id @ '':'' @ span_id) in
     attempt (optional_enum_integer (jget sp ''kind'') (path @ ''.kind'') 5) (\<lambda>kind.
     attempt (filter_attributes (jget_or (JArr []) sp ''attributes'') (path @ ''.attributes'') counts)
       (\<lambda>(attributes, counts').
     Inr ((\<lparr>cs_evidence_ref = span_ref source_sha256 span_hash, cs_trace_id_sha256 = trace_hash,
             cs_span_id_sha256 = span_hash,
             cs_parent_span_id_sha256 =
               map_option (\<lambda>p. fingerprint lib ''span-id'' (trace_id @ '':'' @ p)) parent_id,
             cs_start_time_unix_nano = start, cs_end_time_unix_nano = end_time, cs_duration_nano = duration,
             cs_kind = kind, cs_status_code = status_code, cs_attributes = attributes\<rparr>, trace_id, span_id),
          counts'))))))))))"

subsection \<open>The loops over the export\<close>

record collection =
  cl_counts :: redaction_counts
  cl_spans :: "collected_span list"
  cl_span_keys :: "(string \<times> string) list"
  \<comment> \<open>\<open>collected_spans\<close>, and \<open>span_keys\<close> newest first; \<open>trace_ids\<close> is the set of their first parts\<close>

definition collect_one ::
  "library \<Rightarrow> string \<Rightarrow> int \<Rightarrow> string \<Rightarrow> json \<Rightarrow> collection \<Rightarrow> trace_collection_error + collection" where
  "collect_one lib source_sha256 max_spans span_path v st =
     attempt (ensure (int (length (cl_spans st)) < max_spans)
                (Trace_collection_error span_path (''span count exceeds configured limit '' @ dec_int max_spans))) (\<lambda>_.
     attempt (collect_span lib v span_path source_sha256 (cl_counts st)) (\<lambda>((collected, trace_id, span_id), counts).
     attempt (ensure ((trace_id, span_id) \<notin> set (cl_span_keys st))
                (Trace_collection_error span_path ''duplicate span identifier in trace'')) (\<lambda>_.
     Inr \<lparr>cl_counts = counts, cl_spans = cl_spans st @ [collected],
          cl_span_keys = (trace_id, span_id) # cl_span_keys st\<rparr>)))"

fun each_state :: "(nat \<Rightarrow> 'a \<Rightarrow> 's \<Rightarrow> 'e + 's) \<Rightarrow> nat \<Rightarrow> 'a list \<Rightarrow> 's \<Rightarrow> 'e + 's" where
  \<comment> \<open>a loop over \<open>enumerate(values)\<close> that updates a state\<close>
  "each_state f i [] st = Inr st"
| "each_state f i (x # xs) st = attempt (f i x st) (each_state f (Suc i) xs)"

definition collect_scope ::
  "library \<Rightarrow> string \<Rightarrow> int \<Rightarrow> string \<Rightarrow> nat \<Rightarrow> json \<Rightarrow> collection \<Rightarrow> trace_collection_error + collection" where
  "collect_scope lib source_sha256 max_spans resource_path scope_index v st =
     (let scope_path = at_index (resource_path @ ''.scopeSpans'') scope_index in
     attempt (required_object v scope_path) (\<lambda>scope_span.
     attempt (required_list (jget_or (JArr []) scope_span ''spans'') (scope_path @ ''.spans'')) (\<lambda>spans.
     each_state (\<lambda>span_index. collect_one lib source_sha256 max_spans
       (at_index (scope_path @ ''.spans'') span_index)) 0 spans st)))"

definition collect_resource ::
  "library \<Rightarrow> string \<Rightarrow> int \<Rightarrow> nat \<Rightarrow> json \<Rightarrow> collection \<Rightarrow> trace_collection_error + collection" where
  "collect_resource lib source_sha256 max_spans resource_index v st =
     (let resource_path = at_index ''$.resourceSpans'' resource_index in
     attempt (required_object v resource_path) (\<lambda>resource_span.
     attempt (required_list (jget_or (JArr []) resource_span ''scopeSpans'') (resource_path @ ''.scopeSpans''))
       (\<lambda>scope_spans.
     each_state (collect_scope lib source_sha256 max_spans resource_path) 0 scope_spans st)))"

definition span_order :: "collected_span \<Rightarrow> string \<times> int \<times> string" where
  "span_order s = (cs_trace_id_sha256 s,
     (case cs_start_time_unix_nano s of None \<Rightarrow> 0 | Some t \<Rightarrow> decimal_value t), cs_span_id_sha256 s)"

definition no_collection :: collection where
  "no_collection = \<lparr>cl_counts = \<lparr>rc_retained = 0, rc_redacted = 0, rc_dropped = 0\<rparr>, cl_spans = [], cl_span_keys = []\<rparr>"

definition collection_manifest :: "string \<Rightarrow> nat \<Rightarrow> string \<Rightarrow> collection \<Rightarrow> trace_manifest" where
  "collection_manifest source_id byte_count source_sha256 st =
     \<lparr>tm_schema_version = TRACE_MANIFEST_SCHEMA_VERSION, tm_collector_version = PACKAGE_VERSION,
      tm_source = \<lparr>ts_artifact_id = source_id, ts_format = TraceSourceFormat_OTLP_JSON,
        ts_media_type = ''application/json'', ts_sha256 = source_sha256, ts_byte_count = int byte_count,
        ts_trace_count = int (card (fst ` set (cl_span_keys st))), ts_span_count = int (length (cl_spans st)),
        ts_source_embedded = False\<rparr>,
      tm_redaction = \<lparr>rs_strategy = RedactionStrategy_METADATA_ALLOWLIST_V1, rs_raw_content_included = False,
        rs_retained_attribute_count = int (rc_retained (cl_counts st)),
        rs_redacted_attribute_count = int (rc_redacted (cl_counts st)),
        rs_dropped_attribute_count = int (rc_dropped (cl_counts st)),
        rs_omitted_field_groups = OMITTED_TRACE_FIELD_GROUPS\<rparr>,
      tm_spans = sort_key span_order (cl_spans st)\<rparr>"

definition trace_document :: "library \<Rightarrow> json \<Rightarrow> string \<Rightarrow> trace_collection_error + json" where
  \<comment> \<open>the parsed source, which the supplied document must equal\<close>
  "trace_document lib document raw_bytes =
     (case lib_decode_utf8 lib raw_bytes of
        None \<Rightarrow> Inl (Trace_collection_error ''$.source'' ''source bytes are not valid UTF-8'')
      | Some decoded \<Rightarrow>
          (case parse_json_text lib decoded ''<trace-source>'' MAX_TRACE_DOCUMENT_BYTES of
             Inl message \<Rightarrow> Inl (Trace_collection_error ''$.source'' message)
           | Inr parsed_source \<Rightarrow>
               if \<not> py_equal document parsed_source
               then Inl (Trace_collection_error ''$.source'' ''parsed document does not match the supplied source bytes'')
               else Inr parsed_source))"

definition collect_otlp_trace_manifest ::
  "library \<Rightarrow> json \<Rightarrow> string \<Rightarrow> string \<Rightarrow> int \<Rightarrow> trace_collection_error + trace_manifest" where
  "collect_otlp_trace_manifest lib document raw_bytes source_id max_spans =
     (let err = Trace_collection_error in
     attempt (trace_document lib document raw_bytes) (\<lambda>parsed_source.
     attempt (ensure (safe_id_ok source_id) (err ''$.source_id'' ''must match ^[A-Za-z0-9][A-Za-z0-9._-]{2,127}$'')) (\<lambda>_.
     attempt (ensure (1 \<le> max_spans \<and> max_spans \<le> MAX_CONFIGURABLE_SPANS)
                (err ''$.max_spans'' (''must be an integer from 1 to '' @ dec_int MAX_CONFIGURABLE_SPANS))) (\<lambda>_.
     attempt (required_object parsed_source ''$'') (\<lambda>rt.
     attempt (required_list (jget rt ''resourceSpans'') ''$.resourceSpans'') (\<lambda>resource_spans.
     let source_sha256 = lib_sha256 lib raw_bytes in
     attempt (each_state (collect_resource lib source_sha256 max_spans) 0 resource_spans no_collection) (\<lambda>st.
     attempt (ensure (cl_spans st \<noteq> []) (err ''$.resourceSpans'' ''no spans were found'')) (\<lambda>_.
     Inr (collection_manifest source_id (length raw_bytes) source_sha256 st)))))))))"

subsection \<open>What a collection keeps\<close>

lemma fl_int64: "fl 9223372036854775807 < 2 ^ 1024"
proof -
  have "binade 9223372036854775808 = 63" by (simp add: binade_def ilog2.simps)
  then have "fl 9223372036854775808 \<le> 9223372036854775808"
    by (simp add: fl_def fl_pos_def on_grid_def round_half_even_def Let_def power_int_def)
  moreover have "fl 9223372036854775807 \<le> fl 9223372036854775808" by (rule fl_mono) simp
  moreover have "(9223372036854775808 :: rat) < 2 ^ 1024" by simp
  ultimately show ?thesis by linarith
qed

lemma float_of_int64: "0 \<le> i \<Longrightarrow> i \<le> INT64_MAX \<Longrightarrow> float_of_int i \<noteq> None"
proof -
  assume i: "0 \<le> i" "i \<le> INT64_MAX"
  then have "(of_int i :: rat) \<le> of_int 9223372036854775807"
    by (subst of_int_le_iff) (simp add: INT64_MAX_def)
  then have "fl (of_int i) < 2 ^ 1024" using fl_mono [of "of_int i" 9223372036854775807] fl_int64 by simp
  moreover have "0 \<le> fl (of_int i)" using i by (intro fl_nonneg) simp
  ultimately show ?thesis by (simp add: float_of_int_def to_float_def Let_def)
qed

lemma decode_int64: "decode_primitive v = Some (JInt i) \<Longrightarrow> INT64_MIN \<le> i \<and> i \<le> INT64_MAX"
  by (auto simp: decode_primitive_def int64_def Let_def Option.bind_eq_Some_conv
      split: json.splits list.splits if_splits pyfloat.splits option.splits)

lemma keep_attribute_ok:
  assumes "keep_attribute key v = Some x" "key \<in> set SAFE_TRACE_TEXT_ATTRIBUTES \<or> key \<in> set SAFE_TRACE_NUMERIC_ATTRIBUTES"
  shows "attribute_ok (key, x)"
proof (cases "key \<in> set SAFE_TRACE_TEXT_ATTRIBUTES")
  case True
  with assms(1) show ?thesis
    by (auto simp: keep_attribute_def safe_text_value_def attribute_ok_def Let_def split: option.splits json.splits if_splits)
next
  case False
  with assms have "safe_numeric_value (decode_primitive v) = Some x" "key \<in> set SAFE_TRACE_NUMERIC_ATTRIBUTES"
    by (auto simp: keep_attribute_def)
  with False show ?thesis
    using float_of_int64 decode_int64
    by (auto simp: safe_numeric_value_def attribute_ok_def is_nonnegative_finite_number_def
        split: option.splits json.splits if_splits pyfloat.splits)
qed

lemma filter_attributes_step:
  assumes "filter_attributes_from path i seen retained counts (item # items) = Inr r"
  obtains key retained' counts' where
    "filter_attributes_from path (Suc i) (key # seen) retained' counts' items = Inr r"
    "retained' = retained \<and> rc_retained counts' = rc_retained counts \<or>
     (\<exists>x. retained' = retained @ [(key, x)] \<and> attribute_ok (key, x) \<and> rc_retained counts' = Suc (rc_retained counts))"
proof -
  from assms obtain attr where attr: "(case jget attr ''key'' of
       JStr key \<Rightarrow>
         if key = [] \<or> 256 < length key then Inl (Trace_collection_error (at_index path i @ ''.key'') ''expected a non-empty attribute key'')
         else if key \<in> set seen then Inl (Trace_collection_error (at_index path i) ''duplicate attribute key'')
         else if key \<in> set SAFE_TRACE_TEXT_ATTRIBUTES \<or> key \<in> set SAFE_TRACE_NUMERIC_ATTRIBUTES then
           (case keep_attribute key (jget attr ''value'') of
              None \<Rightarrow> filter_attributes_from path (Suc i) (key # seen) retained (count_redacted counts) items
            | Some v \<Rightarrow> filter_attributes_from path (Suc i) (key # seen) (retained @ [(key, v)])
                (count_retained counts) items)
         else filter_attributes_from path (Suc i) (key # seen) retained
           (if is_sensitive_key key then count_redacted counts else count_dropped counts) items
     | _ \<Rightarrow> Inl (Trace_collection_error (at_index path i @ ''.key'') ''expected a non-empty attribute key'')) = Inr r"
    by (simp only: filter_attributes_from.simps attempt_Inr Let_def) blast
  then obtain key where k: "jget attr ''key'' = JStr key"
    by (cases "jget attr ''key''") auto
  have run: "(if key \<in> set SAFE_TRACE_TEXT_ATTRIBUTES \<or> key \<in> set SAFE_TRACE_NUMERIC_ATTRIBUTES then
           (case keep_attribute key (jget attr ''value'') of
              None \<Rightarrow> filter_attributes_from path (Suc i) (key # seen) retained (count_redacted counts) items
            | Some v \<Rightarrow> filter_attributes_from path (Suc i) (key # seen) (retained @ [(key, v)])
                (count_retained counts) items)
         else filter_attributes_from path (Suc i) (key # seen) retained
           (if is_sensitive_key key then count_redacted counts else count_dropped counts) items) = Inr r"
    using attr unfolding k json.case by (metis sum.distinct(1))
  show ?thesis
  proof (cases "key \<in> set SAFE_TRACE_TEXT_ATTRIBUTES \<or> key \<in> set SAFE_TRACE_NUMERIC_ATTRIBUTES")
    case True
    then show ?thesis
      using run keep_attribute_ok [OF _ True] that [of key retained "count_redacted counts"]
        that [of key "retained @ [(key, y)]" "count_retained counts" for y]
      by (cases "keep_attribute key (jget attr ''value'')") auto
  next
    case False
    then show ?thesis
      using run that [of key retained "if is_sensitive_key key then count_redacted counts else count_dropped counts"]
      by auto
  qed
qed

lemma filter_attributes_from_ok:
  assumes "filter_attributes_from path i seen retained counts items = Inr (kept, counts')"
    and "list_all attribute_ok retained"
  shows "list_all attribute_ok kept \<and> rc_retained counts' + length retained = rc_retained counts + length kept"
  using assms
proof (induction items arbitrary: i seen retained counts)
  case (Cons item items)
  from Cons.prems(1) obtain key retained' counts'' where
    run: "filter_attributes_from path (Suc i) (key # seen) retained' counts'' items = Inr (kept, counts')"
    and step: "retained' = retained \<and> rc_retained counts'' = rc_retained counts \<or>
     (\<exists>x. retained' = retained @ [(key, x)] \<and> attribute_ok (key, x) \<and> rc_retained counts'' = Suc (rc_retained counts))"
    by (rule filter_attributes_step)
  have "list_all attribute_ok retained'" using step Cons.prems(2) by auto
  from Cons.IH [OF run this] step show ?case by auto
qed simp

lemma filter_attributes_ok:
  assumes "filter_attributes v path counts = Inr (kept, counts')"
  shows "attributes_ok kept" "rc_retained counts' = rc_retained counts + length kept"
proof -
  from assms obtain retained vs where
    r: "filter_attributes_from path 0 [] [] counts vs = Inr (retained, counts')" and k: "kept = sort_key fst retained"
    by (auto simp: filter_attributes_def attempt_Inr)
  from filter_attributes_from_ok [OF r] k show "attributes_ok kept" "rc_retained counts' = rc_retained counts + length kept"
    by (auto simp: attributes_ok_def list_all_iff)
qed

definition hex_id :: "nat \<Rightarrow> string \<Rightarrow> bool" where
  "hex_id n s \<longleftrightarrow> length s = n \<and> list_all lower_hex s"

definition span_hashes :: "library \<Rightarrow> string \<times> string \<Rightarrow> string \<times> string" where
  "span_hashes lib key = (fingerprint lib ''trace-id'' (fst key), fingerprint lib ''span-id'' (fst key @ '':'' @ snd key))"

definition own_parent_aside :: "string \<Rightarrow> collected_span \<Rightarrow> bool" where
  \<comment> \<open>well formed, but perhaps its own parent\<close>
  "own_parent_aside src s \<longleftrightarrow> span_ok src (s\<lparr>cs_parent_span_id_sha256 := None\<rparr>)
     \<and> (case cs_parent_span_id_sha256 s of None \<Rightarrow> True | Some p \<Rightarrow> sha256_ok p)"

lemma span_ok_aside: "span_ok src s \<longleftrightarrow> own_parent_aside src s \<and> not_own_parent s"
  by (auto simp: span_ok_def own_parent_aside_def not_own_parent_def)

lemma py_lower_hex: "hex_char c \<Longrightarrow> lower_hex (char_of (lower_code (of_char c)))"
proof (cases "is_digit c")
  case True
  then have "lower_code (of_char c) = of_char c" by (auto simp: is_digit_def lower_code_def Let_def)
  with True show ?thesis by (simp add: lower_hex_def)
next
  case False
  moreover assume "hex_char c"
  ultimately have "c \<in> set ''abcdefABCDEF''" by (auto simp only: hex_char_def)
  then have "(of_char (char_of (lower_code (of_char c)) :: char) :: nat) \<in> of_char ` set ''abcdef''"
    by (auto simp: lower_code_def)
  then show ?thesis unfolding lower_hex_def image_iff of_char_eq_iff by blast
qed

lemma required_hex_id_ok: "required_hex_id v path n = Inr s \<Longrightarrow> hex_id n s"
  by (auto simp: required_hex_id_def hex_id_def py_lower_def list_all_iff py_lower_hex Let_def
      split: json.splits if_splits)

lemma optional_decimal_ok: "optional_decimal v path = Inr (Some s) \<Longrightarrow> decimal_ok s"
  by (auto simp: optional_decimal_def decimal_ok_def Let_def split: json.splits if_splits)

lemma decimal_ok_value: "decimal_ok s \<Longrightarrow> 0 \<le> decimal_value s \<and> decimal_value s \<le> UINT64_MAX"
  by (auto simp: decimal_ok_def decimal_value_dec)

lemma collect_times_ok:
  assumes "collect_times path sp = Inr (a, b, c)"
  shows "span_times_ok a b c"
proof -
  from assms have ab: "optional_decimal (jget sp ''startTimeUnixNano'') (path @ ''.startTimeUnixNano'') = Inr a"
    "optional_decimal (jget sp ''endTimeUnixNano'') (path @ ''.endTimeUnixNano'') = Inr b"
    by (auto simp: collect_times_def attempt_Inr split: option.splits if_splits)
  show ?thesis
  proof (cases a; cases b)
    fix s e assume ae: "a = Some s" "b = Some e"
    with ab optional_decimal_ok have d: "decimal_ok s" "decimal_ok e" by metis+
    from assms ae have c: "c = Some (dec_int (decimal_value e - decimal_value s))" "decimal_value s \<le> decimal_value e"
      by (auto simp: collect_times_def attempt_Inr ab split: if_splits)
    have "decimal_ok (dec_int (decimal_value e - decimal_value s))"
      unfolding decimal_ok_def using decimal_ok_value [OF d(1)] decimal_ok_value [OF d(2)] c(2)
      by (intro exI [of _ "decimal_value e - decimal_value s"]) simp
    with ae c d show ?thesis by (simp add: span_times_ok_def)
  qed (use assms ab optional_decimal_ok in \<open>auto simp: collect_times_def attempt_Inr span_times_ok_def\<close>)
qed

lemma optional_enum_integer_ok:
  "optional_enum_integer v path n = Inr k \<Longrightarrow> case k of None \<Rightarrow> True | Some i \<Rightarrow> 0 \<le> i \<and> i \<le> n"
  by (auto simp: optional_enum_integer_def Let_def split: json.splits if_splits)

lemma collect_status_ok: "collect_status path v = Inr k \<Longrightarrow> case k of None \<Rightarrow> True | Some i \<Rightarrow> 0 \<le> i \<and> i \<le> 2"
  by (auto simp: collect_status_def attempt_Inr split: if_splits dest: optional_enum_integer_ok)

lemma collect_span_ok:
  assumes run: "collect_span lib v path src counts = Inr ((c, t, s), counts')"
    and sha: "\<And>x. sha256_ok (lib_sha256 lib x)"
  shows "own_parent_aside src c" "(cs_trace_id_sha256 c, cs_span_id_sha256 c) = span_hashes lib (t, s)"
    "hex_id 32 t" "hex_id 16 s" "rc_retained counts' = rc_retained counts + length (cs_attributes c)"
proof -
  have fp: "sha256_ok (fingerprint lib d x)" for d x by (simp add: fingerprint_def sha)
  note parts = attempt_Inr ensure_Inr split_paired_Ex prod.case Let_def sum.inject prod.inject
  from run show "own_parent_aside src c" "(cs_trace_id_sha256 c, cs_span_id_sha256 c) = span_hashes lib (t, s)"
    "hex_id 32 t" "hex_id 16 s" "rc_retained counts' = rc_retained counts + length (cs_attributes c)"
    unfolding collect_span_def parts
    by (auto simp: own_parent_aside_def span_ok_def not_own_parent_def span_hashes_def fp split: option.split
        dest: required_hex_id_ok collect_times_ok collect_status_ok optional_enum_integer_ok filter_attributes_ok)
qed

lemma each_state_keeps:
  assumes "each_state f i xs st = Inr st'" "P st"
    and "\<And>j x st st'. x \<in> set xs \<Longrightarrow> f j x st = Inr st' \<Longrightarrow> P st \<Longrightarrow> P st'"
  shows "P st'"
  using assms
proof (induction xs arbitrary: i st)
  case (Cons x xs)
  from Cons.prems(1) obtain s1 where s1: "f i x st = Inr s1" "each_state f (Suc i) xs s1 = Inr st'"
    by (auto simp: attempt_Inr)
  have p: "P s1" by (rule Cons.prems(3) [OF _ s1(1) Cons.prems(2)]) simp
  show ?case by (rule Cons.IH [OF s1(2) p]) (rule Cons.prems(3), auto)
qed simp

definition collection_ok :: "library \<Rightarrow> string \<Rightarrow> int \<Rightarrow> collection \<Rightarrow> bool" where
  "collection_ok lib src max_spans st \<longleftrightarrow> list_all (own_parent_aside src) (cl_spans st)
     \<and> map (\<lambda>s. (cs_trace_id_sha256 s, cs_span_id_sha256 s)) (cl_spans st) = rev (map (span_hashes lib) (cl_span_keys st))
     \<and> distinct (cl_span_keys st) \<and> list_all (\<lambda>(t, s). hex_id 32 t \<and> hex_id 16 s) (cl_span_keys st)
     \<and> rc_retained (cl_counts st) = sum_list (map (\<lambda>s. length (cs_attributes s)) (cl_spans st))
     \<and> int (length (cl_spans st)) \<le> max_spans"

lemma collect_one_keeps:
  assumes run: "collect_one lib src max_spans path v st = Inr st'" and ok: "collection_ok lib src max_spans st"
    and sha: "\<And>x. sha256_ok (lib_sha256 lib x)"
  shows "collection_ok lib src max_spans st'"
proof -
  from run obtain c t s counts where sp: "collect_span lib v path src (cl_counts st) = Inr ((c, t, s), counts)"
    and b: "int (length (cl_spans st)) < max_spans" and new: "(t, s) \<notin> set (cl_span_keys st)"
    and st': "st' = \<lparr>cl_counts = counts, cl_spans = cl_spans st @ [c], cl_span_keys = (t, s) # cl_span_keys st\<rparr>"
    by (auto simp: collect_one_def attempt_Inr ensure_Inr)
  show ?thesis
    using ok b new collect_span_ok [OF sp sha] by (auto simp: collection_ok_def st')
qed

lemma collect_scope_keeps:
  assumes "collect_scope lib src max_spans path i v st = Inr st'" "collection_ok lib src max_spans st"
    and sha: "\<And>x. sha256_ok (lib_sha256 lib x)"
  shows "collection_ok lib src max_spans st'"
proof -
  from assms(1) obtain spans where
    run: "each_state (\<lambda>j. collect_one lib src max_spans (at_index (at_index (path @ ''.scopeSpans'') i @ ''.spans'') j)) 0 spans st = Inr st'"
    by (auto simp: collect_scope_def attempt_Inr Let_def)
  show ?thesis
    by (rule each_state_keeps [where P = "collection_ok lib src max_spans", OF run assms(2)]) (rule collect_one_keeps [OF _ _ sha])
qed

lemma collect_resource_keeps:
  assumes "collect_resource lib src max_spans i v st = Inr st'" "collection_ok lib src max_spans st"
    and sha: "\<And>x. sha256_ok (lib_sha256 lib x)"
  shows "collection_ok lib src max_spans st'"
proof -
  from assms(1) obtain scopes where
    run: "each_state (collect_scope lib src max_spans (at_index ''$.resourceSpans'' i)) 0 scopes st = Inr st'"
    by (auto simp: collect_resource_def attempt_Inr Let_def)
  show ?thesis
    by (rule each_state_keeps [where P = "collection_ok lib src max_spans", OF run assms(2)]) (rule collect_scope_keeps [OF _ _ sha])
qed

subsection \<open>The identifiers of an export\<close>

definition field_items :: "string \<Rightarrow> json \<Rightarrow> json list" where
  \<comment> \<open>the array under a key of an object\<close>
  "field_items k v = (case v of JObj obj \<Rightarrow> (case jget obj k of JArr xs \<Rightarrow> xs | _ \<Rightarrow> []) | _ \<Rightarrow> [])"

definition span_identity :: "json \<Rightarrow> string \<times> string" where
  \<comment> \<open>the trace and span identifier of a span, in lower case\<close>
  "span_identity v =
     (let text = (\<lambda>k. case v of JObj obj \<Rightarrow> (case jget obj k of JStr s \<Rightarrow> py_lower s | _ \<Rightarrow> []) | _ \<Rightarrow> [])
      in (text ''traceId'', text ''spanId''))"

definition export_identifiers :: "json \<Rightarrow> (string \<times> string) list" where
  \<comment> \<open>the identifiers an OTLP export names, in its order\<close>
  "export_identifiers v =
     concat (map (\<lambda>r. concat (map (\<lambda>s. map span_identity (field_items ''spans'' s)) (field_items ''scopeSpans'' r)))
       (field_items ''resourceSpans'' v))"

definition fingerprints_apart :: "library \<Rightarrow> (string \<times> string) list \<Rightarrow> bool" where
  \<comment> \<open>SHA-256 does not collide on the identifiers of this list\<close>
  "fingerprints_apart lib ks \<longleftrightarrow> inj_on (fingerprint lib ''trace-id'') (fst ` set ks)
     \<and> inj_on (\<lambda>(t, s). fingerprint lib ''span-id'' (t @ '':'' @ s)) (set ks)"

lemma required_hex_id_lower: "required_hex_id v path n = Inr t \<Longrightarrow> (case v of JStr s \<Rightarrow> py_lower s | _ \<Rightarrow> []) = t"
  by (auto simp: required_hex_id_def Let_def split: json.splits if_splits)

lemma collect_span_identity:
  assumes "collect_span lib v path src counts = Inr ((c, t, s), counts')"
  shows "span_identity v = (t, s)"
proof -
  from assms obtain obj where "v = JObj obj" "required_hex_id (jget obj ''traceId'') (path @ ''.traceId'') 32 = Inr t"
    "required_hex_id (jget obj ''spanId'') (path @ ''.spanId'') 16 = Inr s"
    by (auto simp: collect_span_def attempt_Inr Let_def required_object_def split: json.splits)
  then show ?thesis by (simp add: span_identity_def required_hex_id_lower)
qed

lemma each_state_log:
  assumes "each_state f i xs st = Inr st'"
    and "\<And>j x st st'. f j x st = Inr st' \<Longrightarrow> keys st' = rev (h x) @ keys st"
  shows "keys st' = rev (concat (map h xs)) @ keys st"
  using assms by (induction xs arbitrary: i st) (auto simp: attempt_Inr)

lemma required_list_items:
  "required_list (jget_or (JArr []) obj k) path = Inr xs \<Longrightarrow> field_items k (JObj obj) = xs"
  "required_list (jget obj k) path = Inr xs \<Longrightarrow> field_items k (JObj obj) = xs"
  by (auto simp: required_list_def jget_or_def field_items_def jget_def has_key_def split: json.splits if_splits option.splits
      dest!: map_of_eq_None_iff [THEN iffD2])

lemma collect_one_log:
  "collect_one lib src max_spans path v st = Inr st' \<Longrightarrow> cl_span_keys st' = rev [span_identity v] @ cl_span_keys st"
  by (auto simp: collect_one_def attempt_Inr ensure_Inr dest: collect_span_identity)

lemma collect_scope_log:
  assumes "collect_scope lib src max_spans path i v st = Inr st'"
  shows "cl_span_keys st' = rev (map span_identity (field_items ''spans'' v)) @ cl_span_keys st"
proof -
  from assms obtain spans where items: "field_items ''spans'' v = spans"
    and run: "each_state (\<lambda>j. collect_one lib src max_spans (at_index (at_index (path @ ''.scopeSpans'') i @ ''.spans'') j)) 0 spans st = Inr st'"
    by (auto simp: collect_scope_def attempt_Inr Let_def required_object_def required_list_items split: json.splits)
  from each_state_log [OF run, of cl_span_keys "\<lambda>v. [span_identity v]", OF collect_one_log]
  show ?thesis by (simp add: items concat_map_singleton)
qed

lemma collect_resource_log:
  assumes "collect_resource lib src max_spans i v st = Inr st'"
  shows "cl_span_keys st' = rev (concat (map (\<lambda>s. map span_identity (field_items ''spans'' s)) (field_items ''scopeSpans'' v)))
    @ cl_span_keys st"
proof -
  from assms obtain scopes where items: "field_items ''scopeSpans'' v = scopes"
    and run: "each_state (collect_scope lib src max_spans (at_index ''$.resourceSpans'' i)) 0 scopes st = Inr st'"
    by (auto simp: collect_resource_def attempt_Inr Let_def required_object_def required_list_items split: json.splits)
  from each_state_log [OF run, of cl_span_keys, OF collect_scope_log] show ?thesis by (simp add: items)
qed

lemma collect_identifiers:
  assumes "collect_otlp_trace_manifest lib document raw_bytes source_id max_spans = Inr m"
    and "\<And>x. sha256_ok (lib_sha256 lib x)" and "trace_document lib document raw_bytes = Inr source"
  obtains st where "collection_ok lib (lib_sha256 lib raw_bytes) max_spans st" "cl_spans st \<noteq> []" "safe_id_ok source_id"
    "m = collection_manifest source_id (length raw_bytes) (lib_sha256 lib raw_bytes) st"
    "cl_span_keys st = rev (export_identifiers source)"
proof -
  from assms(1,3) obtain resources st where items: "field_items ''resourceSpans'' source = resources"
    and run: "each_state (collect_resource lib (lib_sha256 lib raw_bytes) max_spans) 0 resources no_collection = Inr st"
    and b: "1 \<le> max_spans" and rest: "cl_spans st \<noteq> []" "safe_id_ok source_id"
      "m = collection_manifest source_id (length raw_bytes) (lib_sha256 lib raw_bytes) st"
    by (auto simp: collect_otlp_trace_manifest_def attempt_Inr ensure_Inr Let_def required_object_def required_list_items
        split: json.splits)
  from each_state_log [OF run, of cl_span_keys, OF collect_resource_log]
  have "cl_span_keys st = rev (export_identifiers source)" by (simp add: items export_identifiers_def no_collection_def)
  moreover have "collection_ok lib (lib_sha256 lib raw_bytes) max_spans no_collection"
    using b by (simp add: collection_ok_def no_collection_def)
  then have "collection_ok lib (lib_sha256 lib raw_bytes) max_spans st"
    using each_state_keeps [OF run] collect_resource_keeps [OF _ _ assms(2)] by metis
  ultimately show ?thesis using rest that by blast
qed

lemma collect_Inr:
  assumes "collect_otlp_trace_manifest lib document raw_bytes source_id max_spans = Inr m"
    and "\<And>x. sha256_ok (lib_sha256 lib x)"
  obtains st where "collection_ok lib (lib_sha256 lib raw_bytes) max_spans st"
    "m = collection_manifest source_id (length raw_bytes) (lib_sha256 lib raw_bytes) st"
proof -
  from assms(1) obtain source where "trace_document lib document raw_bytes = Inr source"
    by (auto simp: collect_otlp_trace_manifest_def attempt_Inr)
  from collect_identifiers [OF assms this] that show ?thesis by blast
qed

lemma PACKAGE_VERSION_ok: "trace_version_ok PACKAGE_VERSION"
  by (simp add: trace_version_ok_def PACKAGE_VERSION_def head_tail_match_def is_alnum_def is_digit_def is_lower_def is_upper_def)

lemma sum_list_sort_key: "sum_list (map (f :: 'a \<Rightarrow> nat) (sort_key g xs)) = sum_list (map f xs)"
  by (metis mset_map mset_sort sum_mset_sum_list)

lemma sort_key_nothing [simp]: "sort_key f xs = [] \<longleftrightarrow> xs = []"
  by (metis set_empty set_sort)

lemma map_sort_distinct: "distinct (map f (sort_key g xs)) \<longleftrightarrow> distinct (map f xs)"
  by (simp add: distinct_map)

lemma collection_manifest_ok:
  assumes ok: "collection_ok lib src max_spans st" and ne: "cl_spans st \<noteq> []" and sid: "safe_id_ok sid" and n: "0 < n"
    and src: "sha256_ok src" and inj: "fingerprints_apart lib (cl_span_keys st)"
  shows "trace_manifest_ok (collection_manifest sid n src st) \<longleftrightarrow> list_all not_own_parent (cl_spans st)"
proof -
  let ?keys = "cl_span_keys st" and ?spans = "cl_spans st"
  from ok have hashes: "map (\<lambda>s. (cs_trace_id_sha256 s, cs_span_id_sha256 s)) ?spans = rev (map (span_hashes lib) ?keys)"
    and d: "distinct ?keys" and hex: "\<And>t s. (t, s) \<in> set ?keys \<Longrightarrow> hex_id 32 t \<and> hex_id 16 s"
    and aside: "list_all (own_parent_aside src) ?spans"
    by (auto simp: collection_ok_def list_all_iff)
  have traces: "map cs_trace_id_sha256 ?spans = rev (map (fingerprint lib ''trace-id'') (map fst ?keys))"
    using arg_cong [OF hashes, of "map fst"] by (simp add: comp_def span_hashes_def rev_map)
  have ids: "map cs_span_id_sha256 ?spans = rev (map (\<lambda>(t, s). fingerprint lib ''span-id'' (t @ '':'' @ s)) ?keys)"
    using arg_cong [OF hashes, of "map snd"] by (simp add: comp_def span_hashes_def rev_map case_prod_unfold)
  have "card (cs_trace_id_sha256 ` set ?spans) = card (fst ` set ?keys)"
    using arg_cong [OF traces, of set] inj by (simp add: fingerprints_apart_def del: map_map) (simp add: card_image)
  moreover have "inj_on (\<lambda>(t, s). fingerprint lib ''span-id'' (t @ '':'' @ s)) (set ?keys)"
    using inj by (simp add: fingerprints_apart_def)
  then have sid_d: "distinct (map cs_span_id_sha256 ?spans)"
    using d unfolding ids by (simp add: distinct_map)
  have refs: "map cs_evidence_ref ?spans = map (span_ref src) (map cs_span_id_sha256 ?spans)"
    using aside by (auto simp: list_all_iff own_parent_aside_def span_ok_def)
  have ref_d: "distinct (map cs_evidence_ref ?spans)"
    unfolding refs using sid_d by (subst distinct_map) (auto intro!: inj_onI simp: span_ref_def)
  have pair_d: "distinct (map (\<lambda>s. (cs_trace_id_sha256 s, cs_span_id_sha256 s)) ?spans)"
    using sid_d by (auto simp: distinct_map intro!: inj_onI dest: inj_onD)
  have "?keys \<noteq> []" using ne hashes by auto
  then have "1 \<le> card (fst ` set ?keys)" by (simp add: Suc_le_eq card_gt_0_iff)
  ultimately show ?thesis
    using ok ne sid n src PACKAGE_VERSION_ok sid_d ref_d pair_d aside
    by (auto simp: collection_ok_def trace_manifest_ok_def collection_manifest_def trace_source_ok_def redaction_ok_def
        spans_agree_def sum_list_sort_key map_sort_distinct span_ok_aside list_all_iff Suc_le_eq)
qed


subsection \<open>Properties\<close>

text \<open>
  C16. What the collector writes, the strict manifest parser reads back unchanged, for every export it
  accepts whose own identifiers SHA-256 does not make collide, with one exception: a span that names itself as
  its parent is collected, and the parser refuses the manifest.
\<close>
theorem collected_manifest_parses:
  assumes "collect_otlp_trace_manifest lib document raw_bytes source_id max_spans = Inr m"
    and "\<And>x. sha256_ok (lib_sha256 lib x)" and "raw_bytes \<noteq> []"
    and "trace_document lib document raw_bytes = Inr source" and "fingerprints_apart lib (export_identifiers source)"
  shows "parse_trace_manifest (trace_manifest_to_json m) = Inr m \<longleftrightarrow> list_all not_own_parent (tm_spans m)"
proof -
  obtain st where st: "collection_ok lib (lib_sha256 lib raw_bytes) max_spans st" "cl_spans st \<noteq> []" "safe_id_ok source_id"
    and m: "m = collection_manifest source_id (length raw_bytes) (lib_sha256 lib raw_bytes) st"
    and ids: "cl_span_keys st = rev (export_identifiers source)"
    using collect_identifiers [OF assms(1,2,4)] .
  have "fingerprints_apart lib (cl_span_keys st)" using assms(5) by (simp add: ids fingerprints_apart_def)
  from collection_manifest_ok [OF st _ assms(2) this, of "length raw_bytes"] assms(3) show ?thesis
    by (simp add: parse_trace_manifest_render m list_all_iff) (simp add: collection_manifest_def)
qed

text \<open>
  C7. The collector is a closed projection: every span of an accepted export carries, of its identifiers,
  only the fingerprints, and of its attributes only allowlisted keys with safe values; the number of
  spans never exceeds the configured limit.
\<close>
theorem collector_redacts:
  assumes "collect_otlp_trace_manifest lib document raw_bytes source_id max_spans = Inr m"
    and "\<And>x. sha256_ok (lib_sha256 lib x)"
  shows "int (length (tm_spans m)) \<le> max_spans \<and> (\<forall>s \<in> set (tm_spans m). list_all attribute_ok (cs_attributes s)
      \<and> (\<exists>t i. hex_id 32 t \<and> hex_id 16 i \<and> cs_trace_id_sha256 s = fingerprint lib ''trace-id'' t
           \<and> cs_span_id_sha256 s = fingerprint lib ''span-id'' (t @ '':'' @ i)))"
proof (rule conjI; (rule ballI)?)
  obtain st where st: "collection_ok lib (lib_sha256 lib raw_bytes) max_spans st"
    and m: "m = collection_manifest source_id (length raw_bytes) (lib_sha256 lib raw_bytes) st"
    using collect_Inr [OF assms] by metis
  show "int (length (tm_spans m)) \<le> max_spans"
    using st by (simp add: m collection_manifest_def collection_ok_def)
    fix s
    assume "s \<in> set (tm_spans m)"
    then have s: "s \<in> set (cl_spans st)" by (simp add: m collection_manifest_def)
    then have "own_parent_aside (lib_sha256 lib raw_bytes) s" using st by (simp add: collection_ok_def list_all_iff)
    then have a: "list_all attribute_ok (cs_attributes s)" by (simp add: own_parent_aside_def span_ok_def attributes_ok_def)
    have eq: "map (\<lambda>s. (cs_trace_id_sha256 s, cs_span_id_sha256 s)) (cl_spans st) = rev (map (span_hashes lib) (cl_span_keys st))"
      using st by (simp add: collection_ok_def)
    have "(cs_trace_id_sha256 s, cs_span_id_sha256 s) \<in> set (map (\<lambda>s. (cs_trace_id_sha256 s, cs_span_id_sha256 s)) (cl_spans st))"
      using s by simp
    then have "(cs_trace_id_sha256 s, cs_span_id_sha256 s) \<in> span_hashes lib ` set (cl_span_keys st)"
      by (simp only: eq set_rev set_map)
    then obtain k where k: "k \<in> set (cl_span_keys st)" "(cs_trace_id_sha256 s, cs_span_id_sha256 s) = span_hashes lib k"
      by (rule imageE)
    obtain t i where ti: "k = (t, i)" by (cases k)
    have "hex_id 32 t" "hex_id 16 i" using st k(1) by (auto simp: ti collection_ok_def list_all_iff)
    with a k(2) show "list_all attribute_ok (cs_attributes s)
      \<and> (\<exists>t i. hex_id 32 t \<and> hex_id 16 i \<and> cs_trace_id_sha256 s = fingerprint lib ''trace-id'' t
           \<and> cs_span_id_sha256 s = fingerprint lib ''span-id'' (t @ '':'' @ i))"
      by (auto simp: ti span_hashes_def)
qed

subsection \<open>A sample export\<close>

definition hex_pad :: "string \<Rightarrow> string" where
  "hex_pad s = take 64 (filter lower_hex s @ replicate 64 (CHR ''0''))"

definition sample_trace_library :: "json \<Rightarrow> library" where
  "sample_trace_library document = \<lparr>lib_decode_utf8 = Some, lib_loads = (\<lambda>_. Inr document), lib_dumps = (\<lambda>_. []),
     lib_sha256 = hex_pad, lib_inv_cdf = (\<lambda>_. 0)\<rparr>"
lemma hex_pad_ok: "sha256_ok (hex_pad x)"
proof -
  have "list_all lower_hex (filter lower_hex x @ replicate 64 (CHR ''0''))"
    by (simp add: list_all_iff lower_hex_def is_digit_def)
  then have "list_all lower_hex (hex_pad x)" unfolding hex_pad_def list_all_iff by (meson in_set_takeD)
  then show ?thesis by (simp add: sha256_ok_def hex_pad_def lower_hex_def [abs_def])
qed

lemma sample_library_simps:
  "lib_decode_utf8 (sample_trace_library d) x = Some x" "lib_loads (sample_trace_library d) x = Inr d"
  by (simp_all add: sample_trace_library_def)


definition sample_span :: "string \<Rightarrow> json" where
  "sample_span parent = JObj
     [(''traceId'', JStr (replicate 32 (CHR ''a''))), (''spanId'', JStr (replicate 16 (CHR ''b''))),
      (''parentSpanId'', JStr parent), (''name'', JStr ''chat''),
      (''startTimeUnixNano'', JStr ''5''), (''endTimeUnixNano'', JInt 7)]"

definition sample_export :: "string \<Rightarrow> json" where
  "sample_export parent = JObj [(''resourceSpans'', JArr [JObj [(''scopeSpans'', JArr [JObj
     [(''spans'', JArr [sample_span parent])]])]])]"

definition sample_collected :: "library \<Rightarrow> string \<Rightarrow> string option \<Rightarrow> collected_span" where
  "sample_collected lib src parent =
     (let t = replicate 32 (CHR ''a''); h = fingerprint lib ''span-id'' (t @ '':'' @ replicate 16 (CHR ''b'')) in
      \<lparr>cs_evidence_ref = span_ref src h, cs_trace_id_sha256 = fingerprint lib ''trace-id'' t, cs_span_id_sha256 = h,
       cs_parent_span_id_sha256 = map_option (\<lambda>p. fingerprint lib ''span-id'' (t @ '':'' @ p)) parent,
       cs_start_time_unix_nano = Some ''5'', cs_end_time_unix_nano = Some ''7'', cs_duration_nano = Some ''2'',
       cs_kind = None, cs_status_code = None, cs_attributes = []\<rparr>)"

lemma char_of_code: "of_char c = n \<Longrightarrow> char_of n = c"
  by auto

lemma a_not_zero: "set (replicate 32 (CHR ''a'')) \<noteq> {CHR ''0''}" "set (replicate 16 (CHR ''b'')) \<noteq> {CHR ''0''}"
  by simp_all

lemma py_lower_replicate: "py_lower (replicate n c) = replicate n (char_of (lower_code (of_char c)))"
  by (simp add: py_lower_def)

lemma sample_hex:
  "required_hex_id (JStr (replicate 32 (CHR ''a''))) path 32 = Inr (replicate 32 (CHR ''a''))"
  "required_hex_id (JStr (replicate 16 (CHR ''b''))) path 16 = Inr (replicate 16 (CHR ''b''))"
proof -
  have "(char_of (lower_code (of_char (CHR ''a''))) :: char) = CHR ''a''" by (rule char_of_code) (simp add: lower_code_def)
  moreover have "(char_of (lower_code (of_char (CHR ''b''))) :: char) = CHR ''b''" by (rule char_of_code) (simp add: lower_code_def)
  ultimately show 
  "required_hex_id (JStr (replicate 32 (CHR ''a''))) path 32 = Inr (replicate 32 (CHR ''a''))"
  "required_hex_id (JStr (replicate 16 (CHR ''b''))) path 16 = Inr (replicate 16 (CHR ''b''))"
  unfolding required_hex_id_def json.case py_lower_replicate
  by (simp_all add: list_all_iff hex_char_def)
qed

lemma sample_decimals:
  "optional_decimal (JStr ''5'') path = Inr (Some ''5'')" "optional_decimal (JInt 7) path = Inr (Some ''7'')"
  "decimal_value ''5'' = 5" "decimal_value ''7'' = 7" "dec_int 2 = ''2''"
proof -
  have d: "dec_int 5 = ''5''" "dec_int 7 = ''7''" "dec_int 2 = ''2''" by (simp_all add: dec_int_def dec_nat.simps char_of_code)
  have v: "decimal_value ''5'' = 5" "decimal_value ''7'' = 7" by (simp_all add: decimal_value_def)
  from d v show 
  "optional_decimal (JStr ''5'') path = Inr (Some ''5'')" "optional_decimal (JInt 7) path = Inr (Some ''7'')"
  "decimal_value ''5'' = 5" "decimal_value ''7'' = 7" "dec_int 2 = ''2''"
    by (simp_all add: optional_decimal_def is_decimal_def is_digit_def uint64_text d v) (simp_all add: UINT64_MAX_def)
qed

lemma sample_span_collects:
  "collect_span lib (sample_span []) path src counts =
     Inr ((sample_collected lib src None, replicate 32 (CHR ''a''), replicate 16 (CHR ''b'')), counts)"
  "collect_span lib (sample_span (replicate 16 (CHR ''b''))) path src counts =
     Inr ((sample_collected lib src (Some (replicate 16 (CHR ''b''))), replicate 32 (CHR ''a''), replicate 16 (CHR ''b'')), counts)"
  by (simp_all add: collect_span_def sample_span_def required_object_def sample_hex collect_times_def sample_decimals
      collect_status_def optional_enum_integer_def filter_attributes_def jget_or_def has_key_def required_list_def
      sample_collected_def Let_def)

lemma sample_trace_collection:
  assumes "py_equal doc doc" "doc = JObj [(''resourceSpans'', JArr [JObj [(''scopeSpans'', JArr [JObj [(''spans'', JArr [sp])]])]])]"
    and "\<And>path src counts. collect_span lib sp path src counts = Inr ((c src, t, i), g counts)"
    and "lib = sample_trace_library doc"
  shows "\<exists>st. collect_otlp_trace_manifest lib doc ''{}'' ''src'' 10
      = Inr (collection_manifest ''src'' 2 (lib_sha256 lib ''{}'') st) \<and> cl_spans st = [c (lib_sha256 lib ''{}'')]"
proof -
  have d: "lib_decode_utf8 lib x = Some x" "lib_loads lib x = Inr doc" for x
    using sample_library_simps [of doc] assms(4) by auto
  have p: "parse_json_text lib ''{}'' source MAX_TRACE_DOCUMENT_BYTES = Inr doc" for source
    by (simp add: parse_json_text_def d utf8_bytes_def MAX_TRACE_DOCUMENT_BYTES_def)
  have t: "trace_document lib doc ''{}'' = Inr doc" by (simp add: trace_document_def d p assms(1))
  have s: "safe_id_ok ''src''"
    by (simp add: safe_id_ok_def head_tail_match_def is_alnum_def is_digit_def is_lower_def is_upper_def)
  show ?thesis
    by (rule exI [of _ "\<lparr>cl_counts = g \<lparr>rc_retained = 0, rc_redacted = 0, rc_dropped = 0\<rparr>,
        cl_spans = [c (lib_sha256 lib ''{}'')], cl_span_keys = [(t, i)]\<rparr>"])
      (simp add: numeral_2_eq_2 collect_otlp_trace_manifest_def Let_def t [unfolded assms(2)] s MAX_CONFIGURABLE_SPANS_def assms(2) required_object_def
        required_list_def collect_resource_def collect_scope_def jget_or_def has_key_def collect_one_def
        assms(3) no_collection_def)
qed

lemma sample_span_equal: "py_equal (sample_export parent) (sample_export parent)"
  by (simp add: sample_export_def sample_span_def)

lemma sample_document:
  "trace_document (sample_trace_library (sample_export parent)) (sample_export parent) ''{}'' = Inr (sample_export parent)"
proof -
  have "parse_json_text (sample_trace_library (sample_export parent)) ''{}'' source MAX_TRACE_DOCUMENT_BYTES
      = Inr (sample_export parent)" for source
    by (simp add: parse_json_text_def sample_library_simps utf8_bytes_def MAX_TRACE_DOCUMENT_BYTES_def)
  then show ?thesis by (simp add: trace_document_def sample_library_simps sample_span_equal)
qed

lemma sample_apart: "fingerprints_apart lib (export_identifiers (sample_export parent))"
  by (simp add: fingerprints_apart_def export_identifiers_def sample_export_def field_items_def)

definition sample_lib :: "string \<Rightarrow> library" where
  "sample_lib parent = sample_trace_library (sample_export parent)"

lemma sample_source: "trace_document (sample_lib parent) (sample_export parent) ''{}'' = Inr (sample_export parent)"
  by (simp add: sample_lib_def sample_document)

lemma sample_sha: "sha256_ok (lib_sha256 (sample_lib parent) x)"
  by (simp add: sample_lib_def sample_trace_library_def hex_pad_ok)

lemma sample_collected:
  "\<exists>m. collect_otlp_trace_manifest (sample_lib []) (sample_export []) ''{}'' ''src'' 10 = Inr m
     \<and> tm_spans m = [sample_collected (sample_lib []) (lib_sha256 (sample_lib []) ''{}'') None]"
  "\<exists>m. collect_otlp_trace_manifest (sample_lib (replicate 16 (CHR ''b''))) (sample_export (replicate 16 (CHR ''b'')))
        ''{}'' ''src'' 10 = Inr m
     \<and> tm_spans m = [sample_collected (sample_lib (replicate 16 (CHR ''b'')))
         (lib_sha256 (sample_lib (replicate 16 (CHR ''b''))) ''{}'') (Some (replicate 16 (CHR ''b'')))]"
proof -
  note s = sample_trace_collection [OF sample_span_equal sample_export_def _ sample_lib_def, where g = id, unfolded id_apply]
  show "\<exists>m. collect_otlp_trace_manifest (sample_lib []) (sample_export []) ''{}'' ''src'' 10 = Inr m
     \<and> tm_spans m = [sample_collected (sample_lib []) (lib_sha256 (sample_lib []) ''{}'') None]"
    using s [OF sample_span_collects(1)] by (auto simp: collection_manifest_def)
  show "\<exists>m. collect_otlp_trace_manifest (sample_lib (replicate 16 (CHR ''b''))) (sample_export (replicate 16 (CHR ''b'')))
        ''{}'' ''src'' 10 = Inr m
     \<and> tm_spans m = [sample_collected (sample_lib (replicate 16 (CHR ''b'')))
         (lib_sha256 (sample_lib (replicate 16 (CHR ''b''))) ''{}'') (Some (replicate 16 (CHR ''b'')))]"
    using s [OF sample_span_collects(2)] by (auto simp: collection_manifest_def)
qed

lemma collected_manifest_parses_witness:
  "(\<exists>m. collect_otlp_trace_manifest (sample_lib []) (sample_export []) ''{}'' ''src'' 10 = Inr m
     \<and> parse_trace_manifest (trace_manifest_to_json m) = Inr m)
   \<and> (\<exists>m. collect_otlp_trace_manifest (sample_lib (replicate 16 (CHR ''b''))) (sample_export (replicate 16 (CHR ''b'')))
        ''{}'' ''src'' 10 = Inr m \<and> parse_trace_manifest (trace_manifest_to_json m) \<noteq> Inr m)"
proof (rule conjI)
  obtain m where m: "collect_otlp_trace_manifest (sample_lib []) (sample_export []) ''{}'' ''src'' 10 = Inr m"
    and sp: "tm_spans m = [sample_collected (sample_lib []) (lib_sha256 (sample_lib []) ''{}'') None]"
    using sample_collected(1) by blast
  have "list_all not_own_parent (tm_spans m)" by (simp add: sp not_own_parent_def sample_collected_def Let_def)
  with collected_manifest_parses [OF m sample_sha _ sample_source sample_apart] m
  show "\<exists>m. collect_otlp_trace_manifest (sample_lib []) (sample_export []) ''{}'' ''src'' 10 = Inr m
     \<and> parse_trace_manifest (trace_manifest_to_json m) = Inr m" by blast
next
  obtain m where m: "collect_otlp_trace_manifest (sample_lib (replicate 16 (CHR ''b'')))
      (sample_export (replicate 16 (CHR ''b''))) ''{}'' ''src'' 10 = Inr m"
    and sp: "tm_spans m = [sample_collected (sample_lib (replicate 16 (CHR ''b'')))
      (lib_sha256 (sample_lib (replicate 16 (CHR ''b''))) ''{}'') (Some (replicate 16 (CHR ''b'')))]"
    using sample_collected(2) by blast
  have "\<not> list_all not_own_parent (tm_spans m)" unfolding sp by (simp add: not_own_parent_def sample_collected_def Let_def)
  with collected_manifest_parses [OF m sample_sha _ sample_source sample_apart] m
  show "\<exists>m. collect_otlp_trace_manifest (sample_lib (replicate 16 (CHR ''b''))) (sample_export (replicate 16 (CHR ''b'')))
        ''{}'' ''src'' 10 = Inr m \<and> parse_trace_manifest (trace_manifest_to_json m) \<noteq> Inr m" by blast
qed

definition otlp_text :: "string \<Rightarrow> string \<Rightarrow> json" where
  "otlp_text key s = JObj [(''key'', JStr key), (''value'', JObj [(''stringValue'', JStr s)])]"

definition revealing_span :: json where
  \<comment> \<open>an allowlisted key with a safe and one with an unsafe value, and a key that is not allowlisted\<close>
  "revealing_span = JObj
     [(''traceId'', JStr (replicate 32 (CHR ''a''))), (''spanId'', JStr (replicate 16 (CHR ''b''))), (''name'', JStr ''chat''),
      (''attributes'', JArr [otlp_text ''llm.provider'' ''p1'', otlp_text ''llm.system'' ''free text'',
        otlp_text ''user.email'' ''p2''])]"

definition revealing_export :: json where
  "revealing_export = JObj [(''resourceSpans'', JArr [JObj [(''scopeSpans'', JArr [JObj
     [(''spans'', JArr [revealing_span])]])]])]"

definition revealing_library :: library where
  "revealing_library = sample_trace_library revealing_export"

definition revealing_collected :: "string \<Rightarrow> collected_span" where
  "revealing_collected src =
     (sample_collected revealing_library src None)\<lparr>cs_start_time_unix_nano := None, cs_end_time_unix_nano := None,
        cs_duration_nano := None, cs_attributes := [(''llm.provider'', JStr ''p1'')]\<rparr>"

lemma revealing_values:
  "keep_attribute ''llm.provider'' (JObj [(''stringValue'', JStr ''p1'')]) = Some (JStr ''p1'')"
  "keep_attribute ''llm.system'' (JObj [(''stringValue'', JStr ''free text'')]) = None"
  by (simp_all add: keep_attribute_def SAFE_TRACE_TEXT_ATTRIBUTES_def decode_primitive_def has_key_def jget_def
      safe_text_value_def safe_trace_text_def head_tail_match_def is_alnum_def is_digit_def is_lower_def is_upper_def)

lemma revealing_keys:
  "''llm.provider'' \<in> set SAFE_TRACE_TEXT_ATTRIBUTES" "''llm.system'' \<in> set SAFE_TRACE_TEXT_ATTRIBUTES"
  "''user.email'' \<notin> set SAFE_TRACE_TEXT_ATTRIBUTES" "''user.email'' \<notin> set SAFE_TRACE_NUMERIC_ATTRIBUTES"
  by (simp_all add: SAFE_TRACE_TEXT_ATTRIBUTES_def SAFE_TRACE_NUMERIC_ATTRIBUTES_def)

definition revealing_counts :: "redaction_counts \<Rightarrow> redaction_counts" where
  "revealing_counts c = (if is_sensitive_key ''user.email'' then count_redacted (count_redacted (count_retained c))
     else count_dropped (count_redacted (count_retained c)))"

lemma revealing_span_collects:
  "collect_span lib revealing_span path src counts =
     Inr (((sample_collected lib src None)\<lparr>cs_start_time_unix_nano := None, cs_end_time_unix_nano := None,
        cs_duration_nano := None, cs_attributes := [(''llm.provider'', JStr ''p1'')]\<rparr>,
       replicate 32 (CHR ''a''), replicate 16 (CHR ''b'')), revealing_counts counts)"
  by (simp add: collect_span_def revealing_span_def required_object_def sample_hex collect_times_def optional_decimal_def
      collect_status_def optional_enum_integer_def filter_attributes_def jget_or_def has_key_def jget_def required_list_def
      sample_collected_def Let_def otlp_text_def revealing_values revealing_keys revealing_counts_def)

lemma revealing_equal: "py_equal revealing_export revealing_export"
  by (simp add: revealing_export_def revealing_span_def otlp_text_def)

lemma revealing_collects:
  "\<exists>m. collect_otlp_trace_manifest revealing_library revealing_export ''{}'' ''src'' 10 = Inr m
     \<and> tm_spans m = [revealing_collected (lib_sha256 revealing_library ''{}'')]"
  using sample_trace_collection [OF revealing_equal revealing_export_def revealing_span_collects revealing_library_def]
  by (auto simp: collection_manifest_def revealing_collected_def)

lemma collector_redacts_witness:
  "\<exists>m. collect_otlp_trace_manifest revealing_library revealing_export ''{}'' ''src'' 10 = Inr m
     \<and> map cs_attributes (tm_spans m) = [[(''llm.provider'', JStr ''p1'')]]
     \<and> (\<forall>s \<in> set (tm_spans m). list_all attribute_ok (cs_attributes s))"
proof -
  obtain m where m: "collect_otlp_trace_manifest revealing_library revealing_export ''{}'' ''src'' 10 = Inr m"
    "tm_spans m = [revealing_collected (lib_sha256 revealing_library ''{}'')]" using revealing_collects by blast
  have "sha256_ok (lib_sha256 revealing_library x)" for x
    by (simp add: revealing_library_def sample_trace_library_def hex_pad_ok)
  from collector_redacts [OF m(1) this] m show ?thesis by (auto simp: revealing_collected_def)
qed

end
