(* ===== verification/Fixtures.thy ===== *)
theory Fixtures
  imports Collector
begin

text \<open>
  \<open>fixtures.py\<close>: draft-only investigation fixtures. A fixture groups the spans of a trace
  manifest by trace into candidate clusters with counts and observation windows, and lists the evidence
  that is still missing. The strict parser recomputes what a cluster declares.
\<close>

subsection \<open>Documents\<close>

datatype fixture_error =
    Fixture_generation_error string
  | Fixture_invalid string string
  | Fixture_manifest_error trace_manifest_error
  \<comment> \<open>FixtureGenerationError, InvestigationFixtureValidationError, and the manifest parser's error passed through\<close>

definition MAX_MANIFEST_DOCUMENT_BYTES :: nat where "MAX_MANIFEST_DOCUMENT_BYTES = 64 * 1024 * 1024"
definition MAX_INVESTIGATION_FIXTURE_BYTES :: nat where "MAX_INVESTIGATION_FIXTURE_BYTES = 64 * 1024 * 1024"
definition DEFAULT_MAX_CLUSTERS :: int where "DEFAULT_MAX_CLUSTERS = 1000"
definition MAX_CONFIGURABLE_CLUSTERS :: nat where "MAX_CONFIGURABLE_CLUSTERS = 10000"
definition MAX_CLUSTER_IDENTIFIERS :: nat where "MAX_CLUSTER_IDENTIFIERS = 10000"

definition MODEL_ATTRIBUTE_KEYS :: "string list" where
  "MODEL_ATTRIBUTE_KEYS = [''embedding.model_name'', ''gen_ai.request.model'', ''gen_ai.response.model'', ''llm.model_name'']"

definition PROVIDER_ATTRIBUTE_KEYS :: "string list" where
  "PROVIDER_ATTRIBUTE_KEYS = [''gen_ai.provider.name'', ''llm.provider'', ''llm.system'']"

definition MISSING_EVIDENCE :: "string list" where
  "MISSING_EVIDENCE =
     [''incident_claim'', ''governing_requirement'', ''independent_oracle'', ''reproduction_outcomes'',
      ''causal_attribution'', ''proposed_change'', ''negative_and_regression_controls'']"

record named_count =
  nc_name :: string
  nc_count :: int

record status_count =
  sc_code :: int
  sc_count :: int

record fixture_source =
  fs_manifest_sha256 :: string
  fs_trace_artifact_id :: string
  fs_trace_source_sha256 :: string
  fs_trace_count :: int
  fs_span_count :: int

record candidate_trace_cluster =
  cc_cluster_id :: string
  cc_trace_ref :: string
  cc_trace_id_sha256 :: string
  cc_span_evidence_refs :: "string list"
  cc_span_count :: int
  cc_root_span_count :: int
  cc_error_span_count :: int
  cc_span_kind_counts :: "named_count list"
  cc_status_code_counts :: "status_count list"
  cc_model_identifiers :: "string list"
  cc_provider_identifiers :: "string list"
  cc_earliest_start_time_unix_nano :: "string option"
  cc_latest_end_time_unix_nano :: "string option"
  cc_observed_duration_nano :: "string option"

record investigation_fixture =
  if_schema_version :: string
  if_generator_version :: string
  if_fixture_id :: string
  if_draft_only :: bool
  if_gate_eligible :: bool
  if_causal_claims_inferred :: bool
  if_clustering_basis :: string
  if_source :: fixture_source
  if_missing_evidence :: "string list"
  if_candidate_clusters :: "candidate_trace_cluster list"

subsection \<open>Formats\<close>

definition unique_sorted :: "'a::linorder list \<Rightarrow> bool" where
  \<comment> \<open>\<open>values == tuple(sorted(set(values)))\<close>\<close>
  "unique_sorted xs \<longleftrightarrow> sort (remdups xs) = xs"

definition trace_cluster_id :: "string \<Rightarrow> string" where
  "trace_cluster_id trace_id = ''trace-'' @ trace_id"

definition trace_ref :: "string \<Rightarrow> string \<Rightarrow> string" where
  "trace_ref source_sha256 trace_id = ''trace-sha256://'' @ source_sha256 @ ''/traces/'' @ trace_id"

definition cluster_id_ok :: "string \<Rightarrow> bool" where
  "cluster_id_ok s \<longleftrightarrow> take 6 s = ''trace-'' \<and> sha256_ok (drop 6 s)"

definition sha_ref_ok :: "string \<Rightarrow> string \<Rightarrow> bool" where
  \<comment> \<open>the pattern \<open>trace-sha256://HASH\<close>, the given middle part, \<open>HASH\<close>\<close>
  "sha_ref_ok middle s \<longleftrightarrow> take 15 s = ''trace-sha256://'' \<and> sha256_ok (take 64 (drop 15 s))
     \<and> take (length middle) (drop 79 s) = middle \<and> sha256_ok (drop (79 + length middle) s)"

definition observed_window :: "string option \<Rightarrow> string option \<Rightarrow> string option" where
  \<comment> \<open>the expected duration of a window\<close>
  "observed_window earliest latest =
     (case (earliest, latest) of
        (Some e, Some l) \<Rightarrow> if decimal_value e \<le> decimal_value l then Some (dec_int (decimal_value l - decimal_value e)) else None
      | _ \<Rightarrow> None)"

subsection \<open>Parsing\<close>

definition parse_fixture_source :: "json \<Rightarrow> fixture_error + fixture_source" where
  "parse_fixture_source v =
     (let err = Fixture_invalid; path = ''$.source'' in
     attempt (wire_object err path
       [''manifest_sha256'', ''trace_artifact_id'', ''trace_source_sha256'', ''trace_count'', ''span_count''] [] v) (\<lambda>source.
     attempt (trace_string err (Some sha256_ok) (sub path ''manifest_sha256'') (jget source ''manifest_sha256''))
       (\<lambda>manifest_sha256.
     attempt (trace_string err (Some safe_id_ok) (sub path ''trace_artifact_id'') (jget source ''trace_artifact_id''))
       (\<lambda>trace_artifact_id.
     attempt (trace_string err (Some sha256_ok) (sub path ''trace_source_sha256'') (jget source ''trace_source_sha256''))
       (\<lambda>trace_source_sha256.
     attempt (trace_integer err 1 None (sub path ''trace_count'') (jget source ''trace_count'')) (\<lambda>trace_count.
     attempt (trace_integer err 1 None (sub path ''span_count'') (jget source ''span_count'')) (\<lambda>span_count.
     Inr \<lparr>fs_manifest_sha256 = manifest_sha256, fs_trace_artifact_id = trace_artifact_id,
          fs_trace_source_sha256 = trace_source_sha256, fs_trace_count = trace_count, fs_span_count = span_count\<rparr>)))))))"

definition parse_named_count :: "string \<Rightarrow> int \<Rightarrow> nat \<Rightarrow> json \<Rightarrow> fixture_error + named_count" where
  "parse_named_count path span_count index item =
     (let err = Fixture_invalid; item_path = at_index path index in
     attempt (wire_object err item_path [''name'', ''count''] [] item) (\<lambda>obj.
     attempt (wire_enum err openinference_span_kind_value openinference_span_kind_members (sub item_path ''name'')
                (jget obj ''name'')) (\<lambda>kind.
     attempt (trace_integer err 1 (Some span_count) (sub item_path ''count'') (jget obj ''count'')) (\<lambda>count.
     Inr \<lparr>nc_name = openinference_span_kind_value kind, nc_count = count\<rparr>))))"

definition parse_named_counts :: "json \<Rightarrow> string \<Rightarrow> int \<Rightarrow> fixture_error + named_count list" where
  "parse_named_counts v path span_count =
     (let err = Fixture_invalid in
     attempt (trace_array err 0 (Some (length openinference_span_kind_members)) path v) (\<lambda>items.
     attempt (each (parse_named_count path span_count) 0 items) (\<lambda>result.
     attempt (ensure (unique_sorted (map nc_name result)) (err path ''span kinds must be unique and sorted'')) (\<lambda>_.
     attempt (ensure (sum_list (map nc_count result) \<le> span_count) (err path ''span-kind counts exceed span_count'')) (\<lambda>_.
     Inr result)))))"

definition parse_status_count :: "string \<Rightarrow> int \<Rightarrow> nat \<Rightarrow> json \<Rightarrow> fixture_error + status_count" where
  "parse_status_count path span_count index item =
     (let err = Fixture_invalid; item_path = at_index path index in
     attempt (wire_object err item_path [''code'', ''count''] [] item) (\<lambda>obj.
     attempt (trace_integer err 0 (Some 2) (sub item_path ''code'') (jget obj ''code'')) (\<lambda>code.
     attempt (trace_integer err 1 (Some span_count) (sub item_path ''count'') (jget obj ''count'')) (\<lambda>count.
     Inr \<lparr>sc_code = code, sc_count = count\<rparr>))))"

definition parse_status_counts :: "json \<Rightarrow> string \<Rightarrow> int \<Rightarrow> fixture_error + status_count list" where
  "parse_status_counts v path span_count =
     (let err = Fixture_invalid in
     attempt (trace_array err 0 (Some 3) path v) (\<lambda>items.
     attempt (each (parse_status_count path span_count) 0 items) (\<lambda>result.
     attempt (ensure (unique_sorted (map sc_code result)) (err path ''status codes must be unique and sorted'')) (\<lambda>_.
     attempt (ensure (sum_list (map sc_count result) \<le> span_count) (err path ''status counts exceed span_count'')) (\<lambda>_.
     Inr result)))))"

definition parse_identifier_array :: "json \<Rightarrow> string \<Rightarrow> fixture_error + string list" where
  "parse_identifier_array v path =
     (let err = Fixture_invalid in
     attempt (trace_array err 0 (Some MAX_CLUSTER_IDENTIFIERS) path v) (\<lambda>items.
     attempt (each (\<lambda>index. trace_string err (Some safe_trace_text) (at_index path index)) 0 items) (\<lambda>result.
     attempt (ensure (unique_sorted result) (err path ''values must be unique and sorted'')) (\<lambda>_.
     Inr result))))"

definition parse_cluster_identity :: "string \<Rightarrow> fixture_source \<Rightarrow> dict \<Rightarrow> fixture_error + string \<times> string \<times> string" where
  "parse_cluster_identity path source cluster =
     (let err = Fixture_invalid in
     attempt (trace_string err (Some sha256_ok) (sub path ''trace_id_sha256'') (jget cluster ''trace_id_sha256'')) (\<lambda>trace_id.
     attempt (trace_string err (Some cluster_id_ok) (sub path ''cluster_id'') (jget cluster ''cluster_id'')) (\<lambda>cluster_id.
     attempt (ensure (cluster_id = trace_cluster_id trace_id)
                (err (sub path ''cluster_id'') ''must be derived from trace_id_sha256'')) (\<lambda>_.
     attempt (trace_string err (Some (sha_ref_ok ''/traces/'')) (sub path ''trace_ref'') (jget cluster ''trace_ref'')) (\<lambda>ref.
     attempt (ensure (ref = trace_ref (fs_trace_source_sha256 source) trace_id)
                (err (sub path ''trace_ref'') ''does not bind the declared trace source and trace id'')) (\<lambda>_.
     Inr (trace_id, cluster_id, ref)))))))"

definition parse_cluster_refs :: "string \<Rightarrow> fixture_source \<Rightarrow> dict \<Rightarrow> fixture_error + int \<times> string list" where
  "parse_cluster_refs path source cluster =
     (let err = Fixture_invalid; refs_path = sub path ''span_evidence_refs'' in
     attempt (trace_integer err 1 None (sub path ''span_count'') (jget cluster ''span_count'')) (\<lambda>span_count.
     attempt (trace_array err 1 None refs_path (jget cluster ''span_evidence_refs'')) (\<lambda>items.
     attempt (each (\<lambda>index. trace_string err (Some (sha_ref_ok ''/spans/'')) (at_index refs_path index)) 0 items) (\<lambda>span_refs.
     attempt (ensure (int (length span_refs) = span_count) (err refs_path ''item count must equal span_count'')) (\<lambda>_.
     attempt (ensure (unique_sorted span_refs) (err refs_path ''span references must be unique and sorted'')) (\<lambda>_.
     attempt (ensure (list_all (prefix (span_ref (fs_trace_source_sha256 source) [])) span_refs)
                (err refs_path ''span references must bind the declared trace source'')) (\<lambda>_.
     Inr (span_count, span_refs))))))))"

definition status_errors :: "status_count list \<Rightarrow> int" where
  "status_errors statuses = (case find (\<lambda>s. sc_code s = 2) statuses of Some s \<Rightarrow> sc_count s | None \<Rightarrow> 0)"

definition parse_cluster_counts ::
  "string \<Rightarrow> int \<Rightarrow> dict \<Rightarrow> fixture_error + int \<times> int \<times> named_count list \<times> status_count list" where
  "parse_cluster_counts path span_count cluster =
     (let err = Fixture_invalid in
     attempt (trace_integer err 0 (Some span_count) (sub path ''root_span_count'') (jget cluster ''root_span_count''))
       (\<lambda>root_span_count.
     attempt (trace_integer err 0 (Some span_count) (sub path ''error_span_count'') (jget cluster ''error_span_count''))
       (\<lambda>error_span_count.
     attempt (parse_named_counts (jget cluster ''span_kind_counts'') (sub path ''span_kind_counts'') span_count) (\<lambda>kinds.
     attempt (parse_status_counts (jget cluster ''status_code_counts'') (sub path ''status_code_counts'') span_count)
       (\<lambda>statuses.
     attempt (ensure (status_errors statuses = error_span_count)
                (err (sub path ''error_span_count'') ''must equal the status-code 2 count'')) (\<lambda>_.
     Inr (root_span_count, error_span_count, kinds, statuses)))))))"

definition fixture_decimal :: "string \<Rightarrow> dict \<Rightarrow> string \<Rightarrow> fixture_error + string option" where
  "fixture_decimal path cluster key =
     optional_field (trace_decimal Fixture_invalid ''decimal string exceeds the uint64 range'' (sub path key)) cluster key"

definition parse_cluster_window ::
  "string \<Rightarrow> dict \<Rightarrow> fixture_error + string option \<times> string option \<times> string option" where
  "parse_cluster_window path cluster =
     attempt (fixture_decimal path cluster ''earliest_start_time_unix_nano'') (\<lambda>earliest.
     attempt (fixture_decimal path cluster ''latest_end_time_unix_nano'') (\<lambda>latest.
     attempt (fixture_decimal path cluster ''observed_duration_nano'') (\<lambda>duration.
     attempt (ensure (duration = observed_window earliest latest)
                (Fixture_invalid (sub path ''observed_duration_nano'') ''must equal the declared observation window'')) (\<lambda>_.
     Inr (earliest, latest, duration)))))"

definition cluster_keys :: "string list" where
  "cluster_keys =
     [''cluster_id'', ''trace_ref'', ''trace_id_sha256'', ''span_evidence_refs'', ''span_count'', ''root_span_count'',
      ''error_span_count'', ''span_kind_counts'', ''status_code_counts'', ''model_identifiers'', ''provider_identifiers'']"

definition window_keys :: "string list" where
  "window_keys = [''earliest_start_time_unix_nano'', ''latest_end_time_unix_nano'', ''observed_duration_nano'']"

definition parse_fixture_cluster :: "fixture_source \<Rightarrow> nat \<Rightarrow> json \<Rightarrow> fixture_error + candidate_trace_cluster" where
  "parse_fixture_cluster source index v =
     (let path = at_index ''$.candidate_clusters'' index in
     attempt (wire_object Fixture_invalid path cluster_keys window_keys v) (\<lambda>cluster.
     attempt (parse_cluster_identity path source cluster) (\<lambda>(trace_id, cluster_id, ref).
     attempt (parse_cluster_refs path source cluster) (\<lambda>(span_count, span_refs).
     attempt (parse_cluster_counts path span_count cluster) (\<lambda>(root_span_count, error_span_count, kinds, statuses).
     attempt (parse_cluster_window path cluster) (\<lambda>(earliest, latest, duration).
     attempt (parse_identifier_array (jget cluster ''model_identifiers'') (sub path ''model_identifiers'')) (\<lambda>models.
     attempt (parse_identifier_array (jget cluster ''provider_identifiers'') (sub path ''provider_identifiers''))
       (\<lambda>providers.
     Inr \<lparr>cc_cluster_id = cluster_id, cc_trace_ref = ref, cc_trace_id_sha256 = trace_id,
          cc_span_evidence_refs = span_refs, cc_span_count = span_count, cc_root_span_count = root_span_count,
          cc_error_span_count = error_span_count, cc_span_kind_counts = kinds, cc_status_code_counts = statuses,
          cc_model_identifiers = models, cc_provider_identifiers = providers,
          cc_earliest_start_time_unix_nano = earliest, cc_latest_end_time_unix_nano = latest,
          cc_observed_duration_nano = duration\<rparr>))))))))"

definition fixture_keys :: "string list" where
  "fixture_keys =
     [''schema_version'', ''generator_version'', ''fixture_id'', ''draft_only'', ''gate_eligible'',
      ''causal_claims_inferred'', ''clustering_basis'', ''source'', ''missing_evidence'', ''candidate_clusters'']"

definition check_fixture_labels :: "dict \<Rightarrow> fixture_error + unit" where
  \<comment> \<open>the fixed values that keep a fixture out of the gate\<close>
  "check_fixture_labels rt =
     (let err = Fixture_invalid in
     attempt (ensure (jget rt ''schema_version'' = JStr INVESTIGATION_FIXTURE_SCHEMA_VERSION)
                (err ''$.schema_version'' (''expected '' @ INVESTIGATION_FIXTURE_SCHEMA_VERSION))) (\<lambda>_.
     attempt (ensure (jget rt ''draft_only'' = JBool True) (err ''$.draft_only'' ''expected true'')) (\<lambda>_.
     attempt (ensure (jget rt ''gate_eligible'' = JBool False) (err ''$.gate_eligible'' ''expected false'')) (\<lambda>_.
     attempt (ensure (jget rt ''causal_claims_inferred'' = JBool False)
                (err ''$.causal_claims_inferred'' ''expected false'')) (\<lambda>_.
     ensure (jget rt ''clustering_basis'' = JStr ''trace_identity'')
       (err ''$.clustering_basis'' ''expected trace_identity''))))))"

definition parse_missing_evidence :: "json \<Rightarrow> fixture_error + string list" where
  "parse_missing_evidence v =
     (let err = Fixture_invalid; n = length MISSING_EVIDENCE in
     attempt (trace_array err n (Some n) ''$.missing_evidence'' v) (\<lambda>items.
     attempt (each (\<lambda>index. trace_string err None (at_index ''$.missing_evidence'' index)) 0 items) (\<lambda>missing.
     attempt (ensure (missing = MISSING_EVIDENCE)
                (err ''$.missing_evidence'' ''expected the canonical missing-evidence list'')) (\<lambda>_.
     Inr missing))))"

definition check_clusters :: "fixture_source \<Rightarrow> candidate_trace_cluster list \<Rightarrow> fixture_error + unit" where
  "check_clusters source clusters =
     (let err = Fixture_invalid in
     attempt (ensure (unique_sorted (map cc_cluster_id clusters))
                (err ''$.candidate_clusters'' ''cluster ids must be unique and sorted'')) (\<lambda>_.
     attempt (ensure (int (length clusters) = fs_trace_count source)
                (err ''$.source.trace_count'' ''must equal the number of candidate clusters'')) (\<lambda>_.
     ensure (sum_list (map cc_span_count clusters) = fs_span_count source)
       (err ''$.source.span_count'' ''must equal the candidate-cluster span total''))))"

definition parse_investigation_fixture :: "json \<Rightarrow> fixture_error + investigation_fixture" where
  "parse_investigation_fixture document =
     (let err = Fixture_invalid in
     attempt (wire_object err ''$'' fixture_keys [] document) (\<lambda>rt.
     attempt (check_fixture_labels rt) (\<lambda>_.
     attempt (parse_missing_evidence (jget rt ''missing_evidence'')) (\<lambda>missing_evidence.
     attempt (parse_fixture_source (jget rt ''source'')) (\<lambda>source.
     attempt (trace_array err 1 (Some MAX_CONFIGURABLE_CLUSTERS) ''$.candidate_clusters'' (jget rt ''candidate_clusters''))
       (\<lambda>items.
     attempt (each (parse_fixture_cluster source) 0 items) (\<lambda>clusters.
     attempt (check_clusters source clusters) (\<lambda>_.
     attempt (trace_string err (Some trace_version_ok) ''$.generator_version'' (jget rt ''generator_version''))
       (\<lambda>generator_version.
     attempt (trace_string err (Some safe_id_ok) ''$.fixture_id'' (jget rt ''fixture_id'')) (\<lambda>fixture_id.
     Inr \<lparr>if_schema_version = INVESTIGATION_FIXTURE_SCHEMA_VERSION, if_generator_version = generator_version,
          if_fixture_id = fixture_id, if_draft_only = True, if_gate_eligible = False,
          if_causal_claims_inferred = False, if_clustering_basis = ''trace_identity'', if_source = source,
          if_missing_evidence = missing_evidence, if_candidate_clusters = clusters\<rparr>))))))))))"

definition parse_investigation_fixture_bytes :: "library \<Rightarrow> string \<Rightarrow> fixture_error + investigation_fixture" where
  "parse_investigation_fixture_bytes lib raw_bytes =
     (let err = Fixture_invalid ''$'' in
     if \<not> (1 \<le> length raw_bytes \<and> length raw_bytes \<le> MAX_INVESTIGATION_FIXTURE_BYTES)
     then Inl (err (''expected from 1 to '' @ dec_nat MAX_INVESTIGATION_FIXTURE_BYTES @ '' bytes''))
     else case lib_decode_utf8 lib raw_bytes of
       None \<Rightarrow> Inl (err ''document is not valid UTF-8'')
     | Some text \<Rightarrow>
         (case parse_json_text lib text ''<investigation-fixture>'' MAX_INVESTIGATION_FIXTURE_BYTES of
            Inl message \<Rightarrow> Inl (err message)
          | Inr document \<Rightarrow> parse_investigation_fixture document))"

subsection \<open>Generation\<close>

definition counter_items :: "'a::linorder list \<Rightarrow> ('a \<times> int) list" where
  \<comment> \<open>\<open>sorted(Counter(values).items())\<close>\<close>
  "counter_items xs = map (\<lambda>x. (x, int (count_list xs x))) (sort (remdups xs))"

definition attribute_text :: "json \<Rightarrow> string" where
  \<comment> \<open>\<open>str(value)\<close> of a text attribute; the parser admits no other value under the keys it is used for\<close>
  "attribute_text v = (case v of JStr s \<Rightarrow> s | _ \<Rightarrow> [])"

definition present :: "('a \<Rightarrow> 'b option) \<Rightarrow> 'a list \<Rightarrow> 'b list" where
  \<comment> \<open>the values that are not \<open>None\<close>\<close>
  "present f xs = List.map_filter f xs"

definition attribute_values :: "string list \<Rightarrow> collected_span list \<Rightarrow> string list" where
  "attribute_values keys spans =
     concat (map (\<lambda>s. map (\<lambda>(k, v). attribute_text v) (filter (\<lambda>(k, v). k \<in> set keys) (cs_attributes s))) spans)"

definition least :: "int list \<Rightarrow> int option" where
  "least xs = (case xs of [] \<Rightarrow> None | x # ys \<Rightarrow> Some (foldl min x ys))"

definition greatest :: "int list \<Rightarrow> int option" where
  "greatest xs = (case xs of [] \<Rightarrow> None | x # ys \<Rightarrow> Some (foldl max x ys))"

definition cluster_spans :: "string \<Rightarrow> collected_span list \<Rightarrow> trace_manifest \<Rightarrow> candidate_trace_cluster" where
  "cluster_spans trace_hash spans manifest =
     (let starts = map decimal_value (present cs_start_time_unix_nano spans);
          ends = map decimal_value (present cs_end_time_unix_nano spans);
          earliest = least starts;
          latest = greatest ends;
          observed_duration = (case (earliest, latest) of
             (Some e, Some l) \<Rightarrow> if e \<le> l then Some (l - e) else None
           | _ \<Rightarrow> None);
          span_kinds = counter_items (map attribute_text
             (present (\<lambda>s. map_of (cs_attributes s) ''openinference.span.kind'') spans));
          statuses = counter_items (present cs_status_code spans)
      in \<lparr>cc_cluster_id = trace_cluster_id trace_hash,
          cc_trace_ref = trace_ref (ts_sha256 (tm_source manifest)) trace_hash,
          cc_trace_id_sha256 = trace_hash,
          cc_span_evidence_refs = sort (map cs_evidence_ref spans),
          cc_span_count = int (length spans),
          cc_root_span_count = int (length (filter (\<lambda>s. cs_parent_span_id_sha256 s = None) spans)),
          cc_error_span_count = int (length (filter (\<lambda>s. cs_status_code s = Some 2) spans)),
          cc_span_kind_counts = map (\<lambda>(n, c). \<lparr>nc_name = n, nc_count = c\<rparr>) span_kinds,
          cc_status_code_counts = map (\<lambda>(n, c). \<lparr>sc_code = n, sc_count = c\<rparr>) statuses,
          cc_model_identifiers = sort (remdups (attribute_values MODEL_ATTRIBUTE_KEYS spans)),
          cc_provider_identifiers = sort (remdups (attribute_values PROVIDER_ATTRIBUTE_KEYS spans)),
          cc_earliest_start_time_unix_nano = map_option dec_int earliest,
          cc_latest_end_time_unix_nano = map_option dec_int latest,
          cc_observed_duration_nano = map_option dec_int observed_duration\<rparr>)"

definition grouped_clusters :: "trace_manifest \<Rightarrow> candidate_trace_cluster list" where
  \<comment> \<open>the spans of each trace in the order of the manifest, by sorted trace hash\<close>
  "grouped_clusters manifest =
     map (\<lambda>h. cluster_spans h (filter (\<lambda>s. cs_trace_id_sha256 s = h) (tm_spans manifest)) manifest)
       (sort (remdups (map cs_trace_id_sha256 (tm_spans manifest))))"

definition manifest_document :: "library \<Rightarrow> json \<Rightarrow> string \<Rightarrow> fixture_error + json" where
  "manifest_document lib document raw_bytes =
     (let err = Fixture_generation_error in
     case lib_decode_utf8 lib raw_bytes of
       None \<Rightarrow> Inl (err ''trace manifest bytes are not valid UTF-8'')
     | Some decoded \<Rightarrow>
         (case parse_json_text lib decoded ''<trace-manifest>'' MAX_MANIFEST_DOCUMENT_BYTES of
            Inl message \<Rightarrow> Inl (err message)
          | Inr parsed_source \<Rightarrow>
              if \<not> py_equal parsed_source document
              then Inl (err ''parsed manifest does not match the supplied source bytes'') else Inr parsed_source))"

definition generate_investigation_fixture ::
  "library \<Rightarrow> json \<Rightarrow> string \<Rightarrow> json \<Rightarrow> int \<Rightarrow> fixture_error + investigation_fixture" where
  "generate_investigation_fixture lib document raw_bytes fixture_id max_clusters =
     (let err = Fixture_generation_error in
     attempt (manifest_document lib document raw_bytes) (\<lambda>parsed_source.
     attempt (case fixture_id of
         JStr fid \<Rightarrow> if safe_id_ok fid then Inr fid
           else Inl (err ''fixture_id must be 3-128 safe identifier characters'')
       | _ \<Rightarrow> Inl (err ''fixture_id must be 3-128 safe identifier characters'')) (\<lambda>fid.
     attempt (ensure (1 \<le> max_clusters \<and> max_clusters \<le> int MAX_CONFIGURABLE_CLUSTERS)
                (err (''max_clusters must be an integer from 1 to '' @ dec_nat MAX_CONFIGURABLE_CLUSTERS))) (\<lambda>_.
     attempt (map_sum Fixture_manifest_error id (parse_trace_manifest parsed_source)) (\<lambda>manifest.
     let clusters = grouped_clusters manifest in
     attempt (ensure (int (length clusters) \<le> max_clusters)
                (err (''candidate trace count exceeds configured limit '' @ dec_int max_clusters))) (\<lambda>_.
     Inr \<lparr>if_schema_version = INVESTIGATION_FIXTURE_SCHEMA_VERSION, if_generator_version = PACKAGE_VERSION,
          if_fixture_id = fid, if_draft_only = True, if_gate_eligible = False,
          if_causal_claims_inferred = False, if_clustering_basis = ''trace_identity'',
          if_source = \<lparr>fs_manifest_sha256 = lib_sha256 lib raw_bytes,
            fs_trace_artifact_id = ts_artifact_id (tm_source manifest),
            fs_trace_source_sha256 = ts_sha256 (tm_source manifest),
            fs_trace_count = ts_trace_count (tm_source manifest), fs_span_count = ts_span_count (tm_source manifest)\<rparr>,
          if_missing_evidence = MISSING_EVIDENCE, if_candidate_clusters = clusters\<rparr>))))))"

subsection \<open>Rendering\<close>

definition named_count_to_json :: "named_count \<Rightarrow> json" where
  "named_count_to_json c = JObj [(''name'', JStr (nc_name c)), (''count'', JInt (nc_count c))]"

definition status_count_to_json :: "status_count \<Rightarrow> json" where
  "status_count_to_json c = JObj [(''code'', JInt (sc_code c)), (''count'', JInt (sc_count c))]"

definition fixture_source_to_json :: "fixture_source \<Rightarrow> json" where
  "fixture_source_to_json s = JObj
     [(''manifest_sha256'', JStr (fs_manifest_sha256 s)), (''trace_artifact_id'', JStr (fs_trace_artifact_id s)),
      (''trace_source_sha256'', JStr (fs_trace_source_sha256 s)), (''trace_count'', JInt (fs_trace_count s)),
      (''span_count'', JInt (fs_span_count s))]"

definition cluster_dict :: "candidate_trace_cluster \<Rightarrow> dict" where
  "cluster_dict c =
     [(''cluster_id'', JStr (cc_cluster_id c)), (''trace_ref'', JStr (cc_trace_ref c)),
      (''trace_id_sha256'', JStr (cc_trace_id_sha256 c)),
      (''span_evidence_refs'', JArr (map JStr (cc_span_evidence_refs c))), (''span_count'', JInt (cc_span_count c)),
      (''root_span_count'', JInt (cc_root_span_count c)), (''error_span_count'', JInt (cc_error_span_count c)),
      (''span_kind_counts'', JArr (map named_count_to_json (cc_span_kind_counts c))),
      (''status_code_counts'', JArr (map status_count_to_json (cc_status_code_counts c))),
      (''model_identifiers'', JArr (map JStr (cc_model_identifiers c))),
      (''provider_identifiers'', JArr (map JStr (cc_provider_identifiers c)))] @
     omit_none ''earliest_start_time_unix_nano'' (map_option JStr (cc_earliest_start_time_unix_nano c)) @
     omit_none ''latest_end_time_unix_nano'' (map_option JStr (cc_latest_end_time_unix_nano c)) @
     omit_none ''observed_duration_nano'' (map_option JStr (cc_observed_duration_nano c))"

definition fixture_to_json :: "investigation_fixture \<Rightarrow> json" where
  "fixture_to_json f = JObj
     [(''schema_version'', JStr (if_schema_version f)), (''generator_version'', JStr (if_generator_version f)),
      (''fixture_id'', JStr (if_fixture_id f)), (''draft_only'', JBool (if_draft_only f)),
      (''gate_eligible'', JBool (if_gate_eligible f)),
      (''causal_claims_inferred'', JBool (if_causal_claims_inferred f)),
      (''clustering_basis'', JStr (if_clustering_basis f)), (''source'', fixture_source_to_json (if_source f)),
      (''missing_evidence'', JArr (map JStr (if_missing_evidence f))),
      (''candidate_clusters'', JArr (map (\<lambda>c. JObj (cluster_dict c)) (if_candidate_clusters f)))]"

definition render_investigation_fixture :: "(json \<Rightarrow> string) \<Rightarrow> investigation_fixture \<Rightarrow> fixture_error + string" where
  "render_investigation_fixture dumps f =
     attempt (parse_investigation_fixture (fixture_to_json f)) (\<lambda>validated.
     Inr (dumps (fixture_to_json validated) @ [CHR 0x0A]))"

subsection \<open>Well-formed fixtures\<close>

definition named_counts_ok :: "int \<Rightarrow> named_count list \<Rightarrow> bool" where
  "named_counts_ok n xs \<longleftrightarrow> length xs \<le> length openinference_span_kind_members
     \<and> list_all (\<lambda>c. span_kind_text (nc_name c) \<and> 1 \<le> nc_count c \<and> nc_count c \<le> n) xs
     \<and> unique_sorted (map nc_name xs) \<and> sum_list (map nc_count xs) \<le> n"

definition status_counts_ok :: "int \<Rightarrow> status_count list \<Rightarrow> bool" where
  "status_counts_ok n xs \<longleftrightarrow> length xs \<le> 3
     \<and> list_all (\<lambda>c. 0 \<le> sc_code c \<and> sc_code c \<le> 2 \<and> 1 \<le> sc_count c \<and> sc_count c \<le> n) xs
     \<and> unique_sorted (map sc_code xs) \<and> sum_list (map sc_count xs) \<le> n"

definition identifiers_ok :: "string list \<Rightarrow> bool" where
  "identifiers_ok xs \<longleftrightarrow> length xs \<le> MAX_CLUSTER_IDENTIFIERS \<and> list_all safe_trace_text xs \<and> unique_sorted xs"

definition decimal_option_ok :: "string option \<Rightarrow> bool" where
  "decimal_option_ok d \<longleftrightarrow> (case d of None \<Rightarrow> True | Some s \<Rightarrow> decimal_ok s)"

definition window_ok :: "string option \<Rightarrow> string option \<Rightarrow> string option \<Rightarrow> bool" where
  "window_ok earliest latest duration \<longleftrightarrow> decimal_option_ok earliest \<and> decimal_option_ok latest
     \<and> decimal_option_ok duration \<and> duration = observed_window earliest latest"

definition cluster_ok :: "fixture_source \<Rightarrow> candidate_trace_cluster \<Rightarrow> bool" where
  "cluster_ok source c \<longleftrightarrow> sha256_ok (cc_trace_id_sha256 c) \<and> cc_cluster_id c = trace_cluster_id (cc_trace_id_sha256 c)
     \<and> cc_trace_ref c = trace_ref (fs_trace_source_sha256 source) (cc_trace_id_sha256 c)
     \<and> sha_ref_ok ''/traces/'' (cc_trace_ref c)
     \<and> 1 \<le> cc_span_count c \<and> int (length (cc_span_evidence_refs c)) = cc_span_count c
     \<and> list_all (sha_ref_ok ''/spans/'') (cc_span_evidence_refs c) \<and> unique_sorted (cc_span_evidence_refs c)
     \<and> list_all (prefix (span_ref (fs_trace_source_sha256 source) [])) (cc_span_evidence_refs c)
     \<and> 0 \<le> cc_root_span_count c \<and> cc_root_span_count c \<le> cc_span_count c
     \<and> 0 \<le> cc_error_span_count c \<and> cc_error_span_count c \<le> cc_span_count c
     \<and> named_counts_ok (cc_span_count c) (cc_span_kind_counts c)
     \<and> status_counts_ok (cc_span_count c) (cc_status_code_counts c)
     \<and> status_errors (cc_status_code_counts c) = cc_error_span_count c
     \<and> identifiers_ok (cc_model_identifiers c) \<and> identifiers_ok (cc_provider_identifiers c)
     \<and> window_ok (cc_earliest_start_time_unix_nano c) (cc_latest_end_time_unix_nano c) (cc_observed_duration_nano c)"

definition fixture_source_ok :: "fixture_source \<Rightarrow> bool" where
  "fixture_source_ok s \<longleftrightarrow> sha256_ok (fs_manifest_sha256 s) \<and> safe_id_ok (fs_trace_artifact_id s)
     \<and> sha256_ok (fs_trace_source_sha256 s) \<and> 1 \<le> fs_trace_count s \<and> 1 \<le> fs_span_count s"

definition clusters_agree :: "fixture_source \<Rightarrow> candidate_trace_cluster list \<Rightarrow> bool" where
  "clusters_agree source clusters \<longleftrightarrow> unique_sorted (map cc_cluster_id clusters)
     \<and> int (length clusters) = fs_trace_count source \<and> sum_list (map cc_span_count clusters) = fs_span_count source"

definition fixture_ok :: "investigation_fixture \<Rightarrow> bool" where
  "fixture_ok f \<longleftrightarrow> if_schema_version f = INVESTIGATION_FIXTURE_SCHEMA_VERSION
     \<and> trace_version_ok (if_generator_version f) \<and> safe_id_ok (if_fixture_id f)
     \<and> if_draft_only f \<and> \<not> if_gate_eligible f \<and> \<not> if_causal_claims_inferred f
     \<and> if_clustering_basis f = ''trace_identity'' \<and> fixture_source_ok (if_source f)
     \<and> if_missing_evidence f = MISSING_EVIDENCE
     \<and> if_candidate_clusters f \<noteq> [] \<and> length (if_candidate_clusters f) \<le> MAX_CONFIGURABLE_CLUSTERS
     \<and> list_all (cluster_ok (if_source f)) (if_candidate_clusters f)
     \<and> clusters_agree (if_source f) (if_candidate_clusters f)"

lemma parse_fixture_source_render [strict_iff]:
  "parse_fixture_source (fixture_source_to_json s) = Inr t \<longleftrightarrow> t = s \<and> fixture_source_ok s"
  by (cases s) (auto simp: parse_fixture_source_def fixture_source_to_json_def strict_iff exact_keys_def
      fixture_source_ok_def Let_def)

lemma parse_fixture_source_ok: "parse_fixture_source v = Inr s \<Longrightarrow> fixture_source_ok s"
  by (auto simp: parse_fixture_source_def strict_iff fixture_source_ok_def Let_def)

interpretation named_count_codec: exact_codec "parse_named_count path n" named_count_to_json
  "\<lambda>c. span_kind_text (nc_name c) \<and> 1 \<le> nc_count c \<and> nc_count c \<le> n" for path n
proof unfold_locales
  fix c d :: named_count and i v
  show "span_kind_text (nc_name c) \<and> 1 \<le> nc_count c \<and> nc_count c \<le> n \<Longrightarrow>
      parse_named_count path n i (named_count_to_json c) = Inr c"
    by (cases c) (auto simp: parse_named_count_def named_count_to_json_def strict_iff exact_keys_def Let_def span_kind_text_iff)
  show "parse_named_count path n i v = Inr c \<Longrightarrow> span_kind_text (nc_name c) \<and> 1 \<le> nc_count c \<and> nc_count c \<le> n"
    by (auto simp: parse_named_count_def strict_iff Let_def span_kind_text_iff)
  show "parse_named_count path n i (named_count_to_json c) = Inr d \<Longrightarrow> d = c"
    by (cases c) (auto simp: parse_named_count_def named_count_to_json_def strict_iff Let_def)
qed

interpretation status_count_codec: exact_codec "parse_status_count path n" status_count_to_json
  "\<lambda>c. 0 \<le> sc_code c \<and> sc_code c \<le> 2 \<and> 1 \<le> sc_count c \<and> sc_count c \<le> n" for path n
proof unfold_locales
  fix c d :: status_count and i v
  show "0 \<le> sc_code c \<and> sc_code c \<le> 2 \<and> 1 \<le> sc_count c \<and> sc_count c \<le> n \<Longrightarrow>
      parse_status_count path n i (status_count_to_json c) = Inr c"
    by (cases c) (auto simp: parse_status_count_def status_count_to_json_def strict_iff exact_keys_def Let_def)
  show "parse_status_count path n i v = Inr c \<Longrightarrow> 0 \<le> sc_code c \<and> sc_code c \<le> 2 \<and> 1 \<le> sc_count c \<and> sc_count c \<le> n"
    by (auto simp: parse_status_count_def strict_iff Let_def)
  show "parse_status_count path n i (status_count_to_json c) = Inr d \<Longrightarrow> d = c"
    by (cases c) (auto simp: parse_status_count_def status_count_to_json_def strict_iff Let_def)
qed

interpretation fixture_text_codec: exact_codec
  "\<lambda>i. trace_string err (Some f) (at_index path i)" JStr "\<lambda>s. s \<noteq> [] \<and> f s" for err f path
  by unfold_locales (auto simp: strict_iff)

interpretation evidence_codec: exact_codec
  "\<lambda>i. trace_string Fixture_invalid None (at_index path i)" JStr "\<lambda>s. s \<noteq> []" for path
  by unfold_locales (auto simp: strict_iff)

lemma parse_named_counts_render [strict_iff]:
  "parse_named_counts (JArr (map named_count_to_json xs)) path n = Inr ys \<longleftrightarrow> ys = xs \<and> named_counts_ok n xs"
  by (auto simp: parse_named_counts_def strict_iff named_count_codec.each_exact named_counts_ok_def Let_def)

lemma parse_named_counts_ok: "parse_named_counts v path n = Inr xs \<Longrightarrow> named_counts_ok n xs"
  by (auto simp: parse_named_counts_def strict_iff named_counts_ok_def Let_def
      dest: named_count_codec.each_ok each_length)

lemma parse_status_counts_render [strict_iff]:
  "parse_status_counts (JArr (map status_count_to_json xs)) path n = Inr ys \<longleftrightarrow> ys = xs \<and> status_counts_ok n xs"
  by (auto simp: parse_status_counts_def strict_iff status_count_codec.each_exact status_counts_ok_def Let_def)

lemma parse_status_counts_ok: "parse_status_counts v path n = Inr xs \<Longrightarrow> status_counts_ok n xs"
  by (auto simp: parse_status_counts_def strict_iff status_counts_ok_def Let_def
      dest: status_count_codec.each_ok each_length)

lemma safe_text_nonempty: "list_all (\<lambda>s. s \<noteq> [] \<and> safe_trace_text s) xs \<longleftrightarrow> list_all safe_trace_text xs"
  by (auto simp: list_all_iff)

lemma parse_identifiers_render [strict_iff]:
  "parse_identifier_array (JArr (map JStr xs)) path = Inr ys \<longleftrightarrow> ys = xs \<and> identifiers_ok xs"
  by (auto simp: parse_identifier_array_def strict_iff fixture_text_codec.each_exact identifiers_ok_def Let_def
      safe_text_nonempty)

lemma parse_identifiers_ok: "parse_identifier_array v path = Inr xs \<Longrightarrow> identifiers_ok xs"
  by (auto simp: parse_identifier_array_def strict_iff identifiers_ok_def Let_def safe_text_nonempty
      dest: each_length fixture_text_codec.each_ok)

lemma cluster_dict_get:
  "jget (cluster_dict c) ''cluster_id'' = JStr (cc_cluster_id c)"
  "jget (cluster_dict c) ''trace_ref'' = JStr (cc_trace_ref c)"
  "jget (cluster_dict c) ''trace_id_sha256'' = JStr (cc_trace_id_sha256 c)"
  "jget (cluster_dict c) ''span_evidence_refs'' = JArr (map JStr (cc_span_evidence_refs c))"
  "jget (cluster_dict c) ''span_count'' = JInt (cc_span_count c)"
  "jget (cluster_dict c) ''root_span_count'' = JInt (cc_root_span_count c)"
  "jget (cluster_dict c) ''error_span_count'' = JInt (cc_error_span_count c)"
  "jget (cluster_dict c) ''span_kind_counts'' = JArr (map named_count_to_json (cc_span_kind_counts c))"
  "jget (cluster_dict c) ''status_code_counts'' = JArr (map status_count_to_json (cc_status_code_counts c))"
  "jget (cluster_dict c) ''model_identifiers'' = JArr (map JStr (cc_model_identifiers c))"
  "jget (cluster_dict c) ''provider_identifiers'' = JArr (map JStr (cc_provider_identifiers c))"
  by (simp_all add: cluster_dict_def)

lemma cluster_window_field:
  "fixture_decimal path (cluster_dict c) ''earliest_start_time_unix_nano'' = Inr x \<longleftrightarrow>
     x = cc_earliest_start_time_unix_nano c \<and> decimal_option_ok (cc_earliest_start_time_unix_nano c)"
  "fixture_decimal path (cluster_dict c) ''latest_end_time_unix_nano'' = Inr x \<longleftrightarrow>
     x = cc_latest_end_time_unix_nano c \<and> decimal_option_ok (cc_latest_end_time_unix_nano c)"
  "fixture_decimal path (cluster_dict c) ''observed_duration_nano'' = Inr x \<longleftrightarrow>
     x = cc_observed_duration_nano c \<and> decimal_option_ok (cc_observed_duration_nano c)"
  by (auto simp: fixture_decimal_def cluster_dict_def omit_none_def optional_field_def has_key_def
      decimal_option_ok_def attempt_Inr trace_decimal_Inr split: option.split)

lemma fixture_decimal_ok: "fixture_decimal path obj k = Inr x \<Longrightarrow> decimal_option_ok x"
  by (auto simp: fixture_decimal_def optional_field_Inr decimal_option_ok_def trace_decimal_Inr split: option.splits)

lemma cluster_dict_keys: "keys_between cluster_keys window_keys (cluster_dict c)"
  by (auto simp: keys_between_def cluster_keys_def window_keys_def cluster_dict_def omit_none_def split: option.split)

lemma parse_cluster_identity_Inr:
  "parse_cluster_identity path source (cluster_dict c) = Inr (t, i, r) \<longleftrightarrow>
     t = cc_trace_id_sha256 c \<and> i = cc_cluster_id c \<and> r = cc_trace_ref c \<and> sha256_ok t
     \<and> i = trace_cluster_id t \<and> r = trace_ref (fs_trace_source_sha256 source) t \<and> sha_ref_ok ''/traces/'' r"
proof -
  have i: "cluster_id_ok (trace_cluster_id t)" if "sha256_ok t" for t
    using that by (auto simp: cluster_id_ok_def trace_cluster_id_def)
  have n: "[] \<noteq> trace_cluster_id t" "[] \<noteq> trace_ref s t" for s t by (simp_all add: trace_ref_def trace_cluster_id_def)
  show ?thesis
    using i n n [symmetric] by (auto simp: parse_cluster_identity_def strict_iff cluster_dict_get Let_def)
qed

lemma parse_cluster_identity_ok:
  "parse_cluster_identity path source obj = Inr (t, i, r) \<Longrightarrow> sha256_ok t \<and> i = trace_cluster_id t
     \<and> r = trace_ref (fs_trace_source_sha256 source) t \<and> sha_ref_ok ''/traces/'' r"
  by (auto simp: parse_cluster_identity_def strict_iff Let_def)

lemma sha_ref_nonempty: "list_all (\<lambda>s. s \<noteq> [] \<and> sha_ref_ok m s) xs \<longleftrightarrow> list_all (sha_ref_ok m) xs"
  by (auto simp: list_all_iff sha_ref_ok_def)

lemma parse_cluster_refs_Inr:
  "parse_cluster_refs path source (cluster_dict c) = Inr (n, refs) \<longleftrightarrow>
     n = cc_span_count c \<and> refs = cc_span_evidence_refs c \<and> 1 \<le> n \<and> int (length refs) = n
     \<and> list_all (sha_ref_ok ''/spans/'') refs \<and> unique_sorted refs
     \<and> list_all (prefix (span_ref (fs_trace_source_sha256 source) [])) refs"
  by (auto simp: parse_cluster_refs_def strict_iff cluster_dict_get Let_def fixture_text_codec.each_exact sha_ref_nonempty)

lemma parse_cluster_refs_ok:
  "parse_cluster_refs path source obj = Inr (n, refs) \<Longrightarrow> 1 \<le> n \<and> int (length refs) = n
     \<and> list_all (sha_ref_ok ''/spans/'') refs \<and> unique_sorted refs
     \<and> list_all (prefix (span_ref (fs_trace_source_sha256 source) [])) refs"
  by (auto simp: parse_cluster_refs_def strict_iff Let_def sha_ref_nonempty [symmetric] dest: fixture_text_codec.each_ok)

lemma parse_cluster_counts_Inr:
  "parse_cluster_counts path n (cluster_dict c) = Inr (r, e, ks, ss) \<longleftrightarrow>
     r = cc_root_span_count c \<and> e = cc_error_span_count c \<and> ks = cc_span_kind_counts c \<and> ss = cc_status_code_counts c
     \<and> 0 \<le> r \<and> r \<le> n \<and> 0 \<le> e \<and> e \<le> n \<and> named_counts_ok n ks \<and> status_counts_ok n ss \<and> status_errors ss = e"
  by (auto simp: parse_cluster_counts_def strict_iff cluster_dict_get Let_def)

lemma parse_cluster_counts_ok:
  "parse_cluster_counts path n obj = Inr (r, e, ks, ss) \<Longrightarrow>
     0 \<le> r \<and> r \<le> n \<and> 0 \<le> e \<and> e \<le> n \<and> named_counts_ok n ks \<and> status_counts_ok n ss \<and> status_errors ss = e"
  by (auto simp: parse_cluster_counts_def strict_iff Let_def dest: parse_named_counts_ok parse_status_counts_ok)

lemma parse_cluster_window_Inr:
  "parse_cluster_window path (cluster_dict c) = Inr (a, b, d) \<longleftrightarrow>
     a = cc_earliest_start_time_unix_nano c \<and> b = cc_latest_end_time_unix_nano c \<and> d = cc_observed_duration_nano c
     \<and> window_ok a b d"
  by (auto simp: parse_cluster_window_def strict_iff cluster_window_field window_ok_def)

lemma parse_cluster_window_ok: "parse_cluster_window path obj = Inr (a, b, d) \<Longrightarrow> window_ok a b d"
  by (auto simp: parse_cluster_window_def strict_iff window_ok_def dest: fixture_decimal_ok)

lemma parse_fixture_cluster_render:
  "parse_fixture_cluster source i (JObj (cluster_dict c)) = Inr d \<longleftrightarrow> d = c \<and> cluster_ok source c"
proof -
  have eq: "c = \<lparr>cc_cluster_id = cc_cluster_id c, cc_trace_ref = cc_trace_ref c, cc_trace_id_sha256 = cc_trace_id_sha256 c,
      cc_span_evidence_refs = cc_span_evidence_refs c, cc_span_count = cc_span_count c,
      cc_root_span_count = cc_root_span_count c, cc_error_span_count = cc_error_span_count c,
      cc_span_kind_counts = cc_span_kind_counts c, cc_status_code_counts = cc_status_code_counts c,
      cc_model_identifiers = cc_model_identifiers c, cc_provider_identifiers = cc_provider_identifiers c,
      cc_earliest_start_time_unix_nano = cc_earliest_start_time_unix_nano c,
      cc_latest_end_time_unix_nano = cc_latest_end_time_unix_nano c,
      cc_observed_duration_nano = cc_observed_duration_nano c\<rparr>" by simp
  show ?thesis
    by (simp add: parse_fixture_cluster_def Let_def attempt_Inr wire_object_optional_Inr cluster_dict_keys
        parse_cluster_identity_Inr parse_cluster_refs_Inr parse_cluster_counts_Inr parse_cluster_window_Inr
        cluster_dict_get parse_identifiers_render cluster_ok_def) (subst eq, blast)
qed

lemma parse_fixture_cluster_ok: "parse_fixture_cluster source i v = Inr c \<Longrightarrow> cluster_ok source c"
  by (clarsimp simp only: parse_fixture_cluster_def Let_def attempt_Inr split_paired_Ex prod.case sum.inject)
    (auto simp: cluster_ok_def dest: parse_cluster_identity_ok parse_cluster_refs_ok parse_cluster_counts_ok
      parse_cluster_window_ok parse_identifiers_ok)

interpretation cluster_codec: exact_codec "parse_fixture_cluster source" "\<lambda>c. JObj (cluster_dict c)" "cluster_ok source"
  for source
  by unfold_locales (auto simp: parse_fixture_cluster_render intro: parse_fixture_cluster_ok)

lemma MISSING_nonempty: "list_all (\<lambda>s. s \<noteq> []) MISSING_EVIDENCE"
  by (simp add: MISSING_EVIDENCE_def)

lemma parse_missing_evidence_render [strict_iff]:
  "parse_missing_evidence (JArr (map JStr xs)) = Inr ys \<longleftrightarrow> ys = xs \<and> xs = MISSING_EVIDENCE"
  using MISSING_nonempty by (auto simp: parse_missing_evidence_def strict_iff Let_def evidence_codec.each_exact)

lemma parse_missing_evidence_ok: "parse_missing_evidence v = Inr ys \<Longrightarrow> ys = MISSING_EVIDENCE"
  by (auto simp: parse_missing_evidence_def strict_iff Let_def)

lemma check_clusters_Inr [strict_iff]: "check_clusters source clusters = Inr u \<longleftrightarrow> clusters_agree source clusters"
  by (auto simp: check_clusters_def strict_iff Let_def clusters_agree_def)

lemma parse_investigation_fixture_render:
  "parse_investigation_fixture (fixture_to_json f) = Inr g \<longleftrightarrow> g = f \<and> fixture_ok f"
  by (cases f) (auto simp: parse_investigation_fixture_def fixture_to_json_def strict_iff exact_keys_def fixture_keys_def
      check_fixture_labels_def cluster_codec.each_exact fixture_ok_def Let_def Suc_le_eq)

lemma parse_investigation_fixture_ok: "parse_investigation_fixture v = Inr f \<Longrightarrow> fixture_ok f"
  by (auto simp: parse_investigation_fixture_def strict_iff check_fixture_labels_def fixture_ok_def Let_def
      dest: parse_missing_evidence_ok parse_fixture_source_ok cluster_codec.each_ok each_length)

text \<open>
  The strict fixture parser and the rendering are inverse on exactly the well-formed fixtures: clusters
  sorted and unique, identities derived from the trace source, counts within the span count and the error
  count that of status code 2, the observation window the one of its ends; every accepted fixture is a
  draft that is not eligible for the gate and lists all the missing evidence.
\<close>
theorem fixture_roundtrip:
  "(parse_investigation_fixture (fixture_to_json f) = Inr g \<longleftrightarrow> g = f \<and> fixture_ok f)
   \<and> (parse_investigation_fixture v = Inr f \<longrightarrow> fixture_ok f)"
  using parse_investigation_fixture_render parse_investigation_fixture_ok by blast

subsection \<open>What a generated fixture satisfies\<close>

lemma unique_sorted_iff: "unique_sorted xs \<longleftrightarrow> sorted xs \<and> distinct xs"
proof
  assume "unique_sorted xs"
  then have "sort (remdups xs) = xs" by (simp add: unique_sorted_def)
  then show "sorted xs \<and> distinct xs" by (metis distinct_remdups distinct_sort sorted_sort)
next
  assume "sorted xs \<and> distinct xs"
  then show "unique_sorted xs" by (simp add: unique_sorted_def distinct_remdups_id sorted_sort_id)
qed

lemma unique_sorted_set [simp]: "unique_sorted (sort (remdups xs))"
  by (simp add: unique_sorted_iff)

lemma sum_list_sorted_set: "sum_list (map f (sort (remdups xs))) = (\<Sum>x \<in> set xs. f x)"
  by (subst sum_list_distinct_conv_sum_set) simp_all

lemma length_sorted_set: "length (sort (remdups xs)) = card (set xs)"
  by (simp add: length_remdups_card_conv)

lemma counter_items_fst: "map fst (counter_items xs) = sort (remdups xs)"
  by (simp add: counter_items_def comp_def)

lemma counter_items_sum: "sum_list (map snd (counter_items xs)) = int (length xs)"
proof -
  have "sum_list (map snd (counter_items xs)) = (\<Sum>x \<in> set xs. int (count_list xs x))"
    unfolding counter_items_def map_map comp_def snd_conv by (rule sum_list_sorted_set)
  also have "\<dots> = int (\<Sum>x \<in> set xs. count_list xs x)" by simp
  also have "\<dots> = int (length xs)" by (simp add: sum_count_set)
  finally show ?thesis .
qed

lemma counter_items_bounds: "(x, n) \<in> set (counter_items xs) \<Longrightarrow> x \<in> set xs \<and> 1 \<le> n \<and> n \<le> int (length xs)"
  by (auto simp: counter_items_def count_le_length Suc_le_eq) (metis count_list_0_iff gr0I)

lemma length_present: "length (present f xs) \<le> length xs"
  by (induction xs) (auto simp: present_def List.map_filter_simps split: option.split)

lemma set_present: "y \<in> set (present f xs) \<longleftrightarrow> (\<exists>x \<in> set xs. f x = Some y)"
  by (induction xs) (auto simp: present_def List.map_filter_simps split: option.split)

lemma count_present: "count_list (present f xs) y = length (filter (\<lambda>x. f x = Some y) xs)"
  by (induction xs) (auto simp: present_def List.map_filter_simps split: option.split)

lemma least_in: "least xs = Some m \<Longrightarrow> m \<in> set xs"
proof -
  have "foldl min x ys \<in> insert x (set ys)" for x :: int and ys
    by (induction ys arbitrary: x) (auto simp: min_def)
  then show "least xs = Some m \<Longrightarrow> m \<in> set xs" by (auto simp: least_def split: list.splits)
qed

lemma greatest_in: "greatest xs = Some m \<Longrightarrow> m \<in> set xs"
proof -
  have "foldl max x ys \<in> insert x (set ys)" for x :: int and ys
    by (induction ys arbitrary: x) (auto simp: max_def)
  then show "greatest xs = Some m \<Longrightarrow> m \<in> set xs" by (auto simp: greatest_def split: list.splits)
qed

lemma cluster_window_ok:
  assumes "\<And>x. x \<in> set starts \<Longrightarrow> 0 \<le> x \<and> x \<le> UINT64_MAX" "\<And>x. x \<in> set ends \<Longrightarrow> 0 \<le> x \<and> x \<le> UINT64_MAX"
  shows "window_ok (map_option dec_int (least starts)) (map_option dec_int (greatest ends))
    (map_option dec_int (case (least starts, greatest ends) of
       (Some e, Some l) \<Rightarrow> if e \<le> l then Some (l - e) else None | _ \<Rightarrow> None))"
proof -
  have e: "0 \<le> e \<and> e \<le> UINT64_MAX" if "least starts = Some e" for e using least_in [OF that] assms(1) by blast
  have l: "0 \<le> l \<and> l \<le> UINT64_MAX" if "greatest ends = Some l" for l using greatest_in [OF that] assms(2) by blast
  have d: "decimal_ok (dec_int n)" if "0 \<le> n" "n \<le> UINT64_MAX" for n using that by (auto simp: decimal_ok_def)
  show ?thesis
  proof (cases "least starts"; cases "greatest ends")
    fix a b assume ab: "least starts = Some a" "greatest ends = Some b"
    show ?thesis
      using e [OF ab(1)] l [OF ab(2)]
      by (auto simp: ab window_ok_def decimal_option_ok_def observed_window_def decimal_value_dec intro!: d)
  qed (use e l in \<open>auto simp: window_ok_def decimal_option_ok_def observed_window_def intro!: d\<close>)
qed

lemma span_kind_attribute: "attribute_ok (''openinference.span.kind'', v) \<Longrightarrow> span_kind_text (attribute_text v)"
  by (auto simp: attribute_ok_def attribute_text_def SAFE_TRACE_TEXT_ATTRIBUTES_def split: json.splits)

lemma identifier_attribute:
  assumes "attribute_ok (k, v)" "k \<in> set MODEL_ATTRIBUTE_KEYS \<or> k \<in> set PROVIDER_ATTRIBUTE_KEYS"
  shows "safe_trace_text (attribute_text v)"
proof -
  have "k \<in> set SAFE_TRACE_TEXT_ATTRIBUTES" "k \<noteq> ''openinference.span.kind''"
    using assms(2) by (auto simp: MODEL_ATTRIBUTE_KEYS_def PROVIDER_ATTRIBUTE_KEYS_def SAFE_TRACE_TEXT_ATTRIBUTES_def)
  with assms(1) show ?thesis by (auto simp: attribute_ok_def attribute_text_def split: json.splits)
qed

lemma attribute_values_safe:
  assumes "\<And>s. s \<in> set spans \<Longrightarrow> list_all attribute_ok (cs_attributes s)"
    and "keys = MODEL_ATTRIBUTE_KEYS \<or> keys = PROVIDER_ATTRIBUTE_KEYS" and "t \<in> set (attribute_values keys spans)"
  shows "safe_trace_text t"
proof -
  from assms(3) obtain s k v where s: "s \<in> set spans" "(k, v) \<in> set (cs_attributes s)" "k \<in> set keys" "t = attribute_text v"
    by (auto simp: attribute_values_def)
  then have "attribute_ok (k, v)" using assms(1) [OF s(1)] by (auto simp: list_all_iff)
  from identifier_attribute [OF this] s(3,4) assms(2) show ?thesis by auto
qed

lemma distinct_bound: "distinct xs \<Longrightarrow> set xs \<subseteq> set ys \<Longrightarrow> length xs \<le> length ys"
  by (metis card_length card_mono distinct_card finite_set le_trans)

lemma named_counts_generated:
  assumes "\<And>x. x \<in> set xs \<Longrightarrow> span_kind_text x" "int (length xs) \<le> n"
  shows "named_counts_ok n (map (\<lambda>(x, c). \<lparr>nc_name = x, nc_count = c\<rparr>) (counter_items xs))"
proof -
  have "length (counter_items xs) = length (sort (remdups xs))" by (simp add: counter_items_def)
  also have "\<dots> \<le> length (map openinference_span_kind_value openinference_span_kind_members)"
    using assms(1) by (intro distinct_bound) (auto simp: span_kind_text_def)
  finally have l: "length (counter_items xs) \<le> length openinference_span_kind_members" by simp
  have "map nc_name (map (\<lambda>(x, c). \<lparr>nc_name = x, nc_count = c\<rparr>) (counter_items xs)) = sort (remdups xs)"
    by (simp add: counter_items_def comp_def)
  moreover have "map nc_count (map (\<lambda>(x, c). \<lparr>nc_name = x, nc_count = c\<rparr>) (counter_items xs)) = map snd (counter_items xs)"
    by (simp add: counter_items_def comp_def)
  ultimately show ?thesis
    using l assms counter_items_sum [of xs]
    by (auto simp: named_counts_ok_def list_all_iff simp del: map_map dest!: counter_items_bounds)
qed

lemma status_counts_generated:
  assumes "\<And>x. x \<in> set xs \<Longrightarrow> 0 \<le> x \<and> x \<le> 2" "int (length xs) \<le> n"
  shows "status_counts_ok n (map (\<lambda>(x, c). \<lparr>sc_code = x, sc_count = c\<rparr>) (counter_items xs))"
proof -
  have "length (counter_items xs) = length (sort (remdups xs))" by (simp add: counter_items_def)
  also have "\<dots> \<le> length [0 :: int, 1, 2]"
    using assms(1) by (intro distinct_bound) force+
  finally have l: "length (counter_items xs) \<le> 3" by simp
  have "map sc_code (map (\<lambda>(x, c). \<lparr>sc_code = x, sc_count = c\<rparr>) (counter_items xs)) = sort (remdups xs)"
    by (simp add: counter_items_def comp_def)
  moreover have "map sc_count (map (\<lambda>(x, c). \<lparr>sc_code = x, sc_count = c\<rparr>) (counter_items xs)) = map snd (counter_items xs)"
    by (simp add: counter_items_def comp_def)
  ultimately show ?thesis
    using l assms counter_items_sum [of xs]
    by (auto simp: status_counts_ok_def list_all_iff simp del: map_map dest!: counter_items_bounds)
qed

lemma find_map_pair:
  "distinct xs \<Longrightarrow> find (\<lambda>s. sc_code s = y) (map (\<lambda>(x, c). \<lparr>sc_code = x, sc_count = c\<rparr>) (map (\<lambda>x. (x, f x)) xs)) =
     (if y \<in> set xs then Some \<lparr>sc_code = y, sc_count = f y\<rparr> else None)"
  by (induction xs) auto

lemma status_errors_generated:
  "status_errors (map (\<lambda>(x, c). \<lparr>sc_code = x, sc_count = c\<rparr>) (counter_items xs)) = int (count_list xs 2)"
  unfolding status_errors_def counter_items_def
  by (subst find_map_pair) (auto simp: count_list_0_iff)

definition group_of :: "trace_manifest \<Rightarrow> string \<Rightarrow> collected_span list" where
  "group_of m h = filter (\<lambda>s. cs_trace_id_sha256 s = h) (tm_spans m)"

lemma sha_refs: "sha256_ok a \<Longrightarrow> sha256_ok b \<Longrightarrow> sha_ref_ok ''/spans/'' (span_ref a b)"
  "sha256_ok a \<Longrightarrow> sha256_ok b \<Longrightarrow> sha_ref_ok ''/traces/'' (trace_ref a b)"
  by (auto simp: sha_ref_ok_def span_ref_def trace_ref_def sha256_ok_def)

lemma span_times_range:
  assumes "span_ok src s"
  shows "cs_start_time_unix_nano s = Some t \<Longrightarrow> 0 \<le> decimal_value t \<and> decimal_value t \<le> UINT64_MAX"
    "cs_end_time_unix_nano s = Some t \<Longrightarrow> 0 \<le> decimal_value t \<and> decimal_value t \<le> UINT64_MAX"
  using assms by (auto simp: span_ok_def span_times_ok_def decimal_ok_value split: option.splits)

lemma grouped_cluster_ok:
  assumes m: "trace_manifest_ok m" and h: "h \<in> set (map cs_trace_id_sha256 (tm_spans m))"
    and src: "fs_trace_source_sha256 source = ts_sha256 (tm_source m)"
    and few: "length (cc_model_identifiers (cluster_spans h (group_of m h) m)) \<le> MAX_CLUSTER_IDENTIFIERS"
      "length (cc_provider_identifiers (cluster_spans h (group_of m h) m)) \<le> MAX_CLUSTER_IDENTIFIERS"
  shows "cluster_ok source (cluster_spans h (group_of m h) m)"
proof -
  let ?g = "group_of m h" and ?c = "cluster_spans h (group_of m h) m" and ?src = "ts_sha256 (tm_source m)"
  have ok: "span_ok ?src s" if "s \<in> set ?g" for s
    using m that by (auto simp: trace_manifest_ok_def list_all_iff group_of_def)
  have sha: "sha256_ok ?src" using m by (simp add: trace_manifest_ok_def trace_source_ok_def)
  have hsha: "sha256_ok h" using m h by (auto simp: trace_manifest_ok_def list_all_iff span_ok_def)
  have ne: "?g \<noteq> []" using h by (auto simp: group_of_def filter_empty_conv)
  have attrs: "list_all attribute_ok (cs_attributes s)" if "s \<in> set ?g" for s
    using ok [OF that] by (simp add: span_ok_def attributes_ok_def)
  have "distinct (map cs_evidence_ref (tm_spans m))" using m by (simp add: trace_manifest_ok_def spans_agree_def)
  then have refs_d: "distinct (map cs_evidence_ref ?g)" by (simp add: group_of_def distinct_map_filter)
  have refs: "list_all (\<lambda>r. sha_ref_ok ''/spans/'' r \<and> prefix (span_ref ?src []) r) (map cs_evidence_ref ?g)"
  proof (clarsimp simp: list_all_iff)
    fix s assume "s \<in> set ?g"
    from ok [OF this] have "cs_evidence_ref s = span_ref ?src (cs_span_id_sha256 s)" "sha256_ok (cs_span_id_sha256 s)"
      by (simp_all add: span_ok_def)
    with sha show "sha_ref_ok ''/spans/'' (cs_evidence_ref s) \<and> prefix (span_ref ?src []) (cs_evidence_ref s)"
      by (auto simp: sha_refs) (simp add: span_ref_def)
  qed
  have kinds: "named_counts_ok (int (length ?g)) (cc_span_kind_counts ?c)"
  proof -
    let ?xs = "map attribute_text (present (\<lambda>s. map_of (cs_attributes s) ''openinference.span.kind'') ?g)"
    have k: "span_kind_text x" if x: "x \<in> set ?xs" for x
    proof -
      from x obtain s v where s: "s \<in> set ?g" "map_of (cs_attributes s) ''openinference.span.kind'' = Some v"
        "x = attribute_text v" by (auto simp: set_present)
      then show ?thesis using attrs [OF s(1)] map_of_SomeD [OF s(2)] span_kind_attribute by (auto simp: list_all_iff)
    qed
    have "named_counts_ok (int (length ?g)) (map (\<lambda>(x, c). \<lparr>nc_name = x, nc_count = c\<rparr>) (counter_items ?xs))"
      by (rule named_counts_generated [OF k]) (simp_all add: length_present)
    then show ?thesis by (simp add: cluster_spans_def Let_def)
  qed
  have statuses: "status_counts_ok (int (length ?g)) (cc_status_code_counts ?c)"
    "status_errors (cc_status_code_counts ?c) = cc_error_span_count ?c"
  proof -
    have k: "0 \<le> x \<and> x \<le> 2" if "x \<in> set (present cs_status_code ?g)" for x
      using that ok by (fastforce simp: set_present span_ok_def)
    have "status_counts_ok (int (length ?g))
        (map (\<lambda>(x, c). \<lparr>sc_code = x, sc_count = c\<rparr>) (counter_items (present cs_status_code ?g)))"
      by (rule status_counts_generated [OF k]) (simp_all add: length_present)
    then show "status_counts_ok (int (length ?g)) (cc_status_code_counts ?c)"
      by (simp add: cluster_spans_def Let_def)
    show "status_errors (cc_status_code_counts ?c) = cc_error_span_count ?c"
      by (simp add: cluster_spans_def Let_def status_errors_generated count_present)
  qed
  have ids: "list_all safe_trace_text (cc_model_identifiers ?c)" "list_all safe_trace_text (cc_provider_identifiers ?c)"
    using attribute_values_safe [OF attrs] by (auto simp: cluster_spans_def Let_def list_all_iff)
  have window: "window_ok (cc_earliest_start_time_unix_nano ?c) (cc_latest_end_time_unix_nano ?c) (cc_observed_duration_nano ?c)"
    unfolding cluster_spans_def Let_def candidate_trace_cluster.simps
    by (intro cluster_window_ok) (auto simp: set_present dest: span_times_range(1) [OF ok] span_times_range(2) [OF ok])
  have n: "cc_span_count ?c = int (length ?g)" by (simp add: cluster_spans_def Let_def)
  show ?thesis
    unfolding cluster_ok_def identifiers_ok_def n
    using kinds statuses ids window few
    apply (simp only: simp_thms)
    apply (simp add: cluster_spans_def Let_def hsha src sha_refs sha)
    using ne refs refs_d
    apply (auto simp: list_all_iff unique_sorted_iff Suc_le_eq)
    done
qed

definition few_identifiers :: "candidate_trace_cluster \<Rightarrow> bool" where
  "few_identifiers c \<longleftrightarrow> length (cc_model_identifiers c) \<le> MAX_CLUSTER_IDENTIFIERS
     \<and> length (cc_provider_identifiers c) \<le> MAX_CLUSTER_IDENTIFIERS"

lemma trace_cluster_id_mono: "trace_cluster_id a \<le> trace_cluster_id b \<longleftrightarrow> a \<le> b"
  by (simp add: trace_cluster_id_def)

lemma grouped_clusters_agree:
  assumes m: "trace_manifest_ok m" and s: "fs_trace_count source = ts_trace_count (tm_source m)"
    "fs_span_count source = ts_span_count (tm_source m)"
  shows "clusters_agree source (grouped_clusters m)"
proof -
  let ?hs = "sort (remdups (map cs_trace_id_sha256 (tm_spans m)))"
  have agree: "spans_agree (tm_source m) (tm_redaction m) (tm_spans m)" using m by (simp add: trace_manifest_ok_def)
  have "map cc_cluster_id (grouped_clusters m) = map trace_cluster_id ?hs"
    by (simp add: grouped_clusters_def cluster_spans_def Let_def)
  moreover have "unique_sorted (map trace_cluster_id ?hs)"
    by (auto simp: unique_sorted_iff distinct_map sorted_map trace_cluster_id_mono inj_on_def trace_cluster_id_def
        simp del: sorted_sort intro: sorted_wrt_mono_rel [OF _ sorted_sort])
  ultimately have ids: "unique_sorted (map cc_cluster_id (grouped_clusters m))" by simp
  have "length (grouped_clusters m) = card (cs_trace_id_sha256 ` set (tm_spans m))"
    by (simp add: grouped_clusters_def length_remdups_card_conv)
  then have n: "int (length (grouped_clusters m)) = fs_trace_count source"
    using agree s by (simp add: spans_agree_def)
  have "map cc_span_count (grouped_clusters m) = map (\<lambda>h. int (count_list (map cs_trace_id_sha256 (tm_spans m)) h)) ?hs"
    by (simp add: grouped_clusters_def cluster_spans_def Let_def count_list_eq_length_filter filter_map comp_def)
      (simp add: eq_commute)
  then have "sum_list (map cc_span_count (grouped_clusters m)) = int (length (map cs_trace_id_sha256 (tm_spans m)))"
    using counter_items_sum [of "map cs_trace_id_sha256 (tm_spans m)"] by (simp add: counter_items_def comp_def)
  then have t: "sum_list (map cc_span_count (grouped_clusters m)) = fs_span_count source"
    using agree s by (simp add: spans_agree_def)
  from ids n t show ?thesis by (simp add: clusters_agree_def)
qed

lemma map_sum_Inr [simp]: "map_sum f id s = Inr x \<longleftrightarrow> s = Inr x"
  by (cases s) auto

lemma generate_Inr:
  assumes "generate_investigation_fixture lib document raw_bytes fixture_id max_clusters = Inr f"
  obtains m parsed fid where "parse_trace_manifest parsed = Inr m" "safe_id_ok fid"
    "length (grouped_clusters m) \<le> MAX_CONFIGURABLE_CLUSTERS"
    "f = \<lparr>if_schema_version = INVESTIGATION_FIXTURE_SCHEMA_VERSION, if_generator_version = PACKAGE_VERSION,
          if_fixture_id = fid, if_draft_only = True, if_gate_eligible = False,
          if_causal_claims_inferred = False, if_clustering_basis = ''trace_identity'',
          if_source = \<lparr>fs_manifest_sha256 = lib_sha256 lib raw_bytes,
            fs_trace_artifact_id = ts_artifact_id (tm_source m),
            fs_trace_source_sha256 = ts_sha256 (tm_source m),
            fs_trace_count = ts_trace_count (tm_source m), fs_span_count = ts_span_count (tm_source m)\<rparr>,
          if_missing_evidence = MISSING_EVIDENCE, if_candidate_clusters = grouped_clusters m\<rparr>"
  using assms
  by (cases fixture_id) (auto simp: generate_investigation_fixture_def attempt_Inr ensure_Inr Let_def map_sum_Inr
      split: if_splits)

lemma generated_fixture_ok:
  assumes run: "generate_investigation_fixture lib document raw_bytes fixture_id max_clusters = Inr f"
    and sha: "sha256_ok (lib_sha256 lib raw_bytes)"
  shows "fixture_ok f \<longleftrightarrow> list_all few_identifiers (if_candidate_clusters f)"
proof -
  from generate_Inr [OF run] obtain m parsed fid where p: "parse_trace_manifest parsed = Inr m" and fid: "safe_id_ok fid"
    and few: "length (grouped_clusters m) \<le> MAX_CONFIGURABLE_CLUSTERS"
    and f: "f = \<lparr>if_schema_version = INVESTIGATION_FIXTURE_SCHEMA_VERSION, if_generator_version = PACKAGE_VERSION,
          if_fixture_id = fid, if_draft_only = True, if_gate_eligible = False,
          if_causal_claims_inferred = False, if_clustering_basis = ''trace_identity'',
          if_source = \<lparr>fs_manifest_sha256 = lib_sha256 lib raw_bytes,
            fs_trace_artifact_id = ts_artifact_id (tm_source m),
            fs_trace_source_sha256 = ts_sha256 (tm_source m),
            fs_trace_count = ts_trace_count (tm_source m), fs_span_count = ts_span_count (tm_source m)\<rparr>,
          if_missing_evidence = MISSING_EVIDENCE, if_candidate_clusters = grouped_clusters m\<rparr>" .
  have m: "trace_manifest_ok m" using p by (rule parse_trace_manifest_ok)
  have ok: "cluster_ok (if_source f) c" if "c \<in> set (grouped_clusters m)" "few_identifiers c" for c
    using that grouped_cluster_ok [OF m, of _ "if_source f"]
    by (auto simp: grouped_clusters_def few_identifiers_def f group_of_def)
  have "few_identifiers c" if "cluster_ok (if_source f) c" for c
    using that by (simp add: cluster_ok_def identifiers_ok_def few_identifiers_def)
  with ok have "list_all (cluster_ok (if_source f)) (grouped_clusters m) \<longleftrightarrow> list_all few_identifiers (grouped_clusters m)"
    by (auto simp: list_all_iff)
  moreover have "fixture_source_ok (if_source f)"
    using m sha by (simp add: f fixture_source_ok_def trace_manifest_ok_def trace_source_ok_def)
  moreover have "clusters_agree (if_source f) (grouped_clusters m)"
    by (rule grouped_clusters_agree [OF m]) (simp_all add: f)
  moreover have "grouped_clusters m \<noteq> []" using m by (simp add: grouped_clusters_def trace_manifest_ok_def)
  ultimately show ?thesis
    using few fid PACKAGE_VERSION_ok by (simp add: fixture_ok_def) (simp add: f)
qed

text \<open>
  C27. A fixture generated from any manifest is one the strict fixture parser reads back unchanged: the
  grouping accounts for every span once, counts, references and windows satisfy every check, and the
  only limit generation does not enforce itself is the number of model or provider identifiers of a trace.
\<close>
theorem generated_fixture_parses:
  assumes "generate_investigation_fixture lib document raw_bytes fixture_id max_clusters = Inr f"
    and "sha256_ok (lib_sha256 lib raw_bytes)"
  shows "parse_investigation_fixture (fixture_to_json f) = Inr f \<longleftrightarrow> list_all few_identifiers (if_candidate_clusters f)"
  using generated_fixture_ok [OF assms] parse_investigation_fixture_render by blast

definition sample_manifest_span :: collected_span where
  "sample_manifest_span =
     \<lparr>cs_evidence_ref = span_ref (replicate 64 (CHR ''a'')) (replicate 64 (CHR ''b'')),
      cs_trace_id_sha256 = replicate 64 (CHR ''c''), cs_span_id_sha256 = replicate 64 (CHR ''b''),
      cs_parent_span_id_sha256 = None, cs_start_time_unix_nano = None, cs_end_time_unix_nano = None,
      cs_duration_nano = None, cs_kind = None, cs_status_code = Some 2, cs_attributes = []\<rparr>"

definition sample_manifest :: trace_manifest where
  "sample_manifest = \<lparr>tm_schema_version = TRACE_MANIFEST_SCHEMA_VERSION, tm_collector_version = PACKAGE_VERSION,
     tm_source = \<lparr>ts_artifact_id = ''src'', ts_format = TraceSourceFormat_OTLP_JSON, ts_media_type = ''application/json'',
       ts_sha256 = replicate 64 (CHR ''a''), ts_byte_count = 2, ts_trace_count = 1, ts_span_count = 1,
       ts_source_embedded = False\<rparr>,
     tm_redaction = \<lparr>rs_strategy = RedactionStrategy_METADATA_ALLOWLIST_V1, rs_raw_content_included = False,
       rs_retained_attribute_count = 0, rs_redacted_attribute_count = 0, rs_dropped_attribute_count = 0,
       rs_omitted_field_groups = OMITTED_TRACE_FIELD_GROUPS\<rparr>,
     tm_spans = [sample_manifest_span]\<rparr>"

lemma sample_id_ok: "safe_id_ok ''src''"
  by (simp add: safe_id_ok_def head_tail_match_def is_alnum_def is_digit_def is_lower_def is_upper_def)

lemma sample_manifest_ok: "trace_manifest_ok sample_manifest"
proof -
  have sha: "sha256_ok (replicate 64 c)" if "c \<in> set ''abcdef''" for c
    using that by (simp add: sha256_ok_def list_all_iff)
  show ?thesis
    using PACKAGE_VERSION_ok sample_id_ok sha [of "CHR ''a''"] sha [of "CHR ''b''"] sha [of "CHR ''c''"]
    by (simp add: trace_manifest_ok_def sample_manifest_def sample_manifest_span_def trace_source_ok_def redaction_ok_def
        span_ok_def not_own_parent_def span_times_ok_def attributes_ok_def spans_agree_def)
qed

lemma sample_manifest_equal: "py_equal (trace_manifest_to_json sample_manifest) (trace_manifest_to_json sample_manifest)"
  by (simp add: trace_manifest_to_json_def trace_source_to_json_def redaction_to_json_def sample_manifest_def
      sample_manifest_span_def span_dict_def omit_none_def OMITTED_TRACE_FIELD_GROUPS_def)

lemma sample_fixture:
  "\<exists>f. generate_investigation_fixture (sample_trace_library (trace_manifest_to_json sample_manifest))
       (trace_manifest_to_json sample_manifest) ''{}'' (JStr ''src'') 10 = Inr f
     \<and> if_candidate_clusters f = grouped_clusters sample_manifest"
proof -
  let ?d = "trace_manifest_to_json sample_manifest"
  have p: "parse_json_text (sample_trace_library ?d) ''{}'' s MAX_MANIFEST_DOCUMENT_BYTES = Inr ?d" for s
    by (simp add: parse_json_text_def sample_library_simps utf8_bytes_def MAX_MANIFEST_DOCUMENT_BYTES_def)
  have d: "manifest_document (sample_trace_library ?d) ?d ''{}'' = Inr ?d"
    by (simp add: manifest_document_def sample_library_simps p sample_manifest_equal)
  have m: "parse_trace_manifest ?d = Inr sample_manifest"
    using sample_manifest_ok by (simp add: parse_trace_manifest_render)
  have l: "length (grouped_clusters sample_manifest) = 1" by (simp add: grouped_clusters_def sample_manifest_def)
  show ?thesis
    by (simp add: generate_investigation_fixture_def d sample_id_ok m l Let_def MAX_CONFIGURABLE_CLUSTERS_def)
qed

lemma generated_fixture_parses_witness:
  "\<exists>f. generate_investigation_fixture (sample_trace_library (trace_manifest_to_json sample_manifest))
       (trace_manifest_to_json sample_manifest) ''{}'' (JStr ''src'') 10 = Inr f
     \<and> parse_investigation_fixture (fixture_to_json f) = Inr f"
proof -
  obtain f where f: "generate_investigation_fixture (sample_trace_library (trace_manifest_to_json sample_manifest))
       (trace_manifest_to_json sample_manifest) ''{}'' (JStr ''src'') 10 = Inr f"
    and c: "if_candidate_clusters f = grouped_clusters sample_manifest" using sample_fixture by blast
  have "list_all few_identifiers (if_candidate_clusters f)"
    by (simp add: c grouped_clusters_def sample_manifest_def sample_manifest_span_def few_identifiers_def cluster_spans_def
        attribute_values_def Let_def)
  with generated_fixture_parses [OF f] f show ?thesis by (auto simp: sample_trace_library_def hex_pad_ok)
qed

end
