(* ===== verification/Utc_Text.thy ===== *)
theory Utc_Text
  imports Fail_Fast
begin

text \<open>
  \<open>utc_timestamp\<close> of \<open>attestations.py\<close>: the text of an instant. An instant is the number of microseconds
  since the day before 0001-01-01, as in \<open>utc_microseconds\<close>. The text reads back as the instant it was made
  from, to the second.
\<close>

definition first_instant :: int where "first_instant = 86400 * 1000000"
definition past_instant :: int where "past_instant = 3652060 * 86400 * 1000000"

fun month_of :: "int \<Rightarrow> nat \<Rightarrow> nat \<Rightarrow> int \<Rightarrow> int \<times> int" where
  \<comment> \<open>the month and day of the day that follows \<open>n\<close> days, counted from month \<open>m\<close> with \<open>fuel\<close> months to go\<close>
  "month_of y 0 m n = (int m, n + 1)"
| "month_of y (Suc fuel) m n =
     (if n < days_in_month y (int m) then (int m, n + 1)
      else month_of y fuel (Suc m) (n - days_in_month y (int m)))"

definition year_of :: "int \<Rightarrow> int" where
  \<comment> \<open>the year of a day number: whole cycles of 400, 100, 4 and 1 years; the last day of a cycle is in it\<close>
  "year_of ord =
     (let n = ord - 1; n400 = n div 146097; r400 = n mod 146097;
          n100 = min 3 (r400 div 36524); r100 = r400 - n100 * 36524;
          n4 = r100 div 1461; r4 = r100 mod 1461; n1 = min 3 (r4 div 365)
      in 400 * n400 + 100 * n100 + 4 * n4 + n1 + 1)"

definition ord_to_ymd :: "int \<Rightarrow> int \<times> int \<times> int" where
  "ord_to_ymd ord = (let y = year_of ord in (y, month_of y 11 1 (ord - 1 - days_before_year y)))"

definition digits :: "nat \<Rightarrow> int \<Rightarrow> string" where
  \<comment> \<open>zero-padded decimal digits\<close>
  "digits n v = map (\<lambda>i. char_of (48 + nat (v div 10 ^ (n - 1 - i) mod 10))) [0..<n]"

definition iso_seconds :: "int \<Rightarrow> string" where
  \<comment> \<open>\<open>isoformat(timespec='seconds')\<close> of a UTC instant in seconds, with \<open>Z\<close> for the offset\<close>
  "iso_seconds s = (case ord_to_ymd (s div 86400) of (y, m, d) \<Rightarrow>
     let t = s mod 86400 in
     digits 4 y @ ''-'' @ digits 2 m @ ''-'' @ digits 2 d @ ''T'' @ digits 2 (t div 3600) @ '':''
       @ digits 2 (t mod 3600 div 60) @ '':'' @ digits 2 (t mod 60) @ ''Z'')"

definition utc_timestamp :: "int \<Rightarrow> string option" where
  \<comment> \<open>\<open>None\<close> is the OverflowError of an instant outside years 1 to 9999\<close>
  "utc_timestamp v = (if first_instant \<le> v \<and> v < past_instant then Some (iso_seconds (v div 1000000)) else None)"

lemma year_of_bounds: "days_before_year (year_of ord) < ord \<and> ord \<le> days_before_year (year_of ord + 1)"
proof -
  define n where "n = ord - 1"
  define n400 r400 n100 r100 n4 r4 n1 where
    "n400 = n div 146097" "r400 = n mod 146097"
    "n100 = min 3 (r400 div 36524)" "r100 = r400 - n100 * 36524"
    "n4 = r100 div 1461" "r4 = r100 mod 1461" "n1 = min 3 (r4 div 365)"
  note d = this
  have y: "year_of ord = 400 * n400 + 100 * n100 + 4 * n4 + n1 + 1"
    by (simp add: year_of_def Let_def d n_def)
  have n: "n = 146097 * n400 + r400" "0 \<le> r400" "r400 < 146097" by (simp_all add: d)
  have h: "0 \<le> n100" "n100 \<le> 3" "0 \<le> r100" "n100 < 3 \<longrightarrow> r100 < 36524" "r100 \<le> 36524" "r400 = 36524 * n100 + r100"
    using n(2,3) unfolding d(3,4) by linarith+
  have q: "r100 = 1461 * n4 + r4" "0 \<le> r4" "r4 < 1461" by (simp_all add: d)
  have q4: "0 \<le> n4" "n4 \<le> 24" using h q by linarith+
  have o: "0 \<le> n1" "n1 \<le> 3" "365 * n1 \<le> r4" "n1 < 3 \<longrightarrow> r4 < 365 * n1 + 365" "r4 \<le> 365 * n1 + 365"
    using q(2,3) unfolding d(7) by linarith+
  let ?x = "400 * n400 + 100 * n100 + 4 * n4 + n1"
  have div: "?x div 4 = 100 * n400 + 25 * n100 + n4" "?x div 100 = 4 * n400 + n100" "?x div 400 = n400"
    using o q4 h by linarith+
  have lo: "days_before_year (year_of ord) = 146097 * n400 + 36524 * n100 + 1461 * n4 + 365 * n1"
    by (simp add: days_before_year_def y div)
  have next_year: "year_of ord + 1 - 1 = ?x + 1" using y by linarith
  have step: "days_before_year (year_of ord + 1) = (?x + 1) * 365 + (?x + 1) div 4 - (?x + 1) div 100 + (?x + 1) div 400"
    by (simp only: days_before_year_def next_year)
  have n': "ord = n + 1" by (simp add: n_def)
  consider "n1 < 3" | "n1 = 3" "n4 < 24" | "n1 = 3" "n4 = 24" "n100 < 3" | "n1 = 3" "n4 = 24" "n100 = 3"
    using o q4 h by linarith
  then have "ord \<le> days_before_year (year_of ord + 1)"
  proof cases
    case 1
    then have next_div: "(?x + 1) div 4 = 100 * n400 + 25 * n100 + n4" "(?x + 1) div 100 = 4 * n400 + n100" "(?x + 1) div 400 = n400"
      using o q4 h by linarith+
    have "r4 < 365 * n1 + 365" using 1 o by simp
    then show ?thesis using 1 o(1-3) q h(1-3,6) n(1) n' unfolding step next_div distrib_right by linarith
  next
    case 2
    then have next_div: "(?x + 1) div 4 = 100 * n400 + 25 * n100 + n4 + 1" "(?x + 1) div 100 = 4 * n400 + n100" "(?x + 1) div 400 = n400"
      using o q4 h by linarith+
    show ?thesis using 2 o(1-3,5) q h(1-3,6) n(1) n' unfolding step next_div distrib_right by linarith
  next
    case 3
    then have next_div: "(?x + 1) div 4 = 100 * n400 + 25 * n100 + 25" "(?x + 1) div 100 = 4 * n400 + n100 + 1" "(?x + 1) div 400 = n400"
      using o q4 h by linarith+
    have "r100 < 36524" using 3 h by simp
    then show ?thesis using 3 o(1-3,5) q h(1-3,6) n(1) n' unfolding step next_div distrib_right by linarith
  next
    case 4
    then have next_div: "(?x + 1) div 4 = 100 * n400 + 100" "(?x + 1) div 100 = 4 * n400 + 4" "(?x + 1) div 400 = n400 + 1"
      using o q4 h by linarith+
    show ?thesis using 4 o(1-3,5) q h(1-3,5,6) n n' unfolding step next_div distrib_right by linarith
  qed
  moreover have "days_before_year (year_of ord) < ord" using lo n(1) h(3,6) q o(3) n' by linarith
  ultimately show ?thesis by simp
qed


lemma days_in_month_bounds: "28 \<le> days_in_month y m \<and> days_in_month y m \<le> 31"
  by (simp add: days_in_month_def)

lemma month_of_spec:
  assumes "month_of y fuel m n = (m', d)" "0 \<le> n" "n < sum_list (map (\<lambda>k. days_in_month y (int k)) [m..<m + Suc fuel])"
  shows "int m \<le> m' \<and> m' \<le> int (m + fuel) \<and> 1 \<le> d \<and> d \<le> days_in_month y m'
    \<and> n + 1 = sum_list (map (\<lambda>k. days_in_month y (int k)) [m..<nat m']) + d"
  using assms
proof (induction fuel arbitrary: m n)
  case (Suc fuel)
  show ?case
  proof (cases "n < days_in_month y (int m)")
    case False
    have "[m..<m + Suc (Suc fuel)] = m # [Suc m..<Suc m + Suc fuel]" by (simp add: upt_conv_Cons)
    then have le: "n - days_in_month y (int m) < sum_list (map (\<lambda>k. days_in_month y (int k)) [Suc m..<Suc m + Suc fuel])"
      using Suc.prems(3) by simp
    have "month_of y fuel (Suc m) (n - days_in_month y (int m)) = (m', d)" using Suc.prems(1) False by simp
    note ih = Suc.IH [OF this _ le]
    then have "m < nat m'" using False by auto
    then show ?thesis using ih False by (simp add: upt_conv_Cons [of m "nat m'"])
  qed (use Suc.prems in auto)
qed auto

lemma div_previous:
  assumes "0 < (k :: int)" shows "y div k = (y - 1) div k + (if y mod k = 0 then 1 else 0)"
proof (cases "y mod k = 0")
  case True
  have "k * (y div k - 1) = k * (y div k) - k" by (simp add: right_diff_distrib)
  then have "y - 1 = k * (y div k - 1) + (k - 1)" using True mult_div_mod_eq [of k y] by linarith
  then have "(y - 1) div k = y div k - 1" by (rule int_div_pos_eq) (use assms in simp_all)
  then show ?thesis using True by simp
next
  case False
  have "0 < y mod k" using pos_mod_sign [OF assms, of y] False by linarith
  moreover have "y - 1 = k * (y div k) + (y mod k - 1)" using mult_div_mod_eq [of k y] by simp
  ultimately have "(y - 1) div k = y div k"
    using int_div_pos_eq [of "y - 1" k "y div k" "y mod k - 1"] assms pos_mod_bound [of k y] by linarith
  then show ?thesis using False by simp
qed

lemma year_length: "days_before_year (y + 1) - days_before_year y = sum_list (map (\<lambda>k. days_in_month y (int k)) [1..<13])"
proof -
  have "sum_list (map (\<lambda>k. days_in_month y (int k)) [1..<13]) = (if is_leap y then 366 else 365)"
  proof -
    have "[1..<13] = [1, 2, 3, 4, 5, 6, 7, 8, 9, 10, 11, 12 :: nat]" by code_simp
    then show ?thesis by (simp add: days_in_month_def)
  qed
  moreover have "days_before_year (y + 1) - days_before_year y
      = 365 + (if y mod 4 = 0 then 1 else 0) - (if y mod 100 = 0 then 1 else 0) + (if y mod 400 = 0 then 1 else 0)"
  proof -
    have d: "y div 4 = (y - 1) div 4 + (if y mod 4 = 0 then 1 else 0)"
      "y div 100 = (y - 1) div 100 + (if y mod 100 = 0 then 1 else 0)"
      "y div 400 = (y - 1) div 400 + (if y mod 400 = 0 then 1 else 0)"
      by (rule div_previous, simp)+
    have cancel: "(y * 365 + (a + i) - (b + j) + (c + k)) - ((y - 1) * 365 + a - b + c) = 365 + i - j + k" for a b c i j k :: int
      by (simp add: algebra_simps)
    show ?thesis by (simp only: days_before_year_def add_diff_cancel_right' d cancel)
  qed
  moreover have "y mod 100 = 0 \<Longrightarrow> y mod 4 = 0" "y mod 400 = 0 \<Longrightarrow> y mod 100 = 0" by presburger+
  ultimately show ?thesis by (cases "y mod 4 = 0"; cases "y mod 100 = 0"; cases "y mod 400 = 0") (simp_all add: is_leap_def)
qed

lemma days_before_year_mono: "y \<le> z \<Longrightarrow> days_before_year y \<le> days_before_year z"
proof (induction rule: int_ge_induct)
  case (step z)
  have "0 \<le> sum_list (map (\<lambda>k. days_in_month z (int k)) [1..<13])"
    by (intro sum_list_nonneg) (auto simp: days_in_month_def)
  then show ?case using step year_length [of z] by simp
qed simp

lemma ord_to_ymd_spec:
  assumes "ord_to_ymd ord = (y, m, d)" "1 \<le> ord" "ord < 3652060"
  shows "valid_ymd y m d \<and> ymd_to_ord y m d = ord"
proof -
  have y: "y = year_of ord" and md: "month_of y 11 1 (ord - 1 - days_before_year y) = (m, d)"
    using assms(1) by (auto simp: ord_to_ymd_def Let_def)
  have b: "days_before_year y < ord" "ord \<le> days_before_year (y + 1)" using year_of_bounds [of ord] y by auto
  then have "ord - 1 - days_before_year y < sum_list (map (\<lambda>k. days_in_month y (int k)) [1..<1 + Suc 11])"
    using year_length [of y] by simp
  from month_of_spec [OF md _ this] b
  have s: "1 \<le> m" "m \<le> 12" "1 \<le> d" "d \<le> days_in_month y m" "ord = days_before_year y + days_before_month y m + d"
    by (auto simp: days_before_month_def)
  have "1 \<le> y"
  proof (rule ccontr)
    assume "\<not> 1 \<le> y"
    then have "days_before_year (y + 1) \<le> days_before_year 1" by (intro days_before_year_mono) simp
    then show False using b assms(2) by (simp add: days_before_year_def)
  qed
  moreover have "y \<le> 9999"
  proof (rule ccontr)
    assume "\<not> y \<le> 9999"
    then have "days_before_year 10000 \<le> days_before_year y" by (intro days_before_year_mono) simp
    then show False using b assms(3) by (simp add: days_before_year_def)
  qed
  ultimately show ?thesis using s by (simp add: valid_ymd_def ymd_to_ord_def)
qed

subsection \<open>Reading a text back\<close>

lemma digits_simps:
  "digits 2 v = [char_of (48 + nat (v div 10 mod 10)), char_of (48 + nat (v mod 10))]"
  "digits 4 v = [char_of (48 + nat (v div 1000 mod 10)), char_of (48 + nat (v div 100 mod 10)),
     char_of (48 + nat (v div 10 mod 10)), char_of (48 + nat (v mod 10))]"
  by (simp_all add: digits_def eval_nat_numeral)

lemma digit_of:
  assumes "0 \<le> v" "v < 10"
  shows "is_digit (char_of (48 + nat v))" "int (of_char (char_of (48 + nat v) :: char)) - 48 = v"
proof -
  have "48 + nat v < 256" using assms by simp
  then have "(of_char (char_of (48 + nat v) :: char) :: nat) = 48 + nat v" by simp
  then show "is_digit (char_of (48 + nat v))" "int (of_char (char_of (48 + nat v) :: char)) - 48 = v"
    using assms by (simp_all add: is_digit_def Let_def)
qed

lemma two_digits:
  assumes "0 \<le> v" "v < 100"
  obtains a b where "digits 2 v = [a, b]" "is_digit a" "is_digit b" "(int (of_char a) - 48) * 10 + (int (of_char b) - 48) = v"
proof
  have m: "0 \<le> v div 10 mod 10" "v div 10 mod 10 < 10" "0 \<le> v mod 10" "v mod 10 < 10" by simp_all
  show "digits 2 v = [char_of (48 + nat (v div 10 mod 10)), char_of (48 + nat (v mod 10))]" by (rule digits_simps)
  show "is_digit (char_of (48 + nat (v div 10 mod 10)))" "is_digit (char_of (48 + nat (v mod 10)))"
    using m by (simp_all only: digit_of)
  show "(int (of_char (char_of (48 + nat (v div 10 mod 10)) :: char)) - 48) * 10
      + (int (of_char (char_of (48 + nat (v mod 10)) :: char)) - 48) = v"
    unfolding digit_of [OF m(1,2)] digit_of [OF m(3,4)]
  proof -
    have "v div 10 mod 10 = v div 10" using assms by (intro mod_pos_pos_trivial) linarith+
    then show "v div 10 mod 10 * 10 + v mod 10 = v" using mult_div_mod_eq [of 10 v] by linarith
  qed
qed

lemma four_digits:
  assumes "0 \<le> v" "v < 10000"
  obtains a b c d where "digits 4 v = [a, b, c, d]" "is_digit a" "is_digit b" "is_digit c" "is_digit d"
    "(((int (of_char a) - 48) * 10 + (int (of_char b) - 48)) * 10 + (int (of_char c) - 48)) * 10 + (int (of_char d) - 48) = v"
proof
  have m: "0 \<le> v div 1000 mod 10" "v div 1000 mod 10 < 10" "0 \<le> v div 100 mod 10" "v div 100 mod 10 < 10"
    "0 \<le> v div 10 mod 10" "v div 10 mod 10 < 10" "0 \<le> v mod 10" "v mod 10 < 10" by simp_all
  show "digits 4 v = [char_of (48 + nat (v div 1000 mod 10)), char_of (48 + nat (v div 100 mod 10)),
     char_of (48 + nat (v div 10 mod 10)), char_of (48 + nat (v mod 10))]" by (rule digits_simps)
  show "is_digit (char_of (48 + nat (v div 1000 mod 10)))" "is_digit (char_of (48 + nat (v div 100 mod 10)))"
    "is_digit (char_of (48 + nat (v div 10 mod 10)))" "is_digit (char_of (48 + nat (v mod 10)))"
    using m by (simp_all only: digit_of)
  have "v div 100 = v div 10 div 10" "v div 1000 = v div 100 div 10"
    using zdiv_zmult2_eq [of 10 v 10] zdiv_zmult2_eq [of 10 v 100] by simp_all
  moreover have "v div 1000 mod 10 = v div 1000" using assms by (intro mod_pos_pos_trivial) linarith+
  ultimately have "v = 1000 * (v div 1000 mod 10) + 100 * (v div 100 mod 10) + 10 * (v div 10 mod 10) + v mod 10"
    using mult_div_mod_eq [of 10 v] mult_div_mod_eq [of 10 "v div 10"] mult_div_mod_eq [of 10 "v div 100"] by linarith
  moreover have arith: "v = 1000 * a + 100 * b + 10 * c + d \<Longrightarrow> ((a * 10 + b) * 10 + c) * 10 + d = v" for a b c d
    by simp
  ultimately show "(((int (of_char (char_of (48 + nat (v div 1000 mod 10)) :: char)) - 48) * 10
      + (int (of_char (char_of (48 + nat (v div 100 mod 10)) :: char)) - 48)) * 10
      + (int (of_char (char_of (48 + nat (v div 10 mod 10)) :: char)) - 48)) * 10
      + (int (of_char (char_of (48 + nat (v mod 10)) :: char)) - 48) = v"
    unfolding digit_of [OF m(1,2)] digit_of [OF m(3,4)] digit_of [OF m(5,6)] digit_of [OF m(7,8)]
    by (intro arith)
qed

lemma fromisoformat_digits:
  assumes "digits 4 y = [y1, y2, y3, y4]" "is_digit y1" "is_digit y2" "is_digit y3" "is_digit y4"
    "(((int (of_char y1) - 48) * 10 + (int (of_char y2) - 48)) * 10 + (int (of_char y3) - 48)) * 10 + (int (of_char y4) - 48) = y"
    and "digits 2 m = [m1, m2]" "is_digit m1" "is_digit m2" "(int (of_char m1) - 48) * 10 + (int (of_char m2) - 48) = m"
    and "digits 2 d = [d1, d2]" "is_digit d1" "is_digit d2" "(int (of_char d1) - 48) * 10 + (int (of_char d2) - 48) = d"
    and "digits 2 h = [h1, h2]" "is_digit h1" "is_digit h2" "(int (of_char h1) - 48) * 10 + (int (of_char h2) - 48) = h"
    and "digits 2 n = [n1, n2]" "is_digit n1" "is_digit n2" "(int (of_char n1) - 48) * 10 + (int (of_char n2) - 48) = n"
    and "digits 2 s = [s1, s2]" "is_digit s1" "is_digit s2" "(int (of_char s1) - 48) * 10 + (int (of_char s2) - 48) = s"
    and "valid_ymd y m d" "h < 24" "n < 60" "s < 60"
  shows "fromisoformat (zulu_to_offset (digits 4 y @ ''-'' @ digits 2 m @ ''-'' @ digits 2 d @ ''T'' @ digits 2 h @ '':''
      @ digits 2 n @ '':'' @ digits 2 s @ ''Z''))
    = Some \<lparr>dt_ordinal = ymd_to_ord y m d, dt_second = h * 3600 + n * 60 + s, dt_micro = 0, dt_offset = Some 0\<rparr>"
proof -
  note dg = assms(2-5,8,9,12,13,16,17,20,21,24,25)
  note ch = dg [THEN digit_char(1)] dg [THEN digit_char(2)] dg [THEN digit_char(3)] dg [THEN digit_char(4)]
    dg [THEN digit_char(5)] dg [THEN digit_char(6)] dg [THEN digit_char(7)] dg [THEN digit_char(8)] dg [THEN digit_char(9)]
  let ?time = "[h1, h2, CHR '':'', n1, n2, CHR '':'', s1, s2, CHR ''+'', CHR ''0'', CHR ''0'', CHR '':'', CHR ''0'', CHR ''0'']"
  have z: "utf8_bytes (zulu_to_offset (digits 4 y @ ''-'' @ digits 2 m @ ''-'' @ digits 2 d @ ''T'' @ digits 2 h @ '':''
      @ digits 2 n @ '':'' @ digits 2 s @ ''Z''))
    = [y1, y2, y3, y4, CHR ''-'', m1, m2, CHR ''-'', d1, d2, CHR ''T''] @ ?time"
    by (simp add: assms(1,7,11,15,19,23) zulu_to_offset_def utf8_bytes_def ch)
  have zero: "is_digit CHR ''0''" by (simp add: is_digit_def)
  have time: "parse_iso_time ?time = Some (h, n, s, 0, Some 0)"
    using assms(18,22,26)
    by (simp add: parse_iso_time_def is_tz_mark_def ch dg parse_clock_def eval_nat_numeral
        parse_digits_def byte_at_def Let_def zero zero [THEN digit_char(1)])
  have date: "parse_iso_date [y1, y2, y3, y4, CHR ''-'', m1, m2, CHR ''-'', d1, d2] = Some (ymd_to_ord y m d)"
    using assms(6,10,14,27)
    by (simp add: parse_iso_date_def ch dg eval_nat_numeral parse_digits_def byte_at_def Let_def)
  show ?thesis
    unfolding fromisoformat_def z using time date assms(28-30)
    by (simp add: find_separator_def byte_at_def Let_def ch dg eval_nat_numeral)
qed

lemma utc_timestamp_value:
  "utc_timestamp v = Some s \<Longrightarrow> timestamp_value s = v div 1000000 * 1000000"
proof -
  assume "utc_timestamp v = Some s"
  then have v: "first_instant \<le> v" "v < past_instant" and s: "s = iso_seconds (v div 1000000)"
    by (auto simp: utc_timestamp_def split: if_splits)
  let ?i = "v div 1000000" let ?o = "?i div 86400" let ?t = "?i mod 86400"
  have o: "1 \<le> ?o" "?o < 3652060"
    using v unfolding first_instant_def past_instant_def by linarith+
  obtain y m d where ymd: "ord_to_ymd ?o = (y, m, d)" by (cases "ord_to_ymd ?o") auto
  have valid: "valid_ymd y m d" "ymd_to_ord y m d = ?o" using ord_to_ymd_spec [OF ymd o] by auto
  have t: "0 \<le> ?t" "?t < 86400" by simp_all
  let ?h = "?t div 3600" let ?n = "?t mod 3600 div 60" let ?s = "?t mod 60"
  have clock: "0 \<le> ?h" "?h < 24" "0 \<le> ?n" "?n < 60" "0 \<le> ?s" "?s < 60" using t by linarith+
  have "?t mod 60 = ?t mod 3600 mod 60" by (simp add: mod_mod_cancel)
  then have sum: "?h * 3600 + ?n * 60 + ?s = ?t"
    using mult_div_mod_eq [of 3600 ?t] mult_div_mod_eq [of 60 "?t mod 3600"] by linarith
  have range: "0 \<le> y" "y < 10000" "0 \<le> m" "m < 100" "0 \<le> d" "d < 100"
    using valid(1) days_in_month_bounds [of y m] by (auto simp: valid_ymd_def)
  obtain y1 y2 y3 y4 where y: "digits 4 y = [y1, y2, y3, y4]" "is_digit y1" "is_digit y2" "is_digit y3" "is_digit y4"
    "(((int (of_char y1) - 48) * 10 + (int (of_char y2) - 48)) * 10 + (int (of_char y3) - 48)) * 10 + (int (of_char y4) - 48) = y"
    using four_digits [OF range(1,2)] .
  obtain m1 m2 where m: "digits 2 m = [m1, m2]" "is_digit m1" "is_digit m2" "(int (of_char m1) - 48) * 10 + (int (of_char m2) - 48) = m"
    using two_digits [OF range(3,4)] .
  obtain d1 d2 where d: "digits 2 d = [d1, d2]" "is_digit d1" "is_digit d2" "(int (of_char d1) - 48) * 10 + (int (of_char d2) - 48) = d"
    using two_digits [OF range(5,6)] .
  have hundred: "?h < 100" "?n < 100" "?s < 100" using clock by linarith+
  obtain h1 h2 where h: "digits 2 ?h = [h1, h2]" "is_digit h1" "is_digit h2" "(int (of_char h1) - 48) * 10 + (int (of_char h2) - 48) = ?h"
    using two_digits [OF clock(1) hundred(1)] .
  obtain n1 n2 where n: "digits 2 ?n = [n1, n2]" "is_digit n1" "is_digit n2" "(int (of_char n1) - 48) * 10 + (int (of_char n2) - 48) = ?n"
    using two_digits [OF clock(3) hundred(2)] .
  obtain s1 s2 where s': "digits 2 ?s = [s1, s2]" "is_digit s1" "is_digit s2" "(int (of_char s1) - 48) * 10 + (int (of_char s2) - 48) = ?s"
    using two_digits [OF clock(5) hundred(3)] .
  have "fromisoformat (zulu_to_offset s) = Some \<lparr>dt_ordinal = ?o, dt_second = ?t, dt_micro = 0, dt_offset = Some 0\<rparr>"
    using fromisoformat_digits [OF y m d h n s' valid(1) clock(2,4,6)] by (simp add: s iso_seconds_def ymd valid(2) sum Let_def)
  then show ?thesis
    by (simp add: timestamp_value_def utc_microseconds_def)
qed

text \<open>The text of an instant exists exactly for the years 1 to 9999 and reads back as that instant, to the second.\<close>

theorem utc_timestamp_reads_back:
  "map_option timestamp_value (utc_timestamp v)
     = (if first_instant \<le> v \<and> v < past_instant then Some (v div 1000000 * 1000000) else None)"
proof (cases "utc_timestamp v")
  case (Some s)
  then show ?thesis using utc_timestamp_value [OF Some] by (simp add: utc_timestamp_def split: if_splits)
qed (simp add: utc_timestamp_def split: if_splits)

end
