(* ===== verification/Team_Policy.thy ===== *)
theory Team_Policy
  imports Wire_Values Canonical_Json "HOL-Library.Product_Lexorder"
begin

text \<open>
  The first half of \<open>team_service.py\<close>: the value readers of Team documents, protected access
  policies, and authorization decisions that can be reproduced from the exact policy bytes. The bytes are
  decoded through \<open>library\<close>.
\<close>

subsection \<open>Errors and constants\<close>

datatype team_error =
    Team_invalid string string string
  | Team_authorization_failed string string
  | Team_audit_failed string string
  | Team_value_error string
  | Team_isoformat_error string
  | Team_type_error
  | Team_overflow
  \<comment> \<open>TeamValidationError, TeamAuthorizationError, TeamAuditVerificationError; ValueError, the ValueError of
    \<open>fromisoformat\<close> on a text (its message is not modelled), the TypeError of comparing a naive with an aware
    time, and OverflowError of the standard library\<close>

fun team_error_text :: "team_error \<Rightarrow> string" where
  \<comment> \<open>\<open>str(exc)\<close>\<close>
  "team_error_text (Team_invalid name path message) = ''Invalid '' @ name @ '' at '' @ path @ '': '' @ message"
| "team_error_text (Team_authorization_failed code message) =
     ''Team authorization failed ['' @ code @ '']: '' @ message"
| "team_error_text (Team_audit_failed code message) =
     ''Team audit verification failed ['' @ code @ '']: '' @ message"
| "team_error_text (Team_value_error message) = message"
| "team_error_text _ = []"

definition TEAM_ACCESS_POLICY_SCHEMA_VERSION :: string where "TEAM_ACCESS_POLICY_SCHEMA_VERSION = ''1.0''"
definition TEAM_AUTHORIZATION_SCHEMA_VERSION :: string where "TEAM_AUTHORIZATION_SCHEMA_VERSION = ''1.0''"
definition MAX_TEAM_ACCESS_POLICY_BYTES :: nat where "MAX_TEAM_ACCESS_POLICY_BYTES = 4 * 1024 * 1024"
definition MAX_TEAM_AUTHORIZATION_BYTES :: nat where "MAX_TEAM_AUTHORIZATION_BYTES = 512 * 1024"
definition MAX_TEAM_MEMBERSHIPS :: nat where "MAX_TEAM_MEMBERSHIPS = 10000"
definition MAX_TEAM_RETENTION_CLASSES :: nat where "MAX_TEAM_RETENTION_CLASSES = 32"
definition MAX_TEAM_RETENTION_DAYS :: int where "MAX_TEAM_RETENTION_DAYS = 3650"
definition ACCESS_POLICY_MEDIA_TYPE :: string where
  "ACCESS_POLICY_MEDIA_TYPE = ''application/vnd.causure.team-access-policy+json''"

subsection \<open>Documents\<close>

record team_principal =
  tp_identity_provider :: string
  tp_subject_id :: string

record team_membership =
  tmb_principal :: team_principal
  tmb_roles :: "team_role list"

record team_retention_class =
  trc_class_id :: string
  trc_minimum_days :: int

record team_access_policy =
  tap_schema_version :: string
  tap_tenant_id :: string
  tap_policy_id :: string
  tap_revision :: int
  tap_effective_at :: string
  tap_default_retention_class_id :: string
  tap_memberships :: "team_membership list"
  tap_retention_classes :: "team_retention_class list"

record team_resource =
  tr_resource_type :: team_resource_type
  tr_resource_id :: string

record team_policy_subject =
  tps_media_type :: string
  tps_policy_id :: string
  tps_revision :: int
  tps_sha256 :: string
  tps_byte_count :: int

record team_authorization_decision =
  tad_schema_version :: string
  tad_decision_id :: string
  tad_tenant_id :: string
  tad_principal :: team_principal
  tad_action :: team_action
  tad_resource :: team_resource
  tad_authorized :: bool
  tad_assigned_roles :: "team_role list"
  tad_granting_roles :: "team_role list"
  tad_reason :: team_authorization_reason
  tad_decided_at :: string
  tad_policy :: team_policy_subject

subsection \<open>Grants\<close>

fun ROLE_GRANTS :: "team_role \<Rightarrow> team_action list" where
  "ROLE_GRANTS TeamRole_INVESTIGATOR = [TeamAction_EVIDENCE_READ, TeamAction_INVESTIGATION_WRITE]"
| "ROLE_GRANTS TeamRole_POLICY_ADMINISTRATOR = [TeamAction_EVIDENCE_READ, TeamAction_POLICY_WRITE, TeamAction_AUDIT_EXPORT]"
| "ROLE_GRANTS TeamRole_APPROVER = [TeamAction_EVIDENCE_READ, TeamAction_APPROVAL_ISSUE]"

fun ACTION_RESOURCES :: "team_action \<Rightarrow> team_resource_type list" where
  "ACTION_RESOURCES TeamAction_EVIDENCE_READ = [TeamResourceType_EVIDENCE_CASE, TeamResourceType_INVESTIGATION]"
| "ACTION_RESOURCES TeamAction_INVESTIGATION_WRITE = [TeamResourceType_INVESTIGATION]"
| "ACTION_RESOURCES TeamAction_POLICY_WRITE = [TeamResourceType_GATE_POLICY]"
| "ACTION_RESOURCES TeamAction_APPROVAL_ISSUE = [TeamResourceType_APPROVAL]"
| "ACTION_RESOURCES TeamAction_AUDIT_EXPORT = [TeamResourceType_AUDIT_EXPORT]"

subsection \<open>Reading values\<close>

definition team_id_ok :: "string \<Rightarrow> bool" where
  "team_id_ok = head_tail_match is_alnum (\<lambda>c. is_alnum c \<or> c \<in> set ''._:+/@-'') 0 127"

definition team_string :: "string \<Rightarrow> nat \<Rightarrow> (string \<Rightarrow> bool) option \<Rightarrow> string \<Rightarrow> json \<Rightarrow> team_error + string" where
  "team_string name maximum matches path v =
     (let err = Team_invalid name path;
          bad = Inl (err (''expected a non-empty string no longer than '' @ dec_nat maximum @ '' characters''))
      in case v of JStr s \<Rightarrow>
        (if s = [] \<or> maximum < length s then bad
         else if \<not> no_control s then Inl (err ''control characters are not allowed'')
         else case matches of None \<Rightarrow> Inr s
           | Some f \<Rightarrow> if f s then Inr s else Inl (err ''value has an invalid format''))
      | _ \<Rightarrow> bad)"

definition team_boolean :: "string \<Rightarrow> string \<Rightarrow> json \<Rightarrow> team_error + bool" where
  "team_boolean name path v = (case v of JBool b \<Rightarrow> Inr b | _ \<Rightarrow> Inl (Team_invalid name path ''expected a boolean''))"

definition team_enum :: "string \<Rightarrow> ('a \<Rightarrow> string) \<Rightarrow> 'a list \<Rightarrow> string \<Rightarrow> json \<Rightarrow> team_error + 'a" where
  "team_enum name val members path v =
     (case v of JStr s \<Rightarrow>
        (case enum_lookup val members s of Some m \<Rightarrow> Inr m
         | None \<Rightarrow> Inl (Team_invalid name path (''expected one of: '' @ join '', '' (map val members))))
      | _ \<Rightarrow> Inl (Team_invalid name path ''expected a string enum value''))"

definition team_timestamp :: "string \<Rightarrow> string \<Rightarrow> json \<Rightarrow> team_error + string" where
  "team_timestamp name path v =
     (let err = Team_invalid name path in
     attempt (team_string name 20 None path v) (\<lambda>result.
     attempt (ensure (wire_timestamp_shape result)
                (err ''expected a UTC timestamp in YYYY-MM-DDTHH:MM:SSZ form'')) (\<lambda>_.
     case fromisoformat (zulu_to_offset result) of
       None \<Rightarrow> Inl (err ''expected a real UTC timestamp in YYYY-MM-DDTHH:MM:SSZ form'')
     | Some parsed \<Rightarrow>
         if dt_offset parsed \<noteq> Some 0 then Inl (err ''expected a UTC timestamp'') else Inr result)))"

definition team_bytes_document :: "library \<Rightarrow> nat \<Rightarrow> string \<Rightarrow> string \<Rightarrow> team_error + json" where
  "team_bytes_document lib maximum name raw_bytes =
     (if \<not> (1 \<le> length raw_bytes \<and> length raw_bytes \<le> maximum)
      then Inl (Team_invalid name ''$'' (''expected from 1 to '' @ dec_nat maximum @ '' bytes''))
      else case lib_decode_utf8 lib raw_bytes of
        None \<Rightarrow> Inl (Team_invalid name ''$'' ''expected UTF-8 JSON'')
      | Some text \<Rightarrow>
          (case parse_json_text lib text name maximum of
             Inl message \<Rightarrow> Inl (Team_invalid name ''$'' message)
           | Inr document \<Rightarrow> Inr document))"

abbreviation team_id :: "string \<Rightarrow> string \<Rightarrow> json \<Rightarrow> team_error + string" where
  "team_id name \<equiv> team_string name 128 (Some team_id_ok)"

abbreviation team_sha256 :: "string \<Rightarrow> string \<Rightarrow> json \<Rightarrow> team_error + string" where
  "team_sha256 name \<equiv> team_string name 64 (Some sha256_ok)"

subsection \<open>Parts\<close>

definition parse_principal :: "string \<Rightarrow> string \<Rightarrow> json \<Rightarrow> team_error + team_principal" where
  "parse_principal name path v =
     attempt (wire_object (Team_invalid name) path [''identity_provider'', ''subject_id''] [] v) (\<lambda>obj.
     attempt (team_id name (sub path ''identity_provider'') (jget obj ''identity_provider'')) (\<lambda>identity_provider.
     attempt (team_id name (sub path ''subject_id'') (jget obj ''subject_id'')) (\<lambda>subject_id.
     Inr \<lparr>tp_identity_provider = identity_provider, tp_subject_id = subject_id\<rparr>)))"

definition parse_role :: "string \<Rightarrow> string \<Rightarrow> nat \<Rightarrow> json \<Rightarrow> team_error + team_role" where
  "parse_role name path index item = team_enum name team_role_value team_role_members (at_index path index) item"

definition parse_roles :: "string \<Rightarrow> nat \<Rightarrow> string \<Rightarrow> json \<Rightarrow> team_error + team_role list" where
  "parse_roles name minimum path v =
     attempt (wire_array (Team_invalid name) minimum (length team_role_members) path v) (\<lambda>raw_roles.
     attempt (each (parse_role name path) 0 raw_roles) (\<lambda>roles.
     attempt (ensure (distinct roles) (Team_invalid name path ''roles must be unique'')) (\<lambda>_.
     Inr (sort_key team_role_value roles))))"

definition parse_policy_subject :: "string \<Rightarrow> string \<Rightarrow> json \<Rightarrow> team_error + team_policy_subject" where
  "parse_policy_subject name path v =
     (let err = Team_invalid name in
     attempt (wire_object err path [''media_type'', ''policy_id'', ''revision'', ''sha256'', ''byte_count''] [] v) (\<lambda>obj.
     attempt (team_string name 255 (Some media_type_ok) (sub path ''media_type'') (jget obj ''media_type'')) (\<lambda>media_type.
     attempt (ensure (media_type = ACCESS_POLICY_MEDIA_TYPE)
                (err (sub path ''media_type'') (''expected '' @ ACCESS_POLICY_MEDIA_TYPE))) (\<lambda>_.
     attempt (team_id name (sub path ''policy_id'') (jget obj ''policy_id'')) (\<lambda>policy_id.
     attempt (wire_integer err 1 None (sub path ''revision'') (jget obj ''revision'')) (\<lambda>revision.
     attempt (team_sha256 name (sub path ''sha256'') (jget obj ''sha256'')) (\<lambda>sha256.
     attempt (wire_integer err 1 (Some (int MAX_TEAM_ACCESS_POLICY_BYTES)) (sub path ''byte_count'')
                (jget obj ''byte_count'')) (\<lambda>byte_count.
     Inr \<lparr>tps_media_type = media_type, tps_policy_id = policy_id, tps_revision = revision, tps_sha256 = sha256,
          tps_byte_count = byte_count\<rparr>))))))))"

definition parse_resource :: "string \<Rightarrow> string \<Rightarrow> json \<Rightarrow> team_error + team_resource" where
  "parse_resource name path v =
     attempt (wire_object (Team_invalid name) path [''resource_type'', ''resource_id''] [] v) (\<lambda>obj.
     attempt (team_enum name team_resource_type_value team_resource_type_members (sub path ''resource_type'')
                (jget obj ''resource_type'')) (\<lambda>resource_type.
     attempt (team_id name (sub path ''resource_id'') (jget obj ''resource_id'')) (\<lambda>resource_id.
     Inr \<lparr>tr_resource_type = resource_type, tr_resource_id = resource_id\<rparr>)))"

definition validate_action_resource :: "string \<Rightarrow> string \<Rightarrow> team_action \<Rightarrow> team_resource \<Rightarrow> team_error + unit" where
  "validate_action_resource name path action resource =
     ensure (tr_resource_type resource \<in> set (ACTION_RESOURCES action))
       (Team_invalid name path (team_action_value action @ '' requires resource type: ''
          @ join '', '' (sort (map team_resource_type_value (ACTION_RESOURCES action)))))"

subsection \<open>Access policies\<close>

abbreviation access_policy_name :: string where "access_policy_name \<equiv> ''Team access policy''"

definition principal_key :: "team_principal \<Rightarrow> string \<times> string" where
  "principal_key p = (tp_identity_provider p, tp_subject_id p)"

definition parse_membership :: "(string \<times> string) list \<Rightarrow> nat \<Rightarrow> json \<Rightarrow> team_error + team_membership" where
  "parse_membership membership_keys index v =
     (let name = access_policy_name; path = at_index ''$.memberships'' index in
     attempt (wire_object (Team_invalid name) path [''principal'', ''roles''] [] v) (\<lambda>obj.
     attempt (parse_principal name (sub path ''principal'') (jget obj ''principal'')) (\<lambda>principal.
     attempt (ensure (principal_key principal \<notin> set membership_keys)
                (Team_invalid name path ''principal membership must be unique'')) (\<lambda>_.
     attempt (parse_roles name 1 (sub path ''roles'') (jget obj ''roles'')) (\<lambda>roles.
     Inr \<lparr>tmb_principal = principal, tmb_roles = roles\<rparr>)))))"

definition parse_retention_class :: "string list \<Rightarrow> nat \<Rightarrow> json \<Rightarrow> team_error + team_retention_class" where
  "parse_retention_class retention_ids index v =
     (let name = access_policy_name; path = at_index ''$.retention_classes'' index in
     attempt (wire_object (Team_invalid name) path [''class_id'', ''minimum_days''] [] v) (\<lambda>obj.
     attempt (team_id name (sub path ''class_id'') (jget obj ''class_id'')) (\<lambda>class_id.
     attempt (ensure (class_id \<notin> set retention_ids)
                (Team_invalid name path ''retention class id must be unique'')) (\<lambda>_.
     attempt (wire_integer (Team_invalid name) 1 (Some MAX_TEAM_RETENTION_DAYS) (sub path ''minimum_days'')
                (jget obj ''minimum_days'')) (\<lambda>minimum_days.
     Inr \<lparr>trc_class_id = class_id, trc_minimum_days = minimum_days\<rparr>)))))"

definition access_policy_keys :: "string list" where
  "access_policy_keys =
     [''schema_version'', ''tenant_id'', ''policy_id'', ''revision'', ''effective_at'', ''default_retention_class_id'',
      ''memberships'', ''retention_classes'']"

definition membership_order :: "team_membership \<Rightarrow> string \<times> string" where
  "membership_order m = principal_key (tmb_principal m)"

definition parse_team_access_policy :: "json \<Rightarrow> team_error + team_access_policy" where
  "parse_team_access_policy document =
     (let name = access_policy_name; err = Team_invalid name in
     attempt (wire_object err ''$'' access_policy_keys [] document) (\<lambda>rt.
     attempt (ensure (jget rt ''schema_version'' = JStr TEAM_ACCESS_POLICY_SCHEMA_VERSION)
                (err ''$.schema_version'' (''expected '' @ TEAM_ACCESS_POLICY_SCHEMA_VERSION))) (\<lambda>_.
     attempt (wire_array err 0 MAX_TEAM_MEMBERSHIPS ''$.memberships'' (jget rt ''memberships'')) (\<lambda>membership_values.
     attempt (each_new membership_order parse_membership [] 0 membership_values) (\<lambda>memberships.
     attempt (wire_array err 1 MAX_TEAM_RETENTION_CLASSES ''$.retention_classes'' (jget rt ''retention_classes''))
       (\<lambda>retention_values.
     attempt (each_new trc_class_id parse_retention_class [] 0 retention_values) (\<lambda>retention_classes.
     attempt (team_id name ''$.default_retention_class_id'' (jget rt ''default_retention_class_id''))
       (\<lambda>default_class.
     attempt (ensure (default_class \<in> set (map trc_class_id retention_classes))
                (err ''$.default_retention_class_id'' ''must reference a declared retention class'')) (\<lambda>_.
     attempt (team_id name ''$.tenant_id'' (jget rt ''tenant_id'')) (\<lambda>tenant_id.
     attempt (team_id name ''$.policy_id'' (jget rt ''policy_id'')) (\<lambda>policy_id.
     attempt (wire_integer err 1 None ''$.revision'' (jget rt ''revision'')) (\<lambda>revision.
     attempt (team_timestamp name ''$.effective_at'' (jget rt ''effective_at'')) (\<lambda>effective_at.
     Inr \<lparr>tap_schema_version = TEAM_ACCESS_POLICY_SCHEMA_VERSION, tap_tenant_id = tenant_id, tap_policy_id = policy_id,
          tap_revision = revision, tap_effective_at = effective_at, tap_default_retention_class_id = default_class,
          tap_memberships = sort_key membership_order memberships,
          tap_retention_classes = sort_key trc_class_id retention_classes\<rparr>)))))))))))))"

definition parse_team_access_policy_bytes :: "library \<Rightarrow> string \<Rightarrow> team_error + team_access_policy" where
  "parse_team_access_policy_bytes lib raw_bytes =
     attempt (team_bytes_document lib MAX_TEAM_ACCESS_POLICY_BYTES access_policy_name raw_bytes) parse_team_access_policy"

subsection \<open>Authorization decisions\<close>

abbreviation authorization_name :: string where "authorization_name \<equiv> ''Team authorization decision''"

definition authorization_keys :: "string list" where
  "authorization_keys =
     [''schema_version'', ''decision_id'', ''tenant_id'', ''principal'', ''action'', ''resource'', ''authorized'',
      ''assigned_roles'', ''granting_roles'', ''reason'', ''decided_at'', ''policy'']"

definition check_outcome ::
  "bool \<Rightarrow> team_role list \<Rightarrow> team_role list \<Rightarrow> team_authorization_reason \<Rightarrow> team_error + unit" where
  \<comment> \<open>an authorized decision has a granting role, a denied one has none\<close>
  "check_outcome authorized assigned granting reason =
     (let err = Team_invalid authorization_name ''$.authorized'' in
      if authorized then
        ensure (reason = TeamAuthorizationReason_ROLE_GRANT \<and> granting \<noteq> [])
          (err ''an authorized decision requires role_grant and at least one granting role'')
      else ensure (reason \<noteq> TeamAuthorizationReason_ROLE_GRANT \<and> granting = [])
          (err ''a denied decision cannot contain a granting role''))"

definition parse_outcome ::
  "dict \<Rightarrow> team_error + bool \<times> team_role list \<times> team_role list \<times> team_authorization_reason" where
  "parse_outcome rt =
     (let name = authorization_name in
     attempt (team_boolean name ''$.authorized'' (jget rt ''authorized'')) (\<lambda>authorized.
     attempt (parse_roles name 0 ''$.assigned_roles'' (jget rt ''assigned_roles'')) (\<lambda>assigned.
     attempt (parse_roles name 0 ''$.granting_roles'' (jget rt ''granting_roles'')) (\<lambda>granting.
     attempt (ensure (set granting \<subseteq> set assigned)
                (Team_invalid name ''$.granting_roles'' ''granting roles must be a subset of assigned roles'')) (\<lambda>_.
     attempt (team_enum name team_authorization_reason_value team_authorization_reason_members ''$.reason''
                (jget rt ''reason'')) (\<lambda>reason.
     attempt (check_outcome authorized assigned granting reason) (\<lambda>_.
     Inr (authorized, assigned, granting, reason))))))))"

definition parse_team_authorization :: "json \<Rightarrow> team_error + team_authorization_decision" where
  "parse_team_authorization document =
     (let name = authorization_name; err = Team_invalid name in
     attempt (wire_object err ''$'' authorization_keys [] document) (\<lambda>rt.
     attempt (ensure (jget rt ''schema_version'' = JStr TEAM_AUTHORIZATION_SCHEMA_VERSION)
                (err ''$.schema_version'' (''expected '' @ TEAM_AUTHORIZATION_SCHEMA_VERSION))) (\<lambda>_.
     attempt (team_enum name team_action_value team_action_members ''$.action'' (jget rt ''action'')) (\<lambda>action.
     attempt (parse_resource name ''$.resource'' (jget rt ''resource'')) (\<lambda>resource.
     attempt (validate_action_resource name ''$.resource.resource_type'' action resource) (\<lambda>_.
     attempt (parse_outcome rt) (\<lambda>(authorized, assigned, granting, reason).
     attempt (team_id name ''$.decision_id'' (jget rt ''decision_id'')) (\<lambda>decision_id.
     attempt (team_id name ''$.tenant_id'' (jget rt ''tenant_id'')) (\<lambda>tenant_id.
     attempt (parse_principal name ''$.principal'' (jget rt ''principal'')) (\<lambda>principal.
     attempt (team_timestamp name ''$.decided_at'' (jget rt ''decided_at'')) (\<lambda>decided_at.
     attempt (parse_policy_subject name ''$.policy'' (jget rt ''policy'')) (\<lambda>policy.
     Inr \<lparr>tad_schema_version = TEAM_AUTHORIZATION_SCHEMA_VERSION, tad_decision_id = decision_id,
          tad_tenant_id = tenant_id, tad_principal = principal, tad_action = action, tad_resource = resource,
          tad_authorized = authorized, tad_assigned_roles = assigned, tad_granting_roles = granting,
          tad_reason = reason, tad_decided_at = decided_at, tad_policy = policy\<rparr>))))))))))))"

definition parse_team_authorization_bytes :: "library \<Rightarrow> string \<Rightarrow> team_error + team_authorization_decision" where
  "parse_team_authorization_bytes lib raw_bytes =
     attempt (team_bytes_document lib MAX_TEAM_AUTHORIZATION_BYTES authorization_name raw_bytes) parse_team_authorization"

subsection \<open>Deciding\<close>

definition policy_subject :: "library \<Rightarrow> string \<Rightarrow> team_access_policy \<Rightarrow> team_policy_subject" where
  "policy_subject lib policy_bytes policy =
     \<lparr>tps_media_type = ACCESS_POLICY_MEDIA_TYPE, tps_policy_id = tap_policy_id policy,
      tps_revision = tap_revision policy, tps_sha256 = lib_sha256 lib policy_bytes,
      tps_byte_count = int (length policy_bytes)\<rparr>"

definition membership_roles :: "team_access_policy \<Rightarrow> team_principal \<Rightarrow> team_role list" where
  "membership_roles policy pr =
     (case find (\<lambda>m. tmb_principal m = pr) (tap_memberships policy) of
        Some m \<Rightarrow> tmb_roles m | None \<Rightarrow> [])"

definition authorization_result ::
  "team_access_policy \<Rightarrow> team_principal \<Rightarrow> team_action \<Rightarrow>
     bool \<times> team_role list \<times> team_role list \<times> team_authorization_reason" where
  "authorization_result policy pr action =
     (let assigned_roles = membership_roles policy pr;
          granting_roles = filter (\<lambda>role. action \<in> set (ROLE_GRANTS role)) assigned_roles
      in if assigned_roles = [] then (False, [], [], TeamAuthorizationReason_PRINCIPAL_NOT_MEMBER)
         else if granting_roles \<noteq> [] then (True, assigned_roles, granting_roles, TeamAuthorizationReason_ROLE_GRANT)
         else (False, assigned_roles, [], TeamAuthorizationReason_ROLE_NOT_GRANTED))"

subsection \<open>Rendering\<close>

definition principal_to_json :: "team_principal \<Rightarrow> json" where
  "principal_to_json p = JObj
     [(''identity_provider'', JStr (tp_identity_provider p)), (''subject_id'', JStr (tp_subject_id p))]"

definition roles_to_json :: "team_role list \<Rightarrow> json" where
  "roles_to_json roles = JArr (map (\<lambda>r. JStr (team_role_value r)) roles)"

definition membership_to_json :: "team_membership \<Rightarrow> json" where
  "membership_to_json m = JObj
     [(''principal'', principal_to_json (tmb_principal m)), (''roles'', roles_to_json (tmb_roles m))]"

definition retention_class_to_json :: "team_retention_class \<Rightarrow> json" where
  "retention_class_to_json c = JObj
     [(''class_id'', JStr (trc_class_id c)), (''minimum_days'', JInt (trc_minimum_days c))]"

definition access_policy_to_json :: "team_access_policy \<Rightarrow> json" where
  "access_policy_to_json p = JObj
     [(''schema_version'', JStr (tap_schema_version p)), (''tenant_id'', JStr (tap_tenant_id p)),
      (''policy_id'', JStr (tap_policy_id p)), (''revision'', JInt (tap_revision p)),
      (''effective_at'', JStr (tap_effective_at p)),
      (''default_retention_class_id'', JStr (tap_default_retention_class_id p)),
      (''memberships'', JArr (map membership_to_json (tap_memberships p))),
      (''retention_classes'', JArr (map retention_class_to_json (tap_retention_classes p)))]"

definition resource_to_json :: "team_resource \<Rightarrow> json" where
  "resource_to_json r = JObj
     [(''resource_type'', JStr (team_resource_type_value (tr_resource_type r))), (''resource_id'', JStr (tr_resource_id r))]"

definition policy_subject_to_json :: "team_policy_subject \<Rightarrow> json" where
  "policy_subject_to_json s = JObj
     [(''media_type'', JStr (tps_media_type s)), (''policy_id'', JStr (tps_policy_id s)),
      (''revision'', JInt (tps_revision s)), (''sha256'', JStr (tps_sha256 s)), (''byte_count'', JInt (tps_byte_count s))]"

definition authorization_to_json :: "team_authorization_decision \<Rightarrow> json" where
  "authorization_to_json d = JObj
     [(''schema_version'', JStr (tad_schema_version d)), (''decision_id'', JStr (tad_decision_id d)),
      (''tenant_id'', JStr (tad_tenant_id d)), (''principal'', principal_to_json (tad_principal d)),
      (''action'', JStr (team_action_value (tad_action d))), (''resource'', resource_to_json (tad_resource d)),
      (''authorized'', JBool (tad_authorized d)), (''assigned_roles'', roles_to_json (tad_assigned_roles d)),
      (''granting_roles'', roles_to_json (tad_granting_roles d)),
      (''reason'', JStr (team_authorization_reason_value (tad_reason d))), (''decided_at'', JStr (tad_decided_at d)),
      (''policy'', policy_subject_to_json (tad_policy d))]"

definition render_team_access_policy :: "(json \<Rightarrow> string) \<Rightarrow> team_access_policy \<Rightarrow> team_error + string" where
  "render_team_access_policy dumps p =
     attempt (parse_team_access_policy (access_policy_to_json p)) (\<lambda>q. Inr (dumps (access_policy_to_json q) @ [CHR 0x0A]))"

definition render_team_authorization :: "(json \<Rightarrow> string) \<Rightarrow> team_authorization_decision \<Rightarrow> team_error + string" where
  "render_team_authorization dumps d =
     attempt (parse_team_authorization (authorization_to_json d)) (\<lambda>e. Inr (dumps (authorization_to_json e) @ [CHR 0x0A]))"

subsection \<open>Creating and verifying decisions\<close>

definition or_fallback :: "string \<Rightarrow> string option \<Rightarrow> string" where
  \<comment> \<open>\<open>given or fallback\<close>, as in \<open>decided_at or utc_timestamp()\<close>, where \<open>now\<close> is the text of the current instant\<close>
  "or_fallback fallback given = (case given of None \<Rightarrow> fallback | Some s \<Rightarrow> if s = [] then fallback else s)"

definition enum_argument :: "string \<Rightarrow> ('a \<Rightarrow> string) \<Rightarrow> 'a list \<Rightarrow> string \<Rightarrow> team_error + 'a" where
  \<comment> \<open>\<open>EnumType(value)\<close> of a text argument\<close>
  "enum_argument class_name val members s =
     (case enum_lookup val members s of Some m \<Rightarrow> Inr m
      | None \<Rightarrow> Inl (Team_value_error (py_repr s @ '' is not a valid '' @ class_name)))"

definition policy_not_effective :: team_error where
  "policy_not_effective =
     Team_authorization_failed ''policy_not_effective'' ''the decision time precedes the policy effective time''"

definition create_team_authorization ::
  "library \<Rightarrow> string \<Rightarrow> string \<Rightarrow> string \<Rightarrow> string \<Rightarrow> string \<Rightarrow> string \<Rightarrow> string \<Rightarrow> string \<Rightarrow> string option \<Rightarrow>
     team_error + team_authorization_decision" where
  "create_team_authorization lib now policy_bytes decision_id identity_provider subject_id action resource_type
     resource_id decided_at =
     attempt (parse_team_access_policy_bytes lib policy_bytes) (\<lambda>policy.
     attempt (enum_argument ''TeamAction'' team_action_value team_action_members action) (\<lambda>action_value.
     attempt (enum_argument ''TeamResourceType'' team_resource_type_value team_resource_type_members resource_type)
       (\<lambda>resource_type_value.
     let resource = \<lparr>tr_resource_type = resource_type_value, tr_resource_id = resource_id\<rparr>;
         principal = \<lparr>tp_identity_provider = identity_provider, tp_subject_id = subject_id\<rparr>;
         probe = \<lparr>tad_schema_version = TEAM_AUTHORIZATION_SCHEMA_VERSION, tad_decision_id = decision_id,
           tad_tenant_id = tap_tenant_id policy, tad_principal = principal, tad_action = action_value,
           tad_resource = resource, tad_authorized = False, tad_assigned_roles = [], tad_granting_roles = [],
           tad_reason = TeamAuthorizationReason_PRINCIPAL_NOT_MEMBER, tad_decided_at = or_fallback now decided_at,
           tad_policy = policy_subject lib policy_bytes policy\<rparr>
     in
     attempt (parse_team_authorization (authorization_to_json probe)) (\<lambda>parsed_probe.
     attempt (ensure (timestamp_value (tap_effective_at policy) \<le> timestamp_value (tad_decided_at parsed_probe))
                policy_not_effective) (\<lambda>_.
     case authorization_result policy (tad_principal parsed_probe) (tad_action parsed_probe) of
       (authorized, assigned, granting, reason) \<Rightarrow>
         parse_team_authorization (authorization_to_json
           (parsed_probe\<lparr>tad_authorized := authorized, tad_assigned_roles := assigned,
             tad_granting_roles := granting, tad_reason := reason\<rparr>)))))))"

definition verify_team_authorization ::
  "library \<Rightarrow> string \<Rightarrow> team_authorization_decision \<Rightarrow> team_error + team_authorization_decision" where
  "verify_team_authorization lib policy_bytes decision =
     attempt (parse_team_access_policy_bytes lib policy_bytes) (\<lambda>policy.
     attempt (parse_team_authorization (authorization_to_json decision)) (\<lambda>validated.
     attempt (ensure (tad_policy validated = policy_subject lib policy_bytes policy)
                (Team_authorization_failed ''policy_subject_mismatch''
                   ''the decision does not bind the supplied access-policy bytes'')) (\<lambda>_.
     attempt (ensure (tad_tenant_id validated = tap_tenant_id policy)
                (Team_authorization_failed ''tenant_mismatch''
                   ''the decision tenant does not match the access policy'')) (\<lambda>_.
     attempt (ensure (timestamp_value (tap_effective_at policy) \<le> timestamp_value (tad_decided_at validated))
                policy_not_effective) (\<lambda>_.
     attempt (ensure ((tad_authorized validated, tad_assigned_roles validated, tad_granting_roles validated,
                  tad_reason validated) = authorization_result policy (tad_principal validated) (tad_action validated))
                (Team_authorization_failed ''decision_mismatch''
                   ''the recorded decision cannot be reproduced from the bound policy'')) (\<lambda>_.
     Inr validated))))))"

subsection \<open>When a value is accepted\<close>

definition team_text_ok :: "nat \<Rightarrow> string \<Rightarrow> bool" where
  "team_text_ok n s \<longleftrightarrow> s \<noteq> [] \<and> length s \<le> n \<and> no_control s"

definition team_timestamp_ok :: "string \<Rightarrow> bool" where
  "team_timestamp_ok s \<longleftrightarrow> team_text_ok 20 s \<and> wire_timestamp_shape s
     \<and> (case fromisoformat (zulu_to_offset s) of None \<Rightarrow> False | Some t \<Rightarrow> dt_offset t = Some 0)"

definition safe_team_id :: "string \<Rightarrow> bool" where
  "safe_team_id s \<longleftrightarrow> team_text_ok 128 s \<and> team_id_ok s"

definition team_sha_ok :: "string \<Rightarrow> bool" where
  "team_sha_ok s \<longleftrightarrow> team_text_ok 64 s \<and> sha256_ok s"

lemma team_string_Inr [strict_iff]:
  "team_string name n None path v = Inr s \<longleftrightarrow> v = JStr s \<and> team_text_ok n s"
  "team_id name path v = Inr s \<longleftrightarrow> v = JStr s \<and> safe_team_id s"
  "team_sha256 name path v = Inr s \<longleftrightarrow> v = JStr s \<and> team_sha_ok s"
  "team_string name n (Some media_type_ok) path v = Inr s \<longleftrightarrow> v = JStr s \<and> team_text_ok n s \<and> media_type_ok s"
  by (auto simp: team_string_def team_text_ok_def safe_team_id_def team_sha_ok_def Let_def split: json.split if_splits)

lemma team_boolean_Inr [strict_iff]: "team_boolean name path v = Inr b \<longleftrightarrow> v = JBool b"
  by (auto simp: team_boolean_def split: json.split)

lemma team_timestamp_Inr [strict_iff]: "team_timestamp name path v = Inr s \<longleftrightarrow> v = JStr s \<and> team_timestamp_ok s"
  by (auto simp: team_timestamp_def team_timestamp_ok_def strict_iff Let_def split: option.split if_splits)

context str_enum
begin

lemma team_enum_Inr: "team_enum name val members path v = Inr m \<longleftrightarrow> v = JStr (val m)"
  by (cases v) (auto simp: team_enum_def lookup_Some lookup_None inj_val split: option.split)

end

lemmas team_enums_Inr [strict_iff] =
  team_role.team_enum_Inr team_action.team_enum_Inr team_resource_type.team_enum_Inr
  team_authorization_reason.team_enum_Inr
  team_role.inj_val team_action.inj_val team_resource_type.inj_val team_authorization_reason.inj_val

definition principal_ok :: "team_principal \<Rightarrow> bool" where
  "principal_ok p \<longleftrightarrow> safe_team_id (tp_identity_provider p) \<and> safe_team_id (tp_subject_id p)"

definition roles_ok :: "nat \<Rightarrow> team_role list \<Rightarrow> bool" where
  "roles_ok minimum roles \<longleftrightarrow> minimum \<le> length roles \<and> distinct roles \<and> sorted (map team_role_value roles)"

definition policy_subject_ok :: "team_policy_subject \<Rightarrow> bool" where
  "policy_subject_ok s \<longleftrightarrow> tps_media_type s = ACCESS_POLICY_MEDIA_TYPE \<and> safe_team_id (tps_policy_id s)
     \<and> 1 \<le> tps_revision s \<and> team_sha_ok (tps_sha256 s)
     \<and> 1 \<le> tps_byte_count s \<and> tps_byte_count s \<le> int MAX_TEAM_ACCESS_POLICY_BYTES"

definition membership_ok :: "team_membership \<Rightarrow> bool" where
  "membership_ok m \<longleftrightarrow> principal_ok (tmb_principal m) \<and> roles_ok 1 (tmb_roles m)"

definition retention_class_ok :: "team_retention_class \<Rightarrow> bool" where
  "retention_class_ok c \<longleftrightarrow> safe_team_id (trc_class_id c) \<and> 1 \<le> trc_minimum_days c \<and> trc_minimum_days c \<le> MAX_TEAM_RETENTION_DAYS"

definition access_policy_ok :: "team_access_policy \<Rightarrow> bool" where
  "access_policy_ok p \<longleftrightarrow> tap_schema_version p = TEAM_ACCESS_POLICY_SCHEMA_VERSION
     \<and> safe_team_id (tap_tenant_id p) \<and> safe_team_id (tap_policy_id p) \<and> 1 \<le> tap_revision p
     \<and> team_timestamp_ok (tap_effective_at p)
     \<and> safe_team_id (tap_default_retention_class_id p)
     \<and> tap_default_retention_class_id p \<in> set (map trc_class_id (tap_retention_classes p))
     \<and> length (tap_memberships p) \<le> MAX_TEAM_MEMBERSHIPS \<and> list_all membership_ok (tap_memberships p)
     \<and> distinct (map membership_order (tap_memberships p)) \<and> sorted (map membership_order (tap_memberships p))
     \<and> tap_retention_classes p \<noteq> [] \<and> length (tap_retention_classes p) \<le> MAX_TEAM_RETENTION_CLASSES
     \<and> list_all retention_class_ok (tap_retention_classes p)
     \<and> distinct (map trc_class_id (tap_retention_classes p)) \<and> sorted (map trc_class_id (tap_retention_classes p))"

definition resource_ok :: "team_resource \<Rightarrow> bool" where
  "resource_ok r \<longleftrightarrow> safe_team_id (tr_resource_id r)"

definition outcome_ok :: "bool \<Rightarrow> team_role list \<Rightarrow> team_role list \<Rightarrow> team_authorization_reason \<Rightarrow> bool" where
  "outcome_ok authorized assigned granting reason \<longleftrightarrow> roles_ok 0 assigned \<and> roles_ok 0 granting
     \<and> set granting \<subseteq> set assigned \<and> (authorized \<longleftrightarrow> granting \<noteq> [])
     \<and> (authorized \<longleftrightarrow> reason = TeamAuthorizationReason_ROLE_GRANT)"

definition authorization_ok :: "team_authorization_decision \<Rightarrow> bool" where
  "authorization_ok d \<longleftrightarrow> tad_schema_version d = TEAM_AUTHORIZATION_SCHEMA_VERSION
     \<and> safe_team_id (tad_decision_id d) \<and> safe_team_id (tad_tenant_id d) \<and> principal_ok (tad_principal d)
     \<and> resource_ok (tad_resource d) \<and> tr_resource_type (tad_resource d) \<in> set (ACTION_RESOURCES (tad_action d))
     \<and> outcome_ok (tad_authorized d) (tad_assigned_roles d) (tad_granting_roles d) (tad_reason d)
     \<and> team_timestamp_ok (tad_decided_at d) \<and> policy_subject_ok (tad_policy d)"

lemma parse_principal_render [strict_iff]:
  "parse_principal name path (principal_to_json p) = Inr q \<longleftrightarrow> q = p \<and> principal_ok p"
  by (cases p) (auto simp: parse_principal_def principal_to_json_def strict_iff exact_keys_def principal_ok_def)

lemma parse_principal_ok: "parse_principal name path v = Inr p \<Longrightarrow> principal_ok p"
  by (auto simp: parse_principal_def strict_iff principal_ok_def)

interpretation role_codec: exact_codec "parse_role name path" "\<lambda>r. JStr (team_role_value r)" "\<lambda>r. True" for name path
  by unfold_locales (auto simp: parse_role_def strict_iff)

lemma team_role_count: "distinct (rs :: team_role list) \<Longrightarrow> length rs \<le> length team_role_members"
  using team_role.complete by (metis card_mono distinct_card finite_set length_remdups_leq length_remdups_card_conv le_trans subsetI)

lemma parse_roles_Inr:
  "parse_roles name m path (roles_to_json rs) = Inr qs \<longleftrightarrow> qs = sort_key team_role_value rs \<and> m \<le> length rs \<and> distinct rs"
  using team_role_count [of rs]
  by (auto simp: parse_roles_def roles_to_json_def strict_iff role_codec.each_exact [unfolded list_all_iff])

lemma roles_sorted: "roles_ok m rs \<Longrightarrow> sort_key team_role_value rs = rs"
  by (simp add: roles_ok_def sort_key_id_if_sorted)

lemma parse_roles_render: "parse_roles name m path (roles_to_json rs) = Inr rs \<longleftrightarrow> roles_ok m rs"
proof
  assume "parse_roles name m path (roles_to_json rs) = Inr rs"
  then show "roles_ok m rs" unfolding parse_roles_Inr roles_ok_def by (metis sorted_sort_key)
qed (auto simp: parse_roles_Inr roles_sorted roles_ok_def [symmetric], auto simp: roles_ok_def)

lemma parse_roles_ok: "parse_roles name m path v = Inr rs \<Longrightarrow> roles_ok m rs"
  by (auto simp: parse_roles_def strict_iff roles_ok_def dest!: each_length)

lemma parse_policy_subject_render [strict_iff]:
  "parse_policy_subject name path (policy_subject_to_json s) = Inr t \<longleftrightarrow> t = s \<and> policy_subject_ok s"
proof -
  have "team_text_ok 255 ACCESS_POLICY_MEDIA_TYPE \<and> media_type_ok ACCESS_POLICY_MEDIA_TYPE"
    by (simp add: ACCESS_POLICY_MEDIA_TYPE_def team_text_ok_def no_control_def media_type_ok_def partition_at_def
        media_name_ok_def head_tail_match_def is_lower_def is_digit_def)
  then show ?thesis
    by (cases s) (auto simp: parse_policy_subject_def policy_subject_to_json_def strict_iff exact_keys_def
        policy_subject_ok_def Let_def)
qed

lemma parse_policy_subject_ok: "parse_policy_subject name path v = Inr s \<Longrightarrow> policy_subject_ok s"
  by (auto simp: parse_policy_subject_def strict_iff policy_subject_ok_def Let_def)

lemma parse_resource_render [strict_iff]:
  "parse_resource name path (resource_to_json r) = Inr q \<longleftrightarrow> q = r \<and> resource_ok r"
  by (cases r) (auto simp: parse_resource_def resource_to_json_def strict_iff exact_keys_def resource_ok_def)

lemma parse_resource_ok: "parse_resource name path v = Inr r \<Longrightarrow> resource_ok r"
  by (auto simp: parse_resource_def strict_iff resource_ok_def)

interpretation membership_codec: keyed_codec parse_membership membership_to_json membership_ok membership_order
proof unfold_locales
  fix m :: team_membership and seen i v
  show "membership_ok m \<Longrightarrow> membership_order m \<notin> set seen \<Longrightarrow> parse_membership seen i (membership_to_json m) = Inr m"
    by (cases m) (auto simp: parse_membership_def membership_to_json_def strict_iff exact_keys_def membership_ok_def
        membership_order_def parse_roles_render Let_def)
  show "parse_membership seen i v = Inr m \<Longrightarrow> membership_ok m \<and> membership_order m \<notin> set seen"
    by (auto simp: parse_membership_def strict_iff membership_ok_def membership_order_def Let_def
        dest: parse_principal_ok parse_roles_ok)
qed

interpretation retention_class_codec: keyed_codec parse_retention_class retention_class_to_json retention_class_ok trc_class_id
proof unfold_locales
  fix c :: team_retention_class and seen i v
  show "retention_class_ok c \<Longrightarrow> trc_class_id c \<notin> set seen \<Longrightarrow>
      parse_retention_class seen i (retention_class_to_json c) = Inr c"
    by (cases c) (auto simp: parse_retention_class_def retention_class_to_json_def strict_iff exact_keys_def
        retention_class_ok_def Let_def)
  show "parse_retention_class seen i v = Inr c \<Longrightarrow> retention_class_ok c \<and> trc_class_id c \<notin> set seen"
    by (auto simp: parse_retention_class_def strict_iff retention_class_ok_def Let_def)
qed

lemma parse_access_policy_ok: "parse_team_access_policy v = Inr p \<Longrightarrow> access_policy_ok p"
proof -
  assume "parse_team_access_policy v = Inr p"
  then obtain ms cs mvs rvs d t i r e where
    m: "each_new membership_order parse_membership [] 0 mvs = Inr ms" "length mvs \<le> MAX_TEAM_MEMBERSHIPS"
    and c: "each_new trc_class_id parse_retention_class [] 0 rvs = Inr cs" "1 \<le> length rvs"
      "length rvs \<le> MAX_TEAM_RETENTION_CLASSES"
    and rest: "safe_team_id d" "d \<in> set (map trc_class_id cs)" "safe_team_id t" "safe_team_id i" "1 \<le> r" "team_timestamp_ok e"
    and p: "p = \<lparr>tap_schema_version = TEAM_ACCESS_POLICY_SCHEMA_VERSION, tap_tenant_id = t, tap_policy_id = i,
          tap_revision = r, tap_effective_at = e, tap_default_retention_class_id = d,
          tap_memberships = sort_key membership_order ms, tap_retention_classes = sort_key trc_class_id cs\<rparr>"
    by (auto simp: parse_team_access_policy_def strict_iff Let_def)
  have "sort_key trc_class_id cs \<noteq> []"
    using retention_class_codec.each_new_ok [OF c(1)] c(2) by (auto dest: arg_cong [of _ _ set])
  then show ?thesis
    using membership_codec.each_new_ok [OF m(1)] retention_class_codec.each_new_ok [OF c(1)] m(2) c(2,3) rest
    by (auto simp: p access_policy_ok_def list_all_iff distinct_map)
qed

lemma parse_access_policy_render: "parse_team_access_policy (access_policy_to_json p) = Inr p \<longleftrightarrow> access_policy_ok p"
proof
  assume ok: "access_policy_ok p"
  then have "each_new membership_order parse_membership [] 0 (map membership_to_json (tap_memberships p)) = Inr (tap_memberships p)"
    "each_new trc_class_id parse_retention_class [] 0 (map retention_class_to_json (tap_retention_classes p)) = Inr (tap_retention_classes p)"
    by (auto simp: access_policy_ok_def membership_codec.each_new_roundtrip retention_class_codec.each_new_roundtrip)
  with ok show "parse_team_access_policy (access_policy_to_json p) = Inr p"
    by (auto simp: parse_team_access_policy_def access_policy_to_json_def access_policy_keys_def strict_iff exact_keys_def
        access_policy_ok_def Let_def sort_key_id_if_sorted Suc_le_eq)
qed (rule parse_access_policy_ok)

lemma check_outcome_Inr [strict_iff]:
  "check_outcome a rs gs reason = Inr u \<longleftrightarrow> (a \<longleftrightarrow> gs \<noteq> []) \<and> (a \<longleftrightarrow> reason = TeamAuthorizationReason_ROLE_GRANT)"
  by (auto simp: check_outcome_def strict_iff Let_def)

lemma parse_outcome_ok: "parse_outcome rt = Inr (a, rs, gs, reason) \<Longrightarrow> outcome_ok a rs gs reason"
  by (auto simp: parse_outcome_def strict_iff Let_def outcome_ok_def dest: parse_roles_ok)

lemma parse_authorization_ok: "parse_team_authorization v = Inr d \<Longrightarrow> authorization_ok d"
  by (clarsimp simp: parse_team_authorization_def strict_iff Let_def validate_action_resource_def)
    (auto simp: authorization_ok_def dest: parse_outcome_ok parse_principal_ok parse_resource_ok parse_policy_subject_ok)

lemma parse_authorization_render:
  "parse_team_authorization (authorization_to_json d) = Inr d \<longleftrightarrow> authorization_ok d"
proof
  assume "authorization_ok d"
  then show "parse_team_authorization (authorization_to_json d) = Inr d"
    by (auto simp: parse_team_authorization_def authorization_to_json_def authorization_keys_def strict_iff exact_keys_def
        authorization_ok_def Let_def validate_action_resource_def parse_outcome_def outcome_ok_def parse_roles_Inr
        roles_sorted roles_ok_def sort_key_id_if_sorted)
qed (rule parse_authorization_ok)

subsection \<open>Decisions are reproducible\<close>

lemma membership_roles_ok:
  assumes "access_policy_ok policy" shows "roles_ok 0 (membership_roles policy pr)"
proof (cases "find (\<lambda>m. tmb_principal m = pr) (tap_memberships policy)")
  case (Some m)
  then have "m \<in> set (tap_memberships policy)" by (auto simp: find_Some_iff)
  with assms have "membership_ok m" by (auto simp: access_policy_ok_def list_all_iff)
  then show ?thesis by (simp add: membership_roles_def Some membership_ok_def roles_ok_def)
qed (simp add: membership_roles_def roles_ok_def)

lemma roles_ok_filter: "roles_ok 0 roles \<Longrightarrow> roles_ok 0 (filter P roles)"
  by (simp add: roles_ok_def sorted_filter)

lemma authorization_result_ok:
  assumes "access_policy_ok policy" "authorization_result policy pr action = (authorized, assigned, granting, reason)"
  shows "outcome_ok authorized assigned granting reason"
  using assms(2) membership_roles_ok [OF assms(1), of pr]
    roles_ok_filter [OF membership_roles_ok [OF assms(1), of pr], of "\<lambda>role. action \<in> set (ROLE_GRANTS role)"]
  by (auto simp: authorization_result_def Let_def outcome_ok_def roles_ok_def split: if_splits)

lemma authorization_result_iff:
  "authorization_result policy pr action = (authorized, assigned, granting, reason) \<longleftrightarrow>
     assigned = membership_roles policy pr
     \<and> granting = filter (\<lambda>role. action \<in> set (ROLE_GRANTS role)) assigned
     \<and> (authorized \<longleftrightarrow> (\<exists>role \<in> set assigned. action \<in> set (ROLE_GRANTS role)))
     \<and> reason = (if authorized then TeamAuthorizationReason_ROLE_GRANT
         else if assigned = [] then TeamAuthorizationReason_PRINCIPAL_NOT_MEMBER
         else TeamAuthorizationReason_ROLE_NOT_GRANTED)"
  by (auto simp: authorization_result_def Let_def filter_empty_conv)

definition decision_in_force :: "library \<Rightarrow> string \<Rightarrow> team_access_policy \<Rightarrow> team_authorization_decision \<Rightarrow> bool" where
  \<comment> \<open>the decision binds the policy and was made while it was in effect\<close>
  "decision_in_force lib policy_bytes policy d \<longleftrightarrow> tad_policy d = policy_subject lib policy_bytes policy
     \<and> tad_tenant_id d = tap_tenant_id policy
     \<and> timestamp_value (tap_effective_at policy) \<le> timestamp_value (tad_decided_at d)"

lemma verify_team_authorization_Inr:
  "verify_team_authorization lib policy_bytes d = Inr d \<longleftrightarrow>
     (\<exists>policy. parse_team_access_policy_bytes lib policy_bytes = Inr policy \<and> authorization_ok d
        \<and> decision_in_force lib policy_bytes policy d
        \<and> authorization_result policy (tad_principal d) (tad_action d)
          = (tad_authorized d, tad_assigned_roles d, tad_granting_roles d, tad_reason d))"
  by (auto simp: verify_team_authorization_def decision_in_force_def strict_iff
      simp flip: parse_authorization_render)

text \<open>
  C20. A decision passes verification unchanged exactly when the policy bytes parse, the decision is
  well formed, it binds those bytes, tenant and effective time, and it records what the policy says: the
  roles of the principal's membership, those of them that grant the action, authorized exactly when there is
  one, and the matching reason.
\<close>

theorem decision_verifies_iff:
  "verify_team_authorization lib policy_bytes d = Inr d \<longleftrightarrow>
     (\<exists>policy. parse_team_access_policy_bytes lib policy_bytes = Inr policy \<and> authorization_ok d
        \<and> decision_in_force lib policy_bytes policy d
        \<and> tad_assigned_roles d = membership_roles policy (tad_principal d)
        \<and> tad_granting_roles d = filter (\<lambda>role. tad_action d \<in> set (ROLE_GRANTS role)) (tad_assigned_roles d)
        \<and> (tad_authorized d \<longleftrightarrow> (\<exists>role \<in> set (tad_assigned_roles d). tad_action d \<in> set (ROLE_GRANTS role)))
        \<and> tad_reason d = (if tad_authorized d then TeamAuthorizationReason_ROLE_GRANT
            else if tad_assigned_roles d = [] then TeamAuthorizationReason_PRINCIPAL_NOT_MEMBER
            else TeamAuthorizationReason_ROLE_NOT_GRANTED))"
  unfolding verify_team_authorization_Inr authorization_result_iff by blast

lemma parse_authorization_render_eq:
  assumes "parse_team_authorization (authorization_to_json d) = Inr e"
  shows "e = d\<lparr>tad_assigned_roles := sort_key team_role_value (tad_assigned_roles d),
               tad_granting_roles := sort_key team_role_value (tad_granting_roles d)\<rparr>"
  using assms
  by (cases d) (auto simp: parse_team_authorization_def authorization_to_json_def authorization_keys_def strict_iff
      exact_keys_def Let_def parse_outcome_def parse_roles_Inr)

lemma created_decision:
  assumes "create_team_authorization lib now policy_bytes i ip si action rt ri decided_at = Inr d"
  shows "verify_team_authorization lib policy_bytes d = Inr d"
proof -
  from assms obtain policy probe x where
    p: "parse_team_access_policy_bytes lib policy_bytes = Inr policy"
    and probe: "parse_team_authorization (authorization_to_json x) = Inr probe"
      "tad_tenant_id x = tap_tenant_id policy" "tad_policy x = policy_subject lib policy_bytes policy"
    and t: "timestamp_value (tap_effective_at policy) \<le> timestamp_value (tad_decided_at probe)"
    and d: "(case authorization_result policy (tad_principal probe) (tad_action probe) of (a, as, gs, r) \<Rightarrow>
        parse_team_authorization (authorization_to_json (probe\<lparr>tad_authorized := a, tad_assigned_roles := as,
          tad_granting_roles := gs, tad_reason := r\<rparr>))) = Inr d"
    by (auto simp: create_team_authorization_def strict_iff Let_def)
  obtain a as gs r where res: "authorization_result policy (tad_principal probe) (tad_action probe) = (a, as, gs, r)"
    by (cases "authorization_result policy (tad_principal probe) (tad_action probe)") auto
  have "access_policy_ok policy"
    using p by (auto simp: parse_team_access_policy_bytes_def strict_iff dest: parse_access_policy_ok)
  then have ok: "outcome_ok a as gs r" using res by (rule authorization_result_ok)
  have d': "d = probe\<lparr>tad_authorized := a, tad_assigned_roles := as, tad_granting_roles := gs, tad_reason := r\<rparr>"
  proof -
    have "parse_team_authorization (authorization_to_json (probe\<lparr>tad_authorized := a, tad_assigned_roles := as,
        tad_granting_roles := gs, tad_reason := r\<rparr>)) = Inr d" using d by (simp add: res)
    moreover have "sort_key team_role_value as = as" "sort_key team_role_value gs = gs"
      using ok by (auto simp: outcome_ok_def intro: roles_sorted)
    ultimately show ?thesis by (auto dest: parse_authorization_render_eq)
  qed
  have "authorization_ok d" using d by (auto simp: res dest: parse_authorization_ok)
  moreover have "decision_in_force lib policy_bytes policy d"
    using probe t parse_authorization_render_eq [OF probe(1)] by (simp add: decision_in_force_def d')
  ultimately show ?thesis
    using p res by (auto simp: verify_team_authorization_Inr d')
qed

text \<open>A decision made from policy bytes passes its own verification against those bytes, unchanged.\<close>

theorem created_decision_verifies:
  assumes "create_team_authorization lib now policy_bytes decision_id ip si action resource_type resource_id decided_at = Inr d"
  shows "verify_team_authorization lib policy_bytes d = Inr d"
  using assms by (rule created_decision)

text \<open>An access policy survives rendering and parsing exactly when it is well formed: memberships and
  retention classes sorted, without repeats, and the default class declared.\<close>

theorem access_policy_roundtrip:
  "parse_team_access_policy (access_policy_to_json p) = Inr p \<longleftrightarrow> access_policy_ok p"
  by (rule parse_access_policy_render)

definition sample_access_policy :: team_access_policy where
  "sample_access_policy = \<lparr>tap_schema_version = ''1.0'', tap_tenant_id = ''acme'', tap_policy_id = ''access'',
     tap_revision = 1, tap_effective_at = ''2026-01-01T00:00:00Z'', tap_default_retention_class_id = ''year'',
     tap_memberships = [\<lparr>tmb_principal = \<lparr>tp_identity_provider = ''idp'', tp_subject_id = ''ann''\<rparr>,
        tmb_roles = [TeamRole_INVESTIGATOR, TeamRole_POLICY_ADMINISTRATOR]\<rparr>],
     tap_retention_classes = [\<lparr>trc_class_id = ''year'', trc_minimum_days = 365\<rparr>]\<rparr>"

definition policy_library :: library where
  "policy_library = \<lparr>lib_decode_utf8 = Some, lib_loads = (\<lambda>_. Inr (access_policy_to_json sample_access_policy)),
     lib_dumps = (\<lambda>_. []), lib_sha256 = (\<lambda>_. replicate 64 CHR ''a''), lib_inv_cdf = (\<lambda>_. 0)\<rparr>"

lemma sample_policy_parsed:
  "parse_team_access_policy_bytes policy_library ''p'' = Inr sample_access_policy"
proof -
  have "access_policy_ok sample_access_policy" by code_simp
  then show ?thesis
    by (simp add: parse_team_access_policy_bytes_def team_bytes_document_def policy_library_def parse_json_text_def
        utf8_bytes_def MAX_TEAM_ACCESS_POLICY_BYTES_def attempt_def parse_access_policy_render [symmetric])
qed

definition sample_decision :: team_authorization_decision where
  "sample_decision = \<lparr>tad_schema_version = ''1.0'', tad_decision_id = ''d1'', tad_tenant_id = ''acme'',
     tad_principal = \<lparr>tp_identity_provider = ''idp'', tp_subject_id = ''ann''\<rparr>, tad_action = TeamAction_AUDIT_EXPORT,
     tad_resource = \<lparr>tr_resource_type = TeamResourceType_AUDIT_EXPORT, tr_resource_id = ''e1''\<rparr>,
     tad_authorized = True, tad_assigned_roles = [TeamRole_INVESTIGATOR, TeamRole_POLICY_ADMINISTRATOR],
     tad_granting_roles = [TeamRole_POLICY_ADMINISTRATOR], tad_reason = TeamAuthorizationReason_ROLE_GRANT,
     tad_decided_at = ''2026-06-01T00:00:00Z'',
     tad_policy = policy_subject policy_library ''p'' sample_access_policy\<rparr>"

lemma sample_decision_times: "timestamp_value ''2026-01-01T00:00:00Z'' \<le> timestamp_value ''2026-06-01T00:00:00Z''"
  by code_simp

lemma sample_decision_ok: "authorization_ok sample_decision"
proof -
  have "policy_subject_ok (policy_subject policy_library ''p'' sample_access_policy)"
    by (simp add: policy_subject_ok_def policy_subject_def sample_access_policy_def policy_library_def
        MAX_TEAM_ACCESS_POLICY_BYTES_def team_sha_ok_def team_text_ok_def no_control_def sha256_ok_def safe_team_id_def
        team_id_ok_def head_tail_match_def is_alnum_def is_upper_def is_lower_def is_digit_def list_all_iff)
  moreover have "safe_team_id ''d1''" "safe_team_id ''acme''" "safe_team_id ''idp''" "safe_team_id ''ann''" "safe_team_id ''e1''"
    "team_timestamp_ok ''2026-06-01T00:00:00Z''" by code_simp+
  ultimately show ?thesis
    by (simp add: authorization_ok_def sample_decision_def TEAM_AUTHORIZATION_SCHEMA_VERSION_def principal_ok_def
        resource_ok_def outcome_ok_def roles_ok_def)
qed

lemma sample_result:
  "authorization_result sample_access_policy (tad_principal sample_decision) TeamAction_AUDIT_EXPORT
     = (True, [TeamRole_INVESTIGATOR, TeamRole_POLICY_ADMINISTRATOR], [TeamRole_POLICY_ADMINISTRATOR],
        TeamAuthorizationReason_ROLE_GRANT)"
  by code_simp

lemma sample_decision_created:
  "create_team_authorization policy_library ''2026-06-01T00:00:00Z'' ''p'' ''d1'' ''idp'' ''ann'' ''audit_export'' ''audit_export''
     ''e1'' None = Inr sample_decision"
proof -
  let ?probe = "sample_decision\<lparr>tad_authorized := False, tad_assigned_roles := [], tad_granting_roles := [],
     tad_reason := TeamAuthorizationReason_PRINCIPAL_NOT_MEMBER\<rparr>"
  have "authorization_ok ?probe"
    using sample_decision_ok by (simp add: authorization_ok_def outcome_ok_def roles_ok_def)
  then have probe: "parse_team_authorization (authorization_to_json ?probe) = Inr ?probe"
    by (rule parse_authorization_render [THEN iffD2])
  have final: "parse_team_authorization (authorization_to_json sample_decision) = Inr sample_decision"
    using sample_decision_ok by (rule parse_authorization_render [THEN iffD2])
  have enums: "enum_argument ''TeamAction'' team_action_value team_action_members ''audit_export'' = Inr TeamAction_AUDIT_EXPORT"
    "enum_argument ''TeamResourceType'' team_resource_type_value team_resource_type_members ''audit_export'' =
       Inr TeamResourceType_AUDIT_EXPORT" by code_simp+
  show ?thesis
    using probe final sample_result sample_decision_times
    by (simp add: create_team_authorization_def sample_policy_parsed enums attempt_def or_fallback_def sample_decision_def
        sample_access_policy_def TEAM_AUTHORIZATION_SCHEMA_VERSION_def ensure_def Let_def)
qed

theorem created_decision_verifies_witness:
  "verify_team_authorization policy_library ''p'' sample_decision = Inr sample_decision"
  using created_decision_verifies [OF sample_decision_created] .

end
