(* ===== verification/Team_Audit.thy ===== *)
theory Team_Audit
  imports Team_Policy Utc_Text Constants
begin

text \<open>
  The second half of \<open>team_service.py\<close>: self-hashed audit events that form one chain per tenant, complete
  exports of a chain, and their verification. An event's digest is taken over the canonical text of its entry,
  so the digest of the last event fixes every event before it, up to a collision of SHA-256.
\<close>

subsection \<open>Constants and documents\<close>

definition TEAM_AUDIT_EVENT_SCHEMA_VERSION :: string where "TEAM_AUDIT_EVENT_SCHEMA_VERSION = ''1.0''"
definition TEAM_AUDIT_EXPORT_SCHEMA_VERSION :: string where "TEAM_AUDIT_EXPORT_SCHEMA_VERSION = ''1.0''"
definition TEAM_AUDIT_VERIFICATION_SCHEMA_VERSION :: string where "TEAM_AUDIT_VERIFICATION_SCHEMA_VERSION = ''1.0''"
definition MAX_TEAM_AUDIT_EVENT_BYTES :: nat where "MAX_TEAM_AUDIT_EVENT_BYTES = 1024 * 1024"
definition MAX_TEAM_AUDIT_PAYLOAD_BYTES :: nat where "MAX_TEAM_AUDIT_PAYLOAD_BYTES = 16 * 1024 * 1024"
definition MAX_TEAM_AUDIT_EXPORT_BYTES :: nat where "MAX_TEAM_AUDIT_EXPORT_BYTES = 64 * 1024 * 1024"
definition MAX_TEAM_EXPORT_EVENTS :: nat where "MAX_TEAM_EXPORT_EVENTS = 10000"
definition MAX_TEAM_AUTHORIZATION_AGE_SECONDS :: int where "MAX_TEAM_AUTHORIZATION_AGE_SECONDS = 15 * 60"
definition AUDIT_EXPORT_MEDIA_TYPE :: string where
  "AUDIT_EXPORT_MEDIA_TYPE = ''application/vnd.causure.team-audit-export+json''"

record team_document_subject =
  tds_media_type :: string
  tds_sha256 :: string
  tds_byte_count :: int

record team_retention_requirement =
  trr_class_id :: string
  trr_retain_until :: string

record team_audit_entry =
  tae_event_id :: string
  tae_tenant_id :: string
  tae_sequence :: int
  tae_occurred_at :: string
  tae_authorization :: team_authorization_decision
  tae_outcome :: team_audit_outcome
  tae_payload :: team_document_subject
  tae_retention :: team_retention_requirement
  tae_previous_event_sha256 :: "string option"

record team_audit_event =
  tev_schema_version :: string
  tev_entry :: team_audit_entry
  tev_event_sha256 :: string

record team_audit_range =
  tar_first_sequence :: int
  tar_last_sequence :: int
  tar_event_count :: int

record team_audit_export =
  tax_schema_version :: string
  tax_export_id :: string
  tax_tenant_id :: string
  tax_created_at :: string
  tax_authorization :: team_authorization_decision
  tax_audit_range :: team_audit_range
  tax_head_event_sha256 :: string
  tax_retention :: team_retention_requirement
  tax_events :: "team_audit_event list"

record team_audit_verification =
  tav_schema_version :: string
  tav_verifier_version :: string
  tav_status :: string
  tav_checked_at :: string
  tav_export :: team_document_subject
  tav_export_id :: string
  tav_tenant_id :: string
  tav_audit_range :: team_audit_range
  tav_head_event_sha256 :: string
  tav_retention :: team_retention_requirement
  tav_exporter :: team_principal
  tav_policy :: team_policy_subject

subsection \<open>Rendering\<close>

definition team_subject_to_json :: "team_document_subject \<Rightarrow> json" where
  "team_subject_to_json s = JObj
     [(''media_type'', JStr (tds_media_type s)), (''sha256'', JStr (tds_sha256 s)), (''byte_count'', JInt (tds_byte_count s))]"

definition team_retention_to_json :: "team_retention_requirement \<Rightarrow> json" where
  "team_retention_to_json r = JObj
     [(''class_id'', JStr (trr_class_id r)), (''retain_until'', JStr (trr_retain_until r))]"

definition optional_text :: "string option \<Rightarrow> json" where
  "optional_text v = (case v of None \<Rightarrow> JNull | Some s \<Rightarrow> JStr s)"

definition audit_entry_to_json :: "team_audit_entry \<Rightarrow> json" where
  "audit_entry_to_json e = JObj
     [(''event_id'', JStr (tae_event_id e)), (''tenant_id'', JStr (tae_tenant_id e)), (''sequence'', JInt (tae_sequence e)),
      (''occurred_at'', JStr (tae_occurred_at e)), (''authorization'', authorization_to_json (tae_authorization e)),
      (''outcome'', JStr (team_audit_outcome_value (tae_outcome e))), (''payload'', team_subject_to_json (tae_payload e)),
      (''retention'', team_retention_to_json (tae_retention e)),
      (''previous_event_sha256'', optional_text (tae_previous_event_sha256 e))]"

definition audit_event_to_json :: "team_audit_event \<Rightarrow> json" where
  "audit_event_to_json e = JObj
     [(''schema_version'', JStr (tev_schema_version e)), (''entry'', audit_entry_to_json (tev_entry e)),
      (''event_sha256'', JStr (tev_event_sha256 e))]"

definition audit_range_to_json :: "team_audit_range \<Rightarrow> json" where
  "audit_range_to_json r = JObj
     [(''first_sequence'', JInt (tar_first_sequence r)), (''last_sequence'', JInt (tar_last_sequence r)),
      (''event_count'', JInt (tar_event_count r))]"

definition audit_export_to_json :: "team_audit_export \<Rightarrow> json" where
  "audit_export_to_json x = JObj
     [(''schema_version'', JStr (tax_schema_version x)), (''export_id'', JStr (tax_export_id x)),
      (''tenant_id'', JStr (tax_tenant_id x)), (''created_at'', JStr (tax_created_at x)),
      (''authorization'', authorization_to_json (tax_authorization x)),
      (''audit_range'', audit_range_to_json (tax_audit_range x)),
      (''head_event_sha256'', JStr (tax_head_event_sha256 x)), (''retention'', team_retention_to_json (tax_retention x)),
      (''events'', JArr (map audit_event_to_json (tax_events x)))]"

definition audit_verification_to_json :: "team_audit_verification \<Rightarrow> json" where
  "audit_verification_to_json v = JObj
     [(''schema_version'', JStr (tav_schema_version v)), (''verifier_version'', JStr (tav_verifier_version v)),
      (''status'', JStr (tav_status v)), (''checked_at'', JStr (tav_checked_at v)),
      (''export'', team_subject_to_json (tav_export v)), (''export_id'', JStr (tav_export_id v)),
      (''tenant_id'', JStr (tav_tenant_id v)), (''audit_range'', audit_range_to_json (tav_audit_range v)),
      (''head_event_sha256'', JStr (tav_head_event_sha256 v)), (''retention'', team_retention_to_json (tav_retention v)),
      (''exporter'', principal_to_json (tav_exporter v)), (''policy'', policy_subject_to_json (tav_policy v))]"

subsection \<open>Events\<close>

abbreviation event_name :: string where "event_name \<equiv> ''Team audit event''"

definition team_document_subject_of :: "nat \<Rightarrow> string \<Rightarrow> string \<Rightarrow> json \<Rightarrow> team_error + team_document_subject" where
  \<comment> \<open>\<open>_parse_document_subject\<close>\<close>
  "team_document_subject_of maximum_bytes name path v =
     (let err = Team_invalid name in
     attempt (wire_object err path [''media_type'', ''sha256'', ''byte_count''] [] v) (\<lambda>obj.
     attempt (team_string name 255 (Some media_type_ok) (sub path ''media_type'') (jget obj ''media_type'')) (\<lambda>media_type.
     attempt (team_sha256 name (sub path ''sha256'') (jget obj ''sha256'')) (\<lambda>sha256.
     attempt (wire_integer err 1 (Some (int maximum_bytes)) (sub path ''byte_count'') (jget obj ''byte_count'')) (\<lambda>byte_count.
     Inr \<lparr>tds_media_type = media_type, tds_sha256 = sha256, tds_byte_count = byte_count\<rparr>)))))"

definition parse_retention_requirement :: "string \<Rightarrow> string \<Rightarrow> json \<Rightarrow> team_error + team_retention_requirement" where
  "parse_retention_requirement name path v =
     attempt (wire_object (Team_invalid name) path [''class_id'', ''retain_until''] [] v) (\<lambda>obj.
     attempt (team_id name (sub path ''class_id'') (jget obj ''class_id'')) (\<lambda>class_id.
     attempt (team_timestamp name (sub path ''retain_until'') (jget obj ''retain_until'')) (\<lambda>retain_until.
     Inr \<lparr>trr_class_id = class_id, trr_retain_until = retain_until\<rparr>)))"

definition event_digest :: "library \<Rightarrow> team_audit_entry \<Rightarrow> string" where
  "event_digest lib entry = lib_sha256 lib (utf8_bytes (canonical_json (\<lambda>_. []) (audit_entry_to_json entry)))"

definition parse_previous :: "string \<Rightarrow> string \<Rightarrow> int \<Rightarrow> json \<Rightarrow> team_error + string option" where
  "parse_previous name path sequence v =
     attempt (if v = JNull then Inr None else attempt (team_sha256 name path v) (\<lambda>s. Inr (Some s))) (\<lambda>previous.
     attempt (ensure (\<not> (sequence = 1 \<and> previous \<noteq> None)) (Team_invalid name path ''the first event must use null'')) (\<lambda>_.
     attempt (ensure (\<not> (1 < sequence \<and> previous = None))
                (Team_invalid name path ''a non-genesis event must reference its predecessor'')) (\<lambda>_.
     Inr previous)))"

definition check_event_outcome :: "string \<Rightarrow> string \<Rightarrow> bool \<Rightarrow> team_audit_outcome \<Rightarrow> team_error + unit" where
  "check_event_outcome name path authorized outcome =
     attempt (ensure (\<not> (authorized \<and> outcome = TeamAuditOutcome_DENIED))
                (Team_invalid name path ''an authorized action must use succeeded or failed'')) (\<lambda>_.
     ensure (\<not> (\<not> authorized \<and> outcome \<noteq> TeamAuditOutcome_DENIED))
       (Team_invalid name path ''an unauthorized action must use denied''))"

definition check_event_times ::
  "string \<Rightarrow> string \<Rightarrow> string \<Rightarrow> team_authorization_decision \<Rightarrow> team_error + unit" where
  "check_event_times name path occurred_at authorization =
     (let age = timestamp_value occurred_at - timestamp_value (tad_decided_at authorization) in
     attempt (ensure (0 \<le> age) (Team_invalid name path ''must not precede the authorization decision'')) (\<lambda>_.
     ensure (age \<le> MAX_TEAM_AUTHORIZATION_AGE_SECONDS * 1000000)
       (Team_invalid name path ''authorization decision is too old for this event'')))"

definition entry_keys :: "string list" where
  "entry_keys =
     [''event_id'', ''tenant_id'', ''sequence'', ''occurred_at'', ''authorization'', ''outcome'', ''payload'', ''retention'',
      ''previous_event_sha256'']"

definition parse_audit_entry :: "string \<Rightarrow> string \<Rightarrow> json \<Rightarrow> team_error + team_audit_entry" where
  "parse_audit_entry name path v =
     (let err = Team_invalid name in
     attempt (wire_object err path entry_keys [] v) (\<lambda>obj.
     attempt (wire_integer err 1 None (sub path ''sequence'') (jget obj ''sequence'')) (\<lambda>sequence.
     attempt (parse_previous name (sub path ''previous_event_sha256'') sequence (jget obj ''previous_event_sha256'')) (\<lambda>previous.
     attempt (parse_team_authorization (jget obj ''authorization'')) (\<lambda>authorization.
     attempt (team_id name (sub path ''tenant_id'') (jget obj ''tenant_id'')) (\<lambda>tenant_id.
     attempt (ensure (tad_tenant_id authorization = tenant_id)
                (err (sub path ''authorization.tenant_id'') ''must match the event tenant'')) (\<lambda>_.
     attempt (team_enum name team_audit_outcome_value team_audit_outcome_members (sub path ''outcome'')
                (jget obj ''outcome'')) (\<lambda>outcome.
     attempt (check_event_outcome name (sub path ''outcome'') (tad_authorized authorization) outcome) (\<lambda>_.
     attempt (team_timestamp name (sub path ''occurred_at'') (jget obj ''occurred_at'')) (\<lambda>occurred_at.
     attempt (check_event_times name (sub path ''occurred_at'') occurred_at authorization) (\<lambda>_.
     attempt (parse_retention_requirement name (sub path ''retention'') (jget obj ''retention'')) (\<lambda>retention.
     attempt (ensure (timestamp_value occurred_at < timestamp_value (trr_retain_until retention))
                (err (sub path ''retention.retain_until'') ''must be later than the event time'')) (\<lambda>_.
     attempt (team_id name (sub path ''event_id'') (jget obj ''event_id'')) (\<lambda>event_id.
     attempt (team_document_subject_of MAX_TEAM_AUDIT_PAYLOAD_BYTES name (sub path ''payload'') (jget obj ''payload'')) (\<lambda>payload.
     Inr \<lparr>tae_event_id = event_id, tae_tenant_id = tenant_id, tae_sequence = sequence, tae_occurred_at = occurred_at,
          tae_authorization = authorization, tae_outcome = outcome, tae_payload = payload, tae_retention = retention,
          tae_previous_event_sha256 = previous\<rparr>)))))))))))))))"

definition parse_audit_event :: "library \<Rightarrow> string \<Rightarrow> string \<Rightarrow> json \<Rightarrow> team_error + team_audit_event" where
  "parse_audit_event lib path name v =
     (let err = Team_invalid name in
     attempt (wire_object err path [''schema_version'', ''entry'', ''event_sha256''] [] v) (\<lambda>obj.
     attempt (ensure (jget obj ''schema_version'' = JStr TEAM_AUDIT_EVENT_SCHEMA_VERSION)
                (err (sub path ''schema_version'') (''expected '' @ TEAM_AUDIT_EVENT_SCHEMA_VERSION))) (\<lambda>_.
     attempt (parse_audit_entry name (sub path ''entry'') (jget obj ''entry'')) (\<lambda>entry.
     attempt (team_sha256 name (sub path ''event_sha256'') (jget obj ''event_sha256'')) (\<lambda>event_sha256.
     attempt (ensure (event_sha256 = event_digest lib entry)
                (err (sub path ''event_sha256'') ''does not match the canonical audit entry'')) (\<lambda>_.
     Inr \<lparr>tev_schema_version = TEAM_AUDIT_EVENT_SCHEMA_VERSION, tev_entry = entry, tev_event_sha256 = event_sha256\<rparr>))))))"

definition parse_team_audit_event :: "library \<Rightarrow> json \<Rightarrow> team_error + team_audit_event" where
  "parse_team_audit_event lib document = parse_audit_event lib ''$'' event_name document"

definition parse_team_audit_event_bytes :: "library \<Rightarrow> string \<Rightarrow> team_error + team_audit_event" where
  "parse_team_audit_event_bytes lib raw_bytes =
     attempt (team_bytes_document lib MAX_TEAM_AUDIT_EVENT_BYTES event_name raw_bytes) (parse_team_audit_event lib)"

subsection \<open>Instants and retention\<close>

definition team_instant :: "string \<Rightarrow> team_error + py_datetime" where
  \<comment> \<open>\<open>_timestamp_value\<close> of a text that was not checked before\<close>
  "team_instant s = (case fromisoformat (zulu_to_offset s) of
     None \<Rightarrow> Inl (Team_isoformat_error s) | Some t \<Rightarrow> Inr t)"

definition plus_days :: "py_datetime \<Rightarrow> int \<Rightarrow> team_error + py_datetime" where
  \<comment> \<open>\<open>t + timedelta(days=n)\<close>\<close>
  "plus_days t n = (if dt_ordinal t + n < 3652060 then Inr (t\<lparr>dt_ordinal := dt_ordinal t + n\<rparr>) else Inl Team_overflow)"

definition aware :: "py_datetime \<Rightarrow> bool" where "aware t \<longleftrightarrow> dt_offset t \<noteq> None"

definition compare_instants :: "py_datetime \<Rightarrow> py_datetime \<Rightarrow> team_error + bool" where
  \<comment> \<open>\<open>a < b\<close>\<close>
  "compare_instants a b = attempt (ensure (aware a = aware b) Team_type_error) (\<lambda>_. Inr (utc_microseconds a < utc_microseconds b))"

definition team_utc_timestamp :: "py_datetime \<Rightarrow> team_error + string" where
  "team_utc_timestamp t =
     attempt (ensure (aware t) (Team_value_error ''timestamp must include a timezone'')) (\<lambda>_.
     case utc_timestamp (utc_microseconds t) of None \<Rightarrow> Inl Team_overflow | Some s \<Rightarrow> Inr s)"

definition retention_class :: "team_access_policy \<Rightarrow> string \<Rightarrow> team_error + team_retention_class" where
  "retention_class policy class_id =
     (case find (\<lambda>c. trc_class_id c = class_id) (tap_retention_classes policy) of Some c \<Rightarrow> Inr c
      | None \<Rightarrow> Inl (Team_invalid event_name ''$.entry.retention.class_id''
          ''must reference a retention class in the bound access policy''))"

definition validate_retention_floor ::
  "string \<Rightarrow> string \<Rightarrow> team_retention_class \<Rightarrow> string \<Rightarrow> string \<Rightarrow> team_error + unit" where
  "validate_retention_floor occurred_at retain_until c name path =
     (let minimum = timestamp_value occurred_at + trc_minimum_days c * 86400 * 1000000 in
     attempt (ensure (minimum < past_instant) Team_overflow) (\<lambda>_.
     ensure (minimum \<le> timestamp_value retain_until)
       (Team_invalid name path (''must retain for at least '' @ dec_int (trc_minimum_days c) @ '' day(s)''))))"

subsection \<open>Creating and verifying one event\<close>

definition next_sequence :: "team_audit_event option \<Rightarrow> int" where
  "next_sequence previous = (case previous of None \<Rightarrow> 1 | Some p \<Rightarrow> tae_sequence (tev_entry p) + 1)"

definition given_predecessor ::
  "library \<Rightarrow> team_access_policy \<Rightarrow> string \<Rightarrow> string option \<Rightarrow> team_error + team_audit_event option" where
  \<comment> \<open>the predecessor given as bytes, of the same tenant and not later than the event\<close>
  "given_predecessor lib policy event_time raw =
     (case raw of None \<Rightarrow> Inr None
      | Some raw_bytes \<Rightarrow>
          attempt (parse_team_audit_event_bytes lib raw_bytes) (\<lambda>previous.
          attempt (ensure (tae_tenant_id (tev_entry previous) = tap_tenant_id policy)
             (Team_invalid event_name ''$.entry.tenant_id'' ''predecessor belongs to a different tenant'')) (\<lambda>_.
          attempt (team_instant event_time) (\<lambda>t.
          attempt (team_instant (tae_occurred_at (tev_entry previous))) (\<lambda>p.
          attempt (compare_instants t p) (\<lambda>earlier.
          attempt (ensure (\<not> earlier)
             (Team_invalid event_name ''$.entry.occurred_at'' ''must not precede the previous event'')) (\<lambda>_.
          Inr (Some previous))))))))"

record audit_event_request =
  aer_payload_media_type :: string
  aer_event_id :: string
  aer_outcome :: string
  aer_occurred_at :: "string option"
  aer_retention_class_id :: "string option"
  aer_retain_until :: "string option"
  aer_previous_event_bytes :: "string option"

definition create_team_audit_event ::
  "library \<Rightarrow> string \<Rightarrow> string \<Rightarrow> string \<Rightarrow> string \<Rightarrow> audit_event_request \<Rightarrow> team_error + team_audit_event" where
  "create_team_audit_event lib now policy_bytes authorization_bytes payload_bytes q =
     attempt (ensure (1 \<le> length payload_bytes \<and> length payload_bytes \<le> MAX_TEAM_AUDIT_PAYLOAD_BYTES)
       (Team_invalid event_name ''$.entry.payload.byte_count''
          (''expected from 1 to '' @ dec_nat MAX_TEAM_AUDIT_PAYLOAD_BYTES @ '' bytes''))) (\<lambda>_.
     attempt (parse_team_access_policy_bytes lib policy_bytes) (\<lambda>policy.
     attempt (parse_team_authorization_bytes lib authorization_bytes) (\<lambda>decision.
     attempt (verify_team_authorization lib policy_bytes decision) (\<lambda>authorization.
     let event_time = or_fallback now (aer_occurred_at q) in
     attempt (enum_argument ''TeamAuditOutcome'' team_audit_outcome_value team_audit_outcome_members (aer_outcome q))
       (\<lambda>outcome_value.
     attempt (given_predecessor lib policy event_time (aer_previous_event_bytes q)) (\<lambda>previous.
     let selected_class_id = or_fallback (tap_default_retention_class_id policy) (aer_retention_class_id q) in
     attempt (retention_class policy selected_class_id) (\<lambda>selected_class.
     attempt (team_instant event_time) (\<lambda>t.
     attempt (plus_days t (trc_minimum_days selected_class)) (\<lambda>minimum.
     attempt (team_utc_timestamp minimum) (\<lambda>minimum_retain_until.
     let entry = \<lparr>tae_event_id = aer_event_id q, tae_tenant_id = tap_tenant_id policy,
           tae_sequence = next_sequence previous, tae_occurred_at = event_time, tae_authorization = authorization,
           tae_outcome = outcome_value,
           tae_payload = \<lparr>tds_media_type = aer_payload_media_type q, tds_sha256 = lib_sha256 lib payload_bytes,
              tds_byte_count = int (length payload_bytes)\<rparr>,
           tae_retention = \<lparr>trr_class_id = selected_class_id,
              trr_retain_until = or_fallback minimum_retain_until (aer_retain_until q)\<rparr>,
           tae_previous_event_sha256 = map_option tev_event_sha256 previous\<rparr> in
     attempt (parse_team_audit_event lib (audit_event_to_json
        \<lparr>tev_schema_version = TEAM_AUDIT_EVENT_SCHEMA_VERSION, tev_entry = entry,
         tev_event_sha256 = event_digest lib entry\<rparr>)) (\<lambda>event.
     attempt (validate_retention_floor (tae_occurred_at (tev_entry event)) (trr_retain_until (tae_retention (tev_entry event)))
        selected_class event_name ''$.entry.retention.retain_until'') (\<lambda>_.
     Inr event))))))))))))"

definition check_predecessor :: "library \<Rightarrow> team_audit_event \<Rightarrow> team_audit_event option \<Rightarrow> team_error + unit" where
  "check_predecessor lib validated previous_event =
     (let entry = tev_entry validated; err = Team_invalid event_name in
      case previous_event of
        None \<Rightarrow> ensure (tae_sequence entry = 1 \<and> tae_previous_event_sha256 entry = None)
          (err ''$.entry.sequence'' ''a missing predecessor is valid only for the genesis event'')
      | Some given \<Rightarrow>
          attempt (parse_team_audit_event lib (audit_event_to_json given)) (\<lambda>previous.
          attempt (ensure (tae_tenant_id (tev_entry previous) = tae_tenant_id entry)
             (err ''$.entry.tenant_id'' ''predecessor belongs to a different tenant'')) (\<lambda>_.
          attempt (ensure (tae_sequence entry = tae_sequence (tev_entry previous) + 1)
             (err ''$.entry.sequence'' ''must immediately follow the predecessor sequence'')) (\<lambda>_.
          attempt (ensure (tae_previous_event_sha256 entry = Some (tev_event_sha256 previous))
             (err ''$.entry.previous_event_sha256'' ''does not match the predecessor event'')) (\<lambda>_.
          ensure (timestamp_value (tae_occurred_at (tev_entry previous)) \<le> timestamp_value (tae_occurred_at entry))
             (err ''$.entry.occurred_at'' ''must not precede the previous event''))))))"

definition verify_team_audit_event ::
  "library \<Rightarrow> string \<Rightarrow> team_audit_event \<Rightarrow> team_audit_event option \<Rightarrow> team_error + team_audit_event" where
  "verify_team_audit_event lib policy_bytes event previous_event =
     attempt (parse_team_access_policy_bytes lib policy_bytes) (\<lambda>policy.
     attempt (parse_team_audit_event lib (audit_event_to_json event)) (\<lambda>validated.
     attempt (verify_team_authorization lib policy_bytes (tae_authorization (tev_entry validated))) (\<lambda>_.
     attempt (ensure (tae_tenant_id (tev_entry validated) = tap_tenant_id policy)
        (Team_authorization_failed ''tenant_mismatch'' ''the event tenant does not match the access policy'')) (\<lambda>_.
     attempt (retention_class policy (trr_class_id (tae_retention (tev_entry validated)))) (\<lambda>c.
     attempt (validate_retention_floor (tae_occurred_at (tev_entry validated))
        (trr_retain_until (tae_retention (tev_entry validated))) c event_name ''$.entry.retention.retain_until'') (\<lambda>_.
     attempt (check_predecessor lib validated previous_event) (\<lambda>_.
     Inr validated)))))))"

subsection \<open>Chains and exports\<close>

abbreviation export_name :: string where "export_name \<equiv> ''Team audit export''"

definition check_link :: "string \<Rightarrow> team_audit_event option \<Rightarrow> team_audit_event \<Rightarrow> team_error + unit" where
  \<comment> \<open>the first event has sequence 1; a later one follows its predecessor\<close>
  "check_link path previous validated =
     (let entry = tev_entry validated; err = (\<lambda>field. Team_invalid export_name (sub path field)) in
      case previous of
        None \<Rightarrow> ensure (tae_sequence entry = 1) (err ''entry.sequence'' ''a full export must begin at sequence 1'')
      | Some p \<Rightarrow>
          attempt (ensure (tae_sequence entry = tae_sequence (tev_entry p) + 1)
             (err ''entry.sequence'' ''event sequences must be contiguous'')) (\<lambda>_.
          attempt (ensure (tae_previous_event_sha256 entry = Some (tev_event_sha256 p))
             (err ''entry.previous_event_sha256'' ''event chain does not match its predecessor'')) (\<lambda>_.
          ensure (timestamp_value (tae_occurred_at (tev_entry p)) \<le> timestamp_value (tae_occurred_at entry))
             (err ''entry.occurred_at'' ''event times must be nondecreasing''))))"

fun chain_loop ::
  "library \<Rightarrow> string \<Rightarrow> nat \<Rightarrow> string list \<Rightarrow> string list \<Rightarrow> team_audit_event option \<Rightarrow> team_audit_event list \<Rightarrow>
     team_error + unit" where
  "chain_loop lib tenant index event_ids decision_ids previous [] = Inr ()"
| "chain_loop lib tenant index event_ids decision_ids previous (event # events) =
     attempt (parse_team_audit_event lib (audit_event_to_json event)) (\<lambda>validated.
     let entry = tev_entry validated; path = at_index ''$.events'' index;
         decision_id = tad_decision_id (tae_authorization entry) in
     attempt (ensure (tae_tenant_id entry = tenant)
       (Team_invalid export_name (sub path ''entry.tenant_id'') ''all events must belong to the export tenant'')) (\<lambda>_.
     attempt (ensure (tae_event_id entry \<notin> set event_ids)
       (Team_invalid export_name (sub path ''entry.event_id'') ''event ids must be unique'')) (\<lambda>_.
     attempt (ensure (decision_id \<notin> set decision_ids)
       (Team_invalid export_name (sub path ''entry.authorization.decision_id'')
          ''authorization decision ids must be unique'')) (\<lambda>_.
     attempt (check_link path previous validated) (\<lambda>_.
     chain_loop lib tenant (Suc index) (tae_event_id entry # event_ids) (decision_id # decision_ids) (Some validated) events)))))"

definition validate_event_chain :: "library \<Rightarrow> string option \<Rightarrow> team_audit_event list \<Rightarrow> team_error + string" where
  "validate_event_chain lib tenant_id events =
     (if events = [] then Inl (Team_invalid export_name ''$.events'' ''must not be empty'')
      else let tenant = or_fallback (tae_tenant_id (tev_entry (hd events))) tenant_id in
           attempt (chain_loop lib tenant 0 [] [] None events) (\<lambda>_. Inr tenant))"

definition parse_audit_range :: "string \<Rightarrow> string \<Rightarrow> json \<Rightarrow> team_error + team_audit_range" where
  "parse_audit_range name path v =
     (let err = Team_invalid name in
     attempt (wire_object err path [''first_sequence'', ''last_sequence'', ''event_count''] [] v) (\<lambda>obj.
     attempt (wire_integer err 1 None (sub path ''first_sequence'') (jget obj ''first_sequence'')) (\<lambda>first_sequence.
     attempt (wire_integer err 1 None (sub path ''last_sequence'') (jget obj ''last_sequence'')) (\<lambda>last_sequence.
     attempt (wire_integer err 1 (Some (int MAX_TEAM_EXPORT_EVENTS)) (sub path ''event_count'') (jget obj ''event_count''))
       (\<lambda>event_count.
     Inr \<lparr>tar_first_sequence = first_sequence, tar_last_sequence = last_sequence, tar_event_count = event_count\<rparr>)))))"

definition range_of :: "team_audit_event list \<Rightarrow> team_audit_range" where
  "range_of events = \<lparr>tar_first_sequence = tae_sequence (tev_entry (hd events)),
     tar_last_sequence = tae_sequence (tev_entry (last events)), tar_event_count = int (length events)\<rparr>"

definition event_floor :: "team_audit_event list \<Rightarrow> int" where
  "event_floor events = Max (set (map (\<lambda>e. timestamp_value (trr_retain_until (tae_retention (tev_entry e)))) events))"

definition check_export_authorization ::
  "string \<Rightarrow> string \<Rightarrow> team_audit_event \<Rightarrow> string \<Rightarrow> team_authorization_decision \<Rightarrow> team_error + unit" where
  "check_export_authorization export_id tenant_id last_event created_at authorization =
     (let err = Team_invalid export_name;
          export_age = timestamp_value created_at - timestamp_value (tad_decided_at authorization) in
     attempt (ensure (timestamp_value (tae_occurred_at (tev_entry last_event)) \<le> timestamp_value (tad_decided_at authorization))
        (err ''$.authorization.decided_at'' ''must not precede the final exported event'')) (\<lambda>_.
     attempt (ensure (0 \<le> export_age) (err ''$.created_at'' ''must not precede the export authorization'')) (\<lambda>_.
     ensure (export_age \<le> MAX_TEAM_AUTHORIZATION_AGE_SECONDS * 1000000)
        (err ''$.created_at'' ''export authorization is too old''))))"

definition authorizes_export :: "string \<Rightarrow> team_authorization_decision \<Rightarrow> bool" where
  "authorizes_export export_id d \<longleftrightarrow> tad_authorized d \<and> tad_action d = TeamAction_AUDIT_EXPORT
     \<and> tr_resource_type (tad_resource d) = TeamResourceType_AUDIT_EXPORT \<and> tr_resource_id (tad_resource d) = export_id"

definition export_keys :: "string list" where
  "export_keys =
     [''schema_version'', ''export_id'', ''tenant_id'', ''created_at'', ''authorization'', ''audit_range'',
      ''head_event_sha256'', ''retention'', ''events'']"

definition parse_team_audit_export :: "library \<Rightarrow> json \<Rightarrow> team_error + team_audit_export" where
  "parse_team_audit_export lib document =
     (let name = export_name; err = Team_invalid name in
     attempt (wire_object err ''$'' export_keys [] document) (\<lambda>rt.
     attempt (ensure (jget rt ''schema_version'' = JStr TEAM_AUDIT_EXPORT_SCHEMA_VERSION)
        (err ''$.schema_version'' (''expected '' @ TEAM_AUDIT_EXPORT_SCHEMA_VERSION))) (\<lambda>_.
     attempt (team_id name ''$.tenant_id'' (jget rt ''tenant_id'')) (\<lambda>tenant_id.
     attempt (wire_array err 1 MAX_TEAM_EXPORT_EVENTS ''$.events'' (jget rt ''events'')) (\<lambda>events_values.
     attempt (each (\<lambda>index. parse_audit_event lib (at_index ''$.events'' index) name) 0 events_values) (\<lambda>events.
     attempt (validate_event_chain lib (Some tenant_id) events) (\<lambda>_.
     attempt (team_id name ''$.export_id'' (jget rt ''export_id'')) (\<lambda>export_id.
     attempt (parse_team_authorization (jget rt ''authorization'')) (\<lambda>authorization.
     attempt (ensure (authorizes_export export_id authorization)
        (err ''$.authorization'' ''must be an authorized audit_export decision for this export id'')) (\<lambda>_.
     attempt (ensure (tad_tenant_id authorization = tenant_id)
        (err ''$.authorization.tenant_id'' ''must match the export tenant'')) (\<lambda>_.
     attempt (team_timestamp name ''$.created_at'' (jget rt ''created_at'')) (\<lambda>created_at.
     attempt (check_export_authorization export_id tenant_id (last events) created_at authorization) (\<lambda>_.
     attempt (parse_audit_range name ''$.audit_range'' (jget rt ''audit_range'')) (\<lambda>audit_range.
     attempt (ensure (audit_range = range_of events)
        (err ''$.audit_range'' ''does not match the exported event sequence'')) (\<lambda>_.
     attempt (team_sha256 name ''$.head_event_sha256'' (jget rt ''head_event_sha256'')) (\<lambda>head_event_sha256.
     attempt (ensure (head_event_sha256 = tev_event_sha256 (last events))
        (err ''$.head_event_sha256'' ''does not match the final exported event'')) (\<lambda>_.
     attempt (parse_retention_requirement name ''$.retention'' (jget rt ''retention'')) (\<lambda>retention.
     attempt (ensure (event_floor events \<le> timestamp_value (trr_retain_until retention))
        (err ''$.retention.retain_until'' ''must not expire before any contained event'')) (\<lambda>_.
     Inr \<lparr>tax_schema_version = TEAM_AUDIT_EXPORT_SCHEMA_VERSION, tax_export_id = export_id, tax_tenant_id = tenant_id,
          tax_created_at = created_at, tax_authorization = authorization, tax_audit_range = audit_range,
          tax_head_event_sha256 = head_event_sha256, tax_retention = retention, tax_events = events\<rparr>)))))))))))))))))))"

definition parse_team_audit_export_bytes :: "library \<Rightarrow> string \<Rightarrow> team_error + team_audit_export" where
  "parse_team_audit_export_bytes lib raw_bytes =
     attempt (team_bytes_document lib MAX_TEAM_AUDIT_EXPORT_BYTES export_name raw_bytes) (parse_team_audit_export lib)"

definition export_deadline :: "py_datetime \<Rightarrow> int \<Rightarrow> team_error + string" where
  \<comment> \<open>\<open>utc_timestamp(max(policy_floor, event_floor))\<close>; the second is an aware time\<close>
  "export_deadline policy_floor events_floor =
     attempt (ensure (aware policy_floor) Team_type_error) (\<lambda>_.
     case utc_timestamp (max (utc_microseconds policy_floor) events_floor) of
       None \<Rightarrow> Inl Team_overflow | Some s \<Rightarrow> Inr s)"

definition create_team_audit_export ::
  "library \<Rightarrow> (json \<Rightarrow> string) \<Rightarrow> string \<Rightarrow> string \<Rightarrow> string \<Rightarrow> string list \<Rightarrow> string \<Rightarrow> string \<Rightarrow> string option \<Rightarrow>
     team_error + team_audit_export" where
  \<comment> \<open>the second argument is \<open>json.dumps(..., indent=2)\<close>\<close>
  "create_team_audit_export lib dumps now policy_bytes authorization_bytes event_bytes export_id authoritative_head_sha256
     created_at =
     (let err = Team_invalid export_name in
     attempt (ensure (1 \<le> length event_bytes \<and> length event_bytes \<le> MAX_TEAM_EXPORT_EVENTS)
        (err ''$.events'' (''expected from 1 to '' @ dec_nat MAX_TEAM_EXPORT_EVENTS @ '' event(s)''))) (\<lambda>_.
     attempt (parse_team_access_policy_bytes lib policy_bytes) (\<lambda>policy.
     attempt (parse_team_authorization_bytes lib authorization_bytes) (\<lambda>decision.
     attempt (verify_team_authorization lib policy_bytes decision) (\<lambda>authorization.
     attempt (each (\<lambda>_. parse_team_audit_event_bytes lib) 0 event_bytes) (\<lambda>events.
     attempt (validate_event_chain lib (Some (tap_tenant_id policy)) events) (\<lambda>_.
     attempt (team_sha256 export_name ''$.head_event_sha256'' (JStr authoritative_head_sha256)) (\<lambda>expected_head.
     attempt (ensure (tev_event_sha256 (last events) = expected_head)
        (err ''$.head_event_sha256'' ''event list does not end at the authoritative tenant head'')) (\<lambda>_.
     let creation_time = or_fallback now created_at in
     attempt (retention_class policy (tap_default_retention_class_id policy)) (\<lambda>default_retention.
     attempt (team_instant creation_time) (\<lambda>t.
     attempt (plus_days t (trc_minimum_days default_retention)) (\<lambda>policy_floor.
     attempt (export_deadline policy_floor (event_floor events)) (\<lambda>retention_deadline.
     attempt (parse_team_audit_export lib (audit_export_to_json
        \<lparr>tax_schema_version = TEAM_AUDIT_EXPORT_SCHEMA_VERSION, tax_export_id = export_id,
         tax_tenant_id = tap_tenant_id policy, tax_created_at = creation_time, tax_authorization = authorization,
         tax_audit_range = range_of events, tax_head_event_sha256 = expected_head,
         tax_retention = \<lparr>trr_class_id = trc_class_id default_retention, trr_retain_until = retention_deadline\<rparr>,
         tax_events = events\<rparr>)) (\<lambda>validated.
     attempt (ensure (length (utf8_bytes (dumps (audit_export_to_json validated) @ [CHR 0x0A])) \<le> MAX_TEAM_AUDIT_EXPORT_BYTES)
        (err ''$'' (''rendered export exceeds '' @ dec_nat MAX_TEAM_AUDIT_EXPORT_BYTES @ '' bytes''))) (\<lambda>_.
     Inr validated)))))))))))))))"

fun as_audit_failure :: "string \<Rightarrow> team_error \<Rightarrow> team_error" where
  \<comment> \<open>\<open>except TeamValidationError as exc: raise TeamAuditVerificationError(code, str(exc))\<close>\<close>
  "as_audit_failure code (Team_invalid n p m) = Team_audit_failed code (team_error_text (Team_invalid n p m))"
| "as_audit_failure code e = e"

fun as_authorization_failure :: "team_error \<Rightarrow> team_error" where
  \<comment> \<open>\<open>except (TeamAuthorizationError, TeamValidationError)\<close>\<close>
  "as_authorization_failure (Team_authorization_failed c m) =
     Team_audit_failed ''authorization_invalid'' (team_error_text (Team_authorization_failed c m))"
| "as_authorization_failure e = as_audit_failure ''authorization_invalid'' e"

definition handling :: "('e \<Rightarrow> 'e) \<Rightarrow> 'e + 'a \<Rightarrow> 'e + 'a" where "handling f = map_sum f id"

definition verify_team_audit_export ::
  "library \<Rightarrow> string \<Rightarrow> string \<Rightarrow> string \<Rightarrow> string option \<Rightarrow> int \<Rightarrow> team_error + team_audit_verification" where
  "verify_team_audit_export lib now export_bytes policy_bytes checked_at clock_skew_seconds =
     attempt (ensure (0 \<le> clock_skew_seconds \<and> clock_skew_seconds \<le> 3600)
        (Team_value_error ''clock_skew_seconds must be an integer from 0 to 3600'')) (\<lambda>_.
     attempt (handling (as_audit_failure ''export_invalid'') (parse_team_audit_export_bytes lib export_bytes)) (\<lambda>export.
     attempt (handling as_authorization_failure (verify_team_authorization lib policy_bytes (tax_authorization export)))
       (\<lambda>authorization.
     attempt (handling as_authorization_failure (parse_team_access_policy_bytes lib policy_bytes)) (\<lambda>policy.
     attempt (ensure (tap_tenant_id policy = tax_tenant_id export)
        (Team_audit_failed ''tenant_mismatch'' ''the export tenant does not match the supplied access policy'')) (\<lambda>_.
     attempt (retention_class policy (trr_class_id (tax_retention export))) (\<lambda>c.
     attempt (handling (as_audit_failure ''retention_invalid'')
        (validate_retention_floor (tax_created_at export) (trr_retain_until (tax_retention export)) c export_name
           ''$.retention.retain_until'')) (\<lambda>_.
     attempt (handling (as_audit_failure ''time_invalid'')
        (team_timestamp ''Team audit verification'' ''$.checked_at'' (JStr (or_fallback now checked_at)))) (\<lambda>checked.
     let latest = timestamp_value checked + clock_skew_seconds * 1000000 in
     attempt (ensure (latest < past_instant) Team_overflow) (\<lambda>_.
     attempt (ensure (timestamp_value (tax_created_at export) \<le> latest)
        (Team_audit_failed ''export_from_future'' ''the export creation time is beyond the allowed clock skew'')) (\<lambda>_.
     Inr \<lparr>tav_schema_version = TEAM_AUDIT_VERIFICATION_SCHEMA_VERSION, tav_verifier_version = PACKAGE_VERSION,
          tav_status = ''verified'', tav_checked_at = checked,
          tav_export = \<lparr>tds_media_type = AUDIT_EXPORT_MEDIA_TYPE, tds_sha256 = lib_sha256 lib export_bytes,
             tds_byte_count = int (length export_bytes)\<rparr>,
          tav_export_id = tax_export_id export, tav_tenant_id = tax_tenant_id export,
          tav_audit_range = tax_audit_range export, tav_head_event_sha256 = tax_head_event_sha256 export,
          tav_retention = tax_retention export, tav_exporter = tad_principal authorization,
          tav_policy = tad_policy authorization\<rparr>))))))))))"

definition audit_verification_keys :: "string list" where
  "audit_verification_keys =
     [''schema_version'', ''verifier_version'', ''status'', ''checked_at'', ''export'', ''export_id'', ''tenant_id'',
      ''audit_range'', ''head_event_sha256'', ''retention'', ''exporter'', ''policy'']"

definition parse_team_audit_verification :: "json \<Rightarrow> team_error + team_audit_verification" where
  "parse_team_audit_verification document =
     (let name = ''Team audit verification''; err = Team_invalid name in
     attempt (wire_object err ''$'' audit_verification_keys [] document) (\<lambda>rt.
     attempt (ensure (jget rt ''schema_version'' = JStr TEAM_AUDIT_VERIFICATION_SCHEMA_VERSION)
        (err ''$.schema_version'' (''expected '' @ TEAM_AUDIT_VERIFICATION_SCHEMA_VERSION))) (\<lambda>_.
     attempt (team_string name 16 None ''$.status'' (jget rt ''status'')) (\<lambda>status.
     attempt (ensure (status = ''verified'') (err ''$.status'' ''expected verified'')) (\<lambda>_.
     attempt (team_document_subject_of MAX_TEAM_AUDIT_EXPORT_BYTES name ''$.export'' (jget rt ''export'')) (\<lambda>export.
     attempt (ensure (tds_media_type export = AUDIT_EXPORT_MEDIA_TYPE)
        (err ''$.export.media_type'' (''expected '' @ AUDIT_EXPORT_MEDIA_TYPE))) (\<lambda>_.
     attempt (parse_audit_range name ''$.audit_range'' (jget rt ''audit_range'')) (\<lambda>audit_range.
     attempt (ensure (tar_last_sequence audit_range - tar_first_sequence audit_range + 1 = tar_event_count audit_range)
        (err ''$.audit_range'' ''sequence bounds do not match event_count'')) (\<lambda>_.
     attempt (team_string name 64 (Some team_id_ok) ''$.verifier_version'' (jget rt ''verifier_version'')) (\<lambda>verifier_version.
     attempt (team_timestamp name ''$.checked_at'' (jget rt ''checked_at'')) (\<lambda>checked_at.
     attempt (team_id name ''$.export_id'' (jget rt ''export_id'')) (\<lambda>export_id.
     attempt (team_id name ''$.tenant_id'' (jget rt ''tenant_id'')) (\<lambda>tenant_id.
     attempt (team_sha256 name ''$.head_event_sha256'' (jget rt ''head_event_sha256'')) (\<lambda>head_event_sha256.
     attempt (parse_retention_requirement name ''$.retention'' (jget rt ''retention'')) (\<lambda>retention.
     attempt (parse_principal name ''$.exporter'' (jget rt ''exporter'')) (\<lambda>exporter.
     attempt (parse_policy_subject name ''$.policy'' (jget rt ''policy'')) (\<lambda>policy.
     Inr \<lparr>tav_schema_version = TEAM_AUDIT_VERIFICATION_SCHEMA_VERSION, tav_verifier_version = verifier_version,
          tav_status = status, tav_checked_at = checked_at, tav_export = export, tav_export_id = export_id,
          tav_tenant_id = tenant_id, tav_audit_range = audit_range, tav_head_event_sha256 = head_event_sha256,
          tav_retention = retention, tav_exporter = exporter, tav_policy = policy\<rparr>)))))))))))))))))"

definition render_team_audit_event :: "library \<Rightarrow> (json \<Rightarrow> string) \<Rightarrow> team_audit_event \<Rightarrow> team_error + string" where
  "render_team_audit_event lib dumps e =
     attempt (parse_team_audit_event lib (audit_event_to_json e)) (\<lambda>v. Inr (dumps (audit_event_to_json v) @ [CHR 0x0A]))"

definition render_team_audit_export :: "library \<Rightarrow> (json \<Rightarrow> string) \<Rightarrow> team_audit_export \<Rightarrow> team_error + string" where
  "render_team_audit_export lib dumps x =
     attempt (parse_team_audit_export lib (audit_export_to_json x)) (\<lambda>v. Inr (dumps (audit_export_to_json v) @ [CHR 0x0A]))"

definition render_team_audit_verification :: "(json \<Rightarrow> string) \<Rightarrow> team_audit_verification \<Rightarrow> team_error + string" where
  "render_team_audit_verification dumps r =
     attempt (parse_team_audit_verification (audit_verification_to_json r)) (\<lambda>v.
       Inr (dumps (audit_verification_to_json v) @ [CHR 0x0A]))"

subsection \<open>When a document is accepted\<close>

lemmas team_audit_outcomes [strict_iff] = team_audit_outcome.team_enum_Inr team_audit_outcome.inj_val

definition team_subject_ok :: "nat \<Rightarrow> team_document_subject \<Rightarrow> bool" where
  "team_subject_ok maximum s \<longleftrightarrow> team_text_ok 255 (tds_media_type s) \<and> media_type_ok (tds_media_type s)
     \<and> team_sha_ok (tds_sha256 s) \<and> 1 \<le> tds_byte_count s \<and> tds_byte_count s \<le> int maximum"

definition team_retention_ok :: "team_retention_requirement \<Rightarrow> bool" where
  "team_retention_ok r \<longleftrightarrow> safe_team_id (trr_class_id r) \<and> team_timestamp_ok (trr_retain_until r)"

definition event_times_ok :: "team_audit_entry \<Rightarrow> bool" where
  "event_times_ok e \<longleftrightarrow> timestamp_value (tad_decided_at (tae_authorization e)) \<le> timestamp_value (tae_occurred_at e)
     \<and> timestamp_value (tae_occurred_at e)
        \<le> timestamp_value (tad_decided_at (tae_authorization e)) + MAX_TEAM_AUTHORIZATION_AGE_SECONDS * 1000000
     \<and> timestamp_value (tae_occurred_at e) < timestamp_value (trr_retain_until (tae_retention e))"

definition entry_ok :: "team_audit_entry \<Rightarrow> bool" where
  "entry_ok e \<longleftrightarrow> safe_team_id (tae_event_id e) \<and> safe_team_id (tae_tenant_id e) \<and> 1 \<le> tae_sequence e
     \<and> (tae_sequence e = 1 \<longleftrightarrow> tae_previous_event_sha256 e = None)
     \<and> (case tae_previous_event_sha256 e of None \<Rightarrow> True | Some s \<Rightarrow> team_sha_ok s)
     \<and> authorization_ok (tae_authorization e) \<and> tad_tenant_id (tae_authorization e) = tae_tenant_id e
     \<and> (tad_authorized (tae_authorization e) \<longleftrightarrow> tae_outcome e \<noteq> TeamAuditOutcome_DENIED)
     \<and> team_timestamp_ok (tae_occurred_at e) \<and> event_times_ok e \<and> team_retention_ok (tae_retention e)
     \<and> team_subject_ok MAX_TEAM_AUDIT_PAYLOAD_BYTES (tae_payload e)"

definition event_ok :: "library \<Rightarrow> team_audit_event \<Rightarrow> bool" where
  "event_ok lib e \<longleftrightarrow> tev_schema_version e = TEAM_AUDIT_EVENT_SCHEMA_VERSION \<and> entry_ok (tev_entry e)
     \<and> tev_event_sha256 e = event_digest lib (tev_entry e) \<and> team_sha_ok (tev_event_sha256 e)"

lemma parse_team_subject_render [strict_iff]:
  "team_document_subject_of n name path (team_subject_to_json s) = Inr t \<longleftrightarrow> t = s \<and> team_subject_ok n s"
  by (cases s) (auto simp: team_document_subject_of_def team_subject_to_json_def strict_iff exact_keys_def
      team_subject_ok_def Let_def)

lemma parse_team_subject_ok: "team_document_subject_of n name path v = Inr s \<Longrightarrow> team_subject_ok n s"
  by (auto simp: team_document_subject_of_def strict_iff team_subject_ok_def Let_def)

lemma parse_retention_requirement_render [strict_iff]:
  "parse_retention_requirement name path (team_retention_to_json r) = Inr q \<longleftrightarrow> q = r \<and> team_retention_ok r"
  by (cases r) (auto simp: parse_retention_requirement_def team_retention_to_json_def strict_iff exact_keys_def team_retention_ok_def)

lemma parse_retention_requirement_ok: "parse_retention_requirement name path v = Inr r \<Longrightarrow> team_retention_ok r"
  by (auto simp: parse_retention_requirement_def strict_iff team_retention_ok_def)

lemma parse_previous_Inr:
  "1 \<le> n \<Longrightarrow> parse_previous name path n v = Inr p \<longleftrightarrow>
     v = optional_text p \<and> (n = 1 \<longleftrightarrow> p = None) \<and> (case p of None \<Rightarrow> True | Some s \<Rightarrow> team_sha_ok s)"
  by (cases p; cases v) (auto simp: parse_previous_def strict_iff optional_text_def)

lemma check_event_outcome_Inr [strict_iff]:
  "check_event_outcome name path a outcome = Inr u \<longleftrightarrow> (a \<longleftrightarrow> outcome \<noteq> TeamAuditOutcome_DENIED)"
  by (auto simp: check_event_outcome_def strict_iff)

lemma check_event_times_Inr [strict_iff]:
  "check_event_times name path t d = Inr u \<longleftrightarrow> timestamp_value (tad_decided_at d) \<le> timestamp_value t
     \<and> timestamp_value t \<le> timestamp_value (tad_decided_at d) + MAX_TEAM_AUTHORIZATION_AGE_SECONDS * 1000000"
  by (auto simp: check_event_times_def strict_iff Let_def)

lemma parse_entry_ok: "parse_audit_entry name path v = Inr e \<Longrightarrow> entry_ok e"
  by (clarsimp simp: parse_audit_entry_def strict_iff Let_def)
    (auto simp: entry_ok_def event_times_ok_def parse_previous_Inr
      dest: parse_authorization_ok parse_retention_requirement_ok parse_team_subject_ok)

lemma parse_entry_render: "parse_audit_entry name path (audit_entry_to_json e) = Inr e \<longleftrightarrow> entry_ok e"
proof
  assume ok: "entry_ok e"
  then have "parse_team_authorization (authorization_to_json (tae_authorization e)) = Inr (tae_authorization e)"
    by (simp add: entry_ok_def parse_authorization_render)
  moreover have "parse_previous name p (tae_sequence e) (optional_text (tae_previous_event_sha256 e))
      = Inr (tae_previous_event_sha256 e)" for p
    using ok by (auto simp: entry_ok_def parse_previous_Inr)
  ultimately show "parse_audit_entry name path (audit_entry_to_json e) = Inr e"
    using ok by (simp add: parse_audit_entry_def audit_entry_to_json_def entry_keys_def strict_iff exact_keys_def
        entry_ok_def event_times_ok_def Let_def)
qed (rule parse_entry_ok)

lemma parse_event_ok: "parse_audit_event lib path name v = Inr e \<Longrightarrow> event_ok lib e"
  by (auto simp: parse_audit_event_def strict_iff Let_def event_ok_def dest: parse_entry_ok)

lemma parse_event_render: "parse_audit_event lib path name (audit_event_to_json e) = Inr e \<longleftrightarrow> event_ok lib e"
proof
  assume "event_ok lib e"
  then show "parse_audit_event lib path name (audit_event_to_json e) = Inr e"
    by (cases e) (simp add: parse_audit_event_def audit_event_to_json_def strict_iff exact_keys_def event_ok_def Let_def
        parse_entry_render)
qed (rule parse_event_ok)

interpretation event_codec:
  codec "\<lambda>index. parse_audit_event lib (at_index path index) name" audit_event_to_json "event_ok lib" for lib path name
  by unfold_locales (auto simp: parse_event_render dest: parse_event_ok)

lemma parse_team_audit_event_render: "parse_team_audit_event lib (audit_event_to_json e) = Inr e \<longleftrightarrow> event_ok lib e"
  by (simp add: parse_team_audit_event_def parse_event_render)

subsection \<open>Chains\<close>

definition follows :: "team_audit_event option \<Rightarrow> team_audit_event \<Rightarrow> bool" where
  "follows previous e \<longleftrightarrow> (case previous of None \<Rightarrow> tae_sequence (tev_entry e) = 1
     | Some p \<Rightarrow> tae_sequence (tev_entry e) = tae_sequence (tev_entry p) + 1
         \<and> tae_previous_event_sha256 (tev_entry e) = Some (tev_event_sha256 p)
         \<and> timestamp_value (tae_occurred_at (tev_entry p)) \<le> timestamp_value (tae_occurred_at (tev_entry e)))"

fun linked :: "team_audit_event option \<Rightarrow> team_audit_event list \<Rightarrow> bool" where
  "linked previous [] = True"
| "linked previous (e # es) = (follows previous e \<and> linked (Some e) es)"

definition audit_chain_ok :: "library \<Rightarrow> string \<Rightarrow> team_audit_event list \<Rightarrow> bool" where
  \<comment> \<open>what a tenant's complete chain is: every event well formed and of the tenant, no event or decision
    recorded twice, each event following the one before it and the first starting the chain\<close>
  "audit_chain_ok lib tenant events \<longleftrightarrow> events \<noteq> [] \<and> list_all (event_ok lib) events
     \<and> list_all (\<lambda>e. tae_tenant_id (tev_entry e) = tenant) events
     \<and> distinct (map (\<lambda>e. tae_event_id (tev_entry e)) events)
     \<and> distinct (map (\<lambda>e. tad_decision_id (tae_authorization (tev_entry e))) events)
     \<and> linked None events"

lemma check_link_Inr [strict_iff]: "check_link path previous e = Inr u \<longleftrightarrow> follows previous e"
  by (auto simp: check_link_def follows_def strict_iff Let_def split: option.split)

lemma chain_loop_Inr:
  assumes "list_all (event_ok lib) events"
  shows "chain_loop lib tenant i ids decisions previous events = Inr () \<longleftrightarrow>
     list_all (\<lambda>e. tae_tenant_id (tev_entry e) = tenant) events
     \<and> distinct (map (\<lambda>e. tae_event_id (tev_entry e)) events)
     \<and> (\<lambda>e. tae_event_id (tev_entry e)) ` set events \<inter> set ids = {}
     \<and> distinct (map (\<lambda>e. tad_decision_id (tae_authorization (tev_entry e))) events)
     \<and> (\<lambda>e. tad_decision_id (tae_authorization (tev_entry e))) ` set events \<inter> set decisions = {}
     \<and> linked previous events"
  using assms
proof (induction events arbitrary: i ids decisions previous)
  case (Cons e es)
  then have e: "parse_team_audit_event lib (audit_event_to_json e) = Inr e"
    and es: "list_all (event_ok lib) es"
    by (simp_all add: parse_team_audit_event_render)
  show ?case
    by (simp add: e strict_iff Cons.IH [OF es] Let_def) auto
qed simp

lemma validate_chain_Inr:
  assumes "list_all (event_ok lib) events" "tenant \<noteq> []"
  shows "validate_event_chain lib (Some tenant) events = Inr t \<longleftrightarrow> t = tenant \<and> audit_chain_ok lib tenant events"
  using assms by (auto simp: validate_event_chain_def or_fallback_def strict_iff chain_loop_Inr audit_chain_ok_def Let_def)

lemma linked_append: "linked p (xs @ ys) \<longleftrightarrow> linked p xs \<and> linked (if xs = [] then p else Some (last xs)) ys"
  by (induction xs arbitrary: p) auto

lemma linked_sequence:
  "linked None events \<Longrightarrow> i < length events \<Longrightarrow> tae_sequence (tev_entry (events ! i)) = int i + 1"
proof (induction events arbitrary: i rule: rev_induct)
  case (snoc e es)
  consider "i < length es" | "i = length es" using snoc.prems by force
  then show ?case
  proof cases
    case 2
    show ?thesis
    proof (cases "es = []")
      case False
      then have "tae_sequence (tev_entry (last es)) = int (length es)"
        using snoc.IH [of "length es - 1"] snoc.prems by (simp add: linked_append last_conv_nth of_nat_diff Suc_le_eq)
      with snoc.prems 2 False show ?thesis by (simp add: linked_append follows_def)
    qed (use snoc.prems 2 in \<open>simp add: follows_def\<close>)
  qed (use snoc in \<open>simp add: linked_append nth_append\<close>)
qed simp

subsection \<open>The digest of an entry determines it\<close>

lemma sort_key_inj:
  assumes "sort_key fst a = sort_key fst b" "map fst a = map fst b" "distinct (map fst a)"
  shows "a = b"
proof -
  have d: "distinct (map fst b)" using assms by metis
  have zip: "x = zip (map fst x) (map snd x)" for x :: "('a \<times> 'b) list" by (simp add: zip_map_fst_snd)
  have len: "length (map snd a) = length (map fst a)" "length (map snd b) = length (map fst a)"
    using assms(2) by (auto dest: map_eq_imp_length_eq)
  have "map_of a = map_of b"
    using map_of_sort_key [OF assms(3)] map_of_sort_key [OF d] assms(1) by simp
  then have "map_of (zip (map fst a) (map snd a)) = map_of (zip (map fst a) (map snd b))"
    using zip [of a] zip [of b] assms(2) by simp
  from map_of_zip_inject [OF len(1) len(2) assms(3) this]
  show ?thesis using zip [of a] zip [of b] assms(2) by simp
qed

lemma sort_json_fields:
  assumes "map fst a = map fst b" "distinct (map fst a)"
  shows "sort_json (JObj a) = sort_json (JObj b) \<longleftrightarrow> map (\<lambda>x. sort_json (snd x)) a = map (\<lambda>x. sort_json (snd x)) b"
proof -
  let ?m = "map (\<lambda>(k, v). (k, sort_json v))"
  have f: "map fst (?m x) = map fst x" "map snd (?m x) = map (\<lambda>x. sort_json (snd x)) x" for x :: dict
    by (simp_all add: case_prod_unfold comp_def)
  have "sort_key fst (?m a) = sort_key fst (?m b) \<longleftrightarrow> ?m a = ?m b"
    using sort_key_inj [of "?m a" "?m b"] assms by (auto simp only: f)
  also have "\<dots> \<longleftrightarrow> map (\<lambda>x. sort_json (snd x)) a = map (\<lambda>x. sort_json (snd x)) b"
    using assms(1) f by (metis zip_map_fst_snd)
  finally show ?thesis by simp
qed

lemma sort_json_principal [simp]: "sort_json (principal_to_json p) = sort_json (principal_to_json q) \<longleftrightarrow> p = q"
  by (cases p; cases q) (simp add: principal_to_json_def sort_json_fields del: sort_json.simps(2))

lemma sort_json_text [simp]:
  "sort_json (roles_to_json rs) = sort_json (roles_to_json qs) \<longleftrightarrow> rs = qs"
  "sort_json (optional_text x) = sort_json (optional_text y) \<longleftrightarrow> x = y"
  by (auto simp: roles_to_json_def comp_def optional_text_def team_role.inj_val inj_map_eq_map inj_def split: option.splits)

lemma sort_json_resource [simp]: "sort_json (resource_to_json p) = sort_json (resource_to_json q) \<longleftrightarrow> p = q"
  by (cases p; cases q) (simp add: resource_to_json_def sort_json_fields strict_iff del: sort_json.simps(2))

lemma sort_json_policy_subject [simp]:
  "sort_json (policy_subject_to_json p) = sort_json (policy_subject_to_json q) \<longleftrightarrow> p = q"
  by (cases p; cases q) (simp add: policy_subject_to_json_def sort_json_fields del: sort_json.simps(2))

lemma sort_json_authorization [simp]:
  "sort_json (authorization_to_json p) = sort_json (authorization_to_json q) \<longleftrightarrow> p = q"
  by (cases p; cases q) (simp add: authorization_to_json_def sort_json_fields strict_iff del: sort_json.simps(2))

lemma sort_json_team_subject [simp]: "sort_json (team_subject_to_json p) = sort_json (team_subject_to_json q) \<longleftrightarrow> p = q"
  by (cases p; cases q) (simp add: team_subject_to_json_def sort_json_fields del: sort_json.simps(2))

lemma sort_json_retention [simp]: "sort_json (team_retention_to_json p) = sort_json (team_retention_to_json q) \<longleftrightarrow> p = q"
  by (cases p; cases q) (simp add: team_retention_to_json_def sort_json_fields del: sort_json.simps(2))

lemma sort_json_entry: "sort_json (audit_entry_to_json p) = sort_json (audit_entry_to_json q) \<longleftrightarrow> p = q"
  by (cases p; cases q) (simp add: audit_entry_to_json_def sort_json_fields strict_iff del: sort_json.simps(2))

lemma plain_entry: "plain_json (audit_entry_to_json e)"
  by (simp add: audit_entry_to_json_def authorization_to_json_def principal_to_json_def resource_to_json_def
      roles_to_json_def policy_subject_to_json_def team_subject_to_json_def team_retention_to_json_def optional_text_def
      list_all_iff split: option.split)

definition event_bytes :: "team_audit_event \<Rightarrow> string" where
  \<comment> \<open>what the digest of an event is taken over\<close>
  "event_bytes e = utf8_bytes (canonical_json (\<lambda>_. []) (audit_entry_to_json (tev_entry e)))"

lemma event_bytes_inj: "event_bytes e = event_bytes f \<longleftrightarrow> tev_entry e = tev_entry f"
  using canonical_json_inj [OF plain_entry plain_entry] by (auto simp: event_bytes_def utf8_bytes_inj sort_json_entry)

lemma linked_determined:
  assumes "linked None es" "linked None fs" "list_all (event_ok lib) es" "list_all (event_ok lib) fs"
    "es \<noteq> []" "fs \<noteq> []" "tev_event_sha256 (last es) = tev_event_sha256 (last fs)"
    "\<And>e f. e \<in> set es \<Longrightarrow> f \<in> set fs \<Longrightarrow> lib_sha256 lib (event_bytes e) = lib_sha256 lib (event_bytes f)
       \<Longrightarrow> event_bytes e = event_bytes f"
  shows "es = fs"
  using assms
proof (induction es arbitrary: fs rule: rev_induct)
  case (snoc e es)
  obtain gs f where fs: "fs = gs @ [f]" using snoc.prems(6) by (metis rev_exhaust)
  have ok: "event_ok lib e" "event_ok lib f" and sha: "tev_event_sha256 e = tev_event_sha256 f"
    using snoc.prems by (simp_all add: fs)
  then have "lib_sha256 lib (event_bytes e) = lib_sha256 lib (event_bytes f)"
    by (simp add: event_ok_def event_digest_def event_bytes_def)
  then have "tev_entry e = tev_entry f" using snoc.prems(8) [of e f] by (simp add: fs event_bytes_inj)
  then have e: "e = f" using ok sha by (cases e; cases f) (simp add: event_ok_def)
  have seq: "tae_sequence (tev_entry e) = int (length es) + 1" "tae_sequence (tev_entry f) = int (length gs) + 1"
    using linked_sequence [OF snoc.prems(1), of "length es"] linked_sequence [OF snoc.prems(2), of "length gs"]
    by (simp_all add: fs)
  then have len: "length es = length gs" using e by simp
  show ?case
  proof (cases "es = []")
    case False
    then have "gs \<noteq> []" using len by auto
    moreover have "tev_event_sha256 (last es) = tev_event_sha256 (last gs)"
      using snoc.prems(1,2) False \<open>gs \<noteq> []\<close> e by (simp add: fs linked_append follows_def)
    ultimately have "es = gs"
      using snoc.IH [of gs] snoc.prems False by (simp add: fs linked_append)
    then show ?thesis by (simp add: fs e)
  qed (use len e fs in simp)
qed simp

subsection \<open>Exports\<close>

definition audit_range_ok :: "team_audit_range \<Rightarrow> bool" where
  "audit_range_ok r \<longleftrightarrow> 1 \<le> tar_first_sequence r \<and> 1 \<le> tar_last_sequence r \<and> 1 \<le> tar_event_count r
     \<and> tar_event_count r \<le> int MAX_TEAM_EXPORT_EVENTS"

definition export_times_ok :: "team_audit_export \<Rightarrow> bool" where
  "export_times_ok x \<longleftrightarrow>
     timestamp_value (tae_occurred_at (tev_entry (last (tax_events x)))) \<le> timestamp_value (tad_decided_at (tax_authorization x))
     \<and> timestamp_value (tad_decided_at (tax_authorization x)) \<le> timestamp_value (tax_created_at x)
     \<and> timestamp_value (tax_created_at x)
        \<le> timestamp_value (tad_decided_at (tax_authorization x)) + MAX_TEAM_AUTHORIZATION_AGE_SECONDS * 1000000"

definition export_ok :: "library \<Rightarrow> team_audit_export \<Rightarrow> bool" where
  "export_ok lib x \<longleftrightarrow> tax_schema_version x = TEAM_AUDIT_EXPORT_SCHEMA_VERSION \<and> safe_team_id (tax_export_id x)
     \<and> safe_team_id (tax_tenant_id x) \<and> length (tax_events x) \<le> MAX_TEAM_EXPORT_EVENTS
     \<and> audit_chain_ok lib (tax_tenant_id x) (tax_events x)
     \<and> authorization_ok (tax_authorization x) \<and> authorizes_export (tax_export_id x) (tax_authorization x)
     \<and> tad_tenant_id (tax_authorization x) = tax_tenant_id x
     \<and> team_timestamp_ok (tax_created_at x) \<and> export_times_ok x
     \<and> tax_audit_range x = range_of (tax_events x)
     \<and> tax_head_event_sha256 x = tev_event_sha256 (last (tax_events x))
     \<and> team_retention_ok (tax_retention x)
     \<and> (\<forall>e \<in> set (tax_events x). timestamp_value (trr_retain_until (tae_retention (tev_entry e)))
          \<le> timestamp_value (trr_retain_until (tax_retention x)))"

lemma parse_audit_range_render [strict_iff]:
  "parse_audit_range name path (audit_range_to_json r) = Inr q \<longleftrightarrow> q = r \<and> audit_range_ok r"
  by (cases r) (auto simp: parse_audit_range_def audit_range_to_json_def strict_iff exact_keys_def audit_range_ok_def Let_def)

lemma parse_audit_range_ok: "parse_audit_range name path v = Inr r \<Longrightarrow> audit_range_ok r"
  by (auto simp: parse_audit_range_def strict_iff audit_range_ok_def Let_def)

lemma check_export_authorization_Inr [strict_iff]:
  "check_export_authorization i tenant e created d = Inr u \<longleftrightarrow>
     timestamp_value (tae_occurred_at (tev_entry e)) \<le> timestamp_value (tad_decided_at d)
     \<and> timestamp_value (tad_decided_at d) \<le> timestamp_value created
     \<and> timestamp_value created \<le> timestamp_value (tad_decided_at d) + MAX_TEAM_AUTHORIZATION_AGE_SECONDS * 1000000"
  by (auto simp: check_export_authorization_def strict_iff Let_def)

lemma event_floor_le: "es \<noteq> [] \<Longrightarrow> event_floor es \<le> v \<longleftrightarrow>
    (\<forall>e \<in> set es. timestamp_value (trr_retain_until (tae_retention (tev_entry e))) \<le> v)"
  by (simp add: event_floor_def)

lemma safe_team_id_nonempty: "safe_team_id s \<Longrightarrow> s \<noteq> []"
  by (auto simp: safe_team_id_def team_text_ok_def)

lemma range_of_ok:
  assumes "audit_chain_ok lib tenant es" "length es \<le> MAX_TEAM_EXPORT_EVENTS"
  shows "audit_range_ok (range_of es)"
proof -
  have "linked None es" "es \<noteq> []" using assms(1) by (simp_all add: audit_chain_ok_def)
  then show ?thesis
    using assms(2) linked_sequence [of es 0] linked_sequence [of es "length es - 1"]
    by (cases es) (auto simp: audit_range_ok_def range_of_def hd_conv_nth last_conv_nth)
qed

lemma parse_export_ok: "parse_team_audit_export lib v = Inr x \<Longrightarrow> export_ok lib x"
proof -
  assume "parse_team_audit_export lib v = Inr x"
  then obtain tenant evs es i d c r t u where
    es: "each (\<lambda>index. parse_audit_event lib (at_index ''$.events'' index) export_name) 0 evs = Inr es"
      "1 \<le> length evs" "length evs \<le> MAX_TEAM_EXPORT_EVENTS"
    and chain: "validate_event_chain lib (Some tenant) es = Inr t" "safe_team_id tenant"
    and rest: "safe_team_id i" "authorization_ok d" "authorizes_export i d" "tad_tenant_id d = tenant" "team_timestamp_ok c"
      "check_export_authorization i tenant (last es) c d = Inr u" "team_retention_ok r"
      "event_floor es \<le> timestamp_value (trr_retain_until r)"
    and x: "x = \<lparr>tax_schema_version = TEAM_AUDIT_EXPORT_SCHEMA_VERSION, tax_export_id = i, tax_tenant_id = tenant,
      tax_created_at = c, tax_authorization = d, tax_audit_range = range_of es,
      tax_head_event_sha256 = tev_event_sha256 (last es), tax_retention = r, tax_events = es\<rparr>"
    unfolding parse_team_audit_export_def Let_def
    by (auto simp only: attempt_Inr ensure_Inr wire_object_Inr team_string_Inr wire_array_Inr team_timestamp_Inr sum.inject
        dest!: parse_authorization_ok parse_retention_requirement_ok)
  have ok: "list_all (event_ok lib) es" using es(1) by (rule event_codec.each_ok)
  have "audit_chain_ok lib tenant es"
    using chain validate_chain_Inr [OF ok safe_team_id_nonempty [OF chain(2)]] by blast
  moreover have "length es \<le> MAX_TEAM_EXPORT_EVENTS" "es \<noteq> []"
    using es each_length [OF es(1)] by auto
  ultimately show ?thesis
    using rest chain(2) by (auto simp: x export_ok_def export_times_ok_def event_floor_le check_export_authorization_Inr)
qed

lemma parse_export_render: "parse_team_audit_export lib (audit_export_to_json x) = Inr x \<longleftrightarrow> export_ok lib x"
proof
  assume ok: "export_ok lib x"
  then have es: "list_all (event_ok lib) (tax_events x)" "tax_events x \<noteq> []" "audit_chain_ok lib (tax_tenant_id x) (tax_events x)"
    by (simp_all add: export_ok_def audit_chain_ok_def)
  have tenant: "tax_tenant_id x \<noteq> []" using ok by (auto simp: export_ok_def dest: safe_team_id_nonempty)
  have "validate_event_chain lib (Some (tax_tenant_id x)) (tax_events x) = Inr (tax_tenant_id x)"
    using validate_chain_Inr [OF es(1) tenant] es(3) by blast
  moreover have "parse_team_authorization (authorization_to_json (tax_authorization x)) = Inr (tax_authorization x)"
    using ok by (simp add: export_ok_def parse_authorization_render)
  moreover have "team_sha_ok (tev_event_sha256 (last (tax_events x)))"
  proof -
    have "event_ok lib (last (tax_events x))" using es by (simp add: list_all_iff)
    then show ?thesis unfolding event_ok_def by blast
  qed
  moreover have "audit_range_ok (range_of (tax_events x))"
    using ok by (auto simp: export_ok_def intro: range_of_ok)
  ultimately show "parse_team_audit_export lib (audit_export_to_json x) = Inr x"
    using ok es(2) event_codec.each_render [OF es(1)]
    by (simp add: parse_team_audit_export_def audit_export_to_json_def export_keys_def strict_iff exact_keys_def
        export_ok_def export_times_ok_def event_floor_le Let_def Suc_le_eq)
qed (rule parse_export_ok)

subsection \<open>Theorems\<close>

text \<open>
  An audit export is accepted by the strict parser exactly when its events are one complete chain of the
  tenant, its range and head are those of the chain, an authorized export decision of the tenant
  covers it in time, and it outlives every event; and then it parses to itself.
\<close>

theorem export_roundtrip:
  "parse_team_audit_export lib (audit_export_to_json x) = Inr x \<longleftrightarrow> export_ok lib x"
  by (rule parse_export_render)

text \<open>
  C4. The head digest of an accepted export fixes its whole history: two accepted exports that end at the same
  digest have the same events, in the same order, unless SHA-256 collides on the canonical bytes of two of
  their entries. No event can be altered, dropped, inserted or reordered under an authoritative head.
\<close>

theorem head_fixes_history:
  assumes "parse_team_audit_export lib v = Inr x" "parse_team_audit_export lib w = Inr y"
    and "tax_head_event_sha256 x = tax_head_event_sha256 y"
    and "\<forall>e \<in> set (tax_events x). \<forall>f \<in> set (tax_events y).
      lib_sha256 lib (event_bytes e) = lib_sha256 lib (event_bytes f) \<longrightarrow> event_bytes e = event_bytes f"
  shows "tax_events x = tax_events y"
proof -
  have "export_ok lib x" "export_ok lib y" using assms(1,2) by (auto dest: parse_export_ok)
  then show ?thesis
    using assms(3,4) by (intro linked_determined [where lib = lib]) (auto simp: export_ok_def audit_chain_ok_def)
qed

text \<open>
  C10. In an accepted export the event at position \<open>i\<close> has sequence \<open>i + 1\<close>, names the digest of the event before
  it, and does not precede it in time; no event or decision occurs twice, and all belong to the tenant.
\<close>

theorem export_is_a_chain:
  assumes "parse_team_audit_export lib v = Inr x" "i < length (tax_events x)"
  shows "tae_sequence (tev_entry (tax_events x ! i)) = int i + 1
    \<and> tae_tenant_id (tev_entry (tax_events x ! i)) = tax_tenant_id x
    \<and> tev_event_sha256 (tax_events x ! i) = event_digest lib (tev_entry (tax_events x ! i))
    \<and> (0 < i \<longrightarrow> tae_previous_event_sha256 (tev_entry (tax_events x ! i)) = Some (tev_event_sha256 (tax_events x ! (i - 1)))
        \<and> timestamp_value (tae_occurred_at (tev_entry (tax_events x ! (i - 1))))
          \<le> timestamp_value (tae_occurred_at (tev_entry (tax_events x ! i))))
    \<and> distinct (map (\<lambda>e. tae_event_id (tev_entry e)) (tax_events x))
    \<and> distinct (map (\<lambda>e. tad_decision_id (tae_authorization (tev_entry e))) (tax_events x))"
proof -
  have ok: "audit_chain_ok lib (tax_tenant_id x) (tax_events x)" using parse_export_ok [OF assms(1)] by (simp add: export_ok_def)
  then have "linked None (tax_events x)" by (simp add: audit_chain_ok_def)
  moreover have "follows (Some (tax_events x ! (i - 1))) (tax_events x ! i)" if "0 < i"
  proof -
    have split: "take i (tax_events x) @ tax_events x ! i # drop (Suc i) (tax_events x) = tax_events x"
      using assms(2) by (rule id_take_nth_drop [symmetric])
    have "linked None (take i (tax_events x) @ tax_events x ! i # drop (Suc i) (tax_events x))"
      unfolding split by (rule \<open>linked None (tax_events x)\<close>)
    moreover have ne: "take i (tax_events x) \<noteq> []" using that assms(2) by auto
    moreover have "last (take i (tax_events x)) = tax_events x ! (i - 1)"
      using that assms(2) by (simp add: last_conv_nth [OF ne])
    ultimately show ?thesis by (simp only: linked_append linked.simps if_False)
  qed
  moreover have "event_ok lib (tax_events x ! i)" "tae_tenant_id (tev_entry (tax_events x ! i)) = tax_tenant_id x"
    using ok assms(2) by (simp_all add: audit_chain_ok_def list_all_length)
  ultimately show ?thesis
    using ok assms(2) by (auto simp: linked_sequence follows_def event_ok_def audit_chain_ok_def)
qed
subsection \<open>Created events and exports verify\<close>

lemma retention_class_floor:
  "validate_retention_floor t u c name path = Inr x \<longleftrightarrow>
     timestamp_value t + trc_minimum_days c * 86400 * 1000000 < past_instant
     \<and> timestamp_value t + trc_minimum_days c * 86400 * 1000000 \<le> timestamp_value u"
  by (auto simp: validate_retention_floor_def strict_iff Let_def)

definition predecessor_ok :: "library \<Rightarrow> team_audit_event \<Rightarrow> team_audit_event option \<Rightarrow> bool" where
  \<comment> \<open>the event starts a chain, or follows a well-formed event of the same tenant\<close>
  "predecessor_ok lib e previous \<longleftrightarrow> follows previous e
     \<and> (case previous of None \<Rightarrow> True
        | Some p \<Rightarrow> event_ok lib p \<and> tae_tenant_id (tev_entry p) = tae_tenant_id (tev_entry e))"

definition retained :: "team_access_policy \<Rightarrow> string \<Rightarrow> team_retention_requirement \<Rightarrow> bool" where
  \<comment> \<open>the requirement names a class of the policy and covers its minimum, counted from the given time\<close>
  "retained policy time r \<longleftrightarrow> (\<exists>c. retention_class policy (trr_class_id r) = Inr c
     \<and> timestamp_value time + trc_minimum_days c * 86400 * 1000000 < past_instant
     \<and> timestamp_value time + trc_minimum_days c * 86400 * 1000000 \<le> timestamp_value (trr_retain_until r))"

lemma check_predecessor_Inr:
  assumes "entry_ok (tev_entry e)" "previous = None \<or> (\<exists>p. previous = Some p \<and> event_ok lib p)"
  shows "check_predecessor lib e previous = Inr u \<longleftrightarrow> predecessor_ok lib e previous"
proof (cases previous)
  case None
  have "tae_sequence (tev_entry e) = 1 \<longleftrightarrow> tae_previous_event_sha256 (tev_entry e) = None"
    using assms(1) unfolding entry_ok_def by blast
  then show ?thesis by (auto simp: None check_predecessor_def predecessor_ok_def follows_def strict_iff Let_def)
next
  case (Some p)
  with assms(2) have p: "parse_team_audit_event lib (audit_event_to_json p) = Inr p" "event_ok lib p"
    by (auto simp: parse_team_audit_event_render)
  show ?thesis
    by (auto simp: Some check_predecessor_def predecessor_ok_def follows_def strict_iff Let_def p)
qed

lemma verify_authorization_self:
  "authorization_ok d \<Longrightarrow> (\<exists>e. verify_team_authorization lib pb d = Inr e) \<longleftrightarrow> verify_team_authorization lib pb d = Inr d"
  using parse_authorization_render [of d] by (auto simp: verify_team_authorization_def strict_iff)

text \<open>
  A well-formed event passes verification against the policy bytes and its predecessor exactly when its
  authorization decision verifies, the tenant is the policy's, it is retained at least as long as its class
  demands, and it starts the chain or follows the predecessor.
\<close>

lemma verify_event_Inr:
  assumes "event_ok lib e" "previous = None \<or> (\<exists>p. previous = Some p \<and> event_ok lib p)"
  shows "verify_team_audit_event lib policy_bytes e previous = Inr e \<longleftrightarrow>
     (\<exists>policy. parse_team_access_policy_bytes lib policy_bytes = Inr policy
        \<and> verify_team_authorization lib policy_bytes (tae_authorization (tev_entry e)) = Inr (tae_authorization (tev_entry e))
        \<and> tae_tenant_id (tev_entry e) = tap_tenant_id policy
        \<and> retained policy (tae_occurred_at (tev_entry e)) (tae_retention (tev_entry e)) \<and> predecessor_ok lib e previous)"
proof -
  have e: "parse_team_audit_event lib (audit_event_to_json e) = Inr e" "entry_ok (tev_entry e)"
    "authorization_ok (tae_authorization (tev_entry e))"
    using assms(1) unfolding parse_team_audit_event_render by (assumption, unfold event_ok_def entry_ok_def, blast+)
  note p = check_predecessor_Inr [OF e(2) assms(2)]
  show ?thesis
    by (simp add: verify_team_audit_event_def e(1) strict_iff retention_class_floor p retained_def
        flip: verify_authorization_self [OF e(3)]) blast
qed

lemma parse_entry_unique:
  assumes "parse_audit_entry name path (audit_entry_to_json e) = Inr f" "authorization_ok (tae_authorization e)"
  shows "f = e"
proof -
  have a: "parse_team_authorization (authorization_to_json (tae_authorization e)) = Inr (tae_authorization e)"
    using assms(2) by (simp add: parse_authorization_render)
  have "optional_text x = optional_text y \<longleftrightarrow> x = y" for x y by (auto simp: optional_text_def split: option.splits)
  then show ?thesis
    using assms(1) a
    by (simp add: parse_audit_entry_def audit_entry_to_json_def strict_iff Let_def exact_keys_def entry_keys_def)
      (auto simp: parse_previous_Inr)
qed

lemma parse_event_unique:
  assumes "parse_team_audit_event lib (audit_event_to_json f) = Inr e" "authorization_ok (tae_authorization (tev_entry f))"
  shows "e = f"
  using assms parse_entry_unique [of event_name _ "tev_entry f"]
  by (cases f) (auto simp: parse_team_audit_event_def parse_audit_event_def audit_event_to_json_def
      strict_iff exact_keys_def Let_def)

text \<open>
  A well-formed event passes verification against the policy bytes and its predecessor exactly when its
  authorization decision verifies, the tenant is the policy's, it is retained at least as long as its class
  demands, and it starts the chain or follows the predecessor.
\<close>

theorem event_verifies_iff:
  assumes "event_ok lib e" "previous = None \<or> (\<exists>p. previous = Some p \<and> event_ok lib p)"
  shows "verify_team_audit_event lib policy_bytes e previous = Inr e \<longleftrightarrow>
     (\<exists>policy. parse_team_access_policy_bytes lib policy_bytes = Inr policy
        \<and> verify_team_authorization lib policy_bytes (tae_authorization (tev_entry e)) = Inr (tae_authorization (tev_entry e))
        \<and> tae_tenant_id (tev_entry e) = tap_tenant_id policy
        \<and> retained policy (tae_occurred_at (tev_entry e)) (tae_retention (tev_entry e)) \<and> predecessor_ok lib e previous)"
  using assms by (rule verify_event_Inr)

definition parsed_predecessor :: "library \<Rightarrow> string option \<Rightarrow> team_audit_event option" where
  "parsed_predecessor lib raw = (case raw of None \<Rightarrow> None
     | Some raw_bytes \<Rightarrow> (case parse_team_audit_event_bytes lib raw_bytes of Inl _ \<Rightarrow> None | Inr p \<Rightarrow> Some p))"

lemma team_instant_value: "team_instant s = Inr t \<Longrightarrow> timestamp_value s = utc_microseconds t"
  by (auto simp: team_instant_def timestamp_value_def split: option.splits)

lemma given_predecessor_Inr:
  assumes "given_predecessor lib policy time raw = Inr previous"
  shows "previous = parsed_predecessor lib raw \<and> (case previous of None \<Rightarrow> True
    | Some p \<Rightarrow> event_ok lib p \<and> tae_tenant_id (tev_entry p) = tap_tenant_id policy
        \<and> timestamp_value (tae_occurred_at (tev_entry p)) \<le> timestamp_value time)"
proof (cases raw)
  case None
  then show ?thesis using assms by (simp add: given_predecessor_def parsed_predecessor_def)
next
  case (Some b)
  with assms obtain p t u where p: "parse_team_audit_event_bytes lib b = Inr p" "previous = Some p"
    "tae_tenant_id (tev_entry p) = tap_tenant_id policy"
    and t: "team_instant time = Inr t" "team_instant (tae_occurred_at (tev_entry p)) = Inr u"
      "\<not> utc_microseconds t < utc_microseconds u"
    by (auto simp: given_predecessor_def strict_iff compare_instants_def)
  moreover have "event_ok lib p"
    using p(1) by (auto simp: parse_team_audit_event_bytes_def parse_team_audit_event_def strict_iff dest: parse_event_ok)
  ultimately show ?thesis
    using team_instant_value [OF t(1)] team_instant_value [OF t(2)] by (simp add: Some parsed_predecessor_def)
qed

lemma verified_decision:
  assumes "authorization_ok d" "verify_team_authorization lib pb d = Inr e"
  shows "e = d \<and> verify_team_authorization lib pb d = Inr d"
  using assms parse_authorization_render [of d] by (auto simp: verify_team_authorization_def strict_iff)

lemma retention_class_id: "retention_class policy i = Inr c \<Longrightarrow> trc_class_id c = i"
  by (auto simp: retention_class_def find_Some_iff split: option.splits)

lemma created_event:
  assumes "create_team_audit_event lib now policy_bytes authorization_bytes payload_bytes q = Inr e"
  shows "verify_team_audit_event lib policy_bytes e (parsed_predecessor lib (aer_previous_event_bytes q)) = Inr e"
proof -
  let ?time = "or_fallback now (aer_occurred_at q)"
  from assms obtain policy d d' previous c deadline outcome x where
    policy: "parse_team_access_policy_bytes lib policy_bytes = Inr policy"
    and d: "parse_team_authorization_bytes lib authorization_bytes = Inr d" "verify_team_authorization lib policy_bytes d = Inr d'"
    and previous: "given_predecessor lib policy ?time (aer_previous_event_bytes q) = Inr previous"
    and c: "retention_class policy (or_fallback (tap_default_retention_class_id policy) (aer_retention_class_id q)) = Inr c"
    and x: "tev_entry x = \<lparr>tae_event_id = aer_event_id q, tae_tenant_id = tap_tenant_id policy,
           tae_sequence = next_sequence previous, tae_occurred_at = ?time, tae_authorization = d',
           tae_outcome = outcome,
           tae_payload = \<lparr>tds_media_type = aer_payload_media_type q, tds_sha256 = lib_sha256 lib payload_bytes,
              tds_byte_count = int (length payload_bytes)\<rparr>,
           tae_retention = \<lparr>trr_class_id = or_fallback (tap_default_retention_class_id policy) (aer_retention_class_id q),
              trr_retain_until = or_fallback deadline (aer_retain_until q)\<rparr>,
           tae_previous_event_sha256 = map_option tev_event_sha256 previous\<rparr>"
    and e: "parse_team_audit_event lib (audit_event_to_json x) = Inr e"
    and floor: "validate_retention_floor (tae_occurred_at (tev_entry e)) (trr_retain_until (tae_retention (tev_entry e)))
        c event_name ''$.entry.retention.retain_until'' = Inr ()"
    unfolding create_team_audit_event_def attempt_Inr Let_def
    by (force simp: attempt_Inr)
  have ok: "authorization_ok d" using d(1) by (auto simp: parse_team_authorization_bytes_def strict_iff dest: parse_authorization_ok)
  have d': "d' = d" "verify_team_authorization lib policy_bytes d = Inr d" using verified_decision [OF ok d(2)] by auto
  have "e = x" using parse_event_unique [OF e] ok by (simp add: x d')
  have e_ok: "event_ok lib e" using e by (auto simp: parse_team_audit_event_def dest: parse_event_ok)
  note p = given_predecessor_Inr [OF previous]
  have "predecessor_ok lib e previous"
    using p by (auto simp: predecessor_ok_def follows_def \<open>e = x\<close> x next_sequence_def split: option.splits)
  moreover have "retained policy (tae_occurred_at (tev_entry e)) (tae_retention (tev_entry e))"
    using c floor by (auto simp: retained_def retention_class_floor \<open>e = x\<close> x)
  moreover have "previous = None \<or> (\<exists>p. previous = Some p \<and> event_ok lib p)" using p by (auto split: option.splits)
  ultimately have "verify_team_audit_event lib policy_bytes e previous = Inr e"
    using policy d'(2) by (subst verify_event_Inr [OF e_ok]) (auto simp: \<open>e = x\<close> x d'(1))
  then show ?thesis using p by simp
qed

text \<open>C33. An event created from policy, decision and predecessor bytes passes its own verification against that policy
  and predecessor, unchanged.\<close>

theorem created_event_verifies:
  assumes "create_team_audit_event lib now policy_bytes authorization_bytes payload_bytes q = Inr e"
  shows "verify_team_audit_event lib policy_bytes e (parsed_predecessor lib (aer_previous_event_bytes q)) = Inr e"
  using assms by (rule created_event)

subsection \<open>Verifying an export\<close>

lemma handling_Inr [strict_iff]: "handling f m = Inr x \<longleftrightarrow> m = Inr x"
  by (cases m) (auto simp: handling_def)

definition export_receipt :: "library \<Rightarrow> string \<Rightarrow> string \<Rightarrow> team_audit_export \<Rightarrow> team_audit_verification" where
  "export_receipt lib export_bytes checked export =
     \<lparr>tav_schema_version = TEAM_AUDIT_VERIFICATION_SCHEMA_VERSION, tav_verifier_version = PACKAGE_VERSION,
      tav_status = ''verified'', tav_checked_at = checked,
      tav_export = \<lparr>tds_media_type = AUDIT_EXPORT_MEDIA_TYPE, tds_sha256 = lib_sha256 lib export_bytes,
         tds_byte_count = int (length export_bytes)\<rparr>,
      tav_export_id = tax_export_id export, tav_tenant_id = tax_tenant_id export,
      tav_audit_range = tax_audit_range export, tav_head_event_sha256 = tax_head_event_sha256 export,
      tav_retention = tax_retention export, tav_exporter = tad_principal (tax_authorization export),
      tav_policy = tad_policy (tax_authorization export)\<rparr>"

definition export_verified ::
  "library \<Rightarrow> string \<Rightarrow> string \<Rightarrow> string \<Rightarrow> int \<Rightarrow> team_audit_export \<Rightarrow> bool" where
  "export_verified lib export_bytes policy_bytes checked skew export \<longleftrightarrow> 0 \<le> skew \<and> skew \<le> 3600
     \<and> parse_team_audit_export_bytes lib export_bytes = Inr export
     \<and> (\<exists>policy. parse_team_access_policy_bytes lib policy_bytes = Inr policy
          \<and> verify_team_authorization lib policy_bytes (tax_authorization export) = Inr (tax_authorization export)
          \<and> tap_tenant_id policy = tax_tenant_id export \<and> retained policy (tax_created_at export) (tax_retention export))
     \<and> team_timestamp_ok checked \<and> timestamp_value checked + skew * 1000000 < past_instant
     \<and> timestamp_value (tax_created_at export) \<le> timestamp_value checked + skew * 1000000"

lemma parse_export_bytes_ok: "parse_team_audit_export_bytes lib raw = Inr x \<Longrightarrow> export_ok lib x"
  by (auto simp: parse_team_audit_export_bytes_def strict_iff dest: parse_export_ok)

lemma verify_export_Inr:
  "verify_team_audit_export lib now export_bytes policy_bytes checked_at skew = Inr r \<longleftrightarrow>
     (\<exists>export. export_verified lib export_bytes policy_bytes (or_fallback now checked_at) skew export
        \<and> r = export_receipt lib export_bytes (or_fallback now checked_at) export)"
proof -
  have d: "verify_team_authorization lib policy_bytes (tax_authorization x) = Inr d \<longleftrightarrow>
      d = tax_authorization x \<and> verify_team_authorization lib policy_bytes (tax_authorization x) = Inr (tax_authorization x)"
    if "parse_team_audit_export_bytes lib export_bytes = Inr x" for x d
    using verified_decision [of "tax_authorization x"] parse_export_bytes_ok [OF that] by (auto simp: export_ok_def)
  show ?thesis
    unfolding verify_team_audit_export_def export_verified_def export_receipt_def retained_def
    by (auto simp: strict_iff Let_def retention_class_floor d cong: conj_cong)
qed

text \<open>
  C30. Verifying export bytes returns a receipt exactly when the bytes are a well-formed export, the policy bytes
  reproduce its authorization and are of its tenant, the export is retained long enough, and it was not created
  after the checking time plus the skew; and the receipt binds the bytes, the head, the exporter and the policy.
\<close>

theorem export_verifies_iff:
  "verify_team_audit_export lib now export_bytes policy_bytes checked_at skew = Inr r \<longleftrightarrow>
     (\<exists>export. export_verified lib export_bytes policy_bytes (or_fallback now checked_at) skew export
        \<and> r = export_receipt lib export_bytes (or_fallback now checked_at) export)"
  by (rule verify_export_Inr)

lemma unknown_class_escapes:
  \<comment> \<open>a retention class the policy does not have is reported as a TeamValidationError about an event,
    not as a TeamAuditVerificationError\<close>
  assumes "parse_team_audit_export_bytes lib export_bytes = Inr export" "0 \<le> skew" "skew \<le> 3600"
    and "parse_team_access_policy_bytes lib policy_bytes = Inr policy"
    and "verify_team_authorization lib policy_bytes (tax_authorization export) = Inr (tax_authorization export)"
    and "tap_tenant_id policy = tax_tenant_id export"
    and "trr_class_id (tax_retention export) \<notin> set (map trc_class_id (tap_retention_classes policy))"
  shows "verify_team_audit_export lib now export_bytes policy_bytes checked_at skew =
    Inl (Team_invalid event_name ''$.entry.retention.class_id'' ''must reference a retention class in the bound access policy'')"
proof -
  have "find (\<lambda>c. trc_class_id c = trr_class_id (tax_retention export)) (tap_retention_classes policy) = None"
    using assms(7) by (force simp: find_None_iff)
  then show ?thesis
    using assms by (simp add: verify_team_audit_export_def ensure_def handling_def retention_class_def)
qed

subsection \<open>A concrete history\<close>

definition sample_entry :: team_audit_entry where
  "sample_entry = \<lparr>tae_event_id = ''v1'', tae_tenant_id = ''acme'', tae_sequence = 1, tae_occurred_at = ''2026-06-01T00:00:00Z'',
     tae_authorization = sample_decision, tae_outcome = TeamAuditOutcome_SUCCEEDED,
     tae_payload = \<lparr>tds_media_type = ''a/b'', tds_sha256 = replicate 64 CHR ''a'', tds_byte_count = 1\<rparr>,
     tae_retention = \<lparr>trr_class_id = ''year'', trr_retain_until = ''2027-06-01T00:00:00Z''\<rparr>,
     tae_previous_event_sha256 = None\<rparr>"

definition sample_event :: team_audit_event where
  "sample_event = \<lparr>tev_schema_version = ''1.0'', tev_entry = sample_entry, tev_event_sha256 = replicate 64 CHR ''a''\<rparr>"

definition sample_audit_export :: "string \<Rightarrow> team_audit_export" where
  "sample_audit_export created = \<lparr>tax_schema_version = ''1.0'', tax_export_id = ''e1'', tax_tenant_id = ''acme'', tax_created_at = created,
     tax_authorization = sample_decision, tax_audit_range = \<lparr>tar_first_sequence = 1, tar_last_sequence = 1, tar_event_count = 1\<rparr>,
     tax_head_event_sha256 = replicate 64 CHR ''a'', tax_retention = \<lparr>trr_class_id = ''year'', trr_retain_until = ''2027-06-01T00:00:00Z''\<rparr>,
     tax_events = [sample_event]\<rparr>"

lemma sample_team_sha: "team_sha_ok (replicate 64 CHR ''a'')"
  by (simp add: team_sha_ok_def team_text_ok_def no_control_def sha256_ok_def is_digit_def list_all_iff)

lemma sample_instants:
  "timestamp_value ''2026-06-01T00:00:00Z'' = 63915955200000000"
  "timestamp_value ''2026-06-01T00:10:00Z'' = timestamp_value ''2026-06-01T00:00:00Z'' + 600 * 1000000"
  "timestamp_value ''2027-06-01T00:00:00Z'' = timestamp_value ''2026-06-01T00:00:00Z'' + 365 * 86400 * 1000000"
  by code_simp+

lemma sample_export_timestamps:
  "team_timestamp_ok ''2026-06-01T00:00:00Z''" "team_timestamp_ok ''2026-06-01T00:10:00Z''" "team_timestamp_ok ''2027-06-01T00:00:00Z''"
  by code_simp+

lemma sample_names: "safe_team_id ''v1''" "safe_team_id ''acme''" "safe_team_id ''year''" "safe_team_id ''e1''"
  by code_simp+

lemma sample_sha256: "lib_sha256 policy_library x = replicate 64 CHR ''a''"
  by (simp add: policy_library_def)

lemma sample_entry_ok: "entry_ok sample_entry"
proof -
  have "media_type_ok ''a/b'' \<and> team_text_ok 255 ''a/b''" by code_simp
  then have "team_subject_ok MAX_TEAM_AUDIT_PAYLOAD_BYTES (tae_payload sample_entry)"
    by (simp add: team_subject_ok_def sample_entry_def sample_team_sha MAX_TEAM_AUDIT_PAYLOAD_BYTES_def)
  moreover have "tad_decided_at sample_decision = ''2026-06-01T00:00:00Z''" "tad_authorized sample_decision"
    "tad_tenant_id sample_decision = ''acme''"
    by (simp_all add: sample_decision_def)
  ultimately show ?thesis
    using sample_decision_ok sample_export_timestamps sample_names sample_instants
    by (simp add: entry_ok_def event_times_ok_def team_retention_ok_def sample_entry_def MAX_TEAM_AUTHORIZATION_AGE_SECONDS_def)
qed

lemma sample_event_ok: "event_ok policy_library sample_event"
  using sample_entry_ok
  by (simp add: event_ok_def sample_event_def TEAM_AUDIT_EVENT_SCHEMA_VERSION_def event_digest_def sample_sha256 sample_team_sha)

lemma sample_chain: "audit_chain_ok policy_library ''acme'' [sample_event]"
  using sample_event_ok by (simp add: audit_chain_ok_def follows_def sample_event_def sample_entry_def)

lemma sample_export_ok:
  assumes "created \<in> {''2026-06-01T00:00:00Z'', ''2026-06-01T00:10:00Z''}"
  shows "export_ok policy_library (sample_audit_export created)"
proof -
  have d: "tad_decided_at sample_decision = ''2026-06-01T00:00:00Z''" "tad_tenant_id sample_decision = ''acme''"
    "authorizes_export ''e1'' sample_decision"
    by (simp_all add: sample_decision_def authorizes_export_def)
  have e: "tev_entry sample_event = sample_entry" "tev_event_sha256 sample_event = replicate 64 CHR ''a''"
    "tae_sequence sample_entry = 1" "tae_occurred_at sample_entry = ''2026-06-01T00:00:00Z''"
    "trr_retain_until (tae_retention sample_entry) = ''2027-06-01T00:00:00Z''"
    by (simp_all add: sample_event_def sample_entry_def)
  show ?thesis
    using assms d sample_decision_ok sample_chain sample_export_timestamps sample_names sample_instants
    by (auto simp: export_ok_def sample_audit_export_def TEAM_AUDIT_EXPORT_SCHEMA_VERSION_def MAX_TEAM_EXPORT_EVENTS_def
        export_times_ok_def team_retention_ok_def range_of_def e MAX_TEAM_AUTHORIZATION_AGE_SECONDS_def)
qed

lemma sample_export_parses:
  assumes "created \<in> {''2026-06-01T00:00:00Z'', ''2026-06-01T00:10:00Z''}"
  shows "parse_team_audit_export policy_library (audit_export_to_json (sample_audit_export created)) = Inr (sample_audit_export created)"
  using sample_export_ok [OF assms] by (simp add: parse_export_render)

theorem head_fixes_history_witness:
  "sample_audit_export ''2026-06-01T00:00:00Z'' \<noteq> sample_audit_export ''2026-06-01T00:10:00Z''
   \<and> tax_events (sample_audit_export ''2026-06-01T00:00:00Z'') = tax_events (sample_audit_export ''2026-06-01T00:10:00Z'')"
proof -
  have "tax_events (sample_audit_export ''2026-06-01T00:00:00Z'') = tax_events (sample_audit_export ''2026-06-01T00:10:00Z'')"
    by (rule head_fixes_history [OF sample_export_parses sample_export_parses]) (simp_all add: sample_audit_export_def)
  then show ?thesis by (simp add: sample_audit_export_def)
qed

theorem export_is_a_chain_witness:
  "tae_sequence (tev_entry (tax_events (sample_audit_export ''2026-06-01T00:10:00Z'') ! 0)) = 1"
  using export_is_a_chain [OF sample_export_parses, of "''2026-06-01T00:10:00Z''" 0] by (simp add: sample_audit_export_def)

definition audit_library :: library where
  "audit_library = policy_library\<lparr>lib_loads := (\<lambda>t. Inr (if t = ''p'' then access_policy_to_json sample_access_policy
     else authorization_to_json sample_decision))\<rparr>"

lemma audit_library_simps:
  "parse_team_access_policy_bytes audit_library ''p'' = Inr sample_access_policy"
  "parse_team_authorization_bytes audit_library ''d'' = Inr sample_decision"
  "lib_sha256 audit_library x = replicate 64 CHR ''a''"
  "policy_subject audit_library b q = policy_subject policy_library b q"
proof -
  show "parse_team_access_policy_bytes audit_library ''p'' = Inr sample_access_policy"
  proof -
    have "access_policy_ok sample_access_policy"
      using sample_policy_parsed by (auto simp: parse_team_access_policy_bytes_def strict_iff dest: parse_access_policy_ok)
    then have "parse_team_access_policy (access_policy_to_json sample_access_policy) = Inr sample_access_policy"
      by (simp add: parse_access_policy_render)
    then show ?thesis
      by (simp add: parse_team_access_policy_bytes_def team_bytes_document_def policy_library_def audit_library_def
          parse_json_text_def utf8_bytes_def MAX_TEAM_ACCESS_POLICY_BYTES_def)
  qed
  have "parse_team_authorization (authorization_to_json sample_decision) = Inr sample_decision"
    using sample_decision_ok by (simp add: parse_authorization_render)
  then show "parse_team_authorization_bytes audit_library ''d'' = Inr sample_decision"
    by (simp add: parse_team_authorization_bytes_def team_bytes_document_def policy_library_def audit_library_def
        parse_json_text_def utf8_bytes_def MAX_TEAM_AUTHORIZATION_BYTES_def)
qed (simp_all add: audit_library_def policy_library_def policy_subject_def)

lemma sample_event_ok': "event_ok audit_library sample_event"
  using sample_event_ok unfolding event_ok_def event_digest_def audit_library_simps sample_sha256 .

lemma sample_decision_verifies: "verify_team_authorization audit_library ''p'' sample_decision = Inr sample_decision"
  using created_decision [OF sample_decision_created] sample_policy_parsed
  by (simp add: verify_team_authorization_def audit_library_simps)

theorem event_verifies_iff_witness:
  "verify_team_audit_event audit_library ''p'' sample_event None = Inr sample_event"
proof -
  have "retention_class sample_access_policy ''year'' = Inr \<lparr>trc_class_id = ''year'', trc_minimum_days = 365\<rparr>"
    by (simp add: retention_class_def sample_access_policy_def)
  then have "retained sample_access_policy ''2026-06-01T00:00:00Z'' (tae_retention sample_entry)"
    using sample_instants by (simp add: retained_def sample_entry_def past_instant_def)
  moreover have "predecessor_ok audit_library sample_event None"
    by (simp add: predecessor_ok_def follows_def sample_event_def sample_entry_def)
  moreover have "tap_tenant_id sample_access_policy = ''acme''" by (simp add: sample_access_policy_def)
  ultimately show ?thesis
    using sample_decision_verifies
    by (subst event_verifies_iff [OF sample_event_ok']) (auto simp: audit_library_simps sample_event_def sample_entry_def)
qed

definition sample_event_request :: audit_event_request where
  "sample_event_request = \<lparr>aer_payload_media_type = ''a/b'', aer_event_id = ''v1'', aer_outcome = ''succeeded'',
     aer_occurred_at = None, aer_retention_class_id = None, aer_retain_until = None, aer_previous_event_bytes = None\<rparr>"

lemma sample_event_created:
  "create_team_audit_event audit_library ''2026-06-01T00:00:00Z'' ''p'' ''d'' ''y'' sample_event_request = Inr sample_event"
proof -
  have c: "retention_class sample_access_policy ''year'' = Inr \<lparr>trc_class_id = ''year'', trc_minimum_days = 365\<rparr>"
    by (simp add: retention_class_def sample_access_policy_def)
  have t: "fromisoformat (zulu_to_offset ''2026-06-01T00:00:00Z'') =
      Some \<lparr>dt_ordinal = 739768, dt_second = 0, dt_micro = 0, dt_offset = Some 0\<rparr>" by code_simp
  have deadline: "utc_timestamp (utc_microseconds \<lparr>dt_ordinal = 740133, dt_second = 0, dt_micro = 0, dt_offset = Some 0\<rparr>)
      = Some ''2027-06-01T00:00:00Z''" by code_simp
  have outcome: "enum_argument ''TeamAuditOutcome'' team_audit_outcome_value team_audit_outcome_members ''succeeded''
      = Inr TeamAuditOutcome_SUCCEEDED" by code_simp
  have e: "parse_team_audit_event audit_library (audit_event_to_json sample_event) = Inr sample_event"
    using sample_event_ok' by (simp add: parse_team_audit_event_render)
  have floor: "validate_retention_floor ''2026-06-01T00:00:00Z'' ''2027-06-01T00:00:00Z''
      \<lparr>trc_class_id = ''year'', trc_minimum_days = 365\<rparr> n p = Inr ()" for n p
    using sample_instants by (simp add: retention_class_floor past_instant_def)
  have policy: "tap_tenant_id sample_access_policy = ''acme''" "tap_default_retention_class_id sample_access_policy = ''year''"
    by (simp_all add: sample_access_policy_def)
  have entry: "\<lparr>tae_event_id = ''v1'', tae_tenant_id = ''acme'', tae_sequence = 1, tae_occurred_at = ''2026-06-01T00:00:00Z'',
     tae_authorization = sample_decision, tae_outcome = TeamAuditOutcome_SUCCEEDED,
     tae_payload = \<lparr>tds_media_type = ''a/b'', tds_sha256 = replicate 64 CHR ''a'', tds_byte_count = 1\<rparr>,
     tae_retention = \<lparr>trr_class_id = ''year'', trr_retain_until = ''2027-06-01T00:00:00Z''\<rparr>,
     tae_previous_event_sha256 = None\<rparr> = sample_entry" by (simp add: sample_entry_def)
  have event: "\<lparr>tev_schema_version = TEAM_AUDIT_EVENT_SCHEMA_VERSION, tev_entry = sample_entry,
      tev_event_sha256 = event_digest audit_library sample_entry\<rparr> = sample_event"
    by (simp add: sample_event_def TEAM_AUDIT_EVENT_SCHEMA_VERSION_def event_digest_def audit_library_simps)
  have fields: "tae_occurred_at (tev_entry sample_event) = ''2026-06-01T00:00:00Z''"
    "trr_retain_until (tae_retention (tev_entry sample_event)) = ''2027-06-01T00:00:00Z''"
    by (simp_all add: sample_event_def sample_entry_def)
  show ?thesis
    by (simp add: create_team_audit_event_def audit_library_simps sample_decision_verifies sample_event_request_def
        ensure_def MAX_TEAM_AUDIT_PAYLOAD_BYTES_def or_fallback_def outcome given_predecessor_def c team_instant_def t
        plus_days_def team_utc_timestamp_def aware_def deadline next_sequence_def policy entry event e floor fields)
qed

theorem created_event_verifies_witness:
  "verify_team_audit_event audit_library ''p'' sample_event None = Inr sample_event
   \<and> sample_event_request = sample_event_request\<lparr>aer_previous_event_bytes := None\<rparr>"
  using created_event_verifies [OF sample_event_created] by (simp add: sample_event_request_def parsed_predecessor_def)

end
