(* ===== verification/Team_Investigations.thy ===== *)
theory Team_Investigations
  imports Fixtures Team_Policy
begin

text \<open>
  \<open>team_investigations.py\<close>: minimized investigation records. A record is opened from one cluster of an exact
  fixture, collects further clusters, one per revision, and moves through the queue states until it is closed.
  Times are compared as texts, as the source does.
\<close>

subsection \<open>Errors, constants and documents\<close>

datatype investigation_error = Investigation_invalid string string string
  \<comment> \<open>TeamInvestigationValidationError: document name, path and message\<close>

definition TEAM_INVESTIGATION_RECORD_SCHEMA_VERSION :: string where "TEAM_INVESTIGATION_RECORD_SCHEMA_VERSION = ''1.0''"
definition MAX_TEAM_INVESTIGATION_RECORD_BYTES :: nat where "MAX_TEAM_INVESTIGATION_RECORD_BYTES = 1024 * 1024"
definition MAX_TEAM_INVESTIGATION_SOURCE_BYTES :: nat where "MAX_TEAM_INVESTIGATION_SOURCE_BYTES = 8 * 1024 * 1024"
definition MAX_TEAM_INVESTIGATION_OBSERVATIONS :: nat where "MAX_TEAM_INVESTIGATION_OBSERVATIONS = 128"
definition MAX_INVESTIGATION_REVISION :: int where "MAX_INVESTIGATION_REVISION = 10000"
definition INVESTIGATION_FIXTURE_MEDIA_TYPE :: string where
  "INVESTIGATION_FIXTURE_MEDIA_TYPE = ''application/vnd.causure.investigation-fixture+json''"

record investigation_artifact_subject =
  ia_media_type :: string
  ia_sha256 :: string
  ia_byte_count :: int

record investigation_named_count =
  inc_name :: string
  inc_count :: int

record investigation_status_count =
  isc_code :: int
  isc_count :: int

record investigation_observation =
  tio_observation_id :: string
  tio_attached_at :: string
  tio_attached_by :: team_principal
  tio_fixture :: investigation_artifact_subject
  tio_fixture_id :: string
  tio_manifest_sha256 :: string
  tio_trace_source_sha256 :: string
  tio_cluster_id :: string
  tio_trace_id_sha256 :: string
  tio_span_count :: int
  tio_root_span_count :: int
  tio_error_span_count :: int
  tio_span_kind_counts :: "investigation_named_count list"
  tio_status_code_counts :: "investigation_status_count list"
  tio_model_identifiers :: "string list"
  tio_provider_identifiers :: "string list"
  tio_earliest_start_time_unix_nano :: "string option"
  tio_latest_end_time_unix_nano :: "string option"
  tio_observed_duration_nano :: "string option"

record investigation_record =
  tir_schema_version :: string
  tir_tenant_id :: string
  tir_investigation_id :: string
  tir_revision :: int
  tir_created_at :: string
  tir_updated_at :: string
  tir_title :: string
  tir_status :: team_investigation_status
  tir_priority :: team_investigation_priority
  tir_opened_by :: team_principal
  tir_candidate_only :: bool
  tir_gate_eligible :: bool
  tir_causal_claims_inferred :: bool
  tir_observations :: "investigation_observation list"
  tir_assigned_to :: "team_principal option"
  tir_resolution :: "team_investigation_resolution option"
  tir_linked_case_id :: "string option"
  tir_duplicate_of :: "string option"

subsection \<open>Reading values\<close>

abbreviation record_name :: string where "record_name \<equiv> ''Team investigation record''"

definition inv_object ::
  "string \<Rightarrow> string \<Rightarrow> string list \<Rightarrow> string list \<Rightarrow> json \<Rightarrow> investigation_error + dict" where
  \<comment> \<open>a missing key is reported before an unknown one\<close>
  "inv_object name path required optional v =
     (case v of JObj obj \<Rightarrow>
        (let missing = sort (filter (\<lambda>k. \<not> has_key obj k) required);
             unknown = sort (filter (\<lambda>k. k \<notin> set required \<and> k \<notin> set optional) (map fst obj))
         in if missing \<noteq> [] then Inl (Investigation_invalid name path (''missing required field: '' @ hd missing))
            else if unknown \<noteq> [] then Inl (Investigation_invalid name path (''unknown field: '' @ hd unknown))
            else Inr obj)
      | _ \<Rightarrow> Inl (Investigation_invalid name path ''expected an object''))"

definition inv_array :: "string \<Rightarrow> string \<Rightarrow> nat \<Rightarrow> nat \<Rightarrow> json \<Rightarrow> investigation_error + json list" where
  "inv_array name path minimum maximum v =
     (let bad = Inl (Investigation_invalid name path (''expected an array containing from '' @ dec_nat minimum @ '' to ''
            @ dec_nat maximum @ '' items''))
      in case v of JArr vs \<Rightarrow> if minimum \<le> length vs \<and> length vs \<le> maximum then Inr vs else bad | _ \<Rightarrow> bad)"

definition inv_no_control :: "string \<Rightarrow> bool" where
  "inv_no_control = list_all (\<lambda>c. let n = (of_char c :: nat) in
     \<not> (n \<le> 8 \<or> n = 11 \<or> n = 12 \<or> (14 \<le> n \<and> n \<le> 31) \<or> n = 127))"

definition inv_text :: "string \<Rightarrow> string \<Rightarrow> nat \<Rightarrow> (string \<Rightarrow> bool) option \<Rightarrow> json \<Rightarrow> investigation_error + string" where
  "inv_text name path maximum matches v =
     (let bad = Inl (Investigation_invalid name path (''expected from 1 to '' @ dec_nat maximum @ '' bounded characters''));
          selected = (case matches of None \<Rightarrow> inv_no_control | Some f \<Rightarrow> f)
      in case v of JStr s \<Rightarrow> if 1 \<le> length s \<and> length s \<le> maximum \<and> selected s then Inr s else bad | _ \<Rightarrow> bad)"

definition inv_integer :: "string \<Rightarrow> string \<Rightarrow> int \<Rightarrow> int \<Rightarrow> json \<Rightarrow> investigation_error + int" where
  "inv_integer name path minimum maximum v =
     (let bad = Inl (Investigation_invalid name path (''expected an integer from '' @ dec_int minimum @ '' through ''
            @ dec_int maximum))
      in case v of JInt i \<Rightarrow> if minimum \<le> i \<and> i \<le> maximum then Inr i else bad | _ \<Rightarrow> bad)"

definition inv_boolean :: "string \<Rightarrow> string \<Rightarrow> json \<Rightarrow> investigation_error + bool" where
  "inv_boolean name path v = (case v of JBool b \<Rightarrow> Inr b | _ \<Rightarrow> Inl (Investigation_invalid name path ''expected a boolean''))"

definition inv_enum :: "string \<Rightarrow> string \<Rightarrow> ('a \<Rightarrow> string) \<Rightarrow> 'a list \<Rightarrow> json \<Rightarrow> investigation_error + 'a" where
  "inv_enum name path val members v =
     (case v of JStr s \<Rightarrow>
        (case enum_lookup val members s of Some m \<Rightarrow> Inr m
         | None \<Rightarrow> Inl (Investigation_invalid name path (''expected one of: '' @ join '', '' (map val members))))
      | _ \<Rightarrow> Inl (Investigation_invalid name path ''expected a string enum value''))"

definition inv_timestamp :: "string \<Rightarrow> string \<Rightarrow> json \<Rightarrow> investigation_error + string" where
  "inv_timestamp name path v =
     attempt (inv_text name path 20 (Some utc_timestamp_shape) v) (\<lambda>result.
     let bad = Inl (Investigation_invalid name path ''expected a whole-second UTC timestamp'') in
     case fromisoformat (zulu_to_offset result) of None \<Rightarrow> bad
     | Some parsed \<Rightarrow> if dt_offset parsed \<noteq> Some 0 then bad else Inr result)"

abbreviation inv_decimal :: "string \<Rightarrow> string \<Rightarrow> json \<Rightarrow> investigation_error + string" where
  "inv_decimal name \<equiv> trace_decimal (Investigation_invalid name) ''value exceeds uint64''"

abbreviation inv_id :: "string \<Rightarrow> string \<Rightarrow> json \<Rightarrow> investigation_error + string" where
  "inv_id name path \<equiv> inv_text name path 128 (Some team_id_ok)"

abbreviation inv_safe_id :: "string \<Rightarrow> string \<Rightarrow> json \<Rightarrow> investigation_error + string" where
  "inv_safe_id name path \<equiv> inv_text name path 128 (Some safe_id_ok)"

abbreviation inv_sha256 :: "string \<Rightarrow> string \<Rightarrow> json \<Rightarrow> investigation_error + string" where
  "inv_sha256 name path \<equiv> inv_text name path 64 (Some sha256_ok)"

definition inv_principal :: "string \<Rightarrow> string \<Rightarrow> json \<Rightarrow> investigation_error + team_principal" where
  "inv_principal name path v =
     attempt (inv_object name path [''identity_provider'', ''subject_id''] [] v) (\<lambda>obj.
     attempt (inv_id name (sub path ''identity_provider'') (jget obj ''identity_provider'')) (\<lambda>identity_provider.
     attempt (inv_id name (sub path ''subject_id'') (jget obj ''subject_id'')) (\<lambda>subject_id.
     Inr \<lparr>tp_identity_provider = identity_provider, tp_subject_id = subject_id\<rparr>)))"

definition validated_principal :: "string \<Rightarrow> team_principal \<Rightarrow> investigation_error + team_principal" where
  "validated_principal path p = inv_principal record_name path (principal_to_json p)"

definition inv_subject :: "string \<Rightarrow> string \<Rightarrow> json \<Rightarrow> investigation_error + investigation_artifact_subject" where
  "inv_subject name path v =
     attempt (inv_object name path [''media_type'', ''sha256'', ''byte_count''] [] v) (\<lambda>obj.
     attempt (inv_text name (sub path ''media_type'') 255 None (jget obj ''media_type'')) (\<lambda>media_type.
     attempt (ensure (media_type = INVESTIGATION_FIXTURE_MEDIA_TYPE)
        (Investigation_invalid name (sub path ''media_type'') (''expected '' @ py_repr INVESTIGATION_FIXTURE_MEDIA_TYPE))) (\<lambda>_.
     attempt (inv_sha256 name (sub path ''sha256'') (jget obj ''sha256'')) (\<lambda>sha256.
     attempt (inv_integer name (sub path ''byte_count'') 1 (int MAX_TEAM_INVESTIGATION_SOURCE_BYTES) (jget obj ''byte_count''))
       (\<lambda>byte_count.
     Inr \<lparr>ia_media_type = media_type, ia_sha256 = sha256, ia_byte_count = byte_count\<rparr>)))))"

subsection \<open>Counts\<close>

definition inv_named_count :: "string \<Rightarrow> string \<Rightarrow> int \<Rightarrow> nat \<Rightarrow> json \<Rightarrow> investigation_error + investigation_named_count" where
  "inv_named_count name path span_count index v =
     (let item_path = at_index path index in
     attempt (inv_object name item_path [''name'', ''count''] [] v) (\<lambda>item.
     attempt (wire_enum (Investigation_invalid name) openinference_span_kind_value openinference_span_kind_members
        (sub item_path ''name'') (jget item ''name'')) (\<lambda>kind.
     attempt (inv_integer name (sub item_path ''count'') 1 span_count (jget item ''count'')) (\<lambda>count.
     Inr \<lparr>inc_name = openinference_span_kind_value kind, inc_count = count\<rparr>))))"

definition inv_named_counts :: "string \<Rightarrow> string \<Rightarrow> int \<Rightarrow> json \<Rightarrow> investigation_error + investigation_named_count list" where
  "inv_named_counts name path span_count v =
     attempt (inv_array name path 0 (length openinference_span_kind_members) v) (\<lambda>items.
     attempt (each (inv_named_count name path span_count) 0 items) (\<lambda>parsed.
     attempt (ensure (unique_sorted (map inc_name parsed))
        (Investigation_invalid name path ''span kinds must be unique and sorted'')) (\<lambda>_.
     attempt (ensure (sum_list (map inc_count parsed) \<le> span_count)
        (Investigation_invalid name path ''counts exceed span_count'')) (\<lambda>_.
     Inr parsed))))"

definition inv_status_count :: "string \<Rightarrow> string \<Rightarrow> int \<Rightarrow> nat \<Rightarrow> json \<Rightarrow> investigation_error + investigation_status_count" where
  "inv_status_count name path span_count index v =
     (let item_path = at_index path index in
     attempt (inv_object name item_path [''code'', ''count''] [] v) (\<lambda>item.
     attempt (inv_integer name (sub item_path ''code'') 0 2 (jget item ''code'')) (\<lambda>code.
     attempt (inv_integer name (sub item_path ''count'') 1 span_count (jget item ''count'')) (\<lambda>count.
     Inr \<lparr>isc_code = code, isc_count = count\<rparr>))))"

definition inv_status_counts :: "string \<Rightarrow> string \<Rightarrow> int \<Rightarrow> json \<Rightarrow> investigation_error + investigation_status_count list" where
  "inv_status_counts name path span_count v =
     attempt (inv_array name path 0 3 v) (\<lambda>items.
     attempt (each (inv_status_count name path span_count) 0 items) (\<lambda>parsed.
     attempt (ensure (unique_sorted (map isc_code parsed))
        (Investigation_invalid name path ''status codes must be unique and sorted'')) (\<lambda>_.
     attempt (ensure (sum_list (map isc_count parsed) \<le> span_count)
        (Investigation_invalid name path ''counts exceed span_count'')) (\<lambda>_.
     Inr parsed))))"

definition inv_identifiers :: "string \<Rightarrow> string \<Rightarrow> json \<Rightarrow> investigation_error + string list" where
  "inv_identifiers name path v =
     attempt (inv_array name path 0 10000 v) (\<lambda>items.
     attempt (each (\<lambda>index. inv_text name (at_index path index) 128 (Some safe_trace_text)) 0 items) (\<lambda>result.
     attempt (ensure (unique_sorted result) (Investigation_invalid name path ''values must be unique and sorted'')) (\<lambda>_.
     Inr result)))"

subsection \<open>Observations\<close>

definition observation_id_of :: "library \<Rightarrow> string \<Rightarrow> string \<Rightarrow> string" where
  "observation_id_of lib trace_source_sha256 cluster_id =
     ''observation-'' @ lib_sha256 lib (utf8_bytes (trace_source_sha256 @ '':'' @ cluster_id))"

definition observation_id_ok :: "string \<Rightarrow> bool" where
  "observation_id_ok s \<longleftrightarrow> take 12 s = ''observation-'' \<and> sha256_ok (drop 12 s)"

definition inv_identity ::
  "library \<Rightarrow> string \<Rightarrow> string \<Rightarrow> dict \<Rightarrow> investigation_error + string \<times> string \<times> string \<times> string" where
  "inv_identity lib name path obj =
     attempt (inv_sha256 name (sub path ''trace_source_sha256'') (jget obj ''trace_source_sha256'')) (\<lambda>trace_source.
     attempt (inv_sha256 name (sub path ''trace_id_sha256'') (jget obj ''trace_id_sha256'')) (\<lambda>trace_id.
     attempt (inv_text name (sub path ''cluster_id'') 70 (Some cluster_id_ok) (jget obj ''cluster_id'')) (\<lambda>cluster_id.
     attempt (ensure (cluster_id = trace_cluster_id trace_id)
        (Investigation_invalid name (sub path ''cluster_id'') ''must be derived from trace_id_sha256'')) (\<lambda>_.
     attempt (inv_text name (sub path ''observation_id'') 76 (Some observation_id_ok) (jget obj ''observation_id''))
       (\<lambda>observation_id.
     attempt (ensure (observation_id = observation_id_of lib trace_source cluster_id)
        (Investigation_invalid name (sub path ''observation_id'') ''must be derived from trace source and cluster identity'')) (\<lambda>_.
     Inr (trace_source, trace_id, cluster_id, observation_id)))))))"

definition inv_status_errors :: "investigation_status_count list \<Rightarrow> int" where
  "inv_status_errors statuses = (case find (\<lambda>s. isc_code s = 2) statuses of Some s \<Rightarrow> isc_count s | None \<Rightarrow> 0)"

definition inv_counts ::
  "string \<Rightarrow> string \<Rightarrow> dict \<Rightarrow>
     investigation_error + int \<times> int \<times> int \<times> investigation_named_count list \<times> investigation_status_count list" where
  "inv_counts name path obj =
     attempt (inv_integer name (sub path ''span_count'') 1 1000000 (jget obj ''span_count'')) (\<lambda>span_count.
     attempt (inv_integer name (sub path ''root_span_count'') 0 span_count (jget obj ''root_span_count'')) (\<lambda>root_count.
     attempt (inv_integer name (sub path ''error_span_count'') 0 span_count (jget obj ''error_span_count'')) (\<lambda>error_count.
     attempt (inv_named_counts name (sub path ''span_kind_counts'') span_count (jget obj ''span_kind_counts'')) (\<lambda>kinds.
     attempt (inv_status_counts name (sub path ''status_code_counts'') span_count (jget obj ''status_code_counts'')) (\<lambda>statuses.
     attempt (ensure (inv_status_errors statuses = error_count)
        (Investigation_invalid name (sub path ''error_span_count'') ''must equal the status-code 2 count'')) (\<lambda>_.
     Inr (span_count, root_count, error_count, kinds, statuses)))))))"

definition inv_window ::
  "string \<Rightarrow> string \<Rightarrow> dict \<Rightarrow> investigation_error + string option \<times> string option \<times> string option" where
  "inv_window name path obj =
     (let field = (\<lambda>key. optional_field (inv_decimal name (sub path key)) obj key) in
     attempt (field ''earliest_start_time_unix_nano'') (\<lambda>earliest.
     attempt (field ''latest_end_time_unix_nano'') (\<lambda>latest.
     attempt (field ''observed_duration_nano'') (\<lambda>duration.
     attempt (ensure (duration = observed_window earliest latest)
        (Investigation_invalid name (sub path ''observed_duration_nano'') ''must equal the declared observation window'')) (\<lambda>_.
     Inr (earliest, latest, duration))))))"

definition observation_keys :: "string list" where
  "observation_keys =
     [''observation_id'', ''attached_at'', ''attached_by'', ''fixture'', ''fixture_id'', ''manifest_sha256'',
      ''trace_source_sha256'', ''cluster_id'', ''trace_id_sha256'', ''span_count'', ''root_span_count'', ''error_span_count'',
      ''span_kind_counts'', ''status_code_counts'', ''model_identifiers'', ''provider_identifiers'']"

definition parse_observation :: "library \<Rightarrow> string \<Rightarrow> string \<Rightarrow> nat \<Rightarrow> json \<Rightarrow> investigation_error + investigation_observation" where
  "parse_observation lib name array_path index v =
     (let path = at_index array_path index in
     attempt (inv_object name path observation_keys window_keys v) (\<lambda>obj.
     attempt (inv_identity lib name path obj) (\<lambda>(trace_source, trace_id, cluster_id, observation_id).
     attempt (inv_counts name path obj) (\<lambda>(span_count, root_count, error_count, kinds, statuses).
     attempt (inv_window name path obj) (\<lambda>(earliest, latest, duration).
     attempt (inv_timestamp name (sub path ''attached_at'') (jget obj ''attached_at'')) (\<lambda>attached_at.
     attempt (inv_principal name (sub path ''attached_by'') (jget obj ''attached_by'')) (\<lambda>attached_by.
     attempt (inv_subject name (sub path ''fixture'') (jget obj ''fixture'')) (\<lambda>fixture.
     attempt (inv_safe_id name (sub path ''fixture_id'') (jget obj ''fixture_id'')) (\<lambda>fixture_id.
     attempt (inv_sha256 name (sub path ''manifest_sha256'') (jget obj ''manifest_sha256'')) (\<lambda>manifest_sha256.
     attempt (inv_identifiers name (sub path ''model_identifiers'') (jget obj ''model_identifiers'')) (\<lambda>models.
     attempt (inv_identifiers name (sub path ''provider_identifiers'') (jget obj ''provider_identifiers'')) (\<lambda>providers.
     Inr \<lparr>tio_observation_id = observation_id, tio_attached_at = attached_at, tio_attached_by = attached_by,
          tio_fixture = fixture, tio_fixture_id = fixture_id, tio_manifest_sha256 = manifest_sha256,
          tio_trace_source_sha256 = trace_source, tio_cluster_id = cluster_id, tio_trace_id_sha256 = trace_id,
          tio_span_count = span_count, tio_root_span_count = root_count, tio_error_span_count = error_count,
          tio_span_kind_counts = kinds, tio_status_code_counts = statuses, tio_model_identifiers = models,
          tio_provider_identifiers = providers, tio_earliest_start_time_unix_nano = earliest,
          tio_latest_end_time_unix_nano = latest, tio_observed_duration_nano = duration\<rparr>))))))))))))"

subsection \<open>Records\<close>

fun validate_resolution ::
  "string \<Rightarrow> string \<Rightarrow> team_investigation_status \<Rightarrow> team_investigation_resolution option \<Rightarrow> string option \<Rightarrow> string option \<Rightarrow>
     investigation_error + unit" where
  "validate_resolution name investigation_id TeamInvestigationStatus_CLOSED None linked_case_id duplicate_of =
     Inl (Investigation_invalid name ''$.resolution'' ''closed investigations require a resolution'')"
| "validate_resolution name investigation_id TeamInvestigationStatus_CLOSED
     (Some TeamInvestigationResolution_CHANGE_CASE_OPENED) linked_case_id duplicate_of =
     ensure (linked_case_id \<noteq> None \<and> duplicate_of = None)
       (Investigation_invalid name ''$.linked_case_id'' ''change_case_opened requires only linked_case_id'')"
| "validate_resolution name investigation_id TeamInvestigationStatus_CLOSED
     (Some TeamInvestigationResolution_DUPLICATE) linked_case_id duplicate_of =
     attempt (ensure (duplicate_of \<noteq> None \<and> linked_case_id = None)
       (Investigation_invalid name ''$.duplicate_of'' ''duplicate requires only duplicate_of'')) (\<lambda>_.
     ensure (duplicate_of \<noteq> Some investigation_id)
       (Investigation_invalid name ''$.duplicate_of'' ''an investigation cannot duplicate itself''))"
| "validate_resolution name investigation_id TeamInvestigationStatus_CLOSED (Some r) linked_case_id duplicate_of =
     ensure (linked_case_id = None \<and> duplicate_of = None)
       (Investigation_invalid name ''$.resolution'' ''this resolution does not permit linkage fields'')"
| "validate_resolution name investigation_id status resolution linked_case_id duplicate_of =
     ensure (resolution = None \<and> linked_case_id = None \<and> duplicate_of = None)
       (Investigation_invalid name ''$.resolution'' ''resolution and linkage fields require closed status'')"

definition investigation_keys :: "string list" where
  "investigation_keys =
     [''schema_version'', ''tenant_id'', ''investigation_id'', ''revision'', ''created_at'', ''updated_at'', ''title'', ''status'',
      ''priority'', ''opened_by'', ''candidate_only'', ''gate_eligible'', ''causal_claims_inferred'', ''observations'']"

definition queue_keys :: "string list" where
  "queue_keys = [''assigned_to'', ''resolution'', ''linked_case_id'', ''duplicate_of'']"

definition check_labels :: "dict \<Rightarrow> investigation_error + unit" where
  \<comment> \<open>the fixed values that keep a record out of the gate\<close>
  "check_labels rt =
     (let err = Investigation_invalid record_name in
     attempt (ensure (jget rt ''schema_version'' = JStr TEAM_INVESTIGATION_RECORD_SCHEMA_VERSION)
        (err ''$.schema_version'' (''expected '' @ py_repr TEAM_INVESTIGATION_RECORD_SCHEMA_VERSION))) (\<lambda>_.
     attempt (inv_boolean record_name ''$.candidate_only'' (jget rt ''candidate_only'')) (\<lambda>b.
     attempt (ensure b (err ''$.candidate_only'' ''expected true'')) (\<lambda>_.
     attempt (inv_boolean record_name ''$.gate_eligible'' (jget rt ''gate_eligible'')) (\<lambda>b.
     attempt (ensure (\<not> b) (err ''$.gate_eligible'' ''expected false'')) (\<lambda>_.
     attempt (inv_boolean record_name ''$.causal_claims_inferred'' (jget rt ''causal_claims_inferred'')) (\<lambda>b.
     ensure (\<not> b) (err ''$.causal_claims_inferred'' ''expected false''))))))))"

definition parse_history ::
  "library \<Rightarrow> string \<Rightarrow> string \<Rightarrow> json \<Rightarrow> investigation_error + investigation_observation list" where
  \<comment> \<open>the observations, with the checks on their identities and attachment times\<close>
  "parse_history lib created_at updated_at v =
     (let err = Investigation_invalid record_name in
     attempt (inv_array record_name ''$.observations'' 1 MAX_TEAM_INVESTIGATION_OBSERVATIONS v) (\<lambda>items.
     attempt (each (parse_observation lib record_name ''$.observations'') 0 items) (\<lambda>observations.
     attempt (ensure (distinct (map tio_observation_id observations))
        (err ''$.observations'' ''observation identities must be unique'')) (\<lambda>_.
     attempt (ensure (unique_sorted (map tio_attached_at observations))
        (err ''$.observations'' ''attachment times must strictly increase'')) (\<lambda>_.
     attempt (ensure (tio_attached_at (hd observations) = created_at)
        (err ''$.created_at'' ''must equal the first observation attachment time'')) (\<lambda>_.
     attempt (ensure (\<not> updated_at < tio_attached_at (last observations))
        (err ''$.updated_at'' ''must not precede an observation attachment'')) (\<lambda>_.
     Inr observations)))))))"

definition parse_queue_state ::
  "dict \<Rightarrow> string \<Rightarrow> investigation_error + team_investigation_status \<times> team_investigation_priority \<times> team_principal option
     \<times> team_investigation_resolution option \<times> string option \<times> string option" where
  "parse_queue_state rt investigation_id =
     (let name = record_name in
     attempt (inv_enum name ''$.status'' team_investigation_status_value team_investigation_status_members (jget rt ''status''))
       (\<lambda>status.
     attempt (inv_enum name ''$.priority'' team_investigation_priority_value team_investigation_priority_members
        (jget rt ''priority'')) (\<lambda>priority.
     attempt (optional_field (inv_principal name ''$.assigned_to'') rt ''assigned_to'') (\<lambda>assigned_to.
     attempt (optional_field (inv_enum name ''$.resolution'' team_investigation_resolution_value
        team_investigation_resolution_members) rt ''resolution'') (\<lambda>resolution.
     attempt (optional_field (inv_safe_id name ''$.linked_case_id'') rt ''linked_case_id'') (\<lambda>linked_case_id.
     attempt (optional_field (inv_safe_id name ''$.duplicate_of'') rt ''duplicate_of'') (\<lambda>duplicate_of.
     attempt (validate_resolution name investigation_id status resolution linked_case_id duplicate_of) (\<lambda>_.
     Inr (status, priority, assigned_to, resolution, linked_case_id, duplicate_of)))))))))"

definition parse_team_investigation_record :: "library \<Rightarrow> json \<Rightarrow> investigation_error + investigation_record" where
  "parse_team_investigation_record lib document =
     (let name = record_name; err = Investigation_invalid name in
     attempt (inv_object name ''$'' investigation_keys queue_keys document) (\<lambda>rt.
     attempt (check_labels rt) (\<lambda>_.
     attempt (inv_safe_id name ''$.investigation_id'' (jget rt ''investigation_id'')) (\<lambda>investigation_id.
     attempt (inv_timestamp name ''$.created_at'' (jget rt ''created_at'')) (\<lambda>created_at.
     attempt (inv_timestamp name ''$.updated_at'' (jget rt ''updated_at'')) (\<lambda>updated_at.
     attempt (ensure (\<not> updated_at < created_at) (err ''$.updated_at'' ''must be at or after created_at'')) (\<lambda>_.
     attempt (parse_history lib created_at updated_at (jget rt ''observations'')) (\<lambda>observations.
     attempt (inv_integer name ''$.revision'' 1 MAX_INVESTIGATION_REVISION (jget rt ''revision'')) (\<lambda>revision.
     attempt (ensure (int (length observations) \<le> revision)
        (err ''$.revision'' ''cannot be less than the observation count'')) (\<lambda>_.
     attempt (inv_principal name ''$.opened_by'' (jget rt ''opened_by'')) (\<lambda>opened_by.
     attempt (ensure (tio_attached_by (hd observations) = opened_by)
        (err ''$.opened_by'' ''must equal the principal that attached the first observation'')) (\<lambda>_.
     attempt (parse_queue_state rt investigation_id)
       (\<lambda>(status, priority, assigned_to, resolution, linked_case_id, duplicate_of).
     attempt (inv_id name ''$.tenant_id'' (jget rt ''tenant_id'')) (\<lambda>tenant_id.
     attempt (inv_text name ''$.title'' 256 None (jget rt ''title'')) (\<lambda>title.
     Inr \<lparr>tir_schema_version = TEAM_INVESTIGATION_RECORD_SCHEMA_VERSION, tir_tenant_id = tenant_id,
          tir_investigation_id = investigation_id, tir_revision = revision, tir_created_at = created_at,
          tir_updated_at = updated_at, tir_title = title, tir_status = status, tir_priority = priority,
          tir_opened_by = opened_by, tir_candidate_only = True, tir_gate_eligible = False,
          tir_causal_claims_inferred = False, tir_observations = observations, tir_assigned_to = assigned_to,
          tir_resolution = resolution, tir_linked_case_id = linked_case_id, tir_duplicate_of = duplicate_of\<rparr>)))))))))))))))"

definition parse_team_investigation_record_bytes :: "library \<Rightarrow> string \<Rightarrow> investigation_error + investigation_record" where
  "parse_team_investigation_record_bytes lib raw_bytes =
     (let err = Investigation_invalid record_name ''$''; maximum = MAX_TEAM_INVESTIGATION_RECORD_BYTES in
      if \<not> (1 \<le> length raw_bytes \<and> length raw_bytes \<le> maximum)
      then Inl (err (''expected from 1 to '' @ dec_nat maximum @ '' bytes''))
      else case lib_decode_utf8 lib raw_bytes of
        None \<Rightarrow> Inl (err ''document is not valid UTF-8'')
      | Some text \<Rightarrow>
          (case parse_json_text lib text record_name maximum of
             Inl message \<Rightarrow> Inl (err message)
           | Inr document \<Rightarrow> parse_team_investigation_record lib document))"

subsection \<open>Rendering\<close>

definition inv_subject_to_json :: "investigation_artifact_subject \<Rightarrow> json" where
  "inv_subject_to_json s = JObj
     [(''media_type'', JStr (ia_media_type s)), (''sha256'', JStr (ia_sha256 s)), (''byte_count'', JInt (ia_byte_count s))]"

definition inv_named_count_to_json :: "investigation_named_count \<Rightarrow> json" where
  "inv_named_count_to_json c = JObj [(''name'', JStr (inc_name c)), (''count'', JInt (inc_count c))]"

definition inv_status_count_to_json :: "investigation_status_count \<Rightarrow> json" where
  "inv_status_count_to_json c = JObj [(''code'', JInt (isc_code c)), (''count'', JInt (isc_count c))]"

definition observation_dict :: "investigation_observation \<Rightarrow> dict" where
  "observation_dict b =
     [(''observation_id'', JStr (tio_observation_id b)), (''attached_at'', JStr (tio_attached_at b)),
      (''attached_by'', principal_to_json (tio_attached_by b)), (''fixture'', inv_subject_to_json (tio_fixture b)),
      (''fixture_id'', JStr (tio_fixture_id b)), (''manifest_sha256'', JStr (tio_manifest_sha256 b)),
      (''trace_source_sha256'', JStr (tio_trace_source_sha256 b)), (''cluster_id'', JStr (tio_cluster_id b)),
      (''trace_id_sha256'', JStr (tio_trace_id_sha256 b)), (''span_count'', JInt (tio_span_count b)),
      (''root_span_count'', JInt (tio_root_span_count b)), (''error_span_count'', JInt (tio_error_span_count b)),
      (''span_kind_counts'', JArr (map inv_named_count_to_json (tio_span_kind_counts b))),
      (''status_code_counts'', JArr (map inv_status_count_to_json (tio_status_code_counts b))),
      (''model_identifiers'', JArr (map JStr (tio_model_identifiers b))),
      (''provider_identifiers'', JArr (map JStr (tio_provider_identifiers b)))] @
     omit_none ''earliest_start_time_unix_nano'' (map_option JStr (tio_earliest_start_time_unix_nano b)) @
     omit_none ''latest_end_time_unix_nano'' (map_option JStr (tio_latest_end_time_unix_nano b)) @
     omit_none ''observed_duration_nano'' (map_option JStr (tio_observed_duration_nano b))"

definition record_dict :: "investigation_record \<Rightarrow> dict" where
  "record_dict r =
     [(''schema_version'', JStr (tir_schema_version r)), (''tenant_id'', JStr (tir_tenant_id r)),
      (''investigation_id'', JStr (tir_investigation_id r)), (''revision'', JInt (tir_revision r)),
      (''created_at'', JStr (tir_created_at r)), (''updated_at'', JStr (tir_updated_at r)), (''title'', JStr (tir_title r)),
      (''status'', JStr (team_investigation_status_value (tir_status r))),
      (''priority'', JStr (team_investigation_priority_value (tir_priority r))),
      (''opened_by'', principal_to_json (tir_opened_by r)), (''candidate_only'', JBool (tir_candidate_only r)),
      (''gate_eligible'', JBool (tir_gate_eligible r)), (''causal_claims_inferred'', JBool (tir_causal_claims_inferred r)),
      (''observations'', JArr (map (\<lambda>b. JObj (observation_dict b)) (tir_observations r)))] @
     omit_none ''assigned_to'' (map_option principal_to_json (tir_assigned_to r)) @
     omit_none ''resolution'' (map_option (\<lambda>x. JStr (team_investigation_resolution_value x)) (tir_resolution r)) @
     omit_none ''linked_case_id'' (map_option JStr (tir_linked_case_id r)) @
     omit_none ''duplicate_of'' (map_option JStr (tir_duplicate_of r))"

definition reparse :: "library \<Rightarrow> investigation_record \<Rightarrow> investigation_error + investigation_record" where
  \<comment> \<open>\<open>parse_team_investigation_record(to_jsonable(record))\<close>\<close>
  "reparse lib r = parse_team_investigation_record lib (JObj (record_dict r))"

definition render_team_investigation_record ::
  "library \<Rightarrow> (json \<Rightarrow> string) \<Rightarrow> investigation_record \<Rightarrow> investigation_error + string" where
  \<comment> \<open>the second argument is \<open>json.dumps(..., indent=2, sort_keys=True)\<close>\<close>
  "render_team_investigation_record lib dumps r =
     attempt (reparse lib r) (\<lambda>validated. Inr (dumps (JObj (record_dict validated)) @ [CHR 0x0A]))"

subsection \<open>Operations\<close>

definition fixture_cluster ::
  "library \<Rightarrow> string \<Rightarrow> string \<Rightarrow> investigation_error + investigation_fixture \<times> candidate_trace_cluster" where
  "fixture_cluster lib fixture_bytes cluster_id =
     (let name = ''investigation fixture'' in
     attempt (ensure (1 \<le> length fixture_bytes \<and> length fixture_bytes \<le> MAX_TEAM_INVESTIGATION_SOURCE_BYTES)
        (Investigation_invalid name ''$'' (''expected from 1 to '' @ dec_nat MAX_TEAM_INVESTIGATION_SOURCE_BYTES @ '' bytes''))) (\<lambda>_.
     attempt (inv_text name ''$.selected_cluster_id'' 70 (Some cluster_id_ok) (JStr cluster_id)) (\<lambda>selected_id.
     attempt (case parse_investigation_fixture_bytes lib fixture_bytes of Inr f \<Rightarrow> Inr f
        | Inl (Fixture_invalid path message) \<Rightarrow> Inl (Investigation_invalid name path message)
        | Inl _ \<Rightarrow> Inl (Investigation_invalid name ''$'' []) \<comment> \<open>not an error of the parser\<close>) (\<lambda>fixture.
     case find (\<lambda>c. cc_cluster_id c = selected_id) (if_candidate_clusters fixture) of
       Some cluster \<Rightarrow> Inr (fixture, cluster)
     | None \<Rightarrow> Inl (Investigation_invalid name ''$.selected_cluster_id''
         ''does not identify a candidate cluster in the supplied exact fixture'')))))"

definition make_observation ::
  "library \<Rightarrow> string \<Rightarrow> string \<Rightarrow> string \<Rightarrow> team_principal \<Rightarrow> investigation_error + investigation_observation" where
  "make_observation lib fixture_bytes cluster_id attached_at attached_by =
     attempt (fixture_cluster lib fixture_bytes cluster_id) (\<lambda>(fixture, cluster).
     attempt (validated_principal ''$.attached_by'' attached_by) (\<lambda>principal.
     attempt (inv_timestamp record_name ''$.updated_at'' (JStr attached_at)) (\<lambda>instant.
     Inr \<lparr>tio_observation_id = observation_id_of lib (fs_trace_source_sha256 (if_source fixture)) (cc_cluster_id cluster),
          tio_attached_at = instant, tio_attached_by = principal,
          tio_fixture = \<lparr>ia_media_type = INVESTIGATION_FIXTURE_MEDIA_TYPE, ia_sha256 = lib_sha256 lib fixture_bytes,
             ia_byte_count = int (length fixture_bytes)\<rparr>,
          tio_fixture_id = if_fixture_id fixture, tio_manifest_sha256 = fs_manifest_sha256 (if_source fixture),
          tio_trace_source_sha256 = fs_trace_source_sha256 (if_source fixture), tio_cluster_id = cc_cluster_id cluster,
          tio_trace_id_sha256 = cc_trace_id_sha256 cluster, tio_span_count = cc_span_count cluster,
          tio_root_span_count = cc_root_span_count cluster, tio_error_span_count = cc_error_span_count cluster,
          tio_span_kind_counts = map (\<lambda>x. \<lparr>inc_name = nc_name x, inc_count = nc_count x\<rparr>) (cc_span_kind_counts cluster),
          tio_status_code_counts = map (\<lambda>x. \<lparr>isc_code = sc_code x, isc_count = sc_count x\<rparr>) (cc_status_code_counts cluster),
          tio_model_identifiers = cc_model_identifiers cluster, tio_provider_identifiers = cc_provider_identifiers cluster,
          tio_earliest_start_time_unix_nano = cc_earliest_start_time_unix_nano cluster,
          tio_latest_end_time_unix_nano = cc_latest_end_time_unix_nano cluster,
          tio_observed_duration_nano = cc_observed_duration_nano cluster\<rparr>)))"

definition bounded_record ::
  "library \<Rightarrow> (json \<Rightarrow> string) \<Rightarrow> investigation_record \<Rightarrow> investigation_error + investigation_record" where
  "bounded_record lib dumps r =
     attempt (render_team_investigation_record lib dumps r) (\<lambda>text.
     attempt (ensure (length (utf8_bytes text) \<le> MAX_TEAM_INVESTIGATION_RECORD_BYTES)
        (Investigation_invalid record_name ''$''
          (''derived record exceeds the '' @ dec_nat MAX_TEAM_INVESTIGATION_RECORD_BYTES @ ''-byte limit''))) (\<lambda>_.
     Inr r))"

fun allowed_statuses :: "team_investigation_status \<Rightarrow> team_investigation_status list" where
  "allowed_statuses TeamInvestigationStatus_QUEUED =
     [TeamInvestigationStatus_QUEUED, TeamInvestigationStatus_INVESTIGATING, TeamInvestigationStatus_BLOCKED,
      TeamInvestigationStatus_CLOSED]"
| "allowed_statuses TeamInvestigationStatus_INVESTIGATING =
     [TeamInvestigationStatus_INVESTIGATING, TeamInvestigationStatus_BLOCKED, TeamInvestigationStatus_CLOSED]"
| "allowed_statuses TeamInvestigationStatus_BLOCKED =
     [TeamInvestigationStatus_BLOCKED, TeamInvestigationStatus_INVESTIGATING, TeamInvestigationStatus_CLOSED]"
| "allowed_statuses TeamInvestigationStatus_CLOSED = []"
  \<comment> \<open>the last is never looked up: a closed predecessor is refused before\<close>

definition queue_state ::
  "investigation_record \<Rightarrow> string \<times> team_investigation_status \<times> team_investigation_priority \<times> team_principal option
     \<times> team_investigation_resolution option \<times> string option \<times> string option" where
  "queue_state r = (tir_title r, tir_status r, tir_priority r, tir_assigned_to r, tir_resolution r, tir_linked_case_id r,
     tir_duplicate_of r)"

definition check_first :: "investigation_record \<Rightarrow> investigation_error + investigation_record" where
  "check_first candidate =
     attempt (ensure (tir_revision candidate = 1 \<and> tir_status candidate = TeamInvestigationStatus_QUEUED
         \<and> tir_created_at candidate = tir_updated_at candidate \<and> length (tir_observations candidate) = 1
         \<and> tio_attached_at (hd (tir_observations candidate)) = tir_created_at candidate
         \<and> tir_assigned_to candidate = None \<and> tir_resolution candidate = None)
       (Investigation_invalid record_name ''$'' ''the first revision must be one unassigned queued observation'')) (\<lambda>_.
     Inr candidate)"

definition check_immutable :: "investigation_record \<Rightarrow> investigation_record \<Rightarrow> investigation_error + unit" where
  "check_immutable previous candidate =
     (let err = Investigation_invalid record_name in
     attempt (ensure (tir_status previous \<noteq> TeamInvestigationStatus_CLOSED)
        (err ''$.status'' ''closed investigations are terminal'')) (\<lambda>_.
     attempt (ensure (tir_tenant_id candidate = tir_tenant_id previous
           \<and> tir_investigation_id candidate = tir_investigation_id previous)
        (err ''$'' ''successor tenant and investigation id must remain unchanged'')) (\<lambda>_.
     attempt (ensure (tir_revision candidate = tir_revision previous + 1)
        (err ''$.revision'' ''must advance the previous revision by one'')) (\<lambda>_.
     attempt (ensure (tir_updated_at previous < tir_updated_at candidate)
        (err ''$.updated_at'' ''must advance the previous update time'')) (\<lambda>_.
     ensure (tir_schema_version candidate = tir_schema_version previous \<and> tir_created_at candidate = tir_created_at previous
         \<and> tir_opened_by candidate = tir_opened_by previous \<and> tir_candidate_only candidate = tir_candidate_only previous
         \<and> tir_gate_eligible candidate = tir_gate_eligible previous
         \<and> tir_causal_claims_inferred candidate = tir_causal_claims_inferred previous)
       (err ''$'' ''identity, provenance semantics, and opening metadata are immutable''))))))"

definition check_attachment :: "investigation_record \<Rightarrow> investigation_record \<Rightarrow> investigation_error + investigation_record" where
  "check_attachment previous candidate =
     (let err = Investigation_invalid record_name; new = tir_observations candidate; old = tir_observations previous in
     attempt (ensure (length new = length old + 1 \<and> butlast new = old \<and> tio_attached_at (last new) = tir_updated_at candidate)
        (err ''$.observations'' ''a successor may append exactly one immutable observation'')) (\<lambda>_.
     attempt (ensure (queue_state candidate = queue_state previous)
        (err ''$'' ''observation attachment cannot also change queue state'')) (\<lambda>_.
     Inr candidate)))"

definition check_transition :: "investigation_record \<Rightarrow> investigation_record \<Rightarrow> investigation_error + investigation_record" where
  "check_transition previous candidate =
     (let err = Investigation_invalid record_name in
     attempt (ensure (tir_status candidate \<in> set (allowed_statuses (tir_status previous)))
        (err ''$.status'' ''queue status transition is not allowed'')) (\<lambda>_.
     attempt (ensure (queue_state candidate \<noteq> queue_state previous)
        (err ''$'' ''a queue-state successor must make a material change'')) (\<lambda>_.
     Inr candidate)))"

definition validate_team_investigation_successor ::
  "library \<Rightarrow> investigation_record option \<Rightarrow> investigation_record \<Rightarrow> investigation_error + investigation_record" where
  "validate_team_investigation_successor lib given candidate =
     attempt (reparse lib candidate) (\<lambda>candidate.
     case given of None \<Rightarrow> check_first candidate
     | Some p \<Rightarrow>
         attempt (reparse lib p) (\<lambda>previous.
         attempt (check_immutable previous candidate) (\<lambda>_.
         if tir_observations candidate \<noteq> tir_observations previous then check_attachment previous candidate
         else check_transition previous candidate)))"

definition accept_successor ::
  "library \<Rightarrow> (json \<Rightarrow> string) \<Rightarrow> investigation_record option \<Rightarrow> investigation_record \<Rightarrow> investigation_error + investigation_record" where
  \<comment> \<open>how every operation ends\<close>
  "accept_successor lib dumps previous candidate =
     attempt (reparse lib candidate) (\<lambda>validated.
     attempt (validate_team_investigation_successor lib previous validated) (\<lambda>_.
     bounded_record lib dumps validated))"

definition create_team_investigation_record ::
  "library \<Rightarrow> (json \<Rightarrow> string) \<Rightarrow> string \<Rightarrow> string \<Rightarrow> string \<Rightarrow> string \<Rightarrow> string \<Rightarrow> string \<Rightarrow> string \<Rightarrow> team_principal \<Rightarrow>
     investigation_error + investigation_record" where
  "create_team_investigation_record lib dumps fixture_bytes tenant_id investigation_id cluster_id title priority opened_at
     opened_by =
     (case enum_lookup team_investigation_priority_value team_investigation_priority_members priority of
        None \<Rightarrow> Inl (Investigation_invalid record_name ''$.priority'' ''priority is not a supported queue priority'')
      | Some resolved_priority \<Rightarrow>
          attempt (make_observation lib fixture_bytes cluster_id opened_at opened_by) (\<lambda>observation.
          accept_successor lib dumps None
            \<lparr>tir_schema_version = TEAM_INVESTIGATION_RECORD_SCHEMA_VERSION, tir_tenant_id = tenant_id,
             tir_investigation_id = investigation_id, tir_revision = 1, tir_created_at = opened_at,
             tir_updated_at = opened_at, tir_title = title, tir_status = TeamInvestigationStatus_QUEUED,
             tir_priority = resolved_priority, tir_opened_by = opened_by, tir_candidate_only = True,
             tir_gate_eligible = False, tir_causal_claims_inferred = False, tir_observations = [observation],
             tir_assigned_to = None, tir_resolution = None, tir_linked_case_id = None, tir_duplicate_of = None\<rparr>))"

definition attach_team_investigation_observation ::
  "library \<Rightarrow> (json \<Rightarrow> string) \<Rightarrow> investigation_record \<Rightarrow> string \<Rightarrow> string \<Rightarrow> string \<Rightarrow> team_principal \<Rightarrow>
     investigation_error + investigation_record" where
  "attach_team_investigation_observation lib dumps given fixture_bytes cluster_id attached_at attached_by =
     (let err = Investigation_invalid record_name in
     attempt (reparse lib given) (\<lambda>previous.
     attempt (ensure (length (tir_observations previous) < MAX_TEAM_INVESTIGATION_OBSERVATIONS)
        (err ''$.observations'' (''supports at most '' @ dec_nat MAX_TEAM_INVESTIGATION_OBSERVATIONS @ '' observations''))) (\<lambda>_.
     attempt (make_observation lib fixture_bytes cluster_id attached_at attached_by) (\<lambda>observation.
     attempt (ensure (tio_observation_id observation \<notin> set (map tio_observation_id (tir_observations previous)))
        (err ''$.observations'' ''the selected trace cluster is already attached'')) (\<lambda>_.
     accept_successor lib dumps (Some previous)
       (previous\<lparr>tir_revision := tir_revision previous + 1, tir_updated_at := attached_at,
          tir_observations := tir_observations previous @ [observation]\<rparr>))))))"

record transition_request =
  trq_updated_at :: string
  trq_title :: string
  trq_status :: string
  trq_priority :: string
  trq_assigned_to :: "team_principal option"
  trq_resolution :: "string option"
  trq_linked_case_id :: "string option"
  trq_duplicate_of :: "string option"

definition transition_enums ::
  "transition_request \<Rightarrow> (team_investigation_status \<times> team_investigation_priority \<times> team_investigation_resolution option) option" where
  "transition_enums q =
     Option.bind (enum_lookup team_investigation_status_value team_investigation_status_members (trq_status q)) (\<lambda>status.
     Option.bind (enum_lookup team_investigation_priority_value team_investigation_priority_members (trq_priority q)) (\<lambda>priority.
     case trq_resolution q of None \<Rightarrow> Some (status, priority, None)
     | Some r \<Rightarrow> map_option (\<lambda>resolution. (status, priority, Some resolution))
         (enum_lookup team_investigation_resolution_value team_investigation_resolution_members r)))"

definition transition_team_investigation_record ::
  "library \<Rightarrow> (json \<Rightarrow> string) \<Rightarrow> investigation_record \<Rightarrow> transition_request \<Rightarrow> investigation_error + investigation_record" where
  "transition_team_investigation_record lib dumps given q =
     attempt (reparse lib given) (\<lambda>previous.
     case transition_enums q of
       None \<Rightarrow> Inl (Investigation_invalid record_name ''$'' ''transition contains an unsupported enum value'')
     | Some (status, priority, resolution) \<Rightarrow>
         attempt (case trq_assigned_to q of None \<Rightarrow> Inr None
            | Some p \<Rightarrow> attempt (validated_principal ''$.assigned_to'' p) (\<lambda>p. Inr (Some p))) (\<lambda>assignee.
         accept_successor lib dumps (Some previous)
           (previous\<lparr>tir_revision := tir_revision previous + 1, tir_updated_at := trq_updated_at q, tir_title := trq_title q,
              tir_status := status, tir_priority := priority, tir_assigned_to := assignee, tir_resolution := resolution,
              tir_linked_case_id := trq_linked_case_id q, tir_duplicate_of := trq_duplicate_of q\<rparr>)))"

subsection \<open>When a value is accepted\<close>

definition inv_text_ok :: "nat \<Rightarrow> (string \<Rightarrow> bool) \<Rightarrow> string \<Rightarrow> bool" where
  "inv_text_ok n f s \<longleftrightarrow> s \<noteq> [] \<and> length s \<le> n \<and> f s"

definition inv_timestamp_ok :: "string \<Rightarrow> bool" where
  "inv_timestamp_ok s \<longleftrightarrow> inv_text_ok 20 utc_timestamp_shape s
     \<and> (case fromisoformat (zulu_to_offset s) of None \<Rightarrow> False | Some t \<Rightarrow> dt_offset t = Some 0)"

lemma inv_object_Inr [strict_iff]:
  "inv_object name path required [] v = Inr obj \<longleftrightarrow> v = JObj obj \<and> exact_keys required obj"
  by (auto simp: inv_object_def exact_keys_def Let_def has_key_def filter_empty_conv split: json.split if_splits)

lemma inv_object_optional:
  "inv_object name path required optional v = Inr obj \<longleftrightarrow> v = JObj obj \<and> keys_between required optional obj"
  by (auto simp: inv_object_def keys_between_def Let_def has_key_def filter_empty_conv split: json.split if_splits)

lemma inv_array_Inr [strict_iff]:
  "inv_array name path lo hi v = Inr vs \<longleftrightarrow> v = JArr vs \<and> lo \<le> length vs \<and> length vs \<le> hi"
  by (auto simp: inv_array_def Let_def split: json.split)

lemma inv_text_Inr [strict_iff]:
  "inv_text name path n None v = Inr s \<longleftrightarrow> v = JStr s \<and> inv_text_ok n inv_no_control s"
  "inv_text name path n (Some f) v = Inr s \<longleftrightarrow> v = JStr s \<and> inv_text_ok n f s"
  by (auto simp: inv_text_def inv_text_ok_def Let_def Suc_le_eq split: json.split if_splits)

lemma inv_integer_Inr [strict_iff]: "inv_integer name path lo hi v = Inr i \<longleftrightarrow> v = JInt i \<and> lo \<le> i \<and> i \<le> hi"
  by (auto simp: inv_integer_def Let_def split: json.split)

lemma inv_boolean_Inr [strict_iff]: "inv_boolean name path v = Inr b \<longleftrightarrow> v = JBool b"
  by (auto simp: inv_boolean_def split: json.split)

lemma inv_timestamp_Inr [strict_iff]: "inv_timestamp name path v = Inr s \<longleftrightarrow> v = JStr s \<and> inv_timestamp_ok s"
  by (auto simp: inv_timestamp_def inv_timestamp_ok_def strict_iff Let_def split: option.split if_splits)

context str_enum
begin

lemma inv_enum_Inr: "inv_enum name path val members v = Inr m \<longleftrightarrow> v = JStr (val m)"
  by (cases v) (auto simp: inv_enum_def lookup_Some lookup_None inj_val split: option.split)

end

lemmas inv_enums [strict_iff] =
  team_investigation_status.inv_enum_Inr team_investigation_priority.inv_enum_Inr team_investigation_resolution.inv_enum_Inr
  team_investigation_status.inj_val team_investigation_priority.inj_val team_investigation_resolution.inj_val

definition inv_principal_ok :: "team_principal \<Rightarrow> bool" where
  "inv_principal_ok p \<longleftrightarrow> inv_text_ok 128 team_id_ok (tp_identity_provider p) \<and> inv_text_ok 128 team_id_ok (tp_subject_id p)"

definition inv_subject_ok :: "investigation_artifact_subject \<Rightarrow> bool" where
  "inv_subject_ok s \<longleftrightarrow> ia_media_type s = INVESTIGATION_FIXTURE_MEDIA_TYPE \<and> inv_text_ok 64 sha256_ok (ia_sha256 s)
     \<and> 1 \<le> ia_byte_count s \<and> ia_byte_count s \<le> int MAX_TEAM_INVESTIGATION_SOURCE_BYTES"

definition inv_named_ok :: "int \<Rightarrow> investigation_named_count list \<Rightarrow> bool" where
  "inv_named_ok n xs \<longleftrightarrow> length xs \<le> length openinference_span_kind_members
     \<and> list_all (\<lambda>c. span_kind_text (inc_name c) \<and> 1 \<le> inc_count c \<and> inc_count c \<le> n) xs
     \<and> unique_sorted (map inc_name xs) \<and> sum_list (map inc_count xs) \<le> n"

definition inv_status_ok :: "int \<Rightarrow> investigation_status_count list \<Rightarrow> bool" where
  "inv_status_ok n xs \<longleftrightarrow> length xs \<le> 3
     \<and> list_all (\<lambda>c. 0 \<le> isc_code c \<and> isc_code c \<le> 2 \<and> 1 \<le> isc_count c \<and> isc_count c \<le> n) xs
     \<and> unique_sorted (map isc_code xs) \<and> sum_list (map isc_count xs) \<le> n"

definition inv_identifiers_ok :: "string list \<Rightarrow> bool" where
  "inv_identifiers_ok xs \<longleftrightarrow> length xs \<le> 10000 \<and> list_all (inv_text_ok 128 safe_trace_text) xs \<and> unique_sorted xs"

lemma inv_principal_render [strict_iff]:
  "inv_principal name path (principal_to_json p) = Inr q \<longleftrightarrow> q = p \<and> inv_principal_ok p"
  by (cases p) (auto simp: inv_principal_def principal_to_json_def strict_iff exact_keys_def inv_principal_ok_def)

lemma inv_principal_sound: "inv_principal name path v = Inr p \<Longrightarrow> inv_principal_ok p"
  by (auto simp: inv_principal_def strict_iff inv_principal_ok_def)

lemma inv_media_type: "inv_text_ok 255 inv_no_control INVESTIGATION_FIXTURE_MEDIA_TYPE"
  by (simp add: inv_text_ok_def inv_no_control_def INVESTIGATION_FIXTURE_MEDIA_TYPE_def)

lemma inv_subject_render [strict_iff]:
  "inv_subject name path (inv_subject_to_json s) = Inr t \<longleftrightarrow> t = s \<and> inv_subject_ok s"
  using inv_media_type
  by (cases s) (auto simp: inv_subject_def inv_subject_to_json_def strict_iff exact_keys_def inv_subject_ok_def)

lemma inv_subject_sound: "inv_subject name path v = Inr s \<Longrightarrow> inv_subject_ok s"
  by (auto simp: inv_subject_def strict_iff inv_subject_ok_def)

interpretation inv_named_codec: exact_codec "inv_named_count name path n" inv_named_count_to_json
  "\<lambda>c. span_kind_text (inc_name c) \<and> 1 \<le> inc_count c \<and> inc_count c \<le> n" for name path n
proof unfold_locales
  fix c d :: investigation_named_count and i v
  show "span_kind_text (inc_name c) \<and> 1 \<le> inc_count c \<and> inc_count c \<le> n \<Longrightarrow>
      inv_named_count name path n i (inv_named_count_to_json c) = Inr c"
    by (cases c) (auto simp: inv_named_count_def inv_named_count_to_json_def strict_iff exact_keys_def Let_def span_kind_text_iff)
  show "inv_named_count name path n i v = Inr c \<Longrightarrow> span_kind_text (inc_name c) \<and> 1 \<le> inc_count c \<and> inc_count c \<le> n"
    by (auto simp: inv_named_count_def strict_iff Let_def span_kind_text_iff)
  show "inv_named_count name path n i (inv_named_count_to_json c) = Inr d \<Longrightarrow> d = c"
    by (cases c) (auto simp: inv_named_count_def inv_named_count_to_json_def strict_iff Let_def)
qed

interpretation inv_status_codec: exact_codec "inv_status_count name path n" inv_status_count_to_json
  "\<lambda>c. 0 \<le> isc_code c \<and> isc_code c \<le> 2 \<and> 1 \<le> isc_count c \<and> isc_count c \<le> n" for name path n
proof unfold_locales
  fix c d :: investigation_status_count and i v
  show "0 \<le> isc_code c \<and> isc_code c \<le> 2 \<and> 1 \<le> isc_count c \<and> isc_count c \<le> n \<Longrightarrow>
      inv_status_count name path n i (inv_status_count_to_json c) = Inr c"
    by (cases c) (auto simp: inv_status_count_def inv_status_count_to_json_def strict_iff exact_keys_def Let_def)
  show "inv_status_count name path n i v = Inr c \<Longrightarrow> 0 \<le> isc_code c \<and> isc_code c \<le> 2 \<and> 1 \<le> isc_count c \<and> isc_count c \<le> n"
    by (auto simp: inv_status_count_def strict_iff Let_def)
  show "inv_status_count name path n i (inv_status_count_to_json c) = Inr d \<Longrightarrow> d = c"
    by (cases c) (auto simp: inv_status_count_def inv_status_count_to_json_def strict_iff Let_def)
qed

interpretation inv_text_codec: exact_codec
  "\<lambda>i. inv_text name (at_index path i) n (Some f)" JStr "inv_text_ok n f" for name path n f
  by unfold_locales (auto simp: strict_iff)

lemma inv_named_counts_render [strict_iff]:
  "inv_named_counts name path n (JArr (map inv_named_count_to_json xs)) = Inr ys \<longleftrightarrow> ys = xs \<and> inv_named_ok n xs"
  by (auto simp: inv_named_counts_def strict_iff inv_named_codec.each_exact inv_named_ok_def)

lemma inv_named_counts_sound: "inv_named_counts name path n v = Inr xs \<Longrightarrow> inv_named_ok n xs"
  by (auto simp: inv_named_counts_def strict_iff inv_named_ok_def dest: inv_named_codec.each_ok each_length)

lemma inv_status_counts_render [strict_iff]:
  "inv_status_counts name path n (JArr (map inv_status_count_to_json xs)) = Inr ys \<longleftrightarrow> ys = xs \<and> inv_status_ok n xs"
  by (auto simp: inv_status_counts_def strict_iff inv_status_codec.each_exact inv_status_ok_def)

lemma inv_status_counts_sound: "inv_status_counts name path n v = Inr xs \<Longrightarrow> inv_status_ok n xs"
  by (auto simp: inv_status_counts_def strict_iff inv_status_ok_def dest: inv_status_codec.each_ok each_length)

lemma inv_identifiers_render [strict_iff]:
  "inv_identifiers name path (JArr (map JStr xs)) = Inr ys \<longleftrightarrow> ys = xs \<and> inv_identifiers_ok xs"
  by (auto simp: inv_identifiers_def strict_iff inv_text_codec.each_exact inv_identifiers_ok_def)

lemma inv_identifiers_sound: "inv_identifiers name path v = Inr xs \<Longrightarrow> inv_identifiers_ok xs"
  by (auto simp: inv_identifiers_def strict_iff inv_identifiers_ok_def dest: each_length inv_text_codec.each_ok)

definition observation_ok :: "library \<Rightarrow> investigation_observation \<Rightarrow> bool" where
  "observation_ok lib b \<longleftrightarrow> inv_text_ok 64 sha256_ok (tio_trace_source_sha256 b) \<and> inv_text_ok 64 sha256_ok (tio_trace_id_sha256 b)
     \<and> tio_cluster_id b = trace_cluster_id (tio_trace_id_sha256 b) \<and> inv_text_ok 70 cluster_id_ok (tio_cluster_id b)
     \<and> tio_observation_id b = observation_id_of lib (tio_trace_source_sha256 b) (tio_cluster_id b)
     \<and> inv_text_ok 76 observation_id_ok (tio_observation_id b)
     \<and> 1 \<le> tio_span_count b \<and> tio_span_count b \<le> 1000000
     \<and> 0 \<le> tio_root_span_count b \<and> tio_root_span_count b \<le> tio_span_count b
     \<and> 0 \<le> tio_error_span_count b \<and> tio_error_span_count b \<le> tio_span_count b
     \<and> inv_named_ok (tio_span_count b) (tio_span_kind_counts b) \<and> inv_status_ok (tio_span_count b) (tio_status_code_counts b)
     \<and> inv_status_errors (tio_status_code_counts b) = tio_error_span_count b
     \<and> window_ok (tio_earliest_start_time_unix_nano b) (tio_latest_end_time_unix_nano b) (tio_observed_duration_nano b)
     \<and> inv_timestamp_ok (tio_attached_at b) \<and> inv_principal_ok (tio_attached_by b) \<and> inv_subject_ok (tio_fixture b)
     \<and> inv_text_ok 128 safe_id_ok (tio_fixture_id b) \<and> inv_text_ok 64 sha256_ok (tio_manifest_sha256 b)
     \<and> inv_identifiers_ok (tio_model_identifiers b) \<and> inv_identifiers_ok (tio_provider_identifiers b)"

lemma observation_dict_get:
  "jget (observation_dict b) ''observation_id'' = JStr (tio_observation_id b)"
  "jget (observation_dict b) ''attached_at'' = JStr (tio_attached_at b)"
  "jget (observation_dict b) ''attached_by'' = principal_to_json (tio_attached_by b)"
  "jget (observation_dict b) ''fixture'' = inv_subject_to_json (tio_fixture b)"
  "jget (observation_dict b) ''fixture_id'' = JStr (tio_fixture_id b)"
  "jget (observation_dict b) ''manifest_sha256'' = JStr (tio_manifest_sha256 b)"
  "jget (observation_dict b) ''trace_source_sha256'' = JStr (tio_trace_source_sha256 b)"
  "jget (observation_dict b) ''cluster_id'' = JStr (tio_cluster_id b)"
  "jget (observation_dict b) ''trace_id_sha256'' = JStr (tio_trace_id_sha256 b)"
  "jget (observation_dict b) ''span_count'' = JInt (tio_span_count b)"
  "jget (observation_dict b) ''root_span_count'' = JInt (tio_root_span_count b)"
  "jget (observation_dict b) ''error_span_count'' = JInt (tio_error_span_count b)"
  "jget (observation_dict b) ''span_kind_counts'' = JArr (map inv_named_count_to_json (tio_span_kind_counts b))"
  "jget (observation_dict b) ''status_code_counts'' = JArr (map inv_status_count_to_json (tio_status_code_counts b))"
  "jget (observation_dict b) ''model_identifiers'' = JArr (map JStr (tio_model_identifiers b))"
  "jget (observation_dict b) ''provider_identifiers'' = JArr (map JStr (tio_provider_identifiers b))"
  by (simp_all add: observation_dict_def)

lemma observation_window_field:
  "optional_field (inv_decimal name path) (observation_dict b) ''earliest_start_time_unix_nano'' = Inr x \<longleftrightarrow>
     x = tio_earliest_start_time_unix_nano b \<and> decimal_option_ok (tio_earliest_start_time_unix_nano b)"
  "optional_field (inv_decimal name path) (observation_dict b) ''latest_end_time_unix_nano'' = Inr x \<longleftrightarrow>
     x = tio_latest_end_time_unix_nano b \<and> decimal_option_ok (tio_latest_end_time_unix_nano b)"
  "optional_field (inv_decimal name path) (observation_dict b) ''observed_duration_nano'' = Inr x \<longleftrightarrow>
     x = tio_observed_duration_nano b \<and> decimal_option_ok (tio_observed_duration_nano b)"
  by (auto simp: observation_dict_def omit_none_def optional_field_def has_key_def
      decimal_option_ok_def attempt_Inr trace_decimal_Inr split: option.split)

lemma inv_decimal_sound: "optional_field (inv_decimal name path) obj k = Inr x \<Longrightarrow> decimal_option_ok x"
  by (auto simp: optional_field_Inr decimal_option_ok_def trace_decimal_Inr split: option.splits)

lemma observation_dict_keys: "keys_between observation_keys window_keys (observation_dict b)"
  by (auto simp: keys_between_def observation_keys_def window_keys_def observation_dict_def omit_none_def split: option.split)

lemma inv_identity_Inr:
  "inv_identity lib name path (observation_dict b) = Inr (s, t, c, i) \<longleftrightarrow>
     s = tio_trace_source_sha256 b \<and> t = tio_trace_id_sha256 b \<and> c = tio_cluster_id b \<and> i = tio_observation_id b
     \<and> inv_text_ok 64 sha256_ok s \<and> inv_text_ok 64 sha256_ok t \<and> c = trace_cluster_id t \<and> inv_text_ok 70 cluster_id_ok c
     \<and> i = observation_id_of lib s c \<and> inv_text_ok 76 observation_id_ok i"
  by (auto simp: inv_identity_def strict_iff observation_dict_get)

lemma inv_identity_sound:
  "inv_identity lib name path obj = Inr (s, t, c, i) \<Longrightarrow> inv_text_ok 64 sha256_ok s \<and> inv_text_ok 64 sha256_ok t
     \<and> c = trace_cluster_id t \<and> inv_text_ok 70 cluster_id_ok c \<and> i = observation_id_of lib s c \<and> inv_text_ok 76 observation_id_ok i"
  by (auto simp: inv_identity_def strict_iff)

lemma inv_counts_Inr:
  "inv_counts name path (observation_dict b) = Inr (n, r, e, ks, ss) \<longleftrightarrow>
     n = tio_span_count b \<and> r = tio_root_span_count b \<and> e = tio_error_span_count b \<and> ks = tio_span_kind_counts b
     \<and> ss = tio_status_code_counts b \<and> 1 \<le> n \<and> n \<le> 1000000 \<and> 0 \<le> r \<and> r \<le> n \<and> 0 \<le> e \<and> e \<le> n
     \<and> inv_named_ok n ks \<and> inv_status_ok n ss \<and> inv_status_errors ss = e"
  by (auto simp: inv_counts_def strict_iff observation_dict_get)

lemma inv_counts_sound:
  "inv_counts name path obj = Inr (n, r, e, ks, ss) \<Longrightarrow> 1 \<le> n \<and> n \<le> 1000000 \<and> 0 \<le> r \<and> r \<le> n \<and> 0 \<le> e \<and> e \<le> n
     \<and> inv_named_ok n ks \<and> inv_status_ok n ss \<and> inv_status_errors ss = e"
  by (auto simp: inv_counts_def strict_iff dest: inv_named_counts_sound inv_status_counts_sound)

lemma inv_window_Inr:
  "inv_window name path (observation_dict b) = Inr (a, c, d) \<longleftrightarrow>
     a = tio_earliest_start_time_unix_nano b \<and> c = tio_latest_end_time_unix_nano b \<and> d = tio_observed_duration_nano b
     \<and> window_ok a c d"
  by (auto simp: inv_window_def strict_iff observation_window_field window_ok_def Let_def)

lemma inv_window_sound: "inv_window name path obj = Inr (a, c, d) \<Longrightarrow> window_ok a c d"
  by (auto simp: inv_window_def strict_iff window_ok_def Let_def dest: inv_decimal_sound)

lemma parse_observation_render:
  "parse_observation lib name path i (JObj (observation_dict b)) = Inr d \<longleftrightarrow> d = b \<and> observation_ok lib b"
  by (cases b) (simp add: parse_observation_def Let_def attempt_Inr inv_object_optional observation_dict_keys
      inv_identity_Inr inv_counts_Inr inv_window_Inr observation_dict_get strict_iff observation_ok_def, blast)

lemma parse_observation_sound: "parse_observation lib name path i v = Inr b \<Longrightarrow> observation_ok lib b"
  by (clarsimp simp only: parse_observation_def Let_def attempt_Inr split_paired_Ex prod.case sum.inject)
    (auto simp: observation_ok_def strict_iff dest: inv_identity_sound inv_counts_sound inv_window_sound inv_principal_sound
      inv_subject_sound inv_identifiers_sound)

interpretation observation_codec:
  exact_codec "parse_observation lib name path" "\<lambda>b. JObj (observation_dict b)" "observation_ok lib" for lib name path
  by unfold_locales (auto simp: parse_observation_render intro: parse_observation_sound)

subsection \<open>When a record is accepted\<close>

definition resolution_ok ::
  "string \<Rightarrow> team_investigation_status \<Rightarrow> team_investigation_resolution option \<Rightarrow> string option \<Rightarrow> string option \<Rightarrow> bool" where
  "resolution_ok investigation_id status resolution linked duplicate \<longleftrightarrow>
     (if status = TeamInvestigationStatus_CLOSED then
        (case resolution of None \<Rightarrow> False
         | Some TeamInvestigationResolution_CHANGE_CASE_OPENED \<Rightarrow> linked \<noteq> None \<and> duplicate = None
         | Some TeamInvestigationResolution_DUPLICATE \<Rightarrow>
             duplicate \<noteq> None \<and> linked = None \<and> duplicate \<noteq> Some investigation_id
         | Some _ \<Rightarrow> linked = None \<and> duplicate = None)
      else resolution = None \<and> linked = None \<and> duplicate = None)"

lemma validate_resolution_Inr:
  "validate_resolution name i status resolution linked duplicate = Inr u \<longleftrightarrow> resolution_ok i status resolution linked duplicate"
  by (cases "(name, i, status, resolution, linked, duplicate)" rule: validate_resolution.cases)
    (auto simp: resolution_ok_def strict_iff attempt_Inr split: option.split team_investigation_resolution.split)

definition optional_ok :: "('a \<Rightarrow> bool) \<Rightarrow> 'a option \<Rightarrow> bool" where
  "optional_ok P x = (case x of None \<Rightarrow> True | Some y \<Rightarrow> P y)"

definition queue_ok ::
  "string \<Rightarrow> team_investigation_status \<Rightarrow> team_principal option \<Rightarrow> team_investigation_resolution option \<Rightarrow> string option
     \<Rightarrow> string option \<Rightarrow> bool" where
  "queue_ok i status assigned resolution linked duplicate \<longleftrightarrow> optional_ok inv_principal_ok assigned
     \<and> optional_ok (inv_text_ok 128 safe_id_ok) linked \<and> optional_ok (inv_text_ok 128 safe_id_ok) duplicate
     \<and> resolution_ok i status resolution linked duplicate"

definition history_ok :: "library \<Rightarrow> string \<Rightarrow> string \<Rightarrow> investigation_observation list \<Rightarrow> bool" where
  "history_ok lib created updated bs \<longleftrightarrow> 1 \<le> length bs \<and> length bs \<le> MAX_TEAM_INVESTIGATION_OBSERVATIONS
     \<and> list_all (observation_ok lib) bs \<and> distinct (map tio_observation_id bs) \<and> unique_sorted (map tio_attached_at bs)
     \<and> tio_attached_at (hd bs) = created \<and> \<not> updated < tio_attached_at (last bs)"

definition labels_ok :: "investigation_record \<Rightarrow> bool" where
  "labels_ok r \<longleftrightarrow> tir_schema_version r = TEAM_INVESTIGATION_RECORD_SCHEMA_VERSION \<and> tir_candidate_only r
     \<and> \<not> tir_gate_eligible r \<and> \<not> tir_causal_claims_inferred r"

definition record_ok :: "library \<Rightarrow> investigation_record \<Rightarrow> bool" where
  "record_ok lib r \<longleftrightarrow> labels_ok r \<and> inv_text_ok 128 safe_id_ok (tir_investigation_id r)
     \<and> inv_timestamp_ok (tir_created_at r) \<and> inv_timestamp_ok (tir_updated_at r)
     \<and> \<not> tir_updated_at r < tir_created_at r
     \<and> history_ok lib (tir_created_at r) (tir_updated_at r) (tir_observations r)
     \<and> 1 \<le> tir_revision r \<and> tir_revision r \<le> MAX_INVESTIGATION_REVISION
     \<and> int (length (tir_observations r)) \<le> tir_revision r \<and> inv_principal_ok (tir_opened_by r)
     \<and> tio_attached_by (hd (tir_observations r)) = tir_opened_by r
     \<and> queue_ok (tir_investigation_id r) (tir_status r) (tir_assigned_to r) (tir_resolution r) (tir_linked_case_id r)
          (tir_duplicate_of r)
     \<and> inv_text_ok 128 team_id_ok (tir_tenant_id r) \<and> inv_text_ok 256 inv_no_control (tir_title r)"

lemma record_dict_get:
  "jget (record_dict r) ''schema_version'' = JStr (tir_schema_version r)"
  "jget (record_dict r) ''tenant_id'' = JStr (tir_tenant_id r)"
  "jget (record_dict r) ''investigation_id'' = JStr (tir_investigation_id r)"
  "jget (record_dict r) ''revision'' = JInt (tir_revision r)"
  "jget (record_dict r) ''created_at'' = JStr (tir_created_at r)"
  "jget (record_dict r) ''updated_at'' = JStr (tir_updated_at r)"
  "jget (record_dict r) ''title'' = JStr (tir_title r)"
  "jget (record_dict r) ''status'' = JStr (team_investigation_status_value (tir_status r))"
  "jget (record_dict r) ''priority'' = JStr (team_investigation_priority_value (tir_priority r))"
  "jget (record_dict r) ''opened_by'' = principal_to_json (tir_opened_by r)"
  "jget (record_dict r) ''candidate_only'' = JBool (tir_candidate_only r)"
  "jget (record_dict r) ''gate_eligible'' = JBool (tir_gate_eligible r)"
  "jget (record_dict r) ''causal_claims_inferred'' = JBool (tir_causal_claims_inferred r)"
  "jget (record_dict r) ''observations'' = JArr (map (\<lambda>b. JObj (observation_dict b)) (tir_observations r))"
  by (simp_all add: record_dict_def)

lemma record_dict_keys: "keys_between investigation_keys queue_keys (record_dict r)"
  by (auto simp: keys_between_def investigation_keys_def queue_keys_def record_dict_def omit_none_def split: option.split)

lemma record_dict_optional:
  "optional_field f (record_dict r) ''assigned_to'' = optional_field f (omit_none ''assigned_to'' (map_option principal_to_json (tir_assigned_to r))) ''assigned_to''"
  "optional_field g (record_dict r) ''resolution'' = optional_field g (omit_none ''resolution''
     (map_option (\<lambda>x. JStr (team_investigation_resolution_value x)) (tir_resolution r))) ''resolution''"
  "optional_field h (record_dict r) ''linked_case_id'' = optional_field h (omit_none ''linked_case_id'' (map_option JStr (tir_linked_case_id r))) ''linked_case_id''"
  "optional_field k (record_dict r) ''duplicate_of'' = optional_field k (omit_none ''duplicate_of'' (map_option JStr (tir_duplicate_of r))) ''duplicate_of''"
  by (auto simp: record_dict_def omit_none_def optional_field_def has_key_def split: option.split)

lemma optional_field_omit_none:
  assumes "\<And>x y. f (g x) = Inr y \<longleftrightarrow> y = x \<and> P x"
  shows "optional_field f (omit_none k (map_option g v)) k = Inr w \<longleftrightarrow> w = v \<and> optional_ok P v"
  using assms by (auto simp: optional_field_def omit_none_def has_key_def optional_ok_def attempt_Inr split: option.split)

lemma inv_text_JStr: "inv_text name path n (Some f) (JStr s) = Inr t \<longleftrightarrow> t = s \<and> inv_text_ok n f s"
  by (auto simp: strict_iff)

lemma record_optional_fields:
  "optional_field (inv_principal name path) (record_dict r) ''assigned_to'' = Inr a \<longleftrightarrow>
     a = tir_assigned_to r \<and> optional_ok inv_principal_ok (tir_assigned_to r)"
  "optional_field (inv_safe_id name path) (record_dict r) ''linked_case_id'' = Inr b \<longleftrightarrow>
     b = tir_linked_case_id r \<and> optional_ok (inv_text_ok 128 safe_id_ok) (tir_linked_case_id r)"
  "optional_field (inv_safe_id name path) (record_dict r) ''duplicate_of'' = Inr b \<longleftrightarrow>
     b = tir_duplicate_of r \<and> optional_ok (inv_text_ok 128 safe_id_ok) (tir_duplicate_of r)"
  by (simp_all only: record_dict_optional optional_field_omit_none [OF inv_principal_render]
      optional_field_omit_none [OF inv_text_JStr])

lemma record_resolution_field:
  "optional_field (inv_enum name path team_investigation_resolution_value team_investigation_resolution_members)
     (record_dict r) ''resolution'' = Inr x \<longleftrightarrow> x = tir_resolution r"
  unfolding record_dict_optional
  by (subst optional_field_omit_none [where P = "\<lambda>_. True"]) (auto simp: strict_iff optional_ok_def split: option.split)

lemma optional_field_sound:
  "optional_field f obj k = Inr x \<Longrightarrow> (\<And>v y. f v = Inr y \<Longrightarrow> P y) \<Longrightarrow> optional_ok P x"
  by (auto simp: optional_field_Inr optional_ok_def split: option.split)

lemma check_labels_Inr: "check_labels (record_dict r) = Inr u \<longleftrightarrow> labels_ok r"
  by (auto simp: check_labels_def Let_def strict_iff attempt_Inr record_dict_get labels_ok_def)

lemma parse_history_render:
  "parse_history lib c u (JArr (map (\<lambda>b. JObj (observation_dict b)) bs)) = Inr cs \<longleftrightarrow> cs = bs \<and> history_ok lib c u bs"
  by (auto simp: parse_history_def Let_def strict_iff attempt_Inr observation_codec.each_exact history_ok_def)

lemma parse_history_sound: "parse_history lib c u v = Inr bs \<Longrightarrow> history_ok lib c u bs"
  by (auto simp: parse_history_def Let_def strict_iff attempt_Inr history_ok_def dest: each_length observation_codec.each_ok)

lemma parse_queue_state_render:
  "parse_queue_state (record_dict r) i = Inr (st, pr, a, x, l, d) \<longleftrightarrow>
     st = tir_status r \<and> pr = tir_priority r \<and> a = tir_assigned_to r \<and> x = tir_resolution r \<and> l = tir_linked_case_id r
     \<and> d = tir_duplicate_of r \<and> queue_ok i st a x l d"
  by (auto simp: parse_queue_state_def Let_def strict_iff attempt_Inr record_dict_get record_optional_fields
      record_resolution_field validate_resolution_Inr queue_ok_def)

lemma inv_safe_id_sound: "inv_safe_id name path v = Inr s \<Longrightarrow> inv_text_ok 128 safe_id_ok s"
  by (simp add: strict_iff)

lemma parse_queue_state_sound: "parse_queue_state obj i = Inr (st, pr, a, x, l, d) \<Longrightarrow> queue_ok i st a x l d"
  by (auto simp: parse_queue_state_def Let_def attempt_Inr validate_resolution_Inr queue_ok_def
      intro: optional_field_sound inv_principal_sound inv_safe_id_sound)

lemma parse_record_render:
  "parse_team_investigation_record lib (JObj (record_dict r)) = Inr q \<longleftrightarrow> q = r \<and> record_ok lib r"
  by (cases r) (simp add: parse_team_investigation_record_def Let_def attempt_Inr inv_object_optional record_dict_keys
      check_labels_Inr parse_history_render parse_queue_state_render record_dict_get strict_iff record_ok_def labels_ok_def, blast)

lemma parse_record_sound: "parse_team_investigation_record lib v = Inr r \<Longrightarrow> record_ok lib r"
  by (clarsimp simp only: parse_team_investigation_record_def Let_def attempt_Inr split_paired_Ex prod.case sum.inject)
    (auto simp: record_ok_def labels_ok_def strict_iff dest: parse_history_sound parse_queue_state_sound inv_principal_sound)

lemma reparse_Inr [strict_iff]: "reparse lib r = Inr q \<longleftrightarrow> q = r \<and> record_ok lib r"
  by (simp add: reparse_def parse_record_render)

end
