(* ===== verification/Investigation_Runs.thy ===== *)
theory Investigation_Runs
  imports Team_Investigations
begin

text \<open>
  The history of an investigation (\<open>team_investigations.py\<close>): what a successor revision may change, runs of
  the operations as a step relation, their invariant, their termination, and that an open investigation can be
  closed. The last section opens and closes an investigation on a generated fixture.
\<close>

subsection \<open>Successors\<close>

definition same_identity :: "investigation_record \<Rightarrow> investigation_record \<Rightarrow> bool" where
  "same_identity p c \<longleftrightarrow> tir_schema_version c = tir_schema_version p \<and> tir_tenant_id c = tir_tenant_id p
     \<and> tir_investigation_id c = tir_investigation_id p \<and> tir_created_at c = tir_created_at p
     \<and> tir_opened_by c = tir_opened_by p \<and> tir_candidate_only c = tir_candidate_only p
     \<and> tir_gate_eligible c = tir_gate_eligible p \<and> tir_causal_claims_inferred c = tir_causal_claims_inferred p"

definition extends_history :: "investigation_record \<Rightarrow> investigation_record \<Rightarrow> bool" where
  \<comment> \<open>one new observation and the same queue state, or the same observations and a changed queue state\<close>
  "extends_history p c \<longleftrightarrow>
     (if tir_observations c = tir_observations p
      then tir_status c \<in> set (allowed_statuses (tir_status p)) \<and> queue_state c \<noteq> queue_state p
      else (\<exists>b. tir_observations c = tir_observations p @ [b] \<and> tio_attached_at b = tir_updated_at c)
        \<and> queue_state c = queue_state p)"

definition succeeds :: "investigation_record \<Rightarrow> investigation_record \<Rightarrow> bool" where
  "succeeds p c \<longleftrightarrow> tir_status p \<noteq> TeamInvestigationStatus_CLOSED \<and> same_identity p c
     \<and> tir_revision c = tir_revision p + 1 \<and> tir_updated_at p < tir_updated_at c \<and> extends_history p c"

definition first_ok :: "investigation_record \<Rightarrow> bool" where
  "first_ok c \<longleftrightarrow> tir_revision c = 1 \<and> tir_status c = TeamInvestigationStatus_QUEUED
     \<and> tir_created_at c = tir_updated_at c \<and> length (tir_observations c) = 1
     \<and> tio_attached_at (hd (tir_observations c)) = tir_created_at c \<and> tir_assigned_to c = None \<and> tir_resolution c = None"

lemma check_first_Inr: "check_first c = Inr d \<longleftrightarrow> d = c \<and> first_ok c"
  by (auto simp: check_first_def attempt_Inr strict_iff first_ok_def)

lemma check_immutable_Inr:
  "check_immutable p c = Inr u \<longleftrightarrow> tir_status p \<noteq> TeamInvestigationStatus_CLOSED \<and> same_identity p c
     \<and> tir_revision c = tir_revision p + 1 \<and> tir_updated_at p < tir_updated_at c"
  by (auto simp: check_immutable_def Let_def attempt_Inr strict_iff same_identity_def)

lemma appended_iff: "(\<exists>b. ys = xs @ [b] \<and> P b) \<longleftrightarrow> length ys = length xs + 1 \<and> butlast ys = xs \<and> P (last ys)"
  by (cases ys rule: rev_cases) auto

lemma check_history_Inr:
  "(if tir_observations c \<noteq> tir_observations p then check_attachment p c else check_transition p c) = Inr d
     \<longleftrightarrow> d = c \<and> extends_history p c"
  by (auto simp: check_attachment_def check_transition_def Let_def attempt_Inr strict_iff extends_history_def appended_iff)

lemma successor_Inr:
  "validate_team_investigation_successor lib given c = Inr d \<longleftrightarrow> d = c \<and> record_ok lib c
     \<and> (case given of None \<Rightarrow> first_ok c | Some p \<Rightarrow> record_ok lib p \<and> succeeds p c)"
  by (auto simp: validate_team_investigation_successor_def attempt_Inr strict_iff check_first_Inr check_immutable_Inr
      check_history_Inr succeeds_def split: option.split)

definition fits :: "(json \<Rightarrow> string) \<Rightarrow> investigation_record \<Rightarrow> bool" where
  \<comment> \<open>the rendered record, with its newline, is within the limit\<close>
  "fits dumps r \<longleftrightarrow> length (utf8_bytes (dumps (JObj (record_dict r)) @ [CHR 0x0A])) \<le> MAX_TEAM_INVESTIGATION_RECORD_BYTES"

lemma bounded_record_Inr: "bounded_record lib dumps r = Inr q \<longleftrightarrow> q = r \<and> record_ok lib r \<and> fits dumps r"
  by (auto simp: bounded_record_def render_team_investigation_record_def attempt_Inr strict_iff fits_def)

lemma accept_successor_Inr:
  "accept_successor lib dumps given c = Inr q \<longleftrightarrow> q = c \<and> record_ok lib c \<and> fits dumps c
     \<and> (case given of None \<Rightarrow> first_ok c | Some p \<Rightarrow> record_ok lib p \<and> succeeds p c)"
  by (auto simp: accept_successor_def attempt_Inr strict_iff successor_Inr bounded_record_Inr)

lemma create_record_Inr:
  "create_team_investigation_record lib dumps fixture_bytes tenant_id investigation_id cluster_id title priority opened_at
     opened_by = Inr r \<Longrightarrow> record_ok lib r \<and> fits dumps r \<and> first_ok r"
  by (auto simp: create_team_investigation_record_def attempt_Inr accept_successor_Inr split: option.splits)

lemma attach_Inr:
  "attach_team_investigation_observation lib dumps p fixture_bytes cluster_id attached_at attached_by = Inr c \<Longrightarrow>
     record_ok lib p \<and> record_ok lib c \<and> fits dumps c \<and> succeeds p c"
  by (auto simp: attach_team_investigation_observation_def Let_def attempt_Inr strict_iff accept_successor_Inr)

lemma transition_Inr:
  "transition_team_investigation_record lib dumps p q = Inr c \<Longrightarrow>
     record_ok lib p \<and> record_ok lib c \<and> fits dumps c \<and> succeeds p c"
  by (auto simp: transition_team_investigation_record_def attempt_Inr strict_iff accept_successor_Inr split: option.splits)

subsection \<open>Runs of an investigation\<close>

inductive investigation_step :: "library \<Rightarrow> (json \<Rightarrow> string) \<Rightarrow> investigation_record \<Rightarrow> investigation_record \<Rightarrow> bool"
  for lib dumps where
  attached: "attach_team_investigation_observation lib dumps p fixture_bytes cluster_id attached_at attached_by = Inr c \<Longrightarrow>
     investigation_step lib dumps p c"
| transitioned: "transition_team_investigation_record lib dumps p q = Inr c \<Longrightarrow> investigation_step lib dumps p c"

inductive investigation_run :: "library \<Rightarrow> (json \<Rightarrow> string) \<Rightarrow> nat \<Rightarrow> investigation_record \<Rightarrow> bool"
  for lib dumps where
  opened: "create_team_investigation_record lib dumps fixture_bytes tenant_id investigation_id cluster_id title priority
     opened_at opened_by = Inr r \<Longrightarrow> investigation_run lib dumps 0 r"
| advanced: "investigation_run lib dumps n p \<Longrightarrow> investigation_step lib dumps p c \<Longrightarrow> investigation_run lib dumps (Suc n) c"

inductive_cases run_zeroE: "investigation_run lib dumps 0 r"

lemma step_succeeds:
  "investigation_step lib dumps p c \<Longrightarrow> record_ok lib p \<and> record_ok lib c \<and> fits dumps c \<and> succeeds p c"
  by (induction rule: investigation_step.induct) (auto dest!: attach_Inr transition_Inr)

lemma allowed_self: "s \<noteq> TeamInvestigationStatus_CLOSED \<Longrightarrow> s \<in> set (allowed_statuses s)"
  by (cases s) simp_all

lemma queue_stateD: "queue_state c = queue_state p \<Longrightarrow> tir_status c = tir_status p"
  by (simp add: queue_state_def)

lemma succeeds_history:
  assumes "succeeds p c"
  shows "take (length (tir_observations p)) (tir_observations c) = tir_observations p"
    and "length (tir_observations c) \<le> length (tir_observations p) + 1"
    and "tir_status c \<in> set (allowed_statuses (tir_status p))"
  using assms by (auto simp: succeeds_def extends_history_def allowed_self dest!: queue_stateD split: if_splits)

text \<open>
  C28. A successor revision never rewrites history: the observations of the predecessor are a prefix of its
  observations and at most one is new, the revision and update time advance, tenant, identifier, opening metadata and
  the labels that keep the record out of the gate stay, and the status moves along an allowed transition from a
  record that was not closed.
\<close>
theorem investigation_history_kept:
  assumes "investigation_step lib dumps p c"
  shows "take (length (tir_observations p)) (tir_observations c) = tir_observations p
    \<and> length (tir_observations c) \<le> length (tir_observations p) + 1
    \<and> tir_revision c = tir_revision p + 1 \<and> tir_updated_at p < tir_updated_at c \<and> same_identity p c
    \<and> tir_status p \<noteq> TeamInvestigationStatus_CLOSED \<and> tir_status c \<in> set (allowed_statuses (tir_status p))"
proof -
  from step_succeeds [OF assms] have s: "succeeds p c" by blast
  then show ?thesis using succeeds_history [OF s] by (simp add: succeeds_def)
qed

lemma run_ok: "investigation_run lib dumps n r \<Longrightarrow> record_ok lib r \<and> fits dumps r \<and> tir_revision r = int (Suc n)"
  by (induction rule: investigation_run.induct)
    (auto dest!: create_record_Inr step_succeeds simp: first_ok_def succeeds_def)

lemma record_labels: "record_ok lib r \<Longrightarrow> labels_ok r" by (simp add: record_ok_def)

lemma record_revision:
  "record_ok lib r \<Longrightarrow> tir_revision r \<le> MAX_INVESTIGATION_REVISION \<and> int (length (tir_observations r)) \<le> tir_revision r"
  by (simp add: record_ok_def)

text \<open>
  C39. Whatever is done to an investigation after it is opened, the record it has reached is one the strict parser reads
  back unchanged and within the size limit; it is still marked candidate-only, ineligible for the gate and
  without causal claims; its revision counts the operations, so there are fewer than ten thousand of them.
\<close>
theorem investigation_run_invariant:
  assumes "investigation_run lib dumps n r"
  shows "parse_team_investigation_record lib (JObj (record_dict r)) = Inr r \<and> fits dumps r
    \<and> tir_candidate_only r \<and> \<not> tir_gate_eligible r \<and> \<not> tir_causal_claims_inferred r
    \<and> tir_revision r = int (Suc n) \<and> n < 10000 \<and> length (tir_observations r) \<le> Suc n"
proof -
  from run_ok [OF assms] have r: "record_ok lib r" "fits dumps r" "tir_revision r = int (Suc n)" by blast+
  with record_labels [OF r(1)] record_revision [OF r(1)] show ?thesis
    by (simp add: parse_record_render labels_ok_def MAX_INVESTIGATION_REVISION_def)
qed

text \<open>
  No sequence of operations on an investigation goes on for ever: the step relation, read backwards, is well
  founded, by the measure ten thousand less the revision.
\<close>
theorem investigation_terminates: "wfP (\<lambda>c p. investigation_step lib dumps p c)"
proof (rule wfp_if_convertible_to_nat [where f = "\<lambda>r. nat (MAX_INVESTIGATION_REVISION - tir_revision r)"])
  fix c p assume "investigation_step lib dumps p c"
  with step_succeeds have "record_ok lib c" "succeeds p c" by blast+
  then show "nat (MAX_INVESTIGATION_REVISION - tir_revision c) < nat (MAX_INVESTIGATION_REVISION - tir_revision p)"
    using record_revision [of lib c] by (simp add: succeeds_def)
qed

subsection \<open>An open investigation can be closed\<close>

definition close_request :: "investigation_record \<Rightarrow> string \<Rightarrow> transition_request" where
  "close_request p closed_at =
     \<lparr>trq_updated_at = closed_at, trq_title = tir_title p, trq_status = ''closed'',
      trq_priority = team_investigation_priority_value (tir_priority p), trq_assigned_to = tir_assigned_to p,
      trq_resolution = Some ''insufficient_evidence'', trq_linked_case_id = None, trq_duplicate_of = None\<rparr>"

definition closed_record :: "investigation_record \<Rightarrow> string \<Rightarrow> investigation_record" where
  "closed_record p closed_at =
     p\<lparr>tir_revision := tir_revision p + 1, tir_updated_at := closed_at, tir_status := TeamInvestigationStatus_CLOSED,
       tir_resolution := Some TeamInvestigationResolution_INSUFFICIENT_EVIDENCE, tir_linked_case_id := None,
       tir_duplicate_of := None\<rparr>"

lemma close_request_fields:
  "trq_updated_at (close_request p t) = t" "trq_title (close_request p t) = tir_title p"
  "trq_assigned_to (close_request p t) = tir_assigned_to p" "trq_linked_case_id (close_request p t) = None"
  "trq_duplicate_of (close_request p t) = None"
  by (simp_all add: close_request_def)

lemma close_enums:
  "transition_enums (close_request p t) =
     Some (TeamInvestigationStatus_CLOSED, tir_priority p, Some TeamInvestigationResolution_INSUFFICIENT_EVIDENCE)"
proof -
  have "enum_lookup team_investigation_status_value team_investigation_status_members ''closed'' = Some TeamInvestigationStatus_CLOSED"
    "enum_lookup team_investigation_resolution_value team_investigation_resolution_members ''insufficient_evidence''
       = Some TeamInvestigationResolution_INSUFFICIENT_EVIDENCE"
    by (simp_all add: team_investigation_status.lookup_Some team_investigation_resolution.lookup_Some)
  then show ?thesis by (simp add: transition_enums_def close_request_def team_investigation_priority.lookup_Some)
qed

lemma closed_record_ok:
  assumes p: "record_ok lib p" and open': "tir_status p \<noteq> TeamInvestigationStatus_CLOSED"
    and room: "tir_revision p < MAX_INVESTIGATION_REVISION" and t: "inv_timestamp_ok t" "tir_updated_at p < t"
  shows "record_ok lib (closed_record p t)" and "succeeds p (closed_record p t)"
proof -
  from p have q: "queue_ok (tir_investigation_id p) (tir_status p) (tir_assigned_to p) (tir_resolution p)
      (tir_linked_case_id p) (tir_duplicate_of p)" by (simp add: record_ok_def)
  have "queue_ok (tir_investigation_id p) TeamInvestigationStatus_CLOSED (tir_assigned_to p)
      (Some TeamInvestigationResolution_INSUFFICIENT_EVIDENCE) None None"
    using q by (simp add: queue_ok_def optional_ok_def resolution_ok_def)
  with p room t show "record_ok lib (closed_record p t)"
    by (auto simp: record_ok_def closed_record_def labels_ok_def history_ok_def)
  show "succeeds p (closed_record p t)"
    using open' t(2) by (cases "tir_status p")
      (simp_all add: succeeds_def closed_record_def same_identity_def extends_history_def queue_state_def)
qed

lemma validated_principal_ok: "inv_principal_ok p \<Longrightarrow> validated_principal path p = Inr p"
  by (simp add: validated_principal_def strict_iff)

lemma close_accepted:
  assumes "record_ok lib p" and "tir_status p \<noteq> TeamInvestigationStatus_CLOSED"
    and "tir_revision p < MAX_INVESTIGATION_REVISION" and "inv_timestamp_ok t" and "tir_updated_at p < t"
    and "fits dumps (closed_record p t)"
  shows "transition_team_investigation_record lib dumps p (close_request p t) = Inr (closed_record p t)"
proof -
  note ok = closed_record_ok [OF assms(1-5)]
  from assms(1) have a: "optional_ok inv_principal_ok (tir_assigned_to p)" by (simp add: record_ok_def queue_ok_def)
  have "(case tir_assigned_to p of None \<Rightarrow> Inr None
      | Some p \<Rightarrow> attempt (validated_principal ''$.assigned_to'' p) (\<lambda>p. Inr (Some p))) = Inr (tir_assigned_to p)"
    using a by (simp add: optional_ok_def validated_principal_ok attempt_def split: option.splits)
  moreover have "reparse lib p = Inr p" using assms(1) by (simp add: strict_iff)
  moreover have "accept_successor lib dumps (Some p) (closed_record p t) = Inr (closed_record p t)"
    using ok assms(1, 6) by (simp add: accept_successor_Inr)
  ultimately show ?thesis
    by (simp add: transition_team_investigation_record_def close_enums close_request_fields closed_record_def)
qed

text \<open>
  An investigation never gets stuck open: below the last revision, and while the rendered record fits, a request
  with a later timestamp closes it, keeping its title, priority, assignee and observations.
\<close>
theorem open_investigation_closes:
  assumes "record_ok lib p" and "tir_status p \<noteq> TeamInvestigationStatus_CLOSED"
    and "tir_revision p < MAX_INVESTIGATION_REVISION" and "inv_timestamp_ok t" and "tir_updated_at p < t"
    and "fits dumps (closed_record p t)"
  shows "transition_team_investigation_record lib dumps p (close_request p t) = Inr (closed_record p t)"
  using assms by (rule close_accepted)

subsection \<open>A sample investigation\<close>

definition sample_cluster :: candidate_trace_cluster where
  "sample_cluster = hd (grouped_clusters sample_manifest)"

definition sample_fx :: investigation_fixture where
  "sample_fx = \<lparr>if_schema_version = INVESTIGATION_FIXTURE_SCHEMA_VERSION, if_generator_version = PACKAGE_VERSION,
     if_fixture_id = ''src'', if_draft_only = True, if_gate_eligible = False, if_causal_claims_inferred = False,
     if_clustering_basis = ''trace_identity'',
     if_source = \<lparr>fs_manifest_sha256 = hex_pad ''{}'', fs_trace_artifact_id = ''src'',
       fs_trace_source_sha256 = replicate 64 (CHR ''a''), fs_trace_count = 1, fs_span_count = 1\<rparr>,
     if_missing_evidence = MISSING_EVIDENCE, if_candidate_clusters = [sample_cluster]\<rparr>"

abbreviation sample_inv_lib :: library where "sample_inv_lib \<equiv> sample_trace_library (fixture_to_json sample_fx)"
abbreviation sample_dumps :: "json \<Rightarrow> string" where "sample_dumps \<equiv> (\<lambda>_. ''{}'')"

definition sample_opener :: team_principal where
  "sample_opener = \<lparr>tp_identity_provider = ''idp'', tp_subject_id = ''ann''\<rparr>"

lemma sample_grouped: "grouped_clusters sample_manifest = [sample_cluster]"
  by (simp add: sample_cluster_def grouped_clusters_def sample_manifest_def)

lemma sample_cluster_value:
  "cc_cluster_id sample_cluster = trace_cluster_id (replicate 64 (CHR ''c''))"
  "cc_trace_id_sha256 sample_cluster = replicate 64 (CHR ''c'')"
  "cc_span_count sample_cluster = 1" "cc_root_span_count sample_cluster = 1" "cc_error_span_count sample_cluster = 1"
  "cc_span_kind_counts sample_cluster = []" "cc_status_code_counts sample_cluster = [\<lparr>sc_code = 2, sc_count = 1\<rparr>]"
  "cc_model_identifiers sample_cluster = []" "cc_provider_identifiers sample_cluster = []"
  "cc_earliest_start_time_unix_nano sample_cluster = None" "cc_latest_end_time_unix_nano sample_cluster = None"
  "cc_observed_duration_nano sample_cluster = None"
  by (simp_all add: sample_cluster_def grouped_clusters_def sample_manifest_def sample_manifest_span_def cluster_spans_def
      attribute_values_def present_def least_def greatest_def counter_items_def Let_def)


lemma sample_fx_generated:
  "generate_investigation_fixture (sample_trace_library (trace_manifest_to_json sample_manifest))
     (trace_manifest_to_json sample_manifest) ''{}'' (JStr ''src'') 10 = Inr sample_fx"
proof -
  let ?d = "trace_manifest_to_json sample_manifest"
  have p: "parse_json_text (sample_trace_library ?d) ''{}'' s MAX_MANIFEST_DOCUMENT_BYTES = Inr ?d" for s
    by (simp add: parse_json_text_def sample_library_simps utf8_bytes_def MAX_MANIFEST_DOCUMENT_BYTES_def)
  have d: "manifest_document (sample_trace_library ?d) ?d ''{}'' = Inr ?d"
    by (simp add: manifest_document_def sample_library_simps p sample_manifest_equal)
  have m: "parse_trace_manifest ?d = Inr sample_manifest"
    using sample_manifest_ok by (simp add: parse_trace_manifest_render)
  show ?thesis
    by (simp add: generate_investigation_fixture_def d sample_id_ok m sample_grouped Let_def MAX_CONFIGURABLE_CLUSTERS_def)
      (simp add: sample_fx_def sample_manifest_def sample_trace_library_def)
qed

lemma sample_fx_ok: "fixture_ok sample_fx"
proof -
  have "few_identifiers sample_cluster" by (simp add: few_identifiers_def sample_cluster_value)
  then have "list_all few_identifiers (if_candidate_clusters sample_fx)" by (simp add: sample_fx_def)
  with generated_fixture_ok [OF sample_fx_generated] show ?thesis by (simp add: sample_trace_library_def hex_pad_ok)
qed

lemma sample_fx_parsed: "parse_investigation_fixture_bytes sample_inv_lib ''{}'' = Inr sample_fx"
proof -
  have "parse_json_text sample_inv_lib ''{}'' s MAX_INVESTIGATION_FIXTURE_BYTES = Inr (fixture_to_json sample_fx)" for s
    by (simp add: parse_json_text_def sample_library_simps utf8_bytes_def MAX_INVESTIGATION_FIXTURE_BYTES_def)
  with sample_fx_ok show ?thesis
    by (simp add: parse_investigation_fixture_bytes_def Let_def sample_library_simps MAX_INVESTIGATION_FIXTURE_BYTES_def
        parse_investigation_fixture_render)
qed

definition sample_observation :: investigation_observation where
  "sample_observation = \<lparr>tio_observation_id = observation_id_of sample_inv_lib (replicate 64 (CHR ''a'')) (cc_cluster_id sample_cluster),
     tio_attached_at = ''2026-01-01T00:00:00Z'', tio_attached_by = sample_opener,
     tio_fixture = \<lparr>ia_media_type = INVESTIGATION_FIXTURE_MEDIA_TYPE, ia_sha256 = hex_pad ''{}'', ia_byte_count = 2\<rparr>,
     tio_fixture_id = ''src'', tio_manifest_sha256 = hex_pad ''{}'', tio_trace_source_sha256 = replicate 64 (CHR ''a''),
     tio_cluster_id = cc_cluster_id sample_cluster, tio_trace_id_sha256 = replicate 64 (CHR ''c''), tio_span_count = 1,
     tio_root_span_count = 1, tio_error_span_count = 1, tio_span_kind_counts = [],
     tio_status_code_counts = [\<lparr>isc_code = 2, isc_count = 1\<rparr>], tio_model_identifiers = [], tio_provider_identifiers = [],
     tio_earliest_start_time_unix_nano = None, tio_latest_end_time_unix_nano = None, tio_observed_duration_nano = None\<rparr>"

lemma sample_hashes_ok: "sha256_ok (replicate 64 (CHR ''a''))" "sha256_ok (replicate 64 (CHR ''c''))"
  by (simp_all add: sha256_ok_def list_all_iff)

lemma inv_sha256_text: "sha256_ok s \<Longrightarrow> inv_text_ok 64 sha256_ok s"
  by (auto simp: inv_text_ok_def sha256_ok_def)

lemma sample_cluster_id_ok: "inv_text_ok 70 cluster_id_ok (cc_cluster_id sample_cluster)"
  using sample_hashes_ok(2) by (simp add: inv_text_ok_def sample_cluster_value trace_cluster_id_def cluster_id_ok_def)

lemma observation_id_of_ok:
  assumes "sha256_ok (lib_sha256 lib (utf8_bytes (s @ '':'' @ c)))"
  shows "inv_text_ok 76 observation_id_ok (observation_id_of lib s c)"
  using assms by (auto simp: inv_text_ok_def observation_id_ok_def observation_id_of_def sha256_ok_def)

lemma sample_opener_ok: "inv_principal_ok sample_opener"
  by (simp add: inv_principal_ok_def sample_opener_def inv_text_ok_def team_id_ok_def head_tail_match_def is_alnum_def
      is_lower_def is_upper_def is_digit_def)

lemma sample_inv_times: "inv_timestamp_ok ''2026-01-01T00:00:00Z''" "inv_timestamp_ok ''2026-01-02T00:00:00Z''"
  by code_simp+

lemma sample_observation_ok: "observation_ok sample_inv_lib sample_observation"
proof -
  have sha: "lib_sha256 sample_inv_lib x = hex_pad x" for x by (simp add: sample_trace_library_def)
  have id: "inv_text_ok 76 observation_id_ok (observation_id_of sample_inv_lib s c)" for s c
    by (rule observation_id_of_ok) (simp add: sha hex_pad_ok)
  have "inv_text_ok 128 safe_id_ok ''src''" using sample_id_ok by (simp add: inv_text_ok_def)
  then show ?thesis
    using sample_hashes_ok sample_cluster_id_ok id sample_inv_times sample_opener_ok
    by (simp add: observation_ok_def sample_observation_def inv_sha256_text hex_pad_ok sample_cluster_value inv_subject_ok_def
        inv_named_ok_def inv_status_ok_def inv_status_errors_def window_ok_def decimal_option_ok_def observed_window_def
        inv_identifiers_ok_def unique_sorted_def MAX_TEAM_INVESTIGATION_SOURCE_BYTES_def)
qed

lemma sample_made:
  "make_observation sample_inv_lib ''{}'' (cc_cluster_id sample_cluster) ''2026-01-01T00:00:00Z'' sample_opener
     = Inr sample_observation"
proof -
  have sha: "lib_sha256 sample_inv_lib x = hex_pad x" for x by (simp add: sample_trace_library_def)
  have "fixture_cluster sample_inv_lib ''{}'' (cc_cluster_id sample_cluster) = Inr (sample_fx, sample_cluster)"
    using sample_cluster_id_ok
    by (simp add: fixture_cluster_def Let_def MAX_TEAM_INVESTIGATION_SOURCE_BYTES_def inv_text_JStr [THEN iffD2] sample_fx_parsed)
      (simp add: sample_fx_def)
  moreover have "inv_timestamp record_name path (JStr ''2026-01-01T00:00:00Z'') = Inr ''2026-01-01T00:00:00Z''" for path
    using sample_inv_times by (simp add: strict_iff)
  ultimately show ?thesis
    using sample_opener_ok
    by (simp add: make_observation_def validated_principal_ok sample_observation_def sha sample_cluster_value) (simp add: sample_fx_def)
qed

definition sample_investigation :: investigation_record where
  "sample_investigation = \<lparr>tir_schema_version = TEAM_INVESTIGATION_RECORD_SCHEMA_VERSION, tir_tenant_id = ''acme'',
     tir_investigation_id = ''inv-1'', tir_revision = 1, tir_created_at = ''2026-01-01T00:00:00Z'',
     tir_updated_at = ''2026-01-01T00:00:00Z'', tir_title = ''Title'', tir_status = TeamInvestigationStatus_QUEUED,
     tir_priority = TeamInvestigationPriority_HIGH, tir_opened_by = sample_opener, tir_candidate_only = True,
     tir_gate_eligible = False, tir_causal_claims_inferred = False, tir_observations = [sample_observation],
     tir_assigned_to = None, tir_resolution = None, tir_linked_case_id = None, tir_duplicate_of = None\<rparr>"

lemma sample_investigation_ok: "record_ok sample_inv_lib sample_investigation"
proof -
  have "inv_text_ok 128 safe_id_ok ''inv-1''" "inv_text_ok 128 team_id_ok ''acme''" "inv_text_ok 256 inv_no_control ''Title''"
    by (simp_all add: inv_text_ok_def safe_id_ok_def team_id_ok_def head_tail_match_def is_alnum_def is_lower_def is_upper_def
        is_digit_def inv_no_control_def)
  moreover have "tio_attached_at sample_observation = ''2026-01-01T00:00:00Z''" "tio_attached_by sample_observation = sample_opener"
    by (simp_all add: sample_observation_def)
  ultimately show ?thesis
    using sample_observation_ok sample_opener_ok sample_inv_times
    by (simp add: record_ok_def sample_investigation_def labels_ok_def history_ok_def queue_ok_def optional_ok_def
        resolution_ok_def unique_sorted_def MAX_INVESTIGATION_REVISION_def MAX_TEAM_INVESTIGATION_OBSERVATIONS_def)
qed

lemma sample_fits: "fits sample_dumps r"
  by (simp add: fits_def utf8_bytes_def MAX_TEAM_INVESTIGATION_RECORD_BYTES_def)

lemma sample_opened:
  "create_team_investigation_record sample_inv_lib sample_dumps ''{}'' ''acme'' ''inv-1'' (cc_cluster_id sample_cluster) ''Title''
     ''high'' ''2026-01-01T00:00:00Z'' sample_opener = Inr sample_investigation"
proof -
  have "enum_lookup team_investigation_priority_value team_investigation_priority_members ''high''
      = Some TeamInvestigationPriority_HIGH"
    by (simp add: team_investigation_priority.lookup_Some)
  moreover have "accept_successor sample_inv_lib sample_dumps None sample_investigation = Inr sample_investigation"
    using sample_investigation_ok sample_fits
    by (simp add: accept_successor_Inr) (simp add: first_ok_def sample_investigation_def sample_observation_def)
  ultimately show ?thesis
    by (simp add: create_team_investigation_record_def sample_made) (simp add: sample_investigation_def)
qed

lemma sample_closed:
  "transition_team_investigation_record sample_inv_lib sample_dumps sample_investigation
     (close_request sample_investigation ''2026-01-02T00:00:00Z'') = Inr (closed_record sample_investigation ''2026-01-02T00:00:00Z'')"
proof (rule close_accepted [OF sample_investigation_ok _ _ sample_inv_times(2) _ sample_fits])
  show "tir_updated_at sample_investigation < ''2026-01-02T00:00:00Z''" by (simp add: sample_investigation_def)
qed (simp_all add: sample_investigation_def MAX_INVESTIGATION_REVISION_def)

lemma sample_step:
  "investigation_step sample_inv_lib sample_dumps sample_investigation (closed_record sample_investigation ''2026-01-02T00:00:00Z'')"
  using sample_closed by (rule investigation_step.transitioned)

lemma investigation_history_kept_witness:
  "tir_observations (closed_record sample_investigation ''2026-01-02T00:00:00Z'') = [sample_observation]
   \<and> tir_revision (closed_record sample_investigation ''2026-01-02T00:00:00Z'') = 2"
  using investigation_history_kept [OF sample_step] by (simp add: closed_record_def sample_investigation_def)

lemma investigation_run_invariant_witness:
  "parse_team_investigation_record sample_inv_lib (JObj (record_dict (closed_record sample_investigation ''2026-01-02T00:00:00Z'')))
     = Inr (closed_record sample_investigation ''2026-01-02T00:00:00Z'')"
  using investigation_run_invariant [OF investigation_run.advanced [OF investigation_run.opened [OF sample_opened] sample_step]]
  by blast

lemma open_investigation_closes_witness:
  "transition_team_investigation_record sample_inv_lib sample_dumps sample_investigation
     (close_request sample_investigation ''2026-01-02T00:00:00Z'') = Inr (closed_record sample_investigation ''2026-01-02T00:00:00Z'')"
proof (rule open_investigation_closes [OF sample_investigation_ok _ _ sample_inv_times(2) _ sample_fits])
  show "tir_updated_at sample_investigation < ''2026-01-02T00:00:00Z''" by (simp add: sample_investigation_def)
qed (simp_all add: sample_investigation_def MAX_INVESTIGATION_REVISION_def)

end
