(* ===== verification/Spec2Isabelle.thy ===== *)
theory Spec2Isabelle
  imports Prelude Py_Float Constants Py_Datetime Json Models Case_Parser Policy Engine
    Team_Admission Sql_Table Quota_Pricing Quota_Store Quota_Proxy
    Fail_Fast Review_Binding Canary_Documents Canary
    Py_Text Azure_Publication Azure_Verification Azure_Rendering Base64url Canonical_Json Wire_Values Attestations
    Approval_Documents Approvals Trace_Values Trace_Manifest Collector Fixtures
    Utc_Text Team_Policy Team_Audit Team_Investigations Investigation_Runs
begin

text \<open>
  Causure: a deterministic gate for changes to AI harnesses. A change case (\<open>models.py\<close>) carries
  the evidence for one change; the evidence gate (\<open>engine.py\<close>) reviews it under a policy
  (\<open>policy.py\<close>); the reviewed result is compared in a canary (\<open>canary.py\<close>), published to Azure
  DevOps (\<open>azure_devops.py\<close>), attested and approved (\<open>attestations.py\<close>, \<open>approvals.py\<close>); redacted
  traces are collected (\<open>collector.py\<close>, \<open>trace_manifest.py\<close>) and clustered into investigation fixtures
  (\<open>fixtures.py\<close>); the team service admits HTTP requests through \<open>team_admission.py\<close>, decides and audits
  access (\<open>team_service.py\<close>) and keeps a queue of investigations (\<open>team_investigations.py\<close>); and sandboxed
  workers spend model tokens under the transactional ledger of \<open>openai_quota.py\<close>. All paths below are under \<open>src/src/causure/\<close>.

  How the model reads. Python strings are \<open>string\<close>: code points below 256, so the documents of the model
  are the Latin-1 ones; \<open>str.strip\<close>, \<open>repr\<close>, \<open>lower\<close>, \<open>casefold\<close> and UTF-8 encoding are
  written out for them. Unbounded integers are \<open>int\<close>, a float is the rational it denotes with
  every operation rounded to binary64 (Py_Float), a decoded JSON document is the datatype \<open>json\<close> (Json), a
  raised exception is the left of a sum, and \<open>None\<close> is \<open>None\<close> or \<open>JNull\<close>. Parsers that collect issues
  return them with the value (Models, Case_Parser, Policy); parsers that stop at the first error are
  sequenced by \<open>attempt\<close> (Fail_Fast), in the order in which the source evaluates them, so the error
  value of a refused document is the one the source raises.

  Theories and sources.
  \<^item> Prelude, Py_Float, Py_Datetime, Py_Text: the parts of Python the sources use: text, binary64 and
    \<open>round\<close>, \<open>datetime.fromisoformat\<close>, \<open>int(text, base)\<close>, \<open>uuid.UUID\<close>, \<open>urlsplit\<close>.
  \<^item> Constants (\<open>constants.py\<close>): every \<open>StrEnum\<close>, each an interpretation of the locale \<open>str_enum\<close>.
  \<^item> Json (\<open>io.py\<close>): the decoding hooks. Models, Case_Parser (\<open>models.py\<close>): change cases, their
    parser and rendering. Policy (\<open>policy.py\<close>). Engine (\<open>engine.py\<close>): every check, the metrics,
    the decision, \<open>review_case\<close>. Their lemmas show round trips, soundness of accepted documents,
    and that approval is equivalent to the conjunction of the gate's conditions.
  \<^item> Team_Admission (\<open>team_admission.py\<close>): buckets, slots and readiness under one lock, requests as an
    \<open>inductive\<close> step relation over any interleaving; slots are conserved and buckets bounded.
  \<^item> Sql_Table, Quota_Pricing, Quota_Store, Quota_Proxy (\<open>openai_quota.py\<close>, the reservation of
    \<open>sandbox_protocol.py\<close>): prices and costs in nano-USD, the ledger tables with their CHECK
    constraints and rollback, the forwarding handler; the cost of a lease stays in its budget. How the
    database answers each transaction (it works, refuses the schema, SQLite fails or fails the commit) is an
    argument \<open>database\<close> of every operation, as the clock is; the store invariants hold for all answers.
  \<^item> Fail_Fast: sequencing, loops, formats, the locales \<open>codec\<close>, \<open>exact_codec\<close> and \<open>keyed_codec\<close>
    that state what a parser and a renderer owe each other; interpreted on every document below.
  \<^item> Canary_Documents, Canary (\<open>canary.py\<close>): policies, observations, results, the Wilson interval in
    binary64, bindings and decision.
  \<^item> Review_Binding, Azure_Publication, Azure_Verification (\<open>azure_devops.py\<close>): the review-result boundary,
    publication documents, the agent's environment, creating and verifying a publication.
    Azure_Rendering: the parsers do not depend on the order of keys, so what the renderer writes verifies.
  \<^item> Base64url, Canonical_Json, Wire_Values: unpadded base64url, the canonical JSON bytes that are signed
    (and why equal bytes mean equal documents), the field checks the signing modules share.
  \<^item> Attestations (\<open>attestations.py\<close>): attestations over exact bytes, trust stores, revocations, signing and
    verification, as an equivalence with the conditions under which an attestation verifies.
  \<^item> Approval_Documents, Approvals (\<open>approvals.py\<close>): approval assertions by authenticated people, their
    trust store and scopes, revocation, signing and verification; every field is under the signature.
  \<^item> Trace_Values, Trace_Manifest (\<open>trace_manifest.py\<close>), Collector (\<open>collector.py\<close>): redacted trace
    manifests, their strict parser and the collection of an OTLP export; what is collected is allowlisted and parses.
  \<^item> Fixtures (\<open>fixtures.py\<close>): investigation fixtures generated from a manifest, and their strict parser.
  \<^item> Utc_Text: \<open>utc_timestamp\<close> of \<open>attestations.py\<close>, the calendar from day numbers to text and back.
  \<^item> Team_Policy, Team_Audit (\<open>team_service.py\<close>): access policies and reproducible authorization decisions;
    self-hashed audit events, chains, exports and their verification; the head digest fixes the history.
  \<^item> Team_Investigations, Investigation_Runs (\<open>team_investigations.py\<close>): investigation records and their strict
    parser, the three operations that open, extend and move a record, and the successor check; then the steps as an
    \<open>inductive\<close> relation: every reachable record parses back, history is only extended, every run ends.
  Parameters. What is not under \<open>src/\<close>, or is a library taken as a whole, is an argument: the record
  \<open>library\<close> (UTF-8 decoding, \<open>json.loads\<close> with the hooks, \<open>json.dumps\<close>, SHA-256, the normal quantile),
  \<open>ipaddress\<close> parsing, the digest of a case, the check of a bracketed host in \<open>urlsplit\<close>, Ed25519 signatures, the indented JSON text, the codec's error text.
  Where a property needs a law of one of them (a digest is 64 hexadecimal digits, a quantile is at most a
  bound) it is a hypothesis of that property, and its witness instantiates it.

  Bounds. One definition has fuel: \<open>shortest_decimal\<close> (Quota_Pricing) tries 1 to 17 significant digits,
  which always suffice for a binary64 number. The other loops are recursions that end by their structure or a
  measure (\<open>py_replace\<close>, \<open>isqrt\<close>, \<open>py_equal\<close>); the steps of an investigation are well founded,
  because every one uses up a revision. Limits of the sources (document sizes, list lengths, ages) are
  definitions with the source's names.

  Not modelled. Reading and writing files, argument parsing and printing (\<open>cli.py\<close>, the runners of the
  GitHub actions), HTTP framing and sockets (\<open>team_http.py\<close>, \<open>team_host.py\<close>, \<open>openai_quota_host.py\<close>),
  operating-system services, subprocesses and containers (\<open>runner.py\<close>, \<open>sandbox.py\<close>), HTML and Markdown
  text (\<open>report.py\<close>, \<open>team_dashboard.py\<close>, the body of \<open>render_azure_build_summary\<close>), and the JSON
  schema documents of \<open>schema.py\<close>, which are data. Text outside Latin-1 is outside the model.

  Plan. Next: the team store's compare-and-swap updates, team change cases.
\<close>

end
